(* ===== verification/Prelude.thy ===== *)
theory Prelude
  imports Main "HOL-Library.Char_ord" "HOL-Library.List_Lexorder" "HOL-Library.Multiset"
begin

text \<open>
  What every component shares: the result type of code that may throw, the string and list
  operations of the JavaScript standard library that the sources call, and the generic facts
  about them.

  A JavaScript string is a sequence of code units; it is modelled by \<^typ>\<open>string\<close>, a list
  of 8-bit characters, whose order (\<open>Char_ord\<close>, \<open>List_Lexorder\<close>) is the code-unit order of
  \<^verbatim>\<open>Array.prototype.sort\<close> without a comparator. Code that throws returns a sum, \<open>Inl\<close> the
  error. \<^verbatim>\<open>undefined\<close> in an optional field is \<open>None\<close>.
\<close>

section \<open>Collections of facts\<close>

named_theorems js_list \<open>the list operations of the JavaScript standard library\<close>
named_theorems js_string \<open>the string operations of the JavaScript standard library\<close>

section \<open>Results of code that may throw\<close>

type_synonym ('e, 'a) result = "'e + 'a"

definition bindE :: "'e + 'a \<Rightarrow> ('a \<Rightarrow> 'e + 'b) \<Rightarrow> 'e + 'b" where
  "bindE m f = (case m of Inl e \<Rightarrow> Inl e | Inr a \<Rightarrow> f a)"

text \<open>\<^verbatim>\<open>xs.map(f)\<close> where \<^verbatim>\<open>f\<close> may throw: the first error ends the traversal.\<close>

fun mapE :: "('a \<Rightarrow> 'e + 'b) \<Rightarrow> 'a list \<Rightarrow> 'e + 'b list" where
  "mapE f [] = Inr []"
| "mapE f (x # xs) =
     (case f x of Inl e \<Rightarrow> Inl e
      | Inr y \<Rightarrow> (case mapE f xs of Inl e \<Rightarrow> Inl e | Inr ys \<Rightarrow> Inr (y # ys)))"

definition is_ok :: "'e + 'a \<Rightarrow> bool" where
  "is_ok r = (case r of Inl e \<Rightarrow> False | Inr a \<Rightarrow> True)"

lemma bindE_simps [simp]: "bindE (Inl e) f = Inl e" "bindE (Inr a) f = f a"
  by (simp_all add: bindE_def)

lemma bindE_Inr_iff: "bindE m f = Inr b \<longleftrightarrow> (\<exists>a. m = Inr a \<and> f a = Inr b)"
  by (cases m) simp_all

lemma bindE_Inl_iff: "bindE m f = Inl e \<longleftrightarrow> m = Inl e \<or> (\<exists>a. m = Inr a \<and> f a = Inl e)"
  by (cases m) auto

lemma is_ok_simps [simp]: "is_ok (Inr a)" "\<not> is_ok (Inl e)"
  by (simp_all add: is_ok_def)

lemma is_ok_iff: "is_ok r \<longleftrightarrow> (\<exists>a. r = Inr a)"
  by (cases r) simp_all

lemma mapE_Inr_length: "mapE f xs = Inr ys \<Longrightarrow> length ys = length xs"
  by (induction xs arbitrary: ys) (auto split: sum.splits)

lemma mapE_Inr_iff: "mapE f xs = Inr ys \<longleftrightarrow> list_all2 (\<lambda>x y. f x = Inr y) xs ys"
proof (induction xs arbitrary: ys)
  case Nil
  then show ?case by auto
next
  case (Cons x xs)
  show ?case
    by (cases "f x"; cases "mapE f xs"; cases ys) (auto simp flip: Cons.IH)
qed

lemma mapE_Cons_Inr_iff: "mapE f (x # xs) = Inr zs \<longleftrightarrow> (\<exists>y ys. f x = Inr y \<and> mapE f xs = Inr ys \<and> zs = y # ys)"
  by (auto split: sum.splits)

lemma mapE_cong [fundef_cong]:
  "xs = ys \<Longrightarrow> (\<And>x. x \<in> set ys \<Longrightarrow> f x = g x) \<Longrightarrow> mapE f xs = mapE g ys"
  by (induction ys arbitrary: xs) (auto split: sum.split)

lemma mapE_ok_iff: "is_ok (mapE f xs) \<longleftrightarrow> (\<forall>x \<in> set xs. is_ok (f x))"
  by (induction xs) (auto simp: is_ok_def split: sum.splits)

lemma mapE_Inl_source: "mapE f xs = Inl e \<Longrightarrow> \<exists>x \<in> set xs. f x = Inl e"
  by (induction xs) (auto split: sum.splits)

text \<open>A loop whose body may throw and has no result.\<close>

definition forE :: "('a \<Rightarrow> 'e + unit) \<Rightarrow> 'a list \<Rightarrow> 'e + unit" where
  "forE f xs = bindE (mapE f xs) (\<lambda>_. Inr ())"

lemma forE_Inr_iff [simp]: "forE f xs = Inr u \<longleftrightarrow> (\<forall>x \<in> set xs. f x = Inr ())"
proof -
  have "forE f xs = Inr u \<longleftrightarrow> is_ok (mapE f xs)" by (simp add: forE_def bindE_Inr_iff is_ok_iff)
  then show ?thesis unfolding mapE_ok_iff by (simp add: is_ok_iff)
qed

section \<open>List operations\<close>

text \<open>
  \<^verbatim>\<open>xs.find(p)\<close> is \<^const>\<open>find\<close>; \<^verbatim>\<open>[...new Set(xs)]\<close> keeps first occurrences.
\<close>

fun unique_from :: "'a set \<Rightarrow> 'a list \<Rightarrow> 'a list" where
  "unique_from seen [] = []"
| "unique_from seen (x # xs) =
     (if x \<in> seen then unique_from seen xs else x # unique_from (insert x seen) xs)"

definition unique :: "'a list \<Rightarrow> 'a list" where
  "unique xs = unique_from {} xs"

lemma set_unique_from: "set (unique_from S xs) = set xs - S"
  by (induction S xs rule: unique_from.induct) auto

lemma distinct_unique_from: "distinct (unique_from S xs)"
  by (induction S xs rule: unique_from.induct) (auto simp: set_unique_from)

lemma set_unique [simp, js_list]: "set (unique xs) = set xs"
  by (simp add: unique_def set_unique_from)

lemma distinct_unique [simp, js_list]: "distinct (unique xs)"
  by (simp add: unique_def distinct_unique_from)

text \<open>\<^verbatim>\<open>[...new Map(xs.map(x => [key(x), x])).values()]\<close> style de-duplication by a key, first wins.\<close>

fun unique_by_from :: "('a \<Rightarrow> 'k) \<Rightarrow> 'k set \<Rightarrow> 'a list \<Rightarrow> 'a list" where
  "unique_by_from f seen [] = []"
| "unique_by_from f seen (x # xs) =
     (if f x \<in> seen then unique_by_from f seen xs
      else x # unique_by_from f (insert (f x) seen) xs)"

lemma set_unique_by_from: "set (unique_by_from f S xs) \<subseteq> set xs"
  by (induction f S xs rule: unique_by_from.induct) auto

lemma keys_unique_by_from: "f ` set (unique_by_from f S xs) = f ` set xs - S"
  by (induction f S xs rule: unique_by_from.induct) auto

lemma distinct_unique_by_from: "distinct (map f (unique_by_from f S xs))"
proof (induction f S xs rule: unique_by_from.induct)
  case (2 f seen x xs)
  then show ?case
    by (auto simp: keys_unique_by_from [unfolded image_def] simp flip: image_def)
       (use keys_unique_by_from [of f "insert (f x) seen" xs] in auto)
qed simp

lemma sorted_sort_key_snoc_stable:
  "filter (\<lambda>x. f x = k) (sort_key f xs) = filter (\<lambda>x. f x = k) xs"
  by (rule sort_key_stable)

lemma set_map_filter: "set (List.map_filter f xs) = {y. \<exists>x \<in> set xs. f x = Some y}"
  by (induction xs) (auto simp: List.map_filter_simps split: option.splits)

lemma find_Some_iff_in: "find P xs = Some x \<Longrightarrow> x \<in> set xs \<and> P x"
  by (auto simp: find_Some_iff)

lemma find_eq_None [js_list]: "find P xs = None \<longleftrightarrow> (\<forall>x \<in> set xs. \<not> P x)"
  by (auto simp: find_None_iff)

text \<open>\<^verbatim>\<open>xs.reduce(best, undefined)\<close> that keeps a strictly better candidate: the first optimum.\<close>

fun best_by :: "('a \<Rightarrow> 'a \<Rightarrow> bool) \<Rightarrow> 'a option \<Rightarrow> 'a list \<Rightarrow> 'a option" where
  "best_by better b [] = b"
| "best_by better None (x # xs) = best_by better (Some x) xs"
| "best_by better (Some b) (x # xs) =
     best_by better (Some (if better x b then x else b)) xs"

lemma best_by_None_iff: "best_by better b xs = None \<longleftrightarrow> b = None \<and> xs = []"
  by (induction better b xs rule: best_by.induct) auto

lemma best_by_in: "best_by better b xs = Some r \<Longrightarrow> r \<in> set xs \<or> b = Some r"
  by (induction better b xs rule: best_by.induct) (auto split: if_splits)

lemma best_by_min:
  fixes f :: "'a \<Rightarrow> 'k::linorder"
  assumes "best_by (\<lambda>x b. f x < f b) b xs = Some r"
  shows "(\<forall>x \<in> set xs. f r \<le> f x) \<and> (\<forall>y. b = Some y \<longrightarrow> f r \<le> f y)"
  using assms
proof (induction "\<lambda>x b. f x < f b" b xs rule: best_by.induct)
  case (3 b x xs)
  then show ?case by (fastforce split: if_splits)
qed auto

lemma best_by_max:
  fixes f :: "'a \<Rightarrow> 'k::linorder"
  assumes "best_by (\<lambda>x b. f x > f b) b xs = Some r"
  shows "(\<forall>x \<in> set xs. f x \<le> f r) \<and> (\<forall>y. b = Some y \<longrightarrow> f y \<le> f r)"
  using assms
proof (induction "\<lambda>x b. f x > f b" b xs rule: best_by.induct)
  case (3 b x xs)
  then show ?case by (fastforce split: if_splits)
qed auto

section \<open>Insertion by key\<close>

text \<open>
  \<^verbatim>\<open>upsertByKey\<close> of the run store: drop what has the same key, append the new item.
\<close>

definition upsert_by :: "('a \<Rightarrow> 'k) \<Rightarrow> 'a \<Rightarrow> 'a list \<Rightarrow> 'a list" where
  "upsert_by f x xs = filter (\<lambda>y. f y \<noteq> f x) xs @ [x]"

lemma set_upsert_by: "set (upsert_by f x xs) = insert x {y \<in> set xs. f y \<noteq> f x}"
  by (auto simp: upsert_by_def)

lemma distinct_upsert_by: "distinct (map f xs) \<Longrightarrow> distinct (map f (upsert_by f x xs))"
  by (auto simp: upsert_by_def distinct_map inj_on_def)

lemma upsert_by_idem: "upsert_by f x (upsert_by f x xs) = upsert_by f x xs"
  by (simp add: upsert_by_def)

section \<open>String operations\<close>

definition starts_with :: "string \<Rightarrow> string \<Rightarrow> bool" where
  "starts_with pre s \<longleftrightarrow> take (length pre) s = pre"

text \<open>\<^verbatim>\<open>s.includes(t)\<close>: some suffix of \<open>s\<close> starts with \<open>t\<close>.\<close>

fun str_includes :: "string \<Rightarrow> string \<Rightarrow> bool" where
  "str_includes t [] \<longleftrightarrow> t = []"
| "str_includes t (c # cs) \<longleftrightarrow> starts_with t (c # cs) \<or> str_includes t cs"

fun join :: "string \<Rightarrow> string list \<Rightarrow> string" where
  "join sep [] = []"
| "join sep [x] = x"
| "join sep (x # y # zs) = x @ sep @ join sep (y # zs)"

text \<open>\<^verbatim>\<open>s.split(".")\<close>: the pieces between separators; the empty string has one empty piece.\<close>

fun split_on :: "char \<Rightarrow> string \<Rightarrow> string list" where
  "split_on d [] = [[]]"
| "split_on d (c # cs) =
     (if c = d then [] # split_on d cs
      else (case split_on d cs of [] \<Rightarrow> [[c]] | p # ps \<Rightarrow> (c # p) # ps))"

lemma starts_with_append [js_string]: "starts_with p (p @ s)"
  by (simp add: starts_with_def)

lemma starts_with_iff: "starts_with p s \<longleftrightarrow> (\<exists>r. s = p @ r)"
  by (metis append_eq_conv_conj append_take_drop_id starts_with_def)

lemma str_includes_iff: "str_includes t s \<longleftrightarrow> (\<exists>a b. s = a @ t @ b)"
proof (induction s)
  case Nil
  then show ?case by simp
next
  case (Cons c cs)
  have "(\<exists>a b. c # cs = a @ t @ b) \<longleftrightarrow>
        (\<exists>b. c # cs = t @ b) \<or> (\<exists>a b. cs = a @ t @ b)" (is "?L \<longleftrightarrow> ?R")
  proof
    assume ?L
    then obtain a b where ab: "c # cs = a @ t @ b" by blast
    then show ?R by (cases a) auto
  next
    assume ?R
    then show ?L by (metis append_Cons append_Nil)
  qed
  with Cons show ?case by (simp add: starts_with_iff)
qed

lemma set_join: "set (join sep xs) \<subseteq> set sep \<union> (\<Union> (set ` set xs))"
  by (induction sep xs rule: join.induct) auto

lemma split_on_nonempty [simp]: "split_on d s \<noteq> []"
  by (induction s) (auto split: list.splits)

lemma split_on_no_sep: "d \<notin> set s \<Longrightarrow> split_on d s = [s]"
  by (induction s) auto

lemma split_on_append: "d \<notin> set x \<Longrightarrow> split_on d (x @ d # y) = x # split_on d y"
  by (induction x) auto

lemma join_split_on [js_string]: "join [d] (split_on d s) = s"
proof (induction s)
  case Nil
  then show ?case by simp
next
  case (Cons c cs)
  obtain p ps where p: "split_on d cs = p # ps"
    by (cases "split_on d cs") auto
  with Cons.IH show ?case by (cases ps) auto
qed

section \<open>Maps\<close>

text \<open>A \<^verbatim>\<open>Map\<close> that holds every value under its own key.\<close>

definition keyed_by :: "('a \<Rightarrow> 'k) \<Rightarrow> ('k \<rightharpoonup> 'a) \<Rightarrow> bool" where
  "keyed_by f m \<longleftrightarrow> (\<forall>k x. m k = Some x \<longrightarrow> f x = k)"

lemma keyed_byD: "keyed_by f m \<Longrightarrow> m k = Some x \<Longrightarrow> f x = k"
  by (simp add: keyed_by_def)

lemma keyed_by_empty [simp]: "keyed_by f Map.empty"
  by (simp add: keyed_by_def)

lemma keyed_by_upd [simp]: "keyed_by f m \<Longrightarrow> keyed_by f (m(f x \<mapsto> x))"
  by (simp add: keyed_by_def)

lemma list_all2_partner:
  assumes "list_all2 P xs ys"
  shows "\<forall>x \<in> set xs. \<exists>y \<in> set ys. P x y" "\<forall>y \<in> set ys. \<exists>x \<in> set xs. P x y"
  using assms by (induction rule: list_all2_induct) auto

text \<open>\<^verbatim>\<open>Map.prototype.set\<close>: an existing key keeps its place, a new one goes to the end.\<close>

fun map_set :: "string \<Rightarrow> 'v \<Rightarrow> (string \<times> 'v) list \<Rightarrow> (string \<times> 'v) list" where
  "map_set k v [] = [(k, v)]"
| "map_set k v (p # ps) = (if fst p = k then (k, v) # ps else p # map_set k v ps)"

definition map_delete :: "string \<Rightarrow> (string \<times> 'v) list \<Rightarrow> (string \<times> 'v) list" where
  "map_delete k ps = filter (\<lambda>p. fst p \<noteq> k) ps"

lemma map_set_new: "map_of ps k = None \<Longrightarrow> map_set k v ps = ps @ [(k, v)]"
  by (induction ps) (auto split: if_splits)

lemma map_of_map_set: "map_of (map_set k v ps) j = (if j = k then Some v else map_of ps j)"
  by (induction ps) auto

lemma map_of_None_fst: "map_of ps k = None \<longleftrightarrow> k \<notin> fst ` set ps"
  by (simp add: map_of_eq_None_iff)

lemma distinct_map_delete: "distinct (map fst ps) \<Longrightarrow> distinct (map fst (map_delete k ps))"
  by (simp add: map_delete_def distinct_map_filter)

lemma set_map_set: "set (map_set k v ps) \<subseteq> insert (k, v) (set ps)"
  by (induction ps) auto

lemma keys_map_set: "map fst (map_set k v ps) = (if k \<in> fst ` set ps then map fst ps else map fst ps @ [k])"
  by (induction ps) auto

lemma distinct_map_set: "distinct (map fst ps) \<Longrightarrow> distinct (map fst (map_set k v ps))"
  by (auto simp: keys_map_set)

end
