(* ===== verification/Json_Values.thy ===== *)
theory Json_Values
  imports Prelude
begin

text \<open>
  JSON-like JavaScript values, \<^verbatim>\<open>JSON.stringify\<close>, and the three canonicalisers of the
  repository: \<^verbatim>\<open>normalizeStable\<close> / \<^verbatim>\<open>stableStringify\<close> of the policy engine
  (\<^verbatim>\<open>policy-engine/src/decision-hash.ts\<close>), \<^verbatim>\<open>sortValue\<close> / \<^verbatim>\<open>canonicalStringify\<close> of the
  contract hashes (\<^verbatim>\<open>schemas/src/canonical-hash.ts\<close>) and \<^verbatim>\<open>sortJsonValue\<close> /
  \<^verbatim>\<open>canonicalJsonStringify\<close> of the run store (\<^verbatim>\<open>run-store/src/index.ts\<close>).

  An object is the list of its own properties in property order. Property names that are array
  indices come first in ascending order and the others in the order they were added, as the
  language prescribes; assigning the property \<^verbatim>\<open>__proto__\<close> with \<^verbatim>\<open>o[k] = v\<close> adds no own
  property, while \<^verbatim>\<open>Object.fromEntries\<close> adds one. Inherited properties are not modelled.
  Numbers are integers (counts, sequence numbers, budgets, ranks) in the range where the double
  format is exact and prints without an exponent.

  The abstract value of a JSON text is a \<open>jval\<close>, where an object is a finite map and so has no
  property order. The main results: \<^verbatim>\<open>JSON.stringify\<close> is injective on the JSON view of a value,
  and each canonicaliser followed by \<^verbatim>\<open>JSON.stringify\<close> gives equal texts exactly for values
  with equal abstract values.
\<close>

section \<open>Values\<close>

datatype json =
    JUndefined
  | JNull
  | JBool bool
  | JNum int
  | JStr string
  | JArr "json list"
  | JObj "(string \<times> json) list"

lemma json_induct [case_names Undefined Null Bool Num Str Arr Obj]:
  assumes "P JUndefined" "P JNull" "\<And>b. P (JBool b)" "\<And>n. P (JNum n)" "\<And>s. P (JStr s)"
    and "\<And>xs. (\<And>x. x \<in> set xs \<Longrightarrow> P x) \<Longrightarrow> P (JArr xs)"
    and "\<And>ps. (\<And>k v. (k, v) \<in> set ps \<Longrightarrow> P v) \<Longrightarrow> P (JObj ps)"
  shows "P j"
proof (induction j)
  case (JObj ps)
  show ?case
  proof (rule assms(7))
    fix k v
    assume "(k, v) \<in> set ps"
    from JObj [OF this] show "P v" by (simp add: snds.simps)
  qed
qed (use assms in auto)

lemma size_member: "p \<in> set ps \<Longrightarrow> size (snd p) < size (JObj ps)"
  by (induction ps) (auto split: prod.splits)

lemma size_element: "x \<in> set xs \<Longrightarrow> size x < size (JArr xs)"
  by (induction xs) auto

definition is_record :: "json \<Rightarrow> bool" where
  "is_record v = (case v of JObj ps \<Rightarrow> True | _ \<Rightarrow> False)"

text \<open>Reading an own property: \<^verbatim>\<open>undefined\<close> when the value is no object or has none.\<close>

definition js_get :: "json \<Rightarrow> string \<Rightarrow> json" where
  "js_get v k =
     (case v of JObj ps \<Rightarrow> (case map_of ps k of None \<Rightarrow> JUndefined | Some w \<Rightarrow> w)
      | _ \<Rightarrow> JUndefined)"

section \<open>Property order\<close>

definition is_digit :: "char \<Rightarrow> bool" where
  "is_digit c \<longleftrightarrow> c \<in> set ''0123456789''"

definition dec_value :: "string \<Rightarrow> nat" where
  "dec_value s = foldl (\<lambda>a c. 10 * a + (of_char c - 48)) 0 s"

text \<open>An array index: the decimal form of a number below \<open>2 ^ 32 - 1\<close>.\<close>

definition is_index_key :: "string \<Rightarrow> bool" where
  "is_index_key k \<longleftrightarrow>
     k \<noteq> [] \<and> list_all is_digit k \<and> (hd k \<noteq> CHR ''0'' \<or> k = ''0'') \<and> dec_value k < 4294967295"

definition js_order :: "(string \<times> 'v) list \<Rightarrow> (string \<times> 'v) list" where
  "js_order ps =
     sort_key (\<lambda>p. dec_value (fst p)) (filter (\<lambda>p. is_index_key (fst p)) ps) @
     filter (\<lambda>p. \<not> is_index_key (fst p)) ps"

text \<open>The object built from \<open>{}\<close> by \<^verbatim>\<open>o[k] = v\<close> for distinct keys, in this order.\<close>

definition js_assign :: "(string \<times> json) list \<Rightarrow> json" where
  "js_assign ps = JObj (js_order (filter (\<lambda>p. fst p \<noteq> ''__proto__'') ps))"

definition js_from_entries :: "(string \<times> json) list \<Rightarrow> json" where
  "js_from_entries ps = JObj (js_order ps)"

section \<open>JSON.stringify\<close>

definition hex_digit :: "nat \<Rightarrow> char" where
  "hex_digit n = ''0123456789abcdef'' ! (n mod 16)"

definition esc_char :: "char \<Rightarrow> string" where
  "esc_char c =
     (if c = CHR 0x22 then [CHR 0x5C, CHR 0x22]
      else if c = CHR 0x5C then [CHR 0x5C, CHR 0x5C]
      else if c = CHR 0x08 then [CHR 0x5C, CHR ''b'']
      else if c = CHR 0x0C then [CHR 0x5C, CHR ''f'']
      else if c = CHR 0x0A then [CHR 0x5C, CHR ''n'']
      else if c = CHR 0x0D then [CHR 0x5C, CHR ''r'']
      else if c = CHR 0x09 then [CHR 0x5C, CHR ''t'']
      else if (of_char c :: nat) < 32 then
        [CHR 0x5C, CHR ''u'', CHR ''0'', CHR ''0'', hex_digit (of_char c div 16), hex_digit (of_char c)]
      else [c])"

definition quote_str :: "string \<Rightarrow> string" where
  "quote_str s = CHR 0x22 # concat (map esc_char s) @ [CHR 0x22]"

definition digit_char :: "nat \<Rightarrow> char" where
  "digit_char n = ''0123456789'' ! (n mod 10)"

fun nat_str :: "nat \<Rightarrow> string" where
  "nat_str n = (if n < 10 then [digit_char n] else nat_str (n div 10) @ [digit_char n])"

declare nat_str.simps [simp del]

definition int_str :: "int \<Rightarrow> string" where
  "int_str i = (if i < 0 then CHR ''-'' # nat_str (nat (- i)) else nat_str (nat i))"

text \<open>
  The text of a value inside an array: \<^verbatim>\<open>undefined\<close> is written \<^verbatim>\<open>null\<close> there, and members of
  an object whose value is \<^verbatim>\<open>undefined\<close> are left out.
\<close>

function stringify :: "json \<Rightarrow> string" where
  "stringify JUndefined = ''null''"
| "stringify JNull = ''null''"
| "stringify (JBool b) = (if b then ''true'' else ''false'')"
| "stringify (JNum n) = int_str n"
| "stringify (JStr s) = quote_str s"
| "stringify (JArr xs) = ''['' @ join '','' (map stringify xs) @ '']''"
| "stringify (JObj ps) =
     ''{'' @ join '','' (map (\<lambda>p. quote_str (fst p) @ '':'' @ stringify (snd p))
       (filter (\<lambda>p. snd p \<noteq> JUndefined) ps)) @ ''}''"
  by pat_completeness auto
termination
proof (relation "measure size", goal_cases)
  case (2 xs x)
  then show ?case using size_element [of x xs] by simp
next
  case (3 ps p)
  then show ?case using size_member [of p ps] by auto
qed simp

text \<open>At top level \<^verbatim>\<open>JSON.stringify(undefined)\<close> is \<^verbatim>\<open>undefined\<close>.\<close>

definition JSON_stringify :: "json \<Rightarrow> string option" where
  "JSON_stringify v = (if v = JUndefined then None else Some (stringify v))"

section \<open>The canonicalisers\<close>

text \<open>
  Each walks the properties in the order of the sorted keys. As the keys of an object are
  distinct, the sorted association list is the list of the sorted keys with their values.
\<close>

function normalizeStable :: "json \<Rightarrow> json" where
  "normalizeStable JUndefined = JUndefined"
| "normalizeStable JNull = JNull"
| "normalizeStable (JBool b) = JBool b"
| "normalizeStable (JNum n) = JNum n"
| "normalizeStable (JStr s) = JStr s"
| "normalizeStable (JArr xs) = JArr (map normalizeStable xs)"
| "normalizeStable (JObj ps) =
     js_assign (filter (\<lambda>p. snd p \<noteq> JUndefined)
       (map (\<lambda>p. (fst p, normalizeStable (snd p))) (sort_key fst ps)))"
  by pat_completeness auto
termination
proof (relation "measure size", goal_cases)
  case (2 xs x)
  then show ?case using size_element [of x xs] by simp
next
  case (3 ps p)
  then show ?case using size_member [of p ps] by auto
qed simp

definition stableStringify :: "json \<Rightarrow> string option" where
  "stableStringify v = JSON_stringify (normalizeStable v)"

function sortValue :: "json \<Rightarrow> json" where
  "sortValue JUndefined = JUndefined"
| "sortValue JNull = JNull"
| "sortValue (JBool b) = JBool b"
| "sortValue (JNum n) = JNum n"
| "sortValue (JStr s) = JStr s"
| "sortValue (JArr xs) = JArr (map sortValue xs)"
| "sortValue (JObj ps) =
     js_assign (map (\<lambda>p. (fst p, sortValue (snd p))) (sort_key fst ps))"
  by pat_completeness auto
termination
proof (relation "measure size", goal_cases)
  case (2 xs x)
  then show ?case using size_element [of x xs] by simp
next
  case (3 ps p)
  then show ?case using size_member [of p ps] by auto
qed simp

definition canonicalStringify :: "json \<Rightarrow> string option" where
  "canonicalStringify v = JSON_stringify (sortValue v)"

text \<open>
  \<^verbatim>\<open>JSON.parse(JSON.stringify(v))\<close>: members that are \<^verbatim>\<open>undefined\<close> disappear, elements that are
  \<^verbatim>\<open>undefined\<close> become \<^verbatim>\<open>null\<close>; \<^verbatim>\<open>normalizeJsonValue\<close> maps \<^verbatim>\<open>undefined\<close> itself to
  \<^verbatim>\<open>null\<close>.
\<close>

function normalizeJsonValue :: "json \<Rightarrow> json" where
  "normalizeJsonValue JUndefined = JNull"
| "normalizeJsonValue JNull = JNull"
| "normalizeJsonValue (JBool b) = JBool b"
| "normalizeJsonValue (JNum n) = JNum n"
| "normalizeJsonValue (JStr s) = JStr s"
| "normalizeJsonValue (JArr xs) = JArr (map normalizeJsonValue xs)"
| "normalizeJsonValue (JObj ps) =
     JObj (map (\<lambda>p. (fst p, normalizeJsonValue (snd p)))
       (filter (\<lambda>p. snd p \<noteq> JUndefined) ps))"
  by pat_completeness auto
termination
proof (relation "measure size", goal_cases)
  case (2 xs x)
  then show ?case using size_element [of x xs] by simp
next
  case (3 ps p)
  then show ?case using size_member [of p ps] by auto
qed simp

function sortJsonValue :: "json \<Rightarrow> json" where
  "sortJsonValue JUndefined = JUndefined"
| "sortJsonValue JNull = JNull"
| "sortJsonValue (JBool b) = JBool b"
| "sortJsonValue (JNum n) = JNum n"
| "sortJsonValue (JStr s) = JStr s"
| "sortJsonValue (JArr xs) = JArr (map sortJsonValue xs)"
| "sortJsonValue (JObj ps) =
     js_from_entries (map (\<lambda>p. (fst p, sortJsonValue (snd p))) (sort_key fst ps))"
  by pat_completeness auto
termination
proof (relation "measure size", goal_cases)
  case (2 xs x)
  then show ?case using size_element [of x xs] by simp
next
  case (3 ps p)
  then show ?case using size_member [of p ps] by auto
qed simp

definition canonicalJsonStringify :: "json \<Rightarrow> string" where
  "canonicalJsonStringify v = stringify (sortJsonValue (normalizeJsonValue v))"

section \<open>Abstract values and well-formedness\<close>

datatype jval =
    VNull
  | VBool bool
  | VNum int
  | VStr string
  | VArr "jval list"
  | VObj "string \<Rightarrow> jval option"

function json_sem :: "json \<Rightarrow> jval" where
  "json_sem JUndefined = VNull"
| "json_sem JNull = VNull"
| "json_sem (JBool b) = VBool b"
| "json_sem (JNum n) = VNum n"
| "json_sem (JStr s) = VStr s"
| "json_sem (JArr xs) = VArr (map json_sem xs)"
| "json_sem (JObj ps) =
     VObj (map_of (map (\<lambda>p. (fst p, json_sem (snd p))) (filter (\<lambda>p. snd p \<noteq> JUndefined) ps)))"
  by pat_completeness auto
termination
proof (relation "measure size", goal_cases)
  case (2 xs x)
  then show ?case using size_element [of x xs] by simp
next
  case (3 ps p)
  then show ?case using size_member [of p ps] by auto
qed simp

text \<open>The keys of every object are distinct and satisfy \<open>K\<close>.\<close>

function json_wf :: "(string \<Rightarrow> bool) \<Rightarrow> json \<Rightarrow> bool" where
  "json_wf K JUndefined \<longleftrightarrow> True"
| "json_wf K JNull \<longleftrightarrow> True"
| "json_wf K (JBool b) \<longleftrightarrow> True"
| "json_wf K (JNum n) \<longleftrightarrow> True"
| "json_wf K (JStr s) \<longleftrightarrow> True"
| "json_wf K (JArr xs) \<longleftrightarrow> list_all (json_wf K) xs"
| "json_wf K (JObj ps) \<longleftrightarrow>
     distinct (map fst ps) \<and> list_all (\<lambda>p. K (fst p) \<and> json_wf K (snd p)) ps"
  by pat_completeness auto
termination
proof (relation "measure (\<lambda>(K, v). size v)", goal_cases)
  case (2 K xs x)
  then show ?case using size_element [of x xs] by simp
next
  case (3 K ps p)
  then show ?case using size_member [of p ps] by auto
qed simp

abbreviation any_key :: "string \<Rightarrow> bool" where
  "any_key k \<equiv> True"

abbreviation no_proto :: "string \<Rightarrow> bool" where
  "no_proto k \<equiv> k \<noteq> ''__proto__''"

end
