(* ===== verification/Canonical_Json.thy ===== *)
theory Canonical_Json
  imports Json_Values
begin

text \<open>
  \<^verbatim>\<open>JSON.stringify\<close> can be read back: equal texts come from values with the same JSON view.
  On top of it, the canonicalisers of \<open>Json_Values\<close> identify exactly the values that differ
  in property order only. The interface between the two halves is the locale \<open>canonicaliser\<close>,
  interpreted for the three canonicalisers of the sources.
\<close>

section \<open>Numbers and strings read back\<close>

lemma is_digit_digit_char [simp]: "is_digit (digit_char n)"
proof -
  have "n mod 10 < length ''0123456789''" by simp
  then show ?thesis unfolding is_digit_def digit_char_def by (rule nth_mem)
qed

lemma of_char_digit_char: "of_char (digit_char n) = 48 + n mod 10"
proof -
  have "n mod 10 = 0 \<or> n mod 10 = 1 \<or> n mod 10 = 2 \<or> n mod 10 = 3 \<or> n mod 10 = 4 \<or>
        n mod 10 = 5 \<or> n mod 10 = 6 \<or> n mod 10 = 7 \<or> n mod 10 = 8 \<or> n mod 10 = 9"
    by presburger
  then show ?thesis unfolding digit_char_def by (elim disjE) simp_all
qed

lemma dec_value_snoc: "dec_value (s @ [c]) = 10 * dec_value s + (of_char c - 48)"
  by (simp add: dec_value_def)

lemma nat_str_digits: "list_all is_digit (nat_str n) \<and> nat_str n \<noteq> []"
  by (induction n rule: nat_str.induct)
     (subst (1 2) nat_str.simps, auto)

lemma dec_value_nat_str: "dec_value (nat_str n) = n"
proof (induction n rule: nat_str.induct)
  case (1 n)
  show ?case
  proof (cases "n < 10")
    case True
    then show ?thesis
      by (simp add: nat_str.simps [of n] dec_value_def of_char_digit_char)
  next
    case False
    with 1 show ?thesis
      by (simp add: nat_str.simps [of n] dec_value_snoc of_char_digit_char)
  qed
qed

definition non_digit_start :: "string \<Rightarrow> bool" where
  "non_digit_start r \<longleftrightarrow> r = [] \<or> \<not> is_digit (hd r)"

lemma non_digit_start_simps [simp]:
  "non_digit_start []" "non_digit_start (c # r) \<longleftrightarrow> \<not> is_digit c"
  by (simp_all add: non_digit_start_def)

lemma digits_unambiguous:
  assumes "a @ r = b @ s" "list_all is_digit a" "list_all is_digit b"
    and "non_digit_start r" "non_digit_start s"
  shows "a = b \<and> r = s"
proof -
  have tw: "takeWhile is_digit (x @ t) = x"
    if "list_all is_digit x" "non_digit_start t" for x t
    using that by (induction x) (auto simp: non_digit_start_def takeWhile_eq_Nil_iff)
  have "a = b" using tw [of a r] tw [of b s] assms by simp
  with assms(1) show ?thesis by simp
qed

lemma int_str_unambiguous:
  assumes "int_str i @ r = int_str j @ s" "non_digit_start r" "non_digit_start s"
  shows "i = j \<and> r = s"
proof -
  have hd: "hd (nat_str n @ t) \<noteq> CHR ''-''" for n t
    using nat_str_digits [of n] by (cases "nat_str n") (auto simp: is_digit_def)
  have sgn: "i < 0 \<longleftrightarrow> j < 0"
    using arg_cong [OF assms(1), of hd] hd [of "nat i" r] hd [of "nat j" s]
    by (auto simp: int_str_def split: if_splits)
  have "nat_str (nat \<bar>i\<bar>) @ r = nat_str (nat \<bar>j\<bar>) @ s"
    using assms(1) sgn by (auto simp: int_str_def split: if_splits)
  then have *: "nat_str (nat \<bar>i\<bar>) = nat_str (nat \<bar>j\<bar>) \<and> r = s"
    using digits_unambiguous assms(2,3) nat_str_digits by blast
  then have "nat \<bar>i\<bar> = nat \<bar>j\<bar>" using dec_value_nat_str by metis
  then show ?thesis using sgn * by linarith
qed

text \<open>A reader of one escaped character, the inverse of \<^const>\<open>esc_char\<close>.\<close>

definition hex_value :: "char \<Rightarrow> nat" where
  "hex_value c = (let n = of_char c in if n < 58 then n - 48 else n - 87)"

fun unesc :: "string \<Rightarrow> (char \<times> string) option" where
  "unesc [] = None"
| "unesc (c # r) =
     (if c \<noteq> CHR 0x5C then Some (c, r)
      else (case r of
          [] \<Rightarrow> None
        | x # t \<Rightarrow>
            if x = CHR ''b'' then Some (CHR 0x08, t)
            else if x = CHR ''f'' then Some (CHR 0x0C, t)
            else if x = CHR ''n'' then Some (CHR 0x0A, t)
            else if x = CHR ''r'' then Some (CHR 0x0D, t)
            else if x = CHR ''t'' then Some (CHR 0x09, t)
            else if x = CHR ''u'' then
              Some (char_of (16 * hex_value (t ! 2) + hex_value (t ! 3)), drop 4 t)
            else Some (x, t)))"

lemma hex_value_hex_digit: "hex_value (hex_digit n) = n mod 16"
proof -
  have "n mod 16 = 0 \<or> n mod 16 = 1 \<or> n mod 16 = 2 \<or> n mod 16 = 3 \<or> n mod 16 = 4 \<or>
        n mod 16 = 5 \<or> n mod 16 = 6 \<or> n mod 16 = 7 \<or> n mod 16 = 8 \<or> n mod 16 = 9 \<or>
        n mod 16 = 10 \<or> n mod 16 = 11 \<or> n mod 16 = 12 \<or> n mod 16 = 13 \<or>
        n mod 16 = 14 \<or> n mod 16 = 15"
    by presburger
  then show ?thesis
    unfolding hex_digit_def hex_value_def by (elim disjE) simp_all
qed

lemma char_of_hex_digits:
  "(of_char c :: nat) < 32 \<Longrightarrow>
   char_of (16 * hex_value (hex_digit (of_char c div 16)) + hex_value (hex_digit (of_char c))) = c"
  by (simp add: hex_value_hex_digit)

lemma unesc_hex:
  "unesc ([CHR 0x5C, CHR ''u'', CHR ''0'', CHR ''0'', a, b] @ r) =
     Some (char_of (16 * hex_value a + hex_value b), r)"
  by (simp add: numeral_2_eq_2 numeral_3_eq_3 del: char_of_def)

lemma unesc_esc_char: "unesc (esc_char c @ r) = Some (c, r)"
proof (cases "c \<in> {CHR 0x22, CHR 0x5C, CHR 0x08, CHR 0x0C, CHR 0x0A, CHR 0x0D, CHR 0x09}")
  case True
  then show ?thesis by (auto simp: esc_char_def)
next
  case False
  show ?thesis
  proof (cases "(of_char c :: nat) < 32")
    case True
    have "esc_char c = [CHR 0x5C, CHR ''u'', CHR ''0'', CHR ''0'',
        hex_digit (of_char c div 16), hex_digit (of_char c)]"
      unfolding esc_char_def using False True by simp
    then show ?thesis
      by (simp only: unesc_hex char_of_hex_digits [OF True])
  next
    case plain: False
    have "esc_char c = [c]"
      unfolding esc_char_def using False plain by simp
    with False show ?thesis by simp
  qed
qed

lemma esc_char_unambiguous:
  assumes "esc_char c @ r = esc_char d @ s"
  shows "c = d \<and> r = s"
proof -
  have "Some (c, r) = Some (d, s)"
    unfolding unesc_esc_char [symmetric] assms ..
  then show ?thesis by simp
qed

lemma esc_char_head: "\<exists>x xs. esc_char c = x # xs \<and> x \<noteq> CHR 0x22"
  unfolding esc_char_def by (simp split: if_splits)

lemma esc_body_unambiguous:
  assumes "concat (map esc_char cs) @ CHR 0x22 # r =
           concat (map esc_char ds) @ CHR 0x22 # s"
  shows "cs = ds \<and> r = s"
  using assms
proof (induction cs arbitrary: ds)
  case Nil
  then show ?case
  proof (cases ds)
    case (Cons d ds')
    with Nil esc_char_head [of d] show ?thesis by auto
  qed simp
next
  case (Cons c cs)
  show ?case
  proof (cases ds)
    case Nil
    with Cons.prems esc_char_head [of c] show ?thesis by auto
  next
    case (Cons d ds')
    with Cons.prems Cons.IH [of ds'] show ?thesis
      using esc_char_unambiguous [of c _ d] by auto
  qed
qed

lemma quote_str_unambiguous: "quote_str a @ r = quote_str b @ s \<Longrightarrow> a = b \<and> r = s"
  unfolding quote_str_def using esc_body_unambiguous [of a r b s] by simp

section \<open>Values read back\<close>

text \<open>The kind of a value, and the first characters its text may have.\<close>

fun json_kind :: "json \<Rightarrow> nat" where
  "json_kind JUndefined = 0"
| "json_kind JNull = 0"
| "json_kind (JBool b) = 1"
| "json_kind (JNum n) = 2"
| "json_kind (JStr s) = 3"
| "json_kind (JArr xs) = 4"
| "json_kind (JObj ps) = 5"

definition head_kind :: "char \<Rightarrow> nat" where
  "head_kind c =
     (if c = CHR ''n'' then 0 else if c = CHR ''t'' \<or> c = CHR ''f'' then 1
      else if c = CHR 0x22 then 3 else if c = CHR ''['' then 4
      else if c = CHR ''{'' then 5 else if is_digit c \<or> c = CHR ''-'' then 2 else 6)"

lemma head_kind_digit: "is_digit c \<Longrightarrow> head_kind c = 2"
  by (auto simp: is_digit_def head_kind_def)

lemma stringify_head: "\<exists>c r. stringify v = c # r \<and> head_kind c = json_kind v"
proof (cases v)
  case (JNum n)
  have "\<exists>c r. nat_str m = c # r \<and> head_kind c = 2" for m
    using nat_str_digits [of m] by (cases "nat_str m") (auto simp: head_kind_digit)
  then show ?thesis using JNum by (auto simp: int_str_def head_kind_def)
qed (auto simp: head_kind_def quote_str_def)

lemma stringify_same_kind:
  assumes "stringify v @ r = stringify w @ s"
  shows "json_kind v = json_kind w"
proof -
  obtain c t where v: "stringify v = c # t" "head_kind c = json_kind v"
    using stringify_head by blast
  obtain d u where w: "stringify w = d # u" "head_kind d = json_kind w"
    using stringify_head by blast
  from assms v w show ?thesis by simp
qed

text \<open>
  A printer \<open>f\<close> is unambiguous up to \<open>g\<close> on \<open>x\<close> when its text, followed by anything that does
  not continue a number, determines \<open>g x\<close> and the rest.
\<close>

definition unambiguous :: "('a \<Rightarrow> string) \<Rightarrow> ('a \<Rightarrow> 'b) \<Rightarrow> 'a \<Rightarrow> bool" where
  "unambiguous f g x \<longleftrightarrow>
     (\<forall>y r s. f x @ r = f y @ s \<longrightarrow> non_digit_start r \<longrightarrow> non_digit_start s \<longrightarrow> g x = g y \<and> r = s)"

lemma unambiguousD:
  "unambiguous f g x \<Longrightarrow> f x @ r = f y @ s \<Longrightarrow> non_digit_start r \<Longrightarrow> non_digit_start s \<Longrightarrow>
   g x = g y \<and> r = s"
  unfolding unambiguous_def by blast

lemma join_Cons: "join sep (x # xs) = x @ concat (map (\<lambda>y. sep @ y) xs)"
  by (induction xs arbitrary: x) auto

lemma tail_unambiguous:
  assumes "\<And>x. x \<in> set xs \<Longrightarrow> unambiguous f g x"
    and "concat (map (\<lambda>x. CHR '','' # f x) xs) @ z # r =
         concat (map (\<lambda>x. CHR '','' # f x) ys) @ z # s"
    and z: "z \<noteq> CHR '',''" "\<not> is_digit z"
  shows "map g xs = map g ys \<and> r = s"
  using assms(1,2)
proof (induction xs arbitrary: ys)
  case Nil
  then show ?case using z by (cases ys) auto
next
  case (Cons x xs)
  show ?case
  proof (cases ys)
    case Nil
    then show ?thesis using Cons.prems z by simp
  next
    case (Cons y zs)
    have nd: "non_digit_start (concat (map (\<lambda>x. CHR '','' # f x) us) @ z # t)" for us t
      using z by (cases us) (auto simp: is_digit_def)
    have "f x @ concat (map (\<lambda>x. CHR '','' # f x) xs) @ z # r =
          f y @ concat (map (\<lambda>x. CHR '','' # f x) zs) @ z # s"
      using Cons.prems(2) \<open>ys = y # zs\<close> by simp
    from unambiguousD [OF Cons.prems(1) this nd nd] have "g x = g y \<and> concat (map (\<lambda>x. CHR '','' # f x) xs) @ z # r =
          concat (map (\<lambda>x. CHR '','' # f x) zs) @ z # s"
      by simp
    then show ?thesis using Cons.IH [of zs] Cons.prems(1) \<open>ys = y # zs\<close> by simp
  qed
qed

lemma join_unambiguous:
  assumes "\<And>x. x \<in> set xs \<Longrightarrow> unambiguous f g x"
    and eq: "join '','' (map f xs) @ z # r = join '','' (map f ys) @ z # s"
    and z: "z \<noteq> CHR '',''" "\<not> is_digit z"
    and hd: "\<And>x. f x \<noteq> [] \<and> hd (f x) \<noteq> z"
  shows "map g xs = map g ys \<and> r = s"
proof (cases xs)
  case Nil
  show ?thesis
  proof (cases ys)
    case (Cons y zs)
    with Nil eq hd [of y] show ?thesis by (cases "f y") (auto simp: join_Cons)
  qed (use Nil eq in simp)
next
  case (Cons x xs')
  show ?thesis
  proof (cases ys)
    case Nil
    with Cons eq hd [of x] show ?thesis by (cases "f x") (auto simp: join_Cons)
  next
    case (Cons y zs)
    have cc: "map (\<lambda>u. '','' @ u) (map f us) = map (\<lambda>x. CHR '','' # f x) us" for us
      by simp
    have nd: "non_digit_start (concat (map (\<lambda>x. CHR '','' # f x) us) @ z # t)" for us t
      using z by (cases us) (auto simp: is_digit_def)
    have "f x @ concat (map (\<lambda>x. CHR '','' # f x) xs') @ z # r =
          f y @ concat (map (\<lambda>x. CHR '','' # f x) zs) @ z # s"
      using eq \<open>xs = x # xs'\<close> \<open>ys = y # zs\<close> by (simp add: join_Cons o_def)
    from unambiguousD [OF assms(1) this nd nd] have "g x = g y \<and> concat (map (\<lambda>x. CHR '','' # f x) xs') @ z # r =
          concat (map (\<lambda>x. CHR '','' # f x) zs) @ z # s"
      using \<open>xs = x # xs'\<close> by simp
    then show ?thesis
      using tail_unambiguous [of xs' f g z r zs s] assms(1) z \<open>xs = x # xs'\<close> \<open>ys = y # zs\<close>
      by simp
  qed
qed

lemma member_unambiguous:
  assumes "unambiguous stringify normalizeJsonValue (snd p)"
  shows "unambiguous (\<lambda>p. quote_str (fst p) @ '':'' @ stringify (snd p))
           (\<lambda>p. (fst p, normalizeJsonValue (snd p))) p"
  unfolding unambiguous_def
proof (intro allI impI)
  fix q r s
  assume eq: "(quote_str (fst p) @ '':'' @ stringify (snd p)) @ r =
      (quote_str (fst q) @ '':'' @ stringify (snd q)) @ s"
    and nd: "non_digit_start r" "non_digit_start s"
  from eq have "quote_str (fst p) @ ('':'' @ stringify (snd p) @ r) =
      quote_str (fst q) @ ('':'' @ stringify (snd q) @ s)" by simp
  from quote_str_unambiguous [OF this]
  have "fst p = fst q" "stringify (snd p) @ r = stringify (snd q) @ s" by simp_all
  with unambiguousD [OF assms _ nd]
  show "(fst p, normalizeJsonValue (snd p)) = (fst q, normalizeJsonValue (snd q)) \<and> r = s"
    by simp
qed

lemma closing:
  "CHR '']'' \<noteq> CHR '',''" "\<not> is_digit (CHR '']'')"
  "CHR ''}'' \<noteq> CHR '',''" "\<not> is_digit (CHR ''}'')"
  by (simp_all add: is_digit_def)

lemma atomic_unambiguous:
  "unambiguous stringify normalizeJsonValue JUndefined"
  "unambiguous stringify normalizeJsonValue JNull"
  "unambiguous stringify normalizeJsonValue (JBool b)"
proof -
  have null: "w = JNull \<or> w = JUndefined" if "json_kind w = 0" for w
    using that by (cases w) auto
  have bool: "\<exists>c. w = JBool c" if "json_kind w = 1" for w
    using that by (cases w) auto
  have unull: "unambiguous stringify normalizeJsonValue v"
    if v: "v = JNull \<or> v = JUndefined" for v
    unfolding unambiguous_def
  proof (intro allI impI)
    fix w r s
    assume eq: "stringify v @ r = stringify w @ s"
    have "json_kind v = 0" using v by auto
    with stringify_same_kind [OF eq] null have "w = JNull \<or> w = JUndefined" by simp
    with eq v show "normalizeJsonValue v = normalizeJsonValue w \<and> r = s"
      by (elim disjE) simp_all
  qed
  show "unambiguous stringify normalizeJsonValue JUndefined"
    "unambiguous stringify normalizeJsonValue JNull"
    by (simp_all add: unull)
  show "unambiguous stringify normalizeJsonValue (JBool b)"
    unfolding unambiguous_def
  proof (intro allI impI)
    fix w r s
    assume eq: "stringify (JBool b) @ r = stringify w @ s"
    from stringify_same_kind [OF eq] bool obtain c where "w = JBool c" by auto
    with eq show "normalizeJsonValue (JBool b) = normalizeJsonValue w \<and> r = s"
      by (cases b; cases c) simp_all
  qed
qed

lemma stringify_head_close: "stringify x \<noteq> [] \<and> hd (stringify x) \<noteq> CHR '']''"
proof -
  obtain c r where x: "stringify x = c # r" "head_kind c = json_kind x"
    using stringify_head by blast
  have "head_kind (CHR '']'') = 6" by (simp add: head_kind_def is_digit_def)
  moreover have "json_kind x \<noteq> 6" by (cases x) simp_all
  ultimately show ?thesis using x by auto
qed

lemma array_unambiguous:
  assumes "\<And>x. x \<in> set xs \<Longrightarrow> unambiguous stringify normalizeJsonValue x"
  shows "unambiguous stringify normalizeJsonValue (JArr xs)"
  unfolding unambiguous_def
proof (intro allI impI)
  fix w r s
  assume eq: "stringify (JArr xs) @ r = stringify w @ s"
  from stringify_same_kind [OF this] obtain ys where w: "w = JArr ys" by (cases w) auto
  from eq have "join '','' (map stringify xs) @ CHR '']'' # r =
      join '','' (map stringify ys) @ CHR '']'' # s" unfolding w by simp
  from join_unambiguous [OF assms this closing(1,2) stringify_head_close]
  show "normalizeJsonValue (JArr xs) = normalizeJsonValue w \<and> r = s"
    unfolding w by simp
qed

lemma object_unambiguous:
  assumes "\<And>k v. (k, v) \<in> set ps \<Longrightarrow> unambiguous stringify normalizeJsonValue v"
  shows "unambiguous stringify normalizeJsonValue (JObj ps)"
  unfolding unambiguous_def
proof (intro allI impI)
  fix w r s
  let ?f = "\<lambda>p. quote_str (fst p) @ '':'' @ stringify (snd p)"
  let ?d = "filter (\<lambda>p. snd p \<noteq> JUndefined)"
  assume eq: "stringify (JObj ps) @ r = stringify w @ s"
  from stringify_same_kind [OF this] obtain qs where w: "w = JObj qs" by (cases w) auto
  have el: "unambiguous ?f (\<lambda>p. (fst p, normalizeJsonValue (snd p))) p" if "p \<in> set (?d ps)" for p
  proof (rule member_unambiguous)
    from that have "(fst p, snd p) \<in> set ps" by simp
    then show "unambiguous stringify normalizeJsonValue (snd p)" by (rule assms)
  qed
  have hd: "?f p \<noteq> [] \<and> hd (?f p) \<noteq> CHR ''}''" for p
    by (simp add: quote_str_def)
  from eq have "join '','' (map ?f (?d ps)) @ CHR ''}'' # r =
      join '','' (map ?f (?d qs)) @ CHR ''}'' # s" unfolding w by simp
  from join_unambiguous [OF el this closing(3,4) hd]
  show "normalizeJsonValue (JObj ps) = normalizeJsonValue w \<and> r = s"
    unfolding w by simp
qed

lemma number_unambiguous: "unambiguous stringify normalizeJsonValue (JNum n)"
  unfolding unambiguous_def
proof (intro allI impI)
  fix w r s
  assume eq: "stringify (JNum n) @ r = stringify w @ s"
    and nd: "non_digit_start r" "non_digit_start s"
  from stringify_same_kind [OF eq] obtain m where w: "w = JNum m" by (cases w) auto
  from int_str_unambiguous [OF eq [unfolded w stringify.simps] nd]
  show "normalizeJsonValue (JNum n) = normalizeJsonValue w \<and> r = s" unfolding w by simp
qed

lemma string_unambiguous: "unambiguous stringify normalizeJsonValue (JStr a)"
  unfolding unambiguous_def
proof (intro allI impI)
  fix w r s
  assume eq: "stringify (JStr a) @ r = stringify w @ s"
  from stringify_same_kind [OF eq] obtain b where w: "w = JStr b" by (cases w) auto
  from quote_str_unambiguous [OF eq [unfolded w stringify.simps]]
  show "normalizeJsonValue (JStr a) = normalizeJsonValue w \<and> r = s" unfolding w by simp
qed

lemma stringify_unambiguous: "unambiguous stringify normalizeJsonValue v"
  by (induction v rule: json_induct)
     (simp_all only: atomic_unambiguous number_unambiguous string_unambiguous
        array_unambiguous object_unambiguous)

text \<open>Printing ignores what the JSON view ignores.\<close>

lemma stringify_view: "stringify (normalizeJsonValue v) = stringify v"
proof (induction v rule: json_induct)
  case (Obj ps)
  have nu: "normalizeJsonValue v \<noteq> JUndefined" for v by (cases v) auto
  have eq: "map (\<lambda>p. quote_str (fst p) @ CHR '':'' # stringify (normalizeJsonValue (snd p)))
          (filter (\<lambda>p. snd p \<noteq> JUndefined) ps) =
        map (\<lambda>p. quote_str (fst p) @ CHR '':'' # stringify (snd p)) (filter (\<lambda>p. snd p \<noteq> JUndefined) ps)"
    using Obj by auto
  show ?case by (simp add: nu filter_map o_def eq del: map_eq_conv)
qed (auto cong: map_cong)

lemma stringify_eq_iff: "stringify v = stringify w \<longleftrightarrow> normalizeJsonValue v = normalizeJsonValue w"
proof
  assume "stringify v = stringify w"
  then show "normalizeJsonValue v = normalizeJsonValue w"
    using unambiguousD [OF stringify_unambiguous, of v "[]" w "[]"] by simp
next
  assume "normalizeJsonValue v = normalizeJsonValue w"
  then show "stringify v = stringify w" by (metis stringify_view)
qed

section \<open>Sorting the properties of an object\<close>

lemma insort_key_map: "insort_key f (g x) (map g xs) = map g (insort_key (\<lambda>y. f (g y)) x xs)"
  by (induction xs) auto

lemma sort_key_map: "sort_key f (map g xs) = map g (sort_key (\<lambda>y. f (g y)) xs)"
  by (induction xs) (auto simp: insort_key_map)

lemma js_order_map: "js_order (map (\<lambda>p. (fst p, h (snd p))) ps) = map (\<lambda>p. (fst p, h (snd p))) (js_order ps)"
  by (simp add: js_order_def filter_map sort_key_map o_def)

lemma filter_js_order: "filter Q (js_order ps) = js_order (filter Q ps)"
  by (simp add: js_order_def filter_sort filter_filter conj_commute)

lemma mset_js_order [simp]: "mset (js_order ps) = mset ps"
  using multiset_partition [of "mset ps" "\<lambda>p. is_index_key (fst p)"] by (simp add: js_order_def)

lemma set_js_order [simp]: "set (js_order ps) = set ps"
  by (metis mset_js_order set_mset_mset)

lemma distinct_keys_js_order: "distinct (map fst (js_order ps)) \<longleftrightarrow> distinct (map fst ps)"
  by (metis mset_js_order mset_eq_imp_distinct_iff mset_map)

lemma distinct_keys_sort: "distinct (map fst (sort_key fst ps)) \<longleftrightarrow> distinct (map fst ps)"
  by (metis mset_sort mset_eq_imp_distinct_iff mset_map)

lemma map_snd_fst [simp]: "map fst (map (\<lambda>p. (fst p, h (snd p))) ps) = map fst ps"
  by simp

lemma sort_key_fst_cong:
  fixes P Q :: "('a::linorder \<times> 'b) list"
  assumes "distinct (map fst P)" "distinct (map fst Q)" "set P = set Q"
  shows "sort_key fst P = sort_key fst Q"
proof -
  have "mset P = mset Q"
    using assms by (simp add: distinct_map set_eq_iff_mset_eq_distinct)
  moreover have "inj_on fst (set P)" using assms(1) by (simp add: distinct_map)
  ultimately show ?thesis by (intro sort_key_inj_key_eq) simp_all
qed

section \<open>The canonical form\<close>

text \<open>
  The form all three canonicalisers produce: the JSON view with sorted properties.
\<close>

abbreviation canonical :: "json \<Rightarrow> json" where
  "canonical v \<equiv> sortJsonValue (normalizeJsonValue v)"

abbreviation defined_members :: "(string \<times> json) list \<Rightarrow> (string \<times> json) list" where
  "defined_members \<equiv> filter (\<lambda>p. snd p \<noteq> JUndefined)"

lemma canonical_Obj:
  "canonical (JObj ps) =
     JObj (js_order (map (\<lambda>p. (fst p, canonical (snd p))) (sort_key fst (defined_members ps))))"
  by (simp add: js_from_entries_def sort_key_map o_def)

lemma view_js_object:
  assumes "\<And>v. f v = JUndefined \<longleftrightarrow> v = JUndefined"
  shows "normalizeJsonValue (JObj (js_order (map (\<lambda>p. (fst p, f (snd p))) xs))) =
     JObj (js_order (map (\<lambda>p. (fst p, normalizeJsonValue (f (snd p)))) (defined_members xs)))"
  by (simp add: js_order_map [of f] js_order_map [of "\<lambda>v. normalizeJsonValue (f v)"]
      filter_map filter_js_order assms o_def)

lemma normalizeJsonValue_defined [simp]: "normalizeJsonValue v \<noteq> JUndefined"
  by (cases v) auto

lemma normalizeJsonValue_idem: "normalizeJsonValue (normalizeJsonValue v) = normalizeJsonValue v"
  by (induction v rule: json_induct) (auto simp: normalizeJsonValue_defined filter_map comp_def)

lemma sortJsonValue_undefined_iff [simp]: "sortJsonValue v = JUndefined \<longleftrightarrow> v = JUndefined"
  by (cases v) (auto simp: js_from_entries_def)

lemma normalizeStable_undefined_iff [simp]: "normalizeStable v = JUndefined \<longleftrightarrow> v = JUndefined"
  by (cases v) (auto simp: js_assign_def)

lemma sortValue_undefined_iff [simp]: "sortValue v = JUndefined \<longleftrightarrow> v = JUndefined"
  by (cases v) (auto simp: js_assign_def)

lemma json_wf_members:
  "json_wf K (JObj ps) \<Longrightarrow> (k, v) \<in> set ps \<Longrightarrow> K k \<and> json_wf K v"
  by (auto simp: list_all_iff)

lemma json_wf_mono: "(\<And>k. K k \<Longrightarrow> L k) \<Longrightarrow> json_wf K v \<Longrightarrow> json_wf L v"
  by (induction v rule: json_induct) (auto simp: list_all_iff)

lemma filter_true_set: "(\<And>x. x \<in> set xs \<Longrightarrow> P x) \<Longrightarrow> filter P xs = xs"
  by (simp add: filter_id_conv)

lemma canonical_defined: "canonical v \<noteq> JUndefined"
  by simp

lemma view_js_total:
  assumes "\<And>v. f v \<noteq> JUndefined"
  shows "normalizeJsonValue (JObj (js_order (map (\<lambda>p. (fst p, f (snd p))) xs))) =
     JObj (js_order (map (\<lambda>p. (fst p, normalizeJsonValue (f (snd p)))) xs))"
  by (simp add: js_order_map [of f] js_order_map [of "\<lambda>v. normalizeJsonValue (f v)"]
      filter_map filter_js_order assms o_def)

lemma normalizeStable_Obj:
  assumes "json_wf no_proto (JObj ps)"
  shows "normalizeStable (JObj ps) =
     JObj (js_order (map (\<lambda>p. (fst p, normalizeStable (snd p))) (sort_key fst (defined_members ps))))"
proof -
  have "filter (\<lambda>p. fst p \<noteq> ''__proto__'') (sort_key fst (defined_members ps)) =
      sort_key fst (defined_members ps)"
    using assms by (auto simp: filter_id_conv list_all_iff simp del: filter_sort)
  then show ?thesis by (simp add: js_assign_def filter_map o_def flip: filter_sort)
qed

lemma sortValue_Obj:
  assumes "json_wf no_proto (JObj ps)"
  shows "sortValue (JObj ps) =
     JObj (js_order (map (\<lambda>p. (fst p, sortValue (snd p))) (sort_key fst ps)))"
proof -
  have "filter (\<lambda>p. fst p \<noteq> ''__proto__'') (sort_key fst ps) = sort_key fst ps"
    using assms by (auto simp: filter_id_conv list_all_iff)
  then show ?thesis by (simp add: js_assign_def filter_map o_def)
qed

lemma view_normalizeStable:
  "json_wf no_proto v \<Longrightarrow> normalizeJsonValue (normalizeStable v) = canonical v"
proof (induction v rule: json_induct)
  case (Arr xs)
  then show ?case by (auto simp: list_all_iff)
next
  case (Obj ps)
  have "map (\<lambda>p. (fst p, normalizeJsonValue (normalizeStable (snd p)))) (sort_key fst (defined_members ps)) =
        map (\<lambda>p. (fst p, canonical (snd p))) (sort_key fst (defined_members ps))"
    using Obj by (fastforce simp: list_all_iff)
  then show ?case
    by (simp only: normalizeStable_Obj [OF Obj.prems] canonical_Obj
        view_js_object [OF normalizeStable_undefined_iff] filter_sort filter_filter conj_absorb)
qed simp_all

lemma view_sortValue:
  "json_wf no_proto v \<Longrightarrow> normalizeJsonValue (sortValue v) = canonical v"
proof (induction v rule: json_induct)
  case (Arr xs)
  then show ?case by (auto simp: list_all_iff)
next
  case (Obj ps)
  have "map (\<lambda>p. (fst p, normalizeJsonValue (sortValue (snd p)))) (sort_key fst (defined_members ps)) =
        map (\<lambda>p. (fst p, canonical (snd p))) (sort_key fst (defined_members ps))"
    using Obj by (fastforce simp: list_all_iff)
  then show ?case
    by (simp only: sortValue_Obj [OF Obj.prems] canonical_Obj
        view_js_object [OF sortValue_undefined_iff] filter_sort)
qed simp_all

lemma view_canonical: "normalizeJsonValue (canonical v) = canonical v"
proof (induction v rule: json_induct)
  case (Obj ps)
  have "map (\<lambda>p. (fst p, normalizeJsonValue (canonical (snd p)))) (sort_key fst (defined_members ps)) =
        map (\<lambda>p. (fst p, canonical (snd p))) (sort_key fst (defined_members ps))"
    using Obj by auto
  then show ?case by (simp only: canonical_Obj view_js_total [where f = canonical, OF canonical_defined])
qed auto

text \<open>The canonical form has the same abstract value.\<close>

lemma json_sem_view: "json_sem (normalizeJsonValue v) = json_sem v"
proof (induction v rule: json_induct)
  case (Obj ps)
  have "map (\<lambda>p. (fst p, json_sem (normalizeJsonValue (snd p)))) (defined_members ps) =
        map (\<lambda>p. (fst p, json_sem (snd p))) (defined_members ps)"
    using Obj by auto
  then show ?case by (simp add: filter_map o_def del: map_eq_conv)
qed auto

lemma map_of_set_cong:
  "distinct (map fst xs) \<Longrightarrow> distinct (map fst ys) \<Longrightarrow> set xs = set ys \<Longrightarrow> map_of xs = map_of ys"
  by (simp add: map_of_inject_set)

lemma distinct_fst_filter: "distinct (map fst ps) \<Longrightarrow> distinct (map fst (filter P ps))"
  by (simp add: distinct_map_filter)

lemma json_sem_sortJsonValue: "json_wf any_key v \<Longrightarrow> json_sem (sortJsonValue v) = json_sem v"
proof (induction v rule: json_induct)
  case (Arr xs)
  then show ?case by (auto simp: list_all_iff)
next
  case (Obj ps)
  let ?L = "map (\<lambda>p. (fst p, json_sem (sortJsonValue (snd p)))) (js_order (sort_key fst (defined_members ps)))"
  let ?R = "map (\<lambda>p. (fst p, json_sem (snd p))) (defined_members ps)"
  have d: "distinct (map fst (defined_members ps))"
    using Obj.prems by (simp add: distinct_fst_filter)
  have "set ?L = set ?R" using Obj by (force simp: list_all_iff)
  moreover have "distinct (map fst ?L)" "distinct (map fst ?R)"
    using d by (simp_all add: distinct_keys_js_order distinct_keys_sort o_def)
  ultimately have "map_of ?L = map_of ?R" by (intro map_of_set_cong)
  then show ?case
    by (simp add: js_from_entries_def filter_js_order filter_map filter_sort js_order_map o_def
        del: map_eq_conv)
qed simp_all

lemma json_wf_view: "json_wf K v \<Longrightarrow> json_wf K (normalizeJsonValue v)"
  by (induction v rule: json_induct) (auto simp: list_all_iff distinct_fst_filter o_def)

lemma json_sem_canonical: "json_wf any_key v \<Longrightarrow> json_sem (canonical v) = json_sem v"
  by (simp add: json_sem_sortJsonValue json_wf_view json_sem_view)

text \<open>Equal abstract values have the same canonical form.\<close>

lemma canonical_cong:
  "json_wf any_key v \<Longrightarrow> json_wf any_key w \<Longrightarrow> json_sem v = json_sem w \<Longrightarrow> canonical v = canonical w"
proof (induction v arbitrary: w rule: json_induct)
  case (Arr xs)
  then obtain ys where w: "w = JArr ys" "map json_sem xs = map json_sem ys" by (cases w) auto
  have "map canonical xs = map canonical ys"
  proof (rule nth_equalityI)
    show len: "length (map canonical xs) = length (map canonical ys)"
      using map_eq_imp_length_eq [OF w(2)] by simp
    fix i
    assume "i < length (map canonical xs)"
    then have "i < length xs" "i < length ys" using len by simp_all
    then show "map canonical xs ! i = map canonical ys ! i"
      using Arr.IH [of "xs ! i" "ys ! i"] Arr.prems w
      by (auto simp: list_all_iff dest: arg_cong [where f = "\<lambda>l. l ! i"])
  qed
  then show ?case using w by (simp add: o_def)
next
  case (Obj ps)
  then obtain qs where w: "w = JObj qs" by (cases w) auto
  let ?sem = "\<lambda>p. (fst p, json_sem (snd p))" and ?can = "\<lambda>p. (fst p, canonical (snd p))"
  have dp: "distinct (map fst (defined_members ps))" and dq: "distinct (map fst (defined_members qs))"
    using Obj.prems w by (simp_all add: distinct_fst_filter)
  have "map_of (map ?sem (defined_members ps)) = map_of (map ?sem (defined_members qs))"
    using Obj.prems(3) w by simp
  then have sem: "?sem ` set (defined_members ps) = ?sem ` set (defined_members qs)"
    using dp dq by (subst (asm) map_of_inject_set) (simp_all add: o_def)
  have can: "canonical (snd p) = canonical (snd q)"
    if "p \<in> set (defined_members ps)" "q \<in> set (defined_members qs)"
      "json_sem (snd p) = json_sem (snd q)" for p q
    using that Obj.IH [of "fst p" "snd p" "snd q"] json_wf_members [OF Obj.prems(1), of "fst p" "snd p"]
      json_wf_members [OF Obj.prems(2) [unfolded w], of "fst q" "snd q"] by simp
  have "?can ` set (defined_members ps) = ?can ` set (defined_members qs)"
  proof (intro equalityI subsetI; elim imageE)
    fix x p
    assume p: "p \<in> set (defined_members ps)" "x = ?can p"
    then have "?sem p \<in> ?sem ` set (defined_members qs)" using sem by blast
    then obtain q where q: "q \<in> set (defined_members qs)" "fst p = fst q" "json_sem (snd p) = json_sem (snd q)"
      by auto
    then have "x = ?can q" using can [of p q] p by simp
    with q(1) show "x \<in> ?can ` set (defined_members qs)" by blast
  next
    fix x q
    assume q: "q \<in> set (defined_members qs)" "x = ?can q"
    then have "?sem q \<in> ?sem ` set (defined_members ps)" using sem by blast
    then obtain p where p: "p \<in> set (defined_members ps)" "fst p = fst q" "json_sem (snd p) = json_sem (snd q)"
      by auto
    then have "x = ?can p" using can [of p q] q by simp
    with p(1) show "x \<in> ?can ` set (defined_members ps)" by blast
  qed
  then have "sort_key fst (map ?can (defined_members ps)) = sort_key fst (map ?can (defined_members qs))"
    using dp dq by (intro sort_key_fst_cong) (simp_all add: o_def)
  then have "map ?can (sort_key fst (defined_members ps)) = map ?can (sort_key fst (defined_members qs))"
    by (simp add: sort_key_map)
  then show ?case unfolding w canonical_Obj by simp
qed (case_tac w; auto)+

section \<open>The contract of a canonicaliser\<close>

text \<open>
  A canonicaliser keeps the abstract value, and its JSON view depends on nothing else. Its text
  then decides equality of abstract values.
\<close>

locale canonicaliser =
  fixes canon :: "json \<Rightarrow> json" and ok :: "json \<Rightarrow> bool"
  assumes canon_sem: "ok v \<Longrightarrow> json_sem (canon v) = json_sem v"
    and canon_view: "ok v \<Longrightarrow> ok w \<Longrightarrow> json_sem v = json_sem w \<Longrightarrow>
      normalizeJsonValue (canon v) = normalizeJsonValue (canon w)"
begin

lemma canon_text_iff:
  assumes "ok v" "ok w"
  shows "stringify (canon v) = stringify (canon w) \<longleftrightarrow> json_sem v = json_sem w"
proof
  assume "stringify (canon v) = stringify (canon w)"
  then have "json_sem (canon v) = json_sem (canon w)"
    by (metis json_sem_view stringify_eq_iff)
  then show "json_sem v = json_sem w" using assms by (simp add: canon_sem)
next
  assume "json_sem v = json_sem w"
  then show "stringify (canon v) = stringify (canon w)"
    using canon_view [OF assms] by (simp add: stringify_eq_iff)
qed

end

interpretation stable: canonicaliser normalizeStable "json_wf no_proto"
proof unfold_locales
  fix v w
  assume v: "json_wf no_proto v"
  then have any: "json_wf any_key v" by (rule json_wf_mono [rotated]) simp
  show "json_sem (normalizeStable v) = json_sem v"
    using json_sem_view [of "normalizeStable v"] view_normalizeStable [OF v] json_sem_canonical [OF any]
    by simp
  assume w: "json_wf no_proto w" "json_sem v = json_sem w"
  then have "json_wf any_key w" by (intro json_wf_mono [of no_proto any_key]) simp_all
  with any w show "normalizeJsonValue (normalizeStable v) = normalizeJsonValue (normalizeStable w)"
    using canonical_cong [of v w] by (simp add: view_normalizeStable v)
qed

interpretation sorted_value: canonicaliser sortValue "json_wf no_proto"
proof unfold_locales
  fix v w
  assume v: "json_wf no_proto v"
  then have any: "json_wf any_key v" by (rule json_wf_mono [rotated]) simp
  show "json_sem (sortValue v) = json_sem v"
    using json_sem_view [of "sortValue v"] view_sortValue [OF v] json_sem_canonical [OF any]
    by simp
  assume w: "json_wf no_proto w" "json_sem v = json_sem w"
  then have "json_wf any_key w" by (intro json_wf_mono [of no_proto any_key]) simp_all
  with any w show "normalizeJsonValue (sortValue v) = normalizeJsonValue (sortValue w)"
    using canonical_cong [of v w] by (simp add: view_sortValue v)
qed

interpretation ledger_canon: canonicaliser canonical "json_wf any_key"
proof unfold_locales
  fix v w
  assume v: "json_wf any_key v"
  then show "json_sem (canonical v) = json_sem v" by (rule json_sem_canonical)
  assume "json_wf any_key w" "json_sem v = json_sem w"
  then have "canonical v = canonical w" using v by (intro canonical_cong)
  then show "normalizeJsonValue (canonical v) = normalizeJsonValue (canonical w)" by (rule arg_cong)
qed

section \<open>Properties\<close>

text \<open>
  C40: two JSON values (with distinct keys and no own property \<^verbatim>\<open>__proto__\<close>) have the same
  \<^verbatim>\<open>stableStringify\<close> text, and so the same input to the decision hash, exactly when they are the
  same JSON value up to the order of properties.
\<close>

theorem stableStringify_equal_iff:
  assumes "json_wf no_proto v" "json_wf no_proto w" "v \<noteq> JUndefined" "w \<noteq> JUndefined"
  shows "stableStringify v = stableStringify w \<longleftrightarrow> json_sem v = json_sem w"
  using stable.canon_text_iff [OF assms(1,2)] assms(3,4)
  by (simp add: stableStringify_def JSON_stringify_def)

theorem stableStringify_equal_iff_witness:
  "stableStringify (JObj [(''b'', JNum 1), (''a'', JUndefined), (''10'', JArr [JNull])]) =
   stableStringify (JObj [(''10'', JArr [JUndefined]), (''b'', JNum 1)])"
proof (rule stableStringify_equal_iff [THEN iffD2])
  show "json_sem (JObj [(''b'', JNum 1), (''a'', JUndefined), (''10'', JArr [JNull])]) =
        json_sem (JObj [(''10'', JArr [JUndefined]), (''b'', JNum 1)])"
    by (simp add: fun_upd_twist)
qed simp_all

text \<open>
  the three canonical printers of the repository agree: on a value without own
  \<^verbatim>\<open>__proto__\<close> properties, the policy engine, the contract hashes and the run store write the
  same canonical text.
\<close>

theorem canonical_printers_agree:
  assumes "json_wf no_proto v" "v \<noteq> JUndefined"
  shows "stableStringify v = Some (canonicalJsonStringify v) \<and>
         canonicalStringify v = Some (canonicalJsonStringify v)"
proof -
  have "stringify (normalizeStable v) = stringify (canonical v)"
    "stringify (sortValue v) = stringify (canonical v)"
    using view_normalizeStable [OF assms(1)] view_sortValue [OF assms(1)] view_canonical [of v]
    by (simp_all add: stringify_eq_iff)
  then show ?thesis
    using assms(2)
    by (simp add: stableStringify_def canonicalStringify_def JSON_stringify_def canonicalJsonStringify_def)
qed

theorem canonical_printers_agree_witness:
  "stableStringify (JObj [(''b'', JBool True), (''a'', JStr ''x'')]) =
   canonicalStringify (JObj [(''b'', JBool True), (''a'', JStr ''x'')])"
  using canonical_printers_agree [of "JObj [(''b'', JBool True), (''a'', JStr ''x'')]"] by simp

text \<open>
  The canonical text of the run store decides equality of event contents: equal texts exactly
  for equal JSON values, also when a property is called \<^verbatim>\<open>__proto__\<close>.
\<close>

theorem canonicalJsonStringify_equal_iff:
  assumes "json_wf any_key v" "json_wf any_key w"
  shows "canonicalJsonStringify v = canonicalJsonStringify w \<longleftrightarrow> json_sem v = json_sem w"
  using ledger_canon.canon_text_iff [OF assms] by (simp add: canonicalJsonStringify_def)

theorem canonicalJsonStringify_equal_iff_witness:
  "canonicalJsonStringify (JObj [(''__proto__'', JNum 1)]) \<noteq> canonicalJsonStringify (JObj [])"
  by (subst canonicalJsonStringify_equal_iff) (simp_all add: fun_eq_iff)

text \<open>
  The decision hash of the policy engine does not see an own property called
  \<^verbatim>\<open>__proto__\<close>: whatever its value, the canonical text is the text of the object without it.
\<close>

theorem stableStringify_ignores_proto:
  "stableStringify (JObj ((''__proto__'', v) # ps)) = stableStringify (JObj ps)"
proof -
  let ?m = "\<lambda>p. (fst p, normalizeStable (snd p))"
  have "filter (\<lambda>p. fst p \<noteq> ''__proto__'') (defined_members (map ?m (sort_key fst ((''__proto__'', v) # ps)))) =
        filter (\<lambda>p. fst p \<noteq> ''__proto__'') (defined_members (map ?m (sort_key fst ps)))"
    by (simp add: filter_map o_def filter_sort del: sort_key_simps)
  then show ?thesis by (simp add: stableStringify_def js_assign_def del: sort_key_simps)
qed

end
