(* ===== verification/Pattern_Safety.thy ===== *)
theory Pattern_Safety
  imports Prelude "HOL-Library.Sublist"
begin

text \<open>
  The screen of \<^verbatim>\<open>policy-engine/src/bundle-load.ts\<close> that refuses regular expressions with
  catastrophic backtracking before a policy rule may use them. The regular expression engine of
  the language is a parameter (a \<open>regexp\<close>: which patterns compile, and the outcome of a test); the
  screen itself works on the characters of the pattern. Loops over an index are recursions on the
  rest of the string after that index.
\<close>

record regexp =
  re_compiles :: "string \<Rightarrow> bool"
  re_test :: "string \<Rightarrow> string \<Rightarrow> bool"

section \<open>The screen\<close>

text \<open>The rest of the pattern after the character class that was opened.\<close>

fun consumeCharacterClass :: "string \<Rightarrow> string" where
  "consumeCharacterClass [] = []"
| "consumeCharacterClass (c # r) =
     (if c = CHR 0x5C then consumeCharacterClass (drop 1 r)
      else if c = CHR '']'' then r
      else consumeCharacterClass r)"

lemma length_consumeCharacterClass: "length (consumeCharacterClass s) \<le> length s"
  by (induction s rule: consumeCharacterClass.induct) auto

function sanitizePattern :: "string \<Rightarrow> string" where
  "sanitizePattern [] = []"
| "sanitizePattern (c # r) =
     (if c = CHR 0x5C then CHR ''L'' # sanitizePattern (drop 1 r)
      else if c = CHR ''['' then CHR ''C'' # sanitizePattern (consumeCharacterClass r)
      else c # sanitizePattern r)"
  by pat_completeness auto
termination
  by (relation "measure length") (auto simp: length_consumeCharacterClass le_imp_less_Suc)

definition isQuantifiableAtom :: "char \<Rightarrow> bool" where
  "isQuantifiableAtom c \<longleftrightarrow> c \<noteq> CHR '')'' \<and> c \<noteq> CHR ''|'' \<and> c \<noteq> CHR ''^'' \<and> c \<noteq> CHR ''$''"

text \<open>\<^verbatim>\<open>/^\d+,$/\<close>: one or more digits and a comma.\<close>

definition open_range :: "string \<Rightarrow> bool" where
  "open_range body \<longleftrightarrow>
     length body \<ge> 2 \<and> last body = CHR '','' \<and> list_all (\<lambda>c. c \<in> set ''0123456789'') (butlast body)"

text \<open>The quantifier at the start of the string: whether it is unbounded, and what follows it.\<close>

fun readQuantifier :: "string \<Rightarrow> (bool \<times> string) option" where
  "readQuantifier [] = None"
| "readQuantifier (c # r) =
     (if c = CHR ''*'' \<or> c = CHR ''+'' then Some (True, r)
      else if c = CHR ''?'' then Some (False, r)
      else if c \<noteq> CHR ''{'' then None
      else if CHR ''}'' \<notin> set r then None
      else let body = takeWhile (\<lambda>x. x \<noteq> CHR ''}'') r
           in Some (open_range body, drop (Suc (length body)) r))"

definition stripGroupPrefix :: "string \<Rightarrow> string" where
  "stripGroupPrefix content =
     (if starts_with ''?:'' content then drop 2 content
      else if starts_with ''?='' content \<or> starts_with ''?!'' content then drop 2 content
      else if starts_with ''?<='' content \<or> starts_with ''?<!'' content then drop 3 content
      else content)"

fun containsUnboundedQuantifier :: "string \<Rightarrow> bool" where
  "containsUnboundedQuantifier [] = False"
| "containsUnboundedQuantifier (c # r) =
     ((case readQuantifier r of Some (u, _) \<Rightarrow> u \<and> isQuantifiableAtom c | None \<Rightarrow> False) \<or>
      containsUnboundedQuantifier r)"

text \<open>The pieces of the content between the bars outside every group; \<open>cur\<close> is the open piece.\<close>

fun splitTopLevelAlternatives :: "nat \<Rightarrow> string \<Rightarrow> string \<Rightarrow> string list" where
  "splitTopLevelAlternatives depth cur [] = [cur]"
| "splitTopLevelAlternatives depth cur (c # r) =
     (if c = CHR ''('' then splitTopLevelAlternatives (Suc depth) (cur @ [c]) r
      else if c = CHR '')'' then splitTopLevelAlternatives (depth - 1) (cur @ [c]) r
      else if c = CHR ''|'' \<and> depth = 0 then cur # splitTopLevelAlternatives depth [] r
      else splitTopLevelAlternatives depth (cur @ [c]) r)"

definition firstAtom :: "string \<Rightarrow> char option" where
  "firstAtom s = find isQuantifiableAtom s"

definition alternativesOverlap :: "string \<Rightarrow> string \<Rightarrow> bool" where
  "alternativesOverlap left right =
     (case (firstAtom left, firstAtom right) of
        (Some l, Some r) \<Rightarrow>
          l = r \<or> l = CHR ''.'' \<or> r = CHR ''.'' \<or> l = CHR ''C'' \<or> r = CHR ''C'' \<or>
          starts_with right left \<or> starts_with left right
      | _ \<Rightarrow> True)"

fun overlappingPair :: "string list \<Rightarrow> bool" where
  "overlappingPair [] = False"
| "overlappingPair (a # rest) = (list_ex (alternativesOverlap a) rest \<or> overlappingPair rest)"

definition hasUnboundedAlternation :: "string \<Rightarrow> bool" where
  "hasUnboundedAlternation content =
     (let alternatives = splitTopLevelAlternatives 0 [] content in
      if length alternatives < 2 then False
      else list_ex containsUnboundedQuantifier alternatives \<or> overlappingPair alternatives)"

datatype PatternIssue =
    NotARegularExpression
  | NestedUnboundedQuantifiers
  | UnboundedAlternation
  | AdjacentOverlappingQuantifiers

text \<open>
  \<open>findGroupIssues p i stack rest\<close>: the loop at index \<open>i\<close> of \<open>p\<close>, with the start indices of the
  open groups; \<open>rest\<close> is what \<open>p\<close> holds from \<open>i\<close> on.
\<close>

fun findGroupIssues :: "string \<Rightarrow> nat \<Rightarrow> nat list \<Rightarrow> string \<Rightarrow> PatternIssue option" where
  "findGroupIssues p i stack [] = None"
| "findGroupIssues p i stack (c # r) =
     (if c = CHR ''('' then findGroupIssues p (Suc i) (i # stack) r
      else if c \<noteq> CHR '')'' then findGroupIssues p (Suc i) stack r
      else (case stack of
          [] \<Rightarrow> findGroupIssues p (Suc i) stack r
        | start # open \<Rightarrow>
            (case readQuantifier r of
               Some (True, _) \<Rightarrow>
                 (let content = stripGroupPrefix (take (i - Suc start) (drop (Suc start) p)) in
                  if containsUnboundedQuantifier content then Some NestedUnboundedQuantifiers
                  else if hasUnboundedAlternation content then Some UnboundedAlternation
                  else findGroupIssues p (Suc i) open r)
             | _ \<Rightarrow> findGroupIssues p (Suc i) open r)))"

lemma readQuantifier_shorter: "readQuantifier s = Some (u, r) \<Longrightarrow> length r < length s"
  by (cases s) (auto simp: Let_def split: if_splits)

function quantifierTokens :: "string \<Rightarrow> (char \<times> bool) list" where
  "quantifierTokens [] = []"
| "quantifierTokens (c # r) =
     (if \<not> isQuantifiableAtom c then quantifierTokens r
      else (case readQuantifier r of
          None \<Rightarrow> (c, False) # quantifierTokens r
        | Some (u, rest) \<Rightarrow> (c, u) # quantifierTokens rest))"
  by pat_completeness auto
termination
  by (relation "measure length") (auto dest: readQuantifier_shorter)

definition atomsOverlap :: "char \<Rightarrow> char \<Rightarrow> bool" where
  "atomsOverlap l r \<longleftrightarrow> l = r \<or> l = CHR ''.'' \<or> r = CHR ''.'' \<or> l = CHR ''C'' \<or> r = CHR ''C''"

fun adjacentOverlap :: "(char \<times> bool) list \<Rightarrow> bool" where
  "adjacentOverlap ((a, u) # (b, v) # ts) =
     (u \<and> v \<and> atomsOverlap a b \<or> adjacentOverlap ((b, v) # ts))"
| "adjacentOverlap _ = False"

definition hasAdjacentOverlappingUnboundedQuantifiers :: "string \<Rightarrow> bool" where
  "hasAdjacentOverlappingUnboundedQuantifiers p = adjacentOverlap (quantifierTokens p)"

definition patternSafety :: "regexp \<Rightarrow> string \<Rightarrow> PatternIssue option" where
  "patternSafety re p =
     (if \<not> re_compiles re p then Some NotARegularExpression
      else let s = sanitizePattern p in
        (case findGroupIssues s 0 [] s of
           Some issue \<Rightarrow> Some issue
         | None \<Rightarrow>
             if hasAdjacentOverlappingUnboundedQuantifiers s
             then Some AdjacentOverlappingQuantifiers else None))"

definition isReDoSUnsafe :: "regexp \<Rightarrow> string \<Rightarrow> bool" where
  "isReDoSUnsafe re p \<longleftrightarrow> patternSafety re p \<noteq> None"

definition policyPatternApplies :: "regexp \<Rightarrow> string \<Rightarrow> string \<Rightarrow> bool" where
  "policyPatternApplies re p v =
     (if patternSafety re p \<noteq> None then False else re_compiles re p \<and> re_test re p v)"

section \<open>A quantified group with an inner unbounded quantifier is refused\<close>

text \<open>The loop over a prefix ends with an issue or goes on with some stack of open groups.\<close>

lemma findGroupIssues_step:
  "(\<exists>issue. findGroupIssues p i stack (c # r) = Some issue) \<or>
   (\<exists>stack'. findGroupIssues p i stack (c # r) = findGroupIssues p (Suc i) stack' r)"
  by (cases stack; cases "readQuantifier r"; cases "fst (the (readQuantifier r))")
     (fastforce simp: Let_def)+

lemma findGroupIssues_prefix:
  "(\<exists>issue. findGroupIssues p i stack (a @ rest) = Some issue) \<or>
   (\<exists>stack'. findGroupIssues p i stack (a @ rest) = findGroupIssues p (i + length a) stack' rest)"
proof (induction a arbitrary: i stack)
  case Nil
  then show ?case by auto
next
  case (Cons c a)
  with findGroupIssues_step [of p i stack c "a @ rest"] show ?case
    by (metis add_Suc add_Suc_right append_Cons length_Cons)
qed

lemma findGroupIssues_no_groups:
  "CHR ''('' \<notin> set w \<Longrightarrow> CHR '')'' \<notin> set w \<Longrightarrow>
   findGroupIssues p i stack (w @ rest) = findGroupIssues p (i + length w) stack rest"
  by (induction w arbitrary: i) auto

lemma group_content:
  "take (Suc (length a) + length w - Suc (length a)) (drop (Suc (length a)) (a @ [x] @ w @ r)) = w"
  by simp

text \<open>
  a pattern whose sanitised form has a group quantified by a star, a plus or an open range, with
  an unbounded quantifier inside the group, is never accepted as a rule pattern, whatever stands
  before and after the group.
\<close>

theorem nested_quantifier_refused:
  assumes "sanitizePattern p = a @ ''('' @ w @ '')'' @ q @ b"
    and "CHR ''('' \<notin> set w" "CHR '')'' \<notin> set w"
    and "readQuantifier (q @ b) = Some (True, rest)"
    and "containsUnboundedQuantifier (stripGroupPrefix w)"
  shows "isReDoSUnsafe re p \<and> \<not> policyPatternApplies re p v"
proof -
  let ?s = "sanitizePattern p"
  have s: "?s = a @ (CHR ''('' # w @ CHR '')'' # q @ b)" using assms(1) by simp
  have "\<exists>issue. findGroupIssues ?s 0 [] ?s = Some issue"
  proof (cases "\<exists>issue. findGroupIssues ?s 0 [] ?s = Some issue")
    case False
    with findGroupIssues_prefix [of ?s 0 "[]" a "CHR ''('' # w @ CHR '')'' # q @ b"] s
    obtain st where st: "findGroupIssues ?s 0 [] ?s =
        findGroupIssues ?s (length a) st (CHR ''('' # w @ CHR '')'' # q @ b)"
      by auto
    have "findGroupIssues ?s (length a) st (CHR ''('' # w @ CHR '')'' # q @ b) =
        findGroupIssues ?s (Suc (length a) + length w) (length a # st) (CHR '')'' # q @ b)"
      using findGroupIssues_no_groups [OF assms(2,3)] by simp
    also have "\<dots> = Some NestedUnboundedQuantifiers"
      using assms(4,5) s by (simp add: Let_def)
    finally show ?thesis using st by simp
  qed
  then show ?thesis
    by (auto simp: isReDoSUnsafe_def policyPatternApplies_def patternSafety_def Let_def)
qed

theorem nested_quantifier_refused_witness:
  "isReDoSUnsafe \<lparr>re_compiles = (\<lambda>p. True), re_test = (\<lambda>p v. True)\<rparr> ''^x(?:a+b)*$''"
  using nested_quantifier_refused [of "''^x(?:a+b)*$''" "''^x''" "''?:a+b''" "''*''" "''$''" "''$''"
      "\<lparr>re_compiles = (\<lambda>p. True), re_test = (\<lambda>p v. True)\<rparr>" "[]"]
  by (simp add: stripGroupPrefix_def starts_with_def isQuantifiableAtom_def)

text \<open>
  The screen looks for a quantified atom inside a quantified group and does not count a closing
  bracket as an atom, so a quantified group inside a quantified group passes: the pattern
  \<^verbatim>\<open>((a)+)+$\<close>, as catastrophic as the refused \<^verbatim>\<open>(a+)+$\<close>, is refused only when it does not
  compile.
\<close>

theorem nested_group_escapes_screen:
  "(isReDoSUnsafe re ''((a)+)+$'' \<longleftrightarrow> \<not> re_compiles re ''((a)+)+$'') \<and> isReDoSUnsafe re ''(a+)+$''"
proof -
  have "sanitizePattern ''((a)+)+$'' = ''((a)+)+$''" "sanitizePattern ''(a+)+$'' = ''(a+)+$''" by simp_all
  moreover have "findGroupIssues ''((a)+)+$'' 0 [] ''((a)+)+$'' = None" by code_simp
  moreover have "\<not> hasAdjacentOverlappingUnboundedQuantifiers ''((a)+)+$''" by code_simp
  moreover have "findGroupIssues ''(a+)+$'' 0 [] ''(a+)+$'' = Some NestedUnboundedQuantifiers" by code_simp
  ultimately show ?thesis by (simp add: isReDoSUnsafe_def patternSafety_def Let_def)
qed

end
