(* ===== verification/Run_Schemas.thy ===== *)
theory Run_Schemas
  imports Json_Values
begin

text \<open>
  The schemas of \<^verbatim>\<open>schemas/src/index.ts\<close> that the run store validates against when it projects a
  ledger: approval requests, human questions, artifact references, repair tasks, run inputs and
  harness snapshots. A schema is the predicate of the values its \<^verbatim>\<open>safeParse\<close> accepts, composed of
  the combinators the source uses; the value a successful parse returns has the same properties as its
  argument. \<^verbatim>\<open>z.string().datetime\<close> is the parameter \<open>dt\<close> of the schemas that use it.
\<close>

section \<open>Combinators\<close>

definition nonEmptyString :: "json \<Rightarrow> bool" where
  "nonEmptyString v = (case v of JStr s \<Rightarrow> s \<noteq> [] | _ \<Rightarrow> False)"

definition z_optional :: "(json \<Rightarrow> bool) \<Rightarrow> json \<Rightarrow> bool" where
  "z_optional P v \<longleftrightarrow> v = JUndefined \<or> P v"

definition z_array :: "(json \<Rightarrow> bool) \<Rightarrow> json \<Rightarrow> bool" where
  "z_array P v = (case v of JArr xs \<Rightarrow> list_all P xs | _ \<Rightarrow> False)"

definition z_enum :: "string list \<Rightarrow> json \<Rightarrow> bool" where
  "z_enum xs v = (case v of JStr s \<Rightarrow> s \<in> set xs | _ \<Rightarrow> False)"

definition MetadataSchema :: "json \<Rightarrow> bool" where
  "MetadataSchema v \<longleftrightarrow> is_record v"

text \<open>\<^verbatim>\<open>z.object({...}).strict()\<close>: no other property, and each one satisfies its schema.\<close>

definition z_strict :: "(string \<times> (json \<Rightarrow> bool)) list \<Rightarrow> json \<Rightarrow> bool" where
  "z_strict shape v =
     (case v of
        JObj ps \<Rightarrow> list_all (\<lambda>p. fst p \<in> set (map fst shape)) ps \<and>
                   list_all (\<lambda>f. snd f (js_get v (fst f))) shape
      | _ \<Rightarrow> False)"

section \<open>Schemas\<close>

definition ApprovalRequestSchema :: "json \<Rightarrow> bool" where
  "ApprovalRequestSchema = z_strict
     [(''approvalId'', nonEmptyString), (''reason'', z_optional nonEmptyString),
      (''subjectRef'', z_optional nonEmptyString), (''requestedAction'', z_optional nonEmptyString),
      (''riskSummary'', z_optional nonEmptyString), (''policyVerdictRef'', z_optional nonEmptyString),
      (''constraints'', z_optional MetadataSchema), (''requiredFor'', z_optional nonEmptyString),
      (''metadata'', z_optional MetadataSchema)]"

definition HumanQuestionSchema :: "json \<Rightarrow> bool" where
  "HumanQuestionSchema = z_strict
     [(''questionId'', nonEmptyString), (''prompt'', nonEmptyString),
      (''subjectRef'', z_optional nonEmptyString),
      (''allowedDecisionValues'', z_optional (z_array nonEmptyString)),
      (''requiredExpertise'', z_optional nonEmptyString), (''requiredFor'', z_optional nonEmptyString),
      (''metadata'', z_optional MetadataSchema)]"

definition ArtifactRefSchema :: "json \<Rightarrow> bool" where
  "ArtifactRefSchema = z_strict
     [(''artifactId'', nonEmptyString), (''artifactType'', nonEmptyString),
      (''evidenceRefs'', z_optional (z_array nonEmptyString)), (''uri'', z_optional nonEmptyString),
      (''metadata'', z_optional MetadataSchema)]"

definition DecisionProducedBySchema :: "json \<Rightarrow> bool" where
  "DecisionProducedBySchema = z_strict
     [(''kind'', z_enum [''deterministic'', ''model_assisted'', ''human'']), (''ref'', nonEmptyString)]"

definition RepairTaskSchema :: "(string \<Rightarrow> bool) \<Rightarrow> json \<Rightarrow> bool" where
  "RepairTaskSchema dt v \<longleftrightarrow>
     z_strict
       [(''id'', z_optional nonEmptyString), (''repairId'', z_optional nonEmptyString),
        (''task'', z_optional nonEmptyString), (''gateId'', z_optional nonEmptyString),
        (''failedPhase'', z_optional nonEmptyString), (''targetRef'', z_optional nonEmptyString),
        (''sourceFindingId'', z_optional nonEmptyString), (''problem'', z_optional nonEmptyString),
        (''requiredCorrection'', z_optional nonEmptyString),
        (''requiredEvidenceRefs'', z_optional (z_array nonEmptyString)),
        (''allowedTools'', z_optional (z_array nonEmptyString)),
        (''blockedTools'', z_optional (z_array nonEmptyString)),
        (''allowedRefs'', z_optional (z_array nonEmptyString)),
        (''acceptanceChecks'', z_optional (z_array nonEmptyString)),
        (''successGate'', z_optional nonEmptyString), (''successEval'', z_optional nonEmptyString),
        (''createdFromFindingIds'', z_optional (z_array nonEmptyString)),
        (''expiresAt'', z_optional (\<lambda>x. case x of JStr s \<Rightarrow> dt s | _ \<Rightarrow> False)),
        (''escalationRule'', z_optional nonEmptyString),
        (''producedBy'', z_optional DecisionProducedBySchema),
        (''constraints'', z_optional MetadataSchema), (''metadata'', z_optional MetadataSchema)] v \<and>
     \<not> (js_get v ''task'' = JUndefined \<and> js_get v ''problem'' = JUndefined)"

definition AttachmentRefSchema :: "json \<Rightarrow> bool" where
  "AttachmentRefSchema = z_strict
     [(''id'', nonEmptyString), (''kind'', nonEmptyString), (''uri'', z_optional nonEmptyString),
      (''path'', z_optional nonEmptyString), (''metadata'', z_optional MetadataSchema)]"

definition HostKindSchema :: "json \<Rightarrow> bool" where
  "HostKindSchema = z_enum [''codex'', ''claude-code'', ''gemini-cli'', ''opencode'', ''cli'', ''mcp'']"

definition RunInputSchema :: "json \<Rightarrow> bool" where
  "RunInputSchema = z_strict
     [(''task'', nonEmptyString), (''cwd'', z_optional nonEmptyString), (''harnessId'', nonEmptyString),
      (''host'', z_strict [(''kind'', HostKindSchema), (''version'', z_optional nonEmptyString)]),
      (''attachments'', z_optional (z_array AttachmentRefSchema)),
      (''constraints'', z_optional MetadataSchema), (''metadata'', z_optional MetadataSchema)]"

text \<open>A key that the schema demands is a non-empty string.\<close>

lemma nonEmptyString_iff: "nonEmptyString v \<longleftrightarrow> (\<exists>s. v = JStr s \<and> s \<noteq> [])"
  by (auto simp: nonEmptyString_def split: json.splits)

lemma z_strict_get: "z_strict shape v \<Longrightarrow> (k, P) \<in> set shape \<Longrightarrow> P (js_get v k)"
  by (auto simp: z_strict_def list_all_iff split: json.splits)

lemma approvalId_nonEmpty: "ApprovalRequestSchema v \<Longrightarrow> nonEmptyString (js_get v ''approvalId'')"
  unfolding ApprovalRequestSchema_def by (erule z_strict_get) simp

lemma questionId_nonEmpty: "HumanQuestionSchema v \<Longrightarrow> nonEmptyString (js_get v ''questionId'')"
  unfolding HumanQuestionSchema_def by (erule z_strict_get) simp

lemma artifactId_nonEmpty: "ArtifactRefSchema v \<Longrightarrow> nonEmptyString (js_get v ''artifactId'')"
  unfolding ArtifactRefSchema_def by (erule z_strict_get) simp

end
