(* ===== verification/Js_Readers.thy ===== *)
theory Js_Readers
  imports Run_Schemas
begin

text \<open>
  Reading JSON data at a declared type. The gate engine and the tool broker work on objects whose fields
  TypeScript declares but nothing checks at run time. The model reads such a field with the reader of
  its declared type: a value of another type, which the declaration rules out, reads as absent.
  \<^verbatim>\<open>v?.k\<close> is \<^const>\<open>js_get\<close>, since reading a property of \<^verbatim>\<open>undefined\<close> gives
  \<^verbatim>\<open>JUndefined\<close>.
\<close>

section \<open>Readers\<close>

definition js_str :: "json \<Rightarrow> string option" where
  "js_str v = (case v of JStr s \<Rightarrow> Some s | _ \<Rightarrow> None)"

definition js_num :: "json \<Rightarrow> int option" where
  "js_num v = (case v of JNum n \<Rightarrow> Some n | _ \<Rightarrow> None)"

definition js_elems :: "json \<Rightarrow> json list" where
  "js_elems v = (case v of JArr xs \<Rightarrow> xs | _ \<Rightarrow> [])"

text \<open>\<^verbatim>\<open>values.filter(isString)\<close>.\<close>

definition only_strs :: "json list \<Rightarrow> string list" where
  "only_strs xs = List.map_filter js_str xs"

definition js_strs :: "json \<Rightarrow> string list option" where
  "js_strs v = (case v of JArr xs \<Rightarrow> Some (only_strs xs) | _ \<Rightarrow> None)"

definition fstr :: "json \<Rightarrow> string \<Rightarrow> string option" where
  "fstr v k = js_str (js_get v k)"

definition fstrs :: "json \<Rightarrow> string \<Rightarrow> string list option" where
  "fstrs v k = js_strs (js_get v k)"

definition fnum :: "json \<Rightarrow> string \<Rightarrow> int option" where
  "fnum v k = js_num (js_get v k)"

text \<open>A field that is declared to be always there.\<close>

definition the_str :: "string option \<Rightarrow> string" where
  "the_str x = (case x of Some s \<Rightarrow> s | None \<Rightarrow> [])"

text \<open>\<^verbatim>\<open>a ?? b\<close> on options and on values.\<close>

definition or_else :: "'a option \<Rightarrow> 'a option \<Rightarrow> 'a option" where
  "or_else x y = (case x of Some a \<Rightarrow> Some a | None \<Rightarrow> y)"

definition default :: "'a option \<Rightarrow> 'a \<Rightarrow> 'a" where
  "default x d = (case x of Some a \<Rightarrow> a | None \<Rightarrow> d)"

definition is_nullish :: "json \<Rightarrow> bool" where
  "is_nullish v \<longleftrightarrow> v = JUndefined \<or> v = JNull"

definition nullish :: "json \<Rightarrow> json \<Rightarrow> json" where
  "nullish a b = (if is_nullish a then b else a)"

section \<open>Text\<close>

text \<open>\<^verbatim>\<open>String(v)\<close>.\<close>

function js_String :: "json \<Rightarrow> string" where
  "js_String JUndefined = ''undefined''"
| "js_String JNull = ''null''"
| "js_String (JBool b) = (if b then ''true'' else ''false'')"
| "js_String (JNum n) = int_str n"
| "js_String (JStr s) = s"
| "js_String (JArr xs) = join '','' (map (\<lambda>x. if is_nullish x then '''' else js_String x) xs)"
| "js_String (JObj ps) = ''[object Object]''"
  by pat_completeness auto
termination
proof (relation "measure size", goal_cases)
  case (2 xs x)
  then show ?case using size_element [of x xs] by simp
qed simp

text \<open>The white space that \<^verbatim>\<open>trim\<close> removes.\<close>

definition is_space :: "char \<Rightarrow> bool" where
  "is_space c \<longleftrightarrow> c \<in> {CHR 0x09, CHR 0x0A, CHR 0x0B, CHR 0x0C, CHR 0x0D, CHR 0x20, CHR 0xA0}"

text \<open>\<^verbatim>\<open>s.trim().length > 0\<close>.\<close>

definition has_text :: "string \<Rightarrow> bool" where
  "has_text s \<longleftrightarrow> list_ex (\<lambda>c. \<not> is_space c) s"

text \<open>\<^verbatim>\<open>raw.split(/\r?\n/)\<close>.\<close>

definition drop_cr :: "string \<Rightarrow> string" where
  "drop_cr s = (if s \<noteq> [] \<and> last s = CHR 0x0D then butlast s else s)"

definition split_lines :: "string \<Rightarrow> string list" where
  "split_lines raw = (let ls = split_on (CHR 0x0A) raw in map drop_cr (butlast ls) @ [last ls])"

definition isNonEmptyString :: "json \<Rightarrow> bool" where
  "isNonEmptyString v = (case v of JStr s \<Rightarrow> has_text s | _ \<Rightarrow> False)"

definition isPresent :: "json \<Rightarrow> bool" where
  "isPresent v = (case v of JUndefined \<Rightarrow> False | JNull \<Rightarrow> False | JStr s \<Rightarrow> has_text s | _ \<Rightarrow> True)"

definition isStringArray :: "json \<Rightarrow> bool" where
  "isStringArray v = (case v of JArr xs \<Rightarrow> list_all (\<lambda>x. js_str x \<noteq> None) xs | _ \<Rightarrow> False)"

definition isPositiveInteger :: "json \<Rightarrow> bool" where
  "isPositiveInteger v = (case v of JNum n \<Rightarrow> n > 0 | _ \<Rightarrow> False)"

definition ends_with :: "string \<Rightarrow> string \<Rightarrow> bool" where
  "ends_with suf s \<longleftrightarrow> length suf \<le> length s \<and> drop (length s - length suf) s = suf"

definition lower_char :: "char \<Rightarrow> char" where
  "lower_char c = (if CHR ''A'' \<le> c \<and> c \<le> CHR ''Z'' then char_of (of_char c + 32 :: nat) else c)"

section \<open>Facts\<close>

lemma default_simps [simp]: "default (Some a) d = a" "default None d = d"
  by (simp_all add: default_def)

lemma or_else_simps [simp]: "or_else (Some a) y = Some a" "or_else None y = y" "or_else x None = x"
  by (simp_all add: or_else_def split: option.split)

lemma isPresent_not_undefined: "isPresent v \<Longrightarrow> v \<noteq> JUndefined"
  by (auto simp: isPresent_def)

lemma js_str_Some [simp]: "js_str v = Some s \<longleftrightarrow> v = JStr s"
  by (simp add: js_str_def split: json.split)

lemma js_str_JStr [simp]: "js_str (JStr s) = Some s"
  by simp

lemma js_get_undefined [simp]: "js_get JUndefined k = JUndefined"
  by (simp add: js_get_def)

lemma fstr_Some: "fstr v k = Some s \<longleftrightarrow> js_get v k = JStr s"
  by (simp add: fstr_def)

lemma set_only_strs: "set (only_strs xs) = {s. JStr s \<in> set xs}"
  by (induction xs) (auto simp: only_strs_def split: option.split)

end
