(* ===== verification/Secret_Patterns.thy ===== *)
theory Secret_Patterns
  imports Js_Readers
begin

text \<open>
  The patterns by which \<^verbatim>\<open>tool-broker/src/index.ts\<close> recognises secrets. A regular expression of
  the language is a value of \<open>rx\<close>; \<open>rx_ends\<close> lists the ends of its matches at a position in the
  order in which the backtracking matcher tries them, so that the first one is the match of
  \<^verbatim>\<open>exec\<close>, \<^verbatim>\<open>test\<close> and \<^verbatim>\<open>replace\<close>. SHA-256 is the parameter \<open>sha\<close>.
\<close>

section \<open>Regular expressions\<close>

text \<open>
  Literals with and without the flag \<^verbatim>\<open>i\<close>; \<open>RRun p n g\<close> is \<^verbatim>\<open>[p]{n,}\<close>, greedy or lazy;
  \<open>RExact p n\<close> is \<^verbatim>\<open>[p]{n}\<close>; \<open>RWordB\<close> is \<^verbatim>\<open>\b\<close>.
\<close>

datatype rx =
    RLit string
  | RLitI string
  | RRun "char \<Rightarrow> bool" nat bool
  | RExact "char \<Rightarrow> bool" nat
  | RWordB
  | ROpt rx
  | RAlt rx rx
  | RSeq rx rx

definition is_upper :: "char \<Rightarrow> bool" where
  "is_upper c \<longleftrightarrow> CHR ''A'' \<le> c \<and> c \<le> CHR ''Z''"

definition is_alnum :: "char \<Rightarrow> bool" where
  "is_alnum c \<longleftrightarrow> is_upper c \<or> CHR ''a'' \<le> c \<and> c \<le> CHR ''z'' \<or> is_digit c"

definition is_word_char :: "char \<Rightarrow> bool" where
  "is_word_char c \<longleftrightarrow> is_alnum c \<or> c = CHR ''_''"

definition word_at :: "string \<Rightarrow> nat \<Rightarrow> bool" where
  "word_at s i \<longleftrightarrow> i < length s \<and> is_word_char (s ! i)"

definition at_boundary :: "string \<Rightarrow> nat \<Rightarrow> bool" where
  "at_boundary s i \<longleftrightarrow> (0 < i \<and> word_at s (i - 1)) \<noteq> word_at s i"

primrec rx_ends :: "rx \<Rightarrow> string \<Rightarrow> nat \<Rightarrow> nat list" where
  "rx_ends (RLit w) s i = (if take (length w) (drop i s) = w then [i + length w] else [])"
| "rx_ends (RLitI w) s i =
     (if map lower_char (take (length w) (drop i s)) = map lower_char w then [i + length w] else [])"
| "rx_ends (RRun p n greedy) s i =
     (let es = [i + n ..< Suc (i + length (takeWhile p (drop i s)))] in if greedy then rev es else es)"
| "rx_ends (RExact p n) s i = (if length (takeWhile p (drop i s)) \<ge> n then [i + n] else [])"
| "rx_ends RWordB s i = (if at_boundary s i then [i] else [])"
| "rx_ends (ROpt r) s i = rx_ends r s i @ [i]"
| "rx_ends (RAlt a b) s i = rx_ends a s i @ rx_ends b s i"
| "rx_ends (RSeq a b) s i = concat (map (rx_ends b s) (rx_ends a s i))"

definition rx_test :: "rx \<Rightarrow> string \<Rightarrow> bool" where
  "rx_test r s \<longleftrightarrow> list_ex (\<lambda>i. rx_ends r s i \<noteq> []) [0 ..< Suc (length s)]"

fun rx_alts :: "rx list \<Rightarrow> rx" where
  "rx_alts [] = RLit []"
| "rx_alts [r] = r"
| "rx_alts (r # q # rs) = RAlt r (rx_alts (q # rs))"

fun rx_seqs :: "rx list \<Rightarrow> rx" where
  "rx_seqs [] = RLit []"
| "rx_seqs [r] = r"
| "rx_seqs (r # q # rs) = RSeq r (rx_seqs (q # rs))"

text \<open>
  \<^verbatim>\<open>s.replace(/.../g, f)\<close> from position \<open>i\<close>; \<open>m\<close> gives the end of the match at a position and
  its replacement. After an empty match the search goes on one character further.
\<close>

function replace_all :: "(string \<Rightarrow> nat \<Rightarrow> (nat \<times> string) option) \<Rightarrow> string \<Rightarrow> nat \<Rightarrow> string" where
  "replace_all m s i =
     (if i \<ge> length s then (case m s i of None \<Rightarrow> [] | Some (e, r) \<Rightarrow> r)
      else
        (case m s i of
           None \<Rightarrow> s ! i # replace_all m s (Suc i)
         | Some (e, r) \<Rightarrow> if e > i then r @ replace_all m s e else r @ s ! i # replace_all m s (Suc i)))"
  by pat_completeness auto
termination by (relation "measure (\<lambda>(m, s, i). length s - i)") auto

declare replace_all.simps [simp del]

definition slice :: "string \<Rightarrow> nat \<Rightarrow> nat \<Rightarrow> string" where
  "slice s i e = take (e - i) (drop i s)"

definition rx_match :: "rx \<Rightarrow> (string \<Rightarrow> string) \<Rightarrow> string \<Rightarrow> nat \<Rightarrow> (nat \<times> string) option" where
  "rx_match r f s i = (case rx_ends r s i of [] \<Rightarrow> None | e # _ \<Rightarrow> Some (e, f (slice s i e)))"

section \<open>Secrets\<close>

definition opt_sep :: rx where
  "opt_sep = ROpt (RExact (\<lambda>c. c = CHR ''_'' \<or> c = CHR ''-'') 1)"

text \<open>The dot matches every character that ends no line.\<close>

definition opt_dot :: rx where
  "opt_dot = ROpt (RExact (\<lambda>c. c \<noteq> CHR 0x0A \<and> c \<noteq> CHR 0x0D) 1)"

definition SENSITIVE_KEY_PATTERN :: rx where
  "SENSITIVE_KEY_PATTERN =
     (let two = (\<lambda>a b. rx_seqs [RLitI a, opt_dot, RLitI b]) in
      rx_alts [two ''api'' ''key'', two ''access'' ''token'', two ''refresh'' ''token'', two ''auth'' ''token'',
        RLitI ''token'', RLitI ''secret'', RLitI ''password'', RLitI ''passwd'', RLitI ''credential'',
        RLitI ''authorization'', two ''client'' ''secret'', two ''private'' ''key'', two ''database'' ''url'',
        two ''connection'' ''string''])"

definition SECRET_VALUE_PATTERNS :: "rx list" where
  "SECRET_VALUE_PATTERNS =
     (let dashed = (\<lambda>c. is_word_char c \<or> c = CHR ''-'');
          begins = (\<lambda>w. rx_seqs [RLit (''-----'' @ w @ '' ''), RRun (\<lambda>c. is_upper c \<or> c = CHR '' '') 0 True,
            RLit ''PRIVATE KEY-----'']) in
      [rx_seqs [RWordB, RLit ''sk_'', RAlt (RLit ''live'') (RLit ''test''), RLit ''_'',
         RRun (\<lambda>c. dashed c \<or> c = CHR ''='') 8 True, RWordB],
       rx_seqs [RWordB, RLit ''sk-'', RRun dashed 16 True, RWordB],
       rx_seqs [RWordB, RLit ''AKIA'', RExact (\<lambda>c. is_digit c \<or> is_upper c) 16, RWordB],
       rx_seqs [RWordB, RRun dashed 20 True, RLit ''.'', RRun dashed 20 True, RLit ''.'', RRun dashed 10 True, RWordB],
       rx_seqs [RWordB, RLitI ''Bearer'', RRun is_space 1 True, RRun (\<lambda>c. is_alnum c \<or> c \<in> set ''._~+/-'') 1 True,
         RRun (\<lambda>c. c = CHR ''='') 0 True],
       rx_seqs [RWordB, rx_alts [RSeq (RLitI ''postgres'') (ROpt (RLitI ''ql'')), RLitI ''mysql'',
           RSeq (RLitI ''mongodb'') (ROpt (RLitI ''+srv'')), RLitI ''redis''], RLit ''://'',
         RRun (\<lambda>c. \<not> is_space c \<and> c \<noteq> CHR 0x22 \<and> c \<noteq> CHR 0x27) 1 True],
       rx_seqs [begins ''BEGIN'', RRun (\<lambda>c. True) 0 False, begins ''END'']])"

text \<open>The three groups of the pattern of assignments: the key, the separator and the value.\<close>

definition SECRET_ASSIGNMENT_KEY :: rx where
  "SECRET_ASSIGNMENT_KEY =
     (let two = (\<lambda>a b. rx_seqs [RLitI a, opt_sep, RLitI b]) in
      RSeq RWordB (rx_alts [two ''api'' ''key'', two ''access'' ''token'', two ''refresh'' ''token'', two ''auth'' ''token'',
        RLitI ''token'', RLitI ''secret'', RLitI ''password'', RLitI ''passwd'', RLitI ''credential'',
        RLitI ''authorization'', two ''client'' ''secret'', two ''database'' ''url'', two ''connection'' ''string'']))"

definition SECRET_ASSIGNMENT_SEP :: rx where
  "SECRET_ASSIGNMENT_SEP =
     rx_seqs [RRun is_space 0 True, RExact (\<lambda>c. c = CHR '':'' \<or> c = CHR ''='') 1, RRun is_space 0 True]"

definition SECRET_ASSIGNMENT_VALUE :: rx where
  "SECRET_ASSIGNMENT_VALUE = RRun (\<lambda>c. \<not> is_space c \<and> c \<noteq> CHR '','' \<and> c \<noteq> CHR '';'') 1 True"

definition assignment_ends :: "string \<Rightarrow> nat \<Rightarrow> (nat \<times> nat) list" where
  "assignment_ends s i =
     concat (map (\<lambda>k. concat (map (\<lambda>e. map (\<lambda>v. (e, v)) (rx_ends SECRET_ASSIGNMENT_VALUE s e))
       (rx_ends SECRET_ASSIGNMENT_SEP s k))) (rx_ends SECRET_ASSIGNMENT_KEY s i))"

definition containsSecretPattern :: "string \<Rightarrow> bool" where
  "containsSecretPattern v \<longleftrightarrow> list_ex (\<lambda>pattern. rx_test pattern v) SECRET_VALUE_PATTERNS"

definition classifySensitiveString :: "string option \<Rightarrow> string \<Rightarrow> string option" where
  "classifySensitiveString key v =
     (if (case key of Some k \<Rightarrow> rx_test SENSITIVE_KEY_PATTERN k | None \<Rightarrow> False) then Some ''secret''
      else if containsSecretPattern v then Some ''secret'' else None)"

section \<open>Hash references\<close>

definition is_lower_hex :: "char \<Rightarrow> bool" where
  "is_lower_hex c \<longleftrightarrow> c \<in> set ''0123456789abcdef''"

definition isHashReference :: "string \<Rightarrow> bool" where
  "isHashReference v \<longleftrightarrow>
     starts_with ''sha256:'' v \<and> length v = 71 \<and> list_all is_lower_hex (drop 7 v)"

definition hashValue :: "(string \<Rightarrow> string) \<Rightarrow> json \<Rightarrow> string" where
  "hashValue sha v = ''sha256:'' @ sha (case stableStringify v of Some t \<Rightarrow> t | None \<Rightarrow> ''undefined'')"

text \<open>What SHA-256 in hexadecimal gives.\<close>

definition hex_digest :: "(string \<Rightarrow> string) \<Rightarrow> bool" where
  "hex_digest sha \<longleftrightarrow> (\<forall>t. length (sha t) = 64 \<and> list_all is_lower_hex (sha t))"

lemma hashValue_is_reference: "hex_digest sha \<Longrightarrow> isHashReference (hashValue sha v)"
  by (auto simp: hex_digest_def isHashReference_def hashValue_def starts_with_def)

definition sanitizeErrorMessage :: "(string \<Rightarrow> string) \<Rightarrow> string \<Rightarrow> string" where
  "sanitizeErrorMessage sha message =
     (let assignment = (\<lambda>s i. case assignment_ends s i of [] \<Rightarrow> None
            | (e, v) # _ \<Rightarrow>
                let rawValue = slice s e v in
                Some (v, slice s i e @ (if isHashReference rawValue then rawValue else hashValue sha (JStr rawValue))));
          sanitized = replace_all assignment message 0 in
      fold (\<lambda>pattern t. replace_all (rx_match pattern (\<lambda>rawValue. hashValue sha (JStr rawValue))) t 0)
        SECRET_VALUE_PATTERNS sanitized)"

end
