(* ===== verification/Harness_Dependencies.thy ===== *)
theory Harness_Dependencies
  imports Secret_Patterns
begin

text \<open>
  The dependency resolver of the harness loader (\<^verbatim>\<open>harness-loader/src/dependency-resolver.ts\<close>): the
  declarations of a manifest, the registry of reviewed pins, the resolution of declarations to pins and
  the checks that a resolution fails closed on. A manifest is a JSON value. \<^verbatim>\<open>localeCompare\<close>, whose
  order depends on the locale of the host, and SHA-256 are parameters. A thrown error keeps its reason
  and the name of the dependency; its message and details are left out.

  The results: a resolution that returns gives each declaration exactly one pin, with the declared hash
  and trust tier, whatever the resolver answered; and with a registry as the resolver each pin is a
  reviewed one whose content has the hash it names and whose version is the declared one.
\<close>

section \<open>Sorting with a comparator\<close>

text \<open>
  \<^verbatim>\<open>xs.sort(compare)\<close>: the stable order, which the language prescribes for a consistent comparator.
\<close>

fun insert_by :: "('a \<Rightarrow> 'a \<Rightarrow> int) \<Rightarrow> 'a \<Rightarrow> 'a list \<Rightarrow> 'a list" where
  "insert_by compare x [] = [x]"
| "insert_by compare x (y # ys) = (if compare x y \<le> 0 then x # y # ys else y # insert_by compare x ys)"

definition js_sort :: "('a \<Rightarrow> 'a \<Rightarrow> int) \<Rightarrow> 'a list \<Rightarrow> 'a list" where
  "js_sort compare xs = foldr (insert_by compare) xs []"

text \<open>\<^verbatim>\<open>a || b\<close> on numbers.\<close>

definition js_or :: "int \<Rightarrow> int \<Rightarrow> int" where
  "js_or a b = (if a \<noteq> 0 then a else b)"

lemma mset_insert_by [simp]: "mset (insert_by compare x ys) = add_mset x (mset ys)"
  by (induction ys) auto

lemma mset_js_sort [simp]: "mset (js_sort compare xs) = mset xs"
  unfolding js_sort_def by (induction xs) auto

lemma set_js_sort [simp]: "set (js_sort compare xs) = set xs"
  by (metis mset_js_sort set_mset_mset)

lemma length_js_sort [simp]: "length (js_sort compare xs) = length xs"
  by (metis mset_js_sort size_mset)

lemma js_sort_Nil_iff [simp]: "js_sort compare xs = [] \<longleftrightarrow> xs = []"
  by (metis length_0_conv length_js_sort)

type_synonym locale_compare = "string \<Rightarrow> string \<Rightarrow> int"

section \<open>Data\<close>

record HarnessDependencyDeclaration =
  dd_name :: string
  dd_versionRange :: string
  dd_pinnedHash :: "string option"
  dd_trustTier :: "string option"

record ResolvedDependency =
  rd_name :: string
  rd_version :: string
  rd_contentHash :: string
  rd_trustTier :: "string option"

text \<open>A reviewed pin extends a resolved dependency by its content.\<close>

record ReviewedDependencyPin = ResolvedDependency +
  pin_content :: string

record DependencyResolutionContext =
  dc_packageId :: string
  dc_packageVersion :: string
  dc_strict :: bool
  dc_trustTier :: "string option"

record DependencyResolution =
  dn_declarations :: "HarnessDependencyDeclaration list"
  dn_resolved :: "ResolvedDependency list"

datatype DependencyRejectReason =
    MalformedDependencyDeclaration
  | ResolverFailed
  | DependencyUnresolved
  | DependencyHashMismatch
  | DependencyUnpinned
  | DependencyRangeNotPinned
  | DependencyConflict
  | DependencyTrustTierViolation
  | MalformedDependencyRegistry

datatype thrown =
    DependencyResolutionError DependencyRejectReason "string option"
  | OtherError

type_synonym HarnessDependencyResolver =
  "HarnessDependencyDeclaration list \<Rightarrow> DependencyResolutionContext \<Rightarrow> thrown + ResolvedDependency list"

section \<open>Schemas\<close>

definition sha256_text :: "string \<Rightarrow> bool" where
  "sha256_text s \<longleftrightarrow> starts_with ''sha256:'' s \<and> length s = 71 \<and> list_all is_lower_hex (drop 7 s)"

definition sha256String :: "json \<Rightarrow> bool" where
  "sha256String v = (case v of JStr s \<Rightarrow> s \<noteq> [] \<and> sha256_text s | _ \<Rightarrow> False)"

definition HarnessDependencyDeclarationSchema :: "json \<Rightarrow> bool" where
  "HarnessDependencyDeclarationSchema = z_strict
     [(''name'', nonEmptyString), (''versionRange'', nonEmptyString),
      (''pinnedHash'', z_optional sha256String), (''trustTier'', z_optional nonEmptyString)]"

definition declaration_of :: "json \<Rightarrow> HarnessDependencyDeclaration" where
  "declaration_of v =
     \<lparr>dd_name = the_str (fstr v ''name''), dd_versionRange = the_str (fstr v ''versionRange''),
      dd_pinnedHash = fstr v ''pinnedHash'', dd_trustTier = fstr v ''trustTier''\<rparr>"

text \<open>The schema on a value of the declared type; the same for a pin, which has one field more.\<close>

definition ResolvedDependencySchema_ok :: "'a ResolvedDependency_scheme \<Rightarrow> bool" where
  "ResolvedDependencySchema_ok d \<longleftrightarrow>
     rd_name d \<noteq> [] \<and> rd_version d \<noteq> [] \<and> sha256_text (rd_contentHash d) \<and> rd_trustTier d \<noteq> Some []"

definition ReviewedDependencyPinSchema :: "json \<Rightarrow> bool" where
  "ReviewedDependencyPinSchema = z_strict
     [(''name'', nonEmptyString), (''version'', nonEmptyString), (''contentHash'', sha256String),
      (''trustTier'', z_optional nonEmptyString), (''content'', \<lambda>v. js_str v \<noteq> None)]"

definition DependencyRegistrySchema :: "json \<Rightarrow> bool" where
  "DependencyRegistrySchema = z_strict
     [(''registryId'', nonEmptyString), (''pins'', z_array ReviewedDependencyPinSchema)]"

definition pin_of :: "json \<Rightarrow> ReviewedDependencyPin" where
  "pin_of v =
     \<lparr>rd_name = the_str (fstr v ''name''), rd_version = the_str (fstr v ''version''),
      rd_contentHash = the_str (fstr v ''contentHash''), rd_trustTier = fstr v ''trustTier'',
      pin_content = the_str (fstr v ''content'')\<rparr>"

definition dependency_json :: "ResolvedDependency \<Rightarrow> json" where
  "dependency_json d = JObj
     ([(''name'', JStr (rd_name d)), (''version'', JStr (rd_version d)), (''contentHash'', JStr (rd_contentHash d))] @
      (case rd_trustTier d of None \<Rightarrow> [] | Some t \<Rightarrow> [(''trustTier'', JStr t)]))"

definition ResolvedDependencySchema :: "json \<Rightarrow> bool" where
  "ResolvedDependencySchema = z_strict
     [(''name'', nonEmptyString), (''version'', nonEmptyString), (''contentHash'', sha256String),
      (''trustTier'', z_optional nonEmptyString)]"

definition HarnessDependenciesPinnedEventSchema :: "json \<Rightarrow> bool" where
  "HarnessDependenciesPinnedEventSchema = z_strict
     [(''type'', \<lambda>v. v = JStr ''harness.dependencies.pinned''),
      (''payload'', z_strict
         [(''packageId'', nonEmptyString), (''version'', nonEmptyString), (''specHash'', sha256String),
          (''dependencies'', z_array ResolvedDependencySchema)])]"

section \<open>Order and hashes\<close>

definition canonicalizeDeclarations ::
  "locale_compare \<Rightarrow> HarnessDependencyDeclaration list \<Rightarrow> HarnessDependencyDeclaration list" where
  "canonicalizeDeclarations lc declarations = js_sort (\<lambda>left right.
     js_or (lc (dd_name left) (dd_name right))
      (js_or (lc (dd_versionRange left) (dd_versionRange right))
        (lc (default (dd_pinnedHash left) []) (default (dd_pinnedHash right) [])))) declarations"

definition compareResolvedDependencies :: "locale_compare \<Rightarrow> ResolvedDependency \<Rightarrow> ResolvedDependency \<Rightarrow> int" where
  "compareResolvedDependencies lc left right =
     js_or (lc (rd_name left) (rd_name right))
      (js_or (lc (rd_contentHash left) (rd_contentHash right)) (lc (rd_version left) (rd_version right)))"

definition comparePins :: "locale_compare \<Rightarrow> ReviewedDependencyPin \<Rightarrow> ReviewedDependencyPin \<Rightarrow> int" where
  "comparePins lc left right =
     js_or (lc (rd_name left) (rd_name right))
      (js_or (lc (rd_version left) (rd_version right)) (lc (rd_contentHash left) (rd_contentHash right)))"

definition parse_resolved :: "ResolvedDependency \<Rightarrow> thrown + ResolvedDependency" where
  "parse_resolved d = (if ResolvedDependencySchema_ok d then Inr d else Inl OtherError)"

definition canonicalizeResolvedDependencies ::
  "locale_compare \<Rightarrow> ResolvedDependency list \<Rightarrow> thrown + ResolvedDependency list" where
  "canonicalizeResolvedDependencies lc dependencies =
     bindE (mapE parse_resolved dependencies) (\<lambda>ds. Inr (js_sort (compareResolvedDependencies lc) ds))"

abbreviation NUL :: char where
  "NUL \<equiv> CHR 0x00"

definition dependency_segment :: "ResolvedDependency \<Rightarrow> string" where
  "dependency_segment d = join [NUL] [''dependency'', rd_name d, rd_version d, rd_contentHash d]"

definition canonicalDependencyHashSegments :: "locale_compare \<Rightarrow> ResolvedDependency list \<Rightarrow> thrown + string list" where
  "canonicalDependencyHashSegments lc dependencies =
     bindE (canonicalizeResolvedDependencies lc dependencies) (\<lambda>ds. Inr (map dependency_segment ds))"

definition dependencyContentHash :: "(string \<Rightarrow> string) \<Rightarrow> string \<Rightarrow> string" where
  "dependencyContentHash sha content = ''sha256:'' @ sha content"

definition buildDependenciesPinnedEvent ::
  "locale_compare \<Rightarrow> string \<Rightarrow> string \<Rightarrow> string \<Rightarrow> DependencyResolution \<Rightarrow> thrown + json" where
  "buildDependenciesPinnedEvent lc packageId version specHash resolution =
     bindE (canonicalizeResolvedDependencies lc (dn_resolved resolution)) (\<lambda>ds.
       let event = JObj
         [(''type'', JStr ''harness.dependencies.pinned''),
          (''payload'', JObj
             [(''packageId'', JStr packageId), (''version'', JStr version), (''specHash'', JStr specHash),
              (''dependencies'', JArr (map dependency_json ds))])] in
       if HarnessDependenciesPinnedEventSchema event then Inr event else Inl OtherError)"

section \<open>The registry of reviewed pins\<close>

record FixtureBackedHarnessDependencyResolver =
  fr_registryId :: string
  fr_pinsByName :: "string \<rightharpoonup> ReviewedDependencyPin list"

definition verifyReviewedPinHash :: "(string \<Rightarrow> string) \<Rightarrow> ReviewedDependencyPin \<Rightarrow> thrown + unit" where
  "verifyReviewedPinHash sha pin =
     (if dependencyContentHash sha (pin_content pin) \<noteq> rd_contentHash pin
      then Inl (DependencyResolutionError DependencyHashMismatch (Some (rd_name pin))) else Inr ())"

fun add_pins :: "locale_compare \<Rightarrow> (string \<Rightarrow> string) \<Rightarrow> ReviewedDependencyPin list \<Rightarrow>
  (string \<rightharpoonup> ReviewedDependencyPin list) \<Rightarrow> thrown + (string \<rightharpoonup> ReviewedDependencyPin list)" where
  "add_pins lc sha [] pinsByName = Inr pinsByName"
| "add_pins lc sha (pin # rest) pinsByName =
     bindE (verifyReviewedPinHash sha pin) (\<lambda>_.
       add_pins lc sha rest
         (pinsByName(rd_name pin \<mapsto>
            js_sort (comparePins lc) (default (pinsByName (rd_name pin)) [] @ [pin]))))"

definition createDependencyRegistry ::
  "locale_compare \<Rightarrow> (string \<Rightarrow> string) \<Rightarrow> json \<Rightarrow> thrown + FixtureBackedHarnessDependencyResolver" where
  "createDependencyRegistry lc sha input =
     (if \<not> DependencyRegistrySchema input
      then Inl (DependencyResolutionError MalformedDependencyRegistry None)
      else bindE (add_pins lc sha (map pin_of (js_elems (js_get input ''pins''))) Map.empty) (\<lambda>pinsByName.
        Inr \<lparr>fr_registryId = the_str (fstr input ''registryId''), fr_pinsByName = pinsByName\<rparr>))"

definition versionRangeMatchesPinnedVersion :: "string \<Rightarrow> string \<Rightarrow> bool" where
  "versionRangeMatchesPinnedVersion versionRange version \<longleftrightarrow> versionRange = version \<or> versionRange = ''='' @ version"

definition assertResolverTrustTier ::
  "HarnessDependencyDeclaration \<Rightarrow> ReviewedDependencyPin \<Rightarrow> DependencyResolutionContext \<Rightarrow> thrown + unit" where
  "assertResolverTrustTier declaration pin context =
     (let requiredTrustTier = or_else (dd_trustTier declaration) (dc_trustTier context) in
      if requiredTrustTier = None \<or> rd_trustTier pin = requiredTrustTier then Inr ()
      else Inl (DependencyResolutionError DependencyTrustTierViolation (Some (dd_name declaration))))"

definition resolve_declaration :: "FixtureBackedHarnessDependencyResolver \<Rightarrow> DependencyResolutionContext \<Rightarrow>
  HarnessDependencyDeclaration \<Rightarrow> thrown + ResolvedDependency" where
  "resolve_declaration registry context declaration =
     (case find (\<lambda>candidate. versionRangeMatchesPinnedVersion (dd_versionRange declaration) (rd_version candidate))
             (default (fr_pinsByName registry (dd_name declaration)) []) of
        None \<Rightarrow> Inl (DependencyResolutionError DependencyUnresolved (Some (dd_name declaration)))
      | Some pin \<Rightarrow>
          bindE (assertResolverTrustTier declaration pin context) (\<lambda>_.
            parse_resolved (ResolvedDependency.truncate pin)))"

definition registry_resolve :: "FixtureBackedHarnessDependencyResolver \<Rightarrow> HarnessDependencyResolver" where
  "registry_resolve registry declarations context = mapE (resolve_declaration registry context) declarations"

definition DEFAULT_DEPENDENCY_RESOLVER :: FixtureBackedHarnessDependencyResolver where
  "DEFAULT_DEPENDENCY_RESOLVER =
     \<lparr>fr_registryId = ''specwright.local.dependencies.empty'', fr_pinsByName = Map.empty\<rparr>"

section \<open>Resolution\<close>

definition parseDependencyDeclarations :: "locale_compare \<Rightarrow> json \<Rightarrow> thrown + HarnessDependencyDeclaration list" where
  "parseDependencyDeclarations lc manifest =
     (let rawDependencies = js_get manifest ''dependencies'' in
      if rawDependencies = JUndefined then Inr []
      else if \<not> z_array HarnessDependencyDeclarationSchema rawDependencies
      then Inl (DependencyResolutionError MalformedDependencyDeclaration None)
      else Inr (canonicalizeDeclarations lc (map declaration_of (js_elems rawDependencies))))"

definition all_digits :: "string \<Rightarrow> bool" where
  "all_digits s \<longleftrightarrow> s \<noteq> [] \<and> list_all is_digit s"

definition plain_version :: "string \<Rightarrow> bool" where
  "plain_version s \<longleftrightarrow> length (split_on CHR ''.'' s) = 3 \<and> list_all all_digits (split_on CHR ''.'' s)"

definition isExactVersionRange :: "string \<Rightarrow> bool" where
  "isExactVersionRange versionRange \<longleftrightarrow>
     plain_version versionRange \<or> starts_with ''='' versionRange \<and> plain_version (tl versionRange)"

definition manifestTrustTier :: "json \<Rightarrow> string option" where
  "manifestTrustTier manifest =
     (case js_get (js_get manifest ''metadata'') ''trustTier'' of
        JStr trustTier \<Rightarrow> if trustTier \<noteq> [] then Some trustTier else None
      | _ \<Rightarrow> None)"

definition declaration_defect :: "bool \<Rightarrow> HarnessDependencyDeclaration option \<Rightarrow> HarnessDependencyDeclaration \<Rightarrow>
  DependencyRejectReason option" where
  "declaration_defect strict existing declaration =
     (if existing \<noteq> None \<and>
         (dd_versionRange (the existing) \<noteq> dd_versionRange declaration \<or>
          dd_pinnedHash (the existing) \<noteq> dd_pinnedHash declaration \<or>
          dd_trustTier (the existing) \<noteq> dd_trustTier declaration) then Some DependencyConflict
      else if strict \<and> dd_pinnedHash declaration = None then Some DependencyUnpinned
      else if strict \<and> \<not> isExactVersionRange (dd_versionRange declaration) then Some DependencyRangeNotPinned
      else None)"

fun validateDeclarationsFailClosed :: "bool \<Rightarrow> (string \<rightharpoonup> HarnessDependencyDeclaration) \<Rightarrow>
  HarnessDependencyDeclaration list \<Rightarrow> thrown + unit" where
  "validateDeclarationsFailClosed strict seen [] = Inr ()"
| "validateDeclarationsFailClosed strict seen (declaration # rest) =
     (case declaration_defect strict (seen (dd_name declaration)) declaration of
        Some reason \<Rightarrow> Inl (DependencyResolutionError reason (Some (dd_name declaration)))
      | None \<Rightarrow> validateDeclarationsFailClosed strict (seen(dd_name declaration \<mapsto> declaration)) rest)"

fun pins_by_name :: "ResolvedDependency list \<Rightarrow> (string \<rightharpoonup> ResolvedDependency) \<Rightarrow>
  thrown + (string \<rightharpoonup> ResolvedDependency)" where
  "pins_by_name [] dependenciesByName = Inr dependenciesByName"
| "pins_by_name (dependency # rest) dependenciesByName =
     bindE (parse_resolved dependency) (\<lambda>parsed.
       if (case dependenciesByName (rd_name parsed) of None \<Rightarrow> False
           | Some existing \<Rightarrow> rd_version existing \<noteq> rd_version parsed \<or>
               rd_contentHash existing \<noteq> rd_contentHash parsed \<or> rd_trustTier existing \<noteq> rd_trustTier parsed)
       then Inl (DependencyResolutionError DependencyConflict (Some (rd_name parsed)))
       else pins_by_name rest (dependenciesByName(rd_name parsed \<mapsto> parsed)))"

definition pin_for :: "(string \<rightharpoonup> ResolvedDependency) \<Rightarrow> string option \<Rightarrow> HarnessDependencyDeclaration \<Rightarrow>
  thrown + ResolvedDependency" where
  "pin_for dependenciesByName packageTrustTier declaration =
     (let fail = (\<lambda>reason. Inl (DependencyResolutionError reason (Some (dd_name declaration)))) in
      case dependenciesByName (dd_name declaration) of
        None \<Rightarrow> fail DependencyUnresolved
      | Some dependency \<Rightarrow>
          let requiredTrustTier = or_else (dd_trustTier declaration) packageTrustTier in
          if requiredTrustTier \<noteq> None \<and> rd_trustTier dependency \<noteq> requiredTrustTier
          then fail DependencyTrustTierViolation
          else if dd_pinnedHash declaration \<noteq> None \<and> dd_pinnedHash declaration \<noteq> Some (rd_contentHash dependency)
          then fail DependencyHashMismatch
          else Inr dependency)"

definition verifyResolvedPins :: "locale_compare \<Rightarrow> HarnessDependencyDeclaration list \<Rightarrow>
  ResolvedDependency list \<Rightarrow> string option \<Rightarrow> thrown + DependencyResolution" where
  "verifyResolvedPins lc declarations dependencies packageTrustTier =
     bindE (pins_by_name dependencies Map.empty) (\<lambda>dependenciesByName.
     bindE (mapE (pin_for dependenciesByName packageTrustTier) declarations) (\<lambda>resolved.
     bindE (canonicalizeResolvedDependencies lc resolved) (\<lambda>canonical.
       Inr \<lparr>dn_declarations = canonicalizeDeclarations lc declarations, dn_resolved = canonical\<rparr>)))"

definition resolveAndPinDependencies :: "locale_compare \<Rightarrow> HarnessDependencyResolver \<Rightarrow> json \<Rightarrow> bool \<Rightarrow>
  thrown + DependencyResolution" where
  "resolveAndPinDependencies lc resolver manifest strict =
     bindE (parseDependencyDeclarations lc manifest) (\<lambda>declarations.
       if declarations = [] then Inr \<lparr>dn_declarations = [], dn_resolved = []\<rparr>
       else bindE (validateDeclarationsFailClosed strict Map.empty declarations) (\<lambda>_.
         let packageTrustTier = manifestTrustTier manifest in
         case resolver declarations
                \<lparr>dc_packageId = the_str (fstr manifest ''id''), dc_packageVersion = the_str (fstr manifest ''version''),
                 dc_strict = strict, dc_trustTier = packageTrustTier\<rparr> of
           Inl OtherError \<Rightarrow> Inl (DependencyResolutionError ResolverFailed None)
         | Inl error \<Rightarrow> Inl error
         | Inr resolvedDependencies \<Rightarrow> verifyResolvedPins lc declarations resolvedDependencies packageTrustTier))"

section \<open>Facts\<close>

lemma declaration_defect_None: "declaration_defect strict existing d = None \<longleftrightarrow>
    (\<forall>e. existing = Some e \<longrightarrow> dd_versionRange e = dd_versionRange d \<and> dd_pinnedHash e = dd_pinnedHash d \<and>
       dd_trustTier e = dd_trustTier d) \<and>
    (strict \<longrightarrow> dd_pinnedHash d \<noteq> None \<and> isExactVersionRange (dd_versionRange d))"
  by (cases existing) (auto simp: declaration_defect_def)

lemma validate_Cons:
  assumes "validateDeclarationsFailClosed strict seen (d # rest) = Inr u"
  shows "validateDeclarationsFailClosed strict (seen(dd_name d \<mapsto> d)) rest = Inr u"
    "declaration_defect strict (seen (dd_name d)) d = None"
  using assms by (simp_all split: option.splits)

lemma validate_strict:
  assumes "validateDeclarationsFailClosed True seen ds = Inr u" "d \<in> set ds"
  shows "dd_pinnedHash d \<noteq> None \<and> isExactVersionRange (dd_versionRange d)"
  using assms
proof (induction ds arbitrary: seen)
  case (Cons c rest)
  show ?case
  proof (cases "d = c")
    case True
    with validate_Cons(2) [OF Cons.prems(1)] show ?thesis by (simp add: declaration_defect_None)
  next
    case False
    with Cons.IH [OF validate_Cons(1) [OF Cons.prems(1)]] Cons.prems(2) show ?thesis by simp
  qed
qed simp

lemma validate_seen:
  assumes "validateDeclarationsFailClosed strict seen ds = Inr u" and "keyed_by dd_name seen" and "d \<in> set ds"
  shows "seen (dd_name d) = None \<or> seen (dd_name d) = Some d"
  using assms
proof (induction ds arbitrary: seen)
  case (Cons c rest)
  have here: "seen (dd_name c) = None \<or> seen (dd_name c) = Some c"
  proof (cases "seen (dd_name c)")
    case (Some e)
    with validate_Cons(2) [OF Cons.prems(1)] keyed_byD [OF Cons.prems(2) Some] have "e = c"
      by (simp add: declaration_defect_None)
    with Some show ?thesis by simp
  qed simp
  show ?case
  proof (cases "d \<in> set rest")
    case True
    have "(seen(dd_name c \<mapsto> c)) (dd_name d) = None \<or> (seen(dd_name c \<mapsto> c)) (dd_name d) = Some d"
      by (rule Cons.IH [OF validate_Cons(1) [OF Cons.prems(1)] keyed_by_upd [OF Cons.prems(2)] True])
    with here show ?thesis by (cases "dd_name d = dd_name c") auto
  next
    case False
    with Cons.prems(3) here show ?thesis by simp
  qed
qed simp

lemma validate_unique:
  assumes "validateDeclarationsFailClosed strict seen ds = Inr u" and "keyed_by dd_name seen"
    and "d \<in> set ds" "e \<in> set ds" "dd_name d = dd_name e"
  shows "d = e"
  using assms
proof (induction ds arbitrary: seen d e)
  case (Cons c rest)
  note rest = validate_Cons(1) [OF Cons.prems(1)] and named = keyed_by_upd [OF Cons.prems(2), of c]
  have same: "x = c" if "x \<in> set rest" "dd_name x = dd_name c" for x
    using validate_seen [OF rest named that(1)] that(2) by simp
  show ?case
    using Cons.IH [OF rest named] Cons.prems(3-5) same by (metis set_ConsD)
qed simp

lemma pins_by_name_ok:
  assumes "pins_by_name ds m = Inr m'" and "m' n = Some d"
  shows "m n = Some d \<or> d \<in> set ds \<and> rd_name d = n \<and> ResolvedDependencySchema_ok d"
  using assms
proof (induction ds arbitrary: m)
  case (Cons c rest)
  from Cons.prems(1) have ok: "ResolvedDependencySchema_ok c"
    and rest: "pins_by_name rest (m(rd_name c \<mapsto> c)) = Inr m'"
    by (auto simp: parse_resolved_def split: if_splits)
  from Cons.IH [OF rest Cons.prems(2)] ok show ?case by (auto split: if_splits)
qed simp

lemma canonicalize_Inr: "canonicalizeResolvedDependencies lc ds = Inr rs \<Longrightarrow>
    mset rs = mset ds \<and> (\<forall>d \<in> set rs. ResolvedDependencySchema_ok d)"
proof -
  assume "canonicalizeResolvedDependencies lc ds = Inr rs"
  then obtain es where es: "mapE parse_resolved ds = Inr es" and rs: "rs = js_sort (compareResolvedDependencies lc) es"
    by (auto simp: canonicalizeResolvedDependencies_def bindE_Inr_iff)
  from es have "es = ds \<and> (\<forall>d \<in> set ds. ResolvedDependencySchema_ok d)"
    by (induction ds arbitrary: es) (auto simp: parse_resolved_def split: sum.splits if_splits)
  with rs show ?thesis by simp
qed

lemma canonicalize_ok:
  assumes "\<forall>d \<in> set ds. ResolvedDependencySchema_ok d"
  shows "canonicalizeResolvedDependencies lc ds = Inr (js_sort (compareResolvedDependencies lc) ds)"
proof -
  have "mapE parse_resolved ds = Inr ds"
    using assms by (induction ds) (auto simp: parse_resolved_def)
  then show ?thesis by (simp add: canonicalizeResolvedDependencies_def)
qed

text \<open>What a declaration asks of its pin.\<close>

definition meets :: "string option \<Rightarrow> HarnessDependencyDeclaration \<Rightarrow> ResolvedDependency \<Rightarrow> bool" where
  "meets tier d p \<longleftrightarrow> rd_name p = dd_name d \<and>
     (dd_pinnedHash d \<noteq> None \<longrightarrow> dd_pinnedHash d = Some (rd_contentHash p)) \<and>
     (or_else (dd_trustTier d) tier \<noteq> None \<longrightarrow> rd_trustTier p = or_else (dd_trustTier d) tier)"

lemma pin_for_Inr:
  "pin_for m tier d = Inr p \<Longrightarrow> m (dd_name d) = Some p \<and> (rd_name p = dd_name d \<longrightarrow> meets tier d p)"
  by (auto simp: pin_for_def meets_def Let_def split: option.splits if_splits)

lemma verify_Inr:
  assumes "verifyResolvedPins lc ds answer tier = Inr r"
  obtains m where "pins_by_name answer Map.empty = Inr m" "mset (dn_declarations r) = mset ds"
    "rd_name ` set (dn_resolved r) = dd_name ` set ds"
    "\<forall>p \<in> set (dn_resolved r). m (rd_name p) = Some p \<and> p \<in> set answer \<and> ResolvedDependencySchema_ok p"
    "\<forall>d \<in> set ds. \<forall>p. m (dd_name d) = Some p \<longrightarrow> meets tier d p"
proof -
  from assms obtain m resolved canonical where m: "pins_by_name answer Map.empty = Inr m"
    and resolved: "list_all2 (\<lambda>d p. pin_for m tier d = Inr p) ds resolved"
    and canonical: "canonicalizeResolvedDependencies lc resolved = Inr canonical"
    and r: "r = \<lparr>dn_declarations = canonicalizeDeclarations lc ds, dn_resolved = canonical\<rparr>"
    by (auto simp: verifyResolvedPins_def bindE_Inr_iff mapE_Inr_iff)
  have known: "p \<in> set answer \<and> rd_name p = n \<and> ResolvedDependencySchema_ok p" if "m n = Some p" for n p
    using pins_by_name_ok [OF m that] by simp
  have set_eq: "set canonical = set resolved"
    using canonicalize_Inr [OF canonical] by (metis set_mset_mset)
  have pin: "m (dd_name d) = Some p \<and> meets tier d p" if "pin_for m tier d = Inr p" for d p
    using pin_for_Inr [OF that] known by auto
  have paired: "\<forall>p \<in> set resolved. \<exists>d \<in> set ds. pin_for m tier d = Inr p"
    "\<forall>d \<in> set ds. \<exists>p \<in> set resolved. pin_for m tier d = Inr p"
    using list_all2_partner [OF resolved] by blast+
  have name: "rd_name p = dd_name d" if "pin_for m tier d = Inr p" for d p
    using pin [OF that] by (simp add: meets_def)
  have names: "rd_name ` set resolved = dd_name ` set ds"
  proof
    show "rd_name ` set resolved \<subseteq> dd_name ` set ds" using paired(1) name by blast
    show "dd_name ` set ds \<subseteq> rd_name ` set resolved" using paired(2) name by (metis image_eqI image_subsetI)
  qed
  have meets: "\<forall>d \<in> set ds. \<forall>p. m (dd_name d) = Some p \<longrightarrow> meets tier d p"
    using paired(2) pin by fastforce
  show thesis
  proof (rule that [OF m _ _ _ meets])
    show "mset (dn_declarations r) = mset ds"
      by (simp add: r canonicalizeDeclarations_def)
    show "rd_name ` set (dn_resolved r) = dd_name ` set ds"
      by (simp add: r set_eq names)
    show "\<forall>p \<in> set (dn_resolved r). m (rd_name p) = Some p \<and> p \<in> set answer \<and> ResolvedDependencySchema_ok p"
    proof
      fix p
      assume "p \<in> set (dn_resolved r)"
      then obtain d where "pin_for m tier d = Inr p" using paired(1) by (auto simp: r set_eq)
      then show "m (rd_name p) = Some p \<and> p \<in> set answer \<and> ResolvedDependencySchema_ok p"
        using pin name known by metis
    qed
  qed
qed

lemma resolution_Inr:
  assumes "resolveAndPinDependencies lc resolver manifest strict = Inr r"
  obtains (none) "parseDependencyDeclarations lc manifest = Inr []" "r = \<lparr>dn_declarations = [], dn_resolved = []\<rparr>"
  | (pinned) ds answer cx where "parseDependencyDeclarations lc manifest = Inr ds"
    "validateDeclarationsFailClosed strict Map.empty ds = Inr ()" "dc_trustTier cx = manifestTrustTier manifest"
    "resolver ds cx = Inr answer" "verifyResolvedPins lc ds answer (manifestTrustTier manifest) = Inr r"
proof -
  from assms obtain ds where ds: "parseDependencyDeclarations lc manifest = Inr ds"
    by (auto simp: resolveAndPinDependencies_def bindE_Inr_iff)
  show thesis
  proof (cases "ds = []")
    case True
    with assms ds show thesis by (intro none) (simp_all add: resolveAndPinDependencies_def)
  next
    case False
    let ?c = "\<lparr>dc_packageId = the_str (fstr manifest ''id''), dc_packageVersion = the_str (fstr manifest ''version''),
                 dc_strict = strict, dc_trustTier = manifestTrustTier manifest\<rparr>"
    from assms ds False obtain u answer where "validateDeclarationsFailClosed strict Map.empty ds = Inr u"
      "resolver ds ?c = Inr answer" "verifyResolvedPins lc ds answer (manifestTrustTier manifest) = Inr r"
      by (auto simp: resolveAndPinDependencies_def bindE_Inr_iff Let_def split: sum.splits thrown.splits)
    with ds show thesis by (intro pinned [of ds ?c answer]) simp_all
  qed
qed

lemma add_pins_known:
  assumes "add_pins lc sha pins m = Inr m'" and "m' n = Some ps" and "pin \<in> set ps"
  shows "(\<exists>qs. m n = Some qs \<and> pin \<in> set qs) \<or>
    pin \<in> set pins \<and> rd_name pin = n \<and> dependencyContentHash sha (pin_content pin) = rd_contentHash pin"
  using assms
proof (induction pins arbitrary: m)
  case (Cons c rest)
  let ?m = "m(rd_name c \<mapsto> js_sort (comparePins lc) (default (m (rd_name c)) [] @ [c]))"
  from Cons.prems(1) have ok: "dependencyContentHash sha (pin_content c) = rd_contentHash c"
    and rest: "add_pins lc sha rest ?m = Inr m'"
    by (auto simp: verifyReviewedPinHash_def bindE_Inr_iff split: if_splits)
  from Cons.IH [OF rest Cons.prems(2,3)] ok show ?case
    by (cases "m (rd_name c)") (auto split: if_splits)
qed simp

lemma registry_pin:
  assumes "createDependencyRegistry lc sha input = Inr registry"
    and "resolve_declaration registry cx d = Inr p"
  shows "\<exists>pin \<in> set (map pin_of (js_elems (js_get input ''pins''))). p = ResolvedDependency.truncate pin \<and>
    rd_name p = dd_name d \<and> dependencyContentHash sha (pin_content pin) = rd_contentHash p \<and>
    versionRangeMatchesPinnedVersion (dd_versionRange d) (rd_version p)"
proof -
  from assms(1) obtain m where m: "add_pins lc sha (map pin_of (js_elems (js_get input ''pins''))) Map.empty = Inr m"
    "fr_pinsByName registry = m"
    by (auto simp: createDependencyRegistry_def bindE_Inr_iff split: if_splits)
  from assms(2) obtain pin where pin: "find (\<lambda>candidate. versionRangeMatchesPinnedVersion (dd_versionRange d) (rd_version candidate))
      (default (m (dd_name d)) []) = Some pin" "p = ResolvedDependency.truncate pin"
    by (auto simp: resolve_declaration_def m(2) parse_resolved_def bindE_Inr_iff split: option.splits if_splits)
  from find_Some_iff_in [OF pin(1)] obtain ps where "m (dd_name d) = Some ps" "pin \<in> set ps"
    "versionRangeMatchesPinnedVersion (dd_versionRange d) (rd_version pin)"
    by (cases "m (dd_name d)") auto
  with add_pins_known [OF m(1) this(1,2)] pin(2) show ?thesis
    by (intro bexI [of _ pin]) (auto simp: ResolvedDependency.defs)
qed

section \<open>Resolutions are pinned\<close>

text \<open>
  C14: A resolution that returns covers the declarations of the manifest, whatever the resolver answered:
  every declaration has exactly one pin of its name, the pin has the declared content hash and the
  declared trust tier or else the tier of the package, nothing else is pinned, and in strict mode every
  declaration names a hash and an exact version.
\<close>

theorem resolution_meets_declarations:
  assumes "resolveAndPinDependencies lc resolver manifest strict = Inr r"
  shows "(\<exists>ds. parseDependencyDeclarations lc manifest = Inr ds \<and> mset (dn_declarations r) = mset ds) \<and>
    rd_name ` set (dn_resolved r) = dd_name ` set (dn_declarations r) \<and>
    (\<forall>p \<in> set (dn_resolved r). ResolvedDependencySchema_ok p) \<and>
    (\<forall>p \<in> set (dn_resolved r). \<forall>q \<in> set (dn_resolved r). rd_name p = rd_name q \<longrightarrow> p = q) \<and>
    (\<forall>d \<in> set (dn_declarations r). \<forall>p \<in> set (dn_resolved r).
       rd_name p = dd_name d \<longrightarrow> meets (manifestTrustTier manifest) d p) \<and>
    (strict \<longrightarrow> (\<forall>d \<in> set (dn_declarations r). dd_pinnedHash d \<noteq> None \<and> isExactVersionRange (dd_versionRange d)))"
  using assms
proof (cases rule: resolution_Inr)
  case (pinned ds answer cx)
  from pinned(5) obtain m where m: "mset (dn_declarations r) = mset ds"
    "rd_name ` set (dn_resolved r) = dd_name ` set ds"
    "\<forall>p \<in> set (dn_resolved r). m (rd_name p) = Some p \<and> p \<in> set answer \<and> ResolvedDependencySchema_ok p"
    "\<forall>d \<in> set ds. \<forall>p. m (dd_name d) = Some p \<longrightarrow> meets (manifestTrustTier manifest) d p"
    by (rule verify_Inr)
  have ds: "set (dn_declarations r) = set ds" using m(1) by (metis set_mset_mset)
  have "p = q" if "p \<in> set (dn_resolved r)" "q \<in> set (dn_resolved r)" "rd_name p = rd_name q" for p q
    using m(3) that by (metis option.inject)
  moreover have "strict \<longrightarrow> (\<forall>d \<in> set ds. dd_pinnedHash d \<noteq> None \<and> isExactVersionRange (dd_versionRange d))"
    using pinned(2) validate_strict by (cases strict) auto
  moreover have "meets (manifestTrustTier manifest) d p"
    if "d \<in> set ds" "p \<in> set (dn_resolved r)" "rd_name p = dd_name d" for d p
    using m(3,4) that by metis
  ultimately show ?thesis
    unfolding ds using pinned(1) m(1-3) by blast
qed simp

text \<open>A registry with one pin, a manifest that declares it, and a comparator by code units.\<close>

definition hx_compare :: locale_compare where
  "hx_compare a b = (if a < b then -1 else if a = b then 0 else 1)"

definition hx_digest :: "string \<Rightarrow> string" where
  "hx_digest s = replicate 64 CHR ''0''"

definition hx_pins :: json where
  "hx_pins = JObj [(''registryId'', JStr ''r''),
     (''pins'', JArr [JObj [(''name'', JStr ''lib''), (''version'', JStr ''1.0.0''),
        (''contentHash'', JStr (''sha256:'' @ hx_digest [])), (''trustTier'', JStr ''core''), (''content'', JStr ''x'')]])]"

definition hx_manifest :: json where
  "hx_manifest = JObj [(''id'', JStr ''pkg''), (''version'', JStr ''0.1.0''),
     (''metadata'', JObj [(''trustTier'', JStr ''core'')]),
     (''dependencies'', JArr [JObj [(''name'', JStr ''lib''), (''versionRange'', JStr ''=1.0.0''),
        (''pinnedHash'', JStr (''sha256:'' @ hx_digest []))]])]"

definition hx_resolver :: FixtureBackedHarnessDependencyResolver where
  "hx_resolver = (case createDependencyRegistry hx_compare hx_digest hx_pins of
     Inr r \<Rightarrow> r | Inl e \<Rightarrow> DEFAULT_DEPENDENCY_RESOLVER)"

lemma hx_registry_built: "createDependencyRegistry hx_compare hx_digest hx_pins = Inr hx_resolver"
proof -
  have "is_ok (createDependencyRegistry hx_compare hx_digest hx_pins)" by code_simp
  then show ?thesis by (auto simp: hx_resolver_def is_ok_iff)
qed

lemma hx_resolution:
  "map_sum (\<lambda>e. e) dn_resolved (resolveAndPinDependencies hx_compare (registry_resolve hx_resolver) hx_manifest True) =
   Inr [\<lparr>rd_name = ''lib'', rd_version = ''1.0.0'', rd_contentHash = ''sha256:'' @ hx_digest [], rd_trustTier = Some ''core''\<rparr>]"
  by code_simp

theorem resolution_meets_declarations_witness:
  "\<exists>r. resolveAndPinDependencies hx_compare (registry_resolve hx_resolver) hx_manifest True = Inr r \<and>
     (\<forall>d \<in> set (dn_declarations r). dd_pinnedHash d \<noteq> None)"
proof -
  obtain r where r: "resolveAndPinDependencies hx_compare (registry_resolve hx_resolver) hx_manifest True = Inr r"
    using hx_resolution by (cases "resolveAndPinDependencies hx_compare (registry_resolve hx_resolver) hx_manifest True") auto
  with resolution_meets_declarations [OF r] show ?thesis by blast
qed

text \<open>
  With a registry as the resolver every pin is a reviewed pin of the registry: its content has the
  hash it is pinned to and its version is the one that a declaration of its name asks for.
\<close>

theorem registry_pins_are_reviewed:
  assumes "createDependencyRegistry lc sha input = Inr registry"
    and "resolveAndPinDependencies lc (registry_resolve registry) manifest strict = Inr r" and "p \<in> set (dn_resolved r)"
  shows "\<exists>pin \<in> set (map pin_of (js_elems (js_get input ''pins''))). \<exists>d \<in> set (dn_declarations r).
    p = ResolvedDependency.truncate pin \<and> dependencyContentHash sha (pin_content pin) = rd_contentHash p \<and>
    dd_name d = rd_name p \<and> versionRangeMatchesPinnedVersion (dd_versionRange d) (rd_version p)"
  using assms(2)
proof (cases rule: resolution_Inr)
  case none
  with assms(3) show ?thesis by simp
next
  case (pinned ds answer cx)
  from pinned(5) obtain m where m: "mset (dn_declarations r) = mset ds"
    "\<forall>p \<in> set (dn_resolved r). m (rd_name p) = Some p \<and> p \<in> set answer \<and> ResolvedDependencySchema_ok p"
    by (rule verify_Inr)
  from pinned(4) have "list_all2 (\<lambda>d p. resolve_declaration registry cx d = Inr p) ds answer"
    by (simp add: registry_resolve_def mapE_Inr_iff)
  from list_all2_partner(2) [OF this] m(2) assms(3)
  obtain d where d: "d \<in> set ds" "resolve_declaration registry cx d = Inr p" by blast
  have "d \<in> set (dn_declarations r)" using d(1) m(1) by (metis set_mset_mset)
  with registry_pin [OF assms(1) d(2)] show ?thesis by metis
qed

theorem registry_pins_are_reviewed_witness:
  "\<exists>pin \<in> set (map pin_of (js_elems (js_get hx_pins ''pins''))).
     rd_name pin = ''lib'' \<and> dependencyContentHash hx_digest (pin_content pin) = ''sha256:'' @ hx_digest []"
proof -
  let ?p = "\<lparr>rd_name = ''lib'', rd_version = ''1.0.0'', rd_contentHash = ''sha256:'' @ hx_digest [], rd_trustTier = Some ''core''\<rparr>"
  obtain r where r: "resolveAndPinDependencies hx_compare (registry_resolve hx_resolver) hx_manifest True = Inr r"
    and p: "?p \<in> set (dn_resolved r)"
    using hx_resolution by (cases "resolveAndPinDependencies hx_compare (registry_resolve hx_resolver) hx_manifest True") auto
  from registry_pins_are_reviewed [OF hx_registry_built r p] show ?thesis
    by (auto simp: ResolvedDependency.defs)
qed

text \<open>
  The version of an answer is not compared with the declaration: with another resolver a strict
  resolution may return any version, as long as the content hash is the declared one.
\<close>

lemma resolved_version_is_not_checked:
  "map_sum (\<lambda>e. e) (\<lambda>r. map rd_version (dn_resolved r)) (resolveAndPinDependencies hx_compare
     (\<lambda>ds cx. Inr [\<lparr>rd_name = ''lib'', rd_version = ''9'', rd_contentHash = ''sha256:'' @ hx_digest [], rd_trustTier = Some ''core''\<rparr>])
     hx_manifest True) = Inr [''9'']"
  by code_simp

end
