(* ===== verification/Harness_Trust.thy ===== *)
theory Harness_Trust
  imports Harness_Dependencies Canonical_Json
begin

text \<open>
  Trust of a harness package (\<^verbatim>\<open>harness-loader/src/trust.ts\<close> and \<^verbatim>\<open>verifyTrustIfConfigured\<close> of
  \<^verbatim>\<open>harness-loader/src/index.ts\<close>): trust stores, signature envelopes and the verification that a
  publisher with an active key has signed the hash of the package. What the Node.js runtime does is a
  parameter: base64, SHA-256, public keys, the check of an Ed25519 signature, the parsing of dates and the
  clock. Thrown errors keep their reason, publisher, key and store version; the other details are left out.

  The results: a verdict exists only when an active key of the trust store, valid at the time of the
  check, has signed the canonical text of an attestation of exactly this package hash; the canonical
  text determines the attestation; in strict mode no package passes without a verdict.
\<close>

section \<open>The runtime\<close>

datatype key_input = Pem string | Der string

record 'k trust_env =
  te_decode :: "string \<Rightarrow> string"
  te_encode :: "string \<Rightarrow> string"
  te_sha :: "string \<Rightarrow> string"
  te_createPublicKey :: "key_input \<Rightarrow> 'k option"
  te_verify :: "string \<Rightarrow> 'k \<Rightarrow> string \<Rightarrow> bool option"
  te_getTime :: "string \<Rightarrow> int option"
  te_datetime :: "string \<Rightarrow> bool"
  te_clock :: int

text \<open>
  \<^verbatim>\<open>new Date(s).getTime()\<close> is \<open>None\<close> for an invalid date, with which no comparison holds;
  \<^verbatim>\<open>createPublicKey\<close> and \<^verbatim>\<open>verify\<close> are \<open>None\<close> where they throw.
\<close>

definition trim :: "string \<Rightarrow> string" where
  "trim s = rev (dropWhile is_space (rev (dropWhile is_space s)))"

definition strip_padding :: "string \<Rightarrow> string" where
  "strip_padding s = rev (dropWhile (\<lambda>c. c = CHR ''='') (rev s))"

definition decodeBase64 :: "'k trust_env \<Rightarrow> string \<Rightarrow> string option" where
  "decodeBase64 env value =
     (let compact = filter (\<lambda>c. \<not> is_space c) value; decoded = te_decode env compact in
      if decoded = [] then None
      else if strip_padding compact \<noteq> strip_padding (te_encode env decoded) then None
      else Some decoded)"

section \<open>Data and schemas\<close>

datatype TrustRejectReason =
    UntrustedPublisher
  | UnknownKey
  | RevokedKey
  | ExpiredKey
  | BadSignature
  | UnsupportedAlgorithm
  | AttestationMismatch
  | SpecHashMismatch
  | UnsignedInStrictMode
  | MalformedTrustMetadata
  | SignatureExpired
  | SignatureNotYetValid

record TrustRejectedError =
  tr_reason :: TrustRejectReason
  tr_publisherId :: "string option"
  tr_signingKeyId :: "string option"
  tr_trustStoreVersion :: "string option"

record Attestation =
  at_publisherId :: string
  at_specHash :: string
  at_schemaVersion :: string
  at_notBefore :: "string option"
  at_notAfter :: "string option"

record SignatureEnvelope =
  se_publisherId :: string
  se_signingKeyId :: string
  se_algorithm :: string
  se_signature :: string
  se_signatureRef :: "string option"
  se_attestation :: Attestation

record TrustStoreEntry =
  ts_publisherId :: string
  ts_signingKeyId :: string
  ts_publicKey :: string
  ts_status :: string
  ts_notBefore :: "string option"
  ts_notAfter :: "string option"

record TrustVerdict =
  tv_publisherId :: string
  tv_signingKeyId :: string
  tv_signatureRef :: string
  tv_trustStoreVersion :: string
  tv_specHash :: string

text \<open>
  The interface of a trust store: a version, which TypeScript declares to be a string but the code
  checks, the entry of a key (\<open>JUndefined\<close> for none) and optionally whether a publisher is known.
\<close>

record TrustStore =
  st_version :: json
  st_resolve :: "string \<Rightarrow> string \<Rightarrow> json"
  st_hasPublisher :: "(string \<Rightarrow> bool) option"

definition isoDateTimeString :: "'k trust_env \<Rightarrow> json \<Rightarrow> bool" where
  "isoDateTimeString env v = (case v of JStr s \<Rightarrow> te_datetime env s | _ \<Rightarrow> False)"

definition TrustStoreEntrySchema :: "'k trust_env \<Rightarrow> json \<Rightarrow> bool" where
  "TrustStoreEntrySchema env = z_strict
     [(''publisherId'', nonEmptyString), (''signingKeyId'', nonEmptyString), (''publicKey'', nonEmptyString),
      (''algorithm'', \<lambda>v. v = JStr ''ed25519''), (''status'', z_enum [''active'', ''revoked'', ''expired'']),
      (''notBefore'', z_optional (isoDateTimeString env)), (''notAfter'', z_optional (isoDateTimeString env))]"

definition TrustStoreSchema :: "'k trust_env \<Rightarrow> json \<Rightarrow> bool" where
  "TrustStoreSchema env = z_strict
     [(''version'', nonEmptyString), (''entries'', z_array (TrustStoreEntrySchema env))]"

definition AttestationSchema :: "'k trust_env \<Rightarrow> json \<Rightarrow> bool" where
  "AttestationSchema env = z_strict
     [(''publisherId'', nonEmptyString), (''specHash'', \<lambda>v. case v of JStr s \<Rightarrow> sha256_text s | _ \<Rightarrow> False),
      (''schemaVersion'', nonEmptyString),
      (''notBefore'', z_optional (isoDateTimeString env)), (''notAfter'', z_optional (isoDateTimeString env))]"

definition base64String :: "'k trust_env \<Rightarrow> json \<Rightarrow> bool" where
  "base64String env v = (case v of JStr s \<Rightarrow> s \<noteq> [] \<and> decodeBase64 env s \<noteq> None | _ \<Rightarrow> False)"

definition SignatureEnvelopeSchema :: "'k trust_env \<Rightarrow> json \<Rightarrow> bool" where
  "SignatureEnvelopeSchema env = z_strict
     [(''publisherId'', nonEmptyString), (''signingKeyId'', nonEmptyString), (''algorithm'', nonEmptyString),
      (''signature'', base64String env), (''signatureRef'', z_optional nonEmptyString),
      (''attestation'', AttestationSchema env)]"

definition attestation_of :: "json \<Rightarrow> Attestation" where
  "attestation_of v =
     \<lparr>at_publisherId = the_str (fstr v ''publisherId''), at_specHash = the_str (fstr v ''specHash''),
      at_schemaVersion = the_str (fstr v ''schemaVersion''),
      at_notBefore = fstr v ''notBefore'', at_notAfter = fstr v ''notAfter''\<rparr>"

definition envelope_of :: "json \<Rightarrow> SignatureEnvelope" where
  "envelope_of v =
     \<lparr>se_publisherId = the_str (fstr v ''publisherId''), se_signingKeyId = the_str (fstr v ''signingKeyId''),
      se_algorithm = the_str (fstr v ''algorithm''), se_signature = the_str (fstr v ''signature''),
      se_signatureRef = fstr v ''signatureRef'', se_attestation = attestation_of (js_get v ''attestation'')\<rparr>"

definition entry_of :: "json \<Rightarrow> TrustStoreEntry" where
  "entry_of v =
     \<lparr>ts_publisherId = the_str (fstr v ''publisherId''), ts_signingKeyId = the_str (fstr v ''signingKeyId''),
      ts_publicKey = the_str (fstr v ''publicKey''), ts_status = the_str (fstr v ''status''),
      ts_notBefore = fstr v ''notBefore'', ts_notAfter = fstr v ''notAfter''\<rparr>"

section \<open>Trust stores in memory\<close>

definition add_entry :: "json \<Rightarrow> (string \<rightharpoonup> (string \<rightharpoonup> json)) \<Rightarrow> (string \<rightharpoonup> (string \<rightharpoonup> json))" where
  "add_entry entry entriesByPublisher =
     (let publisherId = the_str (fstr entry ''publisherId'');
          publisherEntries = default (entriesByPublisher publisherId) Map.empty in
      entriesByPublisher(publisherId \<mapsto> publisherEntries(the_str (fstr entry ''signingKeyId'') \<mapsto> entry)))"

definition createTrustStore :: "'k trust_env \<Rightarrow> json \<Rightarrow> TrustRejectedError + TrustStore" where
  "createTrustStore env input =
     (if \<not> TrustStoreSchema env input
      then Inl \<lparr>tr_reason = MalformedTrustMetadata, tr_publisherId = None, tr_signingKeyId = None,
                tr_trustStoreVersion = None\<rparr>
      else let entriesByPublisher = fold add_entry (js_elems (js_get input ''entries'')) Map.empty in
        Inr \<lparr>st_version = js_get input ''version'',
             st_resolve = (\<lambda>publisherId signingKeyId.
               case entriesByPublisher publisherId of None \<Rightarrow> JUndefined
               | Some keys \<Rightarrow> default (keys signingKeyId) JUndefined),
             st_hasPublisher = Some (\<lambda>publisherId. entriesByPublisher publisherId \<noteq> None)\<rparr>)"

section \<open>The canonical text of an attestation\<close>

text \<open>\<^verbatim>\<open>join\<close> writes the text of \<^verbatim>\<open>undefined\<close> as nothing; at the top there is always an object.\<close>

function canonicalJson :: "locale_compare \<Rightarrow> json \<Rightarrow> string" where
  "canonicalJson lc value =
     (case value of
        JArr xs \<Rightarrow> ''['' @ join '','' (map (\<lambda>x. if x = JUndefined then '''' else canonicalJson lc x) xs) @ '']''
      | JObj ps \<Rightarrow>
          ''{'' @ join '','' (map (\<lambda>p. quote_str (fst p) @ '':'' @ snd p)
             (map (\<lambda>p. (fst p, canonicalJson lc (snd p)))
               (filter (\<lambda>p. snd p \<noteq> JUndefined) (js_sort (\<lambda>left right. lc (fst left) (fst right)) ps)))) @ ''}''
      | v \<Rightarrow> stringify v)"
  by pat_completeness auto
termination
proof (relation "measure (\<lambda>(lc, v). size v)", goal_cases)
  case (2 lc v xs x)
  then show ?case using size_element [of x xs] by simp
next
  case (3 lc v ps p)
  then show ?case using size_member [of p ps] by simp
qed simp

declare canonicalJson.simps [simp del]

definition optional_text :: "string \<Rightarrow> string option \<Rightarrow> (string \<times> json) list" where
  "optional_text k x = (case x of None \<Rightarrow> [] | Some s \<Rightarrow> [(k, JStr s)])"

definition attestation_json :: "Attestation \<Rightarrow> json" where
  "attestation_json a = JObj
     ([(''publisherId'', JStr (at_publisherId a)), (''specHash'', JStr (at_specHash a)),
       (''schemaVersion'', JStr (at_schemaVersion a))] @
      optional_text ''notBefore'' (at_notBefore a) @ optional_text ''notAfter'' (at_notAfter a))"

definition canonicalizeAttestation :: "locale_compare \<Rightarrow> Attestation \<Rightarrow> string" where
  "canonicalizeAttestation lc attestation = canonicalJson lc (attestation_json attestation)"

section \<open>Verification\<close>

definition reject :: "TrustRejectReason \<Rightarrow> SignatureEnvelope \<Rightarrow> string option \<Rightarrow> TrustRejectedError + 'a" where
  "reject reason envelope version =
     Inl \<lparr>tr_reason = reason, tr_publisherId = Some (se_publisherId envelope),
          tr_signingKeyId = Some (se_signingKeyId envelope), tr_trustStoreVersion = version\<rparr>"

definition reject_plain :: "TrustRejectReason \<Rightarrow> TrustRejectedError + 'a" where
  "reject_plain reason =
     Inl \<lparr>tr_reason = reason, tr_publisherId = None, tr_signingKeyId = None, tr_trustStoreVersion = None\<rparr>"

definition parseSignatureEnvelope :: "'k trust_env \<Rightarrow> json \<Rightarrow> TrustRejectedError + SignatureEnvelope" where
  "parseSignatureEnvelope env envelope =
     (if SignatureEnvelopeSchema env envelope then Inr (envelope_of envelope) else reject_plain MalformedTrustMetadata)"

definition parseTrustStoreVersion :: "TrustStore \<Rightarrow> TrustRejectedError + string" where
  "parseTrustStoreVersion trustStore =
     (case st_version trustStore of JStr version \<Rightarrow> if version = [] then reject_plain MalformedTrustMetadata else Inr version
      | _ \<Rightarrow> reject_plain MalformedTrustMetadata)"

definition resolveTrustStoreEntry ::
  "'k trust_env \<Rightarrow> TrustStore \<Rightarrow> string \<Rightarrow> SignatureEnvelope \<Rightarrow> TrustRejectedError + TrustStoreEntry option" where
  "resolveTrustStoreEntry env trustStore version envelope =
     (let resolved = st_resolve trustStore (se_publisherId envelope) (se_signingKeyId envelope) in
      if resolved = JUndefined then Inr None
      else if \<not> TrustStoreEntrySchema env resolved then reject MalformedTrustMetadata envelope (Some version)
      else Inr (Some (entry_of resolved)))"

definition parsePublicKey :: "'k trust_env \<Rightarrow> string \<Rightarrow> 'k option" where
  "parsePublicKey env publicKey =
     (let trimmed = trim publicKey in
      if starts_with ''-----BEGIN'' trimmed then te_createPublicKey env (Pem trimmed)
      else Option.bind (decodeBase64 env trimmed) (\<lambda>key. te_createPublicKey env (Der key)))"

definition verifyEd25519Signature ::
  "'k trust_env \<Rightarrow> string \<Rightarrow> string \<Rightarrow> string \<Rightarrow> bool option" where
  "verifyEd25519Signature env canonicalAttestation publicKey signature =
     Option.bind (parsePublicKey env publicKey) (\<lambda>key. te_verify env canonicalAttestation key signature)"

text \<open>\<^verbatim>\<open>new Date(t).getTime() > now\<close> and \<^verbatim>\<open>new Date(t).getTime() <= now\<close>.\<close>

definition after :: "'k trust_env \<Rightarrow> string option \<Rightarrow> int \<Rightarrow> bool" where
  "after env t now \<longleftrightarrow> (case Option.bind t (te_getTime env) of None \<Rightarrow> False | Some x \<Rightarrow> x > now)"

definition elapsed :: "'k trust_env \<Rightarrow> string option \<Rightarrow> int \<Rightarrow> bool" where
  "elapsed env t now \<longleftrightarrow> (case Option.bind t (te_getTime env) of None \<Rightarrow> False | Some x \<Rightarrow> x \<le> now)"

definition rejectOutsideValidityWindow :: "'k trust_env \<Rightarrow> TrustStoreEntry \<Rightarrow> int \<Rightarrow> SignatureEnvelope \<Rightarrow> string \<Rightarrow>
  TrustRejectedError + unit" where
  "rejectOutsideValidityWindow env entry now envelope version =
     (if after env (ts_notBefore entry) now then reject ExpiredKey envelope (Some version)
      else if elapsed env (ts_notAfter entry) now then reject ExpiredKey envelope (Some version)
      else Inr ())"

definition rejectInvalidSignatureWindow :: "'k trust_env \<Rightarrow> int \<Rightarrow> SignatureEnvelope \<Rightarrow> string \<Rightarrow>
  TrustRejectedError + unit" where
  "rejectInvalidSignatureWindow env now envelope version =
     (if after env (at_notBefore (se_attestation envelope)) now then reject SignatureNotYetValid envelope (Some version)
      else if elapsed env (at_notAfter (se_attestation envelope)) now then reject SignatureExpired envelope (Some version)
      else Inr ())"

text \<open>The time of the check: a \<^verbatim>\<open>Date\<close> (\<open>None\<close> when invalid), a text, or the clock.\<close>

datatype time_input = NoTime | DateTime "int option" | TimeText string

definition normalizeNow :: "'k trust_env \<Rightarrow> time_input \<Rightarrow> TrustRejectedError + int" where
  "normalizeNow env value =
     (case value of
        NoTime \<Rightarrow> Inr (te_clock env)
      | DateTime t \<Rightarrow> (case t of None \<Rightarrow> reject_plain MalformedTrustMetadata | Some x \<Rightarrow> Inr x)
      | TimeText s \<Rightarrow> (case te_getTime env s of None \<Rightarrow> reject_plain MalformedTrustMetadata | Some x \<Rightarrow> Inr x))"

definition deriveSignatureRef :: "'k trust_env \<Rightarrow> string \<Rightarrow> string" where
  "deriveSignatureRef env signature = ''sig-sha256:'' @ te_sha env (te_encode env signature)"

text \<open>
  \<^verbatim>\<open>envelope\<close> and \<^verbatim>\<open>trustStore\<close> may be missing (\<open>JUndefined\<close>, \<open>None\<close>). A verdict leaves out
  its constant fields and the provenance, which repeats its other fields.
\<close>

definition check_signature :: "'k trust_env \<Rightarrow> locale_compare \<Rightarrow> json \<Rightarrow> SignatureEnvelope \<Rightarrow> TrustStoreEntry \<Rightarrow>
  string \<Rightarrow> int \<Rightarrow> string \<Rightarrow> TrustRejectedError + TrustVerdict option" where
  "check_signature env lc manifest envelope entry version now expectedSpecHash =
     (let attestation = se_attestation envelope; context = Some version in
      case decodeBase64 env (se_signature envelope) of
        None \<Rightarrow> reject BadSignature envelope context
      | Some signature \<Rightarrow>
      (case verifyEd25519Signature env (canonicalizeAttestation lc attestation) (ts_publicKey entry) signature of
         None \<Rightarrow> reject MalformedTrustMetadata envelope context
       | Some verified \<Rightarrow>
         if \<not> verified then reject BadSignature envelope context
         else bindE (rejectInvalidSignatureWindow env now envelope version) (\<lambda>_.
           if at_publisherId attestation \<noteq> se_publisherId envelope \<or>
              fstr manifest ''schemaVersion'' \<noteq> Some (at_schemaVersion attestation)
           then reject AttestationMismatch envelope context
           else if at_specHash attestation \<noteq> expectedSpecHash then reject SpecHashMismatch envelope context
           else Inr (Some
             \<lparr>tv_publisherId = se_publisherId envelope, tv_signingKeyId = se_signingKeyId envelope,
              tv_signatureRef = default (se_signatureRef envelope) (deriveSignatureRef env signature),
              tv_trustStoreVersion = version, tv_specHash = expectedSpecHash\<rparr>))))"

text \<open>
  The signature of a parsed envelope always decodes, as its schema demands; the branch above where it
  does not is never taken (\<open>parsed_signature_decodes\<close> below).
\<close>

definition verifyPackageTrust :: "'k trust_env \<Rightarrow> locale_compare \<Rightarrow> json \<Rightarrow> json \<Rightarrow> TrustStore option \<Rightarrow> bool option \<Rightarrow>
  time_input \<Rightarrow> string \<Rightarrow> TrustRejectedError + TrustVerdict option" where
  "verifyPackageTrust env lc manifest signature trustStore strict nowInput expectedSpecHash =
     (if signature = JUndefined then
        (if \<not> default strict True then Inr None else reject_plain UnsignedInStrictMode)
      else
      bindE (parseSignatureEnvelope env signature) (\<lambda>envelope.
        if se_algorithm envelope \<noteq> ''ed25519'' then reject UnsupportedAlgorithm envelope None
        else case trustStore of None \<Rightarrow> reject UntrustedPublisher envelope None
        | Some store \<Rightarrow>
          bindE (parseTrustStoreVersion store) (\<lambda>version.
          bindE (resolveTrustStoreEntry env store version envelope) (\<lambda>resolved.
            case resolved of
              None \<Rightarrow>
                reject (if (case st_hasPublisher store of None \<Rightarrow> False | Some known \<Rightarrow> known (se_publisherId envelope))
                        then UnknownKey else UntrustedPublisher) envelope (Some version)
            | Some entry \<Rightarrow>
                if ts_status entry = ''revoked'' then reject RevokedKey envelope (Some version)
                else bindE (normalizeNow env nowInput) (\<lambda>now.
                  if ts_status entry = ''expired'' then reject ExpiredKey envelope (Some version)
                  else bindE (rejectOutsideValidityWindow env entry now envelope version) (\<lambda>_.
                    check_signature env lc manifest envelope entry version now expectedSpecHash))))))"

section \<open>Trust of a load\<close>

record LoadHarnessPackageOptions =
  lo_signature :: json
  lo_trustStore :: "TrustStore option"
  lo_strict :: "bool option"
  lo_trustNow :: time_input
  lo_dependencyResolver :: "HarnessDependencyResolver option"

datatype HarnessTrustEvent = HarnessTrustVerified TrustVerdict | HarnessTrustRejected TrustRejectedError

datatype harness_error =
    TrustRejected TrustRejectReason
  | DependencyUnresolvedError DependencyRejectReason
  | UncaughtError
  | HarnessLoaderError string string

text \<open>
  A load by path only (\<open>None\<close>) configures no trust. The result carries the trust events that the
  callback of the options receives. A \<^verbatim>\<open>HarnessLoaderError\<close> is its code and reason; the two kinds
  that wrap another error have constructors of their own.
\<close>

definition verifyTrustIfConfigured :: "'k trust_env \<Rightarrow> locale_compare \<Rightarrow> LoadHarnessPackageOptions option \<Rightarrow> json \<Rightarrow>
  string \<Rightarrow> (harness_error + TrustVerdict option) \<times> HarnessTrustEvent list" where
  "verifyTrustIfConfigured env lc input manifest expectedSpecHash =
     (case input of
        None \<Rightarrow> (Inr None, [])
      | Some options \<Rightarrow>
          if lo_signature options = JUndefined \<and> lo_trustStore options = None \<and> lo_strict options \<noteq> Some True
          then (Inr None, [])
          else
            (case verifyPackageTrust env lc manifest (lo_signature options) (lo_trustStore options)
                    (Some (default (lo_strict options) True)) (lo_trustNow options) expectedSpecHash of
               Inr trust \<Rightarrow> (Inr trust, case trust of None \<Rightarrow> [] | Some verdict \<Rightarrow> [HarnessTrustVerified verdict])
             | Inl error \<Rightarrow> (Inl (TrustRejected (tr_reason error)), [HarnessTrustRejected error])))"

section \<open>Facts\<close>

lemma canonicalJson_texts:
  assumes "\<forall>p \<in> set ps. \<exists>s. snd p = JStr s"
  shows "canonicalJson lc (JObj ps) = stringify (JObj (js_sort (\<lambda>left right. lc (fst left) (fst right)) ps))"
proof -
  let ?qs = "js_sort (\<lambda>left right. lc (fst left) (fst right)) ps"
  have plain: "canonicalJson lc (snd p) = stringify (snd p)" "snd p \<noteq> JUndefined" if "p \<in> set ?qs" for p
    using assms that by (auto simp: canonicalJson.simps [of lc "snd p"])
  have same: "filter (\<lambda>p. snd p \<noteq> JUndefined) ?qs = ?qs"
    using plain(2) by (simp add: filter_id_conv)
  have eq: "map (\<lambda>p. quote_str (fst p) @ CHR '':'' # canonicalJson lc (snd p)) ?qs =
      map (\<lambda>p. quote_str (fst p) @ CHR '':'' # stringify (snd p)) ?qs"
    using plain(1) by simp
  show ?thesis
    by (simp add: canonicalJson.simps [of lc "JObj ps"] same o_def eq del: map_eq_conv)
qed

lemma normalize_texts:
  assumes "\<forall>p \<in> set ps. \<exists>s. snd p = JStr s"
  shows "normalizeJsonValue (JObj ps) = JObj ps"
proof -
  have "map (\<lambda>p. (fst p, normalizeJsonValue (snd p))) ps = ps"
    using assms by (intro map_idI) (auto simp: prod_eq_iff)
  moreover have "filter (\<lambda>p. snd p \<noteq> JUndefined) ps = ps"
    using assms by (auto simp: filter_id_conv)
  ultimately show ?thesis by simp
qed

lemma attestation_texts: "attestation_json a = JObj ps \<Longrightarrow> \<forall>p \<in> set ps. \<exists>s. snd p = JStr s"
  by (auto simp: attestation_json_def optional_text_def split: option.splits)

lemma attestation_fields: "attestation_json a = JObj ps \<Longrightarrow>
    map_of ps ''publisherId'' = Some (JStr (at_publisherId a)) \<and> map_of ps ''specHash'' = Some (JStr (at_specHash a)) \<and>
    map_of ps ''schemaVersion'' = Some (JStr (at_schemaVersion a)) \<and>
    map_of ps ''notBefore'' = map_option JStr (at_notBefore a) \<and> map_of ps ''notAfter'' = map_option JStr (at_notAfter a) \<and>
    distinct (map fst ps)"
  by (auto simp: attestation_json_def optional_text_def split: option.splits)

lemma parsed_signature_decodes:
  "parseSignatureEnvelope env v = Inr envelope \<Longrightarrow> decodeBase64 env (se_signature envelope) \<noteq> None"
proof -
  assume "parseSignatureEnvelope env v = Inr envelope"
  then have v: "SignatureEnvelopeSchema env v" "envelope = envelope_of v"
    by (auto simp: parseSignatureEnvelope_def reject_plain_def split: if_splits)
  from v(1) have "base64String env (js_get v ''signature'')"
    unfolding SignatureEnvelopeSchema_def by (rule z_strict_get) simp
  then show ?thesis
    by (auto simp: v(2) envelope_of_def base64String_def fstr_def the_str_def js_str_def split: json.splits)
qed

lemma window_Inr:
  "rejectOutsideValidityWindow env entry now envelope version = Inr u \<longleftrightarrow>
     \<not> after env (ts_notBefore entry) now \<and> \<not> elapsed env (ts_notAfter entry) now"
  "rejectInvalidSignatureWindow env now envelope version = Inr u \<longleftrightarrow>
     \<not> after env (at_notBefore (se_attestation envelope)) now \<and> \<not> elapsed env (at_notAfter (se_attestation envelope)) now"
  by (auto simp: rejectOutsideValidityWindow_def rejectInvalidSignatureWindow_def reject_def)

lemma check_signature_Inr:
  assumes "check_signature env lc manifest envelope entry version now h = Inr x"
  obtains signature where "decodeBase64 env (se_signature envelope) = Some signature"
    "verifyEd25519Signature env (canonicalizeAttestation lc (se_attestation envelope)) (ts_publicKey entry) signature = Some True"
    "\<not> after env (at_notBefore (se_attestation envelope)) now" "\<not> elapsed env (at_notAfter (se_attestation envelope)) now"
    "at_publisherId (se_attestation envelope) = se_publisherId envelope"
    "fstr manifest ''schemaVersion'' = Some (at_schemaVersion (se_attestation envelope))"
    "at_specHash (se_attestation envelope) = h"
    "x = Some \<lparr>tv_publisherId = se_publisherId envelope, tv_signingKeyId = se_signingKeyId envelope,
        tv_signatureRef = default (se_signatureRef envelope) (deriveSignatureRef env signature),
        tv_trustStoreVersion = version, tv_specHash = h\<rparr>"
  using assms
  by (auto simp: check_signature_def Let_def bindE_Inr_iff window_Inr reject_def split: option.splits if_splits)

lemma entry_status:
  assumes "resolveTrustStoreEntry env store version envelope = Inr (Some entry)"
  shows "st_resolve store (se_publisherId envelope) (se_signingKeyId envelope) \<noteq> JUndefined"
    "entry = entry_of (st_resolve store (se_publisherId envelope) (se_signingKeyId envelope))"
    "ts_status entry \<in> {''active'', ''revoked'', ''expired''}"
proof -
  let ?r = "st_resolve store (se_publisherId envelope) (se_signingKeyId envelope)"
  from assms have r: "?r \<noteq> JUndefined" "TrustStoreEntrySchema env ?r" "entry = entry_of ?r"
    by (auto simp: resolveTrustStoreEntry_def Let_def reject_def split: if_splits)
  from r(2) have "z_enum [''active'', ''revoked'', ''expired''] (js_get ?r ''status'')"
    unfolding TrustStoreEntrySchema_def by (rule z_strict_get) simp
  then have "ts_status (entry_of ?r) \<in> {''active'', ''revoked'', ''expired''}"
    by (auto simp: entry_of_def z_enum_def fstr_def the_str_def js_str_def split: json.splits)
  with r show "?r \<noteq> JUndefined" "entry = entry_of ?r" "ts_status entry \<in> {''active'', ''revoked'', ''expired''}"
    by simp_all
qed

text \<open>What a verdict rests on: an active key that is valid now and has signed this package.\<close>

definition signed_by :: "'k trust_env \<Rightarrow> locale_compare \<Rightarrow> json \<Rightarrow> SignatureEnvelope \<Rightarrow> TrustStoreEntry \<Rightarrow> int \<Rightarrow>
  string \<Rightarrow> bool" where
  "signed_by env lc manifest envelope entry now h \<longleftrightarrow>
     ts_status entry = ''active'' \<and> \<not> after env (ts_notBefore entry) now \<and> \<not> elapsed env (ts_notAfter entry) now \<and>
     (\<exists>signature. decodeBase64 env (se_signature envelope) = Some signature \<and>
       verifyEd25519Signature env (canonicalizeAttestation lc (se_attestation envelope)) (ts_publicKey entry)
         signature = Some True) \<and>
     \<not> after env (at_notBefore (se_attestation envelope)) now \<and> \<not> elapsed env (at_notAfter (se_attestation envelope)) now \<and>
     at_publisherId (se_attestation envelope) = se_publisherId envelope \<and>
     fstr manifest ''schemaVersion'' = Some (at_schemaVersion (se_attestation envelope)) \<and>
     at_specHash (se_attestation envelope) = h"

lemma verify_Some:
  assumes "verifyPackageTrust env lc manifest signature trustStore strict nowInput h = Inr (Some verdict)"
  obtains envelope store entry now version where "parseSignatureEnvelope env signature = Inr envelope"
    "trustStore = Some store" "normalizeNow env nowInput = Inr now"
    "resolveTrustStoreEntry env store version envelope = Inr (Some entry)"
    "signed_by env lc manifest envelope entry now h" "tv_publisherId verdict = se_publisherId envelope"
    "tv_signingKeyId verdict = se_signingKeyId envelope" "tv_specHash verdict = h"
proof -
  from assms have signed: "signature \<noteq> JUndefined"
    by (auto simp: verifyPackageTrust_def reject_plain_def split: if_splits)
  with assms obtain envelope store version resolved where e: "parseSignatureEnvelope env signature = Inr envelope"
    and s: "trustStore = Some store" and r: "resolveTrustStoreEntry env store version envelope = Inr resolved"
    and rest: "(case resolved of
              None \<Rightarrow> reject (if (case st_hasPublisher store of None \<Rightarrow> False | Some known \<Rightarrow> known (se_publisherId envelope))
                        then UnknownKey else UntrustedPublisher) envelope (Some version)
            | Some entry \<Rightarrow>
                if ts_status entry = ''revoked'' then reject RevokedKey envelope (Some version)
                else bindE (normalizeNow env nowInput) (\<lambda>now.
                  if ts_status entry = ''expired'' then reject ExpiredKey envelope (Some version)
                  else bindE (rejectOutsideValidityWindow env entry now envelope version) (\<lambda>_.
                    check_signature env lc manifest envelope entry version now h))) = Inr (Some verdict)"
    by (auto simp: verifyPackageTrust_def bindE_Inr_iff reject_def split: if_splits option.splits)
  from rest obtain entry where entry: "resolved = Some entry" by (cases resolved) (simp_all add: reject_def)
  from rest entry obtain now where now: "normalizeNow env nowInput = Inr now" "ts_status entry \<noteq> ''revoked''"
    "ts_status entry \<noteq> ''expired''" "\<not> after env (ts_notBefore entry) now \<and> \<not> elapsed env (ts_notAfter entry) now"
    and check: "check_signature env lc manifest envelope entry version now h = Inr (Some verdict)"
    by (auto simp: bindE_Inr_iff window_Inr reject_def split: if_splits)
  have active: "ts_status entry = ''active''" using entry_status(3) r entry now(2,3) by fastforce
  from check show thesis
  proof (cases rule: check_signature_Inr)
    case (1 sig)
    have "signed_by env lc manifest envelope entry now h"
      unfolding signed_by_def using 1(1-7) active now(4) by auto
    with e s now(1) r entry 1(8) show thesis by (intro that) simp_all
  qed
qed

section \<open>Verdicts are earned\<close>

lemma earned_trust:
  assumes "verifyTrustIfConfigured env lc (Some options) manifest h = (Inr trust, events)"
  shows "(trust = None \<longrightarrow> lo_strict options \<noteq> Some True \<and> lo_signature options = JUndefined) \<and>
    (\<forall>verdict. trust = Some verdict \<longrightarrow> events = [HarnessTrustVerified verdict] \<and> tv_specHash verdict = h \<and>
      (\<exists>envelope store now entry. lo_trustStore options = Some store \<and>
         parseSignatureEnvelope env (lo_signature options) = Inr envelope \<and> normalizeNow env (lo_trustNow options) = Inr now \<and>
         st_resolve store (tv_publisherId verdict) (tv_signingKeyId verdict) = entry \<and> entry \<noteq> JUndefined \<and>
         signed_by env lc manifest envelope (entry_of entry) now h))"
proof (intro conjI impI allI)
  assume none: "trust = None"
  with assms show "lo_strict options \<noteq> Some True"
    by (cases "lo_strict options")
      (auto simp: verifyTrustIfConfigured_def verifyPackageTrust_def check_signature_def bindE_Inr_iff reject_def
        reject_plain_def Let_def split: if_splits sum.splits option.splits)
  from none assms show "lo_signature options = JUndefined"
    by (auto simp: verifyTrustIfConfigured_def verifyPackageTrust_def check_signature_def bindE_Inr_iff reject_def
        reject_plain_def Let_def split: if_splits sum.splits option.splits)
next
  fix verdict
  assume some: "trust = Some verdict"
  with assms have v: "verifyPackageTrust env lc manifest (lo_signature options) (lo_trustStore options)
      (Some (default (lo_strict options) True)) (lo_trustNow options) h = Inr (Some verdict)"
    and events: "events = [HarnessTrustVerified verdict]"
    by (auto simp: verifyTrustIfConfigured_def split: if_splits sum.splits)
  show "events = [HarnessTrustVerified verdict]" by (fact events)
  from v show "tv_specHash verdict = h" by (rule verify_Some)
  from v show "\<exists>envelope store now entry. lo_trustStore options = Some store \<and>
      parseSignatureEnvelope env (lo_signature options) = Inr envelope \<and> normalizeNow env (lo_trustNow options) = Inr now \<and>
      st_resolve store (tv_publisherId verdict) (tv_signingKeyId verdict) = entry \<and> entry \<noteq> JUndefined \<and>
      signed_by env lc manifest envelope (entry_of entry) now h"
  proof (cases rule: verify_Some)
    case (1 envelope store entry now version)
    then show ?thesis using entry_status(1,2) [OF 1(4)] by auto
  qed
qed

text \<open>
  C13: A load is given a trust verdict only for a package that a trusted publisher has signed: the
  configured trust store has an active key of the publisher under the key identifier of the envelope,
  the key and the attestation are valid at the time of the check, the signature verifies for the
  canonical text of the attestation, and the attestation names the publisher, the schema version of the
  manifest and exactly the hash of the loaded package. In strict mode a load without a signature fails.
\<close>

theorem trust_is_earned:
  assumes "verifyTrustIfConfigured env lc (Some options) manifest h = (Inr trust, events)"
  shows "(trust = None \<longrightarrow> lo_strict options \<noteq> Some True \<and> lo_signature options = JUndefined) \<and>
    (\<forall>verdict. trust = Some verdict \<longrightarrow> events = [HarnessTrustVerified verdict] \<and> tv_specHash verdict = h \<and>
      (\<exists>envelope store now entry. lo_trustStore options = Some store \<and>
         parseSignatureEnvelope env (lo_signature options) = Inr envelope \<and> normalizeNow env (lo_trustNow options) = Inr now \<and>
         st_resolve store (tv_publisherId verdict) (tv_signingKeyId verdict) = entry \<and> entry \<noteq> JUndefined \<and>
         signed_by env lc manifest envelope (entry_of entry) now h))"
  using assms by (rule earned_trust)

text \<open>A store with one key, whose owner signs with the identifier of the key.\<close>

definition hx_trust_env :: "string trust_env" where
  "hx_trust_env =
     \<lparr>te_decode = (\<lambda>s. s), te_encode = (\<lambda>s. s), te_sha = hx_digest,
      te_createPublicKey = (\<lambda>k. case k of Der s \<Rightarrow> Some s | Pem s \<Rightarrow> None),
      te_verify = (\<lambda>signed_text k s. Some (s = k)), te_getTime = (\<lambda>s. Some 5), te_datetime = (\<lambda>s. True), te_clock = 4\<rparr>"

definition hx_attestation :: json where
  "hx_attestation = JObj [(''publisherId'', JStr ''acme''), (''specHash'', JStr (''sha256:'' @ hx_digest [])),
     (''schemaVersion'', JStr ''v1''), (''notAfter'', JStr ''2030'')]"

definition hx_envelope :: json where
  "hx_envelope = JObj [(''publisherId'', JStr ''acme''), (''signingKeyId'', JStr ''k1''), (''algorithm'', JStr ''ed25519''),
     (''signature'', JStr ''key''), (''attestation'', hx_attestation)]"

definition hx_trust_store :: json where
  "hx_trust_store = JObj [(''version'', JStr ''1''), (''entries'', JArr
     [JObj [(''publisherId'', JStr ''acme''), (''signingKeyId'', JStr ''k1''), (''publicKey'', JStr '' key ''),
        (''algorithm'', JStr ''ed25519''), (''status'', JStr ''active'')]])]"

definition hx_options :: LoadHarnessPackageOptions where
  "hx_options =
     \<lparr>lo_signature = hx_envelope,
      lo_trustStore = (case createTrustStore hx_trust_env hx_trust_store of Inr s \<Rightarrow> Some s | Inl e \<Rightarrow> None),
      lo_strict = Some True, lo_trustNow = NoTime, lo_dependencyResolver = None\<rparr>"

definition hx_signed_manifest :: json where
  "hx_signed_manifest = JObj [(''schemaVersion'', JStr ''v1'')]"

lemma hx_trusted:
  "map_prod (map_sum (\<lambda>e. e) (map_option (\<lambda>v. (tv_publisherId v, tv_signingKeyId v)))) length
     (verifyTrustIfConfigured hx_trust_env hx_compare (Some hx_options) hx_signed_manifest (''sha256:'' @ hx_digest [])) =
   (Inr (Some (''acme'', ''k1'')), 1)"
  by code_simp

theorem trust_is_earned_witness:
  "\<exists>verdict events. verifyTrustIfConfigured hx_trust_env hx_compare (Some hx_options) hx_signed_manifest
       (''sha256:'' @ hx_digest []) = (Inr (Some verdict), events) \<and> tv_specHash verdict = ''sha256:'' @ hx_digest []"
proof -
  obtain r events where r: "verifyTrustIfConfigured hx_trust_env hx_compare (Some hx_options) hx_signed_manifest
      (''sha256:'' @ hx_digest []) = (r, events)" by fastforce
  with hx_trusted obtain verdict where "r = Inr (Some verdict)" by (cases r) auto
  with r trust_is_earned [of hx_trust_env hx_compare hx_options hx_signed_manifest "''sha256:'' @ hx_digest []"]
  show ?thesis by blast
qed

text \<open>
  The signed text determines the attestation: two attestations with one canonical text agree in
  every field, whatever order the locale of the host gives to the keys.
\<close>

theorem attestation_text_binds:
  assumes "canonicalizeAttestation lc a = canonicalizeAttestation lc b"
  shows "a = b"
proof -
  obtain ps qs where ps: "attestation_json a = JObj ps" and qs: "attestation_json b = JObj qs"
    by (simp add: attestation_json_def)
  let ?sort = "js_sort (\<lambda>left right. lc (fst left) (fst right)) :: (string \<times> json) list \<Rightarrow> _"
  note texts = attestation_texts [OF ps] attestation_texts [OF qs]
  have sorted: "normalizeJsonValue (JObj (?sort ps)) = JObj (?sort ps)" "normalizeJsonValue (JObj (?sort qs)) = JObj (?sort qs)"
    using texts by (intro normalize_texts; simp)+
  have "canonicalJson lc (JObj ps) = canonicalJson lc (JObj qs)"
    using assms by (simp only: canonicalizeAttestation_def ps qs)
  then have "stringify (JObj (?sort ps)) = stringify (JObj (?sort qs))"
    by (simp only: canonicalJson_texts [OF texts(1)] canonicalJson_texts [OF texts(2)])
  then have "?sort ps = ?sort qs"
    unfolding stringify_eq_iff sorted by simp
  then have "set ps = set qs" by (metis set_js_sort)
  then have same: "map_of ps = map_of qs"
    using attestation_fields [OF ps] attestation_fields [OF qs] by (metis map_of_inject_set)
  note fields = attestation_fields [OF ps] attestation_fields [OF qs, folded same]
  have "map_option JStr (at_notBefore a) = map_option JStr (at_notBefore b)"
    "map_option JStr (at_notAfter a) = map_option JStr (at_notAfter b)"
    using fields by simp_all
  then have "at_notBefore a = at_notBefore b" "at_notAfter a = at_notAfter b"
    by (cases "at_notBefore a"; cases "at_notBefore b"; simp)
       (use \<open>map_option JStr (at_notAfter a) = _\<close> in \<open>cases "at_notAfter a"; cases "at_notAfter b"; simp\<close>)
  with fields show ?thesis by simp
qed

theorem attestation_text_binds_witness:
  "attestation_of hx_attestation = attestation_of (JObj [(''notAfter'', JStr ''2030''), (''schemaVersion'', JStr ''v1''),
     (''specHash'', JStr (''sha256:'' @ hx_digest [])), (''publisherId'', JStr ''acme'')])"
  by (rule attestation_text_binds [of hx_compare]) code_simp

end
