(* ===== verification/Harness_References.thy ===== *)
theory Harness_References
  imports Harness_Trust
begin

text \<open>
  References in harness packages: the readers that \<^verbatim>\<open>harness-loader/src/index.ts\<close>,
  \<^verbatim>\<open>capability-grant.ts\<close> and \<^verbatim>\<open>compatibility/admission.ts\<close> each have a copy of, and the
  schemas of manifests and definitions of \<^verbatim>\<open>schemas/src/index.ts\<close>. The copies of \<^verbatim>\<open>referenceId\<close>
  differ in the properties they try, which are an argument here.
\<close>

section \<open>Readers\<close>

definition stringValue :: "json \<Rightarrow> string option" where
  "stringValue v = (case v of JStr s \<Rightarrow> if s = [] then None else Some s | _ \<Rightarrow> None)"

definition stringArray :: "json \<Rightarrow> string list" where
  "stringArray v = (case v of JArr xs \<Rightarrow> only_strs xs | _ \<Rightarrow> [])"

text \<open>The first of the properties that holds a text.\<close>

fun text_at :: "string list \<Rightarrow> json \<Rightarrow> string option" where
  "text_at [] v = None"
| "text_at (k # ks) v = or_else (stringValue (js_get v k)) (text_at ks v)"

definition referenceId :: "string list \<Rightarrow> json \<Rightarrow> string option" where
  "referenceId keys v =
     (case stringValue v of Some s \<Rightarrow> Some s | None \<Rightarrow> if is_record v then text_at keys v else None)"

definition refsFrom :: "string list \<Rightarrow> json \<Rightarrow> string list" where
  "refsFrom keys v =
     (case v of
        JUndefined \<Rightarrow> []
      | JArr xs \<Rightarrow> List.map_filter (referenceId keys) xs
      | _ \<Rightarrow> (case referenceId keys v of None \<Rightarrow> [] | Some i \<Rightarrow> [i]))"

definition manifestToolReferences :: "string list \<Rightarrow> json \<Rightarrow> string list" where
  "manifestToolReferences keys manifest =
     (let tools = js_get manifest ''tools'' in
      case tools of
        JArr xs \<Rightarrow> refsFrom keys tools
      | JObj ps \<Rightarrow> stringArray (js_get tools ''allow'') @ stringArray (js_get tools ''requireApproval'')
      | _ \<Rightarrow> [])"

section \<open>Schemas\<close>

text \<open>\<^verbatim>\<open>z.object({...}).passthrough()\<close>: each property satisfies its schema, others are kept.\<close>

definition z_object :: "(string \<times> (json \<Rightarrow> bool)) list \<Rightarrow> json \<Rightarrow> bool" where
  "z_object shape v \<longleftrightarrow> is_record v \<and> list_all (\<lambda>f. snd f (js_get v (fst f))) shape"

definition z_any :: "json \<Rightarrow> bool" where
  "z_any v \<longleftrightarrow> True"

definition z_boolean :: "json \<Rightarrow> bool" where
  "z_boolean v = (case v of JBool b \<Rightarrow> True | _ \<Rightarrow> False)"

definition z_text :: "json \<Rightarrow> bool" where
  "z_text v = (case v of JStr s \<Rightarrow> True | _ \<Rightarrow> False)"

definition HarnessReferenceSchema :: "json \<Rightarrow> bool" where
  "HarnessReferenceSchema v \<longleftrightarrow> nonEmptyString v \<or> z_object [(''id'', nonEmptyString)] v"

definition harnessReferenceArray :: "json \<Rightarrow> bool" where
  "harnessReferenceArray = z_array HarnessReferenceSchema"

definition GateKindSchema :: "json \<Rightarrow> bool" where
  "GateKindSchema = z_enum [''entry'', ''exit'', ''action'', ''artifact'', ''eval'', ''repair'']"

definition nextPhaseReferenceSchema :: "json \<Rightarrow> bool" where
  "nextPhaseReferenceSchema v \<longleftrightarrow> nonEmptyString v \<or> z_array nonEmptyString v"

definition PhaseDefinitionSchema :: "json \<Rightarrow> bool" where
  "PhaseDefinitionSchema = z_object
     [(''id'', nonEmptyString), (''description'', z_optional nonEmptyString),
      (''gates'', z_optional harnessReferenceArray), (''tools'', z_optional harnessReferenceArray),
      (''evals'', z_optional harnessReferenceArray), (''artifacts'', z_optional harnessReferenceArray),
      (''artifactSchemas'', z_optional harnessReferenceArray), (''next'', z_optional nextPhaseReferenceSchema),
      (''dependsOn'', z_optional (z_array nonEmptyString)), (''after'', z_optional (z_array nonEmptyString)),
      (''metadata'', z_optional MetadataSchema)]"

definition GateDefinitionSchema :: "json \<Rightarrow> bool" where
  "GateDefinitionSchema = z_object
     [(''id'', nonEmptyString), (''phase'', z_optional nonEmptyString), (''kind'', z_optional GateKindSchema),
      (''required'', z_optional z_boolean), (''description'', z_optional nonEmptyString),
      (''inputs'', z_optional MetadataSchema), (''checks'', z_optional (z_array is_record)),
      (''onFail'', z_any), (''metadata'', z_optional MetadataSchema)]"

definition PolicyBundleSchema :: "json \<Rightarrow> bool" where
  "PolicyBundleSchema = z_object
     [(''id'', nonEmptyString), (''schemaVersion'', z_optional nonEmptyString),
      (''description'', z_optional nonEmptyString), (''scopes'', z_optional (z_array nonEmptyString)),
      (''rules'', z_optional (z_array is_record)), (''tools'', z_optional harnessReferenceArray),
      (''gates'', z_optional harnessReferenceArray), (''evals'', z_optional harnessReferenceArray),
      (''artifactSchemas'', z_optional harnessReferenceArray), (''metadata'', z_optional MetadataSchema)]"

definition ToolDefinitionSchema :: "json \<Rightarrow> bool" where
  "ToolDefinitionSchema = z_object
     [(''id'', nonEmptyString), (''version'', z_optional nonEmptyString),
      (''description'', z_optional nonEmptyString), (''inputSchema'', z_any), (''outputSchema'', z_any),
      (''metadata'', z_optional MetadataSchema)]"

definition ArtifactSchemaRefSchema :: "json \<Rightarrow> bool" where
  "ArtifactSchemaRefSchema = z_object
     [(''id'', nonEmptyString), (''version'', nonEmptyString), (''path'', nonEmptyString), (''schema'', z_any),
      (''metadata'', z_optional MetadataSchema)]"

definition EvalDefinitionSchema :: "json \<Rightarrow> bool" where
  "EvalDefinitionSchema = z_object
     [(''id'', nonEmptyString), (''description'', z_optional nonEmptyString),
      (''targetArtifacts'', z_optional harnessReferenceArray), (''requiredArtifacts'', z_optional harnessReferenceArray),
      (''artifacts'', z_optional harnessReferenceArray), (''artifactSchemas'', z_optional harnessReferenceArray),
      (''gates'', z_optional harnessReferenceArray), (''tools'', z_optional harnessReferenceArray),
      (''prompts'', z_optional harnessReferenceArray), (''metadata'', z_optional MetadataSchema)]"

definition RoleDefinitionSchema :: "json \<Rightarrow> bool" where
  "RoleDefinitionSchema = z_object
     [(''id'', nonEmptyString), (''description'', z_optional nonEmptyString),
      (''prompts'', z_optional harnessReferenceArray), (''metadata'', z_optional MetadataSchema)]"

definition PromptAssetRefSchema :: "json \<Rightarrow> bool" where
  "PromptAssetRefSchema = z_object
     [(''id'', nonEmptyString), (''path'', nonEmptyString), (''content'', z_text), (''contentHash'', nonEmptyString),
      (''description'', z_optional nonEmptyString), (''metadata'', z_optional MetadataSchema)]"

definition HarnessManifestToolsSchema :: "json \<Rightarrow> bool" where
  "HarnessManifestToolsSchema v \<longleftrightarrow> harnessReferenceArray v \<or>
     z_object [(''allow'', z_optional (z_array nonEmptyString)), (''requireApproval'', z_optional (z_array nonEmptyString))] v"

definition HarnessManifestSchema :: "json \<Rightarrow> bool" where
  "HarnessManifestSchema = z_object
     [(''id'', nonEmptyString), (''version'', nonEmptyString), (''schemaVersion'', z_enum [''specwright.harness.v1'']),
      (''runtime'', z_optional MetadataSchema), (''phases'', z_optional harnessReferenceArray),
      (''gates'', z_optional harnessReferenceArray), (''policies'', z_optional harnessReferenceArray),
      (''tools'', z_optional HarnessManifestToolsSchema), (''artifacts'', z_optional harnessReferenceArray),
      (''artifactSchemas'', z_optional harnessReferenceArray), (''evals'', z_optional harnessReferenceArray),
      (''roles'', z_optional harnessReferenceArray), (''prompts'', z_optional harnessReferenceArray),
      (''initialPhase'', z_optional nonEmptyString), (''startPhase'', z_optional nonEmptyString),
      (''metadata'', z_optional MetadataSchema)]"

section \<open>Facts\<close>

lemma stringValue_Some: "stringValue v = Some s \<longleftrightarrow> v = JStr s \<and> s \<noteq> []"
  by (auto simp: stringValue_def split: json.split)

lemma stringValue_JStr [simp]: "s \<noteq> [] \<Longrightarrow> stringValue (JStr s) = Some s"
  by (simp add: stringValue_Some)

lemma set_stringArray: "set (stringArray v) = {s. \<exists>xs. v = JArr xs \<and> JStr s \<in> set xs}"
  by (auto simp: stringArray_def set_only_strs split: json.splits)

lemma z_strict_field: "z_strict shape v \<Longrightarrow> (k, P) \<in> set shape \<Longrightarrow> P (js_get v k)"
  by (auto simp: z_strict_def list_all_iff split: json.splits)

lemma z_strict_known: "z_strict shape v \<Longrightarrow> js_get v k \<noteq> JUndefined \<Longrightarrow> k \<in> fst ` set shape"
  by (force simp: z_strict_def js_get_def list_all_iff split: json.splits option.splits dest: map_of_SomeD)

lemma z_object_field: "z_object shape v \<Longrightarrow> (k, P) \<in> set shape \<Longrightarrow> P (js_get v k)"
  by (auto simp: z_object_def list_all_iff)

lemma text_at_Some: "text_at keys v = Some s \<Longrightarrow> s \<noteq> []"
  by (induction keys) (auto simp: or_else_def stringValue_Some split: option.splits)

lemma referenceId_Some: "referenceId keys v = Some s \<Longrightarrow> s \<noteq> []"
  by (auto simp: referenceId_def stringValue_Some split: option.splits if_splits dest: text_at_Some)

lemma set_refsFrom:
  "set (refsFrom keys v) =
     (case v of JArr xs \<Rightarrow> {i. \<exists>x \<in> set xs. referenceId keys x = Some i} | _ \<Rightarrow> {i. referenceId keys v = Some i})"
  by (cases v) (auto simp: refsFrom_def set_map_filter referenceId_def stringValue_def is_record_def split: option.splits)

lemma refsFrom_nonempty: "i \<in> set (refsFrom keys v) \<Longrightarrow> i \<noteq> []"
  by (auto simp: set_refsFrom split: json.splits dest: referenceId_Some)

lemma z_array_stringArray: "z_optional (z_array nonEmptyString) v \<Longrightarrow> s \<in> set (stringArray v) \<Longrightarrow> s \<noteq> []"
  by (fastforce simp: set_stringArray z_optional_def z_array_def nonEmptyString_def list_all_iff)

text \<open>On the references that the schema admits, the copies of \<^verbatim>\<open>referenceId\<close> agree.\<close>

lemma referenceId_schema:
  assumes "HarnessReferenceSchema v" and "hd keys = ''id''" "keys \<noteq> []"
  shows "\<exists>s. s \<noteq> [] \<and> referenceId keys v = Some s \<and> (v = JStr s \<or> is_record v \<and> js_get v ''id'' = JStr s)"
proof (cases v)
  case (JObj ps)
  with assms(1) obtain s where s: "js_get v ''id'' = JStr s" "s \<noteq> []"
    by (auto simp: HarnessReferenceSchema_def nonEmptyString_def z_object_def split: json.splits)
  with assms(2,3) JObj show ?thesis
    by (cases keys) (auto simp: referenceId_def stringValue_def is_record_def)
qed (use assms(1) in \<open>auto simp: HarnessReferenceSchema_def nonEmptyString_def z_object_def is_record_def
      referenceId_def stringValue_def split: if_splits\<close>)

lemma referenceId_agree:
  assumes "HarnessReferenceSchema v" and "hd keys = ''id''" "keys \<noteq> []" "hd keys' = ''id''" "keys' \<noteq> []"
  shows "referenceId keys v = referenceId keys' v"
proof -
  obtain s where "referenceId keys v = Some s" "v = JStr s \<or> is_record v \<and> js_get v ''id'' = JStr s"
    using referenceId_schema [OF assms(1-3)] by blast
  moreover obtain t where "referenceId keys' v = Some t" "v = JStr t \<or> is_record v \<and> js_get v ''id'' = JStr t"
    using referenceId_schema [OF assms(1,4,5)] by blast
  ultimately show ?thesis by (auto simp: is_record_def)
qed

lemma manifestToolReferences_agree:
  assumes manifest: "HarnessManifestSchema manifest"
    and keys: "hd keys = ''id''" "keys \<noteq> []" "hd keys' = ''id''" "keys' \<noteq> []"
  shows "manifestToolReferences keys manifest = manifestToolReferences keys' manifest"
proof (cases "js_get manifest ''tools''")
  case (JArr xs)
  with manifest have "list_all HarnessReferenceSchema xs"
    by (simp add: HarnessManifestSchema_def z_object_def z_optional_def HarnessManifestToolsSchema_def
        harnessReferenceArray_def z_array_def is_record_def)
  then have "referenceId keys x = referenceId keys' x" if "x \<in> set xs" for x
    using referenceId_agree [OF _ keys] that by (simp add: list_all_iff)
  then have "List.map_filter (referenceId keys) xs = List.map_filter (referenceId keys') xs"
    by (induction xs) (auto simp: List.map_filter_simps split: option.split)
  with JArr show ?thesis by (simp add: manifestToolReferences_def refsFrom_def)
qed (simp_all add: manifestToolReferences_def)

lemma manifestToolReferences_nonempty:
  assumes "HarnessManifestSchema manifest" and "i \<in> set (manifestToolReferences keys manifest)"
  shows "i \<noteq> []"
proof (cases "js_get manifest ''tools''")
  case (JObj ps)
  with assms(1) have "z_optional (z_array nonEmptyString) (js_get (JObj ps) ''allow'')"
    "z_optional (z_array nonEmptyString) (js_get (JObj ps) ''requireApproval'')"
    by (auto simp: HarnessManifestSchema_def z_object_def z_optional_def HarnessManifestToolsSchema_def
        harnessReferenceArray_def z_array_def is_record_def)
  with JObj assms(2) show ?thesis
    by (auto simp: manifestToolReferences_def Let_def dest: z_array_stringArray)
qed (use assms(2) in \<open>auto simp: manifestToolReferences_def dest: refsFrom_nonempty\<close>)

end
