(* ===== verification/Harness_Grants.thy ===== *)
theory Harness_Grants
  imports Harness_References "HOL-Library.Product_Lexorder"
begin

text \<open>
  Capability grants of the harness loader (\<^verbatim>\<open>harness-loader/src/capability-grant.ts\<close> and
  \<^verbatim>\<open>enforceCapabilityGrant\<close> of \<^verbatim>\<open>index.ts\<close>): the registry of grants, version ranges, the surface that a
  package requests, its comparison with the grant, and the decision of a load. Grants, manifests and
  policies are JSON values until their schema has accepted them; the source of grants is a parameter,
  which may answer anything or throw. The parts of a version are natural numbers.

  The results: a version range means the lexicographic order of versions; a load passes the check
  exactly if the source gives a well-formed grant for this package and version that covers all the
  manifest and the policies request; and every refusal is reported. Definitions of tools that the
  manifest does not name are not part of the surface.
\<close>

section \<open>Versions\<close>

text \<open>\<^verbatim>\<open>s.split(/\s+/u)\<close>: the pieces between runs of white space.\<close>

function split_space :: "string \<Rightarrow> string list" where
  "split_space [] = [[]]"
| "split_space (c # cs) =
     (if is_space c then [] # split_space (dropWhile is_space cs)
      else (case split_space cs of [] \<Rightarrow> [[c]] | p # ps \<Rightarrow> (c # p) # ps))"
  by pat_completeness auto
termination
  by (relation "measure length") (auto simp: le_imp_less_Suc length_dropWhile_le)

definition is_number :: "string \<Rightarrow> bool" where
  "is_number s \<longleftrightarrow> s \<noteq> [] \<and> list_all is_digit s"

text \<open>The pattern \<^verbatim>\<open>^\d+\.\d+\.\d+$\<close>.\<close>

definition is_version :: "string \<Rightarrow> bool" where
  "is_version s = (case split_on (CHR ''.'') s of [a, b, c] \<Rightarrow> is_number a \<and> is_number b \<and> is_number c | _ \<Rightarrow> False)"

text \<open>
  The groups of the pattern \<^verbatim>\<open>^([<>]=?|=)?(\d+\.\d+\.\d+)$\<close>. As a version starts with a digit, the
  operator is as long as it can be.
\<close>

definition comparator_operator :: "string \<Rightarrow> string" where
  "comparator_operator s = (if starts_with ''<='' s \<or> starts_with ''>='' s then take 2 s
     else if starts_with ''<'' s \<or> starts_with ''>'' s \<or> starts_with ''='' s then take 1 s else '''')"

definition comparator_target :: "string \<Rightarrow> string" where
  "comparator_target s = drop (length (comparator_operator s)) s"

definition isSupportedVersionComparator :: "string \<Rightarrow> bool" where
  "isSupportedVersionComparator s \<longleftrightarrow> is_version (comparator_target s)"

definition isSupportedVersionRange :: "string \<Rightarrow> bool" where
  "isSupportedVersionRange s \<longleftrightarrow> s = ''*'' \<or> list_all isSupportedVersionComparator (split_space s)"

definition parseVersion :: "string \<Rightarrow> nat list" where
  "parseVersion s = map dec_value (split_on (CHR ''.'') s)"

definition part_at :: "nat list \<Rightarrow> nat \<Rightarrow> int" where
  "part_at ns i = (if i < length ns then int (ns ! i) else 0)"

definition compareVersions :: "string \<Rightarrow> string \<Rightarrow> int" where
  "compareVersions left right =
     (let l = parseVersion left; r = parseVersion right in
      if part_at l 0 \<noteq> part_at r 0 then part_at l 0 - part_at r 0
      else if part_at l 1 \<noteq> part_at r 1 then part_at l 1 - part_at r 1
      else if part_at l 2 \<noteq> part_at r 2 then part_at l 2 - part_at r 2
      else 0)"

definition versionSatisfiesComparator :: "string \<Rightarrow> string \<Rightarrow> bool" where
  "versionSatisfiesComparator version comparator =
     (if \<not> is_version (comparator_target comparator) then False
      else let operator = comparator_operator comparator;
               comparison = compareVersions version (comparator_target comparator) in
        if operator = ''>'' then comparison > 0
        else if operator = ''>='' then comparison \<ge> 0
        else if operator = ''<'' then comparison < 0
        else if operator = ''<='' then comparison \<le> 0
        else comparison = 0)"

definition versionSatisfiesRange :: "string \<Rightarrow> string \<Rightarrow> bool" where
  "versionSatisfiesRange version vrange =
     (if vrange = ''*'' then True
      else if \<not> is_version version then False
      else list_all (versionSatisfiesComparator version) (split_space vrange))"

section \<open>Data\<close>

record CapabilityGrantIssuer =
  gi_registryId :: string
  gi_authorityId :: string

record CapabilityGrant =
  cg_grantId :: string
  cg_packageId :: string
  cg_versionRange :: "string option"
  cg_versionPins :: "string list option"
  cg_allowedTools :: "string list"
  cg_allowedRequireApproval :: "string list"
  cg_allowedToolDefinitions :: "string list"
  cg_allowedPolicyEffects :: "string list"
  cg_allowedPolicyLayers :: "string list"
  cg_allowedRuntimeInvariantToolIds :: "string list"
  cg_issuer :: CapabilityGrantIssuer

record RequestedCapabilitySurface =
  su_tools :: "string list"
  su_requireApproval :: "string list"
  su_toolDefinitions :: "string list"
  su_policyEffects :: "string list"
  su_policyLayers :: "string list"
  su_runtimeInvariantToolIds :: "string list"

record CapabilityGrantSummary =
  gs_grantId :: string
  gs_packageId :: string
  gs_versionRange :: "string option"
  gs_versionPins :: "string list option"
  gs_issuer :: CapabilityGrantIssuer

datatype GrantDenialReason =
    MissingGrant
  | MalformedGrant
  | GrantResolutionError
  | GrantNotApplicable
  | CapabilityOutsideGrant

record GrantEvaluation =
  gev_granted :: bool
  gev_requested :: RequestedCapabilitySurface
  gev_grant :: "CapabilityGrantSummary option"
  gev_grantedCapabilities :: RequestedCapabilitySurface
  gev_overGrant :: RequestedCapabilitySurface
  gev_deniedCapabilities :: "string list"
  gev_denialReason :: "GrantDenialReason option"

text \<open>The event of an evaluation; \<^verbatim>\<open>failClosed\<close> is there exactly on a denial.\<close>

record HarnessGrantEvent =
  hge_packageId :: string
  hge_version :: string
  hge_allowed :: bool
  hge_requested :: RequestedCapabilitySurface
  hge_granted :: RequestedCapabilitySurface
  hge_overGrant :: RequestedCapabilitySurface
  hge_grant :: "CapabilityGrantSummary option"
  hge_deniedCapabilities :: "string list"
  hge_denialReason :: "GrantDenialReason option"
  hge_failClosed :: "bool option"

text \<open>What \<^verbatim>\<open>resolveGrant\<close> may throw: an error of this module or any other.\<close>

datatype grant_thrown = CapabilityGrantResolutionError GrantDenialReason | OtherGrantError

type_synonym GrantSource = "string \<Rightarrow> string \<Rightarrow> grant_thrown + json"

section \<open>Schemas\<close>

definition VersionRangeSchema :: "json \<Rightarrow> bool" where
  "VersionRangeSchema v = (case v of JStr s \<Rightarrow> s \<noteq> [] \<and> isSupportedVersionRange s | _ \<Rightarrow> False)"

definition CapabilityGrantIssuerSchema :: "json \<Rightarrow> bool" where
  "CapabilityGrantIssuerSchema = z_strict [(''registryId'', nonEmptyString), (''authorityId'', nonEmptyString)]"

definition PolicyEffectGrantSchema :: "json \<Rightarrow> bool" where
  "PolicyEffectGrantSchema = z_enum [''allow'', ''deny'', ''approval_required'', ''constrain'', ''obligate'']"

definition PolicyLayerGrantSchema :: "json \<Rightarrow> bool" where
  "PolicyLayerGrantSchema = z_enum [''runtime_invariant'', ''host'', ''workspace'', ''harness'', ''phase'',
     ''capability'', ''run_mode'', ''approval'']"

definition CapabilityGrantSchema :: "json \<Rightarrow> bool" where
  "CapabilityGrantSchema v \<longleftrightarrow>
     z_strict
       [(''grantId'', nonEmptyString), (''packageId'', nonEmptyString),
        (''versionRange'', z_optional VersionRangeSchema), (''versionPins'', z_optional (z_array nonEmptyString)),
        (''allowedTools'', z_array nonEmptyString), (''allowedRequireApproval'', z_array nonEmptyString),
        (''allowedToolDefinitions'', z_array nonEmptyString),
        (''allowedPolicyEffects'', z_array PolicyEffectGrantSchema),
        (''allowedPolicyLayers'', z_array PolicyLayerGrantSchema),
        (''allowedRuntimeInvariantToolIds'', z_array nonEmptyString),
        (''issuer'', CapabilityGrantIssuerSchema)] v \<and>
     (js_get v ''versionRange'' \<noteq> JUndefined \<or> js_elems (js_get v ''versionPins'') \<noteq> [])"

definition issuer_of :: "json \<Rightarrow> CapabilityGrantIssuer" where
  "issuer_of v = \<lparr>gi_registryId = the_str (fstr v ''registryId''), gi_authorityId = the_str (fstr v ''authorityId'')\<rparr>"

definition grant_of :: "json \<Rightarrow> CapabilityGrant" where
  "grant_of v =
     \<lparr>cg_grantId = the_str (fstr v ''grantId''), cg_packageId = the_str (fstr v ''packageId''),
      cg_versionRange = fstr v ''versionRange'', cg_versionPins = fstrs v ''versionPins'',
      cg_allowedTools = stringArray (js_get v ''allowedTools''),
      cg_allowedRequireApproval = stringArray (js_get v ''allowedRequireApproval''),
      cg_allowedToolDefinitions = stringArray (js_get v ''allowedToolDefinitions''),
      cg_allowedPolicyEffects = stringArray (js_get v ''allowedPolicyEffects''),
      cg_allowedPolicyLayers = stringArray (js_get v ''allowedPolicyLayers''),
      cg_allowedRuntimeInvariantToolIds = stringArray (js_get v ''allowedRuntimeInvariantToolIds''),
      cg_issuer = issuer_of (js_get v ''issuer'')\<rparr>"

definition parseCapabilityGrant :: "json \<Rightarrow> grant_thrown + CapabilityGrant" where
  "parseCapabilityGrant input =
     (if CapabilityGrantSchema input then Inr (grant_of input) else Inl (CapabilityGrantResolutionError MalformedGrant))"

definition RawCapabilityGrantRecordSchema :: "json \<Rightarrow> bool" where
  "RawCapabilityGrantRecordSchema = z_object [(''packageId'', nonEmptyString), (''grantId'', z_optional nonEmptyString)]"

definition RawCapabilityGrantRegistrySchema :: "json \<Rightarrow> bool" where
  "RawCapabilityGrantRegistrySchema =
     z_strict [(''registryId'', nonEmptyString), (''grants'', z_array RawCapabilityGrantRecordSchema)]"

section \<open>The registry of grants\<close>

record RegistryGrantSource =
  rg_registryId :: string
  rg_grantsByPackageId :: "string \<rightharpoonup> json list"

text \<open>Without an id on the left the comparator answers that the grants are equal.\<close>

definition compareGrants :: "locale_compare \<Rightarrow> json \<Rightarrow> json \<Rightarrow> int" where
  "compareGrants lc left right =
     (case stringValue (js_get left ''grantId'') of
        None \<Rightarrow> 0
      | Some l \<Rightarrow> lc l (default (stringValue (js_get right ''grantId'')) ''''))"

definition add_grant :: "locale_compare \<Rightarrow> json \<Rightarrow> (string \<rightharpoonup> json list) \<Rightarrow> (string \<rightharpoonup> json list)" where
  "add_grant lc grant m =
     (let packageId = the_str (fstr grant ''packageId'') in
      m(packageId \<mapsto> js_sort (compareGrants lc) (default (m packageId) [] @ [grant])))"

definition createRegistryGrantSource :: "locale_compare \<Rightarrow> json \<Rightarrow> grant_thrown + RegistryGrantSource" where
  "createRegistryGrantSource lc input =
     (if \<not> RawCapabilityGrantRegistrySchema input then Inl (CapabilityGrantResolutionError MalformedGrant)
      else Inr \<lparr>rg_registryId = the_str (fstr input ''registryId''),
                rg_grantsByPackageId = fold (add_grant lc) (js_elems (js_get input ''grants'')) Map.empty\<rparr>)"

definition grantAuthorizesVersion :: "CapabilityGrant \<Rightarrow> string \<Rightarrow> bool" where
  "grantAuthorizesVersion grant version \<longleftrightarrow>
     version \<in> set (default (cg_versionPins grant) []) \<or>
     (case cg_versionRange grant of None \<Rightarrow> False | Some r \<Rightarrow> versionSatisfiesRange version r)"

fun first_grant :: "string \<Rightarrow> json list \<Rightarrow> grant_thrown + json" where
  "first_grant version [] = Inr JUndefined"
| "first_grant version (grantRecord # rest) =
     bindE (parseCapabilityGrant grantRecord) (\<lambda>grant.
       if grantAuthorizesVersion grant version then Inr grantRecord else first_grant version rest)"

definition resolveGrant :: "RegistryGrantSource \<Rightarrow> GrantSource" where
  "resolveGrant registry packageId version =
     first_grant version (default (rg_grantsByPackageId registry packageId) [])"

definition builtin_grant :: "string \<Rightarrow> string list \<Rightarrow> string list \<Rightarrow> string list \<Rightarrow> string list \<Rightarrow> json" where
  "builtin_grant packageId allowed effects layers invariants =
     (let texts = (\<lambda>ts. JArr (map JStr ts)) in
      JObj [(''grantId'', JStr (''grant.'' @ packageId @ ''.0.1.0'')), (''packageId'', JStr packageId),
        (''versionPins'', texts [''0.1.0'']), (''allowedTools'', texts allowed), (''allowedRequireApproval'', texts []),
        (''allowedToolDefinitions'', texts allowed), (''allowedPolicyEffects'', texts effects),
        (''allowedPolicyLayers'', texts layers), (''allowedRuntimeInvariantToolIds'', texts invariants),
        (''issuer'', JObj [(''registryId'', JStr ''specwright.local.capability-grants.current''),
           (''authorityId'', JStr ''specwright.registry.operator'')])])"

definition DEFAULT_CAPABILITY_GRANT_REGISTRY :: json where
  "DEFAULT_CAPABILITY_GRANT_REGISTRY = JObj
     [(''registryId'', JStr ''specwright.local.capability-grants.current''),
      (''grants'', JArr
        [builtin_grant ''specwright.default'' [''eval.run'', ''fs.list'', ''fs.read''] [''deny''] [''runtime_invariant'']
           [''fs.write'', ''git.branch'', ''git.commit'', ''git.push'', ''network.request'', ''network.write'', ''shell.exec''],
         builtin_grant ''specwright.test'' [''fs.read''] [] [] []])]"

text \<open>A registry as a source of grants; an error of the constructor is there at every call.\<close>

definition registry_source :: "locale_compare \<Rightarrow> json \<Rightarrow> GrantSource" where
  "registry_source lc input packageId version =
     bindE (createRegistryGrantSource lc input) (\<lambda>registry. resolveGrant registry packageId version)"

definition DEFAULT_GRANT_SOURCE :: "locale_compare \<Rightarrow> GrantSource" where
  "DEFAULT_GRANT_SOURCE lc = registry_source lc DEFAULT_CAPABILITY_GRANT_REGISTRY"

section \<open>Surfaces\<close>

definition grant_keys :: "string list" where
  "grant_keys = [''id'', ''ref'', ''tool'', ''toolId'']"

definition sortedUnique :: "locale_compare \<Rightarrow> string list \<Rightarrow> string list" where
  "sortedUnique lc values = js_sort lc (unique values)"

definition difference :: "string list \<Rightarrow> string list \<Rightarrow> string list" where
  "difference requested granted = filter (\<lambda>item. item \<notin> set granted) requested"

definition normalizeSurface :: "locale_compare \<Rightarrow> RequestedCapabilitySurface \<Rightarrow> RequestedCapabilitySurface" where
  "normalizeSurface lc s =
     \<lparr>su_tools = sortedUnique lc (su_tools s), su_requireApproval = sortedUnique lc (su_requireApproval s),
      su_toolDefinitions = sortedUnique lc (su_toolDefinitions s), su_policyEffects = sortedUnique lc (su_policyEffects s),
      su_policyLayers = sortedUnique lc (su_policyLayers s),
      su_runtimeInvariantToolIds = sortedUnique lc (su_runtimeInvariantToolIds s)\<rparr>"

definition emptySurface :: RequestedCapabilitySurface where
  "emptySurface = \<lparr>su_tools = [], su_requireApproval = [], su_toolDefinitions = [], su_policyEffects = [],
     su_policyLayers = [], su_runtimeInvariantToolIds = []\<rparr>"

definition capabilitySurfaceFromGrant :: "locale_compare \<Rightarrow> CapabilityGrant \<Rightarrow> RequestedCapabilitySurface" where
  "capabilitySurfaceFromGrant lc grant = normalizeSurface lc
     \<lparr>su_tools = cg_allowedTools grant, su_requireApproval = cg_allowedRequireApproval grant,
      su_toolDefinitions = cg_allowedToolDefinitions grant, su_policyEffects = cg_allowedPolicyEffects grant,
      su_policyLayers = cg_allowedPolicyLayers grant,
      su_runtimeInvariantToolIds = cg_allowedRuntimeInvariantToolIds grant\<rparr>"

text \<open>The six differences that \<^verbatim>\<open>evaluateGrant\<close> and \<^verbatim>\<open>buildGrantDeniedEvaluation\<close> both take.\<close>

definition over_grant :: "locale_compare \<Rightarrow> RequestedCapabilitySurface \<Rightarrow> RequestedCapabilitySurface \<Rightarrow>
  RequestedCapabilitySurface" where
  "over_grant lc requested granted = normalizeSurface lc
     \<lparr>su_tools = difference (su_tools requested) (su_tools granted),
      su_requireApproval = difference (su_requireApproval requested) (su_requireApproval granted),
      su_toolDefinitions = difference (su_toolDefinitions requested) (su_toolDefinitions granted),
      su_policyEffects = difference (su_policyEffects requested) (su_policyEffects granted),
      su_policyLayers = difference (su_policyLayers requested) (su_policyLayers granted),
      su_runtimeInvariantToolIds = difference (su_runtimeInvariantToolIds requested) (su_runtimeInvariantToolIds granted)\<rparr>"

definition deniedCapabilityNames :: "RequestedCapabilitySurface \<Rightarrow> string list" where
  "deniedCapabilityNames s =
     map ((@) ''tool:'') (su_tools s) @ map ((@) ''requireApproval:'') (su_requireApproval s) @
     map ((@) ''toolDefinition:'') (su_toolDefinitions s) @ map ((@) ''policyEffect:'') (su_policyEffects s) @
     map ((@) ''policyLayer:'') (su_policyLayers s) @
     map ((@) ''runtimeInvariantTool:'') (su_runtimeInvariantToolIds s)"

definition summarizeGrant :: "locale_compare \<Rightarrow> CapabilityGrant \<Rightarrow> CapabilityGrantSummary" where
  "summarizeGrant lc grant =
     \<lparr>gs_grantId = cg_grantId grant, gs_packageId = cg_packageId grant, gs_versionRange = cg_versionRange grant,
      gs_versionPins = map_option (sortedUnique lc) (cg_versionPins grant), gs_issuer = cg_issuer grant\<rparr>"

subsection \<open>What a package requests\<close>

definition manifestRequireApprovalReferences :: "json \<Rightarrow> string list" where
  "manifestRequireApprovalReferences manifest =
     (if \<not> is_record (js_get manifest ''tools'') then []
      else stringArray (js_get (js_get manifest ''tools'') ''requireApproval''))"

definition policyRuleRecords :: "json \<Rightarrow> json list" where
  "policyRuleRecords policy = filter is_record (js_elems (js_get policy ''rules''))"

definition runtimeInvariantRecords :: "json \<Rightarrow> json list" where
  "runtimeInvariantRecords policy = filter is_record (js_elems (js_get policy ''runtimeInvariants''))"

definition runtimeInvariantToolReferences :: "json \<Rightarrow> string list" where
  "runtimeInvariantToolReferences invariant =
     (let match = (if is_record (js_get invariant ''match'') then js_get invariant ''match'' else JObj []) in
      refsFrom grant_keys (js_get invariant ''toolId'') @ refsFrom grant_keys (js_get invariant ''tool'') @
      refsFrom grant_keys (js_get invariant ''tools'') @ refsFrom grant_keys (js_get match ''toolId'') @
      refsFrom grant_keys (js_get match ''tool'') @ refsFrom grant_keys (js_get match ''tools''))"

text \<open>The loops over rules and invariants push each text that is there.\<close>

definition texts_of :: "string \<Rightarrow> json list \<Rightarrow> string list" where
  "texts_of k rs = List.map_filter (\<lambda>r. stringValue (js_get r k)) rs"

definition governing_records :: "json \<Rightarrow> json list" where
  "governing_records policy = policyRuleRecords policy @ runtimeInvariantRecords policy"

definition extractRequestedSurface :: "locale_compare \<Rightarrow> json \<Rightarrow> json list \<Rightarrow> json list \<Rightarrow> RequestedCapabilitySurface" where
  "extractRequestedSurface lc manifest policies tools = normalizeSurface lc
     \<lparr>su_tools = manifestToolReferences grant_keys manifest,
      su_requireApproval = manifestRequireApprovalReferences manifest,
      su_toolDefinitions = manifestToolReferences grant_keys manifest,
      su_policyEffects = concat (map (\<lambda>p. texts_of ''effect'' (governing_records p)) policies),
      su_policyLayers = concat (map (\<lambda>p. texts_of ''layer'' (governing_records p)) policies),
      su_runtimeInvariantToolIds =
        concat (map (\<lambda>p. concat (map runtimeInvariantToolReferences (runtimeInvariantRecords p))) policies)\<rparr>"

section \<open>Evaluation\<close>

definition evaluateGrant :: "locale_compare \<Rightarrow> RequestedCapabilitySurface \<Rightarrow> CapabilityGrant \<Rightarrow> GrantEvaluation" where
  "evaluateGrant lc requested grant =
     (let normalizedRequested = normalizeSurface lc requested;
          grantedCapabilities = capabilitySurfaceFromGrant lc grant;
          overGrant = over_grant lc normalizedRequested grantedCapabilities;
          deniedCapabilities = deniedCapabilityNames overGrant in
      \<lparr>gev_granted = (deniedCapabilities = []), gev_requested = normalizedRequested,
       gev_grant = Some (summarizeGrant lc grant), gev_grantedCapabilities = grantedCapabilities,
       gev_overGrant = overGrant, gev_deniedCapabilities = deniedCapabilities,
       gev_denialReason = (if deniedCapabilities = [] then None else Some CapabilityOutsideGrant)\<rparr>)"

definition reason_text :: "GrantDenialReason \<Rightarrow> string" where
  "reason_text r =
     (case r of MissingGrant \<Rightarrow> ''missing_grant'' | MalformedGrant \<Rightarrow> ''malformed_grant''
      | GrantResolutionError \<Rightarrow> ''grant_resolution_error'' | GrantNotApplicable \<Rightarrow> ''grant_not_applicable''
      | CapabilityOutsideGrant \<Rightarrow> ''capability_outside_grant'')"

definition buildGrantDeniedEvaluation :: "locale_compare \<Rightarrow> RequestedCapabilitySurface \<Rightarrow> CapabilityGrant option \<Rightarrow>
  GrantDenialReason \<Rightarrow> string list option \<Rightarrow> GrantEvaluation" where
  "buildGrantDeniedEvaluation lc surface grant reason denied =
     (let requested = normalizeSurface lc surface;
          grantedCapabilities = (case grant of None \<Rightarrow> emptySurface | Some g \<Rightarrow> capabilitySurfaceFromGrant lc g);
          overGrant = (if reason = CapabilityOutsideGrant then over_grant lc requested grantedCapabilities else requested);
          deniedCapabilities = (case denied of None \<Rightarrow> deniedCapabilityNames overGrant | Some ds \<Rightarrow> sortedUnique lc ds) in
      \<lparr>gev_granted = False, gev_requested = requested, gev_grant = map_option (summarizeGrant lc) grant,
       gev_grantedCapabilities = grantedCapabilities, gev_overGrant = overGrant,
       gev_deniedCapabilities = (if deniedCapabilities = [] then [''grant:'' @ reason_text reason] else deniedCapabilities),
       gev_denialReason = Some reason\<rparr>)"

subsection \<open>Events\<close>

definition CapabilitySurfaceSchema_ok :: "RequestedCapabilitySurface \<Rightarrow> bool" where
  "CapabilitySurfaceSchema_ok s \<longleftrightarrow>
     list_all (list_all (\<lambda>t. t \<noteq> []))
       [su_tools s, su_requireApproval s, su_toolDefinitions s, su_policyEffects s, su_policyLayers s,
        su_runtimeInvariantToolIds s]"

definition CapabilityGrantSummarySchema_ok :: "CapabilityGrantSummary \<Rightarrow> bool" where
  "CapabilityGrantSummarySchema_ok g \<longleftrightarrow> gs_grantId g \<noteq> [] \<and> gs_packageId g \<noteq> [] \<and> gs_versionRange g \<noteq> Some [] \<and>
     list_all (\<lambda>t. t \<noteq> []) (default (gs_versionPins g) []) \<and>
     gi_registryId (gs_issuer g) \<noteq> [] \<and> gi_authorityId (gs_issuer g) \<noteq> []"

definition HarnessGrantEvaluatedEventSchema_ok :: "HarnessGrantEvent \<Rightarrow> bool" where
  "HarnessGrantEvaluatedEventSchema_ok e \<longleftrightarrow>
     hge_packageId e \<noteq> [] \<and> hge_version e \<noteq> [] \<and> CapabilitySurfaceSchema_ok (hge_requested e) \<and>
     CapabilitySurfaceSchema_ok (hge_granted e) \<and> CapabilitySurfaceSchema_ok (hge_overGrant e) \<and>
     (case hge_grant e of None \<Rightarrow> True | Some g \<Rightarrow> CapabilityGrantSummarySchema_ok g) \<and>
     list_all (\<lambda>t. t \<noteq> []) (hge_deniedCapabilities e) \<and> hge_failClosed e \<noteq> Some False"

definition buildGrantEvaluatedEvent :: "string \<Rightarrow> string \<Rightarrow> GrantEvaluation \<Rightarrow> harness_error + HarnessGrantEvent" where
  "buildGrantEvaluatedEvent packageId version evaluation =
     (let event = \<lparr>hge_packageId = packageId, hge_version = version, hge_allowed = gev_granted evaluation,
            hge_requested = gev_requested evaluation, hge_granted = gev_grantedCapabilities evaluation,
            hge_overGrant = gev_overGrant evaluation, hge_grant = gev_grant evaluation,
            hge_deniedCapabilities = gev_deniedCapabilities evaluation, hge_denialReason = gev_denialReason evaluation,
            hge_failClosed = (if gev_granted evaluation then None else Some True)\<rparr> in
      if HarnessGrantEvaluatedEventSchema_ok event then Inr event else Inl UncaughtError)"

section \<open>The decision of a load\<close>

text \<open>
  The callback of the options is there or not; an event that it receives is part of the result, and the
  event is built only for a callback. An error of the load replaces the result but not the event.
\<close>

definition emitGrantEvent :: "bool \<Rightarrow> string \<times> string \<Rightarrow> GrantEvaluation \<Rightarrow> harness_error + HarnessGrantEvent list" where
  "emitGrantEvent callback package evaluation =
     (if \<not> callback then Inr []
      else bindE (buildGrantEvaluatedEvent (fst package) (snd package) evaluation) (\<lambda>event. Inr [event]))"

definition grantDeniedError :: "GrantDenialReason \<Rightarrow> harness_error" where
  "grantDeniedError reason = HarnessLoaderError ''grant_denied'' (reason_text reason)"

definition deny_grant :: "locale_compare \<Rightarrow> bool \<Rightarrow> string \<times> string \<Rightarrow> RequestedCapabilitySurface \<Rightarrow>
  CapabilityGrant option \<Rightarrow> GrantDenialReason \<Rightarrow> string list \<Rightarrow>
  (harness_error + GrantEvaluation) \<times> HarnessGrantEvent list" where
  "deny_grant lc callback package requested grant reason denied =
     (case emitGrantEvent callback package (buildGrantDeniedEvaluation lc requested grant reason (Some denied)) of
        Inl e \<Rightarrow> (Inl e, [])
      | Inr events \<Rightarrow> (Inl (grantDeniedError reason), events))"

definition thrown_reason :: "GrantDenialReason \<Rightarrow> grant_thrown \<Rightarrow> GrantDenialReason" where
  "thrown_reason other e = (case e of CapabilityGrantResolutionError r \<Rightarrow> r | OtherGrantError \<Rightarrow> other)"

definition enforceCapabilityGrant :: "locale_compare \<Rightarrow> GrantSource \<Rightarrow> bool \<Rightarrow> json \<Rightarrow> json list \<Rightarrow> json list \<Rightarrow>
  (harness_error + GrantEvaluation) \<times> HarnessGrantEvent list" where
  "enforceCapabilityGrant lc grantSource callback manifest policies tools =
     (let requested = extractRequestedSurface lc manifest policies tools;
          packageId = the_str (fstr manifest ''id''); version = the_str (fstr manifest ''version'');
          deny = deny_grant lc callback (packageId, version) requested in
      case grantSource packageId version of
        Inl error \<Rightarrow>
          (let reason = thrown_reason GrantResolutionError error in deny None reason [''grant:'' @ reason_text reason])
      | Inr resolvedGrant \<Rightarrow>
          if resolvedGrant = JUndefined then deny None MissingGrant [''grant:'' @ packageId @ ''@'' @ version]
          else case parseCapabilityGrant resolvedGrant of
            Inl error \<Rightarrow>
              (let reason = thrown_reason MalformedGrant error in deny None reason [''grant:'' @ reason_text reason])
          | Inr grant \<Rightarrow>
              if cg_packageId grant \<noteq> packageId \<or> \<not> grantAuthorizesVersion grant version
              then deny (Some grant) GrantNotApplicable
                     [''grant:'' @ cg_grantId grant @ '':'' @ packageId @ ''@'' @ version]
              else let evaluation = evaluateGrant lc requested grant in
                case emitGrantEvent callback (packageId, version) evaluation of
                  Inl e \<Rightarrow> (Inl e, [])
                | Inr events \<Rightarrow>
                    (if gev_granted evaluation then Inr evaluation else Inl (grantDeniedError CapabilityOutsideGrant),
                     events))"

section \<open>Versions are ordered lexicographically\<close>

definition version_parts :: "string \<Rightarrow> nat \<times> nat \<times> nat" where
  "version_parts s = (case parseVersion s of [a, b, c] \<Rightarrow> (a, b, c) | _ \<Rightarrow> (0, 0, 0))"

lemma is_version_parts:
  assumes "is_version s"
  shows "\<exists>a b c. parseVersion s = [a, b, c]"
  using assms by (auto simp: is_version_def parseVersion_def split: list.splits)

lemma compareVersions_sign:
  assumes "is_version v" "is_version w"
  shows "(compareVersions v w < 0 \<longleftrightarrow> version_parts v < version_parts w) \<and>
    (compareVersions v w = 0 \<longleftrightarrow> version_parts v = version_parts w)"
proof -
  obtain a b c a' b' c' where "parseVersion v = [a, b, c]" "parseVersion w = [a', b', c']"
    using is_version_parts [OF assms(1)] is_version_parts [OF assms(2)] by blast
  then show ?thesis
    by (auto simp: compareVersions_def Let_def part_at_def version_parts_def nth_Cons' less_prod_def)
qed

lemma compareVersions_order:
  assumes "is_version v" "is_version w"
  shows "compareVersions v w > 0 \<longleftrightarrow> version_parts v > version_parts w"
    "compareVersions v w \<ge> 0 \<longleftrightarrow> version_parts v \<ge> version_parts w"
    "compareVersions v w < 0 \<longleftrightarrow> version_parts v < version_parts w"
    "compareVersions v w \<le> 0 \<longleftrightarrow> version_parts v \<le> version_parts w"
    "compareVersions v w = 0 \<longleftrightarrow> version_parts v = version_parts w"
  using compareVersions_sign [OF assms] linorder_less_linear [of "version_parts v" "version_parts w"]
  by (simp_all add: order_le_less) (safe; simp)+

text \<open>The order that an operator stands for.\<close>

definition operator_order :: "string \<Rightarrow> nat \<times> nat \<times> nat \<Rightarrow> nat \<times> nat \<times> nat \<Rightarrow> bool" where
  "operator_order oper v w =
     (if oper = ''>'' then w < v else if oper = ''>='' then w \<le> v else if oper = ''<'' then v < w
      else if oper = ''<='' then v \<le> w else v = w)"

text \<open>
  A version range means the lexicographic order of versions. A version of three numbers satisfies a
  range that the schema accepts exactly if the range is the star or each comparator's order holds
  between the version and the comparator's target; any other version satisfies only the star.
\<close>

theorem version_range_is_order:
  assumes "isSupportedVersionRange vrange"
  shows "versionSatisfiesRange version vrange \<longleftrightarrow>
    vrange = ''*'' \<or>
    is_version version \<and>
    (\<forall>c \<in> set (split_space vrange).
       operator_order (comparator_operator c) (version_parts version) (version_parts (comparator_target c)))"
proof -
  have "versionSatisfiesComparator version c \<longleftrightarrow>
      operator_order (comparator_operator c) (version_parts version) (version_parts (comparator_target c))"
    if "is_version version" "is_version (comparator_target c)" for c
    using that compareVersions_order [OF that] by (simp add: versionSatisfiesComparator_def Let_def operator_order_def)
  with assms show ?thesis
    by (auto simp: versionSatisfiesRange_def isSupportedVersionRange_def isSupportedVersionComparator_def list_all_iff)
qed

section \<open>What a grant covers\<close>

lemma set_sortedUnique [simp]: "set (sortedUnique lc xs) = set xs"
  by (simp add: sortedUnique_def)

lemma sortedUnique_Nil_iff [simp]: "sortedUnique lc xs = [] \<longleftrightarrow> xs = []"
  by (metis set_empty set_sortedUnique)

lemma difference_Nil_iff: "difference xs ys = [] \<longleftrightarrow> set xs \<subseteq> set ys"
  by (auto simp: difference_def filter_empty_conv)

lemma set_texts_of: "set (texts_of k rs) = {t. \<exists>r \<in> set rs. stringValue (js_get r k) = Some t}"
  by (simp add: texts_of_def set_map_filter)

lemmas surface_sets = normalizeSurface_def capabilitySurfaceFromGrant_def extractRequestedSurface_def
  over_grant_def emptySurface_def

text \<open>All that the manifest and the policies of a package ask for is in the grant.\<close>

definition grant_covers :: "CapabilityGrant \<Rightarrow> json \<Rightarrow> json list \<Rightarrow> bool" where
  "grant_covers g manifest policies \<longleftrightarrow>
     set (manifestToolReferences grant_keys manifest) \<subseteq> set (cg_allowedTools g) \<inter> set (cg_allowedToolDefinitions g) \<and>
     set (manifestRequireApprovalReferences manifest) \<subseteq> set (cg_allowedRequireApproval g) \<and>
     (\<forall>policy \<in> set policies.
        (\<forall>r \<in> set (governing_records policy).
           (\<forall>e. stringValue (js_get r ''effect'') = Some e \<longrightarrow> e \<in> set (cg_allowedPolicyEffects g)) \<and>
           (\<forall>l. stringValue (js_get r ''layer'') = Some l \<longrightarrow> l \<in> set (cg_allowedPolicyLayers g))) \<and>
        (\<forall>r \<in> set (runtimeInvariantRecords policy).
           set (runtimeInvariantToolReferences r) \<subseteq> set (cg_allowedRuntimeInvariantToolIds g)))"

lemma texts_within:
  "set (texts_of k rs) \<subseteq> A \<longleftrightarrow> (\<forall>r \<in> set rs. \<forall>t. stringValue (js_get r k) = Some t \<longrightarrow> t \<in> A)"
  by (auto simp: set_texts_of)

lemma evaluateGrant_granted:
  "gev_granted (evaluateGrant lc (extractRequestedSurface lc manifest policies tools) g) \<longleftrightarrow> grant_covers g manifest policies"
proof -
  have "gev_granted (evaluateGrant lc (extractRequestedSurface lc manifest policies tools) g) \<longleftrightarrow>
      set (manifestToolReferences grant_keys manifest) \<subseteq> set (cg_allowedTools g) \<and>
      set (manifestRequireApprovalReferences manifest) \<subseteq> set (cg_allowedRequireApproval g) \<and>
      set (manifestToolReferences grant_keys manifest) \<subseteq> set (cg_allowedToolDefinitions g) \<and>
      (\<Union>p \<in> set policies. set (texts_of ''effect'' (governing_records p))) \<subseteq> set (cg_allowedPolicyEffects g) \<and>
      (\<Union>p \<in> set policies. set (texts_of ''layer'' (governing_records p))) \<subseteq> set (cg_allowedPolicyLayers g) \<and>
      (\<Union>p \<in> set policies. \<Union>r \<in> set (runtimeInvariantRecords p). set (runtimeInvariantToolReferences r))
        \<subseteq> set (cg_allowedRuntimeInvariantToolIds g)"
    by (simp add: evaluateGrant_def Let_def deniedCapabilityNames_def surface_sets difference_Nil_iff)
  then show ?thesis
    by (simp add: grant_covers_def texts_within UN_subset_iff ball_conj_distrib) blast
qed

text \<open>The records that pass the check of the load before the surfaces are compared.\<close>

definition applicable_grant :: "json \<Rightarrow> string \<Rightarrow> string \<Rightarrow> bool" where
  "applicable_grant r packageId version \<longleftrightarrow>
     CapabilityGrantSchema r \<and> cg_packageId (grant_of r) = packageId \<and> grantAuthorizesVersion (grant_of r) version"

lemma undefined_no_grant [simp]: "\<not> CapabilityGrantSchema JUndefined"
  by (simp add: CapabilityGrantSchema_def z_strict_def)

section \<open>Every event is well formed\<close>

lemma list_all_set: "list_all P xs \<longleftrightarrow> (\<forall>x \<in> set xs. P x)"
  by (simp add: list_all_iff)

lemma list_all_sortedUnique [simp]: "list_all P (sortedUnique lc xs) \<longleftrightarrow> list_all P xs"
  by (simp add: list_all_set)

lemma list_all_difference: "list_all P xs \<Longrightarrow> list_all P (difference xs ys)"
  by (simp add: list_all_set difference_def)

lemma surface_normalize_ok [simp]: "CapabilitySurfaceSchema_ok (normalizeSurface lc s) \<longleftrightarrow> CapabilitySurfaceSchema_ok s"
  by (simp add: CapabilitySurfaceSchema_ok_def normalizeSurface_def)

lemma over_grant_ok: "CapabilitySurfaceSchema_ok s \<Longrightarrow> CapabilitySurfaceSchema_ok (over_grant lc s t)"
  by (simp add: over_grant_def) (simp add: CapabilitySurfaceSchema_ok_def list_all_difference)

lemma z_array_nonEmpty: "z_array nonEmptyString v \<Longrightarrow> list_all (\<lambda>t. t \<noteq> []) (stringArray v)"
  using z_array_stringArray [of v] by (auto simp: list_all_set z_optional_def)

lemma z_array_enum: "z_array (z_enum xs) v \<Longrightarrow> [] \<notin> set xs \<Longrightarrow> list_all (\<lambda>t. t \<noteq> []) (stringArray v)"
  by (fastforce simp: list_all_set set_stringArray z_array_def z_enum_def)

lemma granted_enums:
  "z_array PolicyEffectGrantSchema v \<Longrightarrow> list_all (\<lambda>t. t \<noteq> []) (stringArray v)"
  "z_array PolicyLayerGrantSchema v \<Longrightarrow> list_all (\<lambda>t. t \<noteq> []) (stringArray v)"
  unfolding PolicyEffectGrantSchema_def PolicyLayerGrantSchema_def by (erule z_array_enum, simp)+

lemma granted_surface_ok: "CapabilityGrantSchema r \<Longrightarrow> CapabilitySurfaceSchema_ok (capabilitySurfaceFromGrant lc (grant_of r))"
  by (auto simp: capabilitySurfaceFromGrant_def CapabilityGrantSchema_def z_strict_def grant_of_def
      CapabilitySurfaceSchema_ok_def normalizeSurface_def z_array_nonEmpty granted_enums split: json.splits)

lemma requested_surface_ok:
  assumes "HarnessManifestSchema manifest"
  shows "CapabilitySurfaceSchema_ok (extractRequestedSurface lc manifest policies tools)"
proof -
  have approvals: "list_all (\<lambda>t. t \<noteq> []) (manifestRequireApprovalReferences manifest)"
    using assms unfolding manifestRequireApprovalReferences_def
    by (auto simp: list_all_set HarnessManifestSchema_def z_object_def z_optional_def [of HarnessManifestToolsSchema]
        HarnessManifestToolsSchema_def harnessReferenceArray_def z_array_def is_record_def split: json.splits
        dest: z_array_stringArray)
  have invariants: "t \<noteq> []" if "t \<in> set (runtimeInvariantToolReferences r)" for t r
    using that by (auto simp: runtimeInvariantToolReferences_def Let_def dest: refsFrom_nonempty)
  show ?thesis
    using assms approvals invariants
    by (auto simp: extractRequestedSurface_def CapabilitySurfaceSchema_ok_def normalizeSurface_def list_all_set set_texts_of stringValue_Some
        dest: manifestToolReferences_nonempty)
qed

lemma summary_ok:
  assumes "CapabilityGrantSchema r"
  shows "CapabilityGrantSummarySchema_ok (summarizeGrant lc (grant_of r))"
proof -
  from assms have fields: "nonEmptyString (js_get r ''grantId'')" "nonEmptyString (js_get r ''packageId'')"
    "z_optional VersionRangeSchema (js_get r ''versionRange'')"
    "z_optional (z_array nonEmptyString) (js_get r ''versionPins'')"
    "nonEmptyString (js_get (js_get r ''issuer'') ''registryId'')"
    "nonEmptyString (js_get (js_get r ''issuer'') ''authorityId'')"
    by (auto simp: CapabilityGrantSchema_def CapabilityGrantIssuerSchema_def z_strict_def split: json.splits)
  have nonempty: "the_str (fstr v k) \<noteq> []" if "nonEmptyString (js_get v k)" for v k
    using that by (auto simp: nonEmptyString_def the_str_def fstr_def js_str_def split: json.splits)
  have "fstr r ''versionRange'' \<noteq> Some []"
    using fields(3) by (auto simp: fstr_def z_optional_def VersionRangeSchema_def)
  moreover have "list_all (\<lambda>t. t \<noteq> []) (default (fstrs r ''versionPins'') [])"
    using z_array_stringArray [OF fields(4)]
    by (auto simp: list_all_set fstrs_def js_strs_def stringArray_def split: json.splits)
  ultimately show ?thesis
    using fields by (auto simp: CapabilityGrantSummarySchema_ok_def summarizeGrant_def grant_of_def issuer_of_def nonempty
        default_def split: option.splits)
qed

lemma denied_names_ok: "list_all (\<lambda>t. t \<noteq> []) (deniedCapabilityNames s)"
  by (auto simp: deniedCapabilityNames_def list_all_set)

definition valid_evaluation :: "GrantEvaluation \<Rightarrow> bool" where
  "valid_evaluation e \<longleftrightarrow> CapabilitySurfaceSchema_ok (gev_requested e) \<and> CapabilitySurfaceSchema_ok (gev_grantedCapabilities e) \<and>
     CapabilitySurfaceSchema_ok (gev_overGrant e) \<and>
     (case gev_grant e of None \<Rightarrow> True | Some g \<Rightarrow> CapabilityGrantSummarySchema_ok g) \<and>
     list_all (\<lambda>t. t \<noteq> []) (gev_deniedCapabilities e)"

lemma valid_evaluateGrant:
  assumes "CapabilitySurfaceSchema_ok s" "CapabilityGrantSchema r"
  shows "valid_evaluation (evaluateGrant lc s (grant_of r))"
  using assms granted_surface_ok [OF assms(2)] summary_ok [OF assms(2)]
  by (simp add: valid_evaluation_def evaluateGrant_def Let_def over_grant_ok denied_names_ok)

lemma valid_denied:
  assumes "CapabilitySurfaceSchema_ok s" and "\<And>g. grant = Some g \<Longrightarrow> \<exists>r. CapabilityGrantSchema r \<and> g = grant_of r"
    and "list_all (\<lambda>t. t \<noteq> []) denied"
  shows "valid_evaluation (buildGrantDeniedEvaluation lc s grant reason (Some denied))"
proof -
  have "CapabilitySurfaceSchema_ok (case grant of None \<Rightarrow> emptySurface | Some g \<Rightarrow> capabilitySurfaceFromGrant lc g)"
    using assms(2) granted_surface_ok
    by (auto simp: emptySurface_def CapabilitySurfaceSchema_ok_def [of "emptySurface"] split: option.split)
       (simp add: CapabilitySurfaceSchema_ok_def)
  moreover have "case map_option (summarizeGrant lc) grant of None \<Rightarrow> True | Some g \<Rightarrow> CapabilityGrantSummarySchema_ok g"
    using assms(2) summary_ok by (auto split: option.split)
  ultimately show ?thesis
    using assms(1,3) by (simp add: valid_evaluation_def buildGrantDeniedEvaluation_def Let_def over_grant_ok)
qed

lemma emit_valid:
  assumes "valid_evaluation e" "fst package \<noteq> []" "snd package \<noteq> []"
  shows "emitGrantEvent callback package e = Inr (if callback
    then [\<lparr>hge_packageId = fst package, hge_version = snd package, hge_allowed = gev_granted e, hge_requested = gev_requested e,
      hge_granted = gev_grantedCapabilities e, hge_overGrant = gev_overGrant e, hge_grant = gev_grant e,
      hge_deniedCapabilities = gev_deniedCapabilities e, hge_denialReason = gev_denialReason e,
      hge_failClosed = (if gev_granted e then None else Some True)\<rparr>] else [])"
  using assms by (simp add: emitGrantEvent_def buildGrantEvaluatedEvent_def Let_def HarnessGrantEvaluatedEventSchema_ok_def
      valid_evaluation_def)

section \<open>The decision\<close>

lemma manifest_package:
  assumes "HarnessManifestSchema manifest"
  shows "the_str (fstr manifest ''id'') \<noteq> []" "the_str (fstr manifest ''version'') \<noteq> []"
  using assms by (auto simp: HarnessManifestSchema_def z_object_def nonEmptyString_def the_str_def fstr_def js_str_def
      split: json.splits)

definition grant_report :: "bool \<Rightarrow> GrantDenialReason option \<Rightarrow> HarnessGrantEvent list \<Rightarrow> bool" where
  "grant_report callback denial events \<longleftrightarrow>
     (if callback
      then \<exists>event. events = [event] \<and> hge_allowed event = (denial = None) \<and> hge_denialReason event = denial \<and>
             hge_failClosed event = (if denial = None then None else Some True)
      else events = [])"

lemma deny_grant_valid:
  assumes "CapabilitySurfaceSchema_ok s" and "\<And>g. grant = Some g \<Longrightarrow> \<exists>r. CapabilityGrantSchema r \<and> g = grant_of r"
    and "list_all (\<lambda>t. t \<noteq> []) denied" "fst package \<noteq> []" "snd package \<noteq> []"
  shows "\<exists>events. deny_grant lc callback package s grant reason denied = (Inl (grantDeniedError reason), events) \<and>
    grant_report callback (Some reason) events"
proof -
  let ?e = "buildGrantDeniedEvaluation lc s grant reason (Some denied)"
  have "gev_denialReason ?e = Some reason" "\<not> gev_granted ?e"
    by (simp_all add: buildGrantDeniedEvaluation_def Let_def)
  moreover have "valid_evaluation ?e"
    by (rule valid_denied) (use assms in auto)
  ultimately show ?thesis
    using emit_valid [of ?e package callback] assms(4,5)
    by (simp add: deny_grant_def grant_report_def)
qed

lemma enforce_valid:
  fixes lc source callback manifest policies tools
  assumes manifest: "HarnessManifestSchema manifest"
  defines "packageId \<equiv> the_str (fstr manifest ''id'')" and "version \<equiv> the_str (fstr manifest ''version'')"
  shows "\<exists>denial events. snd (enforceCapabilityGrant lc source callback manifest policies tools) = events \<and>
    grant_report callback denial events \<and>
    (denial = None \<longleftrightarrow> (\<exists>r. source packageId version = Inr r \<and> applicable_grant r packageId version \<and>
       grant_covers (grant_of r) manifest policies)) \<and>
    (case denial of
       None \<Rightarrow> \<exists>evaluation. fst (enforceCapabilityGrant lc source callback manifest policies tools) = Inr evaluation
     | Some reason \<Rightarrow> fst (enforceCapabilityGrant lc source callback manifest policies tools) = Inl (grantDeniedError reason))"
    (is "\<exists>denial events. ?P denial events")
proof -
  note surface = requested_surface_ok [OF manifest, of lc policies tools]
  note package = manifest_package [OF manifest, folded packageId_def version_def]
  define requested where "requested = extractRequestedSurface lc manifest policies tools"
  have deny: "\<exists>denial events. ?P denial events"
    if result: "enforceCapabilityGrant lc source callback manifest policies tools =
        deny_grant lc callback (packageId, version) requested grant reason denied"
      and grant: "\<And>g. grant = Some g \<Longrightarrow> \<exists>r. CapabilityGrantSchema r \<and> g = grant_of r"
      and names: "list_all (\<lambda>t. t \<noteq> []) denied"
      and none: "\<And>r. source packageId version = Inr r \<Longrightarrow> \<not> applicable_grant r packageId version"
    for grant reason denied
  proof -
    have "\<exists>events. deny_grant lc callback (packageId, version) requested grant reason denied =
        (Inl (grantDeniedError reason), events) \<and> grant_report callback (Some reason) events"
      by (rule deny_grant_valid) (use surface grant names package in \<open>auto simp: requested_def\<close>)
    then obtain events where "deny_grant lc callback (packageId, version) requested grant reason denied =
        (Inl (grantDeniedError reason), events)" "grant_report callback (Some reason) events" by blast
    with result none show ?thesis by (intro exI [of _ "Some reason"] exI [of _ events]) auto
  qed
  show ?thesis
  proof (cases "source packageId version")
    case (Inl e)
    show ?thesis
      by (rule deny [of None "thrown_reason GrantResolutionError e" "[''grant:'' @ reason_text (thrown_reason GrantResolutionError e)]"])
         (use Inl in \<open>simp_all add: enforceCapabilityGrant_def Let_def packageId_def version_def requested_def\<close>)
  next
    case (Inr r)
    consider (missing) "r = JUndefined" | (malformed) "r \<noteq> JUndefined" "\<not> CapabilityGrantSchema r"
      | (other) "CapabilityGrantSchema r" "\<not> applicable_grant r packageId version"
      | (applicable) "applicable_grant r packageId version"
      by (auto simp: applicable_grant_def)
    then show ?thesis
    proof cases
      case missing
      show ?thesis
        by (rule deny [of None MissingGrant "[''grant:'' @ packageId @ ''@'' @ version]"])
           (use Inr missing in \<open>simp_all add: enforceCapabilityGrant_def Let_def packageId_def version_def requested_def
              applicable_grant_def\<close>)
    next
      case malformed
      show ?thesis
        by (rule deny [of None MalformedGrant "[''grant:'' @ reason_text MalformedGrant]"])
           (use Inr malformed in \<open>simp_all add: enforceCapabilityGrant_def Let_def packageId_def version_def requested_def
              applicable_grant_def parseCapabilityGrant_def thrown_reason_def\<close>)
    next
      case other
      then have "r \<noteq> JUndefined" by auto
      show ?thesis
        by (rule deny [of "Some (grant_of r)" GrantNotApplicable
              "[''grant:'' @ cg_grantId (grant_of r) @ '':'' @ packageId @ ''@'' @ version]"])
           (use Inr other \<open>r \<noteq> JUndefined\<close> in \<open>auto simp: enforceCapabilityGrant_def Let_def packageId_def version_def
              requested_def applicable_grant_def parseCapabilityGrant_def\<close>)
    next
      case applicable
      let ?e = "evaluateGrant lc requested (grant_of r)"
      from applicable have r: "r \<noteq> JUndefined" "CapabilityGrantSchema r" by (auto simp: applicable_grant_def)
      have valid: "valid_evaluation ?e"
        using valid_evaluateGrant [OF surface r(2)] by (simp add: requested_def)
      have "gev_denialReason ?e = (if gev_granted ?e then None else Some CapabilityOutsideGrant)"
        by (simp add: evaluateGrant_def Let_def)
      then show ?thesis
        using Inr applicable r emit_valid [OF valid, of "(packageId, version)" callback] package
          evaluateGrant_granted [of lc manifest policies tools "grant_of r", folded requested_def]
        by (intro exI [of _ "gev_denialReason ?e"])
           (auto simp: enforceCapabilityGrant_def Let_def packageId_def version_def requested_def applicable_grant_def
              parseCapabilityGrant_def grant_report_def)
    qed
  qed
qed


text \<open>
  The grant check fails closed and says so. Whatever the source of grants answers or throws, the
  check ends with an evaluation or with a refusal that names its reason, and a callback receives
  exactly one event, which says whether the package was allowed, gives the reason of the refusal and
  marks it as fail closed.
\<close>

theorem grant_refusal_is_reported:
  assumes "HarnessManifestSchema manifest"
  shows "\<exists>denial.
    (case denial of
       None \<Rightarrow> \<exists>evaluation. fst (enforceCapabilityGrant lc source callback manifest policies tools) = Inr evaluation
     | Some reason \<Rightarrow> fst (enforceCapabilityGrant lc source callback manifest policies tools) = Inl (grantDeniedError reason)) \<and>
    grant_report callback denial (snd (enforceCapabilityGrant lc source callback manifest policies tools))"
  using enforce_valid [OF assms, of lc source callback policies tools] by auto

section \<open>Registries as sources\<close>

text \<open>The contract of a source of reviewed grants: it answers with listed grants that apply.\<close>

locale reviewed_grants =
  fixes source :: GrantSource and listed :: "json set"
  assumes answers: "source packageId version = Inr r \<Longrightarrow> r \<noteq> JUndefined \<Longrightarrow>
    r \<in> listed \<and> applicable_grant r packageId version"
begin

lemma passed_is_listed:
  assumes "HarnessManifestSchema manifest"
    and "is_ok (fst (enforceCapabilityGrant lc source callback manifest policies tools))"
  shows "\<exists>r \<in> listed. applicable_grant r (the_str (fstr manifest ''id'')) (the_str (fstr manifest ''version'')) \<and>
    grant_covers (grant_of r) manifest policies"
proof -
  from enforce_valid [OF assms(1), of lc source callback policies tools] assms(2) obtain r
    where "source (the_str (fstr manifest ''id'')) (the_str (fstr manifest ''version'')) = Inr r"
      "applicable_grant r (the_str (fstr manifest ''id'')) (the_str (fstr manifest ''version''))"
      "grant_covers (grant_of r) manifest policies"
    by (auto split: option.splits)
  moreover from this(2) have "r \<noteq> JUndefined" by (auto simp: applicable_grant_def)
  ultimately show ?thesis using answers by blast
qed

lemma refusal_reason:
  assumes "source packageId version = Inr r" "r \<noteq> JUndefined"
  shows "parseCapabilityGrant r = Inr (grant_of r)"
  using answers [OF assms] by (simp add: applicable_grant_def parseCapabilityGrant_def)

end

lemma first_grant_Inr:
  "first_grant version rs = Inr r \<Longrightarrow> r \<noteq> JUndefined \<Longrightarrow>
   r \<in> set rs \<and> CapabilityGrantSchema r \<and> grantAuthorizesVersion (grant_of r) version"
  by (induction version rs rule: first_grant.induct)
     (auto simp: bindE_Inr_iff parseCapabilityGrant_def split: if_splits)

lemma registered_grants:
  assumes "fold (add_grant lc) grants m packageId = Some rs" and "r \<in> set rs"
  shows "r \<in> set grants \<and> the_str (fstr r ''packageId'') = packageId \<or> (\<exists>rs. m packageId = Some rs \<and> r \<in> set rs)"
  using assms
proof (induction grants arbitrary: m)
  case (Cons g grants)
  from Cons.IH [of "add_grant lc g m"] Cons.prems show ?case
    by (auto simp: add_grant_def Let_def default_def split: if_splits option.splits)
qed auto

lemma registry_answers:
  assumes "registry_source lc input packageId version = Inr r" "r \<noteq> JUndefined"
  shows "r \<in> set (js_elems (js_get input ''grants'')) \<and> applicable_grant r packageId version"
proof -
  let ?m = "fold (add_grant lc) (js_elems (js_get input ''grants'')) Map.empty"
  from assms(1) have "first_grant version (default (?m packageId) []) = Inr r"
    by (auto simp: registry_source_def bindE_Inr_iff createRegistryGrantSource_def resolveGrant_def split: if_splits)
  from first_grant_Inr [OF this assms(2)] have first: "r \<in> set (default (?m packageId) [])" "CapabilityGrantSchema r"
    "grantAuthorizesVersion (grant_of r) version" by auto
  from first(1) obtain rs where rs: "?m packageId = Some rs" "r \<in> set rs" by (cases "?m packageId") auto
  from registered_grants [OF rs] first(2,3) show ?thesis by (simp add: applicable_grant_def grant_of_def)
qed

interpretation registry: reviewed_grants "registry_source lc input" "set (js_elems (js_get input ''grants''))"
  for lc input
  using registry_answers by unfold_locales blast

text \<open>
  With a registry as the source, a package that passes the check stays within one grant of the
  registry: a record listed in it that names the package, authorises the version and covers all that
  the package asks for.
\<close>

theorem registry_bounds_package:
  assumes "HarnessManifestSchema manifest"
    and "is_ok (fst (enforceCapabilityGrant lc (registry_source lc input) callback manifest policies tools))"
  shows "\<exists>r \<in> set (js_elems (js_get input ''grants'')).
    applicable_grant r (the_str (fstr manifest ''id'')) (the_str (fstr manifest ''version'')) \<and>
    grant_covers (grant_of r) manifest policies"
  using assms by (rule registry.passed_is_listed)

lemma default_source_packages:
  assumes "DEFAULT_GRANT_SOURCE lc packageId version = Inr r" "r \<noteq> JUndefined"
  shows "version = ''0.1.0'' \<and> packageId \<in> {''specwright.default'', ''specwright.test''}"
  using registry_answers [OF assms [unfolded DEFAULT_GRANT_SOURCE_def]]
  by (auto simp: DEFAULT_CAPABILITY_GRANT_REGISTRY_def builtin_grant_def js_get_def js_elems_def applicable_grant_def
      grant_of_def the_str_def fstr_def fstrs_def js_strs_def only_strs_def List.map_filter_simps js_str_def
      grantAuthorizesVersion_def)

section \<open>Examples\<close>

definition hx_grant_manifest :: json where
  "hx_grant_manifest = JObj [(''id'', JStr ''specwright.test''), (''version'', JStr ''0.1.0''),
     (''schemaVersion'', JStr ''specwright.harness.v1''), (''tools'', JArr [JStr ''fs.read''])]"

lemma hx_grant_manifest_ok: "HarnessManifestSchema hx_grant_manifest"
  by code_simp

lemma hx_grant_passes:
  "is_ok (fst (enforceCapabilityGrant hx_compare (registry_source hx_compare DEFAULT_CAPABILITY_GRANT_REGISTRY) True
     hx_grant_manifest [] []))"
  by code_simp

theorem version_range_is_order_witness:
  "isSupportedVersionRange ''>=1.2.0 <2.0.0'' \<and> versionSatisfiesRange ''1.10.0'' ''>=1.2.0 <2.0.0'' \<and>
   operator_order ''>='' (version_parts ''1.10.0'') (version_parts ''1.2.0'')"
proof -
  have ok: "isSupportedVersionRange ''>=1.2.0 <2.0.0''" by code_simp
  moreover have satisfied: "versionSatisfiesRange ''1.10.0'' ''>=1.2.0 <2.0.0''" by code_simp
  moreover have "split_space ''>=1.2.0 <2.0.0'' = [''>=1.2.0'', ''<2.0.0'']"
    "comparator_operator ''>=1.2.0'' = ''>=''" "comparator_target ''>=1.2.0'' = ''1.2.0''" by (code_simp, code_simp, code_simp)
  ultimately show ?thesis
    using version_range_is_order [OF ok, of "''1.10.0''"] by simp
qed


theorem grant_refusal_is_reported_witness:
  "\<exists>denial. fst (enforceCapabilityGrant hx_compare (\<lambda>p v. Inl OtherGrantError) True hx_grant_manifest [] []) =
       Inl (grantDeniedError GrantResolutionError) \<and>
     grant_report True denial (snd (enforceCapabilityGrant hx_compare (\<lambda>p v. Inl OtherGrantError) True hx_grant_manifest [] []))"
proof -
  have "fst (enforceCapabilityGrant hx_compare (\<lambda>p v. Inl OtherGrantError) True hx_grant_manifest [] []) =
       Inl (grantDeniedError GrantResolutionError)" by code_simp
  then show ?thesis
    using grant_refusal_is_reported [OF hx_grant_manifest_ok, of hx_compare "\<lambda>p v. Inl OtherGrantError" True "[]" "[]"] by auto
qed

theorem registry_bounds_package_witness:
  "\<exists>r \<in> set (js_elems (js_get DEFAULT_CAPABILITY_GRANT_REGISTRY ''grants'')). grant_covers (grant_of r) hx_grant_manifest []"
  using registry_bounds_package [OF hx_grant_manifest_ok hx_grant_passes] by blast

end
