(* ===== verification/Harness_Phase_Graph.thy ===== *)
theory Harness_Phase_Graph
  imports Harness_References
begin

text \<open>
  The check that the phases of a harness form no cycle (\<^verbatim>\<open>assertAcyclicPhaseGraph\<close> of
  \<^verbatim>\<open>harness-loader/src/index.ts\<close>): a depth-first search with the sets \<^verbatim>\<open>visiting\<close> and \<^verbatim>\<open>visited\<close>. A
  call of \<^verbatim>\<open>visit\<close> removes from \<^verbatim>\<open>visiting\<close> what it adds, so this set is an argument; \<^verbatim>\<open>visited\<close>
  only grows and is the result. The path of a cycle is part of the message and left out.

  The search ends, since \<^verbatim>\<open>visiting\<close> grows with the depth, and it accepts exactly the acyclic graphs.
\<close>

section \<open>The search\<close>

type_synonym edge = "string \<times> string"

definition outgoing :: "edge list \<Rightarrow> string \<Rightarrow> string list" where
  "outgoing edges v = map snd (filter (\<lambda>e. fst e = v) edges)"

definition nodes :: "edge list \<Rightarrow> string set" where
  "nodes edges = fst ` set edges \<union> snd ` set edges"

lemma outgoing_set: "w \<in> set (outgoing edges v) \<longleftrightarrow> (v, w) \<in> set edges"
  by (force simp: outgoing_def)

function visit :: "edge list \<Rightarrow> string set \<Rightarrow> string \<Rightarrow> string set \<Rightarrow> harness_error + string set"
  and visit_each :: "edge list \<Rightarrow> string set \<Rightarrow> string list \<Rightarrow> string set \<Rightarrow> harness_error + string set" where
  "visit edges visiting v visited =
     (if v \<in> visiting then Inl (HarnessLoaderError ''invalid_graph'' '''')
      else if v \<in> visited then Inr visited
      else bindE (visit_each edges (insert v visiting) (outgoing edges v) visited) (\<lambda>visited'. Inr (insert v visited')))"
| "visit_each edges visiting [] visited = Inr visited"
| "visit_each edges visiting (v # vs) visited =
     bindE (visit edges visiting v visited) (\<lambda>visited'. visit_each edges visiting vs visited')"
  by pat_completeness auto
termination
proof (relation "measures [case_sum (\<lambda>(edges, visiting, _). card (nodes edges - visiting)) (\<lambda>(edges, visiting, _). card (nodes edges - visiting)),
    case_sum (\<lambda>_. 1) (\<lambda>(edges, visiting, vs, _). 2 * length vs)]", goal_cases)
  case (2 edges visiting v visited)
  show ?case
  proof (cases "v \<in> nodes edges")
    case True
    with 2 have "nodes edges - insert v visiting \<subset> nodes edges - visiting" by blast
    moreover have "finite (nodes edges - visiting)" by (simp add: nodes_def)
    ultimately show ?thesis by (simp add: psubset_card_mono)
  next
    case False
    then have "nodes edges - insert v visiting = nodes edges - visiting" "outgoing edges v = []"
      using outgoing_set [of _ edges v] by (force simp: nodes_def, metis False Un_iff fst_conv image_eqI last_in_set nodes_def)
    then show ?thesis by simp
  qed
qed auto

declare visit.simps [simp del]

definition assertAcyclicPhaseGraph :: "edge list \<Rightarrow> harness_error + unit" where
  "assertAcyclicPhaseGraph edges =
     bindE (visit_each edges {} (unique (map fst edges)) {}) (\<lambda>visited. Inr ())"

section \<open>A search that ends well has seen no cycle\<close>

text \<open>What has been visited is closed under edges and on no cycle.\<close>

definition explored :: "edge list \<Rightarrow> string set \<Rightarrow> bool" where
  "explored edges V \<longleftrightarrow> (\<forall>v w. v \<in> V \<longrightarrow> (v, w) \<in> set edges \<longrightarrow> w \<in> V) \<and> (\<forall>v \<in> V. (v, v) \<notin> (set edges)\<^sup>+)"

lemma explored_reach:
  assumes "explored edges V" "v \<in> V" "(v, w) \<in> (set edges)\<^sup>+"
  shows "w \<in> V"
  using assms(3) assms(1,2) by (induction rule: trancl_induct) (auto simp: explored_def)

lemma explored_insert:
  assumes V: "explored edges V" and v: "v \<notin> V" and out: "set (outgoing edges v) \<subseteq> V"
  shows "explored edges (insert v V)"
proof -
  have "(v, v) \<notin> (set edges)\<^sup>+"
  proof
    assume "(v, v) \<in> (set edges)\<^sup>+"
    then obtain w where "(v, w) \<in> set edges" "w = v \<or> (w, v) \<in> (set edges)\<^sup>+"
      by (metis converse_tranclE)
    with out have "w \<in> V" "w = v \<or> (w, v) \<in> (set edges)\<^sup>+" by (auto simp flip: outgoing_set)
    with explored_reach [OF V] v show False by auto
  qed
  with V out show ?thesis by (auto simp: explored_def simp flip: outgoing_set)
qed

lemma visit_explores:
  "visit edges visiting v V = Inr V' \<Longrightarrow> explored edges V \<Longrightarrow> V \<inter> visiting = {} \<Longrightarrow>
     explored edges V' \<and> V \<subseteq> V' \<and> V' \<inter> visiting = {} \<and> v \<in> V'"
  "visit_each edges visiting vs V = Inr V' \<Longrightarrow> explored edges V \<Longrightarrow> V \<inter> visiting = {} \<Longrightarrow>
     explored edges V' \<and> V \<subseteq> V' \<and> V' \<inter> visiting = {} \<and> set vs \<subseteq> V'"
proof (induction edges visiting v V and edges visiting vs V arbitrary: V' and V' rule: visit_visit_each.induct)
  case (1 edges visiting v V)
  show ?case
  proof (cases "v \<in> V")
    case True
    with "1.prems" show ?thesis by (auto simp: visit.simps [of edges visiting v V] split: if_splits)
  next
    case False
    with "1.prems"(1) obtain W where W: "visit_each edges (insert v visiting) (outgoing edges v) V = Inr W"
      "V' = insert v W" "v \<notin> visiting" by (auto simp: visit.simps [of edges visiting v V] bindE_Inr_iff split: if_splits)
    with "1.IH" [OF W(3) False W(1)] "1.prems" False have IH: "explored edges W \<and> V \<subseteq> W \<and> W \<inter> insert v visiting = {} \<and> set (outgoing edges v) \<subseteq> W" by auto
    with W explored_insert [of edges W v] show ?thesis by auto
  qed
next
  case (3 edges visiting v vs V)
  then obtain W where W: "visit edges visiting v V = Inr W" "visit_each edges visiting vs W = Inr V'"
    by (auto simp: bindE_Inr_iff)
  from "3.IH"(1) [OF W(1) "3.prems"(2,3)]
  have first: "explored edges W" "V \<subseteq> W" "W \<inter> visiting = {}" "v \<in> W" by blast+
  from "3.IH"(2) [OF W(2) first(1,3)] first show ?case by auto
qed auto

section \<open>A search that fails has found a cycle\<close>

lemma visit_cycle:
  "visit edges visiting v V = Inl e \<Longrightarrow> \<forall>u \<in> visiting. (u, v) \<in> (set edges)\<^sup>+ \<Longrightarrow> \<exists>w. (w, w) \<in> (set edges)\<^sup>+"
  "visit_each edges visiting vs V = Inl e \<Longrightarrow> \<forall>u \<in> visiting. \<forall>v \<in> set vs. (u, v) \<in> (set edges)\<^sup>+ \<Longrightarrow>
     \<exists>w. (w, w) \<in> (set edges)\<^sup>+"
proof (induction edges visiting v V and edges visiting vs V rule: visit_visit_each.induct)
  case (1 edges visiting v V)
  show ?case
  proof (cases "v \<in> visiting")
    case True
    with "1.prems"(2) show ?thesis by blast
  next
    case False
    with "1.prems"(1) have "v \<notin> V" "visit_each edges (insert v visiting) (outgoing edges v) V = Inl e"
      by (auto simp: visit.simps [of edges visiting v V] bindE_Inl_iff split: if_splits)
    moreover have "\<forall>u \<in> insert v visiting. \<forall>w \<in> set (outgoing edges v). (u, w) \<in> (set edges)\<^sup>+"
      using "1.prems"(2) by (auto simp: outgoing_set intro: trancl_into_trancl)
    ultimately show ?thesis using "1.IH" [OF False] by blast
  qed
next
  case (3 edges visiting v vs V)
  then show ?case by (auto simp: bindE_Inl_iff)
qed auto

lemma graph_check_exact: "is_ok (assertAcyclicPhaseGraph edges) \<longleftrightarrow> acyclic (set edges)"
proof
  assume "is_ok (assertAcyclicPhaseGraph edges)"
  then obtain V where V: "visit_each edges {} (unique (map fst edges)) {} = Inr V"
    by (auto simp: assertAcyclicPhaseGraph_def is_ok_iff bindE_Inr_iff)
  have "explored edges {}" by (simp add: explored_def)
  from visit_explores(2) [OF V this] have "explored edges V" "fst ` set edges \<subseteq> V" by auto
  show "acyclic (set edges)"
  proof (rule acyclicI, rule allI, rule notI)
    fix v
    assume cycle: "(v, v) \<in> (set edges)\<^sup>+"
    then obtain w where "(v, w) \<in> set edges" by (metis converse_tranclE)
    with \<open>fst ` set edges \<subseteq> V\<close> have "v \<in> V" by force
    with cycle \<open>explored edges V\<close> show False by (simp add: explored_def)
  qed
next
  assume "acyclic (set edges)"
  then have "\<not> (\<exists>w. (w, w) \<in> (set edges)\<^sup>+)" by (simp add: acyclic_def)
  with visit_cycle(2) [of edges "{}" "unique (map fst edges)" "{}"]
  show "is_ok (assertAcyclicPhaseGraph edges)"
    by (cases "visit_each edges {} (unique (map fst edges)) {}") (auto simp: assertAcyclicPhaseGraph_def)
qed

text \<open>
  The check of the phase graph accepts exactly the acyclic graphs. The depth-first search ends on
  every graph, without an error if and only if no phase can reach itself along the declared edges.
\<close>

theorem phase_graph_check_is_exact: "is_ok (assertAcyclicPhaseGraph edges) \<longleftrightarrow> acyclic (set edges)"
  by (rule graph_check_exact)

lemma acyclic_example:
  "is_ok (assertAcyclicPhaseGraph [(''plan'', ''build''), (''build'', ''review''), (''plan'', ''review'')])"
  "\<not> is_ok (assertAcyclicPhaseGraph [(''plan'', ''build''), (''build'', ''review''), (''review'', ''plan'')])"
  by code_simp+

end
