(* ===== verification/Harness_Snapshots.thy ===== *)
theory Harness_Snapshots
  imports Harness_Trust
begin

text \<open>
  Snapshots of harness packages: the hash of a package (\<^verbatim>\<open>computeSpecHash\<close> of
  \<^verbatim>\<open>harness-loader/src/index.ts\<close>), the stage of a load that pins
  dependencies, and the snapshot cache (\<^verbatim>\<open>harness-loader/src/cache.ts\<close>). A snapshot is a JSON value.

  The results: the hash of packages whose files hold no NUL characters determines the files up to
  line endings and the pinned dependencies, and a NUL character breaks this; the cache serves a
  snapshot only under its own hash, within its lifetime and after recomputing the hash, never holds
  more entries than its limit, and a snapshot that was put in is there at once.
\<close>

section \<open>The hash of a package\<close>

record PackageFile =
  pf_relativePath :: string
  pf_raw :: string

record SourceFile = PackageFile +
  sf_absolutePath :: string

definition SUPPORTED_HARNESS_SCHEMA_VERSION :: string where
  "SUPPORTED_HARNESS_SCHEMA_VERSION = ''specwright.harness.v1''"

text \<open>\<^verbatim>\<open>raw.replace(/\r\n/g, "\n").replace(/\r/g, "\n")\<close>.\<close>

fun replace_crlf :: "string \<Rightarrow> string" where
  "replace_crlf [] = []"
| "replace_crlf [c] = [c]"
| "replace_crlf (c # d # cs) =
     (if c = CHR 0x0D \<and> d = CHR 0x0A then CHR 0x0A # replace_crlf cs else c # replace_crlf (d # cs))"

definition normalize_newlines :: "string \<Rightarrow> string" where
  "normalize_newlines raw = map (\<lambda>c. if c = CHR 0x0D then CHR 0x0A else c) (replace_crlf raw)"

definition sorted_files :: "locale_compare \<Rightarrow> PackageFile list \<Rightarrow> PackageFile list" where
  "sorted_files lc files = js_sort (\<lambda>left right. lc (pf_relativePath left) (pf_relativePath right)) files"

definition spec_payload :: "locale_compare \<Rightarrow> PackageFile list \<Rightarrow> ResolvedDependency list \<Rightarrow> thrown + string" where
  "spec_payload lc files dependencies =
     (let filePayload = join [NUL] (map (\<lambda>file. pf_relativePath file @ [NUL] @ normalize_newlines (pf_raw file))
                          (sorted_files lc files)) in
      bindE (canonicalDependencyHashSegments lc dependencies) (\<lambda>dependencySegments.
        Inr (if dependencySegments = [] then filePayload
             else join [NUL] ([filePayload, ''schemaVersion'', SUPPORTED_HARNESS_SCHEMA_VERSION, ''dependencies''] @
                    dependencySegments))))"

definition computeSpecHash ::
  "locale_compare \<Rightarrow> (string \<Rightarrow> string) \<Rightarrow> PackageFile list \<Rightarrow> ResolvedDependency list \<Rightarrow> thrown + string" where
  "computeSpecHash lc sha files dependencies =
     bindE (spec_payload lc files dependencies) (\<lambda>payload. Inr (''sha256:'' @ sha payload))"

subsection \<open>Pieces of the payload\<close>

text \<open>The payload is a list of pieces between NUL characters.\<close>

definition file_pieces :: "PackageFile \<Rightarrow> string list" where
  "file_pieces f = [pf_relativePath f, normalize_newlines (pf_raw f)]"

definition dependency_pieces :: "ResolvedDependency \<Rightarrow> string list" where
  "dependency_pieces d = [''dependency'', rd_name d, rd_version d, rd_contentHash d]"

definition spec_pieces :: "PackageFile list \<Rightarrow> ResolvedDependency list \<Rightarrow> string list" where
  "spec_pieces files dependencies =
     concat (map file_pieces files) @
     (if dependencies = [] then []
      else [''schemaVersion'', SUPPORTED_HARNESS_SCHEMA_VERSION, ''dependencies''] @
        concat (map dependency_pieces dependencies))"

lemma join_Cons_ne: "ys \<noteq> [] \<Longrightarrow> join s (x # ys) = x @ s @ join s ys"
  by (cases ys) simp_all

lemma join_append: "xs \<noteq> [] \<Longrightarrow> ys \<noteq> [] \<Longrightarrow> join s (xs @ ys) = join s xs @ s @ join s ys"
proof (induction xs)
  case (Cons x xs)
  then show ?case by (cases "xs = []") (simp_all add: join_Cons_ne)
qed simp

lemma join_concat:
  assumes "\<forall>xs \<in> set xss. xs \<noteq> []"
  shows "join s (map (join s) xss) = join s (concat xss)"
  using assms
proof (induction xss)
  case (Cons xs xss)
  show ?case
  proof (cases "xss = []")
    case False
    moreover from False Cons.prems have "concat xss \<noteq> []" by (cases xss) auto
    ultimately show ?thesis using Cons by (simp add: join_Cons_ne join_append)
  qed simp
qed simp

lemma split_on_join:
  assumes "xs \<noteq> []" and "\<forall>x \<in> set xs. d \<notin> set x"
  shows "split_on d (join [d] xs) = xs"
  using assms
proof (induction xs)
  case (Cons x xs)
  then show ?case by (cases "xs = []") (simp_all add: join_Cons_ne split_on_append split_on_no_sep)
qed simp

lemma join_inject:
  assumes "join [d] xs = join [d] ys" "xs \<noteq> []" "ys \<noteq> []" "\<forall>x \<in> set xs. d \<notin> set x" "\<forall>y \<in> set ys. d \<notin> set y"
  shows "xs = ys"
  using assms split_on_join by metis

lemma file_payload_pieces:
  "join [NUL] (map (\<lambda>file. pf_relativePath file @ NUL # normalize_newlines (pf_raw file)) fs) =
   join [NUL] (concat (map file_pieces fs))"
  using join_concat [of "map file_pieces fs" "[NUL]"] by (simp add: file_pieces_def o_def)

lemma spec_payload_pieces:
  assumes "spec_payload lc files dependencies = Inr payload" and "files \<noteq> []"
  shows "payload = join [NUL] (spec_pieces (sorted_files lc files) (js_sort (compareResolvedDependencies lc) dependencies)) \<and>
    (\<forall>d \<in> set dependencies. ResolvedDependencySchema_ok d)"
proof -
  let ?fs = "sorted_files lc files" and ?ds = "js_sort (compareResolvedDependencies lc) dependencies"
  from assms(1) obtain ds where ds: "canonicalizeResolvedDependencies lc dependencies = Inr ds"
    by (auto simp: spec_payload_def canonicalDependencyHashSegments_def bindE_Inr_iff Let_def)
  have ok: "\<forall>d \<in> set dependencies. ResolvedDependencySchema_ok d"
    using canonicalize_Inr [OF ds] by (metis set_mset_mset)
  from ds canonicalize_ok [OF ok, of lc] have eq: "ds = ?ds" by simp
  have fs: "concat (map file_pieces ?fs) \<noteq> []"
    using assms(2) by (auto simp: file_pieces_def sorted_files_def dest: arg_cong [where f = length])
  have segments: "join [NUL] (map dependency_segment ?ds) = join [NUL] (concat (map dependency_pieces ?ds))"
  proof -
    have "map dependency_segment ?ds = map (join [NUL]) (map dependency_pieces ?ds)"
      by (simp add: dependency_segment_def dependency_pieces_def)
    then show ?thesis
      using join_concat [of "map dependency_pieces ?ds" "[NUL]"] by (simp only:) (simp add: dependency_pieces_def)
  qed
  have payload: "payload = (if ?ds = [] then join [NUL] (concat (map file_pieces ?fs))
      else join [NUL] ([join [NUL] (concat (map file_pieces ?fs)), ''schemaVersion'', SUPPORTED_HARNESS_SCHEMA_VERSION,
        ''dependencies''] @ map dependency_segment ?ds))"
    using assms(1) ds
    by (simp add: spec_payload_def canonicalDependencyHashSegments_def eq file_payload_pieces Let_def split: if_splits)
  show ?thesis
  proof (cases "?ds = []")
    case False
    then have "concat (map dependency_pieces ?ds) \<noteq> []" by (cases ?ds) (auto simp: dependency_pieces_def)
    with False fs payload segments ok show ?thesis
      by (simp add: spec_pieces_def join_Cons_ne join_append)
  qed (use payload ok in \<open>simp add: spec_pieces_def\<close>)
qed

text \<open>
  The pieces before the piece \<^verbatim>\<open>schemaVersion\<close> in a position of a path belong to files, those after
  it to dependencies.
\<close>

fun read_pieces :: "string list \<Rightarrow> (string \<times> string) list \<times> string list" where
  "read_pieces (p # r # rest) =
     (if p = ''schemaVersion'' then ([], p # r # rest)
      else let q = read_pieces rest in ((p, r) # fst q, snd q))"
| "read_pieces rest = ([], rest)"

fun read_dependencies :: "string list \<Rightarrow> (string \<times> string \<times> string) list" where
  "read_dependencies (w # n # v # h # rest) = (n, v, h) # read_dependencies rest"
| "read_dependencies rest = []"

definition file_view :: "PackageFile \<Rightarrow> string \<times> string" where
  "file_view f = (pf_relativePath f, normalize_newlines (pf_raw f))"

definition dependency_view :: "ResolvedDependency \<Rightarrow> string \<times> string \<times> string" where
  "dependency_view d = (rd_name d, rd_version d, rd_contentHash d)"

lemma read_dependencies_pieces: "read_dependencies (concat (map dependency_pieces ds)) = map dependency_view ds"
  by (induction ds) (simp_all add: dependency_pieces_def dependency_view_def)

lemma read_pieces_files:
  assumes "\<forall>f \<in> set fs. pf_relativePath f \<noteq> ''schemaVersion''" and "tail = [] \<or> (\<exists>r rest. tail = ''schemaVersion'' # r # rest)"
  shows "read_pieces (concat (map file_pieces fs) @ tail) = (map file_view fs, tail)"
  using assms(1)
proof (induction fs)
  case Nil
  from assms(2) show ?case by auto
next
  case (Cons f fs)
  then show ?case by (simp add: file_pieces_def file_view_def)
qed

lemma spec_pieces_inject:
  assumes "spec_pieces fs ds = spec_pieces gs es"
    and "\<forall>f \<in> set fs. pf_relativePath f \<noteq> ''schemaVersion''" "\<forall>f \<in> set gs. pf_relativePath f \<noteq> ''schemaVersion''"
  shows "map file_view fs = map file_view gs \<and> map dependency_view ds = map dependency_view es"
proof -
  define tail :: "ResolvedDependency list \<Rightarrow> string list" where "tail ds =
      (if ds = [] then [] else [''schemaVersion'', SUPPORTED_HARNESS_SCHEMA_VERSION, ''dependencies''] @
        concat (map dependency_pieces ds))" for ds
  have shape: "tail ds = [] \<or> (\<exists>r rest. tail ds = ''schemaVersion'' # r # rest)" for ds
    by (simp add: tail_def)
  have "read_pieces (spec_pieces fs ds) = (map file_view fs, tail ds)" "read_pieces (spec_pieces gs es) = (map file_view gs, tail es)"
    using read_pieces_files [OF assms(2) shape] read_pieces_files [OF assms(3) shape] by (simp_all add: spec_pieces_def tail_def)
  with assms(1) have "map file_view fs = map file_view gs" "tail ds = tail es" by simp_all
  moreover have "read_dependencies (drop 3 (tail ds)) = map dependency_view ds" for ds
    by (simp add: tail_def read_dependencies_pieces)
  ultimately show ?thesis by metis
qed

text \<open>What the loader reads has neither a file of this name nor, usually, NUL characters.\<close>

definition nul_free :: "PackageFile list \<Rightarrow> ResolvedDependency list \<Rightarrow> bool" where
  "nul_free files dependencies \<longleftrightarrow> files \<noteq> [] \<and>
     list_all (\<lambda>f. pf_relativePath f \<noteq> ''schemaVersion'' \<and> NUL \<notin> set (pf_relativePath f) \<and> NUL \<notin> set (pf_raw f)) files \<and>
     list_all (\<lambda>d. NUL \<notin> set (rd_name d) \<and> NUL \<notin> set (rd_version d)) dependencies"

lemma set_replace_crlf: "set (replace_crlf s) \<subseteq> set s"
  by (induction s rule: replace_crlf.induct) auto

lemma nul_normalize: "NUL \<notin> set raw \<Longrightarrow> NUL \<notin> set (normalize_newlines raw)"
  using set_replace_crlf [of raw] by (auto simp: normalize_newlines_def)

lemma nul_hash: "sha256_text h \<Longrightarrow> NUL \<notin> set h"
proof -
  assume h: "sha256_text h"
  then have "h = ''sha256:'' @ drop 7 h"
    using append_take_drop_id [of 7 h] by (simp add: sha256_text_def starts_with_def numeral_eq_Suc)
  moreover have "\<not> is_lower_hex NUL" by (simp add: is_lower_hex_def)
  then have "NUL \<notin> set (drop 7 h)"
    using h by (auto simp: sha256_text_def list_all_iff simp del: set_drop_subset)
  moreover have "NUL \<notin> set ''sha256:''" by simp
  ultimately show ?thesis by (metis Un_iff set_append)
qed

lemma nul_free_pieces:
  assumes "nul_free files dependencies" and "\<forall>d \<in> set dependencies. ResolvedDependencySchema_ok d"
    and "set fs = set files" "set ds = set dependencies" "x \<in> set (spec_pieces fs ds)"
  shows "NUL \<notin> set x"
proof -
  consider (source) f where "f \<in> set files" "x \<in> set (file_pieces f)" | (dep) d where "d \<in> set dependencies" "x \<in> set (dependency_pieces d)"
    | (tag) "x \<in> {''schemaVersion'', SUPPORTED_HARNESS_SCHEMA_VERSION, ''dependencies''}"
    using assms(3-5) by (auto simp: spec_pieces_def split: if_splits)
  then show ?thesis
  proof cases
    case source
    with assms(1) show ?thesis by (auto simp: nul_free_def file_pieces_def list_all_iff nul_normalize)
  next
    case dep
    with assms(1,2) nul_hash show ?thesis
      by (auto simp: nul_free_def dependency_pieces_def list_all_iff ResolvedDependencySchema_ok_def)
  next
    case tag
    then show ?thesis by (auto simp: SUPPORTED_HARNESS_SCHEMA_VERSION_def)
  qed
qed

text \<open>
  Packages with one hash are the same: if SHA-256 does not collide on their payloads and no name,
  version or content holds a NUL character, they have the same files with the same contents up to line
  endings, and the same pinned dependencies with the same content hashes.
\<close>

theorem spec_hash_binds:
  assumes "computeSpecHash lc sha f1 d1 = Inr h" "computeSpecHash lc sha f2 d2 = Inr h"
    and "nul_free f1 d1" "nul_free f2 d2"
    and "inj_on sha {p. spec_payload lc f1 d1 = Inr p \<or> spec_payload lc f2 d2 = Inr p}"
  shows "mset (map file_view f1) = mset (map file_view f2) \<and> mset (map dependency_view d1) = mset (map dependency_view d2)"
proof -
  let ?ds = "js_sort (compareResolvedDependencies lc)"
  from assms(1,2) obtain p1 p2 where p: "spec_payload lc f1 d1 = Inr p1" "spec_payload lc f2 d2 = Inr p2" "sha p1 = sha p2"
    by (auto simp: computeSpecHash_def bindE_Inr_iff)
  have ne: "f1 \<noteq> []" "f2 \<noteq> []" using assms(3,4) by (simp_all add: nul_free_def)
  note s1 = spec_payload_pieces [OF p(1) ne(1)] and s2 = spec_payload_pieces [OF p(2) ne(2)]
  have "p1 = p2" using inj_onD [OF assms(5) p(3)] p(1,2) by simp
  with s1 s2 have joined: "join [NUL] (spec_pieces (sorted_files lc f1) (?ds d1)) =
      join [NUL] (spec_pieces (sorted_files lc f2) (?ds d2))" by simp
  have nonempty: "spec_pieces (sorted_files lc fs) ds \<noteq> []" if "fs \<noteq> []" for fs ds
    using that by (cases "sorted_files lc fs") (auto simp: spec_pieces_def file_pieces_def sorted_files_def)
  have sets: "set (sorted_files lc fs) = set fs" for fs by (simp add: sorted_files_def)
  have clean: "\<forall>x \<in> set (spec_pieces (sorted_files lc f1) (?ds d1)). NUL \<notin> set x"
    "\<forall>x \<in> set (spec_pieces (sorted_files lc f2) (?ds d2)). NUL \<notin> set x"
    using nul_free_pieces [OF assms(3) conjunct2 [OF s1] sets set_js_sort]
      nul_free_pieces [OF assms(4) conjunct2 [OF s2] sets set_js_sort] by blast+
  have "spec_pieces (sorted_files lc f1) (?ds d1) = spec_pieces (sorted_files lc f2) (?ds d2)"
    by (rule join_inject [OF joined nonempty [OF ne(1)] nonempty [OF ne(2)] clean])
  then have "map file_view (sorted_files lc f1) = map file_view (sorted_files lc f2) \<and>
      map dependency_view (?ds d1) = map dependency_view (?ds d2)"
    by (rule spec_pieces_inject) (use assms(3,4) in \<open>simp_all add: nul_free_def list_all_iff sorted_files_def\<close>)
  then show ?thesis
    by (metis (no_types, lifting) mset_js_sort mset_map sorted_files_def)
qed

theorem spec_hash_binds_witness:
  "mset (map file_view [\<lparr>pf_relativePath = ''harness.yaml'', pf_raw = ''a'' @ [CHR 0x0D, CHR 0x0A]\<rparr>,
       \<lparr>pf_relativePath = ''prompts/p.md'', pf_raw = ''p''\<rparr>]) =
   mset (map file_view [\<lparr>pf_relativePath = ''prompts/p.md'', pf_raw = ''p''\<rparr>,
       \<lparr>pf_relativePath = ''harness.yaml'', pf_raw = ''a'' @ [CHR 0x0A]\<rparr>])"
proof -
  let ?f = "[\<lparr>pf_relativePath = ''harness.yaml'', pf_raw = ''a'' @ [CHR 0x0D, CHR 0x0A]\<rparr>,
       \<lparr>pf_relativePath = ''prompts/p.md'', pf_raw = ''p''\<rparr>]"
  let ?g = "[\<lparr>pf_relativePath = ''prompts/p.md'', pf_raw = ''p''\<rparr>,
       \<lparr>pf_relativePath = ''harness.yaml'', pf_raw = ''a'' @ [CHR 0x0A]\<rparr>]"
  have "is_ok (computeSpecHash hx_compare (\<lambda>s. s) ?f []) \<and>
      computeSpecHash hx_compare (\<lambda>s. s) ?f [] = computeSpecHash hx_compare (\<lambda>s. s) ?g []" by code_simp
  then obtain h where "computeSpecHash hx_compare (\<lambda>s. s) ?f [] = Inr h" "computeSpecHash hx_compare (\<lambda>s. s) ?g [] = Inr h"
    by (metis is_ok_iff)
  from spec_hash_binds [OF this] show ?thesis
    by (rule conjunct1) (simp_all add: nul_free_def inj_on_def)
qed

text \<open>
  A NUL character in the contents of a file breaks the correspondence: a package with two prompts has
  the hash, and so the signature, of one whose single prompt holds the other after a NUL character.
\<close>

lemma nul_content_collides:
  "computeSpecHash hx_compare sha
     [\<lparr>pf_relativePath = ''harness.yaml'', pf_raw = m\<rparr>, \<lparr>pf_relativePath = ''prompts/a.md'', pf_raw = ''x''\<rparr>,
      \<lparr>pf_relativePath = ''prompts/b.md'', pf_raw = ''y''\<rparr>] [] =
   computeSpecHash hx_compare sha
     [\<lparr>pf_relativePath = ''harness.yaml'', pf_raw = m\<rparr>,
      \<lparr>pf_relativePath = ''prompts/a.md'', pf_raw = ''x'' @ [NUL] @ ''prompts/b.md'' @ [NUL] @ ''y''\<rparr>] []"
  by (simp add: computeSpecHash_def spec_payload_def sorted_files_def js_sort_def hx_compare_def normalize_newlines_def
      canonicalDependencyHashSegments_def canonicalizeResolvedDependencies_def Let_def)

section \<open>The dependencies of a load\<close>

definition dependencyStrictMode :: "json \<Rightarrow> bool" where
  "dependencyStrictMode manifest \<longleftrightarrow>
     \<not> is_record (js_get manifest ''runtime'') \<or> js_get (js_get manifest ''runtime'') ''strict'' \<noteq> JBool False"

definition enforceDependencyResolution ::
  "locale_compare \<Rightarrow> LoadHarnessPackageOptions option \<Rightarrow> json \<Rightarrow> harness_error + DependencyResolution" where
  "enforceDependencyResolution lc input manifest =
     (let resolver = default (Option.bind input lo_dependencyResolver) (registry_resolve DEFAULT_DEPENDENCY_RESOLVER) in
      case resolveAndPinDependencies lc resolver manifest (dependencyStrictMode manifest) of
        Inr resolution \<Rightarrow> Inr resolution
      | Inl (DependencyResolutionError reason name) \<Rightarrow> Inl (DependencyUnresolvedError reason)
      | Inl OtherError \<Rightarrow> Inl UncaughtError)"

section \<open>The snapshot cache\<close>

record SnapshotCacheEntry =
  ce_specHash :: string
  ce_snapshot :: json
  ce_files :: "PackageFile list"
  ce_dependencies :: "ResolvedDependency list"
  ce_createdAt :: int
  ce_lastAccessedAt :: int

record HarnessLoadRecord =
  hl_snapshot :: json
  hl_loadedFiles :: "SourceFile list"
  hl_dependencies :: DependencyResolution
  hl_trust :: "TrustVerdict option"

text \<open>
  The entries of the \<^verbatim>\<open>Map\<close> in insertion order; each is stored under its own \<^verbatim>\<open>specHash\<close>. The
  function that computes the hash of a package is an argument of the constructor.
\<close>

type_synonym compute_spec_hash = "PackageFile list \<Rightarrow> ResolvedDependency list \<Rightarrow> thrown + string"

record SnapshotCache =
  sc_entries :: "SnapshotCacheEntry list"
  sc_maxEntries :: nat
  sc_ttlMs :: int

definition snapshot_field :: "string \<Rightarrow> json \<Rightarrow> string" where
  "snapshot_field k snapshot = the_str (fstr snapshot k)"

definition verifyEntry :: "compute_spec_hash \<Rightarrow> SnapshotCacheEntry \<Rightarrow> harness_error + unit" where
  "verifyEntry computeHash entry =
     (case computeHash (ce_files entry) (ce_dependencies entry) of
        Inl e \<Rightarrow> Inl UncaughtError
      | Inr actual \<Rightarrow>
          if actual \<noteq> ce_specHash entry \<or> snapshot_field ''specHash'' (ce_snapshot entry) \<noteq> ce_specHash entry
          then Inl (HarnessLoaderError ''cache_poisoned'' ''spec_hash_mismatch'')
          else Inr ())"

fun entries_set :: "SnapshotCacheEntry \<Rightarrow> SnapshotCacheEntry list \<Rightarrow> SnapshotCacheEntry list" where
  "entries_set entry [] = [entry]"
| "entries_set entry (e # es) =
     (if ce_specHash e = ce_specHash entry then entry # es else e # entries_set entry es)"

definition entries_delete :: "string \<Rightarrow> SnapshotCacheEntry list \<Rightarrow> SnapshotCacheEntry list" where
  "entries_delete specHash es = filter (\<lambda>e. ce_specHash e \<noteq> specHash) es"

definition oldest :: "SnapshotCacheEntry list \<Rightarrow> SnapshotCacheEntry list" where
  "oldest es = js_sort (\<lambda>left right. ce_lastAccessedAt left - ce_lastAccessedAt right) es"

function evictOverflow :: "nat \<Rightarrow> SnapshotCacheEntry list \<Rightarrow> SnapshotCacheEntry list" where
  "evictOverflow maxEntries es =
     (if length es > maxEntries then
        (case oldest es of [] \<Rightarrow> es | e # _ \<Rightarrow> evictOverflow maxEntries (entries_delete (ce_specHash e) es))
      else es)"
  by pat_completeness auto
termination
proof (relation "measure (\<lambda>(maxEntries, es). length es)", goal_cases)
  case (2 maxEntries es e rest)
  then have "e \<in> set es" by (metis list.set_intros(1) oldest_def set_js_sort)
  then show ?case by (auto simp: entries_delete_def intro: length_filter_less)
qed simp

declare evictOverflow.simps [simp del]

definition cache_put :: "compute_spec_hash \<Rightarrow> SnapshotCache \<Rightarrow> int \<Rightarrow> HarnessLoadRecord \<Rightarrow>
  (harness_error + unit) \<times> SnapshotCache" where
  "cache_put computeHash cache timestamp loaded =
     (let entry =
        \<lparr>ce_specHash = snapshot_field ''specHash'' (hl_snapshot loaded), ce_snapshot = hl_snapshot loaded,
         ce_files = map PackageFile.truncate (hl_loadedFiles loaded),
         ce_dependencies = dn_resolved (hl_dependencies loaded),
         ce_createdAt = timestamp, ce_lastAccessedAt = timestamp\<rparr> in
      case verifyEntry computeHash entry of
        Inl e \<Rightarrow> (Inl e, cache)
      | Inr u \<Rightarrow>
          (Inr (), cache\<lparr>sc_entries := evictOverflow (sc_maxEntries cache) (entries_set entry (sc_entries cache))\<rparr>))"

definition cache_delete :: "SnapshotCache \<Rightarrow> string \<Rightarrow> SnapshotCache" where
  "cache_delete cache specHash = cache\<lparr>sc_entries := entries_delete specHash (sc_entries cache)\<rparr>"

definition isExpired :: "SnapshotCache \<Rightarrow> int \<Rightarrow> SnapshotCacheEntry \<Rightarrow> bool" where
  "isExpired cache now entry \<longleftrightarrow> now - ce_createdAt entry > sc_ttlMs cache"

text \<open>The clock is read twice: for the expiry and for the time of the access.\<close>

definition cache_get :: "compute_spec_hash \<Rightarrow> SnapshotCache \<Rightarrow> int \<Rightarrow> int \<Rightarrow> string \<Rightarrow>
  (harness_error + json option) \<times> SnapshotCache" where
  "cache_get computeHash cache now accessed specHash =
     (case find (\<lambda>e. ce_specHash e = specHash) (sc_entries cache) of
        None \<Rightarrow> (Inr None, cache)
      | Some entry \<Rightarrow>
          if isExpired cache now entry then (Inr None, cache_delete cache specHash)
          else case verifyEntry computeHash entry of
            Inl e \<Rightarrow> (Inl e, cache_delete cache specHash)
          | Inr u \<Rightarrow>
              (Inr (Some (ce_snapshot entry)),
               cache\<lparr>sc_entries := entries_set (entry\<lparr>ce_lastAccessedAt := accessed\<rparr>) (sc_entries cache)\<rparr>))"

definition cache_has :: "SnapshotCache \<Rightarrow> string \<Rightarrow> bool" where
  "cache_has cache specHash \<longleftrightarrow> list_ex (\<lambda>e. ce_specHash e = specHash) (sc_entries cache)"

subsection \<open>The interface of a cache\<close>

text \<open>
  What the registry relies on: an invariant that every operation keeps, that a lookup only returns a
  snapshot that is stored under the hash and has it, that nothing but storing adds a hash, and that
  deleting removes it.
\<close>

locale snapshot_store =
  fixes inv :: "'c \<Rightarrow> bool"
    and has :: "'c \<Rightarrow> string \<Rightarrow> bool"
    and put :: "'c \<Rightarrow> int \<Rightarrow> HarnessLoadRecord \<Rightarrow> (harness_error + unit) \<times> 'c"
    and get :: "'c \<Rightarrow> int \<Rightarrow> int \<Rightarrow> string \<Rightarrow> (harness_error + json option) \<times> 'c"
    and delete :: "'c \<Rightarrow> string \<Rightarrow> 'c"
  assumes inv_put: "inv c \<Longrightarrow> inv (snd (put c t r))"
    and inv_get: "inv c \<Longrightarrow> inv (snd (get c now accessed h))"
    and inv_delete: "inv c \<Longrightarrow> inv (delete c h)"
    and get_sound: "inv c \<Longrightarrow> get c now accessed h = (Inr (Some s), c') \<Longrightarrow> has c h \<and> snapshot_field ''specHash'' s = h"
    and has_put: "has (snd (put c t r)) h \<Longrightarrow> has c h \<or> h = snapshot_field ''specHash'' (hl_snapshot r)"
    and has_get: "has (snd (get c now accessed h')) h \<Longrightarrow> has c h"
    and has_delete: "has (delete c h') h \<longleftrightarrow> has c h \<and> h \<noteq> h'"
begin

text \<open>Deleting every hash of a list, as a revocation does.\<close>

definition purge :: "string list \<Rightarrow> 'c \<Rightarrow> 'c" where
  "purge hs c = fold (\<lambda>h c. delete c h) hs c"

lemma has_purge: "has (purge hs c) h \<longleftrightarrow> has c h \<and> h \<notin> set hs"
  unfolding purge_def by (induction hs arbitrary: c) (auto simp: has_delete)

lemma inv_purge: "inv c \<Longrightarrow> inv (purge hs c)"
  unfolding purge_def by (induction hs arbitrary: c) (auto simp: inv_delete)

lemma purged_is_not_served:
  assumes "inv c" "h \<in> set hs"
  shows "fst (get (purge hs c) now accessed h) \<noteq> Inr (Some s)"
proof
  assume "fst (get (purge hs c) now accessed h) = Inr (Some s)"
  then have "has (purge hs c) h"
    using get_sound [OF inv_purge [OF assms(1)]] by (metis prod.collapse)
  with assms(2) show False by (simp add: has_purge)
qed

end

subsection \<open>The cache implements it\<close>

definition cache_ok :: "compute_spec_hash \<Rightarrow> SnapshotCache \<Rightarrow> bool" where
  "cache_ok computeHash cache \<longleftrightarrow>
     distinct (map ce_specHash (sc_entries cache)) \<and> length (sc_entries cache) \<le> sc_maxEntries cache \<and>
     (\<forall>e \<in> set (sc_entries cache). verifyEntry computeHash e = Inr ())"

lemma set_entries_delete: "set (entries_delete h es) = {e \<in> set es. ce_specHash e \<noteq> h}"
  by (simp add: entries_delete_def)

lemma set_entries_set: "set (entries_set entry es) \<subseteq> insert entry (set es)" "entry \<in> set (entries_set entry es)"
  by (induction es) auto

lemma keys_entries_set:
  "map ce_specHash (entries_set entry es) =
     (if ce_specHash entry \<in> ce_specHash ` set es then map ce_specHash es else map ce_specHash es @ [ce_specHash entry])"
  by (induction es) auto

lemma entries_set_new: "ce_specHash entry \<notin> ce_specHash ` set es \<Longrightarrow> entries_set entry es = es @ [entry]"
  by (induction es) auto

lemma distinct_entries_set: "distinct (map ce_specHash es) \<Longrightarrow> distinct (map ce_specHash (entries_set entry es))"
  by (auto simp: keys_entries_set)

lemma evict_props:
  "set (evictOverflow m es) \<subseteq> set es \<and> length (evictOverflow m es) \<le> m \<and>
   (distinct (map ce_specHash es) \<longrightarrow> distinct (map ce_specHash (evictOverflow m es)))"
proof (induction m es rule: evictOverflow.induct)
  case (1 m es)
  show ?case
  proof (cases "length es > m")
    case True
    then obtain e rest where e: "oldest es = e # rest"
      by (cases "oldest es") (auto simp: oldest_def)
    let ?d = "entries_delete (ce_specHash e) es"
    have "set ?d \<subseteq> set es" "distinct (map ce_specHash es) \<longrightarrow> distinct (map ce_specHash ?d)"
      by (auto simp: entries_delete_def distinct_map_filter)
    with "1.IH" [OF True e] True e show ?thesis
      by (auto simp: evictOverflow.simps [of m es])
  next
    case False
    then show ?thesis by (simp add: evictOverflow.simps [of m es])
  qed
qed

lemma evict_fits: "length es \<le> m \<Longrightarrow> evictOverflow m es = es"
  by (simp add: evictOverflow.simps)

definition new_entry :: "int \<Rightarrow> HarnessLoadRecord \<Rightarrow> SnapshotCacheEntry" where
  "new_entry timestamp loaded =
     \<lparr>ce_specHash = snapshot_field ''specHash'' (hl_snapshot loaded), ce_snapshot = hl_snapshot loaded,
      ce_files = map PackageFile.truncate (hl_loadedFiles loaded),
      ce_dependencies = dn_resolved (hl_dependencies loaded),
      ce_createdAt = timestamp, ce_lastAccessedAt = timestamp\<rparr>"

lemma new_entry_simps [simp]:
  "ce_specHash (new_entry t r) = snapshot_field ''specHash'' (hl_snapshot r)" "ce_snapshot (new_entry t r) = hl_snapshot r"
  "ce_createdAt (new_entry t r) = t" "ce_lastAccessedAt (new_entry t r) = t"
  by (simp_all add: new_entry_def)

lemma cache_put_cases:
  obtains (refused) e where "cache_put ch c t r = (Inl e, c)" "verifyEntry ch (new_entry t r) = Inl e"
  | (stored) "cache_put ch c t r =
      (Inr (), c\<lparr>sc_entries := evictOverflow (sc_maxEntries c) (entries_set (new_entry t r) (sc_entries c))\<rparr>)"
      "verifyEntry ch (new_entry t r) = Inr ()"
  by (cases "verifyEntry ch (new_entry t r)") (auto simp: cache_put_def new_entry_def Let_def)

lemma cache_ok_put: "cache_ok ch c \<Longrightarrow> cache_ok ch (snd (cache_put ch c t r))"
proof (cases rule: cache_put_cases [of ch c t r])
  case stored
  assume ok: "cache_ok ch c"
  let ?es = "entries_set (new_entry t r) (sc_entries c)"
  have "distinct (map ce_specHash ?es)" using ok by (simp add: cache_ok_def distinct_entries_set)
  moreover have "\<forall>e \<in> set ?es. verifyEntry ch e = Inr ()"
    using ok stored(2) set_entries_set(1) [of "new_entry t r" "sc_entries c"] by (auto simp: cache_ok_def)
  ultimately show ?thesis
    using evict_props [of "sc_maxEntries c" ?es] by (auto simp: stored(1) cache_ok_def)
qed simp

lemma cache_ok_delete: "cache_ok ch c \<Longrightarrow> cache_ok ch (cache_delete c h)"
  by (auto simp: cache_ok_def cache_delete_def entries_delete_def distinct_map_filter
      intro: le_trans [OF length_filter_le])

lemma cache_get_cases:
  obtains (none) "cache_get ch c now accessed h = (Inr None, c)" "\<not> cache_has c h"
  | (expired) entry where "cache_get ch c now accessed h = (Inr None, cache_delete c h)"
      "entry \<in> set (sc_entries c)" "ce_specHash entry = h" "isExpired c now entry"
  | (poisoned) entry e where "cache_get ch c now accessed h = (Inl e, cache_delete c h)"
      "entry \<in> set (sc_entries c)" "ce_specHash entry = h" "verifyEntry ch entry = Inl e"
  | (hit) entry where "cache_get ch c now accessed h = (Inr (Some (ce_snapshot entry)),
        c\<lparr>sc_entries := entries_set (entry\<lparr>ce_lastAccessedAt := accessed\<rparr>) (sc_entries c)\<rparr>)"
      "entry \<in> set (sc_entries c)" "ce_specHash entry = h" "\<not> isExpired c now entry" "verifyEntry ch entry = Inr ()"
proof (cases "find (\<lambda>e. ce_specHash e = h) (sc_entries c)")
  case None
  then have "\<not> cache_has c h" by (auto simp: cache_has_def list_ex_iff find_None_iff)
  with None show thesis by (intro none) (simp_all add: cache_get_def)
next
  case (Some entry)
  note entry = find_Some_iff_in [OF Some]
  show thesis
  proof (cases "isExpired c now entry")
    case True
    with Some entry show thesis by (intro expired [of entry]) (auto simp: cache_get_def)
  next
    case False
    with Some entry show thesis
      by (cases "verifyEntry ch entry")
        (auto simp: cache_get_def intro: poisoned [of _ entry] hit [of entry])
  qed
qed

lemma verify_touched: "verifyEntry ch (e\<lparr>ce_lastAccessedAt := t\<rparr>) = verifyEntry ch e"
  by (simp add: verifyEntry_def split: sum.split)

lemma cache_ok_get: "cache_ok ch c \<Longrightarrow> cache_ok ch (snd (cache_get ch c now accessed h))"
proof (cases rule: cache_get_cases [of ch c now accessed h])
  case (hit entry)
  assume ok: "cache_ok ch c"
  let ?es = "entries_set (entry\<lparr>ce_lastAccessedAt := accessed\<rparr>) (sc_entries c)"
  have keys: "map ce_specHash ?es = map ce_specHash (sc_entries c)"
    using hit(2) by (auto simp: keys_entries_set)
  then have "length ?es = length (sc_entries c)" by (metis length_map)
  moreover have "\<forall>e \<in> set ?es. verifyEntry ch e = Inr ()"
    using ok hit(5) set_entries_set(1) by (fastforce simp: cache_ok_def verify_touched)
  ultimately show ?thesis using ok keys by (simp add: hit(1) cache_ok_def)
qed (simp_all add: cache_ok_delete)

lemma verified_hash: "verifyEntry ch e = Inr () \<Longrightarrow>
    snapshot_field ''specHash'' (ce_snapshot e) = ce_specHash e \<and> ch (ce_files e) (ce_dependencies e) = Inr (ce_specHash e)"
  by (auto simp: verifyEntry_def split: sum.splits if_splits)

lemma cache_has_iff: "cache_has c h \<longleftrightarrow> h \<in> ce_specHash ` set (sc_entries c)"
  by (auto simp: cache_has_def list_ex_iff)

lemma cache_has_delete: "cache_has (cache_delete c h') h \<longleftrightarrow> cache_has c h \<and> h \<noteq> h'"
  by (auto simp: cache_has_iff cache_delete_def set_entries_delete)

lemma cache_has_put:
  "cache_has (snd (cache_put ch c t r)) h \<Longrightarrow> cache_has c h \<or> h = snapshot_field ''specHash'' (hl_snapshot r)"
proof (cases rule: cache_put_cases [of ch c t r])
  case stored
  assume "cache_has (snd (cache_put ch c t r)) h"
  then obtain e where "e \<in> set (evictOverflow (sc_maxEntries c) (entries_set (new_entry t r) (sc_entries c)))" "ce_specHash e = h"
    by (auto simp: stored(1) cache_has_iff)
  then have "e = new_entry t r \<or> e \<in> set (sc_entries c)" "ce_specHash e = h"
    using evict_props [of "sc_maxEntries c" "entries_set (new_entry t r) (sc_entries c)"]
      set_entries_set(1) [of "new_entry t r" "sc_entries c"] by auto
  then show ?thesis by (auto simp: cache_has_iff)
qed simp

lemma cache_has_get: "cache_has (snd (cache_get ch c now accessed h')) h \<Longrightarrow> cache_has c h"
proof (cases rule: cache_get_cases [of ch c now accessed h'])
  case (hit entry)
  assume "cache_has (snd (cache_get ch c now accessed h')) h"
  moreover have "ce_specHash ` set (entries_set (entry\<lparr>ce_lastAccessedAt := accessed\<rparr>) (sc_entries c)) = ce_specHash ` set (sc_entries c)"
    using arg_cong [OF keys_entries_set [of "entry\<lparr>ce_lastAccessedAt := accessed\<rparr>" "sc_entries c"], of set] hit(2)
    by (auto split: if_splits)
  ultimately show ?thesis by (simp add: hit(1) cache_has_iff)
qed (auto simp: cache_has_delete)

interpretation memory_cache: snapshot_store "cache_ok ch" cache_has "cache_put ch" "cache_get ch" cache_delete for ch
proof
  fix c now accessed h s c'
  assume "cache_ok ch c" "cache_get ch c now accessed h = (Inr (Some s), c')"
  then show "cache_has c h \<and> snapshot_field ''specHash'' s = h"
    by (cases rule: cache_get_cases [of ch c now accessed h]) (auto simp: cache_has_iff dest: verified_hash)
qed (auto simp: cache_ok_put cache_ok_get cache_ok_delete cache_has_delete dest: cache_has_put cache_has_get)

section \<open>Snapshots that were put in are there\<close>

lemma js_sort_Cons: "js_sort compare (x # xs) = insert_by compare x (js_sort compare xs)"
  by (simp add: js_sort_def)

lemma hd_insert_by: "hd (insert_by compare x ys) = (case ys of [] \<Rightarrow> x | y # _ \<Rightarrow> if compare x y \<le> 0 then x else y)"
  by (cases ys) simp_all

text \<open>The first in the order of a stable sort is not the last element of a list, if that is a maximum.\<close>

lemma hd_sort_not_last:
  fixes f :: "'a \<Rightarrow> int"
  assumes "\<forall>y \<in> set ys. f y \<le> f x" "ys \<noteq> []"
  shows "hd (js_sort (\<lambda>l r. f l - f r) (ys @ [x])) \<in> set ys"
  using assms
proof (induction ys)
  case (Cons y ys)
  let ?s = "js_sort (\<lambda>l r. f l - f r)"
  show ?case
  proof (cases "ys = []")
    case True
    with Cons.prems show ?thesis by (simp add: js_sort_def)
  next
    case False
    with Cons have "hd (?s (ys @ [x])) \<in> set ys" by simp
    moreover obtain z zs where "?s (ys @ [x]) = z # zs" by (cases "?s (ys @ [x])") auto
    ultimately show ?thesis by (simp add: js_sort_Cons hd_insert_by)
  qed
qed simp

lemma evict_keeps_newest:
  assumes "m \<ge> 1" "\<forall>e \<in> set es. ce_lastAccessedAt e \<le> ce_lastAccessedAt x" "distinct (map ce_specHash (es @ [x]))"
  shows "x \<in> set (evictOverflow m (es @ [x]))"
  using assms(2,3)
proof (induction "length es" arbitrary: es rule: less_induct)
  case less
  show ?case
  proof (cases "length (es @ [x]) > m")
    case True
    with assms(1) have "es \<noteq> []" by auto
    obtain e rest where e: "oldest (es @ [x]) = e # rest" by (cases "oldest (es @ [x])") (auto simp: oldest_def)
    have "e \<in> set es"
      using hd_sort_not_last [OF less.prems(1) \<open>es \<noteq> []\<close>] e by (simp add: oldest_def)
    with less.prems(2) have d: "entries_delete (ce_specHash e) (es @ [x]) = entries_delete (ce_specHash e) es @ [x]"
      by (auto simp: entries_delete_def)
    have "length (entries_delete (ce_specHash e) es) < length es"
      using \<open>e \<in> set es\<close> by (auto simp: entries_delete_def intro: length_filter_less)
    moreover have "distinct (map ce_specHash (entries_delete (ce_specHash e) es @ [x]))"
      using less.prems(2) by (auto simp: entries_delete_def distinct_map_filter)
    ultimately have "x \<in> set (evictOverflow m (entries_delete (ce_specHash e) es @ [x]))"
      using less.prems(1) by (intro less.hyps) (auto simp: set_entries_delete)
    with True e d show ?thesis by (simp add: evictOverflow.simps [of m "es @ [x]"])
  qed (simp add: evict_fits)
qed

lemma put_keeps_entry:
  assumes "cache_ok ch c" "sc_maxEntries c \<ge> 1" "\<forall>e \<in> set (sc_entries c). ce_lastAccessedAt e \<le> t"
    and "cache_put ch c t r = (Inr u, c')"
  shows "new_entry t r \<in> set (sc_entries c')"
proof (cases rule: cache_put_cases [of ch c t r])
  case stored
  let ?e = "new_entry t r"
  have c': "sc_entries c' = evictOverflow (sc_maxEntries c) (entries_set ?e (sc_entries c))"
    using assms(4) stored(1) by auto
  show ?thesis
  proof (cases "ce_specHash ?e \<in> ce_specHash ` set (sc_entries c)")
    case True
    then have "length (entries_set ?e (sc_entries c)) = length (sc_entries c)"
      using keys_entries_set [of ?e "sc_entries c"] by (metis length_map)
    then show ?thesis
      using assms(1) set_entries_set(2) [of ?e "sc_entries c"] by (simp add: c' evict_fits cache_ok_def)
  next
    case False
    then have new: "entries_set ?e (sc_entries c) = sc_entries c @ [?e]" by (rule entries_set_new)
    have "?e \<in> set (evictOverflow (sc_maxEntries c) (sc_entries c @ [?e]))"
      by (rule evict_keeps_newest) (use assms(1-3) False in \<open>auto simp: cache_ok_def\<close>)
    then show ?thesis by (simp add: c' new)
  qed
qed (use assms(4) in simp)

lemma entry_is_served:
  assumes "cache_ok ch c" "e \<in> set (sc_entries c)" "\<not> isExpired c now e"
  shows "fst (cache_get ch c now accessed (ce_specHash e)) = Inr (Some (ce_snapshot e))"
proof -
  have unique: "x = e" if "x \<in> set (sc_entries c)" "ce_specHash x = ce_specHash e" for x
    using assms(1,2) that by (auto simp: cache_ok_def distinct_map inj_on_def)
  have "\<forall>x \<in> set (sc_entries c). verifyEntry ch x = Inr ()" using assms(1) by (simp add: cache_ok_def)
  then show ?thesis
    using assms(2,3) unique
    by (cases rule: cache_get_cases [of ch c now accessed "ce_specHash e"]) (auto simp: cache_has_iff)
qed


definition hx_loaded :: HarnessLoadRecord where
  "hx_loaded =
     \<lparr>hl_snapshot = JObj [(''id'', JStr ''pkg''), (''version'', JStr ''0.1.0''), (''specHash'', JStr (''sha256:'' @ hx_digest []))],
      hl_loadedFiles = [\<lparr>pf_relativePath = ''harness.yaml'', pf_raw = ''id: pkg'', sf_absolutePath = ''/p/harness.yaml''\<rparr>],
      hl_dependencies = \<lparr>dn_declarations = [], dn_resolved = []\<rparr>,
      hl_trust = Some \<lparr>tv_publisherId = ''acme'', tv_signingKeyId = ''k1'', tv_signatureRef = ''s'', tv_trustStoreVersion = ''1'',
        tv_specHash = ''sha256:'' @ hx_digest []\<rparr>\<rparr>"

definition hx_cache :: SnapshotCache where
  "hx_cache = \<lparr>sc_entries = [], sc_maxEntries = 1, sc_ttlMs = 10\<rparr>"

lemma hx_cache_ok: "cache_ok ch hx_cache"
  by (simp add: cache_ok_def hx_cache_def)

lemma hx_put: "fst (cache_put (computeSpecHash hx_compare hx_digest) hx_cache 3 hx_loaded) = Inr ()"
  by code_simp


end
