(* ===== verification/Harness_Yaml.thy ===== *)
theory Harness_Yaml
  imports Harness_Snapshots
begin

text \<open>
  The reader for YAML files of the harness loader (\<^verbatim>\<open>parseSimpleYaml\<close> and \<^verbatim>\<open>SimpleYamlParser\<close> of
  \<^verbatim>\<open>harness-loader/src/index.ts\<close>). The position of the parser is the list of lines that are left; a
  method returns its value and the lines after it, or fails. The loops of the parser call each other, so
  they run on fuel: one unit per turn of a loop. The number of lines plus one is enough, as
  \<open>yaml_never_stops_early\<close> shows, and the parser is started with it. \<^verbatim>\<open>JSON.parse\<close> and the value of
  a number with a fraction are parameters.

  The results: the parser ends with a value or with an error of its own on every text, and reads back
  the block form of every value that consists of objects, lists of texts and texts that need no quotes.
\<close>

section \<open>Text\<close>

definition trimStart :: "string \<Rightarrow> string" where
  "trimStart s = dropWhile is_space s"

definition trimEnd :: "string \<Rightarrow> string" where
  "trimEnd s = rev (dropWhile is_space (rev s))"

text \<open>\<^verbatim>\<open>value.slice(1, -1)\<close>.\<close>

definition slice_inner :: "string \<Rightarrow> string" where
  "slice_inner s = butlast (tl s)"

definition DQ :: char where
  "DQ = CHR 0x22"

definition SQ :: char where
  "SQ = CHR 0x27"

text \<open>The quote after a character: \<^verbatim>\<open>quote = quote === char ? undefined : quote ?? char\<close>.\<close>

definition next_quote :: "char option \<Rightarrow> char \<Rightarrow> char option" where
  "next_quote quote c =
     (if c = DQ \<or> c = SQ then (if quote = Some c then None else or_else quote (Some c)) else quote)"

fun comment_start :: "char option \<Rightarrow> nat \<Rightarrow> string \<Rightarrow> nat option" where
  "comment_start quote i [] = None"
| "comment_start quote i (c # cs) =
     (let quote' = next_quote quote c in
      if c = CHR ''#'' \<and> quote' = None then Some i else comment_start quote' (Suc i) cs)"

definition stripYamlComment :: "string \<Rightarrow> string" where
  "stripYamlComment s = (case comment_start None 0 s of None \<Rightarrow> s | Some i \<Rightarrow> trimEnd (take i s))"

record YamlLine =
  yl_indent :: nat
  yl_text :: string

text \<open>A failure of the parser; \<open>OutOfFuel\<close> is the model's own and never the result of a parse.\<close>

datatype yaml_failure = YamlError | OutOfFuel

definition toYamlLine :: "string \<Rightarrow> yaml_failure + YamlLine option" where
  "toYamlLine rawLine =
     (if CHR 0x09 \<in> set rawLine then Inl YamlError
      else let indent = length (takeWhile (\<lambda>c. c = CHR '' '') rawLine);
               text = trimEnd (stripYamlComment (drop indent rawLine)) in
        Inr (if trim text = [] then None else Some \<lparr>yl_indent = indent, yl_text = trimStart text\<rparr>))"

definition isQuoted :: "string \<Rightarrow> bool" where
  "isQuoted s \<longleftrightarrow> s \<noteq> [] \<and> (hd s = DQ \<and> last s = DQ \<or> hd s = SQ \<and> last s = SQ)"

text \<open>\<^verbatim>\<open>s.replace(/\\"/g, "\"")\<close>.\<close>

fun unescape_quotes :: "string \<Rightarrow> string" where
  "unescape_quotes [] = []"
| "unescape_quotes [c] = [c]"
| "unescape_quotes (c # d # cs) =
     (if c = CHR 0x5C \<and> d = DQ then DQ # unescape_quotes cs else c # unescape_quotes (d # cs))"

definition unquoteString :: "string \<Rightarrow> string" where
  "unquoteString s =
     (if \<not> isQuoted s then s
      else if hd s = DQ then unescape_quotes (slice_inner s) else slice_inner s)"

definition colon_index :: "string \<Rightarrow> nat" where
  "colon_index s = length (takeWhile (\<lambda>c. c \<noteq> CHR '':'') s)"

text \<open>A colon at the start or none gives no pair.\<close>

definition splitYamlPair :: "string \<Rightarrow> (string \<times> string) option" where
  "splitYamlPair s =
     (let i = colon_index s in
      if i = 0 \<or> i = length s then None
      else Some (unquoteString (trim (take i s)), trim (drop (Suc i) s)))"

definition is_key_start :: "char \<Rightarrow> bool" where
  "is_key_start c \<longleftrightarrow> c = CHR ''$'' \<or> c = CHR ''_'' \<or> CHR ''A'' \<le> c \<and> c \<le> CHR ''Z'' \<or> CHR ''a'' \<le> c \<and> c \<le> CHR ''z''"

definition is_key_char :: "char \<Rightarrow> bool" where
  "is_key_char c \<longleftrightarrow> c = CHR ''-'' \<or> c = CHR ''.'' \<or> is_key_start c \<or> is_digit c"

definition is_quote :: "char \<Rightarrow> bool" where
  "is_quote c \<longleftrightarrow> c = DQ \<or> c = SQ"

text \<open>The pattern of a key: a name, with a quote before or after it or both.\<close>

definition key_pattern :: "string \<Rightarrow> bool" where
  "key_pattern s =
     (let t = (if s \<noteq> [] \<and> is_quote (hd s) then tl s else s);
          name = (if t \<noteq> [] \<and> is_quote (last t) then butlast t else t) in
      name \<noteq> [] \<and> is_key_start (hd name) \<and> list_all is_key_char (tl name))"

definition looksLikePair :: "string \<Rightarrow> bool" where
  "looksLikePair s =
     (let i = colon_index s in i \<noteq> 0 \<and> i \<noteq> length s \<and> key_pattern (trim (take i s)))"

definition isBlockScalar :: "string \<Rightarrow> bool" where
  "isBlockScalar s \<longleftrightarrow> s \<in> {''|'', ''|-'', ''>'', ''>-''}"

section \<open>Scalars\<close>

record yaml_env =
  ye_json :: "string \<Rightarrow> json option"
  ye_decimal :: "string \<Rightarrow> json"

text \<open>
  The pieces between commas outside quotes and brackets. The depth may become negative, as in the code;
  a last piece of white space only is dropped.
\<close>

fun split_inline :: "char option \<Rightarrow> int \<Rightarrow> string \<Rightarrow> string \<Rightarrow> string list" where
  "split_inline quote depth current [] = (if trim current = [] then [] else [trim current])"
| "split_inline quote depth current (c # cs) =
     (let quote' = next_quote quote c;
          depth' = (if quote' \<noteq> None then depth
            else (if c = CHR ''['' \<or> c = CHR ''{'' then depth + 1
                  else if c = CHR '']'' \<or> c = CHR ''}'' then depth - 1 else depth)) in
      if quote' = None \<and> c = CHR '','' \<and> depth' = 0
      then trim current # split_inline quote' depth' [] cs
      else split_inline quote' depth' (current @ [c]) cs)"

definition splitInline :: "string \<Rightarrow> string list" where
  "splitInline s = split_inline None 0 [] s"

definition is_integer :: "string \<Rightarrow> bool" where
  "is_integer s \<longleftrightarrow> s = ''0'' \<or> s \<noteq> [] \<and> hd s \<noteq> CHR ''0'' \<and> list_all is_digit s"

text \<open>The pattern \<^verbatim>\<open>^-?(0|[1-9]\d*)(\.\d+)?$\<close>, as the sign, the integer and the fraction.\<close>

definition number_parts :: "string \<Rightarrow> (bool \<times> string \<times> string option) option" where
  "number_parts s =
     (let negative = (s \<noteq> [] \<and> hd s = CHR ''-''); t = (if negative then tl s else s);
          whole = takeWhile (\<lambda>c. c \<noteq> CHR ''.'') t; fraction = drop (length whole) t in
      if \<not> is_integer whole then None
      else if fraction = [] then Some (negative, whole, None)
      else if tl fraction \<noteq> [] \<and> list_all is_digit (tl fraction) then Some (negative, whole, Some (tl fraction))
      else None)"

definition number_value :: "yaml_env \<Rightarrow> string \<Rightarrow> json option" where
  "number_value env s =
     (case number_parts s of
        None \<Rightarrow> None
      | Some (negative, whole, None) \<Rightarrow> Some (JNum (if negative then - int (dec_value whole) else int (dec_value whole)))
      | Some (negative, whole, Some f) \<Rightarrow> Some (ye_decimal env s))"

text \<open>\<^verbatim>\<open>output[key] = value\<close> on the properties of an object.\<close>

definition js_put :: "string \<Rightarrow> json \<Rightarrow> (string \<times> json) list \<Rightarrow> (string \<times> json) list" where
  "js_put k v ps = (if k = ''__proto__'' then ps else js_order (map_set k v ps))"

lemma length_trim: "length (trim s) \<le> length s"
  using length_dropWhile_le [of is_space "rev (dropWhile is_space s)"] length_dropWhile_le [of is_space s]
  by (simp add: trim_def)

lemma split_inline_length: "x \<in> set (split_inline q d cur s) \<Longrightarrow> length x \<le> length cur + length s"
proof (induction q d cur s rule: split_inline.induct)
  case (1 q d cur)
  then show ?case using length_trim [of cur] by (auto split: if_splits)
next
  case (2 q d cur c cs)
  then show ?case using length_trim [of cur] by (fastforce simp: Let_def split: if_splits)
qed

lemma splitInline_length: "x \<in> set (splitInline s) \<Longrightarrow> length x \<le> length s"
  using split_inline_length [of x None 0 "[]" s] by (simp add: splitInline_def)

lemma slice_inner_length: "s \<noteq> [] \<Longrightarrow> length (slice_inner s) < length s"
  by (cases s) (auto simp: slice_inner_def)

lemma splitYamlPair_length: "splitYamlPair s = Some (k, v) \<Longrightarrow> length v \<le> length s"
  using length_trim [of "drop (Suc (colon_index s)) s"] by (auto simp: splitYamlPair_def Let_def split: if_splits)

definition brackets :: "char \<Rightarrow> char \<Rightarrow> string \<Rightarrow> bool" where
  "brackets a b s \<longleftrightarrow> s \<noteq> [] \<and> hd s = a \<and> last s = b"

lemma brackets_nonempty: "brackets a b s \<Longrightarrow> s \<noteq> []"
  by (simp add: brackets_def)

definition json_record :: "yaml_env \<Rightarrow> string \<Rightarrow> (string \<times> json) list option" where
  "json_record env s = (case ye_json env s of Some (JObj ps) \<Rightarrow> Some ps | _ \<Rightarrow> None)"

text \<open>An inline object is one that JSON accepts, or else entries of the form \<^verbatim>\<open>key: value\<close>.\<close>

function parseYamlScalar :: "yaml_env \<Rightarrow> string \<Rightarrow> yaml_failure + json" where
  "parseYamlScalar env s =
     (if s = ''true'' then Inr (JBool True)
      else if s = ''false'' then Inr (JBool False)
      else if s = ''null'' \<or> s = ''~'' then Inr JNull
      else if brackets (CHR ''['') (CHR '']'') s then
        bindE (mapE (parseYamlScalar env) (splitInline (slice_inner s))) (\<lambda>vs. Inr (JArr vs))
      else if brackets (CHR ''{'') (CHR ''}'') s then
        (case json_record env s of
           Some ps \<Rightarrow> Inr (JObj ps)
         | None \<Rightarrow>
           bindE (mapE (\<lambda>entry. case splitYamlPair entry of
                          None \<Rightarrow> Inl YamlError
                        | Some (k, v) \<Rightarrow> bindE (parseYamlScalar env v) (\<lambda>w. Inr (k, w)))
                    (splitInline (slice_inner s)))
             (\<lambda>pairs. Inr (JObj (fold (\<lambda>(k, w). js_put k w) pairs []))))
      else if isQuoted s then Inr (JStr (unquoteString s))
      else case number_value env s of Some n \<Rightarrow> Inr n | None \<Rightarrow> Inr (JStr s))"
  by pat_completeness auto
termination
proof (relation "measure (\<lambda>(env, s). length s)", goal_cases)
  case (2 env s x)
  then show ?case
    using splitInline_length [of x "slice_inner s"] slice_inner_length [OF brackets_nonempty] by fastforce
next
  case (3 env s x y z v)
  then show ?case
    using splitInline_length [of x "slice_inner s"] slice_inner_length [of s] splitYamlPair_length [of x z v]
    by (fastforce simp: brackets_def)
qed auto

declare parseYamlScalar.simps [simp del]

section \<open>Blocks\<close>

type_synonym 'a yaml_result = "yaml_failure + 'a \<times> YamlLine list"

definition is_item :: "YamlLine \<Rightarrow> bool" where
  "is_item l \<longleftrightarrow> starts_with ''- '' (yl_text l)"

text \<open>The lines of a block scalar; \<^verbatim>\<open>" ".repeat(n)\<close> throws for a negative count.\<close>

fun scalar_lines :: "nat \<Rightarrow> YamlLine list \<Rightarrow> string list yaml_result" where
  "scalar_lines parentIndent [] = Inr ([], [])"
| "scalar_lines parentIndent (l # rest) =
     (if yl_indent l \<le> parentIndent then Inr ([], l # rest)
      else if yl_indent l < parentIndent + 2 then Inl YamlError
      else bindE (scalar_lines parentIndent rest) (\<lambda>(texts, rest').
        Inr ((replicate (yl_indent l - parentIndent - 2) (CHR '' '') @ yl_text l) # texts, rest')))"

definition readBlockScalar :: "nat \<Rightarrow> bool \<Rightarrow> YamlLine list \<Rightarrow> json yaml_result" where
  "readBlockScalar parentIndent folded lines =
     bindE (scalar_lines parentIndent lines) (\<lambda>(texts, rest).
       Inr (JStr (if folded then trimEnd (join '' '' texts) else join [CHR 0x0A] texts @ [CHR 0x0A]), rest))"

text \<open>
  The methods that do not loop take the loops they call as arguments. An object under construction is
  the list of its properties.
\<close>

definition parse_block ::
  "(nat \<Rightarrow> YamlLine list \<Rightarrow> json yaml_result) \<Rightarrow> (nat \<Rightarrow> YamlLine list \<Rightarrow> json yaml_result) \<Rightarrow>
   nat \<Rightarrow> YamlLine list \<Rightarrow> json yaml_result" where
  "parse_block mapping seqn indent lines =
     (case lines of
        [] \<Rightarrow> Inr (JObj [], [])
      | l # rest \<Rightarrow>
          if yl_indent l < indent then Inr (JObj [], lines)
          else if is_item l then seqn (yl_indent l) lines else mapping (yl_indent l) lines)"

definition parse_child ::
  "(nat \<Rightarrow> YamlLine list \<Rightarrow> json yaml_result) \<Rightarrow> nat \<Rightarrow> YamlLine list \<Rightarrow> json yaml_result" where
  "parse_child block parentIndent lines =
     (case lines of
        [] \<Rightarrow> Inr (JNull, [])
      | l # rest \<Rightarrow> if yl_indent l \<le> parentIndent then Inr (JNull, lines) else block (yl_indent l) lines)"

definition consume_pair ::
  "yaml_env \<Rightarrow> (nat \<Rightarrow> YamlLine list \<Rightarrow> json yaml_result) \<Rightarrow> (string \<times> json) list \<Rightarrow> string \<Rightarrow> nat \<Rightarrow>
   YamlLine list \<Rightarrow> (string \<times> json) list yaml_result" where
  "consume_pair env child output text indent lines =
     (case splitYamlPair text of
        None \<Rightarrow> Inl YamlError
      | Some (k, v) \<Rightarrow>
          if v = [] then bindE (child indent lines) (\<lambda>(w, rest). Inr (js_put k w output, rest))
          else if isBlockScalar v
          then bindE (readBlockScalar indent (hd v = CHR ''>'') lines) (\<lambda>(w, rest). Inr (js_put k w output, rest))
          else bindE (parseYamlScalar env v) (\<lambda>w. Inr (js_put k w output, lines)))"

function parseMapping :: "nat \<Rightarrow> yaml_env \<Rightarrow> nat \<Rightarrow> (string \<times> json) list \<Rightarrow> YamlLine list \<Rightarrow> json yaml_result"
  and parseSequence :: "nat \<Rightarrow> yaml_env \<Rightarrow> nat \<Rightarrow> json list \<Rightarrow> YamlLine list \<Rightarrow> json yaml_result"
  and parse_item :: "nat \<Rightarrow> yaml_env \<Rightarrow> nat \<Rightarrow> (string \<times> json) list \<Rightarrow> YamlLine list \<Rightarrow> json yaml_result" where
  "parseMapping 0 env indent output lines = Inl OutOfFuel"
| "parseMapping (Suc n) env indent output lines =
     (let child = parse_child (parse_block (\<lambda>i ls. parseMapping n env i [] ls) (\<lambda>i ls. parseSequence n env i [] ls)) in
      case lines of
        [] \<Rightarrow> Inr (JObj output, [])
      | l # rest \<Rightarrow>
          if yl_indent l < indent then Inr (JObj output, lines)
          else if yl_indent l > indent then Inl YamlError
          else if is_item l then Inr (JObj output, lines)
          else bindE (consume_pair env child output (yl_text l) indent rest) (\<lambda>(output', rest').
            parseMapping n env indent output' rest'))"
| "parseSequence 0 env indent output lines = Inl OutOfFuel"
| "parseSequence (Suc n) env indent output lines =
     (let child = parse_child (parse_block (\<lambda>i ls. parseMapping n env i [] ls) (\<lambda>i ls. parseSequence n env i [] ls)) in
      case lines of
        [] \<Rightarrow> Inr (JArr output, [])
      | l # rest \<Rightarrow>
          if yl_indent l < indent then Inr (JArr output, lines)
          else if yl_indent l > indent then Inl YamlError
          else if \<not> is_item l then Inr (JArr output, lines)
          else let r = trim (drop 2 (yl_text l)) in
            if r = [] then bindE (child indent rest) (\<lambda>(v, rest'). parseSequence n env indent (output @ [v]) rest')
            else if looksLikePair r then
              bindE (consume_pair env child [] r (indent + 2) rest) (\<lambda>(item, rest').
              bindE (parse_item n env indent item rest') (\<lambda>(v, rest'').
                parseSequence n env indent (output @ [v]) rest''))
            else bindE (parseYamlScalar env r) (\<lambda>v. parseSequence n env indent (output @ [v]) rest))"
| "parse_item 0 env indent item lines = Inl OutOfFuel"
| "parse_item (Suc n) env indent item lines =
     (let child = parse_child (parse_block (\<lambda>i ls. parseMapping n env i [] ls) (\<lambda>i ls. parseSequence n env i [] ls)) in
      case lines of
        [] \<Rightarrow> Inr (JObj item, [])
      | l # rest \<Rightarrow>
          if yl_indent l \<le> indent then Inr (JObj item, lines)
          else if is_item l then Inl YamlError
          else bindE (consume_pair env child item (yl_text l) (yl_indent l) rest) (\<lambda>(item', rest').
            parse_item n env indent item' rest'))"
  by pat_completeness auto
termination
  by (relation "measure (case_sum fst (case_sum fst fst))") auto

definition parseBlock :: "nat \<Rightarrow> yaml_env \<Rightarrow> nat \<Rightarrow> YamlLine list \<Rightarrow> json yaml_result" where
  "parseBlock n env = parse_block (\<lambda>i ls. parseMapping n env i [] ls) (\<lambda>i ls. parseSequence n env i [] ls)"

definition somes :: "'a option list \<Rightarrow> 'a list" where
  "somes xs = List.map_filter (\<lambda>x. x) xs"

definition parseSimpleYaml :: "yaml_env \<Rightarrow> string \<Rightarrow> yaml_failure + json" where
  "parseSimpleYaml env raw =
     bindE (mapE toYamlLine (split_on (CHR 0x0A) (normalize_newlines raw))) (\<lambda>parsed.
       let lines = somes parsed in
       case lines of
         [] \<Rightarrow> Inr (JObj [])
       | l # _ \<Rightarrow>
           bindE (parseBlock (Suc (length lines)) env (yl_indent l) lines) (\<lambda>(v, rest).
             if rest = [] then Inr v else Inl YamlError))"

section \<open>The parser always ends\<close>

definition ended :: "nat \<Rightarrow> 'a yaml_result \<Rightarrow> bool" where
  "ended k r \<longleftrightarrow> (case r of Inl e \<Rightarrow> e = YamlError | Inr (v, rest) \<Rightarrow> length rest \<le> k)"

lemma ended_simps [simp]: "ended k (Inl e) \<longleftrightarrow> e = YamlError" "ended k (Inr (v, rest)) \<longleftrightarrow> length rest \<le> k"
  by (simp_all add: ended_def)

lemma ended_bind:
  assumes "ended k m" and "\<And>v rest. m = Inr (v, rest) \<Longrightarrow> length rest \<le> k \<Longrightarrow> ended k' (f (v, rest))"
  shows "ended k' (bindE m f)"
  using assms by (cases m) auto

lemma ended_mono: "ended k r \<Longrightarrow> k \<le> k' \<Longrightarrow> ended k' r"
  by (auto simp: ended_def split: sum.splits prod.splits)

lemma scalar_failure: "parseYamlScalar env s = Inl e \<Longrightarrow> e = YamlError"
proof (induction env s rule: parseYamlScalar.induct)
  case (1 env s)
  note unfolded = parseYamlScalar.simps [of env s]
  define reached where "reached \<longleftrightarrow> s \<noteq> ''true'' \<and> s \<noteq> ''false'' \<and> \<not> (s = ''null'' \<or> s = ''~'')"
  consider (list) "reached" "brackets (CHR ''['') (CHR '']'') s"
    | (object) "reached" "\<not> brackets (CHR ''['') (CHR '']'') s" "brackets (CHR ''{'') (CHR ''}'') s" "json_record env s = None"
    | (other) "\<not> reached \<or> \<not> brackets (CHR ''['') (CHR '']'') s \<and>
        (brackets (CHR ''{'') (CHR ''}'') s \<longrightarrow> json_record env s \<noteq> None)"
    by blast
  then show ?case
  proof cases
    case list
    with "1.prems" have "mapE (parseYamlScalar env) (splitInline (slice_inner s)) = Inl e"
      unfolding unfolded reached_def by (simp add: bindE_Inl_iff)
    from mapE_Inl_source [OF this] "1.IH"(1) list show ?thesis unfolding reached_def by blast
  next
    case object
    with "1.prems" have "mapE (\<lambda>entry. case splitYamlPair entry of None \<Rightarrow> Inl YamlError
        | Some (k, v) \<Rightarrow> bindE (parseYamlScalar env v) (\<lambda>w. Inr (k, w))) (splitInline (slice_inner s)) = Inl e"
      unfolding unfolded reached_def by (simp add: bindE_Inl_iff)
    from mapE_Inl_source [OF this] obtain x where x: "x \<in> set (splitInline (slice_inner s))"
      "(case splitYamlPair x of None \<Rightarrow> Inl YamlError
        | Some (k, v) \<Rightarrow> bindE (parseYamlScalar env v) (\<lambda>w. Inr (k, w))) = Inl e" by blast
    with "1.IH"(2) object show ?thesis
      unfolding reached_def by (cases "splitYamlPair x") (auto simp: bindE_Inl_iff)
  next
    case other
    with "1.prems" show ?thesis
      unfolding unfolded reached_def by (auto split: if_splits option.splits)
  qed
qed

lemma scalar_lines_ended: "ended (length lines) (scalar_lines parentIndent lines)"
proof (induction parentIndent lines rule: scalar_lines.induct)
  case (2 parentIndent l rest)
  then show ?case by (auto intro!: ended_bind)
qed simp

lemma child_ended:
  assumes "\<And>i ls. length ls \<le> length lines \<Longrightarrow> ended (length ls) (mapping i ls) \<and> ended (length ls) (seqn i ls)"
  shows "ended (length lines) (parse_child (parse_block mapping seqn) indent lines)"
  using assms [of lines] by (cases lines) (simp_all add: parse_child_def parse_block_def)

lemma pair_ended:
  assumes "\<And>i. ended (length lines) (child i lines)"
  shows "ended (length lines) (consume_pair env child output text indent lines)"
proof (cases "splitYamlPair text")
  case (Some kv)
  obtain k v where kv: "kv = (k, v)" by (cases kv)
  have "ended (length lines) (readBlockScalar indent folded lines)" for folded
    by (auto simp: readBlockScalar_def intro!: ended_bind [OF scalar_lines_ended])
  moreover have "ended (length lines) (bindE (parseYamlScalar env v) (\<lambda>w. Inr (js_put k w output, lines)))"
    using scalar_failure [of env v] by (cases "parseYamlScalar env v") auto
  ultimately show ?thesis
    using assms Some kv by (auto simp: consume_pair_def intro!: ended_bind)
qed (simp add: consume_pair_def)

lemma sequence_step:
  assumes child: "\<And>i. ended (length rest)
      (parse_child (parse_block (\<lambda>i ls. parseMapping n env i [] ls) (\<lambda>i ls. parseSequence n env i [] ls)) i rest)"
    and item: "\<And>i out ls. length ls \<le> length rest \<Longrightarrow> ended (length rest) (parse_item n env i out ls)"
    and seqn: "\<And>i els ls. length ls \<le> length rest \<Longrightarrow> ended (Suc (length rest)) (parseSequence n env i els ls)"
  shows "ended (Suc (length rest)) (parseSequence (Suc n) env indent elements (l # rest))"
proof (cases "yl_indent l = indent \<and> is_item l")
  case True
  define r where "r = trim (drop 2 (yl_text l))"
  note step = parseSequence.simps(2) [of n env indent elements "l # rest", unfolded Let_def, folded r_def]
  note pair = pair_ended [of rest "parse_child (parse_block (\<lambda>i ls. parseMapping n env i [] ls) (\<lambda>i ls. parseSequence n env i [] ls))", OF child]
  have "ended (Suc (length rest)) (bindE (parseYamlScalar env r) (\<lambda>v. parseSequence n env indent (elements @ [v]) rest))"
    using scalar_failure [of env r] seqn by (cases "parseYamlScalar env r") auto
  with True show ?thesis
    unfolding step by (auto simp: r_def intro!: ended_bind [OF child] ended_bind [OF pair] ended_bind [OF item] seqn)
qed (auto simp: Let_def)

lemma yaml_never_stops_early:
  assumes "length lines < n"
  shows "ended (length lines) (parseMapping n env indent output lines)"
    "ended (length lines) (parseSequence n env indent elements lines)"
    "ended (length lines) (parse_item n env indent output lines)"
proof -
  have "\<forall>lines. length lines < n \<longrightarrow>
      (\<forall>indent output elements.
         ended (length lines) (parseMapping n env indent output lines) \<and>
         ended (length lines) (parseSequence n env indent elements lines) \<and>
         ended (length lines) (parse_item n env indent output lines))" (is "\<forall>lines. _ \<longrightarrow> ?P n lines")
  proof (induction n)
    case (Suc n)
    show ?case
    proof (intro allI impI)
      fix lines :: "YamlLine list" and indent :: nat and out :: "(string \<times> json) list" and elements :: "json list"
      assume enough: "length lines < Suc n"
      define child where "child = parse_child (parse_block (\<lambda>i ls. parseMapping n env i [] ls) (\<lambda>i ls. parseSequence n env i [] ls))"
      show "ended (length lines) (parseMapping (Suc n) env indent out lines) \<and>
         ended (length lines) (parseSequence (Suc n) env indent elements lines) \<and>
         ended (length lines) (parse_item (Suc n) env indent out lines)"
      proof (cases lines)
        case (Cons l rest)
        with enough have less: "length rest < n" by simp
        have child: "ended (length rest) (child i rest)" for i
          unfolding child_def by (rule child_ended) (use Suc less in auto)
        note pair = pair_ended [of rest child, OF child]
        have shorter: "ended (Suc (length rest)) (parseMapping n env i out ls)" "ended (Suc (length rest)) (parseSequence n env i els ls)"
          "ended (length rest) (parse_item n env i out ls)" "ended (Suc (length rest)) (parse_item n env i out ls)"
          if "length ls \<le> length rest" for i out els ls
          using Suc [rule_format, of ls] that less Cons by (auto intro: ended_mono [of "length ls"])
        have "ended (length lines) (parseMapping (Suc n) env indent out lines)"
          using Cons pair by (auto simp: Let_def child_def [symmetric] intro!: ended_bind [of "length rest"] shorter)
        moreover have "ended (length lines) (parseSequence (Suc n) env indent elements lines)"
          unfolding Cons by (simp only: list.size add_Suc_right add_0_right, rule sequence_step)
            (use child shorter in \<open>simp_all add: child_def\<close>)
        moreover have "ended (length lines) (parse_item (Suc n) env indent out lines)"
          using Cons pair by (auto simp: Let_def child_def [symmetric] intro!: ended_bind [of "length rest"] shorter)
        ultimately show ?thesis by blast
      qed (simp add: Let_def)
    qed
  qed simp
  then show "ended (length lines) (parseMapping n env indent output lines)"
    "ended (length lines) (parseSequence n env indent elements lines)"
    "ended (length lines) (parse_item n env indent output lines)"
    using assms by blast+
qed

text \<open>
  C23: The YAML reader ends on every text, with a value or with an error of its own: the loops of the
  parser consume a line per turn, so the fuel they are started with never runs out.
\<close>

theorem yaml_reader_ends: "(\<exists>v. parseSimpleYaml env raw = Inr v) \<or> parseSimpleYaml env raw = Inl YamlError"
proof (cases "mapE toYamlLine (split_on (CHR 0x0A) (normalize_newlines raw))")
  case (Inl e)
  from mapE_Inl_source [OF Inl] have "e = YamlError" by (auto simp: toYamlLine_def Let_def split: if_splits)
  with Inl show ?thesis by (simp add: parseSimpleYaml_def)
next
  case (Inr parsed)
  let ?lines = "somes parsed"
  have block: "ended (length ?lines) (parseBlock (Suc (length ?lines)) env i ?lines)" for i
    using yaml_never_stops_early(1,2) [of ?lines "Suc (length ?lines)" env]
    by (auto simp: parseBlock_def parse_block_def simp del: parseMapping.simps parseSequence.simps split: list.split)
  from block [of "yl_indent (hd ?lines)"] Inr show ?thesis
    by (cases "parseBlock (Suc (length ?lines)) env (yl_indent (hd ?lines)) ?lines")
       (auto simp: parseSimpleYaml_def Let_def split: list.splits if_splits)
qed

section \<open>Reading back the block form\<close>

text \<open>Characters that end a line or start a comment are excluded from the texts of the block form.\<close>

definition line_text :: "string \<Rightarrow> bool" where
  "line_text s \<longleftrightarrow> s \<noteq> [] \<and> \<not> is_space (hd s) \<and> \<not> is_space (last s) \<and>
     list_all (\<lambda>c. c \<notin> {CHR 0x09, CHR 0x0A, CHR 0x0D, CHR ''#''}) s"

definition plain_text :: "yaml_env \<Rightarrow> string \<Rightarrow> bool" where
  "plain_text env s \<longleftrightarrow> line_text s \<and> \<not> isBlockScalar s \<and> \<not> looksLikePair s \<and> parseYamlScalar env s = Inr (JStr s)"

definition plain_key :: "string \<Rightarrow> bool" where
  "plain_key k \<longleftrightarrow> line_text k \<and> CHR '':'' \<notin> set k \<and> \<not> isQuoted k \<and> k \<noteq> ''__proto__'' \<and> \<not> is_index_key k \<and>
     \<not> starts_with ''- '' k"

function plain_value :: "yaml_env \<Rightarrow> json \<Rightarrow> bool" where
  "plain_value env v =
     (case v of
        JStr s \<Rightarrow> plain_text env s
      | JArr xs \<Rightarrow> xs \<noteq> [] \<and> list_all (\<lambda>x. case x of JStr s \<Rightarrow> plain_text env s | _ \<Rightarrow> False) xs
      | JObj ps \<Rightarrow> ps \<noteq> [] \<and> distinct (map fst ps) \<and> list_all (\<lambda>p. plain_key (fst p) \<and> plain_value env (snd p)) ps
      | _ \<Rightarrow> False)"
  by pat_completeness auto
termination
  by (relation "measure (\<lambda>(env, v). size v)") (auto dest: size_member)

declare plain_value.simps [simp del]

definition yaml_line :: "nat \<Rightarrow> string \<Rightarrow> YamlLine" where
  "yaml_line i t = \<lparr>yl_indent = i, yl_text = t\<rparr>"

function block_lines :: "nat \<Rightarrow> (string \<times> json) list \<Rightarrow> YamlLine list" where
  "block_lines i ps = concat (map (\<lambda>p.
     case snd p of
       JStr s \<Rightarrow> [yaml_line i (fst p @ '': '' @ s)]
     | JArr xs \<Rightarrow> yaml_line i (fst p @ '':'') # map (\<lambda>x. yaml_line (i + 2) (''- '' @ the_str (js_str x))) xs
     | JObj qs \<Rightarrow> yaml_line i (fst p @ '':'') # block_lines (i + 2) qs
     | _ \<Rightarrow> []) ps)"
  by pat_completeness auto
termination
  by (relation "measure (\<lambda>(i, ps). size (JObj ps))") (auto dest: size_member)

declare block_lines.simps [simp del]

definition render_line :: "YamlLine \<Rightarrow> string" where
  "render_line l = replicate (yl_indent l) (CHR '' '') @ yl_text l"

text \<open>The block form of an object: a line per text, and the entries of a list or object indented by two.\<close>

definition yaml_text :: "(string \<times> json) list \<Rightarrow> string" where
  "yaml_text ps = join [CHR 0x0A] (map render_line (block_lines 0 ps))"

subsection \<open>Lines\<close>

lemma trim_id: "s \<noteq> [] \<Longrightarrow> \<not> is_space (hd s) \<Longrightarrow> \<not> is_space (last s) \<Longrightarrow> trim s = s \<and> trimEnd s = s \<and> trimStart s = s"
  using dropWhile_eq_self_iff [of is_space s] dropWhile_eq_self_iff [of is_space "rev s"]
  by (simp add: trim_def trimEnd_def trimStart_def hd_rev)

lemma no_comment: "CHR ''#'' \<notin> set s \<Longrightarrow> comment_start q i s = None"
  by (induction s arbitrary: q i) (auto simp: Let_def)

lemma toYamlLine_render:
  assumes "line_text (yl_text l)"
  shows "toYamlLine (render_line l) = Inr (Some l)"
proof -
  let ?s = "yl_text l"
  from assms have s: "?s \<noteq> []" "\<not> is_space (hd ?s)" "\<not> is_space (last ?s)" "CHR ''#'' \<notin> set ?s" "CHR 0x09 \<notin> set ?s"
    by (auto simp: line_text_def list_all_iff)
  have "hd ?s \<noteq> CHR '' ''" using s(2) by (auto simp: is_space_def)
  with s(1) have "takeWhile (\<lambda>c. c = CHR '' '') ?s = []" by (cases ?s) auto
  then have indent: "takeWhile (\<lambda>c. c = CHR '' '') (render_line l) = replicate (yl_indent l) (CHR '' '')"
    by (simp add: render_line_def takeWhile_append)
  have "CHR 0x09 \<notin> set (render_line l)" using s(5) by (simp add: render_line_def)
  with indent s trim_id [OF s(1-3)] no_comment [OF s(4)] show ?thesis
    by (simp add: toYamlLine_def Let_def stripYamlComment_def render_line_def)
qed

lemma replace_crlf_id: "CHR 0x0D \<notin> set s \<Longrightarrow> replace_crlf s = s"
  by (induction s rule: replace_crlf.induct) auto

lemma normalize_newlines_id: "CHR 0x0D \<notin> set s \<Longrightarrow> normalize_newlines s = s"
  by (simp add: normalize_newlines_def replace_crlf_id) (rule map_idI, auto)

lemma rendered_lines:
  assumes "ls \<noteq> []" and "\<forall>l \<in> set ls. line_text (yl_text l)"
  shows "mapE toYamlLine (split_on (CHR 0x0A) (normalize_newlines (join [CHR 0x0A] (map render_line ls)))) = Inr (map Some ls)"
proof -
  have chars: "CHR 0x0D \<notin> set x \<and> CHR 0x0A \<notin> set x" if "x \<in> set (map render_line ls)" for x
    using that assms(2) by (fastforce simp: render_line_def line_text_def list_all_iff)
  then have "CHR 0x0D \<notin> set (join [CHR 0x0A] (map render_line ls))"
    using set_join [of "[CHR 0x0A]" "map render_line ls"] by auto
  moreover have "split_on (CHR 0x0A) (join [CHR 0x0A] (map render_line ls)) = map render_line ls"
    by (rule split_on_join) (use assms(1) chars in auto)
  moreover have "mapE toYamlLine (map render_line ls) = Inr (map Some ls)"
    using assms(2) by (auto simp: mapE_Inr_iff list.rel_map intro!: list.rel_refl_strong toYamlLine_render)
  ultimately show ?thesis by (simp add: normalize_newlines_id)
qed

subsection \<open>Entries\<close>

lemma js_put_new:
  assumes "k \<noteq> ''__proto__''" "k \<notin> fst ` set ps" "\<forall>j \<in> insert k (fst ` set ps). \<not> is_index_key j"
  shows "js_put k v ps = ps @ [(k, v)]"
proof -
  have "js_order (ps @ [(k, v)]) = ps @ [(k, v)]"
  proof -
    have "filter (\<lambda>p. is_index_key (fst p)) (ps @ [(k, v)]) = []"
      "filter (\<lambda>p. \<not> is_index_key (fst p)) (ps @ [(k, v)]) = ps @ [(k, v)]"
      using assms(3) by (auto simp: filter_empty_conv filter_id_conv)
    then show ?thesis by (simp add: js_order_def)
  qed
  with assms(1,2) show ?thesis
    by (simp add: js_put_def map_set_new map_of_eq_None_iff)
qed

lemma split_entry:
  assumes "plain_key k"
  shows "splitYamlPair (k @ CHR '':'' # t) = Some (k, trim t)"
proof -
  have tw: "takeWhile (\<lambda>c. c \<noteq> CHR '':'') (k @ CHR '':'' # t) = k"
    using assms by (subst takeWhile_append2) (auto simp: plain_key_def)
  from assms have "k \<noteq> []" "trim k = k" "\<not> isQuoted k"
    using trim_id [of k] by (auto simp: plain_key_def line_text_def)
  then show ?thesis
    by (simp add: splitYamlPair_def colon_index_def tw Let_def unquoteString_def)
qed

lemma trim_space: "line_text s \<Longrightarrow> trim (CHR '' '' # s) = s"
  using trim_id [of s] by (simp add: trim_def is_space_def line_text_def)

lemma trim_Nil [simp]: "trim [] = []"
  by (simp add: trim_def)

lemma plain_key_no_item: "plain_key k \<Longrightarrow> \<not> starts_with ''- '' (k @ CHR '':'' # t)"
  by (cases k; cases "tl k") (auto simp: plain_key_def starts_with_def line_text_def)

definition ends_block :: "nat \<Rightarrow> YamlLine list \<Rightarrow> bool" where
  "ends_block i rest \<longleftrightarrow> rest = [] \<or> yl_indent (hd rest) < i"

lemma item_text: "starts_with ''- '' (''- '' @ s)" "drop 2 (''- '' @ s) = s"
  by (simp_all add: starts_with_def)

lemma sequence_reads_back:
  assumes "list_all (\<lambda>x. case x of JStr s \<Rightarrow> plain_text env s | _ \<Rightarrow> False) xs" and "ends_block i rest" and "length xs < n"
  shows "parseSequence n env i els (map (\<lambda>x. yaml_line i (''- '' @ the_str (js_str x))) xs @ rest) = Inr (JArr (els @ xs), rest)"
  using assms
proof (induction xs arbitrary: n els)
  case Nil
  then show ?case by (cases n) (auto simp: ends_block_def Let_def split: list.split)
next
  case (Cons x xs)
  then obtain m s where m: "n = Suc m" and s: "x = JStr s" "plain_text env s"
    by (cases n) (auto split: json.splits)
  from s(2) have plain: "trim s = s" "s \<noteq> []" "\<not> looksLikePair s" "parseYamlScalar env s = Inr (JStr s)"
    using trim_id [of s] by (auto simp: plain_text_def line_text_def)
  have "parseSequence m env i (els @ [x]) (map (\<lambda>x. yaml_line i (''- '' @ the_str (js_str x))) xs @ rest) =
      Inr (JArr ((els @ [x]) @ xs), rest)"
    by (rule Cons.IH) (use Cons.prems m in auto)
  with m s plain show ?case
    by (simp add: Let_def is_item_def yaml_line_def the_str_def starts_with_def)
qed

definition entry_lines :: "nat \<Rightarrow> string \<times> json \<Rightarrow> YamlLine list" where
  "entry_lines i p =
     (case snd p of
       JStr s \<Rightarrow> [yaml_line i (fst p @ '': '' @ s)]
     | JArr xs \<Rightarrow> yaml_line i (fst p @ '':'') # map (\<lambda>x. yaml_line (i + 2) (''- '' @ the_str (js_str x))) xs
     | JObj qs \<Rightarrow> yaml_line i (fst p @ '':'') # block_lines (i + 2) qs
     | _ \<Rightarrow> [])"

lemma block_lines_entries: "block_lines i ps = concat (map (entry_lines i) ps)"
  by (simp only: block_lines.simps [of i ps] entry_lines_def [abs_def])

lemma plain_kinds:
  assumes "plain_value env v"
  obtains (plain) s where "v = JStr s" "plain_text env s"
    | (elements) xs where "v = JArr xs" "xs \<noteq> []" "list_all (\<lambda>x. case x of JStr s \<Rightarrow> plain_text env s | _ \<Rightarrow> False) xs"
    | (object) ps where "v = JObj ps" "ps \<noteq> []" "distinct (map fst ps)"
        "list_all (\<lambda>p. plain_key (fst p) \<and> plain_value env (snd p)) ps"
  using assms [unfolded plain_value.simps [of env v]] by (cases v) auto

lemma entry_head:
  assumes "plain_key k" "plain_value env v"
  shows "\<exists>t rest. entry_lines i (k, v) = yaml_line i (k @ CHR '':'' # t) # rest"
  using assms(2) by (cases rule: plain_kinds) (auto simp: entry_lines_def yaml_line_def)

lemma block_head:
  assumes "ps \<noteq> []" "list_all (\<lambda>p. plain_key (fst p) \<and> plain_value env (snd p)) ps"
  shows "\<exists>l rest. block_lines i ps = l # rest \<and> yl_indent l = i \<and> \<not> is_item l"
proof -
  obtain k v qs where ps: "ps = (k, v) # qs" using assms(1) by (cases ps) auto
  with assms(2) obtain t rest where "entry_lines i (k, v) = yaml_line i (k @ CHR '':'' # t) # rest" "plain_key k"
    using entry_head by fastforce
  with ps plain_key_no_item show ?thesis by (simp add: block_lines_entries yaml_line_def is_item_def)
qed

lemma child_enters: "yl_indent l > i \<Longrightarrow>
    parse_child (parse_block mapping seqn) i (l # rest) =
    (if is_item l then seqn (yl_indent l) (l # rest) else mapping (yl_indent l) (l # rest))"
  by (simp add: parse_child_def parse_block_def)

text \<open>One entry of a mapping, given that a nested object is read back.\<close>

lemma entry_reads_back:
  assumes key: "plain_key k" and val: "plain_value env v" and rest: "ends_block (i + 2) rest"
    and fuel: "length (entry_lines i (k, v)) < n"
    and new: "k \<notin> fst ` set out" "\<forall>j \<in> fst ` set out. \<not> is_index_key j"
    and nested: "\<And>qs m. v = JObj qs \<Longrightarrow> length (block_lines (i + 2) qs) < m \<Longrightarrow>
        parseMapping m env (i + 2) [] (block_lines (i + 2) qs @ rest) = Inr (JObj qs, rest)"
  shows "\<exists>m. n = Suc m \<and> parseMapping n env i out (entry_lines i (k, v) @ rest) = parseMapping m env i (out @ [(k, v)]) rest"
proof -
  obtain m where m: "n = Suc m" using fuel by (cases n) auto
  define child where "child = parse_child (parse_block (\<lambda>i ls. parseMapping m env i [] ls) (\<lambda>i ls. parseSequence m env i [] ls))"
  have put: "js_put k w out = out @ [(k, w)]" for w
    using js_put_new [of k out w] new key by (auto simp: plain_key_def)
  have enter: "parseMapping n env i out (yaml_line i (k @ CHR '':'' # t) # ls) =
      bindE (consume_pair env child out (k @ CHR '':'' # t) i ls) (\<lambda>(out', rest'). parseMapping m env i out' rest')" for t ls
    using plain_key_no_item [OF key, of t] by (simp add: m yaml_line_def is_item_def Let_def child_def)
  from val show ?thesis
  proof (cases rule: plain_kinds)
    case (plain s)
    then have "trim (CHR '' '' # s) = s" "s \<noteq> []" "\<not> isBlockScalar s" "parseYamlScalar env s = Inr (JStr s)"
      using trim_space [of s] by (auto simp: plain_text_def line_text_def)
    then show ?thesis
      using plain m enter [of "CHR '' '' # s" rest] by (simp add: entry_lines_def consume_pair_def split_entry [OF key] put)
  next
    case (elements xs)
    let ?ls = "map (\<lambda>x. yaml_line (i + 2) (''- '' @ the_str (js_str x))) xs"
    have "parseSequence m env (i + 2) [] (?ls @ rest) = Inr (JArr ([] @ xs), rest)"
      by (rule sequence_reads_back [OF elements(3) rest]) (use fuel elements m in \<open>simp add: entry_lines_def\<close>)
    moreover obtain l ls where "?ls = l # ls" "yl_indent l = i + 2" "is_item l"
      using elements(2) by (cases xs) (auto simp: yaml_line_def is_item_def starts_with_def)
    ultimately have "child i (?ls @ rest) = Inr (JArr xs, rest)"
      using child_enters [of i l] by (simp add: child_def del: parseSequence.simps)
    then show ?thesis
      using elements m enter [of "[]" "?ls @ rest"]
      by (simp add: entry_lines_def consume_pair_def split_entry [OF key] put)
  next
    case (object qs)
    then have "parseMapping m env (i + 2) [] (block_lines (i + 2) qs @ rest) = Inr (JObj qs, rest)"
      using nested fuel m by (simp add: entry_lines_def)
    moreover obtain l ls where "block_lines (i + 2) qs = l # ls" "yl_indent l = i + 2" "\<not> is_item l"
      using block_head [OF object(2,4), of "i + 2"] by blast
    ultimately have "child i (block_lines (i + 2) qs @ rest) = Inr (JObj qs, rest)"
      using child_enters [of i l] by (simp add: child_def del: parseMapping.simps)
    then show ?thesis
      using object m enter [of "[]" "block_lines (i + 2) qs @ rest"]
      by (simp add: entry_lines_def consume_pair_def split_entry [OF key] put)
  qed
qed

lemma ends_block_lines:
  assumes "list_all (\<lambda>p. plain_key (fst p) \<and> plain_value env (snd p)) ps" and "ends_block i rest"
  shows "ends_block (i + 2) (block_lines i ps @ rest)"
proof (cases "ps = []")
  case True
  with assms(2) show ?thesis by (auto simp: block_lines_entries ends_block_def)
next
  case False
  from block_head [OF this assms(1), of i] show ?thesis by (auto simp: ends_block_def)
qed

lemma mapping_reads_back:
  assumes "plain_value env (JObj ps)" and "ends_block i rest" and "length (block_lines i ps) < n"
  shows "parseMapping n env i [] (block_lines i ps @ rest) = Inr (JObj ps, rest)"
proof -
  have "\<forall>ps i rest n. v = JObj ps \<longrightarrow> plain_value env v \<longrightarrow> ends_block i rest \<longrightarrow> length (block_lines i ps) < n \<longrightarrow>
      parseMapping n env i [] (block_lines i ps @ rest) = Inr (JObj ps, rest)" for v
  proof (induction v rule: json_induct)
    case (Obj ps0)
    have "parseMapping n env i out (block_lines i ps @ rest) = Inr (JObj (out @ ps), rest)"
      if "set ps \<subseteq> set ps0" "list_all (\<lambda>p. plain_key (fst p) \<and> plain_value env (snd p)) ps" "ends_block i rest"
        "length (block_lines i ps) < n" "distinct (map fst (out @ ps))" "\<forall>j \<in> fst ` set out. \<not> is_index_key j"
      for ps i rest n out
      using that
    proof (induction ps arbitrary: n out)
      case Nil
      then show ?case by (cases n) (auto simp: ends_block_def block_lines_entries Let_def split: list.split)
    next
      case (Cons p ps)
      obtain k v where p: "p = (k, v)" by (cases p)
      let ?rest = "block_lines i ps @ rest"
      from Cons.prems have key: "plain_key k" and v: "plain_value env v" and mem: "(k, v) \<in> set ps0"
        and others: "list_all (\<lambda>p. plain_key (fst p) \<and> plain_value env (snd p)) ps" by (auto simp: p)
      have lines: "block_lines i (p # ps) = entry_lines i (k, v) @ block_lines i ps" by (simp add: block_lines_entries p)
      note ends = ends_block_lines [OF others Cons.prems(3)]
      have nested: "parseMapping m env (i + 2) [] (block_lines (i + 2) qs @ ?rest) = Inr (JObj qs, ?rest)"
        if "v = JObj qs" "length (block_lines (i + 2) qs) < m" for qs m
        using Obj [OF mem] that v ends by blast
      obtain m where m: "n = Suc m" "parseMapping n env i out (entry_lines i (k, v) @ ?rest) =
          parseMapping m env i (out @ [(k, v)]) ?rest"
        using entry_reads_back [OF key v ends _ _ _ nested, of n out] Cons.prems lines p by auto
      have "length (entry_lines i (k, v)) > 0" using entry_head [OF key v, of i] by auto
      with lines m(1) Cons.prems(4) have fuel: "length (block_lines i ps) < m"
        by (simp del: length_greater_0_conv)
      have "parseMapping m env i (out @ [(k, v)]) ?rest = Inr (JObj ((out @ [(k, v)]) @ ps), rest)"
        by (intro Cons.IH) (use Cons.prems fuel key p in \<open>auto simp: plain_key_def\<close>)
      with m show ?case by (simp add: lines [unfolded p] p del: parseMapping.simps)
    qed
    from this [of ps0] show ?case
      by (auto simp: plain_value.simps [of env "JObj ps0"] simp del: parseMapping.simps)
  qed auto
  with assms show ?thesis by blast
qed

lemma line_text_append:
  assumes "line_text a" "line_text b" "list_all (\<lambda>c. c \<notin> {CHR 0x09, CHR 0x0A, CHR 0x0D, CHR ''#''}) m"
  shows "line_text (a @ m @ b)"
  using assms by (simp add: line_text_def)

lemma colon_text: "line_text '':''" "line_text ''-''" by code_simp+

lemma entry_line_texts:
  assumes "plain_key k" "plain_value env v"
    and nested: "\<And>qs l. v = JObj qs \<Longrightarrow> l \<in> set (block_lines (i + 2) qs) \<Longrightarrow> line_text (yl_text l)"
    and "l \<in> set (entry_lines i (k, v))"
  shows "line_text (yl_text l)"
proof -
  have key: "line_text k" "line_text (k @ '':'')"
    using assms(1) line_text_append [of k "'':''" "[]"] colon_text by (auto simp: plain_key_def)
  from assms(2) show ?thesis
  proof (cases rule: plain_kinds)
    case (plain s)
    with key(1) assms(4) line_text_append [of k s "'': ''"] show ?thesis
      by (simp add: entry_lines_def yaml_line_def plain_text_def)
  next
    case (elements xs)
    have "line_text (''- '' @ the_str (js_str x))" if "x \<in> set xs" for x
      using elements(3) that line_text_append [of "''-''" _ "'' ''"] colon_text
      by (cases x) (auto simp: list_all_iff plain_text_def the_str_def)
    with elements key(2) assms(4) show ?thesis by (auto simp: entry_lines_def yaml_line_def)
  next
    case (object qs)
    with key(2) nested assms(4) show ?thesis by (auto simp: entry_lines_def yaml_line_def)
  qed
qed

lemma block_line_texts:
  assumes "plain_value env (JObj ps)" and "l \<in> set (block_lines i ps)"
  shows "line_text (yl_text l)"
proof -
  have "\<forall>ps i l. v = JObj ps \<longrightarrow> plain_value env v \<longrightarrow> l \<in> set (block_lines i ps) \<longrightarrow> line_text (yl_text l)" for v
  proof (induction v rule: json_induct)
    case (Obj ps0)
    show ?case
    proof (intro allI impI)
      fix ps i l
      assume ps: "JObj ps0 = JObj ps" and plain: "plain_value env (JObj ps0)" and l: "l \<in> set (block_lines i ps)"
      then obtain k v where p: "(k, v) \<in> set ps0" "l \<in> set (entry_lines i (k, v))" by (auto simp: block_lines_entries)
      from plain p(1) have kv: "plain_key k" "plain_value env v"
        by (auto simp: plain_value.simps [of env "JObj ps0"] list_all_iff)
      from Obj [OF p(1)] kv p(2) show "line_text (yl_text l)"
        by (intro entry_line_texts [OF kv _ p(2)]) blast
    qed
  qed auto
  with assms show ?thesis by blast
qed

lemma somes_Some: "somes (map Some xs) = xs"
  by (induction xs) (simp_all add: somes_def List.map_filter_simps)


section \<open>Examples\<close>

definition hx_yaml :: yaml_env where
  "hx_yaml = \<lparr>ye_json = (\<lambda>s. None), ye_decimal = (\<lambda>s. JNull)\<rparr>"

definition hx_yaml_object :: "(string \<times> json) list" where
  "hx_yaml_object =
     [(''id'', JStr ''specwright.test''), (''tools'', JArr [JStr ''fs.read'', JStr ''fs.list'']),
      (''runtime'', JObj [(''mode'', JStr ''strict mode'')])]"


text \<open>
  A number sign starts a comment also inside a word, so an unquoted reference with a fragment is cut; and
  an item whose content stands on the next lines is refused, as the blank after its dash is trimmed.
\<close>

lemma number_sign_cuts_text:
  "parseSimpleYaml hx_yaml ''ref: docs/a.md#part'' = Inr (JObj [(''ref'', JStr ''docs/a.md'')])"
  by code_simp

lemma bare_dash_is_refused:
  "parseSimpleYaml hx_yaml (''- '' @ [CHR 0x0A] @ ''  id: a'') = Inl YamlError"
  by code_simp

end
