(* ===== verification/Harness_Definitions.thy ===== *)
theory Harness_Definitions
  imports Harness_Phase_Graph Harness_Yaml
begin

text \<open>
  The definitions of a harness package (\<^verbatim>\<open>harness-loader/src/index.ts\<close>): parsing of the manifest, of
  the definition files, the artifact schemas and the prompts, their order, and the validation of
  identifiers, references and the phase graph. Definitions are JSON values, as their schemas keep unknown
  properties. \<^verbatim>\<open>JSON.parse\<close>, SHA-256 and \<^verbatim>\<open>localeCompare\<close> are parameters. An error of the loader is its
  code and its reason, which is empty where the code gives none.

  The results: ordering loses and duplicates no definition; an artifact schema is refused exactly if
  some nested schema has a reference that is not local; validation accepts exactly the packages with
  unique identifiers, references that resolve and an acyclic phase graph.
\<close>

section \<open>Files\<close>

definition failure :: "string \<Rightarrow> harness_error" where
  "failure code = HarnessLoaderError code ''''"

definition HARNESS_MANIFEST_FILE :: string where
  "HARNESS_MANIFEST_FILE = ''harness.yaml''"

text \<open>The part of a path after the last slash, and the extension of it from its last dot.\<close>

definition basename :: "string \<Rightarrow> string" where
  "basename path = rev (takeWhile (\<lambda>c. c \<noteq> CHR ''/'') (rev path))"

definition extname :: "string \<Rightarrow> string" where
  "extname path =
     (let base = basename path; ext = rev (takeWhile (\<lambda>c. c \<noteq> CHR ''.'') (rev base)) in
      if length ext + 1 < length base then CHR ''.'' # ext else '''')"

definition stripKnownExtension :: "string \<Rightarrow> string" where
  "stripKnownExtension path =
     (case find (\<lambda>e. ends_with e path) [''.md'', ''.yaml'', ''.yml'', ''.json''] of
        None \<Rightarrow> path | Some e \<Rightarrow> take (length path - length e) path)"

definition parseDataFile :: "yaml_env \<Rightarrow> SourceFile \<Rightarrow> harness_error + json" where
  "parseDataFile env f =
     (if extname (pf_relativePath f) = ''.json''
      then (case ye_json env (pf_raw f) of None \<Rightarrow> Inl (failure ''parse_error'') | Some v \<Rightarrow> Inr v)
      else (case parseSimpleYaml env (pf_raw f) of Inl e \<Rightarrow> Inl (failure ''parse_error'') | Inr v \<Rightarrow> Inr v))"

definition filesForDirectory :: "locale_compare \<Rightarrow> SourceFile list \<Rightarrow> string \<Rightarrow> SourceFile list" where
  "filesForDirectory lc files directory =
     js_sort (\<lambda>l r. lc (pf_relativePath l) (pf_relativePath r))
       (filter (\<lambda>f. starts_with (directory @ ''/'') (pf_relativePath f)) files)"

definition manifest_file :: "SourceFile list \<Rightarrow> harness_error + SourceFile" where
  "manifest_file files =
     (case find (\<lambda>f. pf_relativePath f = HARNESS_MANIFEST_FILE) files of
        None \<Rightarrow> Inl (failure ''missing_harness_manifest'') | Some f \<Rightarrow> Inr f)"

section \<open>Parsing\<close>

text \<open>\<^verbatim>\<open>{...parsed, sourcePath}\<close>.\<close>

definition with_source :: "string \<Rightarrow> json \<Rightarrow> json" where
  "with_source path v = (case v of JObj ps \<Rightarrow> JObj (js_put ''sourcePath'' (JStr path) ps) | _ \<Rightarrow> v)"

definition parseDefinition :: "(json \<Rightarrow> bool) \<Rightarrow> json \<Rightarrow> string \<Rightarrow> harness_error + json" where
  "parseDefinition schema parsed path =
     (if \<not> is_record parsed then Inl (failure ''invalid_definition'')
      else if \<not> schema (with_source path parsed) then Inl (failure ''invalid_definition'')
      else Inr (with_source path parsed))"

definition hasOwn :: "json \<Rightarrow> string \<Rightarrow> bool" where
  "hasOwn v k = (case v of JObj ps \<Rightarrow> k \<in> fst ` set ps | _ \<Rightarrow> False)"

definition parseToolDefinition :: "json \<Rightarrow> string \<Rightarrow> harness_error + json" where
  "parseToolDefinition parsed path =
     bindE (parseDefinition ToolDefinitionSchema parsed path) (\<lambda>tool.
       if hasOwn tool ''inputSchema'' \<and> hasOwn tool ''outputSchema'' then Inr tool
       else Inl (failure ''invalid_definition''))"

text \<open>Entries of the manifest that are objects are definitions themselves.\<close>

definition inlineDefinitions :: "(json \<Rightarrow> string \<Rightarrow> harness_error + json) \<Rightarrow> json \<Rightarrow> harness_error + json list" where
  "inlineDefinitions parser entries =
     bindE (mapE (\<lambda>entry. parser entry HARNESS_MANIFEST_FILE) (filter is_record (js_elems entries))) (\<lambda>ds.
       Inr (map (with_source HARNESS_MANIFEST_FILE) ds))"

definition inlineToolDefinitions :: "json \<Rightarrow> harness_error + json list" where
  "inlineToolDefinitions manifest =
     (case js_get manifest ''tools'' of
        JArr xs \<Rightarrow> inlineDefinitions parseToolDefinition (JArr xs)
      | _ \<Rightarrow> Inr [])"

definition JSON_SCHEMA_REF_KEYS :: "string list" where
  "JSON_SCHEMA_REF_KEYS = [''$ref'', ''$dynamicRef'', ''$recursiveRef'']"

text \<open>The first reference of an object itself that is not local.\<close>

definition own_remote_ref :: "json \<Rightarrow> string option" where
  "own_remote_ref v =
     find (\<lambda>r. \<not> starts_with ''#'' r) (List.map_filter (\<lambda>k. fstr v k) JSON_SCHEMA_REF_KEYS)"

function findNonLocalJsonSchemaRef :: "json \<Rightarrow> string option" where
  "findNonLocalJsonSchemaRef v =
     (case v of
        JArr xs \<Rightarrow> (case somes (map findNonLocalJsonSchemaRef xs) of [] \<Rightarrow> None | r # _ \<Rightarrow> Some r)
      | JObj ps \<Rightarrow>
          (case own_remote_ref v of
             Some r \<Rightarrow> Some r
           | None \<Rightarrow> (case somes (map (\<lambda>p. findNonLocalJsonSchemaRef (snd p)) ps) of [] \<Rightarrow> None | r # _ \<Rightarrow> Some r))
      | _ \<Rightarrow> None)"
  by pat_completeness auto
termination
  by (relation "measure size") (auto dest: size_element size_member)

declare findNonLocalJsonSchemaRef.simps [simp del]

definition parseArtifactSchemaFile :: "yaml_env \<Rightarrow> SourceFile \<Rightarrow> harness_error + json" where
  "parseArtifactSchemaFile env f =
     (case ye_json env (pf_raw f) of
        None \<Rightarrow> Inl (failure ''parse_error'')
      | Some schema \<Rightarrow>
          if \<not> is_record schema then Inl (failure ''invalid_artifact_schema'')
          else if findNonLocalJsonSchemaRef schema \<noteq> None
          then Inl (HarnessLoaderError ''invalid_artifact_schema'' ''remote_ref_denied'')
          else case or_else (stringValue (js_get schema ''id'')) (stringValue (js_get schema ''$id'')) of
            None \<Rightarrow> Inl (failure ''invalid_artifact_schema'')
          | Some i \<Rightarrow>
              (case stringValue (js_get schema ''version'') of
                 None \<Rightarrow> Inl (failure ''invalid_artifact_schema'')
               | Some version \<Rightarrow>
                   let ref = JObj [(''id'', JStr i), (''version'', JStr version),
                     (''path'', JStr (pf_relativePath f)), (''schema'', schema)] in
                   if ArtifactSchemaRefSchema ref then Inr ref else Inl (failure ''invalid_artifact_schema'')))"

text \<open>\<^verbatim>\<open>s.indexOf(t, from)\<close>.\<close>

fun index_from :: "string \<Rightarrow> nat \<Rightarrow> string \<Rightarrow> nat option" where
  "index_from t i [] = (if t = [] then Some i else None)"
| "index_from t i (c # cs) = (if starts_with t (c # cs) then Some i else index_from t (Suc i) cs)"

definition FENCE :: string where
  "FENCE = CHR 0x0A # ''---'' @ [CHR 0x0A]"

definition parseMarkdownFrontmatter :: "yaml_env \<Rightarrow> SourceFile \<Rightarrow> harness_error + json \<times> string" where
  "parseMarkdownFrontmatter env f =
     (let normalized = normalize_newlines (pf_raw f) in
      if \<not> starts_with (tl FENCE) normalized then Inr (JObj [], normalized)
      else case index_from FENCE 4 (drop 4 normalized) of
        None \<Rightarrow> Inl (failure ''invalid_prompt'')
      | Some stop \<Rightarrow>
          (case parseSimpleYaml env (drop 4 (take stop normalized)) of
             Inl e \<Rightarrow> Inl UncaughtError
           | Inr v \<Rightarrow>
               if is_record v then Inr (v, drop (stop + length FENCE) normalized) else Inl (failure ''invalid_prompt'')))"

definition metadataFromFrontmatter :: "json \<Rightarrow> json" where
  "metadataFromFrontmatter v =
     (case v of
        JObj ps \<Rightarrow> (let rest = filter (\<lambda>p. fst p \<notin> {''id'', ''description''}) ps in if rest = [] then JUndefined else JObj rest)
      | _ \<Rightarrow> JUndefined)"

definition parsePromptFile :: "yaml_env \<Rightarrow> (string \<Rightarrow> string) \<Rightarrow> SourceFile \<Rightarrow> harness_error + json" where
  "parsePromptFile env sha f =
     bindE (parseMarkdownFrontmatter env f) (\<lambda>(frontmatter, content).
       let i = default (stringValue (js_get frontmatter ''id'')) (stripKnownExtension (basename (pf_relativePath f)));
           prompt = JObj ([(''id'', JStr i), (''path'', JStr (pf_relativePath f)), (''content'', JStr content),
               (''contentHash'', JStr (''sha256:'' @ sha content))] @
             (case stringValue (js_get frontmatter ''description'') of None \<Rightarrow> [] | Some d \<Rightarrow> [(''description'', JStr d)]) @
             [(''metadata'', metadataFromFrontmatter frontmatter)]) in
       if PromptAssetRefSchema prompt then Inr prompt else Inl (failure ''invalid_prompt''))"

definition parseManifest :: "yaml_env \<Rightarrow> SourceFile \<Rightarrow> harness_error + json" where
  "parseManifest env f =
     bindE (parseDataFile env f) (\<lambda>parsed.
       if HarnessManifestSchema parsed then Inr parsed else Inl (failure ''invalid_manifest''))"

section \<open>Order\<close>

definition def_id :: "json \<Rightarrow> string" where
  "def_id d = the_str (fstr d ''id'')"

definition sourcePath :: "json \<Rightarrow> string" where
  "sourcePath d = default (fstr d ''sourcePath'') ''unknown source''"

definition compareBySourceThenId :: "locale_compare \<Rightarrow> json \<Rightarrow> json \<Rightarrow> int" where
  "compareBySourceThenId lc l r = js_or (lc (sourcePath l) (sourcePath r)) (lc (def_id l) (def_id r))"

text \<open>
  The set \<^verbatim>\<open>emitted\<close> holds object references, so the definitions carry their position: two equal
  definitions are different objects.
\<close>

definition emit_preferred :: "(nat \<times> json) list \<Rightarrow> string \<Rightarrow> (nat \<times> json) list \<Rightarrow> (nat \<times> json) list" where
  "emit_preferred ds i ordered = ordered @ filter (\<lambda>d. def_id (snd d) = i \<and> fst d \<notin> fst ` set ordered) ds"

definition orderDefinitions :: "locale_compare \<Rightarrow> json list \<Rightarrow> string list \<Rightarrow> json list" where
  "orderDefinitions lc definitions preferredOrder =
     (let ds = List.enumerate 0 definitions;
          ordered = fold (emit_preferred ds) preferredOrder [] in
      map snd (ordered @ filter (\<lambda>d. fst d \<notin> fst ` set ordered)
                           (js_sort (\<lambda>l r. compareBySourceThenId lc (snd l) (snd r)) ds)))"

section \<open>Validation\<close>

definition idSet :: "json list \<Rightarrow> string set" where
  "idSet ds = set (map def_id ds)"

fun assert_unique :: "string set \<Rightarrow> json list \<Rightarrow> harness_error + unit" where
  "assert_unique seen [] = Inr ()"
| "assert_unique seen (d # ds) =
     (if def_id d \<in> seen then Inl (failure ''duplicate_id'') else assert_unique (insert (def_id d) seen) ds)"

definition assertUniqueIds :: "json list \<Rightarrow> harness_error + unit" where
  "assertUniqueIds ds = assert_unique {} ds"

definition assertReferencesInSet :: "string list \<Rightarrow> string set \<Rightarrow> harness_error + unit" where
  "assertReferencesInSet references ids =
     forE (\<lambda>r. if r \<in> ids then Inr () else Inl (failure ''missing_reference'')) references"

text \<open>The properties that \<^verbatim>\<open>referenceId\<close> tries in this file.\<close>

definition index_keys :: "string list" where
  "index_keys = [''id'', ''ref'', ''gate'', ''gateId'', ''tool'', ''toolId'', ''eval'', ''evalId'', ''artifact'',
     ''artifactId'', ''artifactSchema'', ''artifactSchemaId'', ''schema'', ''schemaId'', ''prompt'', ''promptId'',
     ''role'', ''roleId'', ''policy'', ''policyId'']"

abbreviation refs :: "json \<Rightarrow> string \<Rightarrow> string list" where
  "refs v k \<equiv> refsFrom index_keys (js_get v k)"

record package_definitions =
  pd_manifest :: json
  pd_phases :: "json list"
  pd_gates :: "json list"
  pd_policies :: "json list"
  pd_tools :: "json list"
  pd_artifacts :: "json list"
  pd_evals :: "json list"
  pd_roles :: "json list"
  pd_prompts :: "json list"

definition manifest_tools :: "json \<Rightarrow> string list" where
  "manifest_tools manifest = manifestToolReferences index_keys manifest"

definition validateManifestReferences :: "package_definitions \<Rightarrow> harness_error + unit" where
  "validateManifestReferences p =
     (let m = pd_manifest p in
      forE (\<lambda>(references, ds). assertReferencesInSet references (idSet ds))
        [(refs m ''phases'', pd_phases p), (refs m ''gates'', pd_gates p), (refs m ''policies'', pd_policies p),
         (manifest_tools m, pd_tools p), (refs m ''artifacts'' @ refs m ''artifactSchemas'', pd_artifacts p),
         (refs m ''evals'', pd_evals p), (refs m ''roles'', pd_roles p), (refs m ''prompts'', pd_prompts p)])"

definition phaseReferences :: "json \<Rightarrow> string list" where
  "phaseReferences v = (case v of JStr s \<Rightarrow> [s] | _ \<Rightarrow> stringArray v)"

definition phase_dependencies :: "json \<Rightarrow> string list" where
  "phase_dependencies phase = stringArray (js_get phase ''dependsOn'') @ stringArray (js_get phase ''after'')"

text \<open>The checks of one phase and the edges it adds to the graph.\<close>

definition phase_edges :: "json \<Rightarrow> edge list" where
  "phase_edges phase =
     map (\<lambda>n. (def_id phase, n)) (phaseReferences (js_get phase ''next'')) @
     map (\<lambda>d. (d, def_id phase)) (phase_dependencies phase)"

definition validate_phase :: "package_definitions \<Rightarrow> json \<Rightarrow> harness_error + edge list" where
  "validate_phase p phase =
     bindE (forE (\<lambda>(references, ids). assertReferencesInSet references ids)
       [(refs phase ''gates'', idSet (pd_gates p)), (refs phase ''tools'', idSet (pd_tools p)),
        (refs phase ''evals'', idSet (pd_evals p)),
        (refs phase ''artifacts'' @ refs phase ''artifactSchemas'', idSet (pd_artifacts p)),
        (phaseReferences (js_get phase ''next''), idSet (pd_phases p)),
        (phase_dependencies phase, idSet (pd_phases p))]) (\<lambda>_.
     Inr (phase_edges phase))"

text \<open>The kinds of definitions that the name of a property of a check refers to.\<close>

definition key_kinds :: "package_definitions \<Rightarrow> string \<Rightarrow> string set list" where
  "key_kinds p k =
     (if ends_with ''Tool'' k \<or> ends_with ''ToolId'' k \<or> k = ''toolId'' then [idSet (pd_tools p)] else []) @
     (if ends_with ''Eval'' k \<or> ends_with ''EvalId'' k \<or> k = ''evalId'' then [idSet (pd_evals p)] else []) @
     (if ends_with ''ArtifactSchema'' k \<or> ends_with ''ArtifactSchemaId'' k \<or> k = ''artifactSchemaId''
      then [idSet (pd_artifacts p)] else []) @
     (if ends_with ''Prompt'' k \<or> ends_with ''PromptId'' k \<or> k = ''promptId'' then [idSet (pd_prompts p)] else [])"

definition js_entries :: "json \<Rightarrow> (string \<times> json) list" where
  "js_entries v = (case v of JObj ps \<Rightarrow> ps | _ \<Rightarrow> [])"

definition assertStructuredReferences :: "package_definitions \<Rightarrow> json \<Rightarrow> harness_error + unit" where
  "assertStructuredReferences p check =
     bindE (forE (\<lambda>(references, ids). assertReferencesInSet references ids)
       [(refs check ''artifactSchemas'', idSet (pd_artifacts p)), (refs check ''evals'', idSet (pd_evals p)),
        (refs check ''gates'', idSet (pd_gates p)), (refs check ''policies'', idSet (pd_policies p)),
        (refs check ''prompts'', idSet (pd_prompts p)), (refs check ''roles'', idSet (pd_roles p)),
        (refs check ''tools'', idSet (pd_tools p))]) (\<lambda>_.
     forE (\<lambda>(k, referenced).
       case referenceId index_keys referenced of
         None \<Rightarrow> Inr ()
       | Some r \<Rightarrow> forE (\<lambda>ids. assertReferencesInSet [r] ids) (key_kinds p k)) (js_entries check))"

definition validate_gate :: "package_definitions \<Rightarrow> json \<Rightarrow> harness_error + unit" where
  "validate_gate p gate =
     bindE (case fstr gate ''phase'' of None \<Rightarrow> Inr () | Some ph \<Rightarrow> assertReferencesInSet [ph] (idSet (pd_phases p))) (\<lambda>_.
       forE (assertStructuredReferences p) (js_elems (js_get gate ''checks'')))"

definition validate_policy :: "package_definitions \<Rightarrow> json \<Rightarrow> harness_error + unit" where
  "validate_policy p policy =
     forE (\<lambda>(references, ids). assertReferencesInSet references ids)
       [(refs policy ''tools'', idSet (pd_tools p)), (refs policy ''gates'', idSet (pd_gates p)),
        (refs policy ''evals'', idSet (pd_evals p)), (refs policy ''artifactSchemas'', idSet (pd_artifacts p))]"

definition validate_eval :: "package_definitions \<Rightarrow> json \<Rightarrow> harness_error + unit" where
  "validate_eval p e =
     forE (\<lambda>(references, ids). assertReferencesInSet references ids)
       [(refs e ''artifactSchemas'' @ refs e ''artifacts'' @ refs e ''requiredArtifacts'' @ refs e ''targetArtifacts'',
         idSet (pd_artifacts p)),
        (refs e ''gates'', idSet (pd_gates p)), (refs e ''tools'', idSet (pd_tools p)), (refs e ''prompts'', idSet (pd_prompts p))]"

definition validate_role :: "package_definitions \<Rightarrow> json \<Rightarrow> harness_error + unit" where
  "validate_role p role = assertReferencesInSet (refs role ''prompts'') (idSet (pd_prompts p))"

definition initial_phase :: "json \<Rightarrow> string option" where
  "initial_phase manifest = or_else (fstr manifest ''initialPhase'') (fstr manifest ''startPhase'')"

definition validateDefinitions :: "package_definitions \<Rightarrow> harness_error + unit" where
  "validateDefinitions p =
     bindE (mapE (validate_phase p) (pd_phases p)) (\<lambda>edges.
     bindE (case initial_phase (pd_manifest p) of None \<Rightarrow> Inr ()
            | Some ph \<Rightarrow> assertReferencesInSet [ph] (idSet (pd_phases p))) (\<lambda>_.
     bindE (assertAcyclicPhaseGraph (concat edges)) (\<lambda>_.
     bindE (forE (validate_gate p) (pd_gates p)) (\<lambda>_.
     bindE (forE (validate_policy p) (pd_policies p)) (\<lambda>_.
     bindE (forE (validate_eval p) (pd_evals p)) (\<lambda>_.
       forE (validate_role p) (pd_roles p)))))))"

definition validate_package :: "package_definitions \<Rightarrow> harness_error + unit" where
  "validate_package p =
     bindE (forE assertUniqueIds [pd_phases p, pd_gates p, pd_policies p, pd_tools p, pd_artifacts p, pd_evals p,
       pd_roles p, pd_prompts p]) (\<lambda>_.
     bindE (validateManifestReferences p) (\<lambda>_.
       validateDefinitions p))"

section \<open>The parse stage\<close>

text \<open>Definitions of one kind: those in the manifest, then those of the files, in the preferred order.\<close>

definition parse_kind :: "yaml_env \<Rightarrow> locale_compare \<Rightarrow> (json \<Rightarrow> string \<Rightarrow> harness_error + json) \<Rightarrow> harness_error + json list \<Rightarrow>
  SourceFile list \<Rightarrow> string \<Rightarrow> string list \<Rightarrow> harness_error + json list" where
  "parse_kind env lc parser inline files directory order =
     bindE inline (\<lambda>ds.
     bindE (mapE (\<lambda>f. bindE (parseDataFile env f) (\<lambda>parsed. parser parsed (pf_relativePath f)))
              (filesForDirectory lc files directory)) (\<lambda>fs.
       Inr (orderDefinitions lc (ds @ fs) order)))"

definition parse_package :: "yaml_env \<Rightarrow> (string \<Rightarrow> string) \<Rightarrow> locale_compare \<Rightarrow> SourceFile list \<Rightarrow>
  harness_error + package_definitions" where
  "parse_package env sha lc files =
     bindE (manifest_file files) (\<lambda>mf.
     bindE (parseManifest env mf) (\<lambda>m.
     if fstr m ''schemaVersion'' \<noteq> Some SUPPORTED_HARNESS_SCHEMA_VERSION then Inl (failure ''unsupported_schema_version'')
     else
       let kind = (\<lambda>schema k directory.
             parse_kind env lc (parseDefinition schema) (inlineDefinitions (parseDefinition schema) (js_get m k)) files directory (refs m k)) in
       bindE (kind PhaseDefinitionSchema ''phases'' ''phases'') (\<lambda>phases.
       bindE (kind GateDefinitionSchema ''gates'' ''gates'') (\<lambda>gates.
       bindE (kind PolicyBundleSchema ''policies'' ''policies'') (\<lambda>policies.
       bindE (parse_kind env lc parseToolDefinition (inlineToolDefinitions m) files ''tools'' (manifest_tools m)) (\<lambda>tools.
       bindE (mapE (parseArtifactSchemaFile env) (filesForDirectory lc files ''artifact-schemas'')) (\<lambda>artifacts.
       bindE (kind EvalDefinitionSchema ''evals'' ''evals'') (\<lambda>evals.
       bindE (kind RoleDefinitionSchema ''roles'' ''roles'') (\<lambda>roles.
       bindE (mapE (parsePromptFile env sha) (filesForDirectory lc files ''prompts'')) (\<lambda>prompts.
         Inr \<lparr>pd_manifest = m, pd_phases = phases, pd_gates = gates, pd_policies = policies, pd_tools = tools,
              pd_artifacts = orderDefinitions lc artifacts (refs m ''artifacts'' @ refs m ''artifactSchemas''),
              pd_evals = evals, pd_roles = roles, pd_prompts = orderDefinitions lc prompts (refs m ''prompts'')\<rparr>))))))))))"

section \<open>Ordering is a permutation\<close>

lemma emitted_invariant:
  assumes "distinct (map fst ds)" and "distinct (map fst ordered)" "set ordered \<subseteq> set ds"
  shows "distinct (map fst (fold (emit_preferred ds) is ordered)) \<and> set (fold (emit_preferred ds) is ordered) \<subseteq> set ds"
  using assms
proof (induction "is" arbitrary: ordered)
  case (Cons i "is")
  have "distinct (map fst (filter P ds))" for P using Cons.prems(1) by (rule distinct_map_filter)
  then have "distinct (map fst (emit_preferred ds i ordered)) \<and> set (emit_preferred ds i ordered) \<subseteq> set ds"
    using Cons.prems by (auto simp: emit_preferred_def) (metis fst_conv image_eqI)
  with Cons.IH [of "emit_preferred ds i ordered"] Cons.prems(1) show ?case by simp
qed simp

text \<open>
  Ordering the definitions of a package neither loses nor duplicates one: the result is a
  permutation of the definitions, for every preferred order, also when identifiers repeat.
\<close>

lemma ordering_is_permutation: "mset (orderDefinitions lc definitions preferredOrder) = mset definitions"
proof -
  let ?ds = "List.enumerate 0 definitions"
  define ordered where "ordered = fold (emit_preferred ?ds) preferredOrder []"
  define others where "others = filter (\<lambda>d. fst d \<notin> fst ` set ordered)
      (js_sort (\<lambda>l r. compareBySourceThenId lc (snd l) (snd r)) ?ds)"
  have ds: "distinct (map fst ?ds)" by simp
  have ordered: "distinct (map fst ordered)" "set ordered \<subseteq> set ?ds"
    using emitted_invariant [OF ds, of "[]" preferredOrder] by (auto simp: ordered_def)
  have inj: "inj_on fst (set ?ds)" and plain: "distinct ?ds" "distinct ordered"
    using ds ordered(1) unfolding distinct_map by blast+
  have "distinct (js_sort (\<lambda>l r. compareBySourceThenId lc (snd l) (snd r)) ?ds)"
    using plain(1) by (metis mset_eq_imp_distinct_iff mset_js_sort)
  then have "distinct others" by (simp add: others_def)
  moreover have others: "set others = set ?ds - set ordered"
    using ordered(2) inj by (auto simp: others_def inj_on_def)
  ultimately have "distinct (ordered @ others)" "set (ordered @ others) = set ?ds"
    using ordered(2) plain(2) by auto
  then have "mset (ordered @ others) = mset ?ds"
    using plain(1) by (metis set_eq_iff_mset_eq_distinct)
  then have "mset (map snd (ordered @ others)) = mset (map snd ?ds)" by (metis mset_map)
  then show ?thesis by (simp add: orderDefinitions_def Let_def ordered_def others_def)
qed

lemma ordered_set: "set (orderDefinitions lc definitions preferredOrder) = set definitions"
  by (metis ordering_is_permutation set_mset_mset)

section \<open>Remote references\<close>

text \<open>An object somewhere in the value has a reference that does not start with a number sign.\<close>

inductive has_remote_ref :: "json \<Rightarrow> bool" where
  own: "k \<in> set JSON_SCHEMA_REF_KEYS \<Longrightarrow> js_get (JObj ps) k = JStr r \<Longrightarrow> \<not> starts_with ''#'' r \<Longrightarrow> has_remote_ref (JObj ps)"
| elem: "x \<in> set xs \<Longrightarrow> has_remote_ref x \<Longrightarrow> has_remote_ref (JArr xs)"
| member: "p \<in> set ps \<Longrightarrow> has_remote_ref (snd p) \<Longrightarrow> has_remote_ref (JObj ps)"

inductive_cases has_remote_refE [elim!]: "has_remote_ref (JArr xs)"

inductive_cases has_remote_ref_objectE: "has_remote_ref (JObj ps)"

lemma somes_empty: "somes xs = [] \<longleftrightarrow> (\<forall>x \<in> set xs. x = None)"
  by (induction xs) (auto simp: somes_def List.map_filter_simps split: option.splits)

lemma own_remote_ref_iff: "own_remote_ref v \<noteq> None \<longleftrightarrow>
    (\<exists>k \<in> set JSON_SCHEMA_REF_KEYS. \<exists>r. js_get v k = JStr r \<and> \<not> starts_with ''#'' r)"
  by (simp add: own_remote_ref_def find_None_iff set_map_filter fstr_Some) blast

text \<open>
  An artifact schema is refused exactly if it refers outside itself: the search finds a reference
  that is not local if and only if some object nested anywhere in the schema has one.
\<close>

theorem remote_refs_are_found: "findNonLocalJsonSchemaRef v \<noteq> None \<longleftrightarrow> has_remote_ref v"
proof (induction v rule: json_induct)
  case (Arr xs)
  have "findNonLocalJsonSchemaRef (JArr xs) \<noteq> None \<longleftrightarrow> somes (map findNonLocalJsonSchemaRef xs) \<noteq> []"
    by (subst findNonLocalJsonSchemaRef.simps) (auto split: list.split)
  also have "\<dots> \<longleftrightarrow> (\<exists>x \<in> set xs. has_remote_ref x)" using Arr by (auto simp: somes_empty)
  finally show ?case by (auto intro: has_remote_ref.elem)
next
  case (Obj ps)
  have "has_remote_ref (JObj ps) \<longleftrightarrow> own_remote_ref (JObj ps) \<noteq> None \<or> (\<exists>p \<in> set ps. has_remote_ref (snd p))"
    unfolding own_remote_ref_iff by (auto elim!: has_remote_ref_objectE intro: has_remote_ref.intros)
  moreover have "findNonLocalJsonSchemaRef (snd p) \<noteq> None \<longleftrightarrow> has_remote_ref (snd p)" if "p \<in> set ps" for p
    using Obj [of "fst p" "snd p"] that by simp
  moreover have "findNonLocalJsonSchemaRef (JObj ps) \<noteq> None \<longleftrightarrow>
      own_remote_ref (JObj ps) \<noteq> None \<or> somes (map (\<lambda>p. findNonLocalJsonSchemaRef (snd p)) ps) \<noteq> []"
    by (subst findNonLocalJsonSchemaRef.simps) (auto split: list.split option.split)
  ultimately show ?case by (auto simp: somes_empty)
qed (auto simp: findNonLocalJsonSchemaRef.simps elim: has_remote_ref.cases)

section \<open>Validation accepts exactly the well-formed packages\<close>

definition resolves :: "string list \<Rightarrow> json list \<Rightarrow> bool" where
  "resolves references ds \<longleftrightarrow> set references \<subseteq> def_id ` set ds"

definition well_formed_phase :: "package_definitions \<Rightarrow> json \<Rightarrow> bool" where
  "well_formed_phase p phase \<longleftrightarrow>
     resolves (refs phase ''gates'') (pd_gates p) \<and> resolves (refs phase ''tools'') (pd_tools p) \<and>
     resolves (refs phase ''evals'') (pd_evals p) \<and>
     resolves (refs phase ''artifacts'') (pd_artifacts p) \<and> resolves (refs phase ''artifactSchemas'') (pd_artifacts p) \<and>
     snd ` set (phase_edges phase) \<union> fst ` set (phase_edges phase) \<subseteq> insert (def_id phase) (def_id ` set (pd_phases p))"

definition well_formed_check :: "package_definitions \<Rightarrow> json \<Rightarrow> bool" where
  "well_formed_check p c \<longleftrightarrow>
     resolves (refs c ''artifactSchemas'') (pd_artifacts p) \<and> resolves (refs c ''evals'') (pd_evals p) \<and>
     resolves (refs c ''gates'') (pd_gates p) \<and> resolves (refs c ''policies'') (pd_policies p) \<and>
     resolves (refs c ''prompts'') (pd_prompts p) \<and> resolves (refs c ''roles'') (pd_roles p) \<and>
     resolves (refs c ''tools'') (pd_tools p) \<and>
     (\<forall>(k, v) \<in> set (js_entries c). \<forall>r ids. referenceId index_keys v = Some r \<longrightarrow> ids \<in> set (key_kinds p k) \<longrightarrow> r \<in> ids)"

definition well_formed :: "package_definitions \<Rightarrow> bool" where
  "well_formed p \<longleftrightarrow>
     (\<forall>ds \<in> {pd_phases p, pd_gates p, pd_policies p, pd_tools p, pd_artifacts p, pd_evals p, pd_roles p, pd_prompts p}.
        distinct (map def_id ds)) \<and>
     (let m = pd_manifest p in
        resolves (refs m ''phases'') (pd_phases p) \<and> resolves (refs m ''gates'') (pd_gates p) \<and>
        resolves (refs m ''policies'') (pd_policies p) \<and> resolves (manifest_tools m) (pd_tools p) \<and>
        resolves (refs m ''artifacts'' @ refs m ''artifactSchemas'') (pd_artifacts p) \<and>
        resolves (refs m ''evals'') (pd_evals p) \<and> resolves (refs m ''roles'') (pd_roles p) \<and>
        resolves (refs m ''prompts'') (pd_prompts p) \<and>
        (\<forall>ph. initial_phase m = Some ph \<longrightarrow> ph \<in> def_id ` set (pd_phases p))) \<and>
     (\<forall>phase \<in> set (pd_phases p). well_formed_phase p phase) \<and>
     acyclic (\<Union>phase \<in> set (pd_phases p). set (phase_edges phase)) \<and>
     (\<forall>gate \<in> set (pd_gates p).
        (\<forall>ph. fstr gate ''phase'' = Some ph \<longrightarrow> ph \<in> def_id ` set (pd_phases p)) \<and>
        (\<forall>c \<in> set (js_elems (js_get gate ''checks'')). well_formed_check p c)) \<and>
     (\<forall>policy \<in> set (pd_policies p).
        resolves (refs policy ''tools'') (pd_tools p) \<and> resolves (refs policy ''gates'') (pd_gates p) \<and>
        resolves (refs policy ''evals'') (pd_evals p) \<and> resolves (refs policy ''artifactSchemas'') (pd_artifacts p)) \<and>
     (\<forall>e \<in> set (pd_evals p).
        resolves (refs e ''artifactSchemas'' @ refs e ''artifacts'' @ refs e ''requiredArtifacts'' @ refs e ''targetArtifacts'')
          (pd_artifacts p) \<and>
        resolves (refs e ''gates'') (pd_gates p) \<and> resolves (refs e ''tools'') (pd_tools p) \<and>
        resolves (refs e ''prompts'') (pd_prompts p)) \<and>
     (\<forall>role \<in> set (pd_roles p). resolves (refs role ''prompts'') (pd_prompts p))"

lemma unique_iff: "assert_unique seen ds = Inr u \<longleftrightarrow> distinct (map def_id ds) \<and> set (map def_id ds) \<inter> seen = {}"
  by (induction seen ds rule: assert_unique.induct) auto

lemma references_iff: "assertReferencesInSet references ids = Inr u \<longleftrightarrow> set references \<subseteq> ids"
  by (auto simp: assertReferencesInSet_def split: if_splits)

lemma resolves_iff: "set references \<subseteq> idSet ds \<longleftrightarrow> resolves references ds"
  by (simp add: resolves_def idSet_def)

lemmas loop_facts = references_iff resolves_iff bindE_Inr_iff

lemma phase_ok_iff:
  assumes "phase \<in> set (pd_phases p)"
  shows "validate_phase p phase = Inr es \<longleftrightarrow> es = phase_edges phase \<and> well_formed_phase p phase"
proof -
  have "snd ` set (phase_edges phase) \<union> fst ` set (phase_edges phase) \<subseteq> insert (def_id phase) (def_id ` set (pd_phases p)) \<longleftrightarrow>
      resolves (phaseReferences (js_get phase ''next'')) (pd_phases p) \<and> resolves (phase_dependencies phase) (pd_phases p)"
    using assms by (auto simp: phase_edges_def resolves_def image_Un image_image)
  moreover have "resolves (a @ b) ds \<longleftrightarrow> resolves a ds \<and> resolves b ds" for a b ds by (simp add: resolves_def)
  ultimately show ?thesis
    by (auto simp: validate_phase_def well_formed_phase_def loop_facts)
qed

lemma phases_ok_iff:
  "mapE (validate_phase p) (pd_phases p) = Inr ess \<longleftrightarrow>
   ess = map phase_edges (pd_phases p) \<and> (\<forall>phase \<in> set (pd_phases p). well_formed_phase p phase)"
proof -
  have "mapE (validate_phase p) phs = Inr ess \<longleftrightarrow> ess = map phase_edges phs \<and> (\<forall>phase \<in> set phs. well_formed_phase p phase)"
    if "set phs \<subseteq> set (pd_phases p)" for phs
    using that
  proof (induction phs arbitrary: ess)
    case (Cons ph phs)
    then show ?case
      using phase_ok_iff [of ph p] by (auto simp: mapE_Cons_Inr_iff simp del: mapE.simps)
  qed auto
  then show ?thesis by blast
qed

lemma check_ok_iff: "assertStructuredReferences p c = Inr u \<longleftrightarrow> well_formed_check p c"
  by (auto simp: assertStructuredReferences_def well_formed_check_def loop_facts split: option.splits)

lemma gate_ok_iff: "validate_gate p gate = Inr u \<longleftrightarrow>
    (\<forall>ph. fstr gate ''phase'' = Some ph \<longrightarrow> ph \<in> def_id ` set (pd_phases p)) \<and>
    (\<forall>c \<in> set (js_elems (js_get gate ''checks'')). well_formed_check p c)"
  by (auto simp: validate_gate_def loop_facts check_ok_iff idSet_def split: option.splits)

lemma graph_ok_iff: "assertAcyclicPhaseGraph edges = Inr u \<longleftrightarrow> acyclic (set edges)"
proof -
  have "is_ok (assertAcyclicPhaseGraph edges) \<longleftrightarrow> acyclic (set edges)" by (rule graph_check_exact)
  then show ?thesis by (cases "assertAcyclicPhaseGraph edges") auto
qed

lemma validated_iff: "is_ok (validate_package p) \<longleftrightarrow> well_formed p"
proof -
  have "is_ok (validate_package p) \<longleftrightarrow> validate_package p = Inr ()" by (auto simp: is_ok_iff)
  also have "\<dots> \<longleftrightarrow> well_formed p"
    by (cases "initial_phase (pd_manifest p)")
       (simp_all add: validate_package_def validateManifestReferences_def validateDefinitions_def validate_policy_def
        validate_eval_def validate_role_def well_formed_def Let_def references_iff bindE_Inr_iff phases_ok_iff gate_ok_iff
        graph_ok_iff assertUniqueIds_def unique_iff idSet_def resolves_def conj_ac)
  finally show ?thesis .
qed

text \<open>
  C20: Validation accepts exactly the well-formed packages: those whose identifiers are unique per kind,
  whose references from the manifest, phases, gates and their checks, policies, evaluations and roles
  name definitions of the package, whose initial phase exists, and whose phases form no cycle.
\<close>

theorem validation_is_exact: "is_ok (validate_package p) \<longleftrightarrow> well_formed p"
  by (rule validated_iff)

end
