(* ===== verification/Harness_Compatibility.thy ===== *)
theory Harness_Compatibility
  imports Harness_Definitions
begin

text \<open>
  Compatibility admission of the harness loader (\<^verbatim>\<open>harness-loader/src/compatibility\<close>): the matrix of
  supported versions, the classification of a transition, signed migration descriptors and the decision
  to load, to migrate or to refuse a package (\<^verbatim>\<open>admission.ts\<close>, \<^verbatim>\<open>classify.ts\<close>, \<^verbatim>\<open>matrix.ts\<close>,
  \<^verbatim>\<open>migration.ts\<close>). The matrix, the manifest and the descriptor are JSON values. The runtime of
  \<open>Harness_Trust\<close> and \<^verbatim>\<open>localeCompare\<close> are parameters.

  The results: a package is loaded unchanged only at the target schema version and without a wider
  capability surface than its matrix row declares; it is migrated only with a descriptor that a trusted
  key has signed, and the bytes that go on are those whose hash the descriptor names.
\<close>

section \<open>Classes and surfaces\<close>

datatype CompatibilityClass =
    ContentStable
  | PatchCompatible
  | AdditiveCompatible
  | ReplayCompatible
  | MigrationRequired
  | Breaking

datatype LoaderBehavior = Load | Migrate | Deny

record CapabilitySurface =
  cf_tools :: "string list"
  cf_requireApproval :: "string list"
  cf_strict :: "bool option"
  cf_failClosed :: "bool option"
  cf_modelOutputAuthority :: "string option"

definition js_bool :: "json \<Rightarrow> bool option" where
  "js_bool v = (case v of JBool b \<Rightarrow> Some b | _ \<Rightarrow> None)"

text \<open>Absent parts of a surface default to empty.\<close>

definition CapabilitySurfaceSchema :: "json \<Rightarrow> bool" where
  "CapabilitySurfaceSchema = z_strict
     [(''tools'', z_optional (z_array nonEmptyString)), (''requireApproval'', z_optional (z_array nonEmptyString)),
      (''runtimeAuthority'', z_optional (z_strict
         [(''strict'', z_optional z_boolean), (''failClosed'', z_optional z_boolean),
          (''modelOutputAuthority'', z_optional nonEmptyString)]))]"

definition surface_of :: "json \<Rightarrow> CapabilitySurface" where
  "surface_of v =
     (let authority = js_get v ''runtimeAuthority'' in
      \<lparr>cf_tools = stringArray (js_get v ''tools''), cf_requireApproval = stringArray (js_get v ''requireApproval''),
       cf_strict = js_bool (js_get authority ''strict''), cf_failClosed = js_bool (js_get authority ''failClosed''),
       cf_modelOutputAuthority = fstr authority ''modelOutputAuthority''\<rparr>)"

text \<open>The schema on a surface that the program built itself.\<close>

definition surface_ok :: "CapabilitySurface \<Rightarrow> bool" where
  "surface_ok s \<longleftrightarrow> [] \<notin> set (cf_tools s) \<and> [] \<notin> set (cf_requireApproval s) \<and> cf_modelOutputAuthority s \<noteq> Some []"

definition empty_surface :: CapabilitySurface where
  "empty_surface = \<lparr>cf_tools = [], cf_requireApproval = [], cf_strict = None, cf_failClosed = None,
     cf_modelOutputAuthority = None\<rparr>"

definition runtimeAuthorityChanges :: "CapabilitySurface \<Rightarrow> CapabilitySurface \<Rightarrow> string list" where
  "runtimeAuthorityChanges source target =
     (if cf_strict source \<noteq> cf_strict target then [''strict''] else []) @
     (if cf_failClosed source \<noteq> cf_failClosed target then [''failClosed''] else []) @
     (if cf_modelOutputAuthority source \<noteq> cf_modelOutputAuthority target then [''modelOutputAuthority''] else [])"

record CapabilityWidening =
  cw_addedTools :: "string list"
  cw_addedRequireApproval :: "string list"
  cw_widenedRuntimeAuthority :: "string list"

definition surface_difference :: "locale_compare \<Rightarrow> string list \<Rightarrow> string list \<Rightarrow> string list" where
  "surface_difference lc l r = js_sort lc (unique (filter (\<lambda>v. v \<notin> set r) l))"

definition detectCapabilitySurfaceWidening :: "locale_compare \<Rightarrow> CapabilitySurface option \<Rightarrow> CapabilitySurface option \<Rightarrow>
  CapabilityWidening" where
  "detectCapabilitySurfaceWidening lc source target =
     (let s = default source empty_surface; t = default target empty_surface in
      \<lparr>cw_addedTools = surface_difference lc (cf_tools t) (cf_tools s),
       cw_addedRequireApproval = surface_difference lc (cf_requireApproval t) (cf_requireApproval s),
       cw_widenedRuntimeAuthority = runtimeAuthorityChanges s t\<rparr>)"

definition widened :: "CapabilityWidening \<Rightarrow> bool" where
  "widened w \<longleftrightarrow> cw_addedTools w \<noteq> [] \<or> cw_addedRequireApproval w \<noteq> [] \<or> cw_widenedRuntimeAuthority w \<noteq> []"

record ClassifyTransitionInput =
  ci_normalizedContentEqual :: bool
  ci_metadataOnly :: bool
  ci_additiveOnly :: bool
  ci_replayVerified :: bool
  ci_schemaVersionChanged :: bool
  ci_removedOrRenamedReferencedDefinition :: bool
  ci_toolContractChanged :: bool
  ci_authorityChanged :: bool
  ci_interpretable :: bool
  ci_source :: "CapabilitySurface option"
  ci_target :: "CapabilitySurface option"

definition classifyTransition :: "locale_compare \<Rightarrow> ClassifyTransitionInput \<Rightarrow> CompatibilityClass" where
  "classifyTransition lc i =
     (if \<not> ci_interpretable i then Breaking
      else if ci_schemaVersionChanged i \<or> ci_removedOrRenamedReferencedDefinition i \<or> ci_toolContractChanged i \<or>
              ci_authorityChanged i \<or> widened (detectCapabilitySurfaceWidening lc (ci_source i) (ci_target i))
      then MigrationRequired
      else if ci_normalizedContentEqual i then ContentStable
      else if ci_metadataOnly i then PatchCompatible
      else if ci_additiveOnly i then AdditiveCompatible
      else if ci_replayVerified i then ReplayCompatible
      else Breaking)"

section \<open>The matrix\<close>

record CompatibilityMatrixRow =
  mr_id :: string
  mr_runtimeVersion :: string
  mr_harnessSchemaVersion :: string
  mr_packageVersionRange :: string
  mr_supportClass :: CompatibilityClass
  mr_loaderBehavior :: LoaderBehavior
  mr_source :: "CapabilitySurface option"
  mr_target :: "CapabilitySurface option"

definition class_names :: "(string \<times> CompatibilityClass) list" where
  "class_names = [(''content-stable'', ContentStable), (''patch-compatible'', PatchCompatible),
     (''additive-compatible'', AdditiveCompatible), (''replay-compatible'', ReplayCompatible),
     (''migration-required'', MigrationRequired), (''breaking'', Breaking)]"

definition behavior_names :: "(string \<times> LoaderBehavior) list" where
  "behavior_names = [(''load'', Load), (''migrate'', Migrate), (''deny'', Deny)]"

definition CompatibilityMatrixRowSchema :: "json \<Rightarrow> bool" where
  "CompatibilityMatrixRowSchema = z_strict
     [(''id'', nonEmptyString), (''runtimeVersion'', nonEmptyString), (''harnessSchemaVersion'', nonEmptyString),
      (''packageVersionRange'', nonEmptyString), (''supportClass'', z_enum (map fst class_names)),
      (''loaderBehavior'', z_enum (map fst behavior_names)),
      (''sourceCapabilitySurface'', z_optional CapabilitySurfaceSchema),
      (''targetCapabilitySurface'', z_optional CapabilitySurfaceSchema)]"

definition CompatibilityMatrixSchema :: "json \<Rightarrow> bool" where
  "CompatibilityMatrixSchema v \<longleftrightarrow>
     z_strict [(''matrixId'', nonEmptyString), (''rows'', z_array CompatibilityMatrixRowSchema)] v \<and>
     js_elems (js_get v ''rows'') \<noteq> []"

definition optional_surface :: "json \<Rightarrow> CapabilitySurface option" where
  "optional_surface v = (if is_record v then Some (surface_of v) else None)"

definition row_of :: "json \<Rightarrow> CompatibilityMatrixRow" where
  "row_of v =
     \<lparr>mr_id = the_str (fstr v ''id''), mr_runtimeVersion = the_str (fstr v ''runtimeVersion''),
      mr_harnessSchemaVersion = the_str (fstr v ''harnessSchemaVersion''),
      mr_packageVersionRange = the_str (fstr v ''packageVersionRange''),
      mr_supportClass = default (map_of class_names (the_str (fstr v ''supportClass''))) Breaking,
      mr_loaderBehavior = default (map_of behavior_names (the_str (fstr v ''loaderBehavior''))) Deny,
      mr_source = optional_surface (js_get v ''sourceCapabilitySurface''),
      mr_target = optional_surface (js_get v ''targetCapabilitySurface'')\<rparr>"

definition DEFAULT_RUNTIME_VERSION :: string where
  "DEFAULT_RUNTIME_VERSION = ''current''"

definition DEFAULT_COMPATIBILITY_MATRIX :: json where
  "DEFAULT_COMPATIBILITY_MATRIX = JObj
     [(''matrixId'', JStr ''specwright.harness-loader.compatibility.v1''),
      (''rows'', JArr
        [JObj [(''id'', JStr ''current-load''), (''runtimeVersion'', JStr DEFAULT_RUNTIME_VERSION),
           (''harnessSchemaVersion'', JStr ''specwright.harness.v1''), (''packageVersionRange'', JStr ''*''),
           (''supportClass'', JStr ''content-stable''), (''loaderBehavior'', JStr ''load'')],
         JObj [(''id'', JStr ''historical-preview-migrate''), (''runtimeVersion'', JStr DEFAULT_RUNTIME_VERSION),
           (''harnessSchemaVersion'', JStr ''specwright.harness.preview''), (''packageVersionRange'', JStr ''*''),
           (''supportClass'', JStr ''migration-required''), (''loaderBehavior'', JStr ''migrate'')]])]"

text \<open>An error of the admission, with its code and reason, or one that no handler of it catches.\<close>

datatype compatibility_thrown = CompatibilityAdmissionError string string | CompatibilityUncaught

definition denied :: "string \<Rightarrow> compatibility_thrown + 'a" where
  "denied reason = Inl (CompatibilityAdmissionError ''compatibility_denied'' reason)"

definition packageVersionMatches :: "string \<Rightarrow> string \<Rightarrow> bool" where
  "packageVersionMatches vrange version \<longleftrightarrow> vrange = ''*'' \<or> vrange = version \<or> vrange = ''='' @ version"

definition lookupCompatibilityMatrix :: "json \<Rightarrow> string \<Rightarrow> string \<Rightarrow> string \<Rightarrow> compatibility_thrown + CompatibilityMatrixRow" where
  "lookupCompatibilityMatrix matrix runtimeVersion harnessSchemaVersion packageVersion =
     (if \<not> CompatibilityMatrixSchema matrix then Inl CompatibilityUncaught
      else case filter (\<lambda>row. mr_runtimeVersion row = runtimeVersion \<and> mr_harnessSchemaVersion row = harnessSchemaVersion \<and>
                  packageVersionMatches (mr_packageVersionRange row) packageVersion)
             (map row_of (js_elems (js_get matrix ''rows''))) of
        [] \<Rightarrow> Inl (CompatibilityAdmissionError ''unsupported_schema_version'' ''no_matrix_cell'')
      | [row] \<Rightarrow> Inr row
      | _ \<Rightarrow> denied ''ambiguous_matrix_cell'')"

definition isLoadableCompatibilityClass :: "CompatibilityClass \<Rightarrow> bool" where
  "isLoadableCompatibilityClass c \<longleftrightarrow> c \<in> {ContentStable, PatchCompatible, AdditiveCompatible, ReplayCompatible}"

section \<open>Migrations\<close>

text \<open>An error with a reason, or one of the Node.js runtime.\<close>

datatype migration_thrown = MigrationDescriptorError string | MigrationUncaught

definition spec_hash_text :: "json \<Rightarrow> bool" where
  "spec_hash_text v = (case v of JStr s \<Rightarrow> sha256_text s | _ \<Rightarrow> False)"

definition MigrationDescriptorSignatureSchema :: "'k trust_env \<Rightarrow> json \<Rightarrow> bool" where
  "MigrationDescriptorSignatureSchema env = z_strict
     [(''publisherId'', nonEmptyString), (''signingKeyId'', nonEmptyString), (''algorithm'', z_enum [''ed25519'']),
      (''signature'', base64String env), (''signatureRef'', z_optional nonEmptyString)]"

definition ContractVersionRefSchema :: "json \<Rightarrow> bool" where
  "ContractVersionRefSchema = z_strict [(''contractId'', nonEmptyString), (''version'', nonEmptyString)]"

definition MigrationTransformSchema :: "json \<Rightarrow> bool" where
  "MigrationTransformSchema = z_strict
     [(''operation'', z_enum [''replace-manifest-schema-version'']), (''from'', nonEmptyString), (''to'', nonEmptyString),
      (''fileReplacements'', z_optional (z_array (z_strict
         [(''relativePath'', nonEmptyString), (''from'', nonEmptyString), (''to'', z_text)])))]"

definition migration_body_shape :: "(string \<times> (json \<Rightarrow> bool)) list" where
  "migration_body_shape =
     [(''migrationId'', nonEmptyString), (''source'', ContractVersionRefSchema), (''target'', ContractVersionRefSchema),
      (''sourceSchemaVersion'', nonEmptyString), (''targetSchemaVersion'', nonEmptyString),
      (''migrationType'', z_enum [''deterministic-text-transform'']), (''transform'', MigrationTransformSchema),
      (''dataLoss'', z_enum [''none'', ''metadata-only'', ''lossy'']), (''authorityChanges'', z_array nonEmptyString),
      (''redactionChanges'', z_array nonEmptyString),
      (''validation'', z_strict [(''before'', z_array nonEmptyString), (''after'', z_array nonEmptyString)]),
      (''rollbackStrategy'', nonEmptyString), (''replayFixtures'', z_array nonEmptyString),
      (''operatorApprovalRequired'', z_boolean), (''expectedMigratedSpecHash'', spec_hash_text)]"

definition MigrationDescriptorBodySchema :: "json \<Rightarrow> bool" where
  "MigrationDescriptorBodySchema = z_strict migration_body_shape"

definition MigrationDescriptorSchema :: "'k trust_env \<Rightarrow> json \<Rightarrow> bool" where
  "MigrationDescriptorSchema env =
     z_strict (migration_body_shape @ [(''signature'', MigrationDescriptorSignatureSchema env)])"

definition parseMigrationDescriptor :: "'k trust_env \<Rightarrow> json \<Rightarrow> migration_thrown + json" where
  "parseMigrationDescriptor env input =
     (if MigrationDescriptorSchema env input then Inr input else Inl (MigrationDescriptorError ''malformed_descriptor''))"

definition without_signature :: "json \<Rightarrow> json" where
  "without_signature v = (case v of JObj ps \<Rightarrow> JObj (filter (\<lambda>p. fst p \<noteq> ''signature'') ps) | _ \<Rightarrow> v)"

definition canonicalizeMigrationDescriptor :: "'k trust_env \<Rightarrow> locale_compare \<Rightarrow> json \<Rightarrow> migration_thrown + string" where
  "canonicalizeMigrationDescriptor env lc input =
     (if MigrationDescriptorBodySchema input then Inr (canonicalJson lc input)
      else bindE (parseMigrationDescriptor env input) (\<lambda>descriptor. Inr (canonicalJson lc (without_signature descriptor))))"

definition signature_text :: "json \<Rightarrow> string \<Rightarrow> string" where
  "signature_text descriptor k = the_str (fstr (js_get descriptor ''signature'') k)"

definition resolveSigningEntry :: "'k trust_env \<Rightarrow> TrustStore \<Rightarrow> json \<Rightarrow> migration_thrown + TrustStoreEntry" where
  "resolveSigningEntry env trustStore descriptor =
     (let publisherId = signature_text descriptor ''publisherId'';
          resolved = st_resolve trustStore publisherId (signature_text descriptor ''signingKeyId'') in
      if resolved = JUndefined then
        Inl (MigrationDescriptorError
          (if (case st_hasPublisher trustStore of None \<Rightarrow> False | Some known \<Rightarrow> known publisherId)
           then ''unknown_key'' else ''untrusted_publisher''))
      else if \<not> TrustStoreEntrySchema env resolved then Inl (MigrationDescriptorError ''malformed_descriptor'')
      else Inr (entry_of resolved))"

definition migration_now :: "'k trust_env \<Rightarrow> time_input \<Rightarrow> migration_thrown + int" where
  "migration_now env t =
     (case t of
        NoTime \<Rightarrow> Inr (te_clock env)
      | DateTime d \<Rightarrow> (case d of None \<Rightarrow> Inl (MigrationDescriptorError ''malformed_descriptor'') | Some x \<Rightarrow> Inr x)
      | TimeText s \<Rightarrow>
          (case te_getTime env s of None \<Rightarrow> Inl (MigrationDescriptorError ''malformed_descriptor'') | Some x \<Rightarrow> Inr x))"

text \<open>The schema of an entry admits one algorithm only, so the check of it never fails.\<close>

definition rejectInvalidEntry :: "'k trust_env \<Rightarrow> TrustStoreEntry \<Rightarrow> time_input \<Rightarrow> migration_thrown + unit" where
  "rejectInvalidEntry env entry nowValue =
     bindE (migration_now env nowValue) (\<lambda>now.
       if ts_status entry = ''revoked'' then Inl (MigrationDescriptorError ''revoked_key'')
       else if ts_status entry = ''expired'' then Inl (MigrationDescriptorError ''expired_key'')
       else if after env (ts_notBefore entry) now then Inl (MigrationDescriptorError ''expired_key'')
       else if elapsed env (ts_notAfter entry) now then Inl (MigrationDescriptorError ''expired_key'')
       else Inr ())"

record migration_verification =
  mv_signatureRef :: string
  mv_trustStoreVersion :: json

definition verifyMigrationDescriptor :: "'k trust_env \<Rightarrow> locale_compare \<Rightarrow> json \<Rightarrow> TrustStore option \<Rightarrow> time_input \<Rightarrow>
  migration_thrown + migration_verification" where
  "verifyMigrationDescriptor env lc input trustStore now =
     bindE (parseMigrationDescriptor env input) (\<lambda>descriptor.
     if signature_text descriptor ''algorithm'' \<noteq> ''ed25519'' then Inl (MigrationDescriptorError ''unsupported_algorithm'')
     else case trustStore of None \<Rightarrow> Inl (MigrationDescriptorError ''missing_trust_store'')
     | Some store \<Rightarrow>
       bindE (resolveSigningEntry env store descriptor) (\<lambda>entry.
       bindE (rejectInvalidEntry env entry now) (\<lambda>_.
       bindE (canonicalizeMigrationDescriptor env lc descriptor) (\<lambda>canonicalBody.
       case decodeBase64 env (signature_text descriptor ''signature'') of None \<Rightarrow> Inl MigrationUncaught
       | Some signature \<Rightarrow>
         (case verifyEd25519Signature env canonicalBody (ts_publicKey entry) signature of
            None \<Rightarrow> Inl MigrationUncaught
          | Some verified \<Rightarrow>
              if \<not> verified then Inl (MigrationDescriptorError ''bad_signature'')
              else Inr \<lparr>mv_signatureRef = default (fstr (js_get descriptor ''signature'') ''signatureRef'')
                          (deriveSignatureRef env signature),
                        mv_trustStoreVersion = st_version store\<rparr>)))))"

text \<open>
  \<^verbatim>\<open>s.replace(from, to)\<close> on texts: the first occurrence, where dollar signs of the replacement are
  patterns of the language.
\<close>

fun expand_replacement :: "string \<Rightarrow> string \<Rightarrow> string \<Rightarrow> string \<Rightarrow> string" where
  "expand_replacement matched before rest [] = []"
| "expand_replacement matched before rest [c] = [c]"
| "expand_replacement matched before rest (c # d # cs) =
     (if c = CHR ''$'' \<and> d = CHR ''$'' then CHR ''$'' # expand_replacement matched before rest cs
      else if c = CHR ''$'' \<and> d = CHR ''&'' then matched @ expand_replacement matched before rest cs
      else if c = CHR ''$'' \<and> d = CHR 0x60 then before @ expand_replacement matched before rest cs
      else if c = CHR ''$'' \<and> d = SQ then rest @ expand_replacement matched before rest cs
      else c # expand_replacement matched before rest (d # cs))"

definition js_replace :: "string \<Rightarrow> string \<Rightarrow> string \<Rightarrow> string" where
  "js_replace s from to =
     (case index_from from 0 s of
        None \<Rightarrow> s
      | Some i \<Rightarrow>
          take i s @ expand_replacement from (take i s) (drop (i + length from) s) to @ drop (i + length from) s)"

definition transform_failed :: "migration_thrown + 'a" where
  "transform_failed = Inl (MigrationDescriptorError ''transform_failed'')"

definition transform_manifest :: "string \<Rightarrow> string \<Rightarrow> PackageFile \<Rightarrow> PackageFile" where
  "transform_manifest from to f =
     (if pf_relativePath f = HARNESS_MANIFEST_FILE \<and> str_includes from (pf_raw f)
      then f\<lparr>pf_raw := js_replace (pf_raw f) from to\<rparr> else f)"

fun replace_all :: "json list \<Rightarrow> string \<Rightarrow> migration_thrown + string" where
  "replace_all [] raw = Inr raw"
| "replace_all (r # rs) raw =
     (if \<not> str_includes (the_str (fstr r ''from'')) raw then transform_failed
      else replace_all rs (js_replace raw (the_str (fstr r ''from'')) (the_str (fstr r ''to''))))"

definition applyFileReplacements :: "json \<Rightarrow> PackageFile list \<Rightarrow> migration_thrown + PackageFile list" where
  "applyFileReplacements descriptor files =
     (let replacements = js_elems (js_get (js_get descriptor ''transform'') ''fileReplacements'');
          path = (\<lambda>r. the_str (fstr r ''relativePath'')) in
      if replacements = [] then Inr files
      else bindE (mapE (\<lambda>f.
             bindE (replace_all (filter (\<lambda>r. path r = pf_relativePath f) replacements) (pf_raw f)) (\<lambda>raw.
               Inr (f\<lparr>pf_raw := raw\<rparr>))) files) (\<lambda>migrated.
        if \<exists>r \<in> set replacements. path r \<notin> pf_relativePath ` set files then transform_failed else Inr migrated))"

definition applyDeterministicTransform :: "json \<Rightarrow> PackageFile list \<Rightarrow> migration_thrown + PackageFile list" where
  "applyDeterministicTransform descriptor files =
     (let transform = js_get descriptor ''transform'';
          from = ''schemaVersion: '' @ the_str (fstr transform ''from'');
          to = ''schemaVersion: '' @ the_str (fstr transform ''to'') in
      if \<not> (\<exists>f \<in> set files. pf_relativePath f = HARNESS_MANIFEST_FILE \<and> str_includes from (pf_raw f)) then transform_failed
      else applyFileReplacements descriptor (map (transform_manifest from to) files))"

record MigrationResult =
  mg_descriptorId :: string
  mg_originalSpecHash :: string
  mg_migratedSpecHash :: string
  mg_files :: "PackageFile list"
  mg_signatureRef :: string
  mg_trustStoreVersion :: json

definition package_hash :: "'k trust_env \<Rightarrow> locale_compare \<Rightarrow> PackageFile list \<Rightarrow> string" where
  "package_hash env lc files = (case computeSpecHash lc (te_sha env) files [] of Inr h \<Rightarrow> h | Inl e \<Rightarrow> '''')"

definition applyMigrationDescriptor :: "'k trust_env \<Rightarrow> locale_compare \<Rightarrow> json \<Rightarrow> PackageFile list \<Rightarrow> TrustStore \<Rightarrow> time_input \<Rightarrow>
  migration_thrown + MigrationResult" where
  "applyMigrationDescriptor env lc descriptor files trustStore now =
     bindE (verifyMigrationDescriptor env lc descriptor (Some trustStore) now) (\<lambda>verification.
     bindE (applyDeterministicTransform descriptor files) (\<lambda>migrated.
       let migratedSpecHash = package_hash env lc migrated in
       if migratedSpecHash \<noteq> the_str (fstr descriptor ''expectedMigratedSpecHash'')
       then Inl (MigrationDescriptorError ''attestation_mismatch'')
       else Inr \<lparr>mg_descriptorId = the_str (fstr descriptor ''migrationId''), mg_originalSpecHash = package_hash env lc files,
                 mg_migratedSpecHash = migratedSpecHash, mg_files = migrated, mg_signatureRef = mv_signatureRef verification,
                 mg_trustStoreVersion = mv_trustStoreVersion verification\<rparr>))"

section \<open>Admission\<close>

definition CompatibilityManifestEnvelopeSchema :: "json \<Rightarrow> bool" where
  "CompatibilityManifestEnvelopeSchema = z_object [(''version'', nonEmptyString), (''schemaVersion'', nonEmptyString)]"

record admission_migration =
  am_descriptorId :: string
  am_originalSpecHash :: string
  am_migratedSpecHash :: string
  am_signatureRef :: string
  am_trustStoreVersion :: json

record CompatibilityAdmission =
  ca_matrixId :: string
  ca_matrixRowId :: string
  ca_runtimeVersion :: string
  ca_declaredSchemaVersion :: string
  ca_targetSchemaVersion :: string
  ca_packageVersion :: string
  ca_compatibilityClass :: CompatibilityClass
  ca_loaderBehavior :: LoaderBehavior
  ca_migration :: "admission_migration option"

record AdmittedHarnessCompatibility =
  ah_files :: "SourceFile list"
  ah_admission :: CompatibilityAdmission

record admit_options =
  ao_rawManifest :: json
  ao_files :: "SourceFile list"
  ao_targetSchemaVersion :: string
  ao_runtimeVersion :: string
  ao_matrix :: json
  ao_migrationDescriptor :: json
  ao_migrationTrustStore :: "TrustStore option"
  ao_migrationNow :: time_input

text \<open>The properties that \<^verbatim>\<open>referenceId\<close> tries in this file.\<close>

definition admission_keys :: "string list" where
  "admission_keys = [''id'', ''ref'', ''tool'', ''toolId'']"

definition capabilitySurfaceFromManifest :: "json \<Rightarrow> CapabilitySurface" where
  "capabilitySurfaceFromManifest rawManifest =
     (let tools = js_get rawManifest ''tools'';
          runtime = (if is_record (js_get rawManifest ''runtime'') then js_get rawManifest ''runtime'' else JObj []) in
      \<lparr>cf_tools = (case tools of JArr xs \<Rightarrow> refsFrom admission_keys tools | _ \<Rightarrow> stringArray (js_get tools ''allow'')),
       cf_requireApproval = stringArray (js_get tools ''requireApproval''),
       cf_strict = js_bool (js_get runtime ''strict''), cf_failClosed = js_bool (js_get runtime ''failClosed''),
       cf_modelOutputAuthority = fstr runtime ''modelOutputAuthority''\<rparr>)"

definition requiresExplicitSourceCapabilitySurface :: "CompatibilityClass \<Rightarrow> bool" where
  "requiresExplicitSourceCapabilitySurface c \<longleftrightarrow> c = AdditiveCompatible \<or> c = ReplayCompatible"

text \<open>The surface that a row declares for the package, or else that of the manifest if the row has a source.\<close>

definition admission_target :: "CompatibilityMatrixRow \<Rightarrow> json \<Rightarrow> CapabilitySurface option" where
  "admission_target row rawManifest =
     or_else (mr_target row)
       (case mr_source row of None \<Rightarrow> None | Some s \<Rightarrow> Some (capabilitySurfaceFromManifest rawManifest))"

definition classifyAdmission :: "locale_compare \<Rightarrow> json \<Rightarrow> string \<Rightarrow> CompatibilityMatrixRow \<Rightarrow> string \<Rightarrow>
  compatibility_thrown + CompatibilityClass" where
  "classifyAdmission lc rawManifest schemaVersion row targetSchemaVersion =
     (let class = mr_supportClass row; target = admission_target row rawManifest in
      if mr_loaderBehavior row = Load \<and> requiresExplicitSourceCapabilitySurface class \<and> mr_source row = None
      then denied ''missing_source_capability_surface''
      else if \<not> (case target of None \<Rightarrow> True | Some t \<Rightarrow> surface_ok t) then Inl CompatibilityUncaught
      else Inr (classifyTransition lc
        \<lparr>ci_normalizedContentEqual = (class = ContentStable), ci_metadataOnly = (class = PatchCompatible),
         ci_additiveOnly = (class = AdditiveCompatible), ci_replayVerified = (class = ReplayCompatible),
         ci_schemaVersionChanged = (schemaVersion \<noteq> targetSchemaVersion),
         ci_removedOrRenamedReferencedDefinition = False, ci_toolContractChanged = False, ci_authorityChanged = False,
         ci_interpretable = (class \<noteq> Breaking), ci_source = mr_source row, ci_target = target\<rparr>))"

definition rejectMatrixClassifierMismatch :: "CompatibilityMatrixRow \<Rightarrow> CompatibilityClass \<Rightarrow> compatibility_thrown + unit" where
  "rejectMatrixClassifierMismatch row classified =
     (if classified = MigrationRequired \<and> (mr_supportClass row \<noteq> MigrationRequired \<or> mr_loaderBehavior row \<noteq> Migrate)
      then denied ''classifier_requires_migration''
      else if classified = Breaking \<and> mr_loaderBehavior row \<noteq> Deny then denied ''classifier_breaking_transition''
      else Inr ())"

definition requiredManifestFile :: "'a PackageFile_scheme list \<Rightarrow> compatibility_thrown + 'a PackageFile_scheme" where
  "requiredManifestFile files =
     (case find (\<lambda>f. pf_relativePath f = HARNESS_MANIFEST_FILE) files of
        None \<Rightarrow> denied ''missing_migrated_manifest'' | Some f \<Rightarrow> Inr f)"

definition rejectDescriptorMismatch :: "json \<Rightarrow> string \<Rightarrow> string \<Rightarrow> compatibility_thrown + unit" where
  "rejectDescriptorMismatch descriptor declared target =
     (if fstr descriptor ''sourceSchemaVersion'' \<noteq> Some declared \<or> fstr descriptor ''targetSchemaVersion'' \<noteq> Some target \<or>
         fstr (js_get descriptor ''transform'') ''from'' \<noteq> Some declared \<or>
         fstr (js_get descriptor ''transform'') ''to'' \<noteq> Some target
      then denied ''migration_descriptor_mismatch'' else Inr ())"

text \<open>The last migrated file of a path wins, as in a \<^verbatim>\<open>Map\<close> of the files by path.\<close>

definition mergeMigratedFiles :: "SourceFile list \<Rightarrow> PackageFile list \<Rightarrow> SourceFile list" where
  "mergeMigratedFiles original migrated =
     map (\<lambda>f. case find (\<lambda>m. pf_relativePath m = pf_relativePath f) (rev migrated) of
                None \<Rightarrow> f | Some m \<Rightarrow> f\<lparr>pf_raw := pf_raw m\<rparr>) original"

definition migrationAdmissionError :: "migration_thrown + 'a \<Rightarrow> compatibility_thrown + 'a" where
  "migrationAdmissionError r =
     (case r of Inr x \<Rightarrow> Inr x | Inl (MigrationDescriptorError reason) \<Rightarrow> denied reason | Inl MigrationUncaught \<Rightarrow> Inl CompatibilityUncaught)"

definition admission_record :: "admit_options \<Rightarrow> CompatibilityMatrixRow \<Rightarrow> string \<Rightarrow> string \<Rightarrow> LoaderBehavior \<Rightarrow>
  admission_migration option \<Rightarrow> CompatibilityAdmission" where
  "admission_record options row schemaVersion version behavior migration =
     \<lparr>ca_matrixId = the_str (fstr (ao_matrix options) ''matrixId''), ca_matrixRowId = mr_id row,
      ca_runtimeVersion = ao_runtimeVersion options, ca_declaredSchemaVersion = schemaVersion,
      ca_targetSchemaVersion = ao_targetSchemaVersion options, ca_packageVersion = version,
      ca_compatibilityClass = mr_supportClass row, ca_loaderBehavior = behavior, ca_migration = migration\<rparr>"

definition admit_migration :: "'k trust_env \<Rightarrow> locale_compare \<Rightarrow> admit_options \<Rightarrow> CompatibilityMatrixRow \<Rightarrow> string \<Rightarrow> string \<Rightarrow>
  compatibility_thrown + AdmittedHarnessCompatibility" where
  "admit_migration env lc options row schemaVersion version =
     (if ao_migrationDescriptor options = JUndefined then denied ''missing_migration_descriptor''
      else case ao_migrationTrustStore options of None \<Rightarrow> denied ''missing_migration_trust_store''
      | Some store \<Rightarrow>
        bindE (migrationAdmissionError (parseMigrationDescriptor env (ao_migrationDescriptor options))) (\<lambda>descriptor.
        bindE (rejectDescriptorMismatch descriptor schemaVersion (ao_targetSchemaVersion options)) (\<lambda>_.
        bindE (migrationAdmissionError (applyMigrationDescriptor env lc descriptor
                 (map PackageFile.truncate (ao_files options)) store (ao_migrationNow options))) (\<lambda>migration.
        bindE (requiredManifestFile (mg_files migration)) (\<lambda>_.
          Inr \<lparr>ah_files = mergeMigratedFiles (ao_files options) (mg_files migration),
               ah_admission = admission_record options row schemaVersion version Migrate
                 (Some \<lparr>am_descriptorId = mg_descriptorId migration, am_originalSpecHash = mg_originalSpecHash migration,
                        am_migratedSpecHash = mg_migratedSpecHash migration, am_signatureRef = mg_signatureRef migration,
                        am_trustStoreVersion = mg_trustStoreVersion migration\<rparr>)\<rparr>)))))"

definition admitHarnessCompatibility :: "'k trust_env \<Rightarrow> locale_compare \<Rightarrow> admit_options \<Rightarrow>
  compatibility_thrown + AdmittedHarnessCompatibility" where
  "admitHarnessCompatibility env lc options =
     (let manifest = ao_rawManifest options in
      if \<not> CompatibilityManifestEnvelopeSchema manifest then denied ''malformed_compatibility_manifest''
      else
        let schemaVersion = the_str (fstr manifest ''schemaVersion''); version = the_str (fstr manifest ''version'') in
        bindE (lookupCompatibilityMatrix (ao_matrix options) (ao_runtimeVersion options) schemaVersion version) (\<lambda>row.
        bindE (classifyAdmission lc manifest schemaVersion row (ao_targetSchemaVersion options)) (\<lambda>classified.
        bindE (rejectMatrixClassifierMismatch row classified) (\<lambda>_.
        if mr_loaderBehavior row = Load \<and> isLoadableCompatibilityClass (mr_supportClass row) then
          (if schemaVersion \<noteq> ao_targetSchemaVersion options then denied ''schema_version_load_mismatch''
           else bindE (requiredManifestFile (ao_files options)) (\<lambda>_.
             Inr \<lparr>ah_files = ao_files options,
                  ah_admission = admission_record options row schemaVersion version Load None\<rparr>))
        else if mr_loaderBehavior row \<noteq> Migrate then denied ''matrix_denied''
        else admit_migration env lc options row schemaVersion version))))"

section \<open>Widening\<close>

lemma surface_difference_Nil: "surface_difference lc l r = [] \<longleftrightarrow> set l \<subseteq> set r"
proof -
  have "unique xs = [] \<longleftrightarrow> xs = []" for xs :: "string list" by (metis set_empty set_unique)
  then show ?thesis by (auto simp: surface_difference_def filter_empty_conv)
qed

text \<open>The target asks for no tool or approval that the source lacks, and for the same runtime authority.\<close>

definition within_surface :: "CapabilitySurface \<Rightarrow> CapabilitySurface \<Rightarrow> bool" where
  "within_surface source target \<longleftrightarrow>
     set (cf_tools target) \<subseteq> set (cf_tools source) \<and> set (cf_requireApproval target) \<subseteq> set (cf_requireApproval source) \<and>
     cf_strict target = cf_strict source \<and> cf_failClosed target = cf_failClosed source \<and>
     cf_modelOutputAuthority target = cf_modelOutputAuthority source"

lemma widened_iff:
  "widened (detectCapabilitySurfaceWidening lc source target) \<longleftrightarrow>
   \<not> within_surface (default source empty_surface) (default target empty_surface)"
  by (auto simp: widened_def detectCapabilitySurfaceWidening_def Let_def surface_difference_Nil runtimeAuthorityChanges_def
      within_surface_def)

lemma classify_loadable:
  assumes "classifyAdmission lc m v row target = Inr c" "rejectMatrixClassifierMismatch row c = Inr u"
    and "mr_loaderBehavior row = Load"
  shows "v = target \<and> within_surface (default (mr_source row) empty_surface) (default (admission_target row m) empty_surface)"
  using assms
  by (auto simp: classifyAdmission_def rejectMatrixClassifierMismatch_def Let_def classifyTransition_def denied_def widened_iff
      split: if_splits)

lemma lookup_row:
  assumes "lookupCompatibilityMatrix matrix runtimeVersion v version = Inr row"
  shows "\<exists>r \<in> set (js_elems (js_get matrix ''rows'')). row = row_of r \<and> mr_runtimeVersion row = runtimeVersion \<and>
    mr_harnessSchemaVersion row = v \<and> packageVersionMatches (mr_packageVersionRange row) version \<and>
    CompatibilityMatrixSchema matrix"
proof -
  let ?P = "\<lambda>row. mr_runtimeVersion row = runtimeVersion \<and> mr_harnessSchemaVersion row = v \<and>
      packageVersionMatches (mr_packageVersionRange row) version"
  let ?rows = "map row_of (js_elems (js_get matrix ''rows''))"
  from assms have "filter ?P ?rows = [row]" "CompatibilityMatrixSchema matrix"
    by (auto simp: lookupCompatibilityMatrix_def denied_def split: if_splits list.splits)
  then have "row \<in> set (filter ?P ?rows)" by simp
  then show ?thesis using \<open>CompatibilityMatrixSchema matrix\<close> by auto
qed

section \<open>Migrated bytes\<close>

text \<open>An entry of a trust store whose key has signed a text, as the check at a given time sees it.\<close>

definition signed_by_active_key :: "'k trust_env \<Rightarrow> TrustStore \<Rightarrow> time_input \<Rightarrow> json \<Rightarrow> string \<Rightarrow> bool" where
  "signed_by_active_key env store t descriptor body \<longleftrightarrow>
     (\<exists>entry now signature.
        st_resolve store (signature_text descriptor ''publisherId'') (signature_text descriptor ''signingKeyId'') = entry \<and>
        TrustStoreEntrySchema env entry \<and> fstr entry ''status'' = Some ''active'' \<and> migration_now env t = Inr now \<and>
        \<not> after env (ts_notBefore (entry_of entry)) now \<and> \<not> elapsed env (ts_notAfter (entry_of entry)) now \<and>
        decodeBase64 env (signature_text descriptor ''signature'') = Some signature \<and>
        verifyEd25519Signature env body (ts_publicKey (entry_of entry)) signature = Some True)"

lemma verified_descriptor:
  assumes "verifyMigrationDescriptor env lc descriptor (Some store) t = Inr v"
  shows "MigrationDescriptorSchema env descriptor \<and>
    signed_by_active_key env store t descriptor (canonicalJson lc (without_signature descriptor))"
proof -
  from assms have schema: "MigrationDescriptorSchema env descriptor"
    by (auto simp: verifyMigrationDescriptor_def bindE_Inr_iff parseMigrationDescriptor_def split: if_splits)
  then have "MigrationDescriptorSignatureSchema env (js_get descriptor ''signature'')"
    unfolding MigrationDescriptorSchema_def by (rule z_strict_field) simp
  then have "js_get descriptor ''signature'' \<noteq> JUndefined"
    by (auto simp: MigrationDescriptorSignatureSchema_def z_strict_def)
  then have "\<not> MigrationDescriptorBodySchema descriptor"
    using z_strict_known [of migration_body_shape descriptor "''signature''"]
    by (auto simp: MigrationDescriptorBodySchema_def migration_body_shape_def)
  with schema have body: "canonicalizeMigrationDescriptor env lc descriptor = Inr (canonicalJson lc (without_signature descriptor))"
    by (simp add: canonicalizeMigrationDescriptor_def parseMigrationDescriptor_def)
  from assms schema obtain entry where
    entry: "resolveSigningEntry env store descriptor = Inr entry" "rejectInvalidEntry env entry t = Inr ()"
    and check: "(case decodeBase64 env (signature_text descriptor ''signature'') of None \<Rightarrow> Inl MigrationUncaught
      | Some signature \<Rightarrow>
        (case verifyEd25519Signature env (canonicalJson lc (without_signature descriptor)) (ts_publicKey entry) signature of
           None \<Rightarrow> Inl MigrationUncaught
         | Some verified \<Rightarrow> if \<not> verified then Inl (MigrationDescriptorError ''bad_signature'')
             else Inr \<lparr>mv_signatureRef = default (fstr (js_get descriptor ''signature'') ''signatureRef'')
                          (deriveSignatureRef env signature),
                        mv_trustStoreVersion = st_version store\<rparr>)) = Inr v"
    by (auto simp: verifyMigrationDescriptor_def bindE_Inr_iff parseMigrationDescriptor_def body split: if_splits)
  from check obtain signature where signature: "decodeBase64 env (signature_text descriptor ''signature'') = Some signature"
      "verifyEd25519Signature env (canonicalJson lc (without_signature descriptor)) (ts_publicKey entry) signature = Some True"
    by (cases "decodeBase64 env (signature_text descriptor ''signature'')") (auto split: option.splits if_splits)
  from entry(2) obtain now where now: "migration_now env t = Inr now"
    by (auto simp: rejectInvalidEntry_def bindE_Inr_iff)
  let ?r = "st_resolve store (signature_text descriptor ''publisherId'') (signature_text descriptor ''signingKeyId'')"
  from entry(1) have r: "TrustStoreEntrySchema env ?r" "entry = entry_of ?r"
    by (auto simp: resolveSigningEntry_def Let_def split: if_splits)
  from r(1) have "z_enum [''active'', ''revoked'', ''expired''] (js_get ?r ''status'')"
    unfolding TrustStoreEntrySchema_def by (rule z_strict_field) simp
  then obtain st where "fstr ?r ''status'' = Some st" "st \<in> {''active'', ''revoked'', ''expired''}"
    by (auto simp: z_enum_def fstr_def split: json.splits)
  moreover from entry(2) r(2) now have "ts_status (entry_of ?r) \<notin> {''revoked'', ''expired''}"
    "\<not> after env (ts_notBefore (entry_of ?r)) now" "\<not> elapsed env (ts_notAfter (entry_of ?r)) now"
    by (auto simp: rejectInvalidEntry_def split: if_splits)
  ultimately show ?thesis
    using schema r signature now unfolding signed_by_active_key_def by (auto simp: entry_of_def the_str_def)
qed

lemma replacements_keep_paths:
  assumes "applyFileReplacements descriptor files = Inr migrated"
  shows "map pf_relativePath migrated = map pf_relativePath files"
proof (cases "js_elems (js_get (js_get descriptor ''transform'') ''fileReplacements'') = []")
  case True
  with assms show ?thesis by (simp add: applyFileReplacements_def)
next
  case False
  let ?g = "\<lambda>f. bindE (replace_all (filter (\<lambda>r. the_str (fstr r ''relativePath'') = pf_relativePath f)
      (js_elems (js_get (js_get descriptor ''transform'') ''fileReplacements''))) (pf_raw f)) (\<lambda>raw. Inr (f\<lparr>pf_raw := raw\<rparr>))"
  from assms False have "mapE ?g files = Inr migrated"
    by (auto simp: applyFileReplacements_def Let_def bindE_Inr_iff transform_failed_def split: if_splits)
  then have "list_all2 (\<lambda>f m. ?g f = Inr m) files migrated" by (simp add: mapE_Inr_iff)
  then show ?thesis by (induction rule: list_all2_induct) (auto simp: bindE_Inr_iff)
qed

lemma transform_keeps_paths:
  assumes "applyDeterministicTransform descriptor files = Inr migrated"
  shows "map pf_relativePath migrated = map pf_relativePath files"
proof -
  from assms obtain from' to' where "applyFileReplacements descriptor (map (transform_manifest from' to') files) = Inr migrated"
    by (auto simp: applyDeterministicTransform_def Let_def transform_failed_def split: if_splits)
  from replacements_keep_paths [OF this] show ?thesis by (simp add: transform_manifest_def o_def if_distrib cong: if_cong)
qed

lemma find_by_path:
  assumes "distinct (map pf_relativePath ms)" "m \<in> set ms"
  shows "find (\<lambda>x. pf_relativePath x = pf_relativePath m) ms = Some m"
proof (cases "find (\<lambda>x. pf_relativePath x = pf_relativePath m) ms")
  case None
  with assms(2) show ?thesis by (auto simp: find_eq_None)
next
  case (Some x)
  then have "x \<in> set ms" "pf_relativePath x = pf_relativePath m" by (auto dest: find_Some_iff_in)
  with assms Some show ?thesis by (auto simp: distinct_map inj_on_def)
qed

lemma merge_gives_migrated:
  assumes paths: "map pf_relativePath migrated = map pf_relativePath files" and "distinct (map pf_relativePath files)"
  shows "map PackageFile.truncate (mergeMigratedFiles files migrated) = migrated"
proof (rule nth_equalityI)
  have length: "length migrated = length files" using paths by (metis length_map)
  then show "length (map PackageFile.truncate (mergeMigratedFiles files migrated)) = length migrated"
    by (simp add: mergeMigratedFiles_def)
  fix i
  assume "i < length (map PackageFile.truncate (mergeMigratedFiles files migrated))"
  then have i: "i < length files" "i < length migrated" using length by (auto simp: mergeMigratedFiles_def)
  have path: "pf_relativePath (migrated ! i) = pf_relativePath (files ! i)" using paths i by (metis nth_map)
  have "distinct (map pf_relativePath (rev migrated))" using assms by (simp add: rev_map [symmetric] paths)
  from find_by_path [OF this, of "migrated ! i"] i
  have "find (\<lambda>m. pf_relativePath m = pf_relativePath (files ! i)) (rev migrated) = Some (migrated ! i)"
    by (simp add: path)
  with i path show "map PackageFile.truncate (mergeMigratedFiles files migrated) ! i = migrated ! i"
    by (cases "migrated ! i") (simp add: mergeMigratedFiles_def PackageFile.truncate_def)
qed

section \<open>What an admission promises\<close>

lemma admitted:
  assumes "admitHarnessCompatibility env lc options = Inr a"
  obtains row c where
    "CompatibilityManifestEnvelopeSchema (ao_rawManifest options)"
    "lookupCompatibilityMatrix (ao_matrix options) (ao_runtimeVersion options)
       (the_str (fstr (ao_rawManifest options) ''schemaVersion'')) (the_str (fstr (ao_rawManifest options) ''version'')) = Inr row"
    "classifyAdmission lc (ao_rawManifest options) (the_str (fstr (ao_rawManifest options) ''schemaVersion'')) row
       (ao_targetSchemaVersion options) = Inr c"
    "rejectMatrixClassifierMismatch row c = Inr ()"
    "mr_loaderBehavior row = Load \<and> isLoadableCompatibilityClass (mr_supportClass row) \<and> ah_files a = ao_files options \<and>
       ca_loaderBehavior (ah_admission a) = Load \<or>
     mr_loaderBehavior row = Migrate \<and> ca_loaderBehavior (ah_admission a) = Migrate \<and>
       admit_migration env lc options row (the_str (fstr (ao_rawManifest options) ''schemaVersion''))
         (the_str (fstr (ao_rawManifest options) ''version'')) = Inr a"
proof -
  from assms obtain row c where
    envelope: "CompatibilityManifestEnvelopeSchema (ao_rawManifest options)"
    and row: "lookupCompatibilityMatrix (ao_matrix options) (ao_runtimeVersion options)
       (the_str (fstr (ao_rawManifest options) ''schemaVersion'')) (the_str (fstr (ao_rawManifest options) ''version'')) = Inr row"
    and c: "classifyAdmission lc (ao_rawManifest options) (the_str (fstr (ao_rawManifest options) ''schemaVersion'')) row
       (ao_targetSchemaVersion options) = Inr c" "rejectMatrixClassifierMismatch row c = Inr ()"
    and decision: "(if mr_loaderBehavior row = Load \<and> isLoadableCompatibilityClass (mr_supportClass row) then
          (if the_str (fstr (ao_rawManifest options) ''schemaVersion'') \<noteq> ao_targetSchemaVersion options
           then denied ''schema_version_load_mismatch''
           else bindE (requiredManifestFile (ao_files options)) (\<lambda>_.
             Inr \<lparr>ah_files = ao_files options,
                  ah_admission = admission_record options row (the_str (fstr (ao_rawManifest options) ''schemaVersion''))
                    (the_str (fstr (ao_rawManifest options) ''version'')) Load None\<rparr>))
        else if mr_loaderBehavior row \<noteq> Migrate then denied ''matrix_denied''
        else admit_migration env lc options row (the_str (fstr (ao_rawManifest options) ''schemaVersion''))
           (the_str (fstr (ao_rawManifest options) ''version''))) = Inr a"
    by (auto simp: admitHarnessCompatibility_def Let_def bindE_Inr_iff denied_def split: if_splits)
  have "ca_loaderBehavior (ah_admission a) = Migrate"
    if "admit_migration env lc options row v w = Inr a" for v w
    using that by (auto simp: admit_migration_def bindE_Inr_iff denied_def admission_record_def split: if_splits option.splits)
  with decision show ?thesis
    by (intro that [OF envelope row c]) (auto simp: bindE_Inr_iff denied_def admission_record_def split: if_splits)
qed

text \<open>
  A package that is loaded as it is has the supported schema version and no wider capability surface
  than its row of the compatibility matrix declares. An admission to load keeps the files, rests on a
  row of a well-formed matrix for this runtime, schema version and package version with a loadable
  class, and the surface that the row or the manifest names adds no tool and no approval to the source
  surface of the row and changes none of the runtime authorities.
\<close>

theorem loaded_surface_is_not_wider:
  assumes "admitHarnessCompatibility env lc options = Inr a" "ca_loaderBehavior (ah_admission a) = Load"
  shows "ah_files a = ao_files options \<and>
    the_str (fstr (ao_rawManifest options) ''schemaVersion'') = ao_targetSchemaVersion options \<and>
    (\<exists>r \<in> set (js_elems (js_get (ao_matrix options) ''rows'')).
       mr_runtimeVersion (row_of r) = ao_runtimeVersion options \<and>
       mr_harnessSchemaVersion (row_of r) = ao_targetSchemaVersion options \<and>
       packageVersionMatches (mr_packageVersionRange (row_of r)) (the_str (fstr (ao_rawManifest options) ''version'')) \<and>
       isLoadableCompatibilityClass (mr_supportClass (row_of r)) \<and>
       within_surface (default (mr_source (row_of r)) empty_surface)
         (default (admission_target (row_of r) (ao_rawManifest options)) empty_surface))"
  using assms(1)
proof (cases rule: admitted)
  case (1 row c)
  with assms(2) have load: "mr_loaderBehavior row = Load" "isLoadableCompatibilityClass (mr_supportClass row)"
    "ah_files a = ao_files options" by auto
  from classify_loadable [OF 1(3,4) load(1)] lookup_row [OF 1(2)] load show ?thesis by auto
qed

text \<open>
  C21: A package is migrated only as a trusted key has signed. If the files of a package have different
  paths, an admission that migrates them rests on a well-formed descriptor for the declared and the
  target schema version whose canonical text an active key of the trust store, valid at the time of the
  check, has signed; the admitted files are the result of its transformation and have the hash that
  the descriptor names.
\<close>

theorem migration_is_signed:
  assumes "admitHarnessCompatibility env lc options = Inr a" "ca_loaderBehavior (ah_admission a) = Migrate"
    and "distinct (map pf_relativePath (ao_files options))"
  shows "\<exists>store. ao_migrationTrustStore options = Some store \<and>
    MigrationDescriptorSchema env (ao_migrationDescriptor options) \<and>
    signed_by_active_key env store (ao_migrationNow options) (ao_migrationDescriptor options)
      (canonicalJson lc (without_signature (ao_migrationDescriptor options))) \<and>
    fstr (ao_migrationDescriptor options) ''sourceSchemaVersion'' = Some (the_str (fstr (ao_rawManifest options) ''schemaVersion'')) \<and>
    fstr (ao_migrationDescriptor options) ''targetSchemaVersion'' = Some (ao_targetSchemaVersion options) \<and>
    applyDeterministicTransform (ao_migrationDescriptor options) (map PackageFile.truncate (ao_files options)) =
      Inr (map PackageFile.truncate (ah_files a)) \<and>
    package_hash env lc (map PackageFile.truncate (ah_files a)) =
      the_str (fstr (ao_migrationDescriptor options) ''expectedMigratedSpecHash'')"
proof -
  let ?d = "ao_migrationDescriptor options" and ?v = "the_str (fstr (ao_rawManifest options) ''schemaVersion'')"
  let ?files = "map PackageFile.truncate (ao_files options)"
  obtain row where "admit_migration env lc options row ?v (the_str (fstr (ao_rawManifest options) ''version'')) = Inr a"
    using assms(1,2) by (cases rule: admitted) auto
  then obtain store migration where store: "ao_migrationTrustStore options = Some store"
    and versions: "rejectDescriptorMismatch ?d ?v (ao_targetSchemaVersion options) = Inr ()"
    and migration: "migrationAdmissionError (applyMigrationDescriptor env lc ?d ?files store (ao_migrationNow options)) = Inr migration"
    and files: "ah_files a = mergeMigratedFiles (ao_files options) (mg_files migration)"
    by (auto simp: admit_migration_def bindE_Inr_iff denied_def parseMigrationDescriptor_def migrationAdmissionError_def [of "Inr x" for x]
        migrationAdmissionError_def [of "Inl x" for x] split: if_splits option.splits)
  from migration have "applyMigrationDescriptor env lc ?d ?files store (ao_migrationNow options) = Inr migration"
    by (auto simp: migrationAdmissionError_def denied_def split: sum.splits migration_thrown.splits)
  then obtain v where v: "verifyMigrationDescriptor env lc ?d (Some store) (ao_migrationNow options) = Inr v"
    and transformed: "applyDeterministicTransform ?d ?files = Inr (mg_files migration)"
    and hash: "package_hash env lc (mg_files migration) = the_str (fstr ?d ''expectedMigratedSpecHash'')"
    by (auto simp: applyMigrationDescriptor_def bindE_Inr_iff Let_def split: if_splits)
  have paths: "map pf_relativePath ?files = map pf_relativePath (ao_files options)"
    by (simp add: PackageFile.truncate_def)
  have "map PackageFile.truncate (ah_files a) = mg_files migration"
    unfolding files by (rule merge_gives_migrated) (use transform_keeps_paths [OF transformed] paths assms(3) in simp_all)
  with store verified_descriptor [OF v] versions transformed hash show ?thesis
    by (auto simp: rejectDescriptorMismatch_def denied_def split: if_splits)
qed

section \<open>Examples\<close>

definition hx_file :: "string \<Rightarrow> string \<Rightarrow> SourceFile" where
  "hx_file path raw = \<lparr>pf_relativePath = path, pf_raw = raw, sf_absolutePath = path\<rparr>"

definition hx_descriptor :: json where
  "hx_descriptor = JObj
     [(''migrationId'', JStr ''m1''),
      (''source'', JObj [(''contractId'', JStr ''harness''), (''version'', JStr ''0'')]),
      (''target'', JObj [(''contractId'', JStr ''harness''), (''version'', JStr ''1'')]),
      (''sourceSchemaVersion'', JStr ''specwright.harness.preview''), (''targetSchemaVersion'', JStr ''specwright.harness.v1''),
      (''migrationType'', JStr ''deterministic-text-transform''),
      (''transform'', JObj [(''operation'', JStr ''replace-manifest-schema-version''),
         (''from'', JStr ''specwright.harness.preview''), (''to'', JStr ''specwright.harness.v1'')]),
      (''dataLoss'', JStr ''none''), (''authorityChanges'', JArr []), (''redactionChanges'', JArr []),
      (''validation'', JObj [(''before'', JArr []), (''after'', JArr [])]), (''rollbackStrategy'', JStr ''keep''),
      (''replayFixtures'', JArr []), (''operatorApprovalRequired'', JBool False),
      (''expectedMigratedSpecHash'', JStr (''sha256:'' @ hx_digest [])),
      (''signature'', JObj [(''publisherId'', JStr ''acme''), (''signingKeyId'', JStr ''k1''), (''algorithm'', JStr ''ed25519''),
         (''signature'', JStr ''key'')])]"

definition hx_admit :: "string \<Rightarrow> admit_options" where
  "hx_admit schemaVersion =
     \<lparr>ao_rawManifest = JObj [(''id'', JStr ''p''), (''version'', JStr ''1''), (''schemaVersion'', JStr schemaVersion)],
      ao_files = [hx_file ''harness.yaml'' (''schemaVersion: '' @ schemaVersion)],
      ao_targetSchemaVersion = SUPPORTED_HARNESS_SCHEMA_VERSION, ao_runtimeVersion = DEFAULT_RUNTIME_VERSION,
      ao_matrix = DEFAULT_COMPATIBILITY_MATRIX, ao_migrationDescriptor = hx_descriptor,
      ao_migrationTrustStore = lo_trustStore hx_options, ao_migrationNow = NoTime\<rparr>"

definition hx_admitted :: "string \<Rightarrow> AdmittedHarnessCompatibility option" where
  "hx_admitted schemaVersion =
     (case admitHarnessCompatibility hx_trust_env hx_compare (hx_admit schemaVersion) of Inr a \<Rightarrow> Some a | Inl e \<Rightarrow> None)"

lemma hx_admissions:
  "map_option (ca_loaderBehavior \<circ> ah_admission) (hx_admitted ''specwright.harness.v1'') = Some Load"
  "map_option (\<lambda>a. (ca_loaderBehavior (ah_admission a), map pf_raw (ah_files a))) (hx_admitted ''specwright.harness.preview'') =
     Some (Migrate, [''schemaVersion: specwright.harness.v1''])"
  by code_simp+

theorem loaded_surface_is_not_wider_witness:
  "\<exists>a. admitHarnessCompatibility hx_trust_env hx_compare (hx_admit ''specwright.harness.v1'') = Inr a \<and>
     ah_files a = ao_files (hx_admit ''specwright.harness.v1'')"
proof -
  from hx_admissions(1) obtain a where a: "hx_admitted ''specwright.harness.v1'' = Some a"
    "ca_loaderBehavior (ah_admission a) = Load" by auto
  then have admit: "admitHarnessCompatibility hx_trust_env hx_compare (hx_admit ''specwright.harness.v1'') = Inr a"
    by (auto simp: hx_admitted_def split: sum.splits)
  with loaded_surface_is_not_wider [OF admit a(2)] show ?thesis by blast
qed

theorem migration_is_signed_witness:
  "\<exists>a store. admitHarnessCompatibility hx_trust_env hx_compare (hx_admit ''specwright.harness.preview'') = Inr a \<and>
     signed_by_active_key hx_trust_env store NoTime hx_descriptor (canonicalJson hx_compare (without_signature hx_descriptor))"
proof -
  from hx_admissions(2) obtain a where a: "hx_admitted ''specwright.harness.preview'' = Some a"
    "ca_loaderBehavior (ah_admission a) = Migrate" by auto
  then have admit: "admitHarnessCompatibility hx_trust_env hx_compare (hx_admit ''specwright.harness.preview'') = Inr a"
    by (auto simp: hx_admitted_def split: sum.splits)
  have "distinct (map pf_relativePath (ao_files (hx_admit ''specwright.harness.preview'')))" by (simp add: hx_admit_def)
  from migration_is_signed [OF admit a(2) this] admit show ?thesis by (auto simp: hx_admit_def)
qed

end
