(* ===== verification/Harness_Registry.thy ===== *)
theory Harness_Registry
  imports Harness_Snapshots
begin

text \<open>
  The registry of harness packages (\<^verbatim>\<open>harness-loader/src/registry.ts\<close>) and the lifecycle of a version
  (\<^verbatim>\<open>harness-loader/src/lifecycle.ts\<close>). The registry keeps staged candidates, lifecycle records, the
  promoted versions with their bytes, a snapshot cache and the dependents of each dependency. The loader
  is an argument of the registry, so a parameter here; the timestamps that the clock returns are
  arguments of the operations. \<^verbatim>\<open>await\<close> on the loader is the only point where another operation
  can run, so a promotion is modelled in three parts: before the loader, after it, and its commit.
\<close>

section \<open>Lifecycle\<close>

datatype RegistryLifecycleState = Candidate | Trusted | Deprecated | Quarantined | Revoked

definition PromotionApprovalSchema :: "(string \<Rightarrow> bool) \<Rightarrow> json \<Rightarrow> bool" where
  "PromotionApprovalSchema dt = z_strict
     [(''approvalId'', nonEmptyString), (''approvedBy'', nonEmptyString),
      (''approvedAt'', \<lambda>v. case v of JStr s \<Rightarrow> dt s | _ \<Rightarrow> False),
      (''decision'', \<lambda>v. v = JStr ''approved''), (''reviewRef'', z_optional nonEmptyString)]"

record DryRunValidationEvidence =
  dr_specHash :: string
  dr_validatedAt :: string

record LifecycleTransitionEvidence =
  le_dryRunValidation :: "DryRunValidationEvidence option"
  le_trust :: "TrustVerdict option"
  le_approval :: json
  le_reason :: "string option"

definition assertPromotionEvidence :: "(string \<Rightarrow> bool) \<Rightarrow> LifecycleTransitionEvidence \<Rightarrow> harness_error + unit" where
  "assertPromotionEvidence dt evidence =
     (if le_dryRunValidation evidence = None
      then Inl (HarnessLoaderError ''promotion_unapproved'' ''missing_dry_run_validation'')
      else if le_trust evidence = None
      then Inl (HarnessLoaderError ''promotion_unapproved'' ''missing_trust_verification'')
      else if \<not> PromotionApprovalSchema dt (le_approval evidence)
      then Inl (HarnessLoaderError ''promotion_unapproved'' ''missing_recorded_approval'')
      else Inr ())"

definition assertLifecycleTransition :: "(string \<Rightarrow> bool) \<Rightarrow> RegistryLifecycleState \<Rightarrow> RegistryLifecycleState \<Rightarrow>
  LifecycleTransitionEvidence \<Rightarrow> harness_error + unit" where
  "assertLifecycleTransition dt from to evidence =
     (let invalid = Inl (HarnessLoaderError ''invalid_lifecycle_transition'' ''transition_not_allowed'') in
      if from = to then Inr ()
      else if from = Revoked then invalid
      else if to = Quarantined \<or> to = Revoked then Inr ()
      else if from = Trusted \<and> to = Deprecated then Inr ()
      else if from = Candidate \<and> to = Trusted then assertPromotionEvidence dt evidence
      else invalid)"

section \<open>Data\<close>

record RegistryPackageKey =
  rk_packageId :: string
  rk_version :: string

definition registryKey :: "'a RegistryPackageKey_scheme \<Rightarrow> string" where
  "registryKey input = rk_packageId input @ ''@'' @ rk_version input"

record candidate =
  cd_packageDir :: string
  cd_stagedAt :: string

record RegistryLifecycleRecord = RegistryPackageKey +
  rl_state :: RegistryLifecycleState
  rl_specHash :: "string option"
  rl_previousState :: "RegistryLifecycleState option"
  rl_reason :: "string option"
  rl_updatedAt :: string

record RegistryPromotedVersion = RegistryPackageKey +
  rp_specHash :: string
  rp_promotedAt :: string
  rp_packageDir :: string
  rp_snapshot :: json
  rp_files :: "PackageFile list"
  rp_dependencies :: "ResolvedDependency list"
  rp_loadOptions :: "LoadHarnessPackageOptions option"
  rp_limits :: json

record PromoteInput = RegistryPackageKey +
  pi_approval :: json
  pi_packageDir :: "string option"
  pi_loadOptions :: "LoadHarnessPackageOptions option"
  pi_limits :: json

record PreparedPromotion =
  pp_key :: RegistryPackageKey
  pp_record :: HarnessLoadRecord
  pp_approval :: json
  pp_dryRunValidation :: DryRunValidationEvidence
  pp_packageDir :: string
  pp_loadOptions :: "LoadHarnessPackageOptions option"
  pp_limits :: json

text \<open>What the loader is called on: a directory, or the retained bytes in a temporary one.\<close>

datatype package_source = Directory string | RetainedBytes "PackageFile list"

record HarnessRegistryLoaderInput =
  li_source :: package_source
  li_options :: LoadHarnessPackageOptions
  li_limits :: json

type_synonym HarnessRegistryLoader = "HarnessRegistryLoaderInput \<Rightarrow> harness_error + HarnessLoadRecord"

record InMemoryRegistryStore =
  is_candidates :: "string \<rightharpoonup> candidate"
  is_lifecycle :: "string \<rightharpoonup> RegistryLifecycleRecord"
  is_promoted :: "(string \<times> RegistryPromotedVersion) list"
  is_bySpecHash :: "string \<rightharpoonup> RegistryPromotedVersion"

record HarnessRegistry =
  hr_store :: InMemoryRegistryStore
  hr_cache :: SnapshotCache
  hr_dependents :: "string \<rightharpoonup> string list"

section \<open>The store\<close>

definition putCandidate :: "'a RegistryPackageKey_scheme \<Rightarrow> candidate \<Rightarrow> InMemoryRegistryStore \<Rightarrow> InMemoryRegistryStore" where
  "putCandidate input c store = store\<lparr>is_candidates := (is_candidates store)(registryKey input \<mapsto> c)\<rparr>"

definition getCandidate :: "InMemoryRegistryStore \<Rightarrow> 'a RegistryPackageKey_scheme \<Rightarrow> candidate option" where
  "getCandidate store input = is_candidates store (registryKey input)"

definition putLifecycle :: "RegistryLifecycleRecord \<Rightarrow> InMemoryRegistryStore \<Rightarrow> InMemoryRegistryStore" where
  "putLifecycle r store = store\<lparr>is_lifecycle := (is_lifecycle store)(registryKey r \<mapsto> r)\<rparr>"

definition getLifecycle :: "InMemoryRegistryStore \<Rightarrow> 'a RegistryPackageKey_scheme \<Rightarrow> RegistryLifecycleRecord option" where
  "getLifecycle store input = is_lifecycle store (registryKey input)"

definition putPromotedVersion :: "RegistryPromotedVersion \<Rightarrow> InMemoryRegistryStore \<Rightarrow> InMemoryRegistryStore" where
  "putPromotedVersion r store =
     store\<lparr>is_promoted := map_set (registryKey r) r (is_promoted store),
           is_bySpecHash := (is_bySpecHash store)(rp_specHash r \<mapsto> r)\<rparr>"

definition getPromotedVersion :: "InMemoryRegistryStore \<Rightarrow> 'a RegistryPackageKey_scheme \<Rightarrow> RegistryPromotedVersion option" where
  "getPromotedVersion store input = map_of (is_promoted store) (registryKey input)"

definition findPromotedBySpecHash :: "InMemoryRegistryStore \<Rightarrow> string \<Rightarrow> RegistryPromotedVersion option" where
  "findPromotedBySpecHash store specHash = is_bySpecHash store specHash"

definition listPromoted :: "locale_compare \<Rightarrow> InMemoryRegistryStore \<Rightarrow> string \<Rightarrow> RegistryPromotedVersion list" where
  "listPromoted lc store packageId =
     js_sort (\<lambda>left right. lc (rp_promotedAt left) (rp_promotedAt right))
       (filter (\<lambda>r. rk_packageId r = packageId) (map snd (is_promoted store)))"

definition listAllPromoted :: "locale_compare \<Rightarrow> InMemoryRegistryStore \<Rightarrow> RegistryPromotedVersion list" where
  "listAllPromoted lc store =
     js_sort (\<lambda>left right. js_or (lc (rk_packageId left) (rk_packageId right))
         (js_or (lc (rk_version left) (rk_version right)) (lc (rp_promotedAt left) (rp_promotedAt right))))
       (map snd (is_promoted store))"

section \<open>Operations\<close>

definition DEFAULT_HARNESS_LOADER_LIMITS :: json where
  "DEFAULT_HARNESS_LOADER_LIMITS = JObj
     [(''limitsVersion'', JStr ''harness-loader-limits.v1''), (''maxPackageBytes'', JNum 2000000),
      (''maxFileCount'', JNum 1000), (''maxDefinitionsPerKind'', JNum 1000), (''maxPhaseGraphNodes'', JNum 1000),
      (''maxPhaseGraphEdges'', JNum 5000), (''maxArtifactSchemaBytes'', JNum 500000),
      (''maxArtifactSchemaDepth'', JNum 64), (''maxDependencyDepth'', JNum 16), (''maxDependencyFanout'', JNum 64),
      (''cacheMaxEntries'', JNum 256), (''cacheTtlMs'', JNum (60 * 60 * 1000))]"

definition no_options :: LoadHarnessPackageOptions where
  "no_options = \<lparr>lo_signature = JUndefined, lo_trustStore = None, lo_strict = None, lo_trustNow = NoTime,
     lo_dependencyResolver = None\<rparr>"

definition stageCandidate :: "HarnessRegistry \<Rightarrow> RegistryPackageKey \<Rightarrow> string \<Rightarrow> string \<Rightarrow>
  (harness_error + RegistryLifecycleRecord option) \<times> HarnessRegistry" where
  "stageCandidate reg input packageDir stagedAt =
     (let existing = getLifecycle (hr_store reg) input in
      if map_option rl_state existing = Some Revoked
      then (Inl (HarnessLoaderError ''invalid_lifecycle_transition'' ''revoked_is_terminal''), reg)
      else
        let staged = putCandidate input \<lparr>cd_packageDir = packageDir, cd_stagedAt = stagedAt\<rparr> (hr_store reg);
            store = (if existing = None \<or> map_option rl_state existing = Some Candidate
              then putLifecycle
                \<lparr>rk_packageId = rk_packageId input, rk_version = rk_version input, rl_state = Candidate, rl_specHash = None,
                 rl_previousState = None, rl_reason = None, rl_updatedAt = stagedAt\<rparr> staged
              else staged) in
        (Inr (getLifecycle store input), reg\<lparr>hr_store := store\<rparr>))"

text \<open>A promotion up to the call of the loader: the staged directory, the state read, and the call.\<close>

record pending_promotion =
  pe_packageDir :: string
  pe_approval :: json
  pe_from :: RegistryLifecycleState
  pe_call :: HarnessRegistryLoaderInput

definition prepare_begin :: "HarnessRegistry \<Rightarrow> PromoteInput \<Rightarrow> harness_error + pending_promotion" where
  "prepare_begin reg input =
     (case getCandidate (hr_store reg) input of
        None \<Rightarrow> Inl (HarnessLoaderError ''version_not_resolvable'' ''candidate_not_staged'')
      | Some staged \<Rightarrow>
          if pi_packageDir input \<noteq> None \<and> pi_packageDir input \<noteq> Some (cd_packageDir staged)
          then Inl (HarnessLoaderError ''invalid_lifecycle_transition'' ''staged_package_dir_mismatch'')
          else if pi_approval input = JUndefined
          then Inl (HarnessLoaderError ''promotion_unapproved'' ''missing_recorded_approval'')
          else case pi_loadOptions input of
            None \<Rightarrow> Inl (HarnessLoaderError ''promotion_unapproved'' ''missing_trust_verification'')
          | Some options \<Rightarrow>
              if lo_signature options = JUndefined \<or> lo_trustStore options = None
              then Inl (HarnessLoaderError ''promotion_unapproved'' ''missing_trust_verification'')
              else Inr
                \<lparr>pe_packageDir = cd_packageDir staged, pe_approval = pi_approval input,
                 pe_from = (case getLifecycle (hr_store reg) input of None \<Rightarrow> Candidate | Some l \<Rightarrow> rl_state l),
                 pe_call = \<lparr>li_source = Directory (cd_packageDir staged),
                   li_options = options\<lparr>lo_strict := Some (default (lo_strict options) True)\<rparr>,
                   li_limits = (if pi_limits input = JUndefined then DEFAULT_HARNESS_LOADER_LIMITS else pi_limits input)\<rparr>\<rparr>)"

text \<open>The rest of the preparation, with the record that the loader returned.\<close>

definition prepare_end :: "(string \<Rightarrow> bool) \<Rightarrow> HarnessRegistry \<Rightarrow> PromoteInput \<Rightarrow> pending_promotion \<Rightarrow>
  HarnessLoadRecord \<Rightarrow> string \<Rightarrow> harness_error + PreparedPromotion" where
  "prepare_end dt reg input pending loaded now =
     (let specHash = snapshot_field ''specHash'' (hl_snapshot loaded);
          dryRunValidation = \<lparr>dr_specHash = specHash, dr_validatedAt = now\<rparr> in
      if snapshot_field ''id'' (hl_snapshot loaded) \<noteq> rk_packageId input \<or>
         snapshot_field ''version'' (hl_snapshot loaded) \<noteq> rk_version input
      then Inl (HarnessLoaderError ''invalid_lifecycle_transition'' ''package_identity_mismatch'')
      else if (case getPromotedVersion (hr_store reg) input of None \<Rightarrow> False
               | Some existingPromoted \<Rightarrow> rp_specHash existingPromoted \<noteq> specHash)
      then Inl (HarnessLoaderError ''version_immutable'' ''promoted_bytes_changed'')
      else bindE (assertLifecycleTransition dt (pe_from pending) Trusted
             \<lparr>le_dryRunValidation = Some dryRunValidation, le_trust = hl_trust loaded, le_approval = pe_approval pending,
              le_reason = None\<rparr>) (\<lambda>_.
        Inr \<lparr>pp_key = RegistryPackageKey.truncate input, pp_record = loaded, pp_approval = pe_approval pending,
             pp_dryRunValidation = dryRunValidation, pp_packageDir = pe_packageDir pending,
             pp_loadOptions = pi_loadOptions input, pp_limits = pi_limits input\<rparr>))"

definition preparePromotion :: "(string \<Rightarrow> bool) \<Rightarrow> HarnessRegistryLoader \<Rightarrow> HarnessRegistry \<Rightarrow> PromoteInput \<Rightarrow> string \<Rightarrow>
  harness_error + PreparedPromotion" where
  "preparePromotion dt loader reg input now =
     bindE (prepare_begin reg input) (\<lambda>pending.
     bindE (loader (pe_call pending)) (\<lambda>loaded.
       prepare_end dt reg input pending loaded now))"

definition promoted_version :: "PreparedPromotion \<Rightarrow> string \<Rightarrow> RegistryPromotedVersion" where
  "promoted_version prepared promotedAt =
     (let loaded = pp_record prepared in
      \<lparr>rk_packageId = rk_packageId (pp_key prepared), rk_version = rk_version (pp_key prepared),
       rp_specHash = snapshot_field ''specHash'' (hl_snapshot loaded), rp_promotedAt = promotedAt,
       rp_packageDir = pp_packageDir prepared, rp_snapshot = hl_snapshot loaded,
       rp_files = map PackageFile.truncate (hl_loadedFiles loaded), rp_dependencies = dn_resolved (hl_dependencies loaded),
       rp_loadOptions = pp_loadOptions prepared, rp_limits = pp_limits prepared\<rparr>)"

text \<open>\<^verbatim>\<open>Set.prototype.add\<close>.\<close>

definition set_add :: "string \<Rightarrow> string list \<Rightarrow> string list" where
  "set_add x xs = (if x \<in> set xs then xs else xs @ [x])"

definition trackDependencyDependents :: "RegistryPromotedVersion \<Rightarrow> (string \<rightharpoonup> string list) \<Rightarrow> (string \<rightharpoonup> string list)" where
  "trackDependencyDependents r dependents =
     fold (\<lambda>dependency m. m(rd_name dependency \<mapsto> set_add (rp_specHash r) (default (m (rd_name dependency)) [])))
       (rp_dependencies r) dependents"

text \<open>The store is updated before the cache; an entry that does not verify ends the commit there.\<close>

definition commitPromotion :: "compute_spec_hash \<Rightarrow> HarnessRegistry \<Rightarrow> PreparedPromotion \<Rightarrow> string \<Rightarrow> int \<Rightarrow>
  (harness_error + unit) \<times> HarnessRegistry" where
  "commitPromotion ch reg prepared promotedAt timestamp =
     (let r = promoted_version prepared promotedAt;
          promoted = putPromotedVersion r (hr_store reg);
          store = putLifecycle
            \<lparr>rk_packageId = rk_packageId (pp_key prepared), rk_version = rk_version (pp_key prepared), rl_state = Trusted,
             rl_specHash = Some (rp_specHash r),
             rl_previousState = map_option rl_state (getLifecycle promoted (pp_key prepared)), rl_reason = None,
             rl_updatedAt = promotedAt\<rparr> promoted in
      case cache_put ch (hr_cache reg) timestamp (pp_record prepared) of
        (Inl e, cache) \<Rightarrow> (Inl e, reg\<lparr>hr_store := store, hr_cache := cache\<rparr>)
      | (Inr u, cache) \<Rightarrow>
          (Inr (), reg\<lparr>hr_store := store, hr_cache := cache,
                       hr_dependents := trackDependencyDependents r (hr_dependents reg)\<rparr>))"

definition promote :: "(string \<Rightarrow> bool) \<Rightarrow> compute_spec_hash \<Rightarrow> HarnessRegistryLoader \<Rightarrow> HarnessRegistry \<Rightarrow> PromoteInput \<Rightarrow>
  string \<Rightarrow> string \<Rightarrow> int \<Rightarrow> (harness_error + RegistryPromotedVersion option) \<times> HarnessRegistry" where
  "promote dt ch loader reg input validatedAt promotedAt timestamp =
     (case preparePromotion dt loader reg input validatedAt of
        Inl e \<Rightarrow> (Inl e, reg)
      | Inr prepared \<Rightarrow>
          (case commitPromotion ch reg prepared promotedAt timestamp of
             (Inl e, reg') \<Rightarrow> (Inl e, reg')
           | (Inr u, reg') \<Rightarrow> (Inr (getPromotedVersion (hr_store reg') (pp_key prepared)), reg')))"

text \<open>A batch: every promotion is prepared before the first is committed. The clock is read once for each.\<close>

fun commit_all :: "compute_spec_hash \<Rightarrow> HarnessRegistry \<Rightarrow> (PreparedPromotion \<times> string \<times> int) list \<Rightarrow>
  (harness_error + unit) \<times> HarnessRegistry" where
  "commit_all ch reg [] = (Inr (), reg)"
| "commit_all ch reg ((prepared, promotedAt, timestamp) # rest) =
     (case commitPromotion ch reg prepared promotedAt timestamp of
        (Inl e, reg') \<Rightarrow> (Inl e, reg')
      | (Inr u, reg') \<Rightarrow> commit_all ch reg' rest)"

definition promoteBatch :: "(string \<Rightarrow> bool) \<Rightarrow> compute_spec_hash \<Rightarrow> HarnessRegistryLoader \<Rightarrow> HarnessRegistry \<Rightarrow>
  PromoteInput list \<Rightarrow> (nat \<Rightarrow> string) \<Rightarrow> (nat \<Rightarrow> string \<times> int) \<Rightarrow>
  (harness_error + RegistryPromotedVersion option list) \<times> HarnessRegistry" where
  "promoteBatch dt ch loader reg inputs validatedAt clock =
     (case mapE (\<lambda>(i, input). preparePromotion dt loader reg input (validatedAt i)) (enumerate 0 inputs) of
        Inl e \<Rightarrow> (Inl e, reg)
      | Inr prepared \<Rightarrow>
          (case commit_all ch reg (zip prepared (map clock [0..<length prepared])) of
             (Inl e, reg') \<Rightarrow> (Inl e, reg')
           | (Inr u, reg') \<Rightarrow>
               (Inr (map (\<lambda>promotion. getPromotedVersion (hr_store reg') (pp_key promotion)) prepared), reg')))"

definition transition :: "(string \<Rightarrow> bool) \<Rightarrow> HarnessRegistry \<Rightarrow> RegistryPackageKey \<Rightarrow> string option \<Rightarrow>
  RegistryLifecycleState \<Rightarrow> string \<Rightarrow> harness_error + RegistryLifecycleRecord \<times> HarnessRegistry" where
  "transition dt reg input reason to now =
     (case getLifecycle (hr_store reg) input of
        None \<Rightarrow> Inl (HarnessLoaderError ''version_not_resolvable'' ''lifecycle_record_missing'')
      | Some current \<Rightarrow>
          bindE (assertLifecycleTransition dt (rl_state current) to
            \<lparr>le_dryRunValidation = None, le_trust = None, le_approval = JUndefined, le_reason = reason\<rparr>) (\<lambda>_.
            let next_record = \<lparr>rk_packageId = rk_packageId input, rk_version = rk_version input, rl_state = to,
                  rl_specHash = rl_specHash current, rl_previousState = Some (rl_state current), rl_reason = reason,
                  rl_updatedAt = now\<rparr> in
            Inr (next_record, reg\<lparr>hr_store := putLifecycle next_record (hr_store reg)\<rparr>)))"

definition deprecate :: "(string \<Rightarrow> bool) \<Rightarrow> HarnessRegistry \<Rightarrow> RegistryPackageKey \<Rightarrow> string option \<Rightarrow> string \<Rightarrow>
  harness_error + RegistryLifecycleRecord \<times> HarnessRegistry" where
  "deprecate dt reg input reason now = transition dt reg input reason Deprecated now"

definition drop_cached :: "RegistryLifecycleRecord \<Rightarrow> HarnessRegistry \<Rightarrow> HarnessRegistry" where
  "drop_cached r reg =
     (case rl_specHash r of None \<Rightarrow> reg | Some specHash \<Rightarrow> reg\<lparr>hr_cache := cache_delete (hr_cache reg) specHash\<rparr>)"

definition quarantine :: "(string \<Rightarrow> bool) \<Rightarrow> HarnessRegistry \<Rightarrow> RegistryPackageKey \<Rightarrow> string option \<Rightarrow> string \<Rightarrow>
  harness_error + RegistryLifecycleRecord \<times> HarnessRegistry" where
  "quarantine dt reg input reason now =
     bindE (transition dt reg input reason Quarantined now) (\<lambda>(r, reg'). Inr (r, drop_cached r reg'))"

definition dependent_hashes :: "locale_compare \<Rightarrow> HarnessRegistry \<Rightarrow> string \<Rightarrow> string list" where
  "dependent_hashes lc reg packageId =
     fold (\<lambda>promoted hs. if list_ex (\<lambda>dependency. rd_name dependency = packageId) (rp_dependencies promoted)
             then set_add (rp_specHash promoted) hs else hs)
       (listAllPromoted lc (hr_store reg)) (default (hr_dependents reg packageId) [])"

definition purgeDependentCacheEntries :: "locale_compare \<Rightarrow> string \<Rightarrow> HarnessRegistry \<Rightarrow> HarnessRegistry" where
  "purgeDependentCacheEntries lc packageId reg =
     reg\<lparr>hr_cache := fold (\<lambda>h c. cache_delete c h) (dependent_hashes lc reg packageId) (hr_cache reg)\<rparr>"

definition revoke :: "(string \<Rightarrow> bool) \<Rightarrow> locale_compare \<Rightarrow> HarnessRegistry \<Rightarrow> RegistryPackageKey \<Rightarrow> string option \<Rightarrow> string \<Rightarrow>
  harness_error + RegistryLifecycleRecord \<times> HarnessRegistry" where
  "revoke dt lc reg input reason now =
     bindE (transition dt reg input reason Revoked now) (\<lambda>(r, reg').
       Inr (r, purgeDependentCacheEntries lc (rk_packageId input) (drop_cached r reg')))"

text \<open>
  The clock of the cache is read for the first lookup, when the entry is stored and for the second
  lookup. Writing the retained bytes to a temporary directory and removing it are left out.
\<close>

record cache_times =
  ct_now :: int
  ct_accessed :: int
  ct_stored :: int
  ct_again :: int
  ct_accessed_again :: int

definition resolveSnapshot :: "compute_spec_hash \<Rightarrow> HarnessRegistryLoader \<Rightarrow> HarnessRegistry \<Rightarrow> string \<Rightarrow> cache_times \<Rightarrow>
  (harness_error + json) \<times> HarnessRegistry" where
  "resolveSnapshot ch loader reg specHash t =
     (let fail = (\<lambda>reason reg. (Inl (HarnessLoaderError ''version_not_resolvable'' reason), reg)) in
      case cache_get ch (hr_cache reg) (ct_now t) (ct_accessed t) specHash of
        (Inl e, cache) \<Rightarrow> (Inl e, reg\<lparr>hr_cache := cache\<rparr>)
      | (Inr (Some cached), cache) \<Rightarrow> (Inr cached, reg\<lparr>hr_cache := cache\<rparr>)
      | (Inr None, cache) \<Rightarrow>
          (let reg1 = reg\<lparr>hr_cache := cache\<rparr> in
           case findPromotedBySpecHash (hr_store reg1) specHash of
             None \<Rightarrow> fail ''spec_hash_not_found'' reg1
           | Some retained \<Rightarrow>
               (case loader \<lparr>li_source = RetainedBytes (rp_files retained),
                    li_options = default (rp_loadOptions retained) no_options,
                    li_limits = (if rp_limits retained = JUndefined then DEFAULT_HARNESS_LOADER_LIMITS
                                 else rp_limits retained)\<rparr> of
                  Inl e \<Rightarrow> (Inl e, reg1)
                | Inr loaded \<Rightarrow>
                    if snapshot_field ''specHash'' (hl_snapshot loaded) \<noteq> specHash
                    then fail ''retained_bytes_hash_mismatch'' reg1
                    else
                      (case cache_put ch cache (ct_stored t) loaded of
                         (Inl e, cache2) \<Rightarrow> (Inl e, reg1\<lparr>hr_cache := cache2\<rparr>)
                       | (Inr u, cache2) \<Rightarrow>
                           (case cache_get ch cache2 (ct_again t) (ct_accessed_again t) specHash of
                              (Inl e, cache3) \<Rightarrow> (Inl e, reg1\<lparr>hr_cache := cache3\<rparr>)
                            | (Inr None, cache3) \<Rightarrow> fail ''cache_restore_failed'' (reg1\<lparr>hr_cache := cache3\<rparr>)
                            | (Inr (Some verified), cache3) \<Rightarrow> (Inr verified, reg1\<lparr>hr_cache := cache3\<rparr>))))))"

definition trusted_versions :: "locale_compare \<Rightarrow> HarnessRegistry \<Rightarrow> string \<Rightarrow> RegistryPromotedVersion list" where
  "trusted_versions lc reg packageId =
     filter (\<lambda>r. map_option rl_state (getLifecycle (hr_store reg) r) = Some Trusted) (listPromoted lc (hr_store reg) packageId)"

definition resolveCurrentTrusted :: "locale_compare \<Rightarrow> compute_spec_hash \<Rightarrow> HarnessRegistryLoader \<Rightarrow> HarnessRegistry \<Rightarrow>
  string \<Rightarrow> cache_times \<Rightarrow> (harness_error + json) \<times> HarnessRegistry" where
  "resolveCurrentTrusted lc ch loader reg packageId t =
     (case trusted_versions lc reg packageId of
        [] \<Rightarrow> (Inl (HarnessLoaderError ''version_not_resolvable'' ''no_trusted_version''), reg)
      | r # rs \<Rightarrow> resolveSnapshot ch loader reg (rp_specHash (last (r # rs))) t)"

end
