(* ===== verification/Harness_Registry_Safety.thy ===== *)
theory Harness_Registry_Safety
  imports Harness_Registry
begin

text \<open>
  What the registry of harness packages guarantees. The invariant ties the lifecycle records, the promoted
  versions with their retained bytes and the cache together, and holds after every sequence of operations
  that do not overlap, for a loader that returns the hash of what it loaded. The lifecycle of a version
  only advances: once deprecated, quarantined or revoked it is never trusted again. A batch of promotions
  is all or nothing, and the current version of a package is one that is trusted now. Two results show
  where overlapping operations and batches break this: a revocation during a promotion is lost, and a
  batch may promote two different packages under one version.
\<close>

section \<open>The lifecycle of a version\<close>

text \<open>The steps that the states of one version take; \<open>None\<close> is a version that was never staged.\<close>

definition allowed :: "RegistryLifecycleState option \<Rightarrow> RegistryLifecycleState option \<Rightarrow> bool" where
  "allowed s s' \<longleftrightarrow> s = s' \<or> s = None \<and> s' = Some Candidate \<or>
     s = Some Candidate \<and> s' = Some Trusted \<or> s = Some Trusted \<and> s' = Some Deprecated \<or>
     s \<noteq> None \<and> s \<noteq> Some Revoked \<and> (s' = Some Quarantined \<or> s' = Some Revoked)"

fun stage_of :: "RegistryLifecycleState option \<Rightarrow> nat" where
  "stage_of None = 0"
| "stage_of (Some Candidate) = 1"
| "stage_of (Some Trusted) = 2"
| "stage_of (Some Deprecated) = 3"
| "stage_of (Some Quarantined) = 4"
| "stage_of (Some Revoked) = 5"

text \<open>Only a quarantine of a quarantined version keeps the stage; nothing lowers it.\<close>

lemma allowed_advances: "allowed s s' \<Longrightarrow> stage_of s \<le> stage_of s'"
  by (cases s rule: stage_of.cases; cases s' rule: stage_of.cases) (auto simp: allowed_def)

locale lifecycle_system =
  fixes valid :: "'op \<Rightarrow> bool"
    and step :: "'op \<Rightarrow> 'r \<Rightarrow> 'r"
    and inv :: "'r \<Rightarrow> bool"
    and state_of :: "'r \<Rightarrow> 'k \<Rightarrow> RegistryLifecycleState option"
  assumes inv_step: "inv r \<Longrightarrow> valid op \<Longrightarrow> inv (step op r)"
    and step_allowed: "inv r \<Longrightarrow> valid op \<Longrightarrow> allowed (state_of r k) (state_of (step op r) k)"
begin

lemma inv_run: "inv r \<Longrightarrow> list_all valid ops \<Longrightarrow> inv (fold step ops r)"
  by (induction ops arbitrary: r) (auto simp: inv_step)

lemma run_advances:
  "inv r \<Longrightarrow> list_all valid ops \<Longrightarrow> stage_of (state_of r k) \<le> stage_of (state_of (fold step ops r) k)"
proof (induction ops arbitrary: r)
  case (Cons op ops)
  then have op: "valid op" and ops: "list_all valid ops" by simp_all
  have "stage_of (state_of r k) \<le> stage_of (state_of (step op r) k)"
    by (rule allowed_advances [OF step_allowed [OF Cons.prems(1) op]])
  also have "\<dots> \<le> stage_of (state_of (fold step ops (step op r)) k)"
    by (rule Cons.IH [OF inv_step [OF Cons.prems(1) op] ops])
  finally show ?case by simp
qed simp

lemma withdrawn_is_never_trusted:
  assumes "inv r" "list_all valid ops" "state_of r k \<in> Some ` {Deprecated, Quarantined, Revoked}"
  shows "state_of (fold step ops r) k \<notin> {None, Some Candidate, Some Trusted}"
  using run_advances [OF assms(1,2), of k] assms(3)
  by (cases "state_of (fold step ops r) k" rule: stage_of.cases) auto

lemma revoked_is_terminal:
  "inv r \<Longrightarrow> list_all valid ops \<Longrightarrow> state_of r k = Some Revoked \<Longrightarrow> state_of (fold step ops r) k = Some Revoked"
  using run_advances [of r ops k] by (cases "state_of (fold step ops r) k" rule: stage_of.cases) auto

end

lemma transition_allowed:
  assumes "assertLifecycleTransition dt s t evidence = Inr u"
  shows "allowed (Some s) (Some t)"
  using assms by (cases s; cases t) (simp_all add: assertLifecycleTransition_def allowed_def)

lemma promotion_evidence:
  assumes "assertLifecycleTransition dt s Trusted evidence = Inr u"
  shows "s = Trusted \<or> s = Candidate \<and> le_trust evidence \<noteq> None \<and> PromotionApprovalSchema dt (le_approval evidence)"
  using assms by (cases s) (auto simp: assertLifecycleTransition_def assertPromotionEvidence_def split: if_splits)

section \<open>The store\<close>

text \<open>The retained bytes of a version hash to its hash, which its snapshot names too.\<close>

definition version_ok :: "compute_spec_hash \<Rightarrow> RegistryPromotedVersion \<Rightarrow> bool" where
  "version_ok ch r \<longleftrightarrow> ch (rp_files r) (rp_dependencies r) = Inr (rp_specHash r) \<and>
     snapshot_field ''specHash'' (rp_snapshot r) = rp_specHash r \<and>
     snapshot_field ''id'' (rp_snapshot r) = rk_packageId r \<and> snapshot_field ''version'' (rp_snapshot r) = rk_version r"

definition lifecycle_ok :: "InMemoryRegistryStore \<Rightarrow> string \<Rightarrow> RegistryLifecycleRecord \<Rightarrow> bool" where
  "lifecycle_ok store k l \<longleftrightarrow> registryKey l = k \<and>
     (\<forall>h. rl_specHash l = Some h \<longrightarrow> (\<exists>r. map_of (is_promoted store) k = Some r \<and> rp_specHash r = h)) \<and>
     (rl_state l = Trusted \<or> rl_state l = Deprecated \<longrightarrow> rl_specHash l \<noteq> None)"

definition store_ok :: "compute_spec_hash \<Rightarrow> InMemoryRegistryStore \<Rightarrow> bool" where
  "store_ok ch store \<longleftrightarrow>
     distinct (map fst (is_promoted store)) \<and>
     (\<forall>(k, r) \<in> set (is_promoted store). registryKey r = k \<and> version_ok ch r \<and> is_bySpecHash store (rp_specHash r) \<noteq> None) \<and>
     (\<forall>h r. is_bySpecHash store h = Some r \<longrightarrow> rp_specHash r = h \<and> version_ok ch r) \<and>
     (\<forall>k l. is_lifecycle store k = Some l \<longrightarrow> lifecycle_ok store k l) \<and>
     (\<forall>k. is_candidates store k \<noteq> None \<longrightarrow> is_lifecycle store k \<noteq> None)"

lemma store_ok_candidate:
  assumes "store_ok ch store" "is_lifecycle store (registryKey input) \<noteq> None"
  shows "store_ok ch (putCandidate input c store)"
  using assms by (auto simp: store_ok_def putCandidate_def lifecycle_ok_def)

lemma store_ok_lifecycle:
  assumes "store_ok ch store" "lifecycle_ok store (registryKey l) l"
  shows "store_ok ch (putLifecycle l store)"
  using assms by (auto simp: store_ok_def putLifecycle_def lifecycle_ok_def)

lemma promoted_entry:
  assumes "store_ok ch store" "map_of (is_promoted store) k = Some r"
  shows "registryKey r = k" "version_ok ch r" "is_bySpecHash store (rp_specHash r) \<noteq> None"
  using assms by (auto simp: store_ok_def dest!: map_of_SomeD)

text \<open>A version is put in together with the lifecycle record that names its hash.\<close>

lemma store_ok_promoted:
  assumes "store_ok ch store" "version_ok ch r" "registryKey l = registryKey r" "rl_specHash l = Some (rp_specHash r)"
  shows "store_ok ch (putLifecycle l (putPromotedVersion r store))"
proof -
  let ?s = "putLifecycle l (putPromotedVersion r store)"
  have promoted: "is_promoted ?s = map_set (registryKey r) r (is_promoted store)"
    and hashes: "is_bySpecHash ?s = (is_bySpecHash store)(rp_specHash r \<mapsto> r)"
    and states: "is_lifecycle ?s = (is_lifecycle store)(registryKey r \<mapsto> l)"
    and candidates: "is_candidates ?s = is_candidates store"
    using assms(3) by (simp_all add: putLifecycle_def putPromotedVersion_def)
  have "distinct (map fst (is_promoted ?s))"
    using assms(1) by (simp add: promoted distinct_map_set store_ok_def)
  moreover have "\<forall>(k, x) \<in> set (is_promoted ?s). registryKey x = k \<and> version_ok ch x \<and> is_bySpecHash ?s (rp_specHash x) \<noteq> None"
    using assms(1,2) set_map_set [of "registryKey r" r "is_promoted store"] by (auto simp: promoted hashes store_ok_def)
  moreover have "\<forall>h x. is_bySpecHash ?s h = Some x \<longrightarrow> rp_specHash x = h \<and> version_ok ch x"
    using assms(1,2) by (auto simp: hashes store_ok_def)
  moreover have "lifecycle_ok ?s k x" if "is_lifecycle ?s k = Some x" for k x
  proof (cases "k = registryKey r")
    case True
    with that have "x = l" by (simp add: states)
    then show ?thesis unfolding lifecycle_ok_def promoted using True assms(3,4) by (simp add: map_of_map_set)
  next
    case False
    with that have "is_lifecycle store k = Some x" by (simp add: states)
    with assms(1) have "lifecycle_ok store k x" by (simp add: store_ok_def)
    with False show ?thesis unfolding lifecycle_ok_def promoted by (simp add: map_of_map_set)
  qed
  moreover have "\<forall>k. is_candidates ?s k \<noteq> None \<longrightarrow> is_lifecycle ?s k \<noteq> None"
    using assms(1) by (auto simp: candidates states store_ok_def)
  ultimately show ?thesis unfolding store_ok_def by blast
qed

section \<open>The registry\<close>

definition registry_ok :: "compute_spec_hash \<Rightarrow> HarnessRegistry \<Rightarrow> bool" where
  "registry_ok ch reg \<longleftrightarrow> store_ok ch (hr_store reg) \<and> cache_ok ch (hr_cache reg)"

text \<open>
  What the loader promises (\<^verbatim>\<open>loadHarnessPackageWithRecord\<close> computes the hash of the files and
  dependencies that it returns): the snapshot names the hash of the loaded bytes.
\<close>

definition faithful_loader :: "compute_spec_hash \<Rightarrow> HarnessRegistryLoader \<Rightarrow> bool" where
  "faithful_loader ch loader \<longleftrightarrow> (\<forall>call loaded. loader call = Inr loaded \<longrightarrow>
     ch (map PackageFile.truncate (hl_loadedFiles loaded)) (dn_resolved (hl_dependencies loaded)) =
       Inr (snapshot_field ''specHash'' (hl_snapshot loaded)))"

definition prepared_ok :: "compute_spec_hash \<Rightarrow> PreparedPromotion \<Rightarrow> bool" where
  "prepared_ok ch p \<longleftrightarrow> version_ok ch (promoted_version p [])"

lemma version_ok_time: "version_ok ch (promoted_version p t) = prepared_ok ch p"
  by (simp add: prepared_ok_def version_ok_def promoted_version_def Let_def)

lemma promoted_version_simps [simp]:
  "registryKey (promoted_version p t) = registryKey (pp_key p)"
  "rp_specHash (promoted_version p t) = snapshot_field ''specHash'' (hl_snapshot (pp_record p))"
  "rk_packageId (promoted_version p t) = rk_packageId (pp_key p)"
  by (simp_all add: promoted_version_def registryKey_def Let_def)

lemma registryKey_truncate [simp]: "registryKey (RegistryPackageKey.truncate x) = registryKey x"
  by (simp add: registryKey_def RegistryPackageKey.defs)

text \<open>The record that a commit writes.\<close>

definition trusted_record :: "HarnessRegistry \<Rightarrow> PreparedPromotion \<Rightarrow> string \<Rightarrow> RegistryLifecycleRecord" where
  "trusted_record reg p t =
     \<lparr>rk_packageId = rk_packageId (pp_key p), rk_version = rk_version (pp_key p), rl_state = Trusted,
      rl_specHash = Some (rp_specHash (promoted_version p t)),
      rl_previousState = map_option rl_state (getLifecycle (putPromotedVersion (promoted_version p t) (hr_store reg)) (pp_key p)),
      rl_reason = None, rl_updatedAt = t\<rparr>"

lemma trusted_record_simps [simp]:
  "registryKey (trusted_record reg p t) = registryKey (pp_key p)" "rl_state (trusted_record reg p t) = Trusted"
  "rl_specHash (trusted_record reg p t) = Some (snapshot_field ''specHash'' (hl_snapshot (pp_record p)))"
  by (simp_all add: trusted_record_def registryKey_def)

lemma commit_store:
  "hr_store (snd (commitPromotion ch reg p t ts)) =
     putLifecycle (trusted_record reg p t) (putPromotedVersion (promoted_version p t) (hr_store reg))"
  "hr_cache (snd (commitPromotion ch reg p t ts)) = snd (cache_put ch (hr_cache reg) ts (pp_record p))"
  "fst (commitPromotion ch reg p t ts) = fst (cache_put ch (hr_cache reg) ts (pp_record p))"
  by (auto simp: commitPromotion_def trusted_record_def Let_def split: prod.splits sum.splits)

lemma put_prepared: "prepared_ok ch p \<Longrightarrow> fst (cache_put ch c ts (pp_record p)) = Inr ()"
  by (auto simp: prepared_ok_def version_ok_def promoted_version_def cache_put_def verifyEntry_def Let_def)

lemma commit_ok:
  assumes "registry_ok ch reg" "prepared_ok ch p"
  shows "registry_ok ch (snd (commitPromotion ch reg p t ts))" "fst (commitPromotion ch reg p t ts) = Inr ()"
proof -
  have "store_ok ch (hr_store (snd (commitPromotion ch reg p t ts)))"
    unfolding commit_store
    by (rule store_ok_promoted) (use assms in \<open>simp_all add: registry_ok_def version_ok_time\<close>)
  then show "registry_ok ch (snd (commitPromotion ch reg p t ts))"
    using assms(1) cache_ok_put by (simp add: registry_ok_def commit_store)
  show "fst (commitPromotion ch reg p t ts) = Inr ()"
    by (simp add: commit_store put_prepared [OF assms(2)])
qed

lemma prepare_Inr:
  assumes "preparePromotion dt loader reg input now = Inr p"
  obtains pending loaded where "prepare_begin reg input = Inr pending" "loader (pe_call pending) = Inr loaded"
    "prepare_end dt reg input pending loaded now = Inr p"
  using assms by (auto simp: preparePromotion_def bindE_Inr_iff)

lemma prepare_end_Inr:
  assumes "prepare_end dt reg input pending loaded now = Inr p"
  shows "pp_record p = loaded" "registryKey (pp_key p) = registryKey input" "pp_key p = RegistryPackageKey.truncate input"
    "snapshot_field ''id'' (hl_snapshot loaded) = rk_packageId input" "snapshot_field ''version'' (hl_snapshot loaded) = rk_version input"
    "pp_approval p = pe_approval pending"
    "\<forall>r. getPromotedVersion (hr_store reg) input = Some r \<longrightarrow> rp_specHash r = snapshot_field ''specHash'' (hl_snapshot loaded)"
    "pe_from pending = Trusted \<or>
       pe_from pending = Candidate \<and> hl_trust loaded \<noteq> None \<and> PromotionApprovalSchema dt (pe_approval pending)"
  using assms
  by (auto simp: prepare_end_def Let_def bindE_Inr_iff split: if_splits option.splits dest: promotion_evidence)

lemma prepare_begin_from:
  assumes "prepare_begin reg input = Inr pending" "store_ok ch (hr_store reg)"
  shows "map_option rl_state (is_lifecycle (hr_store reg) (registryKey input)) = Some (pe_from pending)"
    "pe_approval pending = pi_approval input"
proof -
  from assms(1) have "is_candidates (hr_store reg) (registryKey input) \<noteq> None"
    by (auto simp: prepare_begin_def getCandidate_def split: option.splits)
  with assms(2) have "is_lifecycle (hr_store reg) (registryKey input) \<noteq> None" by (auto simp: store_ok_def)
  with assms(1) show "map_option rl_state (is_lifecycle (hr_store reg) (registryKey input)) = Some (pe_from pending)"
    "pe_approval pending = pi_approval input"
    by (auto simp: prepare_begin_def getLifecycle_def split: option.splits if_splits)
qed

lemma prepare_ok:
  assumes "faithful_loader ch loader" "preparePromotion dt loader reg input now = Inr p"
  shows "prepared_ok ch p"
  using assms(2)
proof (cases rule: prepare_Inr)
  case (1 pending loaded)
  note e = prepare_end_Inr [OF 1(3)]
  from assms(1) 1(2) have "ch (map PackageFile.truncate (hl_loadedFiles loaded)) (dn_resolved (hl_dependencies loaded)) =
      Inr (snapshot_field ''specHash'' (hl_snapshot loaded))" by (simp add: faithful_loader_def)
  then show ?thesis
    using e(1,3-5) by (simp add: prepared_ok_def version_ok_def promoted_version_def Let_def RegistryPackageKey.defs)
qed

definition state_of :: "HarnessRegistry \<Rightarrow> string \<Rightarrow> RegistryLifecycleState option" where
  "state_of reg k = map_option rl_state (is_lifecycle (hr_store reg) k)"

lemma state_of_commit:
  "state_of (snd (commitPromotion ch reg p t ts)) k = (if k = registryKey (pp_key p) then Some Trusted else state_of reg k)"
  by (simp add: state_of_def commit_store putLifecycle_def putPromotedVersion_def)

lemma commit_all_ok:
  assumes "registry_ok ch reg" "\<forall>x \<in> set ps. prepared_ok ch (fst x)"
  shows "fst (commit_all ch reg ps) = Inr () \<and> registry_ok ch (snd (commit_all ch reg ps)) \<and>
    (\<forall>k. state_of (snd (commit_all ch reg ps)) k =
       (if k \<in> (\<lambda>x. registryKey (pp_key (fst x))) ` set ps then Some Trusted else state_of reg k))"
  using assms
proof (induction ps arbitrary: reg)
  case (Cons x ps)
  obtain p t ts where x: "x = (p, t, ts)" by (cases x)
  obtain reg' where commit: "commitPromotion ch reg p t ts = (Inr (), reg')"
    using commit_ok(2) [OF Cons.prems(1), of p t ts] Cons.prems(2) x by (metis fst_conv list.set_intros(1) prod.collapse)
  have ok: "registry_ok ch reg'"
    using commit_ok(1) [OF Cons.prems(1), of p t ts] Cons.prems(2) x commit by simp
  have "state_of reg' k = (if k = registryKey (pp_key p) then Some Trusted else state_of reg k)" for k
    using state_of_commit [of ch reg p t ts k] commit by simp
  with Cons.IH [OF ok] Cons.prems(2) commit x show ?case by auto
qed simp

lemma promote_cases:
  obtains (refused) e where "promote dt ch loader reg input v t ts = (Inl e, reg)"
    "preparePromotion dt loader reg input v = Inl e"
  | (committed) p where "preparePromotion dt loader reg input v = Inr p"
    "snd (promote dt ch loader reg input v t ts) = snd (commitPromotion ch reg p t ts)"
    "fst (promote dt ch loader reg input v t ts) = map_sum (\<lambda>e. e)
       (\<lambda>u. getPromotedVersion (hr_store (snd (commitPromotion ch reg p t ts))) (pp_key p)) (fst (commitPromotion ch reg p t ts))"
  by (cases "preparePromotion dt loader reg input v")
     (auto simp: promote_def split: prod.splits sum.splits)

lemma transition_Inr:
  assumes "transition dt reg input reason to now = Inr (r, reg')"
  obtains current where "is_lifecycle (hr_store reg) (registryKey input) = Some current"
    "reg' = reg\<lparr>hr_store := putLifecycle r (hr_store reg)\<rparr>" "registryKey r = registryKey input" "rl_state r = to"
    "rl_specHash r = rl_specHash current" "allowed (Some (rl_state current)) (Some to)"
  using assms
  by (auto simp: transition_def bindE_Inr_iff getLifecycle_def Let_def registryKey_def
      split: option.splits dest: transition_allowed)

lemma transition_ok:
  assumes "transition dt reg input reason to now = Inr (r, reg')" "registry_ok ch reg" "to \<noteq> Trusted"
  shows "registry_ok ch reg'" "state_of reg' (registryKey input) = Some to"
    "k \<noteq> registryKey input \<Longrightarrow> state_of reg' k = state_of reg k"
    "allowed (state_of reg (registryKey input)) (Some to)"
proof -
  obtain current where 1: "is_lifecycle (hr_store reg) (registryKey input) = Some current"
    "reg' = reg\<lparr>hr_store := putLifecycle r (hr_store reg)\<rparr>" "registryKey r = registryKey input" "rl_state r = to"
    "rl_specHash r = rl_specHash current" "allowed (Some (rl_state current)) (Some to)"
    using assms(1) by (rule transition_Inr)
  have current: "lifecycle_ok (hr_store reg) (registryKey input) current"
    using assms(2) 1(1) by (simp add: registry_ok_def store_ok_def)
  have "to = Deprecated \<longrightarrow> rl_state current = Trusted \<or> rl_state current = Deprecated"
    using 1(6) by (auto simp: allowed_def)
  with current 1(3-5) assms(3) have "lifecycle_ok (hr_store reg) (registryKey r) r"
    by (auto simp: lifecycle_ok_def)
  with assms(2) show "registry_ok ch reg'"
    by (simp add: registry_ok_def 1(2) store_ok_lifecycle)
  show "state_of reg' (registryKey input) = Some to" "k \<noteq> registryKey input \<Longrightarrow> state_of reg' k = state_of reg k"
    using 1(3,4) by (simp_all add: state_of_def 1(2) putLifecycle_def)
  show "allowed (state_of reg (registryKey input)) (Some to)"
    using 1(1,6) by (simp add: state_of_def)
qed

text \<open>Operations on the cache alone.\<close>

lemma drop_cached_ok:
  "registry_ok ch reg \<Longrightarrow> registry_ok ch (drop_cached r reg)" "state_of (drop_cached r reg) k = state_of reg k"
  "hr_store (drop_cached r reg) = hr_store reg"
  by (auto simp: drop_cached_def registry_ok_def state_of_def cache_ok_delete split: option.splits)

lemma purge_is_purge:
  "hr_cache (purgeDependentCacheEntries lc packageId reg) =
     memory_cache.purge (dependent_hashes lc reg packageId) (hr_cache reg)"
  by (simp add: purgeDependentCacheEntries_def memory_cache.purge_def)

lemma purge_ok:
  "registry_ok ch reg \<Longrightarrow> registry_ok ch (purgeDependentCacheEntries lc packageId reg)"
  "state_of (purgeDependentCacheEntries lc packageId reg) k = state_of reg k"
  "hr_store (purgeDependentCacheEntries lc packageId reg) = hr_store reg"
  using memory_cache.inv_purge [of ch "hr_cache reg"]
  by (simp_all add: registry_ok_def purge_is_purge) (simp_all add: purgeDependentCacheEntries_def state_of_def)

text \<open>Resolving a hash changes only the cache, and what it returns names the hash.\<close>

definition sound_answer :: "compute_spec_hash \<Rightarrow> HarnessRegistry \<Rightarrow> string \<Rightarrow> (harness_error + json) \<times> HarnessRegistry \<Rightarrow> bool" where
  "sound_answer ch reg h x \<longleftrightarrow> (\<exists>c. snd x = reg\<lparr>hr_cache := c\<rparr> \<and> cache_ok ch c) \<and>
     (\<forall>s. fst x = Inr s \<longrightarrow> snapshot_field ''specHash'' s = h)"

lemma sound_answer_Inl: "cache_ok ch c \<Longrightarrow> sound_answer ch reg h (Inl e, reg\<lparr>hr_cache := c\<rparr>)"
  by (auto simp: sound_answer_def)

lemma sound_answer_Inr:
  "cache_ok ch c \<Longrightarrow> snapshot_field ''specHash'' s = h \<Longrightarrow> sound_answer ch reg h (Inr s, reg\<lparr>hr_cache := c\<rparr>)"
  by (auto simp: sound_answer_def)

lemma resolve_sound:
  assumes "cache_ok ch (hr_cache reg)"
  shows "sound_answer ch reg h (resolveSnapshot ch loader reg h t)"
proof -
  have got: "cache_ok ch c' \<and> (\<forall>s. x = Inr (Some s) \<longrightarrow> snapshot_field ''specHash'' s = h)"
    if "cache_get ch c now accessed h = (x, c')" "cache_ok ch c" for c c' now accessed x
    using cache_ok_get [OF that(2), of now accessed h] memory_cache.get_sound [OF that(2), of now accessed h] that(1) by auto
  obtain x c1 where g: "cache_get ch (hr_cache reg) (ct_now t) (ct_accessed t) h = (x, c1)" by fastforce
  note ok1 = got [OF g assms]
  show ?thesis
  proof (cases "x = Inr None \<and> findPromotedBySpecHash (hr_store reg) h \<noteq> None")
    case False
    then show ?thesis
      using g ok1 by (auto simp: resolveSnapshot_def Let_def intro: sound_answer_Inl sound_answer_Inr
          split: sum.splits option.splits)
  next
    case True
    then obtain r where r: "x = Inr None" "findPromotedBySpecHash (hr_store reg) h = Some r" by auto
    let ?call = "\<lparr>li_source = RetainedBytes (rp_files r), li_options = default (rp_loadOptions r) no_options,
        li_limits = (if rp_limits r = JUndefined then DEFAULT_HARNESS_LOADER_LIMITS else rp_limits r)\<rparr>"
    show ?thesis
    proof (cases "\<exists>loaded. loader ?call = Inr loaded \<and> snapshot_field ''specHash'' (hl_snapshot loaded) = h")
      case False
      then show ?thesis
        using g r ok1 by (auto simp: resolveSnapshot_def Let_def intro: sound_answer_Inl split: sum.splits)
    next
      case True
      then obtain loaded where l: "loader ?call = Inr loaded" "snapshot_field ''specHash'' (hl_snapshot loaded) = h" by blast
      obtain y c2 where p: "cache_put ch c1 (ct_stored t) loaded = (y, c2)" by fastforce
      obtain z c3 where g2: "cache_get ch c2 (ct_again t) (ct_accessed_again t) h = (z, c3)" by fastforce
      have ok2: "cache_ok ch c2" using cache_ok_put [of ch c1 "ct_stored t" loaded] ok1 p by simp
      from got [OF g2 ok2] ok2 show ?thesis
        using g r l p g2
        by (auto simp: resolveSnapshot_def Let_def intro: sound_answer_Inl sound_answer_Inr split: sum.splits option.splits)
    qed
  qed
qed

lemma resolve_ok:
  assumes "registry_ok ch reg"
  shows "registry_ok ch (snd (resolveSnapshot ch loader reg h t))"
    "state_of (snd (resolveSnapshot ch loader reg h t)) k = state_of reg k"
    "hr_store (snd (resolveSnapshot ch loader reg h t)) = hr_store reg"
  using resolve_sound [of ch reg h loader t] assms by (auto simp: registry_ok_def sound_answer_def state_of_def)

lemma put_commute: "putCandidate input c (putLifecycle l store) = putLifecycle l (putCandidate input c store)"
  by (cases store) (simp add: putCandidate_def putLifecycle_def)

lemma stage_ok:
  assumes "registry_ok ch reg"
  shows "registry_ok ch (snd (stageCandidate reg input dir t))"
    "allowed (state_of reg k) (state_of (snd (stageCandidate reg input dir t)) k)"
proof -
  let ?l = "\<lparr>rk_packageId = rk_packageId input, rk_version = rk_version input, rl_state = Candidate, rl_specHash = None,
      rl_previousState = None, rl_reason = None, rl_updatedAt = t\<rparr>"
  let ?c = "\<lparr>cd_packageDir = dir, cd_stagedAt = t\<rparr>" and ?s = "hr_store reg"
  have key: "registryKey ?l = registryKey input" by (simp add: registryKey_def)
  have fresh: "store_ok ch (putLifecycle ?l (putCandidate input ?c ?s))"
  proof -
    have "lifecycle_ok ?s (registryKey ?l) ?l" by (simp add: lifecycle_ok_def)
    with assms have "store_ok ch (putLifecycle ?l ?s)" by (simp add: registry_ok_def store_ok_lifecycle)
    then have "store_ok ch (putCandidate input ?c (putLifecycle ?l ?s))"
      by (rule store_ok_candidate) (simp add: putLifecycle_def key)
    then show ?thesis by (simp only: put_commute)
  qed
  show "registry_ok ch (snd (stageCandidate reg input dir t))"
    using assms fresh store_ok_candidate [of ch ?s input ?c]
    by (auto simp: stageCandidate_def registry_ok_def getLifecycle_def Let_def)
  show "allowed (state_of reg k) (state_of (snd (stageCandidate reg input dir t)) k)"
    by (auto simp: stageCandidate_def state_of_def getLifecycle_def putLifecycle_def putCandidate_def allowed_def key Let_def)
qed

section \<open>Sequences of operations\<close>

datatype registry_op =
    StageOp RegistryPackageKey string string
  | PromoteOp PromoteInput string string int
  | BatchOp "PromoteInput list" "nat \<Rightarrow> string" "nat \<Rightarrow> string \<times> int"
  | DeprecateOp RegistryPackageKey "string option" string
  | QuarantineOp RegistryPackageKey "string option" string
  | RevokeOp RegistryPackageKey "string option" string
  | ResolveOp string cache_times
  | CurrentOp string cache_times

definition new_state :: "HarnessRegistry \<Rightarrow> harness_error + RegistryLifecycleRecord \<times> HarnessRegistry \<Rightarrow> HarnessRegistry" where
  "new_state reg x = (case x of Inl e \<Rightarrow> reg | Inr (r, reg') \<Rightarrow> reg')"

text \<open>Each call has its own loader, as the files of a package may change between calls.\<close>

fun run_op :: "(string \<Rightarrow> bool) \<Rightarrow> locale_compare \<Rightarrow> compute_spec_hash \<Rightarrow> HarnessRegistryLoader \<times> registry_op \<Rightarrow>
  HarnessRegistry \<Rightarrow> HarnessRegistry" where
  "run_op dt lc ch (loader, StageOp input dir t) reg = snd (stageCandidate reg input dir t)"
| "run_op dt lc ch (loader, PromoteOp input v t ts) reg = snd (promote dt ch loader reg input v t ts)"
| "run_op dt lc ch (loader, BatchOp inputs v clock) reg = snd (promoteBatch dt ch loader reg inputs v clock)"
| "run_op dt lc ch (loader, DeprecateOp input reason t) reg = new_state reg (deprecate dt reg input reason t)"
| "run_op dt lc ch (loader, QuarantineOp input reason t) reg = new_state reg (quarantine dt reg input reason t)"
| "run_op dt lc ch (loader, RevokeOp input reason t) reg = new_state reg (revoke dt lc reg input reason t)"
| "run_op dt lc ch (loader, ResolveOp h t) reg = snd (resolveSnapshot ch loader reg h t)"
| "run_op dt lc ch (loader, CurrentOp packageId t) reg = snd (resolveCurrentTrusted lc ch loader reg packageId t)"

definition valid_call :: "compute_spec_hash \<Rightarrow> HarnessRegistryLoader \<times> registry_op \<Rightarrow> bool" where
  "valid_call ch c \<longleftrightarrow> faithful_loader ch (fst c)"

lemma prepared_from:
  assumes "preparePromotion dt loader reg input v = Inr p" "registry_ok ch reg"
  shows "state_of reg (registryKey (pp_key p)) \<in> {Some Candidate, Some Trusted}"
  using assms(1)
proof (cases rule: prepare_Inr)
  case (1 pending loaded)
  have "state_of reg (registryKey input) = Some (pe_from pending)"
    using prepare_begin_from(1) [OF 1(1), of ch] assms(2) by (simp add: registry_ok_def state_of_def)
  with prepare_end_Inr(2,8) [OF 1(3)] show ?thesis by auto
qed

lemma promote_ok:
  assumes "registry_ok ch reg" "faithful_loader ch loader"
  shows "registry_ok ch (snd (promote dt ch loader reg input v t ts)) \<and>
    allowed (state_of reg k) (state_of (snd (promote dt ch loader reg input v t ts)) k)"
proof (cases rule: promote_cases [of dt ch loader reg input v t ts])
  case (refused e)
  with assms show ?thesis by (simp add: allowed_def)
next
  case (committed p)
  note ok = prepare_ok [OF assms(2) committed(1)]
  show ?thesis
    using commit_ok(1) [OF assms(1) ok] prepared_from [OF committed(1) assms(1)]
    by (auto simp: committed(2) state_of_commit allowed_def)
qed

text \<open>A batch is prepared on the state before it; then every promotion commits.\<close>

lemma batch_cases:
  assumes "registry_ok ch reg" "faithful_loader ch loader"
  obtains (refused) e where "promoteBatch dt ch loader reg inputs v clock = (Inl e, reg)"
  | (committed) ps where "mapE (\<lambda>(i, input). preparePromotion dt loader reg input (v i)) (enumerate 0 inputs) = Inr ps"
    "is_ok (fst (promoteBatch dt ch loader reg inputs v clock))"
    "registry_ok ch (snd (promoteBatch dt ch loader reg inputs v clock))"
    "\<forall>k. state_of (snd (promoteBatch dt ch loader reg inputs v clock)) k =
       (if k \<in> (\<lambda>p. registryKey (pp_key p)) ` set ps then Some Trusted else state_of reg k)"
    "\<forall>p \<in> set ps. \<exists>i input. input \<in> set inputs \<and> preparePromotion dt loader reg input (v i) = Inr p"
proof (cases "mapE (\<lambda>(i, input). preparePromotion dt loader reg input (v i)) (enumerate 0 inputs)")
  case (Inl e)
  then show thesis by (intro refused [of e]) (simp add: promoteBatch_def)
next
  case (Inr ps)
  have source: "\<exists>i input. input \<in> set inputs \<and> preparePromotion dt loader reg input (v i) = Inr p" if "p \<in> set ps" for p
    using list_all2_partner(2) [OF iffD1 [OF mapE_Inr_iff Inr]] that by (force dest: in_set_enumerate_eq [THEN iffD1])
  then have "\<forall>p \<in> set ps. prepared_ok ch p" using prepare_ok [OF assms(2)] by blast
  then have "\<forall>x \<in> set (zip ps (map clock [0..<length ps])). prepared_ok ch (fst x)"
    by (auto dest: set_zip_leftD)
  note all = commit_all_ok [OF assms(1) this]
  have keys: "(\<lambda>x. registryKey (pp_key (fst x))) ` set (zip ps (map clock [0..<length ps])) = (\<lambda>p. registryKey (pp_key p)) ` set ps"
  proof -
    have "map fst (zip ps (map clock [0..<length ps])) = ps" by simp
    then have "fst ` set (zip ps (map clock [0..<length ps])) = set ps" by (metis set_map)
    then show ?thesis by (metis (no_types, lifting) image_cong image_image)
  qed
  obtain reg' where r: "commit_all ch reg (zip ps (map clock [0..<length ps])) = (Inr (), reg')"
    using all by (metis prod.collapse)
  show thesis
    by (rule committed [OF Inr]) (use all r keys source in \<open>auto simp: promoteBatch_def Inr\<close>)
qed

lemma withdraw_ok:
  assumes "registry_ok ch reg" "to \<noteq> Trusted" "transition dt reg input reason to now = Inr (r, reg')"
    and "registry_ok ch reg' \<Longrightarrow> registry_ok ch reg''" "\<forall>k. state_of reg'' k = state_of reg' k"
  shows "registry_ok ch reg'' \<and> allowed (state_of reg k) (state_of reg'' k)"
proof (cases "k = registryKey input")
  case True
  then show ?thesis using transition_ok(1,2,4) [OF assms(3,1,2)] assms(4,5) by simp
next
  case False
  then show ?thesis using transition_ok(1,3) [OF assms(3,1,2)] assms(4,5) by (simp add: allowed_def)
qed

lemma run_op_ok:
  assumes "registry_ok ch reg" "valid_call ch c"
  shows "registry_ok ch (run_op dt lc ch c reg) \<and> allowed (state_of reg k) (state_of (run_op dt lc ch c reg) k)"
proof -
  obtain loader op where c: "c = (loader, op)" by (cases c)
  have same: "allowed s s" for s by (simp add: allowed_def)
  from assms(2) have loader: "faithful_loader ch loader" by (simp add: c valid_call_def)
  show ?thesis
  proof (cases op)
    case (StageOp input dir t)
    then show ?thesis using stage_ok [OF assms(1)] by (simp add: c)
  next
    case (PromoteOp input v t ts)
    then show ?thesis using promote_ok [OF assms(1) loader] by (simp add: c)
  next
    case (BatchOp inputs v clock)
    from assms(1) loader show ?thesis
    proof (cases rule: batch_cases [where dt = dt and inputs = inputs and v = v and clock = clock])
      case (refused e)
      then show ?thesis using assms(1) same by (simp add: c BatchOp)
    next
      case (committed ps)
      have "allowed (state_of reg (registryKey (pp_key p))) (Some Trusted)" if p: "p \<in> set ps" for p
      proof -
        from committed(5) p obtain i input where "preparePromotion dt loader reg input (v i) = Inr p" by blast
        from prepared_from [OF this assms(1)] show ?thesis by (auto simp: allowed_def)
      qed
      with committed(3,4) same show ?thesis by (auto simp: c BatchOp)
    qed
  next
    case (DeprecateOp input reason t)
    then show ?thesis
      using withdraw_ok [OF assms(1), of Deprecated dt input reason t] assms(1) same
      by (auto simp: c deprecate_def new_state_def split: sum.splits)
  next
    case (QuarantineOp input reason t)
    show ?thesis
    proof (cases "transition dt reg input reason Quarantined t")
      case (Inr x)
      then obtain r reg' where x: "transition dt reg input reason Quarantined t = Inr (r, reg')" by (cases x) simp
      show ?thesis
        using withdraw_ok [OF assms(1) _ x, of "drop_cached r reg'" k] drop_cached_ok
        by (simp add: c QuarantineOp quarantine_def new_state_def x)
    qed (use assms(1) same in \<open>simp add: c QuarantineOp quarantine_def new_state_def\<close>)
  next
    case (RevokeOp input reason t)
    show ?thesis
    proof (cases "transition dt reg input reason Revoked t")
      case (Inr x)
      then obtain r reg' where x: "transition dt reg input reason Revoked t = Inr (r, reg')" by (cases x) simp
      show ?thesis
        using withdraw_ok [OF assms(1) _ x, of "purgeDependentCacheEntries lc (rk_packageId input) (drop_cached r reg')" k]
          drop_cached_ok purge_ok
        by (simp add: c RevokeOp revoke_def new_state_def x)
    qed (use assms(1) same in \<open>simp add: c RevokeOp revoke_def new_state_def\<close>)
  next
    case (ResolveOp h t)
    then show ?thesis using resolve_ok [OF assms(1)] same by (simp add: c)
  next
    case (CurrentOp packageId t)
    then show ?thesis
      using resolve_ok [OF assms(1)] assms(1) same by (simp add: c resolveCurrentTrusted_def split: list.splits)
  qed
qed

interpretation sequential: lifecycle_system "valid_call ch" "run_op dt lc ch" "registry_ok ch" state_of for dt lc ch
  by unfold_locales (simp_all add: run_op_ok)

definition new_registry :: "nat \<Rightarrow> int \<Rightarrow> HarnessRegistry" where
  "new_registry maxEntries ttlMs =
     \<lparr>hr_store = \<lparr>is_candidates = Map.empty, is_lifecycle = Map.empty, is_promoted = [], is_bySpecHash = Map.empty\<rparr>,
      hr_cache = \<lparr>sc_entries = [], sc_maxEntries = maxEntries, sc_ttlMs = ttlMs\<rparr>, hr_dependents = Map.empty\<rparr>"

lemma new_registry_ok: "registry_ok ch (new_registry m ttl)"
  by (simp add: registry_ok_def store_ok_def cache_ok_def new_registry_def)

section \<open>Sorting by time\<close>

text \<open>What \<^verbatim>\<open>localeCompare\<close> promises: a total preorder.\<close>

definition consistent :: "locale_compare \<Rightarrow> bool" where
  "consistent lc \<longleftrightarrow> (\<forall>a b. lc a b \<le> 0 \<or> lc b a \<le> 0) \<and> (\<forall>a b c. lc a b \<le> 0 \<longrightarrow> lc b c \<le> 0 \<longrightarrow> lc a c \<le> 0)"

lemma sorted_insert_by:
  assumes "consistent lc" "sorted_wrt (\<lambda>a b. lc (f a) (f b) \<le> 0) ys"
  shows "sorted_wrt (\<lambda>a b. lc (f a) (f b) \<le> 0) (insert_by (\<lambda>l r. lc (f l) (f r)) x ys)"
  using assms(2)
proof (induction ys)
  case (Cons y ys)
  have set_insert: "set (insert_by (\<lambda>l r. lc (f l) (f r)) x ys) = insert x (set ys)"
    by (metis mset_insert_by set_mset_add_mset_insert set_mset_mset)
  have total: "lc a b \<le> 0 \<or> lc b a \<le> 0" and trans: "lc a b \<le> 0 \<Longrightarrow> lc b c \<le> 0 \<Longrightarrow> lc a c \<le> 0" for a b c
    using assms(1) unfolding consistent_def by blast+
  show ?case
  proof (cases "lc (f x) (f y) \<le> 0")
    case True
    with Cons.prems trans show ?thesis by auto
  next
    case False
    then have "lc (f y) (f x) \<le> 0" using total by blast
    with False Cons set_insert show ?thesis by auto
  qed
qed simp

lemma sorted_js_sort:
  assumes "consistent lc"
  shows "sorted_wrt (\<lambda>a b. lc (f a) (f b) \<le> 0) (js_sort (\<lambda>l r. lc (f l) (f r)) xs)"
  by (induction xs) (simp_all add: js_sort_Cons sorted_insert_by [OF assms] js_sort_def)

lemma last_is_latest:
  assumes "consistent lc" "trusted_versions lc reg packageId \<noteq> []" "r \<in> set (trusted_versions lc reg packageId)"
  shows "lc (rp_promotedAt r) (rp_promotedAt (last (trusted_versions lc reg packageId))) \<le> 0"
proof -
  let ?xs = "trusted_versions lc reg packageId"
  have sorted: "sorted_wrt (\<lambda>a b. lc (rp_promotedAt a) (rp_promotedAt b) \<le> 0) ?xs"
    unfolding trusted_versions_def listPromoted_def by (intro sorted_wrt_filter sorted_js_sort [OF assms(1)])
  have refl: "lc a a \<le> 0" for a using assms(1) unfolding consistent_def by blast
  obtain i where i: "i < length ?xs" "?xs ! i = r" using assms(3) by (metis in_set_conv_nth)
  show ?thesis
  proof (cases "i = length ?xs - 1")
    case True
    with i refl assms(2) show ?thesis by (simp add: last_conv_nth)
  next
    case False
    with i assms(2) have "i < length ?xs - 1" by linarith
    with sorted_wrt_nth_less [OF sorted, of i "length ?xs - 1"] i assms(2) show ?thesis by (simp add: last_conv_nth)
  qed
qed

lemma trusted_version_known:
  assumes "registry_ok ch reg" "r \<in> set (trusted_versions lc reg packageId)"
  shows "rk_packageId r = packageId" "map_of (is_promoted (hr_store reg)) (registryKey r) = Some r"
    "state_of reg (registryKey r) = Some Trusted"
    "map_option rl_specHash (is_lifecycle (hr_store reg) (registryKey r)) = Some (Some (rp_specHash r))" "version_ok ch r"
proof -
  have st: "store_ok ch (hr_store reg)" using assms(1) by (simp add: registry_ok_def)
  from assms(2) have r: "r \<in> set (map snd (is_promoted (hr_store reg)))" "rk_packageId r = packageId"
    "map_option rl_state (is_lifecycle (hr_store reg) (registryKey r)) = Some Trusted"
    by (auto simp: trusted_versions_def listPromoted_def getLifecycle_def)
  from r(1) obtain k where k: "(k, r) \<in> set (is_promoted (hr_store reg))" by auto
  with st have key: "registryKey r = k" and v: "version_ok ch r" by (auto simp: store_ok_def)
  from k key st have m: "map_of (is_promoted (hr_store reg)) (registryKey r) = Some r"
    by (auto simp: store_ok_def)
  from r(3) obtain l where l: "is_lifecycle (hr_store reg) (registryKey r) = Some l" "rl_state l = Trusted" by auto
  with st have "lifecycle_ok (hr_store reg) (registryKey r) l" by (simp add: store_ok_def)
  with l(2) m have "rl_specHash l = Some (rp_specHash r)" by (auto simp: lifecycle_ok_def)
  with r(2) m l v show "rk_packageId r = packageId" "map_of (is_promoted (hr_store reg)) (registryKey r) = Some r"
    "state_of reg (registryKey r) = Some Trusted" "version_ok ch r"
    "map_option rl_specHash (is_lifecycle (hr_store reg) (registryKey r)) = Some (Some (rp_specHash r))"
    by (simp_all add: state_of_def)
qed

section \<open>Guarantees\<close>

text \<open>
  C11: After any sequence of operations on a new registry, each with a loader that returns the hash of what
  it loaded, the registry is consistent: a version that is trusted or deprecated has a promoted version
  with the hash of its lifecycle record, whose retained files and dependencies hash to it and whose
  snapshot names the package, the version and the hash, and it can be found by its hash.
\<close>

theorem registry_is_consistent:
  assumes "list_all (valid_call ch) calls"
    and "is_lifecycle (hr_store (fold (run_op dt lc ch) calls (new_registry m ttl))) k = Some l"
    and "rl_state l = Trusted \<or> rl_state l = Deprecated"
  shows "\<exists>r. map_of (is_promoted (hr_store (fold (run_op dt lc ch) calls (new_registry m ttl)))) k = Some r \<and>
    registryKey r = k \<and> rl_specHash l = Some (rp_specHash r) \<and> version_ok ch r \<and>
    findPromotedBySpecHash (hr_store (fold (run_op dt lc ch) calls (new_registry m ttl))) (rp_specHash r) \<noteq> None"
proof -
  let ?s = "hr_store (fold (run_op dt lc ch) calls (new_registry m ttl))"
  have st: "store_ok ch ?s"
    using sequential.inv_run [OF new_registry_ok assms(1)] by (simp add: registry_ok_def)
  with assms(2) have "lifecycle_ok ?s k l" by (simp add: store_ok_def)
  with assms(3) obtain h r where "rl_specHash l = Some h" "map_of (is_promoted ?s) k = Some r" "rp_specHash r = h"
    by (auto simp: lifecycle_ok_def)
  with promoted_entry [OF st this(2)] show ?thesis by (auto simp: findPromotedBySpecHash_def)
qed


text \<open>
  C37: The current version of a package is one that is trusted now: resolving it returns a snapshot with
  the hash of a promoted version of the package whose lifecycle is trusted, and no trusted version of the
  package was promoted later; without a trusted version it fails. No version that is a candidate,
  deprecated, quarantined or revoked is returned.
\<close>

theorem current_version_is_trusted:
  assumes "registry_ok ch reg" "consistent lc"
    and "resolveCurrentTrusted lc ch loader reg packageId t = (Inr snapshot, reg')"
  shows "\<exists>r. map_of (is_promoted (hr_store reg)) (registryKey r) = Some r \<and> rk_packageId r = packageId \<and>
    state_of reg (registryKey r) = Some Trusted \<and> snapshot_field ''specHash'' snapshot = rp_specHash r \<and>
    (\<forall>r'. map_of (is_promoted (hr_store reg)) (registryKey r') = Some r' \<and> rk_packageId r' = packageId \<and>
       state_of reg (registryKey r') = Some Trusted \<longrightarrow> lc (rp_promotedAt r') (rp_promotedAt r) \<le> 0)"
proof -
  let ?xs = "trusted_versions lc reg packageId"
  from assms(3) have ne: "?xs \<noteq> []"
    and res: "resolveSnapshot ch loader reg (rp_specHash (last ?xs)) t = (Inr snapshot, reg')"
    by (auto simp: resolveCurrentTrusted_def split: list.splits)
  have last: "last ?xs \<in> set ?xs" using ne by simp
  have hash: "snapshot_field ''specHash'' snapshot = rp_specHash (last ?xs)"
    using resolve_sound [of ch reg "rp_specHash (last ?xs)" loader t] assms(1) res
    by (simp add: registry_ok_def sound_answer_def)
  have "r' \<in> set ?xs" if "map_of (is_promoted (hr_store reg)) (registryKey r') = Some r'" "rk_packageId r' = packageId"
    "state_of reg (registryKey r') = Some Trusted" for r'
  proof -
    have "r' \<in> snd ` set (is_promoted (hr_store reg))" using map_of_SomeD [OF that(1)] by force
    with that(2,3) show ?thesis by (simp add: trusted_versions_def listPromoted_def getLifecycle_def state_of_def)
  qed
  with last_is_latest [OF assms(2) ne] trusted_version_known [OF assms(1) last] hash show ?thesis by blast
qed

text \<open>
  A batch of promotions is all or nothing: it fails with the registry unchanged, or every version of
  it is trusted afterwards. A promotion needs its evidence: the version was staged as a candidate or
  already trusted, and a candidate had a recorded approval and a verified signature.
\<close>

theorem batch_is_atomic:
  assumes "registry_ok ch reg" "faithful_loader ch loader"
    and "promoteBatch dt ch loader reg inputs v clock = (result, reg')"
  shows "(\<forall>e. result = Inl e \<longrightarrow> reg' = reg) \<and>
    (\<forall>rs. result = Inr rs \<longrightarrow> (\<forall>input \<in> set inputs. state_of reg' (registryKey input) = Some Trusted \<and>
       (state_of reg (registryKey input) = Some Trusted \<or>
        state_of reg (registryKey input) = Some Candidate \<and> PromotionApprovalSchema dt (pi_approval input) \<and>
        (\<exists>pending loaded. prepare_begin reg input = Inr pending \<and> loader (pe_call pending) = Inr loaded \<and>
           hl_trust loaded \<noteq> None))))"
  using assms(1,2)
proof (cases rule: batch_cases [where dt = dt and inputs = inputs and v = v and clock = clock])
  case (refused e)
  with assms(3) show ?thesis by auto
next
  case (committed ps)
  have ok: "is_ok result" using committed(2) assms(3) by simp
  have each: "\<exists>p i. p \<in> set ps \<and> preparePromotion dt loader reg input (v i) = Inr p" if input: "input \<in> set inputs" for input
  proof -
    obtain n where "n < length inputs" "inputs ! n = input" using input by (metis in_set_conv_nth)
    then have "(n, input) \<in> set (enumerate 0 inputs)" by (simp add: in_set_enumerate_eq)
    with list_all2_partner(1) [OF iffD1 [OF mapE_Inr_iff committed(1)]] show ?thesis by fastforce
  qed
  have "state_of reg' (registryKey input) = Some Trusted \<and> (state_of reg (registryKey input) = Some Trusted \<or>
        state_of reg (registryKey input) = Some Candidate \<and> PromotionApprovalSchema dt (pi_approval input) \<and>
        (\<exists>pending loaded. prepare_begin reg input = Inr pending \<and> loader (pe_call pending) = Inr loaded \<and>
           hl_trust loaded \<noteq> None))" if input: "input \<in> set inputs" for input
  proof -
    from each [OF input] obtain p i where p: "p \<in> set ps" "preparePromotion dt loader reg input (v i) = Inr p" by blast
    from p(2) obtain pending loaded where l: "prepare_begin reg input = Inr pending" "loader (pe_call pending) = Inr loaded"
      "prepare_end dt reg input pending loaded (v i) = Inr p" by (rule prepare_Inr)
    have st: "store_ok ch (hr_store reg)" using assms(1) by (simp add: registry_ok_def)
    note from_state = prepare_begin_from [OF l(1) st] and evidence = prepare_end_Inr(2,8) [OF l(3)]
    have "state_of reg' (registryKey input) = Some Trusted"
      using committed(4) assms(3) p(1) evidence(1) by force
    with from_state evidence(2) l(1,2) show ?thesis by (auto simp: state_of_def)
  qed
  with ok show ?thesis by (auto simp: is_ok_def split: sum.splits)
qed

text \<open>
  A revocation takes effect at once: the version is revoked, its snapshot and the snapshot of every
  promoted version that depends on the package have left the cache, and a lookup of their hashes there
  finds nothing.
\<close>

theorem revocation_purges_cache:
  assumes "registry_ok ch reg" "revoke dt lc reg input reason now = Inr (r, reg')"
  shows "state_of reg' (registryKey input) = Some Revoked \<and>
    (\<forall>h. rl_specHash r = Some h \<longrightarrow> \<not> cache_has (hr_cache reg') h) \<and>
    (\<forall>k v. (k, v) \<in> set (is_promoted (hr_store reg)) \<and> rk_packageId input \<in> rd_name ` set (rp_dependencies v) \<longrightarrow>
       \<not> cache_has (hr_cache reg') (rp_specHash v) \<and>
       fst (cache_get ch (hr_cache reg') t accessed (rp_specHash v)) = Inr None)"
proof -
  from assms(2) obtain reg1 where tr: "transition dt reg input reason Revoked now = Inr (r, reg1)"
    and reg': "reg' = purgeDependentCacheEntries lc (rk_packageId input) (drop_cached r reg1)"
    by (auto simp: revoke_def bindE_Inr_iff)
  note ok = transition_ok [OF tr assms(1)]
  have promoted: "is_promoted (hr_store reg1) = is_promoted (hr_store reg)"
    using tr by (rule transition_Inr) (simp add: putLifecycle_def)
  have cache: "cache_has (hr_cache reg') h \<longleftrightarrow> cache_has (hr_cache (drop_cached r reg1)) h \<and>
      h \<notin> set (dependent_hashes lc (drop_cached r reg1) (rk_packageId input))" for h
    by (simp add: reg' purge_is_purge memory_cache.has_purge)
  have own: "rl_specHash r = Some h \<Longrightarrow> \<not> cache_has (hr_cache reg') h" for h
    by (simp add: cache drop_cached_def cache_has_delete)
  have fold: "set (fold (\<lambda>x hs. if P x then set_add (f x) hs else hs) xs ys) = set ys \<union> f ` {x \<in> set xs. P x}"
    for P xs ys and f :: "RegistryPromotedVersion \<Rightarrow> string"
    by (induction xs arbitrary: ys) (auto simp: set_add_def)
  have dependents: "rp_specHash v \<in> set (dependent_hashes lc (drop_cached r reg1) (rk_packageId input))"
    if "(k, v) \<in> set (is_promoted (hr_store reg))" "rk_packageId input \<in> rd_name ` set (rp_dependencies v)" for k v
    using that unfolding dependent_hashes_def fold
    by (force simp: drop_cached_ok(3) listAllPromoted_def promoted list_ex_iff)
  have served: "fst (cache_get ch (hr_cache reg') t accessed h) = Inr None" if "\<not> cache_has (hr_cache reg') h" for h
    using that by (cases rule: cache_get_cases [of ch "hr_cache reg'" t accessed h]) (auto simp: cache_has_iff)
  show ?thesis
    using ok(2) own dependents served cache by (auto simp: reg' purge_ok(2) drop_cached_ok(2))
qed

text \<open>
  A revocation while the loader of a promotion runs is lost. The promotion checks the state that it
  read before the loader was called, and its commit does not look at the state again: whenever the
  promotion would have succeeded, it still does after the version was revoked, and the revoked version
  is trusted, although a revocation is meant to be final.
\<close>

theorem revocation_during_promotion_is_lost:
  assumes "registry_ok ch reg" "preparePromotion dt loader reg input v = Inr p"
    and "revoke dt lc reg (RegistryPackageKey.truncate input) reason now = Inr (r, reg')"
  shows "state_of reg' (registryKey input) = Some Revoked \<and>
    (\<exists>pending loaded. prepare_begin reg input = Inr pending \<and> loader (pe_call pending) = Inr loaded \<and>
       prepare_end dt reg' input pending loaded v = Inr p) \<and>
    state_of (snd (commitPromotion ch reg' p t ts)) (registryKey input) = Some Trusted"
proof -
  from assms(3) obtain reg1 where tr: "transition dt reg (RegistryPackageKey.truncate input) reason Revoked now = Inr (r, reg1)"
    and reg': "reg' = purgeDependentCacheEntries lc (rk_packageId (RegistryPackageKey.truncate input)) (drop_cached r reg1)"
    by (auto simp: revoke_def bindE_Inr_iff)
  have "is_promoted (hr_store reg1) = is_promoted (hr_store reg)"
    using tr by (rule transition_Inr) (simp add: putLifecycle_def)
  then have same: "getPromotedVersion (hr_store reg') input = getPromotedVersion (hr_store reg) input"
    by (simp add: getPromotedVersion_def reg' purge_ok(3) drop_cached_ok(3))
  have revoked: "state_of reg' (registryKey input) = Some Revoked"
    using transition_ok(2) [OF tr assms(1)] by (simp add: reg' purge_ok(2) drop_cached_ok(2))
  from assms(2) obtain pending loaded where l: "prepare_begin reg input = Inr pending" "loader (pe_call pending) = Inr loaded"
    "prepare_end dt reg input pending loaded v = Inr p" by (rule prepare_Inr)
  have "prepare_end dt reg' input pending loaded v = Inr p"
    using l(3) unfolding prepare_end_def same .
  with revoked l prepare_end_Inr(2) [OF l(3)] show ?thesis
    by (auto simp: state_of_commit)
qed

text \<open>A single promotion never changes the hash of a promoted version.\<close>

lemma promote_keeps_hash:
  assumes "registry_ok ch reg" "faithful_loader ch loader"
    and "promote dt ch loader reg input v t ts = (Inr x, reg')" "map_of (is_promoted (hr_store reg)) k = Some r"
  shows "\<exists>r'. map_of (is_promoted (hr_store reg')) k = Some r' \<and> rp_specHash r' = rp_specHash r"
proof (cases rule: promote_cases [of dt ch loader reg input v t ts])
  case (refused e)
  with assms(3) show ?thesis by simp
next
  case (committed p)
  from committed(1) obtain pending loaded where l: "prepare_end dt reg input pending loaded v = Inr p" by (rule prepare_Inr)
  have "is_promoted (hr_store reg') = map_set (registryKey input) (promoted_version p t) (is_promoted (hr_store reg))"
    using committed(2) assms(3) prepare_end_Inr(2) [OF l] by (simp add: commit_store putLifecycle_def putPromotedVersion_def)
  with assms(4) prepare_end_Inr(1,7) [OF l] show ?thesis
    by (auto simp: map_of_map_set getPromotedVersion_def)
qed

text \<open>A quarantine removes only the snapshot of the version itself: dependents stay in the cache.\<close>

lemma quarantine_keeps_dependents:
  assumes "quarantine dt reg input reason now = Inr (r, reg')" "rl_specHash r \<noteq> Some h"
  shows "cache_has (hr_cache reg') h \<longleftrightarrow> cache_has (hr_cache reg) h"
proof -
  from assms(1) obtain reg1 where tr: "transition dt reg input reason Quarantined now = Inr (r, reg1)" "reg' = drop_cached r reg1"
    by (auto simp: quarantine_def bindE_Inr_iff)
  have "hr_cache reg1 = hr_cache reg" using tr(1) by (rule transition_Inr) simp
  with tr(2) assms(2) show ?thesis by (auto simp: drop_cached_def cache_has_delete split: option.splits)
qed

section \<open>Examples\<close>

definition hx_hash :: compute_spec_hash where
  "hx_hash = computeSpecHash hx_compare (\<lambda>s. s)"

text \<open>A package whose manifest is the given text.\<close>

definition hx_package :: "string \<Rightarrow> HarnessLoadRecord" where
  "hx_package m = hx_loaded\<lparr>hl_snapshot := JObj [(''id'', JStr ''pkg''), (''version'', JStr ''0.1.0''),
       (''specHash'', JStr (''sha256:harness.yaml'' @ [NUL] @ m))],
     hl_loadedFiles := [\<lparr>pf_relativePath = ''harness.yaml'', pf_raw = m, sf_absolutePath = ''/p/harness.yaml''\<rparr>]\<rparr>"

text \<open>A loader that returns one of two packages, depending on the limits it is called with.\<close>

definition hx_loader :: HarnessRegistryLoader where
  "hx_loader call = Inr (if li_limits call = JNull then hx_package ''b'' else hx_package ''a'')"

lemma hx_loader_faithful: "faithful_loader hx_hash hx_loader"
proof -
  have "hx_hash (map PackageFile.truncate (hl_loadedFiles (hx_package m))) (dn_resolved (hl_dependencies (hx_package m))) =
      Inr (snapshot_field ''specHash'' (hl_snapshot (hx_package m)))" if "m = ''a'' \<or> m = ''b''" for m
    using that by (elim disjE; simp; code_simp)
  then show ?thesis by (simp add: faithful_loader_def hx_loader_def)
qed

definition hx_key :: RegistryPackageKey where
  "hx_key = \<lparr>rk_packageId = ''pkg'', rk_version = ''0.1.0''\<rparr>"

definition hx_promotion :: "json \<Rightarrow> PromoteInput" where
  "hx_promotion limits = \<lparr>rk_packageId = ''pkg'', rk_version = ''0.1.0'',
     pi_approval = JObj [(''approvalId'', JStr ''a''), (''approvedBy'', JStr ''b''), (''approvedAt'', JStr ''t''),
       (''decision'', JStr ''approved'')],
     pi_packageDir = None, pi_loadOptions = Some hx_options, pi_limits = limits\<rparr>"

definition hx_staged :: HarnessRegistry where
  "hx_staged = snd (stageCandidate (new_registry 2 10) hx_key ''/p'' ''t0'')"

definition hx_dt :: "string \<Rightarrow> bool" where
  "hx_dt s \<longleftrightarrow> True"

lemma hx_staged_ok: "registry_ok hx_hash hx_staged"
  unfolding hx_staged_def by (rule stage_ok(1) [OF new_registry_ok])

lemma hx_prepared: "is_ok (preparePromotion hx_dt hx_loader hx_staged (hx_promotion JUndefined) ''t1'')"
  by code_simp

abbreviation hx_calls :: "(HarnessRegistryLoader \<times> registry_op) list" where
  "hx_calls \<equiv> [(hx_loader, StageOp hx_key ''/p'' ''t0''), (hx_loader, PromoteOp (hx_promotion JUndefined) ''t1'' ''t2'' 3)]"

definition hx_times :: cache_times where
  "hx_times = \<lparr>ct_now = 4, ct_accessed = 4, ct_stored = 5, ct_again = 5, ct_accessed_again = 5\<rparr>"

lemma hx_calls_valid: "list_all (valid_call hx_hash) hx_calls"
  by (simp add: valid_call_def hx_loader_faithful)

lemma hx_trusted_state:
  "state_of (fold (run_op hx_dt hx_compare hx_hash) hx_calls (new_registry 2 10)) (registryKey hx_key) = Some Trusted"
  by code_simp

lemma hx_consistent: "consistent hx_compare"
  by (auto simp: consistent_def hx_compare_def)

lemma hx_current:
  "is_ok (fst (resolveCurrentTrusted hx_compare hx_hash hx_loader
     (fold (run_op hx_dt hx_compare hx_hash) hx_calls (new_registry 2 10)) ''pkg'' hx_times))"
  by code_simp

lemma hx_revoked: "is_ok (revoke hx_dt hx_compare hx_staged (RegistryPackageKey.truncate (hx_promotion JUndefined)) None ''t2'')"
  by code_simp

theorem registry_is_consistent_witness:
  "\<exists>r. map_of (is_promoted (hr_store (fold (run_op hx_dt hx_compare hx_hash) hx_calls (new_registry 2 10)))) (registryKey hx_key) = Some r \<and>
     version_ok hx_hash r"
proof -
  let ?reg = "fold (run_op hx_dt hx_compare hx_hash) hx_calls (new_registry 2 10)"
  obtain l where "is_lifecycle (hr_store ?reg) (registryKey hx_key) = Some l" "rl_state l = Trusted"
    using hx_trusted_state unfolding state_of_def by blast
  with registry_is_consistent [OF hx_calls_valid, of hx_dt hx_compare 2 10 "registryKey hx_key" l] show ?thesis by blast
qed


theorem current_version_is_trusted_witness:
  "\<exists>(r :: RegistryPromotedVersion) s reg'. resolveCurrentTrusted hx_compare hx_hash hx_loader
       (fold (run_op hx_dt hx_compare hx_hash) hx_calls (new_registry 2 10)) ''pkg'' hx_times = (Inr s, reg') \<and>
     rk_packageId r = ''pkg'' \<and> snapshot_field ''specHash'' s = rp_specHash r"
proof -
  let ?reg = "fold (run_op hx_dt hx_compare hx_hash) hx_calls (new_registry 2 10)"
  obtain s reg' where r: "resolveCurrentTrusted hx_compare hx_hash hx_loader ?reg ''pkg'' hx_times = (Inr s, reg')"
    using hx_current unfolding is_ok_iff by (metis prod.collapse)
  from current_version_is_trusted [OF sequential.inv_run [OF new_registry_ok hx_calls_valid] hx_consistent r] r
  show ?thesis by blast
qed

theorem batch_is_atomic_witness:
  "snd (promoteBatch hx_dt hx_hash hx_loader hx_staged
     [hx_promotion JUndefined, (hx_promotion JUndefined)\<lparr>rk_version := ''9''\<rparr>] (\<lambda>i. ''t1'') (\<lambda>i. (''t2'', 3))) = hx_staged"
proof -
  let ?b = "promoteBatch hx_dt hx_hash hx_loader hx_staged
     [hx_promotion JUndefined, (hx_promotion JUndefined)\<lparr>rk_version := ''9''\<rparr>] (\<lambda>i. ''t1'') (\<lambda>i. (''t2'', 3))"
  have "\<not> is_ok (fst ?b)" by code_simp
  then obtain e where "fst ?b = Inl e" by (cases "fst ?b") auto
  then have "?b = (Inl e, snd ?b)" by (metis prod.collapse)
  from batch_is_atomic [OF hx_staged_ok hx_loader_faithful this] show ?thesis by blast
qed

theorem revocation_purges_cache_witness:
  "\<exists>r reg'. revoke hx_dt hx_compare hx_staged (RegistryPackageKey.truncate (hx_promotion JUndefined)) None ''t2'' = Inr (r, reg') \<and>
     state_of reg' (registryKey hx_key) = Some Revoked"
proof -
  obtain r reg' where r: "revoke hx_dt hx_compare hx_staged (RegistryPackageKey.truncate (hx_promotion JUndefined)) None ''t2'' = Inr (r, reg')"
    using hx_revoked unfolding is_ok_iff by (metis prod.collapse)
  have "registryKey (RegistryPackageKey.truncate (hx_promotion JUndefined)) = registryKey hx_key"
    unfolding registryKey_truncate by (simp add: registryKey_def hx_promotion_def hx_key_def)
  with revocation_purges_cache [OF hx_staged_ok r] r show ?thesis by auto
qed

theorem revocation_during_promotion_is_lost_witness:
  "\<exists>p r reg'. preparePromotion hx_dt hx_loader hx_staged (hx_promotion JUndefined) ''t1'' = Inr p \<and>
     revoke hx_dt hx_compare hx_staged (RegistryPackageKey.truncate (hx_promotion JUndefined)) None ''t2'' = Inr (r, reg') \<and>
     state_of reg' (registryKey (hx_promotion JUndefined)) = Some Revoked \<and>
     state_of (snd (commitPromotion hx_hash reg' p ''t3'' 3)) (registryKey (hx_promotion JUndefined)) = Some Trusted"
proof -
  obtain p where p: "preparePromotion hx_dt hx_loader hx_staged (hx_promotion JUndefined) ''t1'' = Inr p"
    using hx_prepared unfolding is_ok_iff by blast
  obtain r reg' where r: "revoke hx_dt hx_compare hx_staged (RegistryPackageKey.truncate (hx_promotion JUndefined)) None ''t2'' = Inr (r, reg')"
    using hx_revoked unfolding is_ok_iff by (metis prod.collapse)
  from revocation_during_promotion_is_lost [OF hx_staged_ok p r] p r show ?thesis by blast
qed

text \<open>
  A batch that names one version twice is prepared on the state before it, so neither promotion sees the
  other: both commit, and the second overwrites the version with different bytes.
\<close>

lemma batch_overwrites_version:
  "let b = promoteBatch hx_dt hx_hash hx_loader hx_staged [hx_promotion JUndefined, hx_promotion JNull] (\<lambda>i. ''t1'') (\<lambda>i. (''t2'', 3)) in
     is_ok (fst b) \<and>
     map_option rp_specHash (getPromotedVersion (hr_store (snd b)) hx_key) = Some (''sha256:harness.yaml'' @ [NUL] @ ''b'') \<and>
     map_option registryKey (findPromotedBySpecHash (hr_store (snd b)) (''sha256:harness.yaml'' @ [NUL] @ ''a'')) = Some (registryKey hx_key)"
  by code_simp

end
