(* ===== verification/Posix_Paths.thy ===== *)
theory Posix_Paths
  imports Prelude
begin

text \<open>
  The functions of \<^verbatim>\<open>node:path\<close> on POSIX paths that the tool broker and the harness loader use to
  confine what they read: \<^verbatim>\<open>isAbsolute\<close>, \<^verbatim>\<open>resolve\<close> and \<^verbatim>\<open>relative\<close>. An absolute path is the list
  of its resolved segments, and the relative path between two of them climbs to their common ancestor.
\<close>

section \<open>Paths\<close>

definition isAbsolute :: "string \<Rightarrow> bool" where
  "isAbsolute p \<longleftrightarrow> starts_with ''/'' p"

fun normal_segments :: "string list \<Rightarrow> string list \<Rightarrow> string list" where
  "normal_segments acc [] = rev acc"
| "normal_segments acc (x # xs) =
     (if x = [] \<or> x = ''.'' then normal_segments acc xs
      else if x = ''..'' then normal_segments (tl acc) xs
      else normal_segments (x # acc) xs)"

text \<open>The segments of an absolute path, resolved.\<close>

definition segs_of :: "string \<Rightarrow> string list" where
  "segs_of p = normal_segments [] (split_on CHR ''/'' p)"

definition abs_path :: "string list \<Rightarrow> string" where
  "abs_path ss = CHR ''/'' # join ''/'' ss"

text \<open>\<^verbatim>\<open>resolve(base, path)\<close> for an absolute base.\<close>

definition path_resolve :: "string \<Rightarrow> string \<Rightarrow> string" where
  "path_resolve base path =
     abs_path (if isAbsolute path then segs_of path
               else normal_segments [] (split_on CHR ''/'' base @ split_on CHR ''/'' path))"

fun strip_common :: "'a list \<Rightarrow> 'a list \<Rightarrow> 'a list \<times> 'a list" where
  "strip_common (x # xs) (y # ys) = (if x = y then strip_common xs ys else (x # xs, y # ys))"
| "strip_common xs ys = (xs, ys)"

definition path_relative :: "string \<Rightarrow> string \<Rightarrow> string" where
  "path_relative from to =
     (let r = strip_common (segs_of from) (segs_of to) in
      join ''/'' (map (\<lambda>_. ''..'') (fst r) @ snd r))"

section \<open>Facts\<close>

definition good_segment :: "string \<Rightarrow> bool" where
  "good_segment s \<longleftrightarrow> s \<noteq> [] \<and> s \<noteq> ''.'' \<and> s \<noteq> ''..'' \<and> CHR ''/'' \<notin> set s"

lemma split_on_no_separator: "x \<in> set (split_on d s) \<Longrightarrow> d \<notin> set x"
proof (induction s arbitrary: x)
  case (Cons c cs)
  then show ?case by (auto split: if_splits list.splits)
qed simp

lemma normal_segments_good:
  assumes "\<forall>x \<in> set acc. good_segment x" "\<forall>x \<in> set xs. CHR ''/'' \<notin> set x"
  shows "\<forall>x \<in> set (normal_segments acc xs). good_segment x"
  using assms
proof (induction acc xs rule: normal_segments.induct)
  case (2 acc x xs)
  moreover have "\<forall>y \<in> set (tl acc). good_segment y" using "2.prems"(1) by (cases acc) simp_all
  moreover have "x \<noteq> [] \<Longrightarrow> x \<noteq> ''.'' \<Longrightarrow> x \<noteq> ''..'' \<Longrightarrow> good_segment x"
    using "2.prems"(2) by (simp add: good_segment_def)
  ultimately show ?case by simp
qed simp

lemma segs_of_good: "x \<in> set (segs_of p) \<Longrightarrow> good_segment x"
  unfolding segs_of_def by (rule normal_segments_good [rule_format, rotated -1]) (auto dest: split_on_no_separator)

lemma strip_common_split:
  "\<exists>c. xs = c @ fst (strip_common xs ys) \<and> ys = c @ snd (strip_common xs ys)"
proof (induction xs ys rule: strip_common.induct)
  case (1 x xs y ys)
  then show ?case by (cases "x = y") (auto, metis append_Cons)
qed simp_all

lemma strip_common_prefix: "strip_common xs (xs @ ys) = ([], ys)"
  by (induction xs) (cases ys; simp)+

lemma join_head: "join ''/'' (r # rs) = r @ (if rs = [] then [] else ''/'' @ join ''/'' rs)"
  by (cases rs) simp_all

lemma dots_head:
  assumes "good_segment r"
  shows "starts_with ''..'' (join ''/'' (r # rs)) \<longleftrightarrow> starts_with ''..'' r" "\<not> isAbsolute (join ''/'' (r # rs))"
    "join ''/'' (r # rs) \<noteq> []"
  using assms
  by (cases r; cases "tl r"; auto simp: join_head good_segment_def starts_with_def isAbsolute_def)+

end
