(* ===== verification/Harness_Fetch.thy ===== *)
theory Harness_Fetch
  imports Harness_Definitions Harness_Registry Posix_Paths
begin

text \<open>
  The fetch stage of a load and its limits (\<^verbatim>\<open>harness-loader/src/limits.ts\<close> and the readers of
  \<^verbatim>\<open>harness-loader/src/index.ts\<close>): the manifest and the files of eight directories are read, each only
  after its real path was found inside the real package directory, and a limited load counts files and
  bytes while it reads and inspects the raw texts afterwards. The file system is a parameter that does not
  change during the stage; \<^verbatim>\<open>JSON.parse\<close> is that of the YAML reader. Reads without limits run
  concurrently in the code; the model takes them in order, which is what a successful fetch returns. The
  state keeps the paths that were read.

  The results: whatever the fetch returns or throws, no file outside the package is read and a limited
  fetch reads no more files than its limit; a fetch that passes is within every limit. An example shows
  where the inspection of the raw text sees less than the parser.
\<close>

section \<open>Limits\<close>

record HarnessLoaderLimits =
  ll_limitsVersion :: string
  ll_maxPackageBytes :: nat
  ll_maxFileCount :: nat
  ll_maxDefinitionsPerKind :: nat
  ll_maxPhaseGraphNodes :: nat
  ll_maxPhaseGraphEdges :: nat
  ll_maxArtifactSchemaBytes :: nat
  ll_maxArtifactSchemaDepth :: nat
  ll_maxDependencyDepth :: nat
  ll_maxDependencyFanout :: nat
  ll_cacheMaxEntries :: nat
  ll_cacheTtlMs :: nat

definition z_nonnegative :: "json \<Rightarrow> bool" where
  "z_nonnegative v = (case v of JNum n \<Rightarrow> n \<ge> 0 | _ \<Rightarrow> False)"

definition HarnessLoaderLimitsSchema :: "json \<Rightarrow> bool" where
  "HarnessLoaderLimitsSchema = z_strict
     [(''limitsVersion'', nonEmptyString), (''maxPackageBytes'', isPositiveInteger), (''maxFileCount'', isPositiveInteger),
      (''maxDefinitionsPerKind'', isPositiveInteger), (''maxPhaseGraphNodes'', isPositiveInteger),
      (''maxPhaseGraphEdges'', z_nonnegative), (''maxArtifactSchemaBytes'', isPositiveInteger),
      (''maxArtifactSchemaDepth'', isPositiveInteger), (''maxDependencyDepth'', isPositiveInteger),
      (''maxDependencyFanout'', isPositiveInteger), (''cacheMaxEntries'', isPositiveInteger),
      (''cacheTtlMs'', isPositiveInteger)]"

definition num_at :: "json \<Rightarrow> string \<Rightarrow> nat" where
  "num_at v k = (case js_get v k of JNum n \<Rightarrow> nat n | _ \<Rightarrow> 0)"

definition limits_of :: "json \<Rightarrow> HarnessLoaderLimits" where
  "limits_of v =
     \<lparr>ll_limitsVersion = the_str (fstr v ''limitsVersion''), ll_maxPackageBytes = num_at v ''maxPackageBytes'',
      ll_maxFileCount = num_at v ''maxFileCount'', ll_maxDefinitionsPerKind = num_at v ''maxDefinitionsPerKind'',
      ll_maxPhaseGraphNodes = num_at v ''maxPhaseGraphNodes'', ll_maxPhaseGraphEdges = num_at v ''maxPhaseGraphEdges'',
      ll_maxArtifactSchemaBytes = num_at v ''maxArtifactSchemaBytes'',
      ll_maxArtifactSchemaDepth = num_at v ''maxArtifactSchemaDepth'', ll_maxDependencyDepth = num_at v ''maxDependencyDepth'',
      ll_maxDependencyFanout = num_at v ''maxDependencyFanout'', ll_cacheMaxEntries = num_at v ''cacheMaxEntries'',
      ll_cacheTtlMs = num_at v ''cacheTtlMs''\<rparr>"

text \<open>\<^verbatim>\<open>{...a, ...b}\<close>.\<close>

definition spread :: "json \<Rightarrow> json \<Rightarrow> json" where
  "spread a b = JObj (fold (\<lambda>(k, v) ps. js_put k v ps) (js_entries b) (js_entries a))"

definition normalizeHarnessLoaderLimits :: "json \<Rightarrow> harness_error + HarnessLoaderLimits" where
  "normalizeHarnessLoaderLimits limits =
     (let merged = spread DEFAULT_HARNESS_LOADER_LIMITS limits in
      if HarnessLoaderLimitsSchema merged then Inr (limits_of merged) else Inl UncaughtError)"

definition assertLimit :: "string \<Rightarrow> nat \<Rightarrow> nat \<Rightarrow> harness_error + unit" where
  "assertLimit limit observed permitted =
     (if observed \<le> permitted then Inr () else Inl (HarnessLoaderError ''resource_limit_exceeded'' limit))"

text \<open>The bytes of the UTF-8 encoding of a text.\<close>

definition raw_bytes :: "string \<Rightarrow> nat" where
  "raw_bytes s = sum_list (map (\<lambda>c. if (of_char c :: nat) < 128 then 1 else 2) s)"

section \<open>Inspection of the raw texts\<close>

definition indent_of :: "string \<Rightarrow> nat" where
  "indent_of l = length l - length (trimStart l)"

text \<open>
  The lines of the first block below a key: those after the line of the key, up to a line that is not
  blank and not indented further; the result also has the indentation of the key.
\<close>

fun block_below :: "string \<Rightarrow> string list \<Rightarrow> nat \<times> string list" where
  "block_below key [] = (0, [])"
| "block_below key (l # ls) =
     (if trim l = key @ '':'' then (indent_of l, takeWhile (\<lambda>m. \<not> (trim m \<noteq> [] \<and> indent_of m \<le> indent_of l)) ls)
      else block_below key ls)"

definition item_lines :: "string \<Rightarrow> string \<Rightarrow> nat \<times> string list" where
  "item_lines raw key = (let b = block_below key (split_lines raw) in (fst b, filter (\<lambda>l. starts_with ''- '' (trim l)) (snd b)))"

definition countInlineDefinitions :: "string \<Rightarrow> string \<Rightarrow> nat" where
  "countInlineDefinitions raw key = length (snd (item_lines raw key))"

text \<open>
  One match of \<^verbatim>\<open>\s*-?\s*key:\s*\S+\<close>, greedy without backtracking, since neither a dash nor the first
  character of the key is a blank; the result is the text after the match.
\<close>

definition match_key :: "string \<Rightarrow> string \<Rightarrow> string option" where
  "match_key key s =
     (let t = dropWhile is_space s;
          u = (if starts_with ''-'' t then dropWhile is_space (tl t) else t) in
      if \<not> starts_with (key @ '':'') u then None
      else let v = dropWhile is_space (drop (length key + 1) u) in
        if v = [] then None else Some (dropWhile (\<lambda>c. \<not> is_space c) v))"

lemma length_dropWhile: "length (dropWhile P xs) \<le> length xs"
  by (metis length_append le_add2 takeWhile_dropWhile_id)

lemma match_key_shorter:
  assumes "match_key key s = Some r"
  shows "length r < length s"
proof -
  let ?t = "dropWhile is_space s"
  let ?u = "if starts_with ''-'' ?t then dropWhile is_space (tl ?t) else ?t"
  let ?v = "dropWhile is_space (drop (length key + 1) ?u)"
  have "starts_with (key @ '':'') ?u" "r = dropWhile (\<lambda>c. \<not> is_space c) ?v"
    using assms unfolding match_key_def Let_def by (metis option.distinct(1), metis option.distinct(1) option.inject)
  moreover have "length (drop (length key + 1) u) < length u" if "starts_with (key @ '':'') u" for u
    using that by (auto simp: starts_with_iff)
  ultimately have "length r \<le> length ?v" "length (drop (length key + 1) ?u) < length ?u"
    by (simp only: length_dropWhile, blast)
  moreover have "length ?v \<le> length (drop (length key + 1) ?u)" by (rule length_dropWhile)
  moreover have "length ?u \<le> length s"
    using length_dropWhile [of is_space s] length_dropWhile [of is_space "tl ?t"] length_tl [of ?t] by (simp split: if_split) linarith
  ultimately show ?thesis by linarith
qed

text \<open>
  \<^verbatim>\<open>[...raw.matchAll(/(^|\n).../gu)].length\<close>: matches start at the start of the text or with a
  line feed, from left to right without overlaps.
\<close>

function count_matches :: "string \<Rightarrow> bool \<Rightarrow> string \<Rightarrow> nat" where
  "count_matches key at_start s =
     (case (if at_start then match_key key s
            else if starts_with [CHR 0x0A] s then match_key key (tl s) else None) of
        Some r \<Rightarrow> 1 + count_matches key False r
      | None \<Rightarrow> (case s of [] \<Rightarrow> 0 | c # cs \<Rightarrow> count_matches key False cs))"
  by pat_completeness auto
termination
  by (relation "measure (\<lambda>(key, at_start, s). length s)")
     (auto split: if_splits dest!: match_key_shorter intro: less_le_trans)

declare count_matches.simps [simp del]

definition countYamlKey :: "string \<Rightarrow> string \<Rightarrow> nat" where
  "countYamlKey raw key = count_matches key True raw"

definition value_references :: "string \<Rightarrow> string \<Rightarrow> nat" where
  "value_references key l =
     (let trimmed = trim l in
      if \<not> starts_with (key @ '':'') trimmed then 0
      else let v = trim (drop (length key + 1) trimmed) in
        if starts_with ''['' v \<and> ends_with '']'' v
        then length (filter (\<lambda>e. e \<noteq> []) (map trim (split_on (CHR '','') (slice_inner v))))
        else if v \<noteq> [] then 1 else 0)"

definition countYamlValueReferences :: "string \<Rightarrow> string \<Rightarrow> nat" where
  "countYamlValueReferences raw key = sum_list (map (value_references key) (split_lines raw))"

definition summarizePhaseGraph :: "string \<Rightarrow> nat \<times> nat" where
  "summarizePhaseGraph raw =
     (countYamlKey raw ''id'',
      countYamlValueReferences raw ''next'' + countYamlValueReferences raw ''dependsOn'' + countYamlValueReferences raw ''after'')"

function json_depth :: "json \<Rightarrow> nat" where
  "json_depth v =
     (case v of
        JArr xs \<Rightarrow> (if xs = [] then 1 else 1 + Max (set (map json_depth xs)))
      | JObj ps \<Rightarrow> (if ps = [] then 1 else 1 + Max (set (map (\<lambda>p. json_depth (snd p)) ps)))
      | _ \<Rightarrow> 1)"
  by pat_completeness auto
termination
  by (relation "measure size") (auto dest: size_element size_member)

declare json_depth.simps [simp del]

definition jsonDepth :: "yaml_env \<Rightarrow> string \<Rightarrow> nat" where
  "jsonDepth env raw = (case ye_json env raw of None \<Rightarrow> 1 | Some v \<Rightarrow> json_depth v)"

text \<open>Depth and fan-out; an item is indented further than the key, so the subtraction is exact.\<close>

definition summarizeDependencyLimits :: "string \<Rightarrow> nat \<times> nat" where
  "summarizeDependencyLimits raw =
     (let b = item_lines raw ''dependencies'' in
      (fold max (map (\<lambda>l. max 1 ((indent_of l - fst b) div 2)) (snd b)) 0, length (snd b)))"

section \<open>The check of a fetched package\<close>

definition definitionDirectories :: "(string \<times> string) list" where
  "definitionDirectories =
     [(''phases'', ''phases/''), (''gates'', ''gates/''), (''policies'', ''policies/''), (''tools'', ''tools/''),
      (''artifacts'', ''artifact-schemas/''), (''evals'', ''evals/''), (''roles'', ''roles/''), (''prompts'', ''prompts/'')]"

definition kindForPath :: "string \<Rightarrow> string option" where
  "kindForPath path = map_option fst (find (\<lambda>(kind, directory). starts_with directory path) definitionDirectories)"

record HarnessPackageLimitSummary =
  ls_fileCount :: nat
  ls_packageBytes :: nat
  ls_definitionCounts :: "(string \<times> nat) list"
  ls_phaseGraphNodes :: nat
  ls_phaseGraphEdges :: nat
  ls_maxArtifactSchemaBytesObserved :: nat
  ls_maxArtifactSchemaDepthObserved :: nat
  ls_dependencyDepthObserved :: nat
  ls_dependencyFanoutObserved :: nat

definition is_manifest :: "SourceFile \<Rightarrow> bool" where
  "is_manifest f \<longleftrightarrow> pf_relativePath f = ''harness.yaml''"

text \<open>What one file adds to the count of the definitions of a kind.\<close>

definition definitions_in :: "string \<Rightarrow> SourceFile \<Rightarrow> nat" where
  "definitions_in kind f =
     (if kindForPath (pf_relativePath f) = Some kind then 1 else 0) +
     (if is_manifest f then countInlineDefinitions (pf_raw f) kind else 0)"

definition graph_of :: "SourceFile \<Rightarrow> nat \<times> nat" where
  "graph_of f =
     (if kindForPath (pf_relativePath f) = Some ''phases'' \<or> is_manifest f then summarizePhaseGraph (pf_raw f) else (0, 0))"

definition largest :: "nat list \<Rightarrow> nat" where
  "largest ns = fold max ns 0"

definition summarizePackageFiles :: "yaml_env \<Rightarrow> SourceFile list \<Rightarrow> HarnessPackageLimitSummary" where
  "summarizePackageFiles env files =
     (let artifacts = filter (\<lambda>f. kindForPath (pf_relativePath f) = Some ''artifacts'') files;
          manifests = filter is_manifest files in
      \<lparr>ls_fileCount = length files, ls_packageBytes = sum_list (map (\<lambda>f. raw_bytes (pf_raw f)) files),
       ls_definitionCounts = map (\<lambda>(kind, directory). (kind, sum_list (map (definitions_in kind) files))) definitionDirectories,
       ls_phaseGraphNodes = sum_list (map (\<lambda>f. fst (graph_of f)) files),
       ls_phaseGraphEdges = sum_list (map (\<lambda>f. snd (graph_of f)) files),
       ls_maxArtifactSchemaBytesObserved = largest (map (\<lambda>f. raw_bytes (pf_raw f)) artifacts),
       ls_maxArtifactSchemaDepthObserved = largest (map (\<lambda>f. jsonDepth env (pf_raw f)) artifacts),
       ls_dependencyDepthObserved = largest (map (\<lambda>f. fst (summarizeDependencyLimits (pf_raw f))) manifests),
       ls_dependencyFanoutObserved = largest (map (\<lambda>f. snd (summarizeDependencyLimits (pf_raw f))) manifests)\<rparr>)"

definition assertFetchedPackageWithinLimits ::
  "yaml_env \<Rightarrow> HarnessLoaderLimits \<Rightarrow> SourceFile list \<Rightarrow> harness_error + HarnessPackageLimitSummary" where
  "assertFetchedPackageWithinLimits env limits files =
     (let summary = summarizePackageFiles env files in
      bindE (forE (\<lambda>(limit, observed, permitted). assertLimit limit observed permitted)
        ([(''maxFileCount'', ls_fileCount summary, ll_maxFileCount limits),
          (''maxPackageBytes'', ls_packageBytes summary, ll_maxPackageBytes limits)] @
         map (\<lambda>(kind, count). (''maxDefinitionsPerKind'', count, ll_maxDefinitionsPerKind limits)) (ls_definitionCounts summary) @
         [(''maxPhaseGraphNodes'', ls_phaseGraphNodes summary, ll_maxPhaseGraphNodes limits),
          (''maxPhaseGraphEdges'', ls_phaseGraphEdges summary, ll_maxPhaseGraphEdges limits),
          (''maxArtifactSchemaBytes'', ls_maxArtifactSchemaBytesObserved summary, ll_maxArtifactSchemaBytes limits),
          (''maxArtifactSchemaDepth'', ls_maxArtifactSchemaDepthObserved summary, ll_maxArtifactSchemaDepth limits),
          (''maxDependencyDepth'', ls_dependencyDepthObserved summary, ll_maxDependencyDepth limits),
          (''maxDependencyFanout'', ls_dependencyFanoutObserved summary, ll_maxDependencyFanout limits)])) (\<lambda>_.
      Inr summary))"

section \<open>Reading\<close>

datatype io_error = ENOENT | OtherIoError

datatype entry_kind = FileEntry | SymlinkEntry | OtherEntry

record package_fs =
  pk_realpath :: "string \<Rightarrow> io_error + string"
  pk_readdir :: "string \<Rightarrow> io_error + (string \<times> entry_kind) list"
  pk_readFile :: "string \<Rightarrow> io_error + string"

datatype fetch_thrown = LoaderThrown harness_error | IoThrown io_error

record read_state =
  rs_fileCount :: nat
  rs_packageBytes :: nat
  rs_reads :: "string list"

type_synonym 'a reader = "read_state \<Rightarrow> (fetch_thrown + 'a) \<times> read_state"

definition then_read :: "'a reader \<Rightarrow> ('a \<Rightarrow> 'b reader) \<Rightarrow> 'b reader" where
  "then_read m f st = (case m st of (Inl e, st') \<Rightarrow> (Inl e, st') | (Inr x, st') \<Rightarrow> f x st')"

definition read_io :: "(io_error + 'a) \<Rightarrow> 'a reader" where
  "read_io r st = (case r of Inl e \<Rightarrow> Inl (IoThrown e) | Inr x \<Rightarrow> Inr x, st)"

definition read_check :: "harness_error + 'a \<Rightarrow> 'a reader" where
  "read_check r st = (case r of Inl e \<Rightarrow> Inl (LoaderThrown e) | Inr x \<Rightarrow> Inr x, st)"

definition reserveFile :: "HarnessLoaderLimits option \<Rightarrow> unit reader" where
  "reserveFile limits st =
     (case limits of None \<Rightarrow> (Inr (), st)
      | Some l \<Rightarrow> (let st' = st\<lparr>rs_fileCount := rs_fileCount st + 1\<rparr> in
          read_check (assertLimit ''maxFileCount'' (rs_fileCount st') (ll_maxFileCount l)) st'))"

definition observeFile :: "HarnessLoaderLimits option \<Rightarrow> SourceFile \<Rightarrow> unit reader" where
  "observeFile limits f st =
     (case limits of None \<Rightarrow> (Inr (), st)
      | Some l \<Rightarrow> (let st' = st\<lparr>rs_packageBytes := rs_packageBytes st + raw_bytes (pf_raw f)\<rparr> in
          read_check (assertLimit ''maxPackageBytes'' (rs_packageBytes st') (ll_maxPackageBytes l)) st'))"

definition normalizeRelativePath :: "string \<Rightarrow> string" where
  "normalizeRelativePath path = map (\<lambda>c. if c = CHR 0x5C then CHR ''/'' else c) path"

definition outside_root :: "string \<Rightarrow> string \<Rightarrow> bool" where
  "outside_root realRoot realTarget \<longleftrightarrow>
     (let normalizedRealRelative = normalizeRelativePath (path_relative realRoot realTarget) in
      normalizedRealRelative = ''..'' \<or> starts_with ''../'' normalizedRealRelative)"

definition assertResolvedPathInsidePackage :: "package_fs \<Rightarrow> string \<Rightarrow> string \<Rightarrow> unit reader" where
  "assertResolvedPathInsidePackage fs root absolutePath =
     then_read (read_io (pk_realpath fs root)) (\<lambda>realRoot.
     then_read (read_io (pk_realpath fs absolutePath)) (\<lambda>realTarget.
       read_check (if outside_root realRoot realTarget then Inl (HarnessLoaderError ''parse_error'' ''path_escape'') else Inr ())))"

text \<open>\<^verbatim>\<open>readFile\<close>; the state records the path.\<close>

definition read_file :: "package_fs \<Rightarrow> string \<Rightarrow> string reader" where
  "read_file fs path st = read_io (pk_readFile fs path) (st\<lparr>rs_reads := rs_reads st @ [path]\<rparr>)"

definition readSourceFile :: "package_fs \<Rightarrow> HarnessLoaderLimits option \<Rightarrow> string \<Rightarrow> string \<Rightarrow> SourceFile reader" where
  "readSourceFile fs limits packageDir relativePath =
     (let absolutePath = path_resolve packageDir relativePath;
          normalizedRelative = normalizeRelativePath (path_relative packageDir absolutePath) in
      if starts_with ''..'' normalizedRelative then read_check (Inl (failure ''parse_error''))
      else
        then_read (assertResolvedPathInsidePackage fs packageDir absolutePath) (\<lambda>_.
        then_read (reserveFile limits) (\<lambda>_.
        then_read (read_file fs absolutePath) (\<lambda>raw.
          let f = \<lparr>pf_relativePath = normalizedRelative, pf_raw = raw, sf_absolutePath = absolutePath\<rparr> in
          then_read (observeFile limits f) (\<lambda>_ st. (Inr f, st))))))"

fun read_files :: "(string \<Rightarrow> SourceFile reader) \<Rightarrow> string list \<Rightarrow> SourceFile list reader" where
  "read_files reader [] = (\<lambda>st. (Inr [], st))"
| "read_files reader (path # paths) =
     then_read (reader path) (\<lambda>f. then_read (read_files reader paths) (\<lambda>fs st. (Inr (f # fs), st)))"

definition readRequiredFile :: "package_fs \<Rightarrow> HarnessLoaderLimits option \<Rightarrow> string \<Rightarrow> string \<Rightarrow> SourceFile reader" where
  "readRequiredFile fs limits packageDir relativePath st =
     (case readSourceFile fs limits packageDir relativePath st of
        (Inl (IoThrown e), st') \<Rightarrow> (Inl (LoaderThrown (failure ''missing_harness_manifest'')), st')
      | r \<Rightarrow> r)"

text \<open>The paths of a directory that are read, or none if the directory is missing.\<close>

definition directory_paths :: "package_fs \<Rightarrow> locale_compare \<Rightarrow> string \<Rightarrow> string \<Rightarrow> string list \<Rightarrow> string list reader" where
  "directory_paths fs lc packageDir dir extensions st =
     (let absoluteDir = path_resolve packageDir dir in
      case then_read (assertResolvedPathInsidePackage fs packageDir absoluteDir) (\<lambda>_. read_io (pk_readdir fs absoluteDir)) st of
        (Inl (IoThrown ENOENT), st') \<Rightarrow> (Inr [], st')
      | (Inl e, st') \<Rightarrow> (Inl e, st')
      | (Inr entries, st') \<Rightarrow>
          (Inr (js_sort lc (filter (\<lambda>path. extname path \<in> set extensions)
             (map (\<lambda>e. dir @ ''/'' @ fst e) (filter (\<lambda>e. snd e = FileEntry \<or> snd e = SymlinkEntry) entries)))), st'))"

definition readOptionalDirectory ::
  "package_fs \<Rightarrow> locale_compare \<Rightarrow> HarnessLoaderLimits option \<Rightarrow> string \<Rightarrow> string \<times> string list \<Rightarrow> SourceFile list reader" where
  "readOptionalDirectory fs lc limits packageDir d =
     then_read (directory_paths fs lc packageDir (fst d) (snd d)) (read_files (readSourceFile fs limits packageDir))"

definition harness_directories :: "(string \<times> string list) list" where
  "harness_directories =
     (let data = [''.yaml'', ''.yml'', ''.json''] in
      [(''phases'', data), (''gates'', data), (''policies'', data), (''tools'', data), (''artifact-schemas'', [''.json'']),
       (''evals'', data), (''roles'', data), (''prompts'', [''.md''])])"

fun readHarnessDirectories ::
  "package_fs \<Rightarrow> locale_compare \<Rightarrow> HarnessLoaderLimits option \<Rightarrow> string \<Rightarrow> (string \<times> string list) list \<Rightarrow> SourceFile list reader" where
  "readHarnessDirectories fs lc limits packageDir [] = (\<lambda>st. (Inr [], st))"
| "readHarnessDirectories fs lc limits packageDir (d # ds) =
     then_read (readOptionalDirectory fs lc limits packageDir d) (\<lambda>files.
     then_read (readHarnessDirectories fs lc limits packageDir ds) (\<lambda>others st. (Inr (files @ others), st)))"

definition fetch_files :: "package_fs \<Rightarrow> locale_compare \<Rightarrow> HarnessLoaderLimits option \<Rightarrow> string \<Rightarrow> SourceFile list reader" where
  "fetch_files fs lc limits packageDir =
     then_read (readRequiredFile fs limits packageDir HARNESS_MANIFEST_FILE) (\<lambda>manifestFile.
     then_read (readHarnessDirectories fs lc limits packageDir harness_directories) (\<lambda>files st. (Inr (manifestFile # files), st)))"

definition no_reads :: read_state where
  "no_reads = \<lparr>rs_fileCount = 0, rs_packageBytes = 0, rs_reads = []\<rparr>"

text \<open>
  The fetch stage: without limits, or as \<^verbatim>\<open>loadHarnessPackageWithLimits\<close> sets it up, with the
  observer that checks what the stage returned.
\<close>

definition fetch_stage :: "yaml_env \<Rightarrow> package_fs \<Rightarrow> locale_compare \<Rightarrow> HarnessLoaderLimits option \<Rightarrow> string \<Rightarrow>
  (harness_error + SourceFile list) \<times> read_state" where
  "fetch_stage env fs lc limits packageDir =
     (case fetch_files fs lc limits packageDir no_reads of
        (Inl (LoaderThrown e), st) \<Rightarrow> (Inl e, st)
      | (Inl (IoThrown e), st) \<Rightarrow> (Inl UncaughtError, st)
      | (Inr files, st) \<Rightarrow>
          ((case limits of None \<Rightarrow> Inr files
            | Some l \<Rightarrow> bindE (assertFetchedPackageWithinLimits env l files) (\<lambda>_. Inr files)), st))"

section \<open>No file outside the package is read\<close>

text \<open>The real path of a file is the real path of the package directory or below it.\<close>

definition inside_package :: "package_fs \<Rightarrow> string \<Rightarrow> string \<Rightarrow> bool" where
  "inside_package fs packageDir path \<longleftrightarrow> (\<exists>root target rest. pk_realpath fs packageDir = Inr root \<and>
     pk_realpath fs path = Inr target \<and> segs_of target = segs_of root @ rest)"

lemma normalize_dots: "normalizeRelativePath (''..'' @ s) = ''..'' @ normalizeRelativePath s"
  "normalizeRelativePath (CHR ''/'' # s) = CHR ''/'' # normalizeRelativePath s"
  by (simp_all add: normalizeRelativePath_def)

lemma not_outside:
  assumes "\<not> outside_root root target"
  shows "\<exists>rest. segs_of target = segs_of root @ rest"
proof -
  obtain a b where ab: "strip_common (segs_of root) (segs_of target) = (a, b)" by fastforce
  obtain c where c: "segs_of root = c @ a" "segs_of target = c @ b"
    using strip_common_split [of "segs_of root" "segs_of target"] ab by auto
  show ?thesis
  proof (cases a)
    case (Cons x xs)
    then have "path_relative root target = ''..'' @
        (if map (\<lambda>_. ''..'') xs @ b = [] then [] else ''/'' @ join ''/'' (map (\<lambda>_. ''..'') xs @ b))"
      using ab by (simp add: path_relative_def join_head)
    then have "outside_root root target"
      by (auto simp: outside_root_def normalize_dots starts_with_def Let_def normalizeRelativePath_def)
    with assms show ?thesis by simp
  qed (use c in simp)
qed

text \<open>
  The contract of a reader: it keeps the invariant on what was read, also when it throws, and a result
  is related to the files that it read.
\<close>

definition reads_ok :: "package_fs \<Rightarrow> HarnessLoaderLimits option \<Rightarrow> string \<Rightarrow> read_state \<Rightarrow> bool" where
  "reads_ok fs limits dir st \<longleftrightarrow> (\<forall>p \<in> set (rs_reads st). inside_package fs dir p) \<and>
     (\<forall>l. limits = Some l \<longrightarrow> length (rs_reads st) \<le> rs_fileCount st \<and> length (rs_reads st) \<le> ll_maxFileCount l)"

definition fetched :: "package_fs \<Rightarrow> read_state \<Rightarrow> read_state \<Rightarrow> SourceFile list \<Rightarrow> bool" where
  "fetched fs st st' files \<longleftrightarrow> rs_reads st' = rs_reads st @ map sf_absolutePath files \<and>
     (\<forall>f \<in> set files. pk_readFile fs (sf_absolutePath f) = Inr (pf_raw f))"

definition fetches :: "package_fs \<Rightarrow> HarnessLoaderLimits option \<Rightarrow> string \<Rightarrow> (SourceFile list \<Rightarrow> 'a \<Rightarrow> bool) \<Rightarrow> 'a reader \<Rightarrow> bool" where
  "fetches fs limits dir R m \<longleftrightarrow> (\<forall>st r st'. m st = (r, st') \<longrightarrow> reads_ok fs limits dir st \<longrightarrow>
     reads_ok fs limits dir st' \<and> (\<forall>x. r = Inr x \<longrightarrow> (\<exists>files. fetched fs st st' files \<and> R files x)))"

lemma fetches_then:
  assumes m: "fetches fs limits dir R m"
    and f: "\<And>x files. R files x \<Longrightarrow> fetches fs limits dir (\<lambda>files' y. S (files @ files') y) (f x)"
  shows "fetches fs limits dir S (then_read m f)"
  unfolding fetches_def
proof (intro allI impI)
  fix st r st'
  assume run: "then_read m f st = (r, st')" and ok: "reads_ok fs limits dir st"
  obtain r1 st1 where m1: "m st = (r1, st1)" by fastforce
  with m ok have ok1: "reads_ok fs limits dir st1"
    and r1: "\<And>x. r1 = Inr x \<Longrightarrow> \<exists>files. fetched fs st st1 files \<and> R files x"
    unfolding fetches_def by blast+
  show "reads_ok fs limits dir st' \<and> (\<forall>x. r = Inr x \<longrightarrow> (\<exists>files. fetched fs st st' files \<and> S files x))"
  proof (cases r1)
    case (Inl e)
    with run m1 ok1 show ?thesis by (auto simp: then_read_def)
  next
    case (Inr x)
    then obtain files where files: "fetched fs st st1 files" "R files x" using r1 by blast
    from Inr run m1 have "f x st1 = (r, st')" by (simp add: then_read_def)
    with f [OF files(2)] ok1 have "reads_ok fs limits dir st'"
      and rest: "\<forall>y. r = Inr y \<longrightarrow> (\<exists>files'. fetched fs st1 st' files' \<and> S (files @ files') y)"
      unfolding fetches_def by blast+
    moreover have "fetched fs st st' (files @ files')" if "fetched fs st1 st' files'" for files'
      using that files(1) by (auto simp: fetched_def)
    ultimately show ?thesis by blast
  qed
qed

lemma fetches_return: "S [] y \<Longrightarrow> fetches fs limits dir S (\<lambda>st. (Inr y, st))"
  by (auto simp: fetches_def fetched_def)

lemma fetches_weaken:
  assumes "fetches fs limits dir R m" "\<And>files x. R files x \<Longrightarrow> S files x"
  shows "fetches fs limits dir S m"
  using assms unfolding fetches_def by blast

lemma fetches_silent:
  assumes "\<And>st. snd (m st) = st" "\<And>st x. fst (m st) = Inr x \<Longrightarrow> P x"
  shows "fetches fs limits dir (\<lambda>files x. files = [] \<and> P x) m"
  unfolding fetches_def
proof (intro allI impI)
  fix st r st'
  assume "m st = (r, st')" "reads_ok fs limits dir st"
  with assms(1) [of st] assms(2) [of st]
  show "reads_ok fs limits dir st' \<and> (\<forall>x. r = Inr x \<longrightarrow> (\<exists>files. fetched fs st st' files \<and> files = [] \<and> P x))"
    by (auto simp: fetched_def)
qed

lemma fetches_check: "fetches fs limits dir (\<lambda>files x. files = [] \<and> r = Inr x) (read_check r)"
  by (rule fetches_silent) (auto simp: read_check_def split: sum.splits)

lemma fetches_inside:
  "fetches fs limits dir (\<lambda>files x. files = [] \<and> inside_package fs dir path) (assertResolvedPathInsidePackage fs dir path)"
  by (rule fetches_silent)
     (auto simp: assertResolvedPathInsidePackage_def then_read_def read_io_def read_check_def inside_package_def
        split: sum.splits if_splits dest: not_outside)

lemma fetches_reserved:
  assumes "inside_package fs dir path"
  shows "fetches fs limits dir (\<lambda>files raw. files = [\<lparr>pf_relativePath = rel, pf_raw = raw, sf_absolutePath = path\<rparr>])
    (then_read (reserveFile limits) (\<lambda>_. read_file fs path))"
  using assms
  by (auto simp: fetches_def then_read_def reserveFile_def read_file_def read_check_def read_io_def assertLimit_def
      reads_ok_def fetched_def Let_def split: option.splits sum.splits if_splits)

lemma then_read_assoc: "then_read (then_read m f) g = then_read m (\<lambda>x. then_read (f x) g)"
  by (rule ext) (auto simp: then_read_def split: prod.splits sum.splits)

lemma fetches_observe: "fetches fs limits dir (\<lambda>files x. files = []) (observeFile limits f)"
  by (auto simp: fetches_def observeFile_def read_check_def reads_ok_def fetched_def Let_def split: option.splits sum.splits)

lemma fetches_source: "fetches fs limits dir (\<lambda>files f. files = [f]) (readSourceFile fs limits dir path)"
proof -
  let ?abs = "path_resolve dir path" and ?rel = "normalizeRelativePath (path_relative dir (path_resolve dir path))"
  let ?f = "\<lambda>raw. \<lparr>pf_relativePath = ?rel, pf_raw = raw, sf_absolutePath = ?abs\<rparr>"
  have "fetches fs limits dir (\<lambda>files f. files = [f])
      (then_read (assertResolvedPathInsidePackage fs dir ?abs) (\<lambda>_.
       then_read (then_read (reserveFile limits) (\<lambda>_. read_file fs ?abs)) (\<lambda>raw.
       then_read (observeFile limits (?f raw)) (\<lambda>_ st. (Inr (?f raw), st)))))"
    by (intro fetches_then [OF fetches_inside] fetches_then [OF fetches_reserved] fetches_then [OF fetches_observe]
        fetches_return) auto
  moreover have "fetches fs limits dir (\<lambda>files f. files = [f]) (read_check (Inl e))" for e
    by (rule fetches_weaken [OF fetches_check]) simp
  ultimately show ?thesis by (simp add: readSourceFile_def then_read_assoc Let_def)
qed

lemma fetches_all: "fetches fs limits dir (=) (read_files (readSourceFile fs limits dir) paths)"
proof (induction paths)
  case (Cons path paths)
  then show ?case
    by (auto intro!: fetches_then [OF fetches_source] fetches_then [OF Cons.IH] fetches_return)
qed (simp add: fetches_return)

lemma fetches_paths: "fetches fs limits dir (\<lambda>files x. files = []) (directory_paths fs lc dir d extensions)"
  unfolding fetches_def
proof (intro allI impI)
  fix st r st'
  assume run: "directory_paths fs lc dir d extensions st = (r, st')" and ok: "reads_ok fs limits dir st"
  obtain r1 st1 where r1: "then_read (assertResolvedPathInsidePackage fs dir (path_resolve dir d))
      (\<lambda>_. read_io (pk_readdir fs (path_resolve dir d))) st = (r1, st1)" by fastforce
  then have "st1 = st"
    by (auto simp: assertResolvedPathInsidePackage_def then_read_def read_io_def read_check_def split: sum.splits if_splits)
  moreover from run r1 have "st' = st1"
    by (auto simp: directory_paths_def Let_def split: sum.splits fetch_thrown.splits io_error.splits)
  ultimately show "reads_ok fs limits dir st' \<and> (\<forall>x. r = Inr x \<longrightarrow> (\<exists>files. fetched fs st st' files \<and> files = []))"
    using ok by (auto simp: fetched_def)
qed

lemma fetches_required: "fetches fs limits dir (\<lambda>files f. files = [f]) (readRequiredFile fs limits dir path)"
  unfolding fetches_def
proof (intro allI impI)
  fix st r st'
  assume run: "readRequiredFile fs limits dir path st = (r, st')" and ok: "reads_ok fs limits dir st"
  obtain r1 where "readSourceFile fs limits dir path st = (r1, st')" "\<And>x. r = Inr x \<Longrightarrow> r1 = Inr x"
    using run by (auto simp: readRequiredFile_def split: prod.splits sum.splits fetch_thrown.splits)
  with fetches_source [of fs limits dir path] ok
  show "reads_ok fs limits dir st' \<and> (\<forall>x. r = Inr x \<longrightarrow> (\<exists>files. fetched fs st st' files \<and> files = [x]))"
    unfolding fetches_def by blast
qed

lemma fetches_directories: "fetches fs limits dir (=) (readHarnessDirectories fs lc limits dir ds)"
proof (induction ds)
  case (Cons d ds)
  have one: "fetches fs limits dir (=) (readOptionalDirectory fs lc limits dir d)"
    unfolding readOptionalDirectory_def
    by (rule fetches_then [OF fetches_paths]) (auto intro: fetches_weaken [OF fetches_all])
  show ?case
    by (auto intro!: fetches_then [OF one] fetches_then [OF Cons.IH] fetches_return)
qed (simp add: fetches_return)

lemma fetches_package: "fetches fs limits dir (=) (fetch_files fs lc limits dir)"
  unfolding fetch_files_def
  by (auto intro!: fetches_then [OF fetches_required] fetches_then [OF fetches_directories] fetches_return)

section \<open>A fetched package is within its limits\<close>

definition within_limits :: "yaml_env \<Rightarrow> HarnessLoaderLimits \<Rightarrow> SourceFile list \<Rightarrow> bool" where
  "within_limits env l files \<longleftrightarrow>
     length files \<le> ll_maxFileCount l \<and> sum_list (map (\<lambda>f. raw_bytes (pf_raw f)) files) \<le> ll_maxPackageBytes l \<and>
     (\<forall>(kind, directory) \<in> set definitionDirectories.
        length (filter (\<lambda>f. kindForPath (pf_relativePath f) = Some kind) files) +
        sum_list (map (\<lambda>f. countInlineDefinitions (pf_raw f) kind) (filter is_manifest files)) \<le> ll_maxDefinitionsPerKind l) \<and>
     sum_list (map (\<lambda>f. fst (graph_of f)) files) \<le> ll_maxPhaseGraphNodes l \<and>
     sum_list (map (\<lambda>f. snd (graph_of f)) files) \<le> ll_maxPhaseGraphEdges l \<and>
     (\<forall>f \<in> set files. kindForPath (pf_relativePath f) = Some ''artifacts'' \<longrightarrow>
        raw_bytes (pf_raw f) \<le> ll_maxArtifactSchemaBytes l \<and> jsonDepth env (pf_raw f) \<le> ll_maxArtifactSchemaDepth l) \<and>
     (\<forall>f \<in> set files. is_manifest f \<longrightarrow>
        fst (summarizeDependencyLimits (pf_raw f)) \<le> ll_maxDependencyDepth l \<and>
        snd (summarizeDependencyLimits (pf_raw f)) \<le> ll_maxDependencyFanout l)"

lemma fold_max_le: "fold max ns m \<le> (n :: nat) \<longleftrightarrow> m \<le> n \<and> (\<forall>k \<in> set ns. k \<le> n)"
  by (induction ns arbitrary: m) auto

lemma largest_le: "largest ns \<le> n \<longleftrightarrow> (\<forall>k \<in> set ns. k \<le> n)"
  by (simp add: largest_def fold_max_le)

lemma assertLimit_Inr [simp]: "assertLimit limit a b = Inr u \<longleftrightarrow> a \<le> b"
  by (simp add: assertLimit_def)

lemma sum_definitions_in: "sum_list (map (definitions_in kind) files) =
    length (filter (\<lambda>f. kindForPath (pf_relativePath f) = Some kind) files) +
    sum_list (map (\<lambda>f. countInlineDefinitions (pf_raw f) kind) (filter is_manifest files))"
  by (induction files) (simp_all add: definitions_in_def)

lemma limits_checked: "is_ok (assertFetchedPackageWithinLimits env l files) \<longleftrightarrow> within_limits env l files"
proof -
  have "is_ok (assertFetchedPackageWithinLimits env l files) \<longleftrightarrow>
      (\<exists>x. assertFetchedPackageWithinLimits env l files = Inr x)" by (simp add: is_ok_iff)
  also have "\<dots> \<longleftrightarrow> within_limits env l files"
    by (simp add: assertFetchedPackageWithinLimits_def bindE_Inr_iff Let_def summarizePackageFiles_def within_limits_def
        largest_le sum_definitions_in split_beta ball_Un image_image) blast
  finally show ?thesis .
qed


text \<open>A package with a prompt that is a symbolic link out of the package.\<close>

definition hx_fs :: package_fs where
  "hx_fs =
     \<lparr>pk_realpath = (\<lambda>p. if p = ''/p/prompts/x.md'' then Inr ''/etc/passwd''
         else if p \<in> {''/p'', ''/p/harness.yaml'', ''/p/prompts''} then Inr p else Inl ENOENT),
      pk_readdir = (\<lambda>p. if p = ''/p/prompts'' then Inr [(''x.md'', SymlinkEntry)] else Inl ENOENT),
      pk_readFile = (\<lambda>p. Inr ''id: pkg'')\<rparr>"

definition hx_limits :: HarnessLoaderLimits where
  "hx_limits =
     \<lparr>ll_limitsVersion = ''v1'', ll_maxPackageBytes = 20, ll_maxFileCount = 3, ll_maxDefinitionsPerKind = 3,
      ll_maxPhaseGraphNodes = 3, ll_maxPhaseGraphEdges = 3, ll_maxArtifactSchemaBytes = 20, ll_maxArtifactSchemaDepth = 3,
      ll_maxDependencyDepth = 2, ll_maxDependencyFanout = 2, ll_cacheMaxEntries = 2, ll_cacheTtlMs = 2\<rparr>"

lemma hx_fetch: "map_prod (\<lambda>r. r) rs_reads (fetch_stage hx_yaml hx_fs hx_compare (Some hx_limits) ''/p'') =
    (Inl (HarnessLoaderError ''parse_error'' ''path_escape''), [''/p/harness.yaml''])"
  by code_simp


section \<open>What the inspection does not see\<close>

text \<open>
  The counts read the lines of block style only: dependencies (or definitions) that the manifest lists in
  flow style are parsed but not counted.
\<close>

definition hx_flow_manifest :: string where
  "hx_flow_manifest = ''dependencies: [{name: a}, {name: b}]''"

lemma flow_style_is_not_counted:
  "summarizeDependencyLimits hx_flow_manifest = (0, 0) \<and>
   map_sum (\<lambda>e. e) (\<lambda>v. length (js_elems (js_get v ''dependencies''))) (parseSimpleYaml hx_yaml hx_flow_manifest) = Inr 2"
  by code_simp

end
