(* ===== verification/Harness_Loader.thy ===== *)
theory Harness_Loader
  imports Harness_Grants Harness_Compatibility Harness_Registry_Safety Harness_Fetch
begin

text \<open>
  A load of a harness package (\<^verbatim>\<open>loadHarnessPackageWithRecord\<close> of \<^verbatim>\<open>harness-loader/src/index.ts\<close>), which
  composes the stages of the other theories: fetch, compatibility, parse, validate, grant check,
  dependencies, hash, trust and freeze. A load returns its record or the error of a stage, and the events
  that the callbacks of the options received. The observer of stages only wraps them and is left out,
  except for the limits, which are part of the fetch stage.

  The results: a package that loads went through every stage, so what its snapshot names is
  well formed, admitted, granted, pinned, hashed and, in strict mode, signed; a freeze cannot fail on what
  the earlier stages accepted; and the loader keeps the promise that the registry relies on.
\<close>

section \<open>Options and records\<close>

record HarnessLoadOptions = LoadHarnessPackageOptions +
  lo_loadedAt :: time_input
  lo_grantSource :: "GrantSource option"
  lo_onGrantEvent :: bool
  lo_onDependencyEvent :: bool
  lo_runtimeVersion :: "string option"
  lo_compatibilityMatrix :: "json option"
  lo_migrationDescriptor :: json
  lo_migrationTrustStore :: "TrustStore option"
  lo_migrationNow :: time_input

record 'k loader_env =
  en_trust :: "'k trust_env"
  en_yaml :: yaml_env
  en_lc :: locale_compare
  en_iso :: "int \<Rightarrow> string"

record LoadedHarness = HarnessLoadRecord +
  hl_grant :: GrantEvaluation
  hl_compatibility :: CompatibilityAdmission

datatype load_event = GrantEvent HarnessGrantEvent | TrustEvent HarnessTrustEvent | DependencyEvent json

section \<open>Stages\<close>

definition after_stage :: "('e + 'a) \<times> 'v list \<Rightarrow> ('a \<Rightarrow> ('e + 'b) \<times> 'v list) \<Rightarrow> ('e + 'b) \<times> 'v list" where
  "after_stage s f =
     (case s of (Inl e, events) \<Rightarrow> (Inl e, events)
      | (Inr x, events) \<Rightarrow> map_prod (\<lambda>r. r) (\<lambda>later. events @ later) (f x))"

definition quiet :: "'e + 'a \<Rightarrow> ('e + 'a) \<times> 'v list" where
  "quiet r = (r, [])"

definition normalizeLoadedAt :: "'k loader_env \<Rightarrow> time_input \<Rightarrow> harness_error + string" where
  "normalizeLoadedAt env v =
     (let invalid = Inl (failure ''invalid_loaded_at'') in
      case v of
        NoTime \<Rightarrow> Inr (en_iso env (te_clock (en_trust env)))
      | DateTime t \<Rightarrow> (case t of None \<Rightarrow> invalid | Some ms \<Rightarrow> Inr (en_iso env ms))
      | TimeText s \<Rightarrow> (case te_getTime (en_trust env) s of None \<Rightarrow> invalid | Some ms \<Rightarrow> Inr (en_iso env ms)))"

definition admission_options :: "HarnessLoadOptions option \<Rightarrow> json \<Rightarrow> SourceFile list \<Rightarrow> admit_options" where
  "admission_options input rawManifest loadedFiles =
     \<lparr>ao_rawManifest = rawManifest, ao_files = loadedFiles, ao_targetSchemaVersion = SUPPORTED_HARNESS_SCHEMA_VERSION,
      ao_runtimeVersion = default (Option.bind input lo_runtimeVersion) DEFAULT_RUNTIME_VERSION,
      ao_matrix = default (Option.bind input lo_compatibilityMatrix) DEFAULT_COMPATIBILITY_MATRIX,
      ao_migrationDescriptor = (case input of None \<Rightarrow> JUndefined | Some options \<Rightarrow> lo_migrationDescriptor options),
      ao_migrationTrustStore = Option.bind input lo_migrationTrustStore,
      ao_migrationNow = (case input of None \<Rightarrow> NoTime | Some options \<Rightarrow> lo_migrationNow options)\<rparr>"

definition enforceCompatibilityAdmission :: "'k loader_env \<Rightarrow> HarnessLoadOptions option \<Rightarrow> json \<Rightarrow> SourceFile list \<Rightarrow>
  harness_error + AdmittedHarnessCompatibility" where
  "enforceCompatibilityAdmission env input rawManifest loadedFiles =
     (case admitHarnessCompatibility (en_trust env) (en_lc env) (admission_options input rawManifest loadedFiles) of
        Inr admitted \<Rightarrow> Inr admitted
      | Inl (CompatibilityAdmissionError code reason) \<Rightarrow> Inl (HarnessLoaderError code reason)
      | Inl CompatibilityUncaught \<Rightarrow> Inl UncaughtError)"

definition grant_source :: "'k loader_env \<Rightarrow> HarnessLoadOptions option \<Rightarrow> GrantSource" where
  "grant_source env input = default (Option.bind input lo_grantSource) (DEFAULT_GRANT_SOURCE (en_lc env))"

definition grant_stage :: "'k loader_env \<Rightarrow> HarnessLoadOptions option \<Rightarrow> package_definitions \<Rightarrow>
  (harness_error + GrantEvaluation) \<times> load_event list" where
  "grant_stage env input p =
     map_prod (\<lambda>r. r) (map GrantEvent)
       (enforceCapabilityGrant (en_lc env) (grant_source env input) (case input of None \<Rightarrow> False | Some options \<Rightarrow> lo_onGrantEvent options)
          (pd_manifest p) (pd_policies p) (pd_tools p))"

definition base_options :: "HarnessLoadOptions option \<Rightarrow> LoadHarnessPackageOptions option" where
  "base_options input = map_option LoadHarnessPackageOptions.truncate input"

definition hash_stage :: "'k loader_env \<Rightarrow> SourceFile list \<Rightarrow> DependencyResolution \<Rightarrow> harness_error + string" where
  "hash_stage env files dependencies =
     (case computeSpecHash (en_lc env) (te_sha (en_trust env)) (map PackageFile.truncate files) (dn_resolved dependencies) of
        Inl e \<Rightarrow> Inl UncaughtError | Inr h \<Rightarrow> Inr h)"

definition trust_stage :: "'k loader_env \<Rightarrow> HarnessLoadOptions option \<Rightarrow> json \<Rightarrow> string \<Rightarrow>
  (harness_error + TrustVerdict option) \<times> load_event list" where
  "trust_stage env input manifest h =
     map_prod (\<lambda>r. r) (map TrustEvent) (verifyTrustIfConfigured (en_trust env) (en_lc env) (base_options input) manifest h)"

subsection \<open>The snapshot\<close>

definition provenance_json :: "TrustVerdict \<Rightarrow> json" where
  "provenance_json v = JObj [(''publisherId'', JStr (tv_publisherId v)), (''signingKeyId'', JStr (tv_signingKeyId v)),
     (''signatureRef'', JStr (tv_signatureRef v)), (''trustStoreVersion'', JStr (tv_trustStoreVersion v))]"

definition mergeTrustProvenance :: "json \<Rightarrow> TrustVerdict option \<Rightarrow> json" where
  "mergeTrustProvenance metadata trust =
     (case trust of
        None \<Rightarrow> metadata
      | Some verdict \<Rightarrow>
          let merged = (if is_record metadata then js_entries metadata else []);
              provenance = js_get (JObj merged) ''provenance'';
              own = (if is_record provenance then js_entries provenance else []) in
          JObj (js_put ''provenance'' (JObj (js_put ''trust'' (provenance_json verdict) own)) merged))"

definition HarnessSnapshotSchema :: "'k trust_env \<Rightarrow> json \<Rightarrow> bool" where
  "HarnessSnapshotSchema env = z_strict
     [(''id'', nonEmptyString), (''version'', nonEmptyString), (''schemaVersion'', z_enum [''specwright.harness.v1'']),
      (''specHash'', nonEmptyString), (''loadedAt'', isoDateTimeString env), (''runtime'', z_optional MetadataSchema),
      (''phases'', z_array PhaseDefinitionSchema), (''gates'', z_array GateDefinitionSchema),
      (''policies'', z_array PolicyBundleSchema), (''tools'', z_array ToolDefinitionSchema),
      (''artifacts'', z_array ArtifactSchemaRefSchema), (''evals'', z_array EvalDefinitionSchema),
      (''roles'', z_array RoleDefinitionSchema), (''prompts'', z_array PromptAssetRefSchema),
      (''metadata'', z_optional MetadataSchema)]"

definition snapshot_of :: "package_definitions \<Rightarrow> string \<Rightarrow> string \<Rightarrow> TrustVerdict option \<Rightarrow> json" where
  "snapshot_of p specHash loadedAt trust =
     (let m = pd_manifest p in
      JObj [(''id'', js_get m ''id''), (''version'', js_get m ''version''), (''schemaVersion'', js_get m ''schemaVersion''),
        (''specHash'', JStr specHash), (''loadedAt'', JStr loadedAt), (''runtime'', js_get m ''runtime''),
        (''phases'', JArr (pd_phases p)), (''gates'', JArr (pd_gates p)), (''policies'', JArr (pd_policies p)),
        (''tools'', JArr (pd_tools p)), (''artifacts'', JArr (pd_artifacts p)), (''evals'', JArr (pd_evals p)),
        (''roles'', JArr (pd_roles p)), (''prompts'', JArr (pd_prompts p)),
        (''metadata'', mergeTrustProvenance (js_get m ''metadata'') trust)])"

definition freeze_stage :: "'k loader_env \<Rightarrow> package_definitions \<Rightarrow> string \<Rightarrow> string \<Rightarrow> TrustVerdict option \<Rightarrow> harness_error + json" where
  "freeze_stage env p specHash loadedAt trust =
     (let snapshot = snapshot_of p specHash loadedAt trust in
      if HarnessSnapshotSchema (en_trust env) snapshot then Inr snapshot else Inl UncaughtError)"

definition emitDependencyEvent :: "'k loader_env \<Rightarrow> HarnessLoadOptions option \<Rightarrow> json \<Rightarrow> string \<Rightarrow> DependencyResolution \<Rightarrow>
  (harness_error + unit) \<times> load_event list" where
  "emitDependencyEvent env input manifest specHash resolution =
     (case input of
        None \<Rightarrow> quiet (Inr ())
      | Some options \<Rightarrow>
          if dn_resolved resolution = [] \<or> \<not> lo_onDependencyEvent options then quiet (Inr ())
          else case buildDependenciesPinnedEvent (en_lc env) (the_str (fstr manifest ''id'')) (the_str (fstr manifest ''version''))
                      specHash resolution of
            Inl e \<Rightarrow> quiet (Inl UncaughtError)
          | Inr event \<Rightarrow> (Inr (), [DependencyEvent event]))"

section \<open>The load\<close>

text \<open>The part of a load after the fetch, for the files that were fetched.\<close>

definition load_fetched :: "'k loader_env \<Rightarrow> HarnessLoadOptions option \<Rightarrow> string \<Rightarrow> SourceFile list \<Rightarrow>
  (harness_error + LoadedHarness) \<times> load_event list" where
  "load_fetched env input loadedAt files =
     (let yaml = en_yaml env; sha = te_sha (en_trust env); lc = en_lc env in
      after_stage (quiet (manifest_file files)) (\<lambda>manifestFile.
      after_stage (quiet (parseDataFile yaml manifestFile)) (\<lambda>rawManifest.
      after_stage (quiet (enforceCompatibilityAdmission env input rawManifest files)) (\<lambda>compatibility.
      let loadedFiles = ah_files compatibility in
      after_stage (quiet (parse_package yaml sha lc loadedFiles)) (\<lambda>parsed.
      after_stage (quiet (validate_package parsed)) (\<lambda>_.
      after_stage (grant_stage env input parsed) (\<lambda>grant.
      after_stage (quiet (enforceDependencyResolution lc (base_options input) (pd_manifest parsed))) (\<lambda>dependencies.
      after_stage (quiet (hash_stage env loadedFiles dependencies)) (\<lambda>finalSpecHash.
      after_stage (trust_stage env input (pd_manifest parsed) finalSpecHash) (\<lambda>trust.
      after_stage (quiet (freeze_stage env parsed finalSpecHash loadedAt trust)) (\<lambda>snapshot.
      after_stage (emitDependencyEvent env input (pd_manifest parsed) finalSpecHash dependencies) (\<lambda>_.
        quiet (Inr \<lparr>hl_snapshot = snapshot, hl_loadedFiles = loadedFiles, hl_dependencies = dependencies, hl_trust = trust,
                    hl_grant = grant, hl_compatibility = ah_admission compatibility\<rparr>)))))))))))))"

definition loadHarnessPackageWithRecord :: "'k loader_env \<Rightarrow> HarnessLoadOptions option \<Rightarrow> harness_error + SourceFile list \<Rightarrow>
  (harness_error + LoadedHarness) \<times> load_event list" where
  "loadHarnessPackageWithRecord env input fetch =
     after_stage (quiet (normalizeLoadedAt env (case input of None \<Rightarrow> NoTime | Some options \<Rightarrow> lo_loadedAt options))) (\<lambda>loadedAt.
     after_stage (quiet fetch) (load_fetched env input loadedAt))"

text \<open>With limits: the limits are normalised before anything is read, then the stages run on what a limited fetch returns.\<close>

definition loadHarnessPackageWithLimits :: "'k loader_env \<Rightarrow> package_fs \<Rightarrow> HarnessLoadOptions option \<Rightarrow> json \<Rightarrow> string \<Rightarrow>
  (harness_error + LoadedHarness) \<times> load_event list" where
  "loadHarnessPackageWithLimits env fs input limits packageDir =
     after_stage (quiet (normalizeHarnessLoaderLimits limits)) (\<lambda>l.
       loadHarnessPackageWithRecord env input (fst (fetch_stage (en_yaml env) fs (en_lc env) (Some l) packageDir)))"

section \<open>Every stage has passed\<close>

lemma after_stage_Inr: "after_stage s f = (Inr y, events) \<longleftrightarrow>
    (\<exists>x before later. s = (Inr x, before) \<and> f x = (Inr y, later) \<and> events = before @ later)"
  by (cases s; cases "fst s") (auto simp: after_stage_def map_prod_def split: prod.splits)

lemma quiet_Inr: "quiet r = (Inr x, events) \<longleftrightarrow> r = Inr x \<and> events = []"
  by (auto simp: quiet_def)

lemma loaded_stages:
  assumes "load_fetched env input loadedAt files = (Inr loaded, events)"
  obtains mf raw a p grant_events trust_events dependency_events where
    "manifest_file files = Inr mf" "parseDataFile (en_yaml env) mf = Inr raw"
    "enforceCompatibilityAdmission env input raw files = Inr a"
    "parse_package (en_yaml env) (te_sha (en_trust env)) (en_lc env) (ah_files a) = Inr p" "validate_package p = Inr ()"
    "grant_stage env input p = (Inr (hl_grant loaded), grant_events)"
    "enforceDependencyResolution (en_lc env) (base_options input) (pd_manifest p) = Inr (hl_dependencies loaded)"
    "hash_stage env (ah_files a) (hl_dependencies loaded) = Inr (snapshot_field ''specHash'' (hl_snapshot loaded))"
    "trust_stage env input (pd_manifest p) (snapshot_field ''specHash'' (hl_snapshot loaded)) = (Inr (hl_trust loaded), trust_events)"
    "hl_snapshot loaded = snapshot_of p (snapshot_field ''specHash'' (hl_snapshot loaded)) loadedAt (hl_trust loaded)"
    "HarnessSnapshotSchema (en_trust env) (hl_snapshot loaded)"
    "emitDependencyEvent env input (pd_manifest p) (snapshot_field ''specHash'' (hl_snapshot loaded)) (hl_dependencies loaded) =
       (Inr (), dependency_events)"
    "hl_loadedFiles loaded = ah_files a" "hl_compatibility loaded = ah_admission a"
    "events = grant_events @ trust_events @ dependency_events"
proof -
  have hash: "snapshot_field ''specHash'' (snapshot_of p h t v) = h" for p h t v
    by (simp add: snapshot_field_def snapshot_of_def fstr_def js_get_def the_str_def Let_def)
  from assms obtain mf raw a p grant ge dependencies h trust te snapshot de where
    stages: "manifest_file files = Inr mf" "parseDataFile (en_yaml env) mf = Inr raw"
      "enforceCompatibilityAdmission env input raw files = Inr a"
      "parse_package (en_yaml env) (te_sha (en_trust env)) (en_lc env) (ah_files a) = Inr p" "validate_package p = Inr ()"
    and grant: "grant_stage env input p = (Inr grant, ge)"
    and dependencies: "enforceDependencyResolution (en_lc env) (base_options input) (pd_manifest p) = Inr dependencies"
    and h: "hash_stage env (ah_files a) dependencies = Inr h"
    and trust: "trust_stage env input (pd_manifest p) h = (Inr trust, te)"
    and snapshot: "freeze_stage env p h loadedAt trust = Inr snapshot"
    and emitted: "emitDependencyEvent env input (pd_manifest p) h dependencies = (Inr (), de)"
    and loaded: "loaded = \<lparr>hl_snapshot = snapshot, hl_loadedFiles = ah_files a, hl_dependencies = dependencies, hl_trust = trust,
        hl_grant = grant, hl_compatibility = ah_admission a\<rparr>" "events = ge @ te @ de"
    unfolding load_fetched_def Let_def after_stage_Inr quiet_Inr by auto
  from snapshot have s: "snapshot = snapshot_of p h loadedAt trust" "HarnessSnapshotSchema (en_trust env) snapshot"
    by (auto simp: freeze_stage_def Let_def split: if_splits)
  have "snapshot_field ''specHash'' (hl_snapshot loaded) = h" by (simp add: loaded(1) s(1) hash)
  with stages grant dependencies h trust s emitted loaded(2) show ?thesis
    by (intro that [of mf raw a p ge te de]) (simp_all add: loaded(1))
qed

lemma parsed_manifest: "parse_package yaml sha lc files = Inr p \<Longrightarrow> HarnessManifestSchema (pd_manifest p)"
  by (auto simp: parse_package_def parseManifest_def bindE_Inr_iff Let_def split: if_splits)

lemma granted_package:
  assumes "grant_stage env input p = (Inr grant, events)" "HarnessManifestSchema (pd_manifest p)"
  obtains r where "grant_source env input (the_str (fstr (pd_manifest p) ''id'')) (the_str (fstr (pd_manifest p) ''version'')) = Inr r"
    "applicable_grant r (the_str (fstr (pd_manifest p) ''id'')) (the_str (fstr (pd_manifest p) ''version''))"
    "grant_covers (grant_of r) (pd_manifest p) (pd_policies p)"
proof -
  let ?callback = "case input of None \<Rightarrow> False | Some options \<Rightarrow> lo_onGrantEvent options"
  from assms(1) have "fst (enforceCapabilityGrant (en_lc env) (grant_source env input) ?callback
      (pd_manifest p) (pd_policies p) (pd_tools p)) = Inr grant"
    by (auto simp: grant_stage_def map_prod_def split: prod.splits)
  with enforce_valid [OF assms(2), of "en_lc env" "grant_source env input" ?callback "pd_policies p" "pd_tools p"]
  show ?thesis by (auto split: option.splits intro: that)
qed

lemma strict_is_signed:
  assumes "trust_stage env (Some options) manifest h = (Inr trust, events)"
    and "lo_strict options = Some True \<or> lo_signature options \<noteq> JUndefined"
  shows "\<exists>verdict. trust = Some verdict \<and> tv_specHash verdict = h \<and> events = [TrustEvent (HarnessTrustVerified verdict)]"
proof -
  from assms(1) obtain te where v: "verifyTrustIfConfigured (en_trust env) (en_lc env)
      (Some (LoadHarnessPackageOptions.truncate options)) manifest h = (Inr trust, te)" and te: "events = map TrustEvent te"
    by (auto simp: trust_stage_def base_options_def map_prod_def split: prod.splits)
  from earned_trust [OF v] assms(2) te show ?thesis
    by (cases trust) (auto simp: LoadHarnessPackageOptions.defs)
qed


section \<open>Freezing cannot fail\<close>

lemma js_order_one_key: "js_order (filter (\<lambda>p. fst p = k) ps) = filter (\<lambda>p. fst p = k) ps"
proof (cases "is_index_key k")
  case True
  then have "filter (\<lambda>p. is_index_key (fst p)) (filter (\<lambda>p. fst p = k) ps) = filter (\<lambda>p. fst p = k) ps"
    "filter (\<lambda>p. \<not> is_index_key (fst p)) (filter (\<lambda>p. fst p = k) ps) = []"
    by (induction ps) auto
  moreover have "sorted (map f (filter (\<lambda>p. fst p = k) ps))" if "\<And>p. f p = g (fst p)" for f :: "string \<times> 'a \<Rightarrow> nat" and g
    by (induction ps) (auto simp: that)
  ultimately show ?thesis by (simp add: js_order_def sort_key_id_if_sorted)
next
  case False
  then have "filter (\<lambda>p. is_index_key (fst p)) (filter (\<lambda>p. fst p = k) ps) = []"
    "filter (\<lambda>p. \<not> is_index_key (fst p)) (filter (\<lambda>p. fst p = k) ps) = filter (\<lambda>p. fst p = k) ps"
    by (induction ps) auto
  then show ?thesis by (simp add: js_order_def)
qed

lemma map_of_js_order: "map_of (js_order ps) k = map_of ps k"
proof -
  have one: "map_of (filter (\<lambda>p. fst p = k) qs) k = map_of qs k" for qs :: "(string \<times> 'a) list"
    by (induction qs) auto
  show ?thesis
    using one [of "js_order ps"] one [of ps] by (simp add: filter_js_order js_order_one_key)
qed

lemma js_get_js_put: "k \<noteq> ''__proto__'' \<Longrightarrow> js_get (JObj (js_put k v ps)) j = (if j = k then v else js_get (JObj ps) j)"
  by (simp add: js_put_def js_get_def map_of_js_order map_of_map_set split: option.split)

lemma z_object_agree:
  assumes "is_record v \<longleftrightarrow> is_record w" "\<And>k. js_get v k = js_get w k"
  shows "z_object shape v \<longleftrightarrow> z_object shape w"
  using assms by (simp add: z_object_def)

lemma with_source_twice: "z_object shape (with_source q (with_source q v)) \<longleftrightarrow> z_object shape (with_source q v)"
  by (rule z_object_agree) (auto simp: with_source_def is_record_def js_get_js_put split: json.split)

lemma parsed_definition: "parseDefinition schema v path = Inr d \<Longrightarrow> schema d \<and> d = with_source path v"
  by (auto simp: parseDefinition_def split: if_splits)

lemma mapE_all: "mapE f xs = Inr ys \<Longrightarrow> (\<And>x y. f x = Inr y \<Longrightarrow> P y) \<Longrightarrow> list_all P ys"
  by (induction xs arbitrary: ys) (auto simp: mapE_Cons_Inr_iff simp del: mapE.simps(2))

lemma list_all_ordered: "list_all P (orderDefinitions lc ds order) \<longleftrightarrow> list_all P ds"
  by (metis list_all_iff ordered_set)

lemma kind_all:
  assumes "parse_kind yaml lc parser inline files directory order = Inr ds"
    and "\<And>v path d. parser v path = Inr d \<Longrightarrow> P d" "\<And>ds. inline = Inr ds \<Longrightarrow> list_all P ds"
  shows "list_all P ds"
proof -
  from assms(1) obtain ins fs where inl: "inline = Inr ins" and fs: "mapE (\<lambda>f. bindE (parseDataFile yaml f)
      (\<lambda>parsed. parser parsed (pf_relativePath f))) (filesForDirectory lc files directory) = Inr fs"
    and ds: "ds = orderDefinitions lc (ins @ fs) order"
    by (auto simp: parse_kind_def bindE_Inr_iff)
  have "list_all P fs" using fs by (rule mapE_all) (auto simp: bindE_Inr_iff intro: assms(2))
  with assms(3) [OF inl] ds show ?thesis by (simp add: list_all_ordered)
qed

lemma inline_all:
  assumes "inlineDefinitions (parseDefinition (z_object shape)) entries = Inr ds"
  shows "list_all (z_object shape) ds"
proof -
  from assms obtain es where es: "mapE (\<lambda>entry. parseDefinition (z_object shape) entry HARNESS_MANIFEST_FILE)
      (filter is_record (js_elems entries)) = Inr es" and ds: "ds = map (with_source HARNESS_MANIFEST_FILE) es"
    by (auto simp: inlineDefinitions_def bindE_Inr_iff)
  have "list_all (\<lambda>d. z_object shape (with_source HARNESS_MANIFEST_FILE d)) es"
    using es by (rule mapE_all) (auto simp: with_source_twice dest!: parsed_definition)
  then show ?thesis by (simp add: ds list_all_iff)
qed

lemma tool_definition: "parseToolDefinition v path = Inr d \<Longrightarrow> parseDefinition ToolDefinitionSchema v path = Inr d"
  by (auto simp: parseToolDefinition_def bindE_Inr_iff split: if_splits)

lemma inline_tools_all:
  assumes "inlineToolDefinitions m = Inr ds"
  shows "list_all ToolDefinitionSchema ds"
proof (cases "js_get m ''tools''")
  case (JArr xs)
  from assms JArr obtain es where es: "mapE (\<lambda>entry. parseToolDefinition entry HARNESS_MANIFEST_FILE)
      (filter is_record (js_elems (JArr xs))) = Inr es" and ds: "ds = map (with_source HARNESS_MANIFEST_FILE) es"
    by (auto simp: inlineToolDefinitions_def inlineDefinitions_def bindE_Inr_iff)
  have "list_all (\<lambda>d. ToolDefinitionSchema (with_source HARNESS_MANIFEST_FILE d)) es"
    using es by (rule mapE_all)
      (auto simp: ToolDefinitionSchema_def with_source_twice dest!: tool_definition parsed_definition)
  then show ?thesis by (simp add: ds list_all_iff)
qed (use assms in \<open>simp_all add: inlineToolDefinitions_def\<close>)

lemma schema_kind_all:
  assumes "parse_kind yaml lc (parseDefinition schema) (inlineDefinitions (parseDefinition schema) entries) files directory order = Inr ds"
    and "schema = z_object shape"
  shows "list_all schema ds"
  using assms(1) by (rule kind_all) (use assms(2) inline_all in \<open>auto dest: parsed_definition\<close>)

lemma parsed_definitions:
  assumes "parse_package yaml sha lc files = Inr p"
  shows "list_all PhaseDefinitionSchema (pd_phases p)" "list_all GateDefinitionSchema (pd_gates p)"
    "list_all PolicyBundleSchema (pd_policies p)" "list_all ToolDefinitionSchema (pd_tools p)"
    "list_all ArtifactSchemaRefSchema (pd_artifacts p)" "list_all EvalDefinitionSchema (pd_evals p)"
    "list_all RoleDefinitionSchema (pd_roles p)" "list_all PromptAssetRefSchema (pd_prompts p)"
proof -
  let ?m = "pd_manifest p"
  let ?kind = "\<lambda>schema k. parse_kind yaml lc (parseDefinition schema)
      (inlineDefinitions (parseDefinition schema) (js_get ?m k)) files k (refs ?m k)"
  from assms obtain artifacts prompts where kinds: "?kind PhaseDefinitionSchema ''phases'' = Inr (pd_phases p)"
    "?kind GateDefinitionSchema ''gates'' = Inr (pd_gates p)" "?kind PolicyBundleSchema ''policies'' = Inr (pd_policies p)"
    "?kind EvalDefinitionSchema ''evals'' = Inr (pd_evals p)" "?kind RoleDefinitionSchema ''roles'' = Inr (pd_roles p)"
    and tools: "parse_kind yaml lc parseToolDefinition (inlineToolDefinitions ?m) files ''tools'' (manifest_tools ?m) = Inr (pd_tools p)"
    and artifacts: "mapE (parseArtifactSchemaFile yaml) (filesForDirectory lc files ''artifact-schemas'') = Inr artifacts"
      "pd_artifacts p = orderDefinitions lc artifacts (refs ?m ''artifacts'' @ refs ?m ''artifactSchemas'')"
    and prompts: "mapE (parsePromptFile yaml sha) (filesForDirectory lc files ''prompts'') = Inr prompts"
      "pd_prompts p = orderDefinitions lc prompts (refs ?m ''prompts'')"
    unfolding parse_package_def by (auto simp: bindE_Inr_iff Let_def split: if_splits)
  show "list_all PhaseDefinitionSchema (pd_phases p)" "list_all GateDefinitionSchema (pd_gates p)"
    "list_all PolicyBundleSchema (pd_policies p)" "list_all EvalDefinitionSchema (pd_evals p)"
    "list_all RoleDefinitionSchema (pd_roles p)"
    using schema_kind_all [OF kinds(1) PhaseDefinitionSchema_def] schema_kind_all [OF kinds(2) GateDefinitionSchema_def]
      schema_kind_all [OF kinds(3) PolicyBundleSchema_def] schema_kind_all [OF kinds(4) EvalDefinitionSchema_def]
      schema_kind_all [OF kinds(5) RoleDefinitionSchema_def] by simp_all
  show "list_all ToolDefinitionSchema (pd_tools p)"
    using tools by (rule kind_all) (auto dest: tool_definition parsed_definition inline_tools_all)
  have "list_all ArtifactSchemaRefSchema artifacts"
    using artifacts(1) by (rule mapE_all)
      (auto simp: parseArtifactSchemaFile_def Let_def split: option.splits if_splits)
  then show "list_all ArtifactSchemaRefSchema (pd_artifacts p)" by (simp add: artifacts(2) list_all_ordered)
  have "list_all PromptAssetRefSchema prompts"
    using prompts(1) by (rule mapE_all)
      (auto simp: parsePromptFile_def bindE_Inr_iff Let_def split: if_splits)
  then show "list_all PromptAssetRefSchema (pd_prompts p)" by (simp add: prompts(2) list_all_ordered)
qed

lemma merged_metadata: "z_optional MetadataSchema m \<Longrightarrow> z_optional MetadataSchema (mergeTrustProvenance m trust)"
  by (auto simp: mergeTrustProvenance_def z_optional_def MetadataSchema_def is_record_def Let_def split: option.split)

lemma snapshot_schema:
  assumes "parse_package yaml sha lc files = Inr p" "te_datetime env loadedAt" "h \<noteq> []"
  shows "HarnessSnapshotSchema env (snapshot_of p h loadedAt trust)"
proof -
  have m: "HarnessManifestSchema (pd_manifest p)" by (rule parsed_manifest [OF assms(1)])
  have fields: "nonEmptyString (js_get (pd_manifest p) ''id'')" "nonEmptyString (js_get (pd_manifest p) ''version'')"
    "z_enum [''specwright.harness.v1''] (js_get (pd_manifest p) ''schemaVersion'')"
    "z_optional MetadataSchema (js_get (pd_manifest p) ''runtime'')" "z_optional MetadataSchema (js_get (pd_manifest p) ''metadata'')"
    by (rule z_object_field [OF m [unfolded HarnessManifestSchema_def]], simp)+
  show ?thesis
    using fields merged_metadata [OF fields(5), of trust] parsed_definitions [OF assms(1)] assms(2,3)
    by (simp add: HarnessSnapshotSchema_def z_strict_def snapshot_of_def Let_def js_get_def z_array_def isoDateTimeString_def
        nonEmptyString_def)
qed

lemma pinned_event_builds:
  assumes "computeSpecHash lc sha files (dn_resolved deps) = Inr h" "sha256_text h" "packageId \<noteq> []" "version \<noteq> []"
  shows "\<exists>event. buildDependenciesPinnedEvent lc packageId version h deps = Inr event"
proof -
  from assms(1) obtain ds where ds: "canonicalizeResolvedDependencies lc (dn_resolved deps) = Inr ds"
    by (auto simp: computeSpecHash_def spec_payload_def canonicalDependencyHashSegments_def bindE_Inr_iff Let_def)
  have "\<forall>d \<in> set ds. ResolvedDependencySchema_ok d" using canonicalize_Inr [OF ds] by auto
  then have "list_all ResolvedDependencySchema (map dependency_json ds)"
    by (auto simp: list_all_iff ResolvedDependencySchema_ok_def ResolvedDependencySchema_def dependency_json_def z_strict_def
        js_get_def nonEmptyString_def sha256String_def z_optional_def sha256_text_def starts_with_def split: option.split)
  with assms(2-4) ds show ?thesis
    by (auto simp: buildDependenciesPinnedEvent_def Let_def HarnessDependenciesPinnedEventSchema_def z_strict_def js_get_def
        nonEmptyString_def sha256String_def z_array_def sha256_text_def starts_with_def)
qed

lemma emit_succeeds:
  assumes "computeSpecHash (en_lc env) sha files (dn_resolved deps) = Inr h" "sha256_text h" "HarnessManifestSchema manifest"
  shows "\<exists>events. emitDependencyEvent env input manifest h deps = (Inr (), events)"
proof -
  obtain event where "buildDependenciesPinnedEvent (en_lc env) (the_str (fstr manifest ''id'')) (the_str (fstr manifest ''version''))
      h deps = Inr event"
    using pinned_event_builds [OF assms(1,2) manifest_package [OF assms(3)]] by blast
  then show ?thesis by (auto simp: emitDependencyEvent_def quiet_def split: option.split)
qed

text \<open>
  C16: A package that satisfies the conditions of every stage loads. If the manifest is read, the
  package is admitted, its files parse to well-formed definitions, a grant of this package and version covers them,
  its dependencies resolve and trust is not refused for its hash, then the load returns a snapshot with these
  definitions and this hash: neither the schema of the snapshot nor the event of the dependencies can
  fail any more, given that digests are hexadecimal and the time of the load has the format of dates.
\<close>

theorem load_is_complete:
  assumes "manifest_file files = Inr mf" "parseDataFile (en_yaml env) mf = Inr raw"
    and "admitHarnessCompatibility (en_trust env) (en_lc env) (admission_options input raw files) = Inr a"
    and p: "parse_package (en_yaml env) (te_sha (en_trust env)) (en_lc env) (ah_files a) = Inr p" and "well_formed p"
    and "grant_source env input (the_str (fstr (pd_manifest p) ''id'')) (the_str (fstr (pd_manifest p) ''version'')) = Inr r"
    and "applicable_grant r (the_str (fstr (pd_manifest p) ''id'')) (the_str (fstr (pd_manifest p) ''version''))"
    and "grant_covers (grant_of r) (pd_manifest p) (pd_policies p)"
    and "enforceDependencyResolution (en_lc env) (base_options input) (pd_manifest p) = Inr deps"
    and h: "computeSpecHash (en_lc env) (te_sha (en_trust env)) (map PackageFile.truncate (ah_files a)) (dn_resolved deps) = Inr h"
    and "fst (verifyTrustIfConfigured (en_trust env) (en_lc env) (base_options input) (pd_manifest p) h) = Inr trust"
    and "sha256_text h" "te_datetime (en_trust env) loadedAt"
  shows "\<exists>loaded events. load_fetched env input loadedAt files = (Inr loaded, events) \<and>
    hl_snapshot loaded = snapshot_of p h loadedAt trust \<and> hl_loadedFiles loaded = ah_files a"
proof -
  note m = parsed_manifest [OF p]
  let ?callback = "case input of None \<Rightarrow> False | Some options \<Rightarrow> lo_onGrantEvent options"
  have "is_ok (fst (enforceCapabilityGrant (en_lc env) (grant_source env input) ?callback (pd_manifest p) (pd_policies p) (pd_tools p)))"
    using enforce_valid [OF m, of "en_lc env" "grant_source env input" ?callback "pd_policies p" "pd_tools p"] assms(6-8)
    by (auto split: option.splits)
  then have "is_ok (fst (grant_stage env input p))" by (simp add: grant_stage_def)
  then obtain grant ge where grant: "grant_stage env input p = (Inr grant, ge)"
    by (metis is_ok_iff prod.collapse)
  have "fst (trust_stage env input (pd_manifest p) h) = Inr trust" using assms(11) by (simp add: trust_stage_def)
  then obtain te where trust: "trust_stage env input (pd_manifest p) h = (Inr trust, te)"
    by (metis prod.collapse)
  obtain de where emitted: "emitDependencyEvent env input (pd_manifest p) h deps = (Inr (), de)"
    using emit_succeeds [OF h assms(12) m] by blast
  have "validate_package p = Inr ()" using validated_iff [of p] assms(5) by (simp add: is_ok_iff)
  moreover have "enforceCompatibilityAdmission env input raw files = Inr a"
    using assms(3) by (simp add: enforceCompatibilityAdmission_def)
  moreover have "hash_stage env (ah_files a) deps = Inr h" using h by (simp add: hash_stage_def)
  moreover have "h \<noteq> []" using assms(12) by (auto simp: sha256_text_def)
  then have "freeze_stage env p h loadedAt trust = Inr (snapshot_of p h loadedAt trust)"
    using snapshot_schema [OF p assms(13)] by (simp add: freeze_stage_def Let_def)
  ultimately show ?thesis
    using assms(1,2) p grant assms(9) trust emitted
    by (simp add: load_fetched_def after_stage_def quiet_def Let_def)
qed

section \<open>The loader of a registry\<close>

text \<open>
  What a registry calls: the options of the call with further ones that the host fixes, and the files
  that a fetch of the source of the call returns.
\<close>

definition registry_loader :: "'k loader_env \<Rightarrow> (HarnessRegistryLoaderInput \<Rightarrow> HarnessLoadOptions) \<Rightarrow>
  (HarnessRegistryLoaderInput \<Rightarrow> harness_error + SourceFile list) \<Rightarrow> HarnessRegistryLoader" where
  "registry_loader env options fetch call =
     map_sum (\<lambda>e. e) HarnessLoadRecord.truncate (fst (loadHarnessPackageWithRecord env (Some (options call)) (fetch call)))"

lemma load_hash:
  assumes "fst (loadHarnessPackageWithRecord env input fetch) = Inr loaded"
  shows "computeSpecHash (en_lc env) (te_sha (en_trust env)) (map PackageFile.truncate (hl_loadedFiles loaded))
    (dn_resolved (hl_dependencies loaded)) = Inr (snapshot_field ''specHash'' (hl_snapshot loaded))"
proof -
  obtain events where "loadHarnessPackageWithRecord env input fetch = (Inr loaded, events)"
    using assms by (metis prod.collapse)
  then obtain loadedAt files where "load_fetched env input loadedAt files = (Inr loaded, events)"
    unfolding loadHarnessPackageWithRecord_def after_stage_Inr quiet_Inr by auto
  then show ?thesis
  proof (cases rule: loaded_stages)
    case (1 mf raw a p ge te de)
    then show ?thesis by (auto simp: hash_stage_def split: sum.splits)
  qed
qed

text \<open>The contract of a loader, and what a registry that only uses such loaders keeps.\<close>

locale package_loader =
  fixes ch :: compute_spec_hash and loader :: "'i \<Rightarrow> HarnessRegistryLoader"
  assumes faithful: "faithful_loader ch (loader i)"
begin

lemma registry_runs:
  assumes "\<forall>c \<in> set calls. fst c \<in> range loader"
  shows "registry_ok ch (fold (run_op dt lc ch) calls (new_registry m ttl))"
proof (rule sequential.inv_run [OF new_registry_ok])
  show "list_all (valid_call ch) calls" using assms faithful by (auto simp: list_all_iff valid_call_def)
qed

end

interpretation real_loader: package_loader "computeSpecHash (en_lc env) (te_sha (en_trust env))"
  "\<lambda>(options, fetch). registry_loader env options fetch" for env
proof
  fix i :: "(HarnessRegistryLoaderInput \<Rightarrow> HarnessLoadOptions) \<times> (HarnessRegistryLoaderInput \<Rightarrow> harness_error + SourceFile list)"
  show "faithful_loader (computeSpecHash (en_lc env) (te_sha (en_trust env))) (case i of (options, fetch) \<Rightarrow> registry_loader env options fetch)"
  proof (cases i)
    case (Pair options fetch)
    have "computeSpecHash (en_lc env) (te_sha (en_trust env)) (map PackageFile.truncate (hl_loadedFiles loaded))
        (dn_resolved (hl_dependencies loaded)) = Inr (snapshot_field ''specHash'' (hl_snapshot loaded))"
      if "registry_loader env options fetch call = Inr loaded" for call loaded
      using that load_hash [of env "Some (options call)" "fetch call"]
      by (cases "fst (loadHarnessPackageWithRecord env (Some (options call)) (fetch call))")
         (auto simp: registry_loader_def HarnessLoadRecord.defs)
    with Pair show ?thesis by (simp add: faithful_loader_def)
  qed
qed


section \<open>Examples\<close>

definition hx_loader_env :: "string loader_env" where
  "hx_loader_env = \<lparr>en_trust = hx_trust_env, en_yaml = hx_yaml, en_lc = hx_compare, en_iso = (\<lambda>ms. ''now'')\<rparr>"

abbreviation LF :: char where
  "LF \<equiv> CHR 0x0A"

text \<open>A package with a tool definition that neither its manifest names nor its grant has.\<close>

definition hx_tool_package :: "SourceFile list" where
  "hx_tool_package =
     [hx_file ''harness.yaml'' (''id: specwright.test'' @ [LF] @ ''version: 0.1.0'' @ [LF] @ ''schemaVersion: specwright.harness.v1''),
      hx_file ''tools/x.yaml'' (''id: shell.exec'' @ [LF] @ ''inputSchema: a'' @ [LF] @ ''outputSchema: b'')]"

definition tool_ids :: "LoadedHarness \<Rightarrow> string list" where
  "tool_ids loaded = map def_id (js_elems (js_get (hl_snapshot loaded) ''tools''))"

lemma ungranted_tool_is_loaded:
  "map_sum (\<lambda>e. e) (\<lambda>loaded. (tool_ids loaded, ''shell.exec'' \<in> set (su_toolDefinitions (gev_grantedCapabilities (hl_grant loaded)))))
     (fst (loadHarnessPackageWithRecord hx_loader_env None (Inr hx_tool_package))) = Inr ([''shell.exec''], False)"
  by code_simp

definition hx_load :: "(harness_error + LoadedHarness) \<times> load_event list" where
  "hx_load = loadHarnessPackageWithRecord hx_loader_env None (Inr hx_tool_package)"

lemma hx_loads: "is_ok (fst hx_load)"
  using ungranted_tool_is_loaded
  by (cases "fst (loadHarnessPackageWithRecord hx_loader_env None (Inr hx_tool_package))") (auto simp: hx_load_def)

lemma hx_loader_simps [simp]:
  "en_yaml hx_loader_env = hx_yaml" "en_lc hx_loader_env = hx_compare" "en_trust hx_loader_env = hx_trust_env"
  "te_sha hx_trust_env = hx_digest"
  by (simp_all add: hx_loader_env_def hx_trust_env_def)

lemma hx_loaded_run:
  obtains loaded events where "loadHarnessPackageWithRecord hx_loader_env None (Inr hx_tool_package) = (Inr loaded, events)"
    "load_fetched hx_loader_env None ''now'' hx_tool_package = (Inr loaded, events)"
proof -
  obtain loaded events where run: "loadHarnessPackageWithRecord hx_loader_env None (Inr hx_tool_package) = (Inr loaded, events)"
    using hx_loads unfolding hx_load_def by (metis is_ok_iff prod.collapse)
  moreover have "normalizeLoadedAt hx_loader_env NoTime = Inr ''now''"
    by (simp add: normalizeLoadedAt_def hx_loader_env_def)
  with run have "load_fetched hx_loader_env None ''now'' hx_tool_package = (Inr loaded, events)"
    unfolding loadHarnessPackageWithRecord_def after_stage_Inr quiet_Inr by auto
  ultimately show thesis by (rule that)
qed


lemma hx_digest_text: "sha256_text (''sha256:'' @ hx_digest s)"
  by (simp add: hx_digest_def sha256_text_def starts_with_def is_lower_hex_def list_all_iff)

theorem load_is_complete_witness:
  "\<exists>loaded events. load_fetched hx_loader_env None ''now'' hx_tool_package = (Inr loaded, events)"
proof -
  obtain loaded events where "load_fetched hx_loader_env None ''now'' hx_tool_package = (Inr loaded, events)"
    by (rule hx_loaded_run)
  then show ?thesis
  proof (cases rule: loaded_stages)
    case (1 mf raw a p ge te de)
    let ?h = "snapshot_field ''specHash'' (hl_snapshot loaded)"
    obtain r where r: "grant_source hx_loader_env None (the_str (fstr (pd_manifest p) ''id'')) (the_str (fstr (pd_manifest p) ''version'')) = Inr r"
      "applicable_grant r (the_str (fstr (pd_manifest p) ''id'')) (the_str (fstr (pd_manifest p) ''version''))"
      "grant_covers (grant_of r) (pd_manifest p) (pd_policies p)"
      using 1(6) parsed_manifest [OF 1(4)] by (rule granted_package)
    have admitted: "admitHarnessCompatibility (en_trust hx_loader_env) (en_lc hx_loader_env)
        (admission_options None raw hx_tool_package) = Inr a"
      using 1(3) by (auto simp: enforceCompatibilityAdmission_def split: sum.splits compatibility_thrown.splits)
    have formed: "well_formed p" using validated_iff [of p] 1(5) by (simp add: is_ok_iff)
    have h: "computeSpecHash (en_lc hx_loader_env) (te_sha (en_trust hx_loader_env)) (map PackageFile.truncate (ah_files a))
        (dn_resolved (hl_dependencies loaded)) = Inr ?h"
      using 1(8) by (auto simp: hash_stage_def split: sum.splits)
    have trust: "fst (verifyTrustIfConfigured (en_trust hx_loader_env) (en_lc hx_loader_env) (base_options None) (pd_manifest p) ?h) =
        Inr (hl_trust loaded)" using arg_cong [OF 1(9), of fst] by (simp add: trust_stage_def)
    obtain s where s: "''sha256:'' @ hx_digest s = ?h" using h by (auto simp: computeSpecHash_def bindE_Inr_iff)
    have digest: "sha256_text ?h" using hx_digest_text [of s] unfolding s .
    have "te_datetime (en_trust hx_loader_env) ''now''" by (simp add: hx_trust_env_def)
    with load_is_complete [OF 1(1,2) admitted 1(4) formed r 1(7) h trust digest] show ?thesis by blast
  qed
qed


end
