(* ===== verification/Policy_Types.thy ===== *)
theory Policy_Types
  imports Json_Values
begin

text \<open>
  The data of \<^verbatim>\<open>policy-engine/src/index.ts\<close> and of the policy schemas of
  \<^verbatim>\<open>schemas/src/index.ts\<close>: risks, layers, effects, verdicts, requests with their snapshots, and
  policy bundles; and the JSON image of each, which is what the engine hashes and records.

  Optional fields are \<open>option\<close>s; a field that may hold one value or an array of values is a
  \<open>one_or_many\<close>. A \<^verbatim>\<open>Record<string, T>\<close> is its list of own properties. What the engine only
  hashes (run state, source trust, descriptive bundle fields) is kept as \<^typ>\<open>json\<close>.
\<close>

section \<open>Enumerations\<close>

datatype PolicyRisk = Low | Medium | High | Critical

datatype PolicyVerdictStatus = Allow | Deny | ApprovalRequired

datatype PolicyRuleEffect = EAllow | EDeny | EApprovalRequired | EConstrain | EObligate

datatype PolicyRuleLayer =
    RuntimeInvariant | Host | Workspace | Harness | Phase | Capability | RunMode | Approval

definition POLICY_RISKS :: "PolicyRisk list" where
  "POLICY_RISKS = [Low, Medium, High, Critical]"

definition LAYER_ORDER :: "PolicyRuleLayer list" where
  "LAYER_ORDER =
     [RuntimeInvariant, Host, Workspace, Harness, Phase, Capability, RunMode, Approval]"

definition DECISION_EFFECTS :: "PolicyRuleEffect list" where
  "DECISION_EFFECTS = [EAllow, EDeny, EApprovalRequired]"

text \<open>\<^verbatim>\<open>xs.indexOf(x)\<close> for a member of the list.\<close>

definition indexOf :: "'a list \<Rightarrow> 'a \<Rightarrow> nat" where
  "indexOf xs x = length (takeWhile (\<lambda>y. y \<noteq> x) xs)"

definition riskRank :: "PolicyRisk \<Rightarrow> nat" where
  "riskRank r = indexOf POLICY_RISKS r"

definition layerRank :: "PolicyRuleLayer \<Rightarrow> nat" where
  "layerRank l = indexOf LAYER_ORDER l"

lemma riskRank_simps [simp]:
  "riskRank Low = 0" "riskRank Medium = 1" "riskRank High = 2" "riskRank Critical = 3"
  by (simp_all add: riskRank_def indexOf_def POLICY_RISKS_def)

lemma layerRank_simps [simp]:
  "layerRank RuntimeInvariant = 0" "layerRank Host = 1" "layerRank Workspace = 2"
  "layerRank Harness = 3" "layerRank Phase = 4" "layerRank Capability = 5"
  "layerRank RunMode = 6" "layerRank Approval = 7"
  by (simp_all add: layerRank_def indexOf_def LAYER_ORDER_def)

lemma riskRank_inj: "riskRank a = riskRank b \<Longrightarrow> a = b"
  by (cases a; cases b) simp_all

lemma layerRank_inj: "layerRank a = layerRank b \<Longrightarrow> a = b"
  by (cases a; cases b) simp_all

text \<open>Risks and layers are ordered by their position in these lists.\<close>

instantiation PolicyRisk :: linorder
begin

definition less_eq_PolicyRisk :: "PolicyRisk \<Rightarrow> PolicyRisk \<Rightarrow> bool" where
  "less_eq_PolicyRisk a b \<longleftrightarrow> riskRank a \<le> riskRank b"

definition less_PolicyRisk :: "PolicyRisk \<Rightarrow> PolicyRisk \<Rightarrow> bool" where
  "less_PolicyRisk a b \<longleftrightarrow> riskRank a < riskRank b"

instance
  by standard (auto simp: less_eq_PolicyRisk_def less_PolicyRisk_def dest: riskRank_inj)

end

instantiation PolicyRuleLayer :: linorder
begin

definition less_eq_PolicyRuleLayer :: "PolicyRuleLayer \<Rightarrow> PolicyRuleLayer \<Rightarrow> bool" where
  "less_eq_PolicyRuleLayer a b \<longleftrightarrow> layerRank a \<le> layerRank b"

definition less_PolicyRuleLayer :: "PolicyRuleLayer \<Rightarrow> PolicyRuleLayer \<Rightarrow> bool" where
  "less_PolicyRuleLayer a b \<longleftrightarrow> layerRank a < layerRank b"

instance
  by standard (auto simp: less_eq_PolicyRuleLayer_def less_PolicyRuleLayer_def dest: layerRank_inj)

end

fun risk_str :: "PolicyRisk \<Rightarrow> string" where
  "risk_str Low = ''low''"
| "risk_str Medium = ''medium''"
| "risk_str High = ''high''"
| "risk_str Critical = ''critical''"

fun status_str :: "PolicyVerdictStatus \<Rightarrow> string" where
  "status_str Allow = ''allow''"
| "status_str Deny = ''deny''"
| "status_str ApprovalRequired = ''approval_required''"

fun effect_str :: "PolicyRuleEffect \<Rightarrow> string" where
  "effect_str EAllow = ''allow''"
| "effect_str EDeny = ''deny''"
| "effect_str EApprovalRequired = ''approval_required''"
| "effect_str EConstrain = ''constrain''"
| "effect_str EObligate = ''obligate''"

fun layer_str :: "PolicyRuleLayer \<Rightarrow> string" where
  "layer_str RuntimeInvariant = ''runtime_invariant''"
| "layer_str Host = ''host''"
| "layer_str Workspace = ''workspace''"
| "layer_str Harness = ''harness''"
| "layer_str Phase = ''phase''"
| "layer_str Capability = ''capability''"
| "layer_str RunMode = ''run_mode''"
| "layer_str Approval = ''approval''"

section \<open>Constraints, obligations, rule matches and verdicts\<close>

text \<open>\<^verbatim>\<open>Omit<PolicyConstraint, "sourceRuleId">\<close>, and the full object that adds the field.\<close>

record constraint_body =
  c_kind :: string
  c_value :: json

record PolicyConstraint = constraint_body +
  c_sourceRuleId :: string

record obligation_body =
  o_kind :: string
  o_params :: "(string \<times> json) list option"

record PolicyObligation = obligation_body +
  o_sourceRuleId :: string

record RuleMatch =
  rm_ruleId :: string
  rm_layer :: PolicyRuleLayer
  rm_effect :: PolicyRuleEffect
  rm_reason :: string

text \<open>\<^verbatim>\<open>Omit<InternalRuleMatch, "sequence">\<close> and \<^verbatim>\<open>InternalRuleMatch\<close>.\<close>

record MatchBody = RuleMatch +
  im_approvalId :: "string option"
  im_constraints :: "PolicyConstraint list"
  im_obligations :: "PolicyObligation list"

record InternalRuleMatch = MatchBody +
  im_sequence :: nat

record PolicyVerdict =
  pv_status :: PolicyVerdictStatus
  pv_approvalId :: "string option"
  pv_reasons :: "string list"
  pv_constraints :: "PolicyConstraint list"
  pv_obligations :: "PolicyObligation list"
  pv_matchedRules :: "RuleMatch list"
  pv_decisionHash :: string
  pv_requestHash :: "string option"
  pv_policyBundleHash :: "string option"

section \<open>Policy bundles\<close>

datatype 'a one_or_many = One 'a | Many "'a list"

record PolicyArgMatcher =
  am_path :: string
  am_equals :: "json option"
  am_includes :: "string option"
  am_pattern :: "string option"

record PolicyRuleMatchCriteria =
  mc_actionKind :: "string one_or_many option"
  mc_toolId :: "string one_or_many option"
  mc_phases :: "string list option"
  mc_risk :: "PolicyRisk one_or_many option"
  mc_runModes :: "string list option"
  mc_requestedScopes :: "string list option"
  mc_args :: "PolicyArgMatcher list option"

record FixturePolicyRule =
  fr_id :: string
  fr_layer :: PolicyRuleLayer
  fr_effect :: PolicyRuleEffect
  fr_reason :: string
  fr_match :: "PolicyRuleMatchCriteria option"
  fr_approvalId :: "string option"
  fr_constraints :: "constraint_body list option"
  fr_obligations :: "obligation_body list option"

text \<open>The default of a tool policy and the reaction of a budget rule are decision effects.\<close>

record FixtureToolPolicy =
  tp_default :: PolicyVerdictStatus
  tp_risk :: "PolicyRisk option"
  tp_reason :: "string option"
  tp_approvalId :: "string option"
  tp_allowedPhases :: "string list option"
  tp_allowedScopes :: "string list option"
  tp_requiredScopes :: "string list option"
  tp_constraints :: "constraint_body list option"
  tp_obligations :: "obligation_body list option"

datatype OnExceeded = ExceededDeny | ExceededApprovalRequired

record FixtureBudgetRule =
  br_id :: string
  br_resource :: string
  br_max :: int
  br_onExceeded :: OnExceeded
  br_reason :: string
  br_layer :: "PolicyRuleLayer option"
  br_approvalId :: "string option"
  br_constraints :: "constraint_body list option"
  br_obligations :: "obligation_body list option"

text \<open>\<open>pb_scopes\<close> is read as \<^verbatim>\<open>unknown\<close>; \<open>pb_extra\<close> holds the fields the engine does not read.\<close>

record FixturePolicyBundle =
  pb_id :: string
  pb_scopes :: json
  pb_rules :: "FixturePolicyRule list option"
  pb_runtimeInvariants :: "FixturePolicyRule list option"
  pb_hostRules :: "FixturePolicyRule list option"
  pb_workspaceRules :: "FixturePolicyRule list option"
  pb_harnessRules :: "FixturePolicyRule list option"
  pb_phaseRules :: "FixturePolicyRule list option"
  pb_capabilityRules :: "FixturePolicyRule list option"
  pb_runModeRules :: "FixturePolicyRule list option"
  pb_toolPolicy :: "(string \<times> FixtureToolPolicy) list option"
  pb_budgetPolicy :: "FixtureBudgetRule list option"
  pb_extra :: "(string \<times> json) list"

section \<open>Requests\<close>

record PolicyAction =
  pa_kind :: string
  pa_toolId :: "string option"
  pa_args :: "(string \<times> json) list option"
  pa_requestedScopes :: "string list option"
  pa_risk :: "PolicyRisk option"
  pa_budgetCosts :: "(string \<times> int) list option"

datatype ApprovalDecisionValue = Approved | Rejected | ApprovedWithChanges

record ApprovalDecision =
  ad_approvalId :: string
  ad_decision :: ApprovalDecisionValue
  ad_constraints :: "(string \<times> json) list option"
  ad_extra :: "(string \<times> json) list"

text \<open>\<^verbatim>\<open>approvals?: ApprovalState | ApprovalDecision[]\<close>.\<close>

datatype Approvals =
    ApprovalState "ApprovalDecision list option"
  | ApprovalArray "ApprovalDecision list"

record HostPolicySnapshot =
  hp_deniedTools :: "string list option"
  hp_allowedTools :: "string list option"

record PolicySnapshots =
  sn_runState :: json
  sn_harnessPolicy :: "FixturePolicyBundle one_or_many option"
  sn_hostPolicy :: "HostPolicySnapshot option"
  sn_workspacePolicy :: "FixturePolicyBundle one_or_many option"
  sn_budgets :: "(string \<times> json) list option"
  sn_approvals :: "Approvals option"
  sn_sourceTrust :: json

record PolicyRequest =
  rq_requestId :: string
  rq_runId :: string
  rq_phase :: string
  rq_action :: PolicyAction
  rq_runMode :: "string option"
  rq_snapshots :: "PolicySnapshots option"

section \<open>JSON images\<close>

text \<open>
  The object literals as the engine sees them. A field that is absent is no property of the object;
  \<^verbatim>\<open>approvalId: undefined\<close> and an absent \<^verbatim>\<open>approvalId\<close> have the same canonical text.
\<close>

definition opt_field :: "string \<Rightarrow> ('a \<Rightarrow> json) \<Rightarrow> 'a option \<Rightarrow> (string \<times> json) list" where
  "opt_field k f x = (case x of None \<Rightarrow> [] | Some y \<Rightarrow> [(k, f y)])"

definition json_field :: "string \<Rightarrow> json \<Rightarrow> (string \<times> json) list" where
  "json_field k v = (if v = JUndefined then [] else [(k, v)])"

definition arr_json :: "('a \<Rightarrow> json) \<Rightarrow> 'a list \<Rightarrow> json" where
  "arr_json f xs = JArr (map f xs)"

abbreviation strs_json :: "string list \<Rightarrow> json" where
  "strs_json \<equiv> arr_json JStr"

definition one_or_many_json :: "('a \<Rightarrow> json) \<Rightarrow> 'a one_or_many \<Rightarrow> json" where
  "one_or_many_json f x = (case x of One y \<Rightarrow> f y | Many ys \<Rightarrow> arr_json f ys)"

definition constraint_body_json :: "constraint_body \<Rightarrow> json" where
  "constraint_body_json c = JObj [(''kind'', JStr (c_kind c)), (''value'', c_value c)]"

definition constraint_json :: "PolicyConstraint \<Rightarrow> json" where
  "constraint_json c =
     JObj [(''kind'', JStr (c_kind c)), (''value'', c_value c),
           (''sourceRuleId'', JStr (c_sourceRuleId c))]"

definition obligation_body_json :: "obligation_body \<Rightarrow> json" where
  "obligation_body_json ob = JObj ((''kind'', JStr (o_kind ob)) # opt_field ''params'' JObj (o_params ob))"

definition obligation_json :: "PolicyObligation \<Rightarrow> json" where
  "obligation_json ob =
     JObj ((''kind'', JStr (o_kind ob)) # opt_field ''params'' JObj (o_params ob) @
           [(''sourceRuleId'', JStr (o_sourceRuleId ob))])"

definition ruleMatch_json :: "RuleMatch \<Rightarrow> json" where
  "ruleMatch_json m =
     JObj [(''ruleId'', JStr (rm_ruleId m)), (''layer'', JStr (layer_str (rm_layer m))),
           (''effect'', JStr (effect_str (rm_effect m))), (''reason'', JStr (rm_reason m))]"

definition argMatcher_json :: "PolicyArgMatcher \<Rightarrow> json" where
  "argMatcher_json m =
     JObj ((''path'', JStr (am_path m)) # opt_field ''equals'' (\<lambda>v. v) (am_equals m) @
           opt_field ''includes'' JStr (am_includes m) @ opt_field ''pattern'' JStr (am_pattern m))"

definition criteria_json :: "PolicyRuleMatchCriteria \<Rightarrow> json" where
  "criteria_json c =
     JObj (opt_field ''actionKind'' (one_or_many_json JStr) (mc_actionKind c) @
           opt_field ''toolId'' (one_or_many_json JStr) (mc_toolId c) @
           opt_field ''phases'' strs_json (mc_phases c) @
           opt_field ''risk'' (one_or_many_json (\<lambda>r. JStr (risk_str r))) (mc_risk c) @
           opt_field ''runModes'' strs_json (mc_runModes c) @
           opt_field ''requestedScopes'' strs_json (mc_requestedScopes c) @
           opt_field ''args'' (arr_json argMatcher_json) (mc_args c))"

definition effects_fields :: "constraint_body list option \<Rightarrow> obligation_body list option \<Rightarrow> (string \<times> json) list" where
  "effects_fields cs obs =
     opt_field ''constraints'' (arr_json constraint_body_json) cs @
     opt_field ''obligations'' (arr_json obligation_body_json) obs"

definition rule_json :: "FixturePolicyRule \<Rightarrow> json" where
  "rule_json r =
     JObj ([(''id'', JStr (fr_id r)), (''layer'', JStr (layer_str (fr_layer r))),
            (''effect'', JStr (effect_str (fr_effect r))), (''reason'', JStr (fr_reason r))] @
           opt_field ''match'' criteria_json (fr_match r) @
           opt_field ''approvalId'' JStr (fr_approvalId r) @
           effects_fields (fr_constraints r) (fr_obligations r))"

definition toolPolicy_json :: "FixtureToolPolicy \<Rightarrow> json" where
  "toolPolicy_json p =
     JObj ((''default'', JStr (status_str (tp_default p))) #
           opt_field ''risk'' (\<lambda>r. JStr (risk_str r)) (tp_risk p) @
           opt_field ''reason'' JStr (tp_reason p) @
           opt_field ''approvalId'' JStr (tp_approvalId p) @
           opt_field ''allowedPhases'' strs_json (tp_allowedPhases p) @
           opt_field ''allowedScopes'' strs_json (tp_allowedScopes p) @
           opt_field ''requiredScopes'' strs_json (tp_requiredScopes p) @
           effects_fields (tp_constraints p) (tp_obligations p))"

fun onExceeded_str :: "OnExceeded \<Rightarrow> string" where
  "onExceeded_str ExceededDeny = ''deny''"
| "onExceeded_str ExceededApprovalRequired = ''approval_required''"

definition budgetRule_json :: "FixtureBudgetRule \<Rightarrow> json" where
  "budgetRule_json r =
     JObj ([(''id'', JStr (br_id r)), (''resource'', JStr (br_resource r)), (''max'', JNum (br_max r)),
            (''onExceeded'', JStr (onExceeded_str (br_onExceeded r))), (''reason'', JStr (br_reason r))] @
           opt_field ''layer'' (\<lambda>l. JStr (layer_str l)) (br_layer r) @
           opt_field ''approvalId'' JStr (br_approvalId r) @
           effects_fields (br_constraints r) (br_obligations r))"

definition bundle_json :: "FixturePolicyBundle \<Rightarrow> json" where
  "bundle_json b =
     (let rs = (\<lambda>k. opt_field k (arr_json rule_json)) in
      JObj ((''id'', JStr (pb_id b)) # json_field ''scopes'' (pb_scopes b) @
            rs ''rules'' (pb_rules b) @ rs ''runtimeInvariants'' (pb_runtimeInvariants b) @
            rs ''hostRules'' (pb_hostRules b) @ rs ''workspaceRules'' (pb_workspaceRules b) @
            rs ''harnessRules'' (pb_harnessRules b) @ rs ''phaseRules'' (pb_phaseRules b) @
            rs ''capabilityRules'' (pb_capabilityRules b) @ rs ''runModeRules'' (pb_runModeRules b) @
            opt_field ''toolPolicy'' (\<lambda>ps. JObj (map (\<lambda>p. (fst p, toolPolicy_json (snd p))) ps)) (pb_toolPolicy b) @
            opt_field ''budgetPolicy'' (arr_json budgetRule_json) (pb_budgetPolicy b) @
            pb_extra b))"

definition bundles_json :: "FixturePolicyBundle list \<Rightarrow> json" where
  "bundles_json bs = arr_json bundle_json bs"

definition action_json :: "PolicyAction \<Rightarrow> json" where
  "action_json a =
     JObj ((''kind'', JStr (pa_kind a)) # opt_field ''toolId'' JStr (pa_toolId a) @
           opt_field ''args'' JObj (pa_args a) @
           opt_field ''requestedScopes'' strs_json (pa_requestedScopes a) @
           opt_field ''risk'' (\<lambda>r. JStr (risk_str r)) (pa_risk a) @
           opt_field ''budgetCosts'' (\<lambda>ps. JObj (map (\<lambda>p. (fst p, JNum (snd p))) ps)) (pa_budgetCosts a))"

fun decision_str :: "ApprovalDecisionValue \<Rightarrow> string" where
  "decision_str Approved = ''approved''"
| "decision_str Rejected = ''rejected''"
| "decision_str ApprovedWithChanges = ''approved_with_changes''"

definition approvalDecision_json :: "ApprovalDecision \<Rightarrow> json" where
  "approvalDecision_json d =
     JObj ([(''approvalId'', JStr (ad_approvalId d)), (''decision'', JStr (decision_str (ad_decision d)))] @
           opt_field ''constraints'' JObj (ad_constraints d) @ ad_extra d)"

fun approvals_json :: "Approvals \<Rightarrow> json" where
  "approvals_json (ApprovalState ds) =
     JObj (opt_field ''decisions'' (arr_json approvalDecision_json) ds)"
| "approvals_json (ApprovalArray ds) = arr_json approvalDecision_json ds"

definition hostPolicy_json :: "HostPolicySnapshot \<Rightarrow> json" where
  "hostPolicy_json h =
     JObj (opt_field ''deniedTools'' strs_json (hp_deniedTools h) @
           opt_field ''allowedTools'' strs_json (hp_allowedTools h))"

definition snapshots_json :: "PolicySnapshots \<Rightarrow> json" where
  "snapshots_json s =
     JObj (json_field ''runState'' (sn_runState s) @
           opt_field ''harnessPolicy'' (one_or_many_json bundle_json) (sn_harnessPolicy s) @
           opt_field ''hostPolicy'' hostPolicy_json (sn_hostPolicy s) @
           opt_field ''workspacePolicy'' (one_or_many_json bundle_json) (sn_workspacePolicy s) @
           opt_field ''budgets'' JObj (sn_budgets s) @
           opt_field ''approvals'' approvals_json (sn_approvals s) @
           json_field ''sourceTrust'' (sn_sourceTrust s))"

definition request_json :: "PolicyRequest \<Rightarrow> json" where
  "request_json r =
     JObj ([(''requestId'', JStr (rq_requestId r)), (''runId'', JStr (rq_runId r)),
            (''phase'', JStr (rq_phase r)), (''action'', action_json (rq_action r))] @
           opt_field ''runMode'' JStr (rq_runMode r) @
           opt_field ''snapshots'' snapshots_json (rq_snapshots r))"

end
