(* ===== verification/Policy_Engine.thy ===== *)
theory Policy_Engine
  imports Policy_Types Pattern_Safety "HOL-Library.Product_Lexorder"
begin

text \<open>
  The decision procedure of \<^verbatim>\<open>policy-engine/src/index.ts\<close>: \<^verbatim>\<open>evaluatePolicy\<close> collects the rules
  that match a request (host snapshot, explicit rules, tool policy, budget policy of every bundle),
  adds the fail-closed denial when no rule decides, sorts the matches by layer and resolves them to
  a verdict.

  The array \<^verbatim>\<open>matches\<close> and the counter \<^verbatim>\<open>sequence\<close> are threaded as a pair. The SHA-256 of
  \<^verbatim>\<open>node:crypto\<close> (hex digest of a text) is the parameter \<open>sha\<close>, the regular expressions of
  the language are the parameter \<open>re\<close>. \<^verbatim>\<open>PolicyVerdictSchema.parse\<close> is the check
  \<open>PolicyVerdictSchema_ok\<close>; when it fails the evaluation throws a \<open>ZodError\<close>.
\<close>

named_theorems policy_collect \<open>what the collection of matches adds\<close>

section \<open>Hashes\<close>

datatype PolicyRecordErrorCode =
    InvalidPolicyRecord
  | MissingDecisionHash
  | MissingEventIds
  | MissingPolicyBundleHash
  | MismatchedPolicyBundleHash
  | MissingDecidingRule
  | MalformedMatchedRule
  | UnknownObligationKind
  | RawArgsLeaked

datatype policy_error = ZodError | PolicyRecordError PolicyRecordErrorCode

type_synonym digest = "string \<Rightarrow> string"

text \<open>\<^verbatim>\<open>hashJson\<close>: no value hashed here is \<^verbatim>\<open>undefined\<close>.\<close>

definition hashJson :: "digest \<Rightarrow> json \<Rightarrow> string" where
  "hashJson sha v = ''sha256:'' @ sha (stringify (normalizeStable v))"

record DecisionHashInput =
  dh_requestHash :: string
  dh_policyBundleHash :: string
  dh_matchedRuleIds :: "string list"
  dh_status :: PolicyVerdictStatus
  dh_constraints :: "PolicyConstraint list"
  dh_obligations :: "PolicyObligation list"

definition decisionHashInput_json :: "DecisionHashInput \<Rightarrow> json" where
  "decisionHashInput_json i =
     JObj [(''requestHash'', JStr (dh_requestHash i)),
           (''policyBundleHash'', JStr (dh_policyBundleHash i)),
           (''matchedRuleIds'', strs_json (dh_matchedRuleIds i)),
           (''status'', JStr (status_str (dh_status i))),
           (''constraints'', arr_json constraint_json (dh_constraints i)),
           (''obligations'', arr_json obligation_json (dh_obligations i))]"

definition hashDecision :: "digest \<Rightarrow> DecisionHashInput \<Rightarrow> string" where
  "hashDecision sha i = hashJson sha (decisionHashInput_json i)"

section \<open>Small helpers\<close>

definition withSourceRule :: "constraint_body list option \<Rightarrow> string \<Rightarrow> PolicyConstraint list" where
  "withSourceRule cs rid =
     map (\<lambda>c. \<lparr>c_kind = c_kind c, c_value = c_value c, c_sourceRuleId = rid\<rparr>)
       (case cs of None \<Rightarrow> [] | Some xs \<Rightarrow> xs)"

definition obligationsWithSourceRule :: "obligation_body list option \<Rightarrow> string \<Rightarrow> PolicyObligation list" where
  "obligationsWithSourceRule obs rid =
     map (\<lambda>ob. \<lparr>o_kind = o_kind ob, o_params = o_params ob, o_sourceRuleId = rid\<rparr>)
       (case obs of None \<Rightarrow> [] | Some xs \<Rightarrow> xs)"

definition stringArray :: "json \<Rightarrow> string list" where
  "stringArray v =
     (case v of JArr xs \<Rightarrow> concat (map (\<lambda>x. case x of JStr s \<Rightarrow> [s] | _ \<Rightarrow> []) xs) | _ \<Rightarrow> [])"

definition matchesOne :: "'a one_or_many option \<Rightarrow> 'a option \<Rightarrow> bool" where
  "matchesOne expected actual =
     (case expected of None \<Rightarrow> True
      | Some ex \<Rightarrow> (case actual of None \<Rightarrow> False
          | Some a \<Rightarrow> (case ex of Many xs \<Rightarrow> a \<in> set xs | One x \<Rightarrow> x = a)))"

text \<open>The reduction over the segments: anything but an object yields \<^verbatim>\<open>undefined\<close>.\<close>

definition readPath :: "json \<Rightarrow> string \<Rightarrow> json" where
  "readPath root path =
     foldl (\<lambda>current segment. if is_record current then js_get current segment else JUndefined)
       root (split_on CHR ''.'' path)"

definition uniqueByStableJson :: "('a \<Rightarrow> json) \<Rightarrow> 'a list \<Rightarrow> 'a list" where
  "uniqueByStableJson f xs = unique_by_from (\<lambda>x. stableStringify (f x)) {} xs"

definition opt_list :: "'a list option \<Rightarrow> 'a list" where
  "opt_list x = (case x of None \<Rightarrow> [] | Some xs \<Rightarrow> xs)"

lemma opt_list_simps [simp]: "opt_list None = []" "opt_list (Some xs) = xs"
  by (simp_all add: opt_list_def)

definition stripInternalMatch :: "'a MatchBody_scheme \<Rightarrow> RuleMatch" where
  "stripInternalMatch m =
     \<lparr>rm_ruleId = rm_ruleId m, rm_layer = rm_layer m, rm_effect = rm_effect m, rm_reason = rm_reason m\<rparr>"

definition sortMatches :: "InternalRuleMatch list \<Rightarrow> InternalRuleMatch list" where
  "sortMatches ms = sort_key (\<lambda>m. (layerRank (rm_layer m), im_sequence m)) ms"

section \<open>Risk\<close>

definition intrinsicActionRisk :: "PolicyRequest \<Rightarrow> PolicyRisk" where
  "intrinsicActionRisk request =
     (let name = (case pa_toolId (rq_action request) of
                    None \<Rightarrow> pa_kind (rq_action request) | Some t \<Rightarrow> t) in
      if name = ''fs.read'' \<or> name = ''fs.list'' then Low
      else if name = ''tool_call'' then Medium
      else if name = ''shell.exec'' \<or> name = ''git.commit'' \<or> name = ''git.push'' then High
      else if name = ''network.write'' \<or> name = ''deploy'' \<or> name = ''secrets.read'' then Critical
      else Medium)"

definition higherRisk :: "PolicyRisk \<Rightarrow> PolicyRisk option \<Rightarrow> PolicyRisk" where
  "higherRisk baseline callerSupplied =
     (case callerSupplied of None \<Rightarrow> baseline
      | Some r \<Rightarrow> if riskRank r > riskRank baseline then r else baseline)"

definition actionRisk :: "PolicyRequest \<Rightarrow> PolicyRisk" where
  "actionRisk request = higherRisk (intrinsicActionRisk request) (pa_risk (rq_action request))"

section \<open>Which rules match\<close>

definition argMatcherApplies :: "regexp \<Rightarrow> PolicyArgMatcher \<Rightarrow> (string \<times> json) list option \<Rightarrow> bool" where
  "argMatcherApplies re matcher args =
     (let value = readPath (case args of None \<Rightarrow> JUndefined | Some ps \<Rightarrow> JObj ps) (am_path matcher) in
      (case am_equals matcher of None \<Rightarrow> True
       | Some e \<Rightarrow> stableStringify value = stableStringify e) \<and>
      (case am_includes matcher of None \<Rightarrow> True
       | Some t \<Rightarrow> (case value of JStr s \<Rightarrow> str_includes t s | _ \<Rightarrow> False)) \<and>
      (case am_pattern matcher of None \<Rightarrow> True
       | Some p \<Rightarrow> (case value of JStr s \<Rightarrow> policyPatternApplies re p s | _ \<Rightarrow> False)))"

definition ruleMatchesRequest :: "regexp \<Rightarrow> FixturePolicyRule \<Rightarrow> PolicyRequest \<Rightarrow> bool" where
  "ruleMatchesRequest re rule request =
     (case fr_match rule of
        None \<Rightarrow> True
      | Some m \<Rightarrow>
          if \<not> matchesOne (mc_actionKind m) (Some (pa_kind (rq_action request))) then False
          else if \<not> matchesOne (mc_toolId m) (pa_toolId (rq_action request)) then False
          else if (case mc_phases m of None \<Rightarrow> False | Some ps \<Rightarrow> rq_phase request \<notin> set ps) then False
          else if \<not> matchesOne (mc_risk m) (Some (actionRisk request)) then False
          else if (case mc_runModes m of None \<Rightarrow> False
                   | Some ms \<Rightarrow> (case rq_runMode request of None \<Rightarrow> True | Some r \<Rightarrow> r \<notin> set ms)) then False
          else if (case mc_requestedScopes m of None \<Rightarrow> False
                   | Some ss \<Rightarrow> \<not> list_all (\<lambda>s. s \<in> set (opt_list (pa_requestedScopes (rq_action request)))) ss)
            then False
          else if (case mc_args m of None \<Rightarrow> False
                   | Some ms \<Rightarrow> \<not> list_all (\<lambda>a. argMatcherApplies re a (pa_args (rq_action request))) ms)
            then False
          else True)"

definition collectExplicitRules :: "FixturePolicyBundle \<Rightarrow> FixturePolicyRule list" where
  "collectExplicitRules b =
     opt_list (pb_runtimeInvariants b) @ opt_list (pb_hostRules b) @ opt_list (pb_workspaceRules b) @
     opt_list (pb_harnessRules b) @ opt_list (pb_phaseRules b) @ opt_list (pb_capabilityRules b) @
     opt_list (pb_runModeRules b) @ opt_list (pb_rules b)"

section \<open>Collecting matches\<close>

type_synonym match_state = "InternalRuleMatch list \<times> nat"

definition with_sequence :: "MatchBody \<Rightarrow> nat \<Rightarrow> InternalRuleMatch" where
  "with_sequence b n = MatchBody.extend b (InternalRuleMatch.fields n)"

text \<open>\<^verbatim>\<open>matches.push({...body, sequence}); sequence += 1\<close>.\<close>

definition push :: "MatchBody \<Rightarrow> match_state \<Rightarrow> match_state" where
  "push b st = (fst st @ [with_sequence b (snd st)], Suc (snd st))"

text \<open>A match with no approval id, constraint or obligation.\<close>

definition plain_match :: "string \<Rightarrow> PolicyRuleLayer \<Rightarrow> PolicyRuleEffect \<Rightarrow> string \<Rightarrow> MatchBody" where
  "plain_match rid layer effect reason =
     \<lparr>rm_ruleId = rid, rm_layer = layer, rm_effect = effect, rm_reason = reason,
      im_approvalId = None, im_constraints = [], im_obligations = []\<rparr>"

definition ruleToMatch :: "FixturePolicyRule \<Rightarrow> MatchBody" where
  "ruleToMatch rule =
     \<lparr>rm_ruleId = fr_id rule, rm_layer = fr_layer rule, rm_effect = fr_effect rule,
      rm_reason = fr_reason rule, im_approvalId = fr_approvalId rule,
      im_constraints = withSourceRule (fr_constraints rule) (fr_id rule),
      im_obligations = obligationsWithSourceRule (fr_obligations rule) (fr_id rule)\<rparr>"

definition addHostPolicySnapshotMatches :: "PolicyRequest \<Rightarrow> match_state \<Rightarrow> match_state" where
  "addHostPolicySnapshotMatches request st =
     (case (Option.bind (rq_snapshots request) sn_hostPolicy, pa_toolId (rq_action request)) of
        (Some hostPolicy, Some toolId) \<Rightarrow>
          (let st1 = (if toolId \<in> set (opt_list (hp_deniedTools hostPolicy))
                      then push (plain_match (''host.'' @ toolId @ ''.deny'') Host EDeny
                                   (''Host policy denies '' @ toolId)) st
                      else st) in
           case hp_allowedTools hostPolicy of
             None \<Rightarrow> st1
           | Some allowed \<Rightarrow>
               if toolId \<notin> set allowed
               then push (plain_match (''host.'' @ toolId @ ''.not_allowed'') Host EDeny
                            (''Host policy does not allow '' @ toolId)) st1
               else st1)
      | _ \<Rightarrow> st)"

definition evaluateScopePolicy ::
  "PolicyRequest \<Rightarrow> FixturePolicyBundle \<Rightarrow> FixtureToolPolicy \<Rightarrow> string \<Rightarrow> MatchBody option" where
  "evaluateScopePolicy request bundle toolPolicy toolId =
     (let requestedScopes = opt_list (pa_requestedScopes (rq_action request));
          requiredScopes = opt_list (tp_requiredScopes toolPolicy);
          allowedScopes = unique (stringArray (pb_scopes bundle) @
                                  opt_list (tp_allowedScopes toolPolicy) @ requiredScopes);
          scopeRuleId = ''tool.'' @ toolId @ ''.scope'' in
      if requiredScopes = [] \<and> requestedScopes = [] then None
      else (case find (\<lambda>s. s \<notin> set requestedScopes) requiredScopes of
          Some s \<Rightarrow> Some (plain_match scopeRuleId Capability EDeny
                           (''Tool '' @ toolId @ '' is missing required scope '' @ s))
        | None \<Rightarrow>
            (case find (\<lambda>s. s \<notin> set allowedScopes) requestedScopes of
               Some s \<Rightarrow> Some (plain_match scopeRuleId Capability EDeny
                                (''Tool '' @ toolId @ '' requested scope '' @ s @ '' outside policy''))
             | None \<Rightarrow>
                 Some ((plain_match scopeRuleId Capability EConstrain
                          (''Tool '' @ toolId @ '' scopes are within policy''))
                       \<lparr>im_constraints :=
                          [\<lparr>c_kind = ''allowedScopes'', c_value = strs_json allowedScopes,
                            c_sourceRuleId = scopeRuleId\<rparr>]\<rparr>))))"

fun effect_of :: "PolicyVerdictStatus \<Rightarrow> PolicyRuleEffect" where
  "effect_of Allow = EAllow"
| "effect_of Deny = EDeny"
| "effect_of ApprovalRequired = EApprovalRequired"

definition addToolPolicyMatches ::
  "PolicyRequest \<Rightarrow> FixturePolicyBundle \<Rightarrow> match_state \<Rightarrow> match_state" where
  "addToolPolicyMatches request bundle st =
     (case pa_toolId (rq_action request) of
        None \<Rightarrow> st
      | Some toolId \<Rightarrow>
          (case Option.bind (pb_toolPolicy bundle) (\<lambda>ps. map_of ps toolId) of
             None \<Rightarrow> st
           | Some toolPolicy \<Rightarrow>
               (let phaseRuleId = ''tool.'' @ toolId @ ''.phase'';
                    st1 = (case tp_allowedPhases toolPolicy of
                        None \<Rightarrow> st
                      | Some phases \<Rightarrow>
                          if rq_phase request \<in> set phases
                          then push (plain_match phaseRuleId Phase EAllow
                                 (''Tool '' @ toolId @ '' is allowed in phase '' @ rq_phase request)) st
                          else push (plain_match phaseRuleId Phase EDeny
                                 (''Tool '' @ toolId @ '' is not allowed in phase '' @ rq_phase request)) st);
                    st2 = (case evaluateScopePolicy request bundle toolPolicy toolId of
                        None \<Rightarrow> st1 | Some m \<Rightarrow> push m st1);
                    defaultRuleId = ''tool.'' @ toolId @ ''.default'' in
                push \<lparr>rm_ruleId = defaultRuleId, rm_layer = Capability,
                      rm_effect = effect_of (tp_default toolPolicy),
                      rm_reason = (case tp_reason toolPolicy of Some r \<Rightarrow> r
                        | None \<Rightarrow> ''Tool '' @ toolId @ '' default policy is '' @ status_str (tp_default toolPolicy)),
                      im_approvalId = tp_approvalId toolPolicy,
                      im_constraints = withSourceRule (tp_constraints toolPolicy) defaultRuleId,
                      im_obligations = obligationsWithSourceRule (tp_obligations toolPolicy) defaultRuleId\<rparr> st2)))"

text \<open>\<^verbatim>\<open>readBudgetUsage\<close>: a number, or an object with a number \<^verbatim>\<open>used\<close>.\<close>

definition readBudgetUsage :: "(string \<times> json) list option \<Rightarrow> string \<Rightarrow> int option" where
  "readBudgetUsage budgets resource =
     (case Option.bind budgets (\<lambda>ps. map_of ps resource) of
        Some (JNum n) \<Rightarrow> Some n
      | Some (JObj ps) \<Rightarrow> (case js_get (JObj ps) ''used'' of JNum n \<Rightarrow> Some n | _ \<Rightarrow> None)
      | _ \<Rightarrow> None)"

fun effect_of_exceeded :: "OnExceeded \<Rightarrow> PolicyRuleEffect" where
  "effect_of_exceeded ExceededDeny = EDeny"
| "effect_of_exceeded ExceededApprovalRequired = EApprovalRequired"

definition budget_match :: "FixtureBudgetRule \<Rightarrow> MatchBody" where
  "budget_match rule =
     \<lparr>rm_ruleId = br_id rule,
      rm_layer = (case br_layer rule of None \<Rightarrow> Harness | Some l \<Rightarrow> l),
      rm_effect = effect_of_exceeded (br_onExceeded rule), rm_reason = br_reason rule,
      im_approvalId = br_approvalId rule,
      im_constraints =
        (case br_constraints rule of
           None \<Rightarrow> [\<lparr>c_kind = ''budget.max'',
                     c_value = JObj [(''resource'', JStr (br_resource rule)), (''max'', JNum (br_max rule))],
                     c_sourceRuleId = br_id rule\<rparr>]
         | Some cs \<Rightarrow> withSourceRule (Some cs) (br_id rule)),
      im_obligations = obligationsWithSourceRule (br_obligations rule) (br_id rule)\<rparr>"

definition add_ungoverned_cost :: "FixtureBudgetRule list \<Rightarrow> string \<times> int \<Rightarrow> match_state \<Rightarrow> match_state" where
  "add_ungoverned_cost budgetPolicy rc st =
     (if snd rc > 0 \<and> fst rc \<notin> br_resource ` set budgetPolicy
      then push (plain_match (''budget.'' @ fst rc @ ''.missing_policy'') Harness EDeny
                   (''No budget policy exists for resource '' @ fst rc)) st
      else st)"

definition add_budget_rule ::
  "PolicyRequest \<Rightarrow> (string \<times> int) list \<Rightarrow> FixtureBudgetRule \<Rightarrow> match_state \<Rightarrow> match_state" where
  "add_budget_rule request budgetCosts rule st =
     (let requested = (case map_of budgetCosts (br_resource rule) of None \<Rightarrow> 0 | Some c \<Rightarrow> c);
          usage = readBudgetUsage (Option.bind (rq_snapshots request) sn_budgets) (br_resource rule) in
      if requested \<le> 0 then st
      else (case usage of
          None \<Rightarrow> push (plain_match (''budget.'' @ br_resource rule @ ''.missing_snapshot'') Harness EDeny
                     (''Budget snapshot is missing for resource '' @ br_resource rule)) st
        | Some used \<Rightarrow> if used + requested > br_max rule then push (budget_match rule) st else st))"

definition addBudgetPolicyMatches ::
  "PolicyRequest \<Rightarrow> FixturePolicyBundle \<Rightarrow> match_state \<Rightarrow> match_state" where
  "addBudgetPolicyMatches request bundle st =
     (let budgetCosts = opt_list (pa_budgetCosts (rq_action request));
          budgetPolicy = opt_list (pb_budgetPolicy bundle) in
      fold (add_budget_rule request budgetCosts) budgetPolicy
        (fold (add_ungoverned_cost budgetPolicy) budgetCosts st))"

definition addExplicitRuleMatches ::
  "regexp \<Rightarrow> PolicyRequest \<Rightarrow> FixturePolicyBundle \<Rightarrow> match_state \<Rightarrow> match_state" where
  "addExplicitRuleMatches re request bundle st =
     fold (\<lambda>rule st. if ruleMatchesRequest re rule request then push (ruleToMatch rule) st else st)
       (collectExplicitRules bundle) st"

definition addBundleMatches ::
  "regexp \<Rightarrow> PolicyRequest \<Rightarrow> FixturePolicyBundle \<Rightarrow> match_state \<Rightarrow> match_state" where
  "addBundleMatches re request bundle st =
     addBudgetPolicyMatches request bundle
       (addToolPolicyMatches request bundle (addExplicitRuleMatches re request bundle st))"

definition missingPolicyMatch :: "PolicyRequest \<Rightarrow> MatchBody" where
  "missingPolicyMatch request =
     (let actionName = (case pa_toolId (rq_action request) of
                          None \<Rightarrow> pa_kind (rq_action request) | Some t \<Rightarrow> t) in
      plain_match ''runtime.missing_policy.fail_closed'' RuntimeInvariant EDeny
        (if actionRisk request = Low
         then ''No applicable policy exists for action '' @ actionName
         else ''No applicable policy exists for risky action '' @ actionName))"

definition hasDecisionMatch :: "InternalRuleMatch list \<Rightarrow> bool" where
  "hasDecisionMatch ms = list_ex (\<lambda>m. rm_effect m \<in> set DECISION_EFFECTS) ms"

text \<open>The matches and the counter when the loops are done, and after the fail-closed denial.\<close>

definition collectMatches :: "regexp \<Rightarrow> PolicyRequest \<Rightarrow> FixturePolicyBundle list \<Rightarrow> match_state" where
  "collectMatches re request bundles =
     fold (addBundleMatches re request) bundles (addHostPolicySnapshotMatches request ([], 0))"

definition failClosed :: "PolicyRequest \<Rightarrow> match_state \<Rightarrow> match_state" where
  "failClosed request st =
     (if hasDecisionMatch (fst st) then st else push (missingPolicyMatch request) st)"

section \<open>Approvals\<close>

definition approvalIdFor :: "InternalRuleMatch \<Rightarrow> string" where
  "approvalIdFor m = (case im_approvalId m of Some a \<Rightarrow> a | None \<Rightarrow> ''approval.'' @ rm_ruleId m)"

definition findApprovalDecision :: "PolicyRequest \<Rightarrow> string \<Rightarrow> ApprovalDecision option" where
  "findApprovalDecision request approvalId =
     (let decisions = (case Option.bind (rq_snapshots request) sn_approvals of
          None \<Rightarrow> []
        | Some (ApprovalArray ds) \<Rightarrow> ds
        | Some (ApprovalState ds) \<Rightarrow> opt_list ds) in
      find (\<lambda>d. ad_approvalId d = approvalId \<and>
                (ad_decision d = Approved \<or> ad_decision d = ApprovedWithChanges)) decisions)"

definition approvalDecisionConstraints :: "ApprovalDecision option \<Rightarrow> string \<Rightarrow> PolicyConstraint list" where
  "approvalDecisionConstraints decision rid =
     (case Option.bind decision ad_constraints of
        None \<Rightarrow> []
      | Some ps \<Rightarrow> map (\<lambda>p. \<lparr>c_kind = fst p, c_value = snd p, c_sourceRuleId = rid\<rparr>) ps)"

definition approvalMatch :: "PolicyRequest \<Rightarrow> InternalRuleMatch \<Rightarrow> MatchBody" where
  "approvalMatch request m =
     (let approvalId = approvalIdFor m; rid = ''approval.'' @ approvalId @ ''.approved'' in
      (plain_match rid Approval EAllow (''Approval '' @ approvalId @ '' satisfies policy requirement''))
        \<lparr>im_constraints := approvalDecisionConstraints (findApprovalDecision request approvalId) rid\<rparr>)"

section \<open>Verdicts\<close>

definition reasonsFor :: "PolicyVerdictStatus \<Rightarrow> RuleMatch list \<Rightarrow> string list" where
  "reasonsFor status rules =
     (case status of
        Deny \<Rightarrow> unique (map rm_reason (filter (\<lambda>r. rm_effect r = EDeny) rules))
      | ApprovalRequired \<Rightarrow> unique (map rm_reason (filter (\<lambda>r. rm_effect r = EApprovalRequired) rules))
      | Allow \<Rightarrow> unique (map rm_reason (filter (\<lambda>r. rm_effect r \<noteq> EDeny) rules)))"

definition OBLIGATION_KINDS :: "string list" where
  "OBLIGATION_KINDS =
     [''record_event'', ''redact'', ''stage_write'', ''run_eval'', ''require_evidence'',
      ''attach_trace'', ''mark_external_source'', ''request_human_review'']"

definition ruleMatch_ok :: "RuleMatch \<Rightarrow> bool" where
  "ruleMatch_ok m \<longleftrightarrow> rm_ruleId m \<noteq> [] \<and> rm_reason m \<noteq> []"

definition constraint_ok :: "PolicyConstraint \<Rightarrow> bool" where
  "constraint_ok c \<longleftrightarrow> c_kind c \<noteq> [] \<and> c_sourceRuleId c \<noteq> []"

definition obligation_ok :: "PolicyObligation \<Rightarrow> bool" where
  "obligation_ok ob \<longleftrightarrow> o_kind ob \<in> set OBLIGATION_KINDS \<and> o_sourceRuleId ob \<noteq> []"

definition PolicyVerdictSchema_ok :: "PolicyVerdict \<Rightarrow> bool" where
  "PolicyVerdictSchema_ok v \<longleftrightarrow>
     pv_approvalId v \<noteq> Some [] \<and> list_all (\<lambda>r. r \<noteq> []) (pv_reasons v) \<and>
     list_all constraint_ok (pv_constraints v) \<and> list_all obligation_ok (pv_obligations v) \<and>
     list_all ruleMatch_ok (pv_matchedRules v) \<and> pv_decisionHash v \<noteq> [] \<and>
     pv_requestHash v \<noteq> Some [] \<and> pv_policyBundleHash v \<noteq> Some []"

definition verdictForStatus ::
  "digest \<Rightarrow> PolicyVerdictStatus \<Rightarrow> PolicyRequest \<Rightarrow> FixturePolicyBundle list \<Rightarrow> InternalRuleMatch list \<Rightarrow>
   string option \<Rightarrow> policy_error + PolicyVerdict" where
  "verdictForStatus sha status request bundles ms approvalId =
     (let constraints = uniqueByStableJson constraint_json (concat (map im_constraints ms));
          obligations = uniqueByStableJson obligation_json (concat (map im_obligations ms));
          matchedRules = map stripInternalMatch ms;
          decisionHash = hashDecision sha
            \<lparr>dh_requestHash = hashJson sha (request_json request),
             dh_policyBundleHash = hashJson sha (bundles_json bundles),
             dh_matchedRuleIds = map rm_ruleId matchedRules,
             dh_status = status, dh_constraints = constraints, dh_obligations = obligations\<rparr>;
          verdict =
            \<lparr>pv_status = status,
             pv_approvalId =
               (if status = ApprovalRequired
                then Some (case approvalId of Some a \<Rightarrow> a | None \<Rightarrow> ''approval_required'') else None),
             pv_reasons = reasonsFor status matchedRules, pv_constraints = constraints,
             pv_obligations = obligations, pv_matchedRules = matchedRules,
             pv_decisionHash = decisionHash, pv_requestHash = None, pv_policyBundleHash = None\<rparr> in
      if PolicyVerdictSchema_ok verdict then Inr verdict else Inl ZodError)"

definition normalizePolicyBundles :: "FixturePolicyBundle one_or_many option \<Rightarrow> FixturePolicyBundle list" where
  "normalizePolicyBundles bs =
     (case bs of None \<Rightarrow> [] | Some (One b) \<Rightarrow> [b] | Some (Many xs) \<Rightarrow> xs)"

text \<open>\<^verbatim>\<open>policyBundles ?? request.snapshots?.harnessPolicy\<close>, normalised.\<close>

definition effectiveBundles :: "PolicyRequest \<Rightarrow> FixturePolicyBundle one_or_many option \<Rightarrow> FixturePolicyBundle list" where
  "effectiveBundles request policyBundles =
     normalizePolicyBundles
       (case policyBundles of Some bs \<Rightarrow> Some bs
        | None \<Rightarrow> Option.bind (rq_snapshots request) sn_harnessPolicy)"

definition evaluatePolicy ::
  "digest \<Rightarrow> regexp \<Rightarrow> PolicyRequest \<Rightarrow> FixturePolicyBundle one_or_many option \<Rightarrow>
   policy_error + PolicyVerdict" where
  "evaluatePolicy sha re request policyBundles =
     (let bundles = effectiveBundles request policyBundles;
          st = failClosed request (collectMatches re request bundles);
          ms = sortMatches (fst st);
          denyMatches = filter (\<lambda>m. rm_effect m = EDeny) ms;
          approvalMatches = filter (\<lambda>m. rm_effect m = EApprovalRequired) ms in
      if denyMatches \<noteq> [] then verdictForStatus sha Deny request bundles ms None
      else if approvalMatches \<noteq> [] then
        (case find (\<lambda>m. findApprovalDecision request (approvalIdFor m) = None) approvalMatches of
           Some m \<Rightarrow> verdictForStatus sha ApprovalRequired request bundles ms (Some (approvalIdFor m))
         | None \<Rightarrow>
             verdictForStatus sha Allow request bundles
               (sortMatches (fst (fold push (map (approvalMatch request) approvalMatches) (ms, snd st)))) None)
      else verdictForStatus sha Allow request bundles ms None)"

end
