(* ===== verification/Policy_Decisions.thy ===== *)
theory Policy_Decisions
  imports Policy_Engine
begin

text \<open>
  What the policy engine decides. Each collecting function of the engine is a \<open>match_collector\<close>: it
  appends a fixed list of matches, numbered consecutively, to whatever was collected before. The
  abstract specification of a decision is then the list of all of these matches, \<open>policyBodies\<close>,
  and \<open>spec_status\<close>, which reads the verdict off it with no state; \<open>evaluatePolicy\<close> implements it.
\<close>

section \<open>Numbered matches\<close>

definition number :: "nat \<Rightarrow> MatchBody list \<Rightarrow> InternalRuleMatch list" where
  "number n bs = map2 with_sequence bs [n..<n + length bs]"

lemma with_sequence_fields [simp]:
  "rm_ruleId (with_sequence b n) = rm_ruleId b" "rm_layer (with_sequence b n) = rm_layer b"
  "rm_effect (with_sequence b n) = rm_effect b" "rm_reason (with_sequence b n) = rm_reason b"
  "im_approvalId (with_sequence b n) = im_approvalId b"
  "im_constraints (with_sequence b n) = im_constraints b"
  "im_obligations (with_sequence b n) = im_obligations b"
  "im_sequence (with_sequence b n) = n"
  by (simp_all add: with_sequence_def MatchBody.extend_def InternalRuleMatch.fields_def)

lemma strip_with_sequence [simp]: "stripInternalMatch (with_sequence b n) = stripInternalMatch b"
  by (simp add: stripInternalMatch_def)

lemma strip_fields [simp]:
  "rm_ruleId (stripInternalMatch m) = rm_ruleId m" "rm_layer (stripInternalMatch m) = rm_layer m"
  "rm_effect (stripInternalMatch m) = rm_effect m" "rm_reason (stripInternalMatch m) = rm_reason m"
  by (simp_all add: stripInternalMatch_def)

lemma number_Nil [simp]: "number n [] = []"
  by (simp add: number_def)

lemma number_Cons: "number n (b # bs) = with_sequence b n # number (Suc n) bs"
  by (simp add: number_def upt_conv_Cons del: upt_Suc)

lemma number_append: "number n (xs @ ys) = number n xs @ number (n + length xs) ys"
  by (induction xs arbitrary: n) (simp_all add: number_Cons)

lemma fold_push: "fold push bs (ms, n) = (ms @ number n bs, n + length bs)"
  by (induction bs arbitrary: ms n) (simp_all add: push_def number_Cons)

lemma map_number: "(\<And>b k. f (with_sequence b k) = g b) \<Longrightarrow> map f (number n bs) = map g bs"
  by (induction bs arbitrary: n) (simp_all add: number_Cons)

lemma set_number: "m \<in> set (number n bs) \<Longrightarrow> \<exists>b \<in> set bs. \<exists>k. m = with_sequence b k"
  by (induction bs arbitrary: n) (auto simp: number_Cons)

lemma in_number: "b \<in> set bs \<Longrightarrow> \<exists>k. with_sequence b k \<in> set (number n bs)"
  by (induction bs arbitrary: n) (auto simp: number_Cons)

lemma sequences_number: "map im_sequence (number n bs) = [n..<n + length bs]"
proof (induction bs arbitrary: n)
  case (Cons b bs)
  then show ?case by (simp add: number_Cons upt_conv_Cons del: upt_Suc)
qed simp

section \<open>The collecting functions\<close>

locale match_collector =
  fixes add :: "'b \<Rightarrow> match_state \<Rightarrow> match_state"
    and bodies :: "'b \<Rightarrow> MatchBody list"
  assumes add_bodies: "add x st = fold push (bodies x) st"
begin

lemma fold_add: "fold add xs st = fold push (concat (map bodies xs)) st"
  by (induction xs arbitrary: st) (simp_all add: add_bodies)

lemma add_append: "fst (add x (ms, n)) = ms @ number n (bodies x)"
  by (simp add: add_bodies fold_push)

end

definition hostBodies :: "PolicyRequest \<Rightarrow> MatchBody list" where
  "hostBodies request =
     (case (Option.bind (rq_snapshots request) sn_hostPolicy, pa_toolId (rq_action request)) of
        (Some h, Some t) \<Rightarrow>
          (if t \<in> set (opt_list (hp_deniedTools h))
           then [plain_match (''host.'' @ t @ ''.deny'') Host EDeny (''Host policy denies '' @ t)] else []) @
          (case hp_allowedTools h of None \<Rightarrow> []
           | Some allowed \<Rightarrow> if t \<in> set allowed then []
               else [plain_match (''host.'' @ t @ ''.not_allowed'') Host EDeny
                       (''Host policy does not allow '' @ t)])
      | _ \<Rightarrow> [])"

definition explicitBodies :: "regexp \<Rightarrow> PolicyRequest \<Rightarrow> FixturePolicyBundle \<Rightarrow> MatchBody list" where
  "explicitBodies re request bundle =
     map ruleToMatch (filter (\<lambda>r. ruleMatchesRequest re r request) (collectExplicitRules bundle))"

definition phaseBody :: "PolicyRequest \<Rightarrow> string \<Rightarrow> string list \<Rightarrow> MatchBody" where
  "phaseBody request t phases =
     (if rq_phase request \<in> set phases
      then plain_match (''tool.'' @ t @ ''.phase'') Phase EAllow
             (''Tool '' @ t @ '' is allowed in phase '' @ rq_phase request)
      else plain_match (''tool.'' @ t @ ''.phase'') Phase EDeny
             (''Tool '' @ t @ '' is not allowed in phase '' @ rq_phase request))"

definition defaultBody :: "string \<Rightarrow> FixtureToolPolicy \<Rightarrow> MatchBody" where
  "defaultBody t p =
     \<lparr>rm_ruleId = ''tool.'' @ t @ ''.default'', rm_layer = Capability,
      rm_effect = effect_of (tp_default p),
      rm_reason = (case tp_reason p of Some r \<Rightarrow> r
        | None \<Rightarrow> ''Tool '' @ t @ '' default policy is '' @ status_str (tp_default p)),
      im_approvalId = tp_approvalId p,
      im_constraints = withSourceRule (tp_constraints p) (''tool.'' @ t @ ''.default''),
      im_obligations = obligationsWithSourceRule (tp_obligations p) (''tool.'' @ t @ ''.default'')\<rparr>"

text \<open>The policy of a bundle for the requested tool.\<close>

definition toolPolicyFor :: "PolicyRequest \<Rightarrow> FixturePolicyBundle \<Rightarrow> (string \<times> FixtureToolPolicy) option" where
  "toolPolicyFor request bundle =
     Option.bind (pa_toolId (rq_action request)) (\<lambda>t.
       map_option (Pair t) (Option.bind (pb_toolPolicy bundle) (\<lambda>ps. map_of ps t)))"

definition toolBodies :: "PolicyRequest \<Rightarrow> FixturePolicyBundle \<Rightarrow> MatchBody list" where
  "toolBodies request bundle =
     (case toolPolicyFor request bundle of
        None \<Rightarrow> []
      | Some (t, p) \<Rightarrow>
          (case tp_allowedPhases p of None \<Rightarrow> [] | Some phases \<Rightarrow> [phaseBody request t phases]) @
          (case evaluateScopePolicy request bundle p t of None \<Rightarrow> [] | Some m \<Rightarrow> [m]) @
          [defaultBody t p])"

definition ungovernedBodies :: "FixtureBudgetRule list \<Rightarrow> string \<times> int \<Rightarrow> MatchBody list" where
  "ungovernedBodies policy rc =
     (if snd rc > 0 \<and> fst rc \<notin> br_resource ` set policy
     then [plain_match (''budget.'' @ fst rc @ ''.missing_policy'') Harness EDeny
             (''No budget policy exists for resource '' @ fst rc)] else [])"

definition requestedCost :: "PolicyRequest \<Rightarrow> string \<Rightarrow> int" where
  "requestedCost request resource =
     (case map_of (opt_list (pa_budgetCosts (rq_action request))) resource of None \<Rightarrow> 0 | Some c \<Rightarrow> c)"

definition budgetUsage :: "PolicyRequest \<Rightarrow> string \<Rightarrow> int option" where
  "budgetUsage request = readBudgetUsage (Option.bind (rq_snapshots request) sn_budgets)"

definition budgetRuleBodies :: "PolicyRequest \<Rightarrow> FixtureBudgetRule \<Rightarrow> MatchBody list" where
  "budgetRuleBodies request rule =
     (if requestedCost request (br_resource rule) \<le> 0 then []
      else (case budgetUsage request (br_resource rule) of
          None \<Rightarrow> [plain_match (''budget.'' @ br_resource rule @ ''.missing_snapshot'') Harness EDeny
                     (''Budget snapshot is missing for resource '' @ br_resource rule)]
        | Some used \<Rightarrow>
            if used + requestedCost request (br_resource rule) > br_max rule then [budget_match rule] else []))"

definition budgetBodies :: "PolicyRequest \<Rightarrow> FixturePolicyBundle \<Rightarrow> MatchBody list" where
  "budgetBodies request bundle =
     concat (map (ungovernedBodies (opt_list (pb_budgetPolicy bundle)))
       (opt_list (pa_budgetCosts (rq_action request)))) @
     concat (map (budgetRuleBodies request) (opt_list (pb_budgetPolicy bundle)))"

definition bundleBodies :: "regexp \<Rightarrow> PolicyRequest \<Rightarrow> FixturePolicyBundle \<Rightarrow> MatchBody list" where
  "bundleBodies re request bundle =
     explicitBodies re request bundle @ toolBodies request bundle @ budgetBodies request bundle"

interpretation host_collector: match_collector addHostPolicySnapshotMatches hostBodies
proof unfold_locales
  fix request st
  show "addHostPolicySnapshotMatches request st = fold push (hostBodies request) st"
    by (cases "Option.bind (rq_snapshots request) sn_hostPolicy"; cases "pa_toolId (rq_action request)")
       (auto simp: addHostPolicySnapshotMatches_def hostBodies_def Let_def split: option.split)
qed

lemma fold_filter_push:
  "fold (\<lambda>r st. if P r then push (f r) st else st) rs st = fold push (map f (filter P rs)) st"
  by (induction rs arbitrary: st) simp_all

interpretation explicit_collector:
  match_collector "addExplicitRuleMatches re request" "explicitBodies re request" for re request
  by unfold_locales (simp only: addExplicitRuleMatches_def explicitBodies_def fold_filter_push)

interpretation tool_collector:
  match_collector "addToolPolicyMatches request" "toolBodies request" for request
proof unfold_locales
  fix b st
  show "addToolPolicyMatches request b st = fold push (toolBodies request b) st"
  proof (cases "pa_toolId (rq_action request)")
    case None
    then show ?thesis by (simp add: addToolPolicyMatches_def toolBodies_def toolPolicyFor_def)
  next
    case t: (Some t)
    show ?thesis
    proof (cases "Option.bind (pb_toolPolicy b) (\<lambda>ps. map_of ps t)")
      case None
      with t show ?thesis by (simp add: addToolPolicyMatches_def toolBodies_def toolPolicyFor_def)
    next
      case (Some p)
      with t show ?thesis
        by (simp add: addToolPolicyMatches_def toolBodies_def toolPolicyFor_def phaseBody_def
            defaultBody_def Let_def split: option.split)
    qed
  qed
qed

interpretation ungoverned_collector:
  match_collector "add_ungoverned_cost policy" "ungovernedBodies policy" for policy
  by unfold_locales (simp add: add_ungoverned_cost_def ungovernedBodies_def)

interpretation budget_rule_collector:
  match_collector
    "add_budget_rule request (opt_list (pa_budgetCosts (rq_action request)))" "budgetRuleBodies request"
  for request
  by unfold_locales
     (simp add: add_budget_rule_def budgetRuleBodies_def requestedCost_def budgetUsage_def Let_def
       split: option.split)

interpretation budget_collector:
  match_collector "addBudgetPolicyMatches request" "budgetBodies request" for request
  by unfold_locales
     (simp add: addBudgetPolicyMatches_def budgetBodies_def Let_def
       budget_rule_collector.fold_add ungoverned_collector.fold_add)

interpretation bundle_collector:
  match_collector "addBundleMatches re request" "bundleBodies re request" for re request
  by unfold_locales
     (simp add: addBundleMatches_def bundleBodies_def budget_collector.add_bodies
       tool_collector.add_bodies explicit_collector.add_bodies)

section \<open>The abstract decision\<close>

definition collectedBodies :: "regexp \<Rightarrow> PolicyRequest \<Rightarrow> FixturePolicyBundle list \<Rightarrow> MatchBody list" where
  "collectedBodies re request bundles = hostBodies request @ concat (map (bundleBodies re request) bundles)"

definition decides :: "'a RuleMatch_scheme \<Rightarrow> bool" where
  "decides m \<longleftrightarrow> rm_effect m \<in> {EAllow, EDeny, EApprovalRequired}"

definition policyBodies :: "regexp \<Rightarrow> PolicyRequest \<Rightarrow> FixturePolicyBundle list \<Rightarrow> MatchBody list" where
  "policyBodies re request bundles =
     (let bs = collectedBodies re request bundles in
      if \<exists>b \<in> set bs. decides b then bs else bs @ [missingPolicyMatch request])"

text \<open>An approval requirement is met when the request carries a positive decision for its id.\<close>

definition approvalIdOf :: "MatchBody \<Rightarrow> string" where
  "approvalIdOf b = (case im_approvalId b of Some a \<Rightarrow> a | None \<Rightarrow> ''approval.'' @ rm_ruleId b)"

definition approval_met :: "PolicyRequest \<Rightarrow> MatchBody \<Rightarrow> bool" where
  "approval_met request b \<longleftrightarrow>
     findApprovalDecision request (approvalIdOf b) \<noteq> None"

definition spec_status :: "PolicyRequest \<Rightarrow> MatchBody set \<Rightarrow> PolicyVerdictStatus" where
  "spec_status request B =
     (if \<exists>b \<in> B. rm_effect b = EDeny then Deny
      else if \<exists>b \<in> B. rm_effect b = EApprovalRequired \<and> \<not> approval_met request b then ApprovalRequired
      else Allow)"

lemma collectMatches_number:
  "collectMatches re request bundles =
     (number 0 (collectedBodies re request bundles), length (collectedBodies re request bundles))"
  by (simp add: collectMatches_def collectedBodies_def bundle_collector.fold_add
      host_collector.add_bodies fold_push number_append)

lemma hasDecisionMatch_number: "hasDecisionMatch (number n bs) \<longleftrightarrow> (\<exists>b \<in> set bs. decides b)"
  by (induction bs arbitrary: n)
     (auto simp: number_Cons hasDecisionMatch_def decides_def DECISION_EFFECTS_def)

lemma failClosed_number:
  "failClosed request (collectMatches re request bundles) =
     (number 0 (policyBodies re request bundles), length (policyBodies re request bundles))"
proof -
  have "push b (number 0 bs, length bs) = (number 0 (bs @ [b]), length (bs @ [b]))" for b bs
    by (simp add: push_def number_append number_Cons)
  then show ?thesis
    by (simp add: failClosed_def collectMatches_number hasDecisionMatch_number policyBodies_def Let_def)
qed

lemma policyBodies_decide: "\<exists>b \<in> set (policyBodies re request bundles). decides b"
  by (auto simp: policyBodies_def missingPolicyMatch_def plain_match_def decides_def Let_def)

lemma approvalIdFor_with_sequence [simp]: "approvalIdFor (with_sequence b n) = approvalIdOf b"
  by (simp add: approvalIdFor_def approvalIdOf_def split: option.split)

lemma set_sortMatches [simp]: "set (sortMatches ms) = set ms"
  by (simp add: sortMatches_def)

lemma mset_sortMatches [simp]: "mset (sortMatches ms) = mset ms"
  by (simp add: sortMatches_def)

lemma ex_number:
  "(\<And>b k. P (with_sequence b k) \<longleftrightarrow> Q b) \<Longrightarrow>
   (\<exists>m \<in> set (number n bs). P m) \<longleftrightarrow> (\<exists>b \<in> set bs. Q b)"
  by (induction bs arbitrary: n) (auto simp: number_Cons)

lemma verdictForStatus_Inr:
  assumes "verdictForStatus sha status request bundles ms a = Inr v"
  shows "pv_status v = status" "pv_matchedRules v = map stripInternalMatch ms"
    "pv_constraints v = uniqueByStableJson constraint_json (concat (map im_constraints ms))"
    "pv_obligations v = uniqueByStableJson obligation_json (concat (map im_obligations ms))"
    "pv_reasons v = reasonsFor status (map stripInternalMatch ms)"
    "pv_approvalId v = (if status = ApprovalRequired
       then Some (case a of Some x \<Rightarrow> x | None \<Rightarrow> ''approval_required'') else None)"
    "pv_decisionHash v = hashDecision sha
       \<lparr>dh_requestHash = hashJson sha (request_json request),
        dh_policyBundleHash = hashJson sha (bundles_json bundles),
        dh_matchedRuleIds = map rm_ruleId (pv_matchedRules v), dh_status = status,
        dh_constraints = pv_constraints v, dh_obligations = pv_obligations v\<rparr>"
    "pv_requestHash v = None" "pv_policyBundleHash v = None" "PolicyVerdictSchema_ok v"
  using assms by (auto simp: verdictForStatus_def Let_def split: if_splits)

definition approvalBodies :: "PolicyRequest \<Rightarrow> MatchBody list \<Rightarrow> MatchBody list" where
  "approvalBodies request bs =
     map (\<lambda>b. approvalMatch request (with_sequence b 0))
       (filter (\<lambda>b. rm_effect b = EApprovalRequired) bs)"

text \<open>
  The final list of matches: the collected ones, with an approval for each requirement when the
  verdict is an allow.
\<close>

definition finalBodies :: "regexp \<Rightarrow> PolicyRequest \<Rightarrow> FixturePolicyBundle list \<Rightarrow> MatchBody list" where
  "finalBodies re request bundles =
     (let bs = policyBodies re request bundles in
      if spec_status request (set bs) = Allow then bs @ approvalBodies request bs else bs)"

lemma strip_number [simp]: "map stripInternalMatch (number n bs) = map stripInternalMatch bs"
  by (rule map_number) simp

lemma strip_approvalMatches:
  "map (\<lambda>m. stripInternalMatch (approvalMatch request m))
     (filter (\<lambda>m. rm_effect m = EApprovalRequired) (number k bs)) =
   map stripInternalMatch (approvalBodies request bs)"
  by (induction bs arbitrary: k)
     (simp_all add: number_Cons approvalBodies_def approvalMatch_def)

lemma strip_approvals:
  fixes bs :: "MatchBody list" and request :: PolicyRequest
  defines "ms \<equiv> sortMatches (number 0 bs)"
  shows "mset (map stripInternalMatch
     (fst (fold push (map (approvalMatch request)
        (filter (\<lambda>m. rm_effect m = EApprovalRequired) ms)) (ms, n)))) =
   mset (map stripInternalMatch (bs @ approvalBodies request bs))"
proof -
  let ?A = "\<lambda>ms. map (approvalMatch request) (filter (\<lambda>m. rm_effect m = EApprovalRequired) ms)"
  have "mset (map stripInternalMatch (?A ms)) = mset (map stripInternalMatch (?A (number 0 bs)))"
    unfolding mset_map mset_filter ms_def mset_sortMatches ..
  also have "\<dots> = mset (map stripInternalMatch (approvalBodies request bs))"
    by (simp only: map_map comp_def strip_approvalMatches)
  moreover have "mset (map stripInternalMatch ms) = mset (map stripInternalMatch bs)"
    by (simp only: mset_map ms_def mset_sortMatches) (simp flip: mset_map)
  ultimately show ?thesis
    by (simp only: fold_push fst_conv map_append strip_number mset_append)
qed

lemma find_unmet_None:
  "find (\<lambda>m. findApprovalDecision request (approvalIdFor m) = None)
     (filter (\<lambda>m. rm_effect m = EApprovalRequired) (sortMatches (number 0 bs))) = None \<longleftrightarrow>
   \<not> (\<exists>b \<in> set bs. rm_effect b = EApprovalRequired \<and> \<not> approval_met request b)"
proof -
  have "(\<exists>m \<in> set (number 0 bs). rm_effect m = EApprovalRequired \<and>
          findApprovalDecision request (approvalIdFor m) = None) \<longleftrightarrow>
        (\<exists>b \<in> set bs. rm_effect b = EApprovalRequired \<and> \<not> approval_met request b)"
    by (rule ex_number) (simp add: approval_met_def)
  then show ?thesis by (auto simp: find_eq_None)
qed

lemma strip_sorted:
  "mset (map stripInternalMatch (sortMatches (number 0 bs))) = mset (map stripInternalMatch bs)"
  by (simp only: mset_map mset_sortMatches) (simp flip: mset_map)

lemma filter_effect_sorted:
  "filter (\<lambda>m. rm_effect m = e) (sortMatches (number 0 bs)) = [] \<longleftrightarrow> (\<forall>b \<in> set bs. rm_effect b \<noteq> e)"
  using ex_number [of "\<lambda>m. rm_effect m = e" "\<lambda>m. rm_effect m = e" 0 bs]
  by (auto simp: filter_empty_conv)

text \<open>The engine on the numbered matches.\<close>

lemma evaluatePolicy_number:
  fixes re request pb
  defines "bundles \<equiv> effectiveBundles request pb"
  defines "bs \<equiv> policyBodies re request bundles"
  defines "ms \<equiv> sortMatches (number 0 bs)"
  defines "am \<equiv> filter (\<lambda>m. rm_effect m = EApprovalRequired) ms"
  shows "evaluatePolicy sha re request pb =
     (if filter (\<lambda>m. rm_effect m = EDeny) ms \<noteq> []
      then verdictForStatus sha Deny request bundles ms None
      else if am \<noteq> [] then
        (case find (\<lambda>m. findApprovalDecision request (approvalIdFor m) = None) am of
           Some m \<Rightarrow> verdictForStatus sha ApprovalRequired request bundles ms (Some (approvalIdFor m))
         | None \<Rightarrow>
             verdictForStatus sha Allow request bundles
               (sortMatches (fst (fold push (map (approvalMatch request) am) (ms, length bs)))) None)
      else verdictForStatus sha Allow request bundles ms None)"
  unfolding assms
  by (simp only: evaluatePolicy_def failClosed_number Let_def fst_conv snd_conv)

text \<open>The four ways an evaluation ends, on the abstract matches.\<close>

lemma evaluatePolicy_outcome:
  fixes re request pb
  defines "bundles \<equiv> effectiveBundles request pb"
  defines "bs \<equiv> policyBodies re request bundles"
  defines "ms \<equiv> sortMatches (number 0 bs)"
  defines "am \<equiv> filter (\<lambda>m. rm_effect m = EApprovalRequired) ms"
  obtains
    (deny) "spec_status request (set bs) = Deny"
      "evaluatePolicy sha re request pb = verdictForStatus sha Deny request bundles ms None"
  | (unmet) m where "spec_status request (set bs) = ApprovalRequired" "m \<in> set am"
      "findApprovalDecision request (approvalIdFor m) = None"
      "evaluatePolicy sha re request pb =
         verdictForStatus sha ApprovalRequired request bundles ms (Some (approvalIdFor m))"
  | (met) "spec_status request (set bs) = Allow"
      "evaluatePolicy sha re request pb = verdictForStatus sha Allow request bundles
         (sortMatches (fst (fold push (map (approvalMatch request) am) (ms, length bs)))) None"
proof -
  note eval = evaluatePolicy_number [of sha re request pb, folded bundles_def, folded bs_def,
      folded ms_def, folded am_def]
  have no_deny: "filter (\<lambda>m. rm_effect m = EDeny) ms = [] \<longleftrightarrow> (\<forall>b \<in> set bs. rm_effect b \<noteq> EDeny)"
    unfolding ms_def by (rule filter_effect_sorted)
  have sorted: "sortMatches ms = ms"
    by (simp add: ms_def sortMatches_def sort_key_id_if_sorted)
  note unmet_iff = find_unmet_None [of request bs, folded ms_def, folded am_def]
  show thesis
  proof (cases "\<exists>b \<in> set bs. rm_effect b = EDeny")
    case True
    with eval no_deny show thesis by (intro deny) (auto simp: spec_status_def)
  next
    case False
    show thesis
    proof (cases "find (\<lambda>m. findApprovalDecision request (approvalIdFor m) = None) am")
      case None
      with unmet_iff False have "spec_status request (set bs) = Allow" by (simp add: spec_status_def)
      with eval no_deny False None sorted show thesis by (intro met) auto
    next
      case (Some m)
      with unmet_iff False have "spec_status request (set bs) = ApprovalRequired"
        by (auto simp: spec_status_def)
      moreover from Some have "am \<noteq> []" by auto
      ultimately show thesis
        using eval no_deny False Some find_Some_iff_in [OF Some] by (intro unmet) auto
    qed
  qed
qed

lemma evaluatePolicy_refines:
  assumes "evaluatePolicy sha re request pb = Inr v"
  shows "pv_status v = spec_status request (set (policyBodies re request (effectiveBundles request pb))) \<and>
    mset (pv_matchedRules v) =
      mset (map stripInternalMatch (finalBodies re request (effectiveBundles request pb)))"
proof (cases rule: evaluatePolicy_outcome [of request re pb sha])
  case deny
  from verdictForStatus_Inr(1,2) [OF deny(2) [symmetric, unfolded assms]] deny(1)
  show ?thesis by (simp only: finalBodies_def Let_def strip_sorted) simp
next
  case (unmet m)
  from verdictForStatus_Inr(1,2) [OF unmet(4) [symmetric, unfolded assms]] unmet(1)
  show ?thesis by (simp only: finalBodies_def Let_def strip_sorted) simp
next
  case met
  from verdictForStatus_Inr(1,2) [OF met(2) [symmetric, unfolded assms]] met(1)
  show ?thesis
    by (simp only: finalBodies_def Let_def mset_map mset_sortMatches
        strip_approvals [unfolded mset_map] if_True simp_thms)
qed

text \<open>Every verdict is built from a sorted list of matches.\<close>

lemma evaluatePolicy_verdict:
  assumes "evaluatePolicy sha re request pb = Inr v"
  obtains status ms a where
    "verdictForStatus sha status request (effectiveBundles request pb) (sortMatches ms) a = Inr v"
proof (cases rule: evaluatePolicy_outcome [of request re pb sha])
  case deny
  from that [OF deny(2) [symmetric, unfolded assms]] show thesis .
next
  case (unmet m)
  from that [OF unmet(4) [symmetric, unfolded assms]] show thesis .
next
  case met
  from that [OF met(2) [symmetric, unfolded assms]] show thesis .
qed

lemma sorted_sortMatches:
  "sorted (map (\<lambda>r. layerRank (rm_layer r)) (map stripInternalMatch (sortMatches ms)))"
proof -
  have "sorted (map (\<lambda>m. (layerRank (rm_layer m), im_sequence m)) (sortMatches ms))"
    by (simp add: sortMatches_def)
  then show ?thesis
    unfolding map_map comp_def strip_fields sorted_map
    by (rule sorted_wrt_mono_rel [rotated]) (auto simp: less_eq_prod_def)
qed

lemma evaluatePolicy_sorted:
  assumes "evaluatePolicy sha re request pb = Inr v"
  shows "sorted (map (\<lambda>r. layerRank (rm_layer r)) (pv_matchedRules v))"
  by (rule evaluatePolicy_verdict [OF assms]) (simp only: verdictForStatus_Inr(2) sorted_sortMatches)

lemma evaluatePolicy_reasons:
  assumes "evaluatePolicy sha re request pb = Inr v"
  shows "pv_reasons v = reasonsFor (pv_status v) (pv_matchedRules v)"
  by (rule evaluatePolicy_verdict [OF assms]) (simp only: verdictForStatus_Inr(1,2,5))

lemma matchedRules_set:
  assumes "evaluatePolicy sha re request pb = Inr v"
  shows "set (pv_matchedRules v) =
    stripInternalMatch ` set (finalBodies re request (effectiveBundles request pb))"
  using evaluatePolicy_refines [OF assms, THEN conjunct2, THEN mset_eq_setD] by simp

lemma finalBodies_iff:
  "b \<in> set (finalBodies re request bundles) \<longleftrightarrow>
     b \<in> set (policyBodies re request bundles) \<or>
     (spec_status request (set (policyBodies re request bundles)) = Allow \<and>
      b \<in> set (approvalBodies request (policyBodies re request bundles)))"
  by (auto simp: finalBodies_def Let_def)

lemma policyBodies_collected:
  "b \<in> set (collectedBodies re request bundles) \<Longrightarrow> b \<in> set (policyBodies re request bundles)"
  by (simp add: policyBodies_def Let_def)

lemma collected_bundle:
  "bundle \<in> set bundles \<Longrightarrow> b \<in> set (bundleBodies re request bundle) \<Longrightarrow>
   b \<in> set (collectedBodies re request bundles)"
  by (auto simp: collectedBodies_def)

lemma approvalBodies_effect: "b \<in> set (approvalBodies request bs) \<Longrightarrow> rm_effect b = EAllow"
  by (auto simp: approvalBodies_def approvalMatch_def plain_match_def Let_def)

lemma denied_if_body:
  assumes "evaluatePolicy sha re request pb = Inr v"
    and "b \<in> set (collectedBodies re request (effectiveBundles request pb))" "rm_effect b = EDeny"
  shows "pv_status v = Deny"
  using assms policyBodies_collected [OF assms(2)] evaluatePolicy_refines [OF assms(1)]
  by (auto simp: spec_status_def)

section \<open>Well-formed policies are always decided\<close>

text \<open>
  What the schemas and the bundle loader promise of the texts of a bundle: no empty ids, reasons
  or constraint kinds, and only known obligation kinds.
\<close>

definition effects_wf :: "constraint_body list option \<Rightarrow> obligation_body list option \<Rightarrow> bool" where
  "effects_wf cs obs \<longleftrightarrow>
     list_all (\<lambda>c. c_kind c \<noteq> []) (opt_list cs) \<and>
     list_all (\<lambda>ob. o_kind ob \<in> set OBLIGATION_KINDS) (opt_list obs)"

definition rule_wf :: "FixturePolicyRule \<Rightarrow> bool" where
  "rule_wf r \<longleftrightarrow> fr_id r \<noteq> [] \<and> fr_reason r \<noteq> [] \<and> fr_approvalId r \<noteq> Some [] \<and>
     effects_wf (fr_constraints r) (fr_obligations r)"

definition toolPolicy_wf :: "FixtureToolPolicy \<Rightarrow> bool" where
  "toolPolicy_wf p \<longleftrightarrow> tp_reason p \<noteq> Some [] \<and> tp_approvalId p \<noteq> Some [] \<and>
     effects_wf (tp_constraints p) (tp_obligations p)"

definition budgetRule_wf :: "FixtureBudgetRule \<Rightarrow> bool" where
  "budgetRule_wf r \<longleftrightarrow> br_id r \<noteq> [] \<and> br_reason r \<noteq> [] \<and> br_approvalId r \<noteq> Some [] \<and>
     effects_wf (br_constraints r) (br_obligations r)"

definition bundle_wf :: "FixturePolicyBundle \<Rightarrow> bool" where
  "bundle_wf b \<longleftrightarrow>
     list_all rule_wf (collectExplicitRules b) \<and>
     list_all (\<lambda>p. toolPolicy_wf (snd p)) (opt_list (pb_toolPolicy b)) \<and>
     list_all budgetRule_wf (opt_list (pb_budgetPolicy b))"

definition approval_decisions :: "PolicyRequest \<Rightarrow> ApprovalDecision list" where
  "approval_decisions request =
     (case Option.bind (rq_snapshots request) sn_approvals of
        None \<Rightarrow> [] | Some (ApprovalArray ds) \<Rightarrow> ds | Some (ApprovalState ds) \<Rightarrow> opt_list ds)"

definition approvals_wf :: "PolicyRequest \<Rightarrow> bool" where
  "approvals_wf request \<longleftrightarrow>
     list_all (\<lambda>d. list_all (\<lambda>p. fst p \<noteq> []) (opt_list (ad_constraints d))) (approval_decisions request)"

definition body_ok :: "'a MatchBody_scheme \<Rightarrow> bool" where
  "body_ok b \<longleftrightarrow> rm_ruleId b \<noteq> [] \<and> rm_reason b \<noteq> [] \<and> im_approvalId b \<noteq> Some [] \<and>
     list_all constraint_ok (im_constraints b) \<and> list_all obligation_ok (im_obligations b)"

lemma body_ok_with_sequence [simp]: "body_ok (with_sequence b n) = body_ok b"
  by (simp add: body_ok_def)

lemma plain_match_fields [simp]:
  "rm_effect (plain_match rid l e r) = e" "rm_layer (plain_match rid l e r) = l"
  "rm_ruleId (plain_match rid l e r) = rid" "rm_reason (plain_match rid l e r) = r"
  by (simp_all add: plain_match_def)

lemma plain_match_ok [simp]:
  "body_ok (plain_match rid l e r) \<longleftrightarrow> rid \<noteq> [] \<and> r \<noteq> []"
  by (auto simp: body_ok_def plain_match_def)

lemma withSourceRule_ok:
  "effects_wf cs obs \<Longrightarrow> rid \<noteq> [] \<Longrightarrow> list_all constraint_ok (withSourceRule cs rid)"
  by (auto simp: effects_wf_def withSourceRule_def constraint_ok_def list_all_iff split: option.split)

lemma obligationsWithSourceRule_ok:
  "effects_wf cs obs \<Longrightarrow> rid \<noteq> [] \<Longrightarrow> list_all obligation_ok (obligationsWithSourceRule obs rid)"
  by (auto simp: effects_wf_def obligationsWithSourceRule_def obligation_ok_def list_all_iff split: option.split)

lemmas source_rule_ok = withSourceRule_ok obligationsWithSourceRule_ok

lemma ruleToMatch_ok: "rule_wf r \<Longrightarrow> body_ok (ruleToMatch r)"
  by (auto simp: rule_wf_def body_ok_def ruleToMatch_def intro: source_rule_ok)

lemma defaultBody_ok: "toolPolicy_wf p \<Longrightarrow> body_ok (defaultBody t p)"
  by (auto simp: toolPolicy_wf_def body_ok_def defaultBody_def intro!: source_rule_ok split: option.split)

lemma scope_ok: "evaluateScopePolicy request bundle p t = Some m \<Longrightarrow> body_ok m"
  by (auto simp: evaluateScopePolicy_def Let_def body_ok_def plain_match_def constraint_ok_def
      split: if_splits option.splits)

lemma budget_match_ok: "budgetRule_wf r \<Longrightarrow> body_ok (budget_match r)"
  by (auto simp: budgetRule_wf_def body_ok_def budget_match_def constraint_ok_def
      intro!: source_rule_ok split: option.split)

lemma hostBodies_ok: "b \<in> set (hostBodies request) \<Longrightarrow> body_ok b"
  by (auto simp: hostBodies_def split: option.splits if_splits)

lemma toolBodies_ok:
  assumes "bundle_wf bundle" "b \<in> set (toolBodies request bundle)"
  shows "body_ok b"
proof -
  from assms(2) obtain t p where tp: "toolPolicyFor request bundle = Some (t, p)"
    by (cases "toolPolicyFor request bundle") (auto simp: toolBodies_def)
  then have "(t, p) \<in> set (opt_list (pb_toolPolicy bundle))"
    by (auto simp: toolPolicyFor_def bind_eq_Some_conv dest: map_of_SomeD)
  with assms(1) have "toolPolicy_wf p" by (auto simp: bundle_wf_def list_all_iff)
  with assms(2) tp show ?thesis
    by (auto simp: toolBodies_def phaseBody_def defaultBody_ok scope_ok split: option.splits if_splits)
qed

lemma budgetBodies_ok: "bundle_wf bundle \<Longrightarrow> b \<in> set (budgetBodies request bundle) \<Longrightarrow> body_ok b"
  by (auto simp: budgetBodies_def ungovernedBodies_def budgetRuleBodies_def bundle_wf_def list_all_iff
      budget_match_ok split: option.splits if_splits)

lemma bundleBodies_ok: "bundle_wf bundle \<Longrightarrow> b \<in> set (bundleBodies re request bundle) \<Longrightarrow> body_ok b"
  by (auto simp: bundleBodies_def toolBodies_ok budgetBodies_ok explicitBodies_def bundle_wf_def
      list_all_iff ruleToMatch_ok)

lemma policyBodies_ok:
  "list_all bundle_wf bundles \<Longrightarrow> b \<in> set (policyBodies re request bundles) \<Longrightarrow> body_ok b"
  by (auto simp: policyBodies_def collectedBodies_def list_all_iff hostBodies_ok bundleBodies_ok
      missingPolicyMatch_def Let_def split: if_splits)

lemma findApprovalDecision_in: "findApprovalDecision request a = Some d \<Longrightarrow> d \<in> set (approval_decisions request)"
  by (auto simp: findApprovalDecision_def approval_decisions_def Let_def dest!: find_Some_iff_in
      split: option.splits Approvals.splits)

lemma approvalDecisionConstraints_ok:
  assumes "approvals_wf request" "rid \<noteq> []"
  shows "list_all constraint_ok (approvalDecisionConstraints (findApprovalDecision request a) rid)"
proof (cases "Option.bind (findApprovalDecision request a) ad_constraints")
  case None
  then show ?thesis by (simp add: approvalDecisionConstraints_def)
next
  case (Some ps)
  then obtain d where "findApprovalDecision request a = Some d" "ad_constraints d = Some ps"
    by (auto simp: bind_eq_Some_conv)
  with findApprovalDecision_in [of request a d] assms Some show ?thesis
    by (force simp: approvalDecisionConstraints_def approvals_wf_def list_all_iff constraint_ok_def)
qed

lemma approvalMatch_ok: "approvals_wf request \<Longrightarrow> body_ok (approvalMatch request m)"
  by (simp add: approvalMatch_def Let_def body_ok_def plain_match_def approvalDecisionConstraints_ok)

lemma set_uniqueByStableJson: "set (uniqueByStableJson f xs) \<subseteq> set xs"
  by (simp add: uniqueByStableJson_def set_unique_by_from)

lemma verdictForStatus_ok:
  assumes "\<And>m. m \<in> set ms \<Longrightarrow> body_ok m" "a \<noteq> Some []"
  shows "\<exists>v. verdictForStatus sha status request bundles ms a = Inr v"
proof -
  have "list_all constraint_ok (uniqueByStableJson constraint_json (concat (map im_constraints ms)))"
    "list_all obligation_ok (uniqueByStableJson obligation_json (concat (map im_obligations ms)))"
    using assms set_uniqueByStableJson [of constraint_json "concat (map im_constraints ms)"]
      set_uniqueByStableJson [of obligation_json "concat (map im_obligations ms)"]
    by (fastforce simp: list_all_iff body_ok_def)+
  moreover have "list_all ruleMatch_ok (map stripInternalMatch ms)"
    "list_all (\<lambda>r. r \<noteq> []) (reasonsFor status (map stripInternalMatch ms))"
    using assms by (auto simp: list_all_iff body_ok_def ruleMatch_ok_def reasonsFor_def
        split: PolicyVerdictStatus.split)
  ultimately show ?thesis
    using assms(2)
    by (auto simp: verdictForStatus_def Let_def PolicyVerdictSchema_ok_def hashDecision_def hashJson_def
        split: option.split)
qed

lemma evaluatePolicy_returns:
  assumes "list_all bundle_wf (effectiveBundles request pb)" "approvals_wf request"
  shows "\<exists>v. evaluatePolicy sha re request pb = Inr v"
proof (cases rule: evaluatePolicy_outcome [of request re pb sha])
  case deny
  show ?thesis unfolding deny(2)
    by (rule verdictForStatus_ok) (auto dest!: set_number intro: policyBodies_ok [OF assms(1)])
next
  case (unmet m)
  then obtain b k where "m = with_sequence b k"
    "b \<in> set (policyBodies re request (effectiveBundles request pb))"
    by (auto dest: set_number)
  moreover from policyBodies_ok [OF assms(1) this(2)] have "body_ok b" .
  ultimately have "approvalIdFor m \<noteq> []"
    by (cases "im_approvalId b") (auto simp: approvalIdOf_def body_ok_def)
  then show ?thesis unfolding unmet(4)
    by (intro verdictForStatus_ok) (auto dest!: set_number intro: policyBodies_ok [OF assms(1)])
next
  case met
  show ?thesis unfolding met(2) fold_push
    by (rule verdictForStatus_ok)
       (auto dest!: set_number intro: policyBodies_ok [OF assms(1)] approvalMatch_ok [OF assms(2)])
qed

lemma findApprovalDecision_positive:
  "findApprovalDecision request a = Some d \<Longrightarrow>
   d \<in> set (approval_decisions request) \<and> ad_approvalId d = a \<and> ad_decision d \<noteq> Rejected"
  using findApprovalDecision_in [of request a d]
  by (auto simp: findApprovalDecision_def Let_def dest!: find_Some_iff_in)

lemma scope_enforced:
  assumes "\<forall>m. evaluateScopePolicy request bundle p t = Some m \<longrightarrow> rm_effect m \<noteq> EDeny"
  shows "set (opt_list (tp_requiredScopes p)) \<subseteq> set (opt_list (pa_requestedScopes (rq_action request)))"
    "set (opt_list (pa_requestedScopes (rq_action request))) \<subseteq>
      set (stringArray (pb_scopes bundle)) \<union> set (opt_list (tp_allowedScopes p)) \<union>
      set (opt_list (tp_requiredScopes p))"
  using assms
  by (auto simp: evaluateScopePolicy_def plain_match_def Let_def find_eq_None
      split: if_splits option.splits)

section \<open>Properties\<close>

text \<open>
  C1: an evaluation that returns gives the verdict of the abstract decision on the matches of the
  host snapshot and of every bundle; the matched rules it reports are exactly these matches (with
  an approval for each requirement of an allow), listed by layer precedence.
\<close>

theorem evaluatePolicy_implements_spec:
  assumes "evaluatePolicy sha re request pb = Inr v"
  shows "pv_status v = spec_status request (set (policyBodies re request (effectiveBundles request pb))) \<and>
    mset (pv_matchedRules v) =
      mset (map stripInternalMatch (finalBodies re request (effectiveBundles request pb))) \<and>
    sorted (map (\<lambda>r. layerRank (rm_layer r)) (pv_matchedRules v))"
  using evaluatePolicy_refines [OF assms] evaluatePolicy_sorted [OF assms] by simp

lemma deny_rule_denies:
  assumes "evaluatePolicy sha re request pb = Inr v"
    and "bundle \<in> set (effectiveBundles request pb)" "rule \<in> set (collectExplicitRules bundle)"
    and "ruleMatchesRequest re rule request" "fr_effect rule = EDeny"
  shows "pv_status v = Deny" "ruleToMatch rule \<in> set (collectedBodies re request (effectiveBundles request pb))"
proof -
  from assms(3,4) have "ruleToMatch rule \<in> set (bundleBodies re request bundle)"
    by (simp add: bundleBodies_def explicitBodies_def)
  with assms(2) show b: "ruleToMatch rule \<in> set (collectedBodies re request (effectiveBundles request pb))"
    by (rule collected_bundle)
  show "pv_status v = Deny" by (rule denied_if_body [OF assms(1) b]) (simp add: ruleToMatch_def assms(5))
qed

text \<open>
  C3: a matching deny rule of any bundle makes the verdict a denial and its reason one of the
  verdict's reasons, whatever other rules match and whatever approvals the request carries.
\<close>

theorem deny_rule_dominates:
  assumes "evaluatePolicy sha re request pb = Inr v"
    and "bundle \<in> set (effectiveBundles request pb)" "rule \<in> set (collectExplicitRules bundle)"
    and "ruleMatchesRequest re rule request" "fr_effect rule = EDeny"
  shows "pv_status v = Deny \<and> fr_reason rule \<in> set (pv_reasons v)"
proof -
  let ?b = "ruleToMatch rule"
  note deny = deny_rule_denies(1) [OF assms] and b = deny_rule_denies(2) [OF assms]
  have eff: "rm_effect ?b = EDeny" "rm_reason ?b = fr_reason rule"
    using assms(5) by (simp_all add: ruleToMatch_def)
  have "stripInternalMatch ?b \<in> set (pv_matchedRules v)"
    using policyBodies_collected [OF b] by (auto simp: matchedRules_set [OF assms(1)] finalBodies_iff)
  then have "fr_reason rule \<in> set (reasonsFor Deny (pv_matchedRules v))"
    using eff by (force simp: reasonsFor_def)
  with deny evaluatePolicy_reasons [OF assms(1)] show ?thesis by simp
qed

text \<open>
  C4: an allow is earned: some matched rule allows, none denies, and every approval requirement that
  matched has a positive decision for its approval id among the decisions of the request.
\<close>

theorem allow_is_earned:
  assumes "evaluatePolicy sha re request pb = Inr v" "pv_status v = Allow"
    and "m \<in> set (fst (collectMatches re request (effectiveBundles request pb)))"
  shows "(\<exists>r \<in> set (pv_matchedRules v). rm_effect r = EAllow) \<and> rm_effect m \<noteq> EDeny \<and>
    (rm_effect m \<noteq> EApprovalRequired \<or>
     (\<exists>d \<in> set (approval_decisions request). ad_approvalId d = approvalIdFor m \<and> ad_decision d \<noteq> Rejected))"
proof -
  let ?bs = "policyBodies re request (effectiveBundles request pb)"
  from assms(1,2) evaluatePolicy_refines have spec: "spec_status request (set ?bs) = Allow" by metis
  then have no: "\<forall>b \<in> set ?bs. rm_effect b \<noteq> EDeny \<and> (rm_effect b = EApprovalRequired \<longrightarrow> approval_met request b)"
    by (auto simp: spec_status_def split: if_splits)
  obtain b where b: "b \<in> set ?bs" "decides b" using policyBodies_decide by blast
  have "\<exists>x \<in> set (finalBodies re request (effectiveBundles request pb)). rm_effect x = EAllow"
  proof (cases "rm_effect b = EAllow")
    case True
    with b spec show ?thesis by (auto simp: finalBodies_iff)
  next
    case False
    with b no have "rm_effect b = EApprovalRequired" by (auto simp: decides_def)
    with b(1) have "approvalMatch request (with_sequence b 0) \<in> set (approvalBodies request ?bs)"
      by (simp add: approvalBodies_def)
    with approvalBodies_effect spec show ?thesis by (force simp: finalBodies_iff)
  qed
  moreover obtain c k where c: "m = with_sequence c k" "c \<in> set ?bs"
    using assms(3) policyBodies_collected by (auto simp: collectMatches_number dest: set_number)
  ultimately show ?thesis
    using no by (force simp: matchedRules_set [OF assms(1)] approval_met_def dest: findApprovalDecision_positive)
qed

text \<open>
  the engine fails closed: when no matching rule allows, denies or asks for an approval, the
  verdict is a denial whose only reason is that no policy applies.
\<close>

theorem undecided_is_denied:
  assumes "evaluatePolicy sha re request pb = Inr v"
    and "\<not> hasDecisionMatch (fst (collectMatches re request (effectiveBundles request pb)))"
  shows "pv_status v = Deny \<and> pv_reasons v = [rm_reason (missingPolicyMatch request)]"
proof -
  let ?cs = "collectedBodies re request (effectiveBundles request pb)"
  let ?deny = "\<lambda>rs. filter (\<lambda>r. rm_effect r = EDeny) rs"
  have cs: "\<forall>b \<in> set ?cs. rm_effect b \<noteq> EDeny \<and> rm_effect b \<noteq> EApprovalRequired \<and> rm_effect b \<noteq> EAllow"
    using assms(2) by (auto simp: collectMatches_number hasDecisionMatch_number decides_def)
  then have bs: "policyBodies re request (effectiveBundles request pb) = ?cs @ [missingPolicyMatch request]"
    by (auto simp: policyBodies_def decides_def Let_def)
  have e: "rm_effect (missingPolicyMatch request) = EDeny"
    by (simp add: missingPolicyMatch_def plain_match_def Let_def)
  then have spec: "spec_status request (set (?cs @ [missingPolicyMatch request])) = Deny"
    by (simp add: spec_status_def)
  then have "mset (?deny (pv_matchedRules v)) =
      mset (?deny (map stripInternalMatch (?cs @ [missingPolicyMatch request])))"
    using evaluatePolicy_refines [OF assms(1)] by (simp add: finalBodies_def bs)
  moreover have "?deny (map stripInternalMatch ?cs) = []"
    using cs by (auto simp: filter_empty_conv)
  ultimately have "mset (?deny (pv_matchedRules v)) = {#stripInternalMatch (missingPolicyMatch request)#}"
    using e by (simp del: mset_filter)
  then have "?deny (pv_matchedRules v) = [stripInternalMatch (missingPolicyMatch request)]"
    by (simp only: mset_single_iff)
  moreover have "pv_status v = Deny"
    using evaluatePolicy_refines [OF assms(1)] bs spec by simp
  ultimately show ?thesis
    using evaluatePolicy_reasons [OF assms(1)] by (simp add: reasonsFor_def unique_def)
qed

text \<open>
  A tool that the host snapshot denies, or that its allow list does not name, is denied whatever
  the bundles say and whatever approvals the request carries.
\<close>

theorem host_snapshot_denies:
  assumes "evaluatePolicy sha re request pb = Inr v"
    and "rq_snapshots request = Some s" "sn_hostPolicy s = Some h" "pa_toolId (rq_action request) = Some t"
    and "t \<in> set (opt_list (hp_deniedTools h)) \<or> (\<exists>allowed. hp_allowedTools h = Some allowed \<and> t \<notin> set allowed)"
  shows "pv_status v = Deny"
proof -
  have "\<exists>b \<in> set (hostBodies request). rm_effect b = EDeny"
    using assms(2-5) by (cases "hp_allowedTools h") (auto simp: hostBodies_def)
  with denied_if_body [OF assms(1)] show ?thesis by (auto simp: collectedBodies_def)
qed

text \<open>
  What a tool policy demands holds of every request that is not denied: the phase is one of the
  allowed phases, every required scope was requested, no scope beyond the bundle's, the tool's and
  the required ones was requested, and the default of the tool is not a denial.
\<close>

theorem tool_policy_enforced:
  assumes "evaluatePolicy sha re request pb = Inr v" "pv_status v \<noteq> Deny"
    and "bundle \<in> set (effectiveBundles request pb)" "toolPolicyFor request bundle = Some (t, p)"
  shows "(\<forall>phases. tp_allowedPhases p = Some phases \<longrightarrow> rq_phase request \<in> set phases) \<and>
    set (opt_list (tp_requiredScopes p)) \<subseteq> set (opt_list (pa_requestedScopes (rq_action request))) \<and>
    set (opt_list (pa_requestedScopes (rq_action request))) \<subseteq>
      set (stringArray (pb_scopes bundle)) \<union> set (opt_list (tp_allowedScopes p)) \<union>
      set (opt_list (tp_requiredScopes p)) \<and>
    tp_default p \<noteq> Deny"
proof -
  have no_deny: "rm_effect b \<noteq> EDeny" if "b \<in> set (toolBodies request bundle)" for b
    using that denied_if_body [OF assms(1)] collected_bundle [OF assms(3)] assms(2)
    by (auto simp: bundleBodies_def)
  have "defaultBody t p \<in> set (toolBodies request bundle)"
    "\<forall>phases. tp_allowedPhases p = Some phases \<longrightarrow> phaseBody request t phases \<in> set (toolBodies request bundle)"
    "\<forall>m. evaluateScopePolicy request bundle p t = Some m \<longrightarrow> m \<in> set (toolBodies request bundle)"
    using assms(4) by (auto simp: toolBodies_def)
  then have "rm_effect (defaultBody t p) \<noteq> EDeny"
    "\<forall>phases. tp_allowedPhases p = Some phases \<longrightarrow> rm_effect (phaseBody request t phases) \<noteq> EDeny"
    and scope: "\<forall>m. evaluateScopePolicy request bundle p t = Some m \<longrightarrow> rm_effect m \<noteq> EDeny"
    using no_deny by blast+
  then have "tp_default p \<noteq> Deny"
    "\<forall>phases. tp_allowedPhases p = Some phases \<longrightarrow> rq_phase request \<in> set phases"
    by (auto simp: defaultBody_def phaseBody_def split: if_splits)
  with scope_enforced [OF scope] show ?thesis by blast
qed

text \<open>
  budgets hold: when a request is not denied, every positive cost is governed by a budget rule of
  each bundle, its usage is known, and a rule that denies on overrun is not overrun.
\<close>

theorem budget_enforced:
  assumes "evaluatePolicy sha re request pb = Inr v" "pv_status v \<noteq> Deny"
    and "bundle \<in> set (effectiveBundles request pb)"
    and "(resource, cost) \<in> set (opt_list (pa_budgetCosts (rq_action request)))" "cost > 0"
    and "distinct (map fst (opt_list (pa_budgetCosts (rq_action request))))"
  shows "(\<exists>rule \<in> set (opt_list (pb_budgetPolicy bundle)). br_resource rule = resource) \<and>
    (\<forall>rule \<in> set (opt_list (pb_budgetPolicy bundle)). br_resource rule = resource \<longrightarrow>
      (\<exists>used. budgetUsage request resource = Some used \<and>
        (br_onExceeded rule = ExceededDeny \<longrightarrow> used + cost \<le> br_max rule)))"
proof -
  have no_deny: "rm_effect b \<noteq> EDeny" if "b \<in> set (budgetBodies request bundle)" for b
    using that denied_if_body [OF assms(1)] collected_bundle [OF assms(3)] assms(2)
    by (auto simp: bundleBodies_def)
  have cost: "requestedCost request resource = cost"
    using assms(4,6) by (simp add: requestedCost_def)
  have "resource \<in> br_resource ` set (opt_list (pb_budgetPolicy bundle))"
  proof (rule ccontr)
    assume "\<not> ?thesis"
    with assms(5) have "\<exists>b \<in> set (ungovernedBodies (opt_list (pb_budgetPolicy bundle)) (resource, cost)).
        rm_effect b = EDeny"
      by (simp add: ungovernedBodies_def plain_match_def)
    with no_deny assms(4) show False by (auto simp: budgetBodies_def)
  qed
  moreover have "\<exists>used. budgetUsage request resource = Some used \<and>
      (br_onExceeded rule = ExceededDeny \<longrightarrow> used + cost \<le> br_max rule)"
    if "rule \<in> set (opt_list (pb_budgetPolicy bundle))" "br_resource rule = resource" for rule
  proof -
    have "\<forall>b \<in> set (budgetRuleBodies request rule). rm_effect b \<noteq> EDeny"
      using that no_deny by (auto simp: budgetBodies_def)
    with that(2) cost assms(5) show ?thesis
      by (cases "budgetUsage request resource")
         (auto simp: budgetRuleBodies_def budget_match_def plain_match_def split: if_splits)
  qed
  ultimately show ?thesis by auto
qed

text \<open>
  More policy never relaxes a rule's denial: when the verdict under some bundles is a denial by a
  rule (not the fail-closed one), it is a denial under every larger list of bundles.
\<close>

theorem denial_is_monotone:
  assumes "evaluatePolicy sha re request (Some (Many bundles)) = Inr v" "pv_status v = Deny"
    and "\<exists>r \<in> set (pv_matchedRules v). rm_effect r = EDeny \<and> rm_ruleId r \<noteq> ''runtime.missing_policy.fail_closed''"
    and "evaluatePolicy sha re request (Some (Many larger)) = Inr w" "set bundles \<subseteq> set larger"
  shows "pv_status w = Deny"
proof -
  have eff: "effectiveBundles request (Some (Many bs)) = bs" for bs
    by (simp add: effectiveBundles_def normalizePolicyBundles_def)
  have "missingPolicyMatch request = b \<Longrightarrow> rm_ruleId b = ''runtime.missing_policy.fail_closed''" for b
    by (auto simp: missingPolicyMatch_def Let_def)
  with assms(3) obtain b where "b \<in> set (collectedBodies re request bundles)" "rm_effect b = EDeny"
    by (auto simp: matchedRules_set [OF assms(1)] finalBodies_iff eff policyBodies_def Let_def
        dest!: approvalBodies_effect split: if_splits)
  moreover from this(1) assms(5) have "b \<in> set (collectedBodies re request larger)"
    by (auto simp: collectedBodies_def)
  ultimately show ?thesis using denied_if_body [OF assms(4)] by (simp add: eff)
qed

text \<open>
  a request under well-formed bundles is always decided: no verdict fails its own schema.
\<close>

theorem evaluatePolicy_total:
  assumes "list_all bundle_wf (effectiveBundles request pb)" "approvals_wf request"
  shows "\<exists>v. evaluatePolicy sha re request pb = Inr v"
  by (rule evaluatePolicy_returns [OF assms])

text \<open>
  The risk a rule is matched against is the maximum of the risk of the action itself and of the
  one the caller states, so a caller cannot lower it.
\<close>

theorem actionRisk_is_max:
  "actionRisk request =
     (case pa_risk (rq_action request) of None \<Rightarrow> intrinsicActionRisk request
      | Some r \<Rightarrow> max (intrinsicActionRisk request) r)"
  by (auto simp: actionRisk_def higherRisk_def max_def less_eq_PolicyRisk_def
      intro: riskRank_inj split: option.split)

section \<open>A concrete instance\<close>

text \<open>
  A bundle with a deny rule, an allow rule, a tool policy with a phase, a scope and an approval, and a
  budget; and requests against it. The digest and the expression engine are constant functions.
\<close>

definition ex_rule :: "string \<Rightarrow> PolicyRuleEffect \<Rightarrow> string \<Rightarrow> FixturePolicyRule" where
  "ex_rule rid effect tool =
     \<lparr>fr_id = rid, fr_layer = Harness, fr_effect = effect, fr_reason = ''why'',
      fr_match = Some \<lparr>mc_actionKind = None, mc_toolId = Some (One tool), mc_phases = None, mc_risk = None,
        mc_runModes = None, mc_requestedScopes = None, mc_args = None\<rparr>,
      fr_approvalId = None, fr_constraints = None, fr_obligations = None\<rparr>"

definition ex_bundle :: FixturePolicyBundle where
  "ex_bundle =
     \<lparr>pb_id = ''b'', pb_scopes = JUndefined,
      pb_rules = Some [ex_rule ''r1'' EDeny ''shell.exec'', ex_rule ''r2'' EAllow ''fs.read''],
      pb_runtimeInvariants = None, pb_hostRules = None, pb_workspaceRules = None, pb_harnessRules = None,
      pb_phaseRules = None, pb_capabilityRules = None, pb_runModeRules = None,
      pb_toolPolicy = Some [(''fs.write'',
        \<lparr>tp_default = ApprovalRequired, tp_risk = None, tp_reason = None, tp_approvalId = Some ''a1'',
         tp_allowedPhases = Some [''build''], tp_allowedScopes = None, tp_requiredScopes = Some [''ws''],
         tp_constraints = None, tp_obligations = None\<rparr>)],
      pb_budgetPolicy = Some [\<lparr>br_id = ''cap'', br_resource = ''tokens'', br_max = 10,
        br_onExceeded = ExceededDeny, br_reason = ''over'', br_layer = None, br_approvalId = None,
        br_constraints = None, br_obligations = None\<rparr>],
      pb_extra = []\<rparr>"

definition ex_request :: "string \<Rightarrow> (string \<times> int) list option \<Rightarrow> HostPolicySnapshot option \<Rightarrow> PolicyRequest" where
  "ex_request tool costs host =
     \<lparr>rq_requestId = ''q'', rq_runId = ''run'', rq_phase = ''build'',
      rq_action = \<lparr>pa_kind = ''tool_call'', pa_toolId = Some tool, pa_args = None,
        pa_requestedScopes = Some [''ws''], pa_risk = None, pa_budgetCosts = costs\<rparr>,
      rq_runMode = None,
      rq_snapshots = Some \<lparr>sn_runState = JUndefined, sn_harnessPolicy = None, sn_hostPolicy = host,
        sn_workspacePolicy = None, sn_budgets = Some [(''tokens'', JNum 3)],
        sn_approvals = Some (ApprovalArray [\<lparr>ad_approvalId = ''a1'', ad_decision = Approved,
          ad_constraints = None, ad_extra = []\<rparr>]), sn_sourceTrust = JUndefined\<rparr>\<rparr>"

definition ex_sha :: digest where
  "ex_sha s = ''00''"

definition ex_re :: regexp where
  "ex_re = \<lparr>re_compiles = (\<lambda>p. True), re_test = (\<lambda>p v. True)\<rparr>"

lemma ex_bundle_wf: "bundle_wf ex_bundle"
  by (simp add: bundle_wf_def ex_bundle_def collectExplicitRules_def ex_rule_def rule_wf_def
      toolPolicy_wf_def budgetRule_wf_def effects_wf_def)

lemma ex_bundles: "effectiveBundles request (Some (One ex_bundle)) = [ex_bundle]"
  "effectiveBundles request (Some (Many bs)) = bs"
  by (simp_all add: effectiveBundles_def normalizePolicyBundles_def)

lemma ex_approvals_wf: "approvals_wf (ex_request tool costs host)"
  by (simp add: approvals_wf_def approval_decisions_def ex_request_def)

lemma ex_decided: "\<exists>v. evaluatePolicy ex_sha ex_re (ex_request tool costs host) (Some (One ex_bundle)) = Inr v"
  by (rule evaluatePolicy_returns) (simp_all add: ex_bundles ex_bundle_wf ex_approvals_wf)

lemma ex_collected:
  "collectedBodies ex_re (ex_request ''fs.write'' None None) [ex_bundle] \<noteq> []"
  by code_simp

lemma ex_allow:
  "spec_status (ex_request ''fs.write'' None None)
     (set (policyBodies ex_re (ex_request ''fs.write'' None None) [ex_bundle])) = Allow"
  by code_simp

lemmas ex_defs = ex_request_def ex_bundle_def ex_rule_def collectExplicitRules_def

theorem evaluatePolicy_implements_spec_witness:
  "\<exists>v. evaluatePolicy ex_sha ex_re (ex_request ''fs.read'' None None) (Some (One ex_bundle)) = Inr v \<and>
     sorted (map (\<lambda>r. layerRank (rm_layer r)) (pv_matchedRules v))"
  using ex_decided [of "''fs.read''" None None] evaluatePolicy_implements_spec by blast

theorem deny_rule_dominates_witness:
  "\<exists>v. evaluatePolicy ex_sha ex_re (ex_request ''shell.exec'' None None) (Some (One ex_bundle)) = Inr v \<and>
     pv_status v = Deny"
proof -
  obtain v where v: "evaluatePolicy ex_sha ex_re (ex_request ''shell.exec'' None None) (Some (One ex_bundle)) = Inr v"
    using ex_decided by blast
  have "pv_status v = Deny \<and> fr_reason (ex_rule ''r1'' EDeny ''shell.exec'') \<in> set (pv_reasons v)"
    by (rule deny_rule_dominates [OF v, of ex_bundle])
       (simp_all add: ex_bundles, simp_all add: ex_defs ruleMatchesRequest_def matchesOne_def)
  with v show ?thesis by blast
qed

theorem allow_is_earned_witness:
  "\<exists>v. evaluatePolicy ex_sha ex_re (ex_request ''fs.write'' None None) (Some (One ex_bundle)) = Inr v \<and>
     pv_status v = Allow \<and> (\<exists>r \<in> set (pv_matchedRules v). rm_effect r = EAllow)"
proof -
  obtain v where v: "evaluatePolicy ex_sha ex_re (ex_request ''fs.write'' None None) (Some (One ex_bundle)) = Inr v"
    using ex_decided by blast
  have s: "pv_status v = Allow"
    using evaluatePolicy_refines [OF v, THEN conjunct1] by (simp only: ex_bundles) (simp add: ex_allow)
  have "fst (collectMatches ex_re (ex_request ''fs.write'' None None) [ex_bundle]) \<noteq> []"
    by (simp add: collectMatches_number ex_collected number_def)
  then obtain m where "m \<in> set (fst (collectMatches ex_re (ex_request ''fs.write'' None None)
      (effectiveBundles (ex_request ''fs.write'' None None) (Some (One ex_bundle)))))"
    unfolding ex_bundles by (meson list.set_sel(1))
  from allow_is_earned [OF v s this] v s show ?thesis by blast
qed

theorem undecided_is_denied_witness:
  "\<exists>v. evaluatePolicy ex_sha ex_re (ex_request ''deploy'' None None) (Some (One ex_bundle)) = Inr v \<and>
     pv_status v = Deny"
proof -
  obtain v where v: "evaluatePolicy ex_sha ex_re (ex_request ''deploy'' None None) (Some (One ex_bundle)) = Inr v"
    using ex_decided by blast
  have "\<not> hasDecisionMatch (fst (collectMatches ex_re (ex_request ''deploy'' None None)
      (effectiveBundles (ex_request ''deploy'' None None) (Some (One ex_bundle)))))"
    unfolding ex_bundles collectMatches_number fst_conv hasDecisionMatch_number by code_simp
  from undecided_is_denied [OF v this] v show ?thesis by blast
qed

theorem host_snapshot_denies_witness:
  "\<exists>v. evaluatePolicy ex_sha ex_re
       (ex_request ''fs.read'' None (Some \<lparr>hp_deniedTools = None, hp_allowedTools = Some []\<rparr>))
       (Some (One ex_bundle)) = Inr v \<and> pv_status v = Deny"
proof -
  let ?h = "\<lparr>hp_deniedTools = None, hp_allowedTools = Some []\<rparr>"
  obtain v where v: "evaluatePolicy ex_sha ex_re (ex_request ''fs.read'' None (Some ?h)) (Some (One ex_bundle)) = Inr v"
    using ex_decided by blast
  have "pv_status v = Deny"
    using host_snapshot_denies [OF v] by (simp add: ex_request_def)
  with v show ?thesis by blast
qed

theorem tool_policy_enforced_witness:
  "\<exists>v t p. evaluatePolicy ex_sha ex_re (ex_request ''fs.write'' None None) (Some (One ex_bundle)) = Inr v \<and>
     toolPolicyFor (ex_request ''fs.write'' None None) ex_bundle = Some (t, p) \<and> tp_default p \<noteq> Deny"
proof -
  obtain v where v: "evaluatePolicy ex_sha ex_re (ex_request ''fs.write'' None None) (Some (One ex_bundle)) = Inr v"
    using ex_decided by blast
  have s: "pv_status v \<noteq> Deny"
    using evaluatePolicy_refines [OF v, THEN conjunct1] by (simp only: ex_bundles) (simp add: ex_allow)
  obtain t p where tp: "toolPolicyFor (ex_request ''fs.write'' None None) ex_bundle = Some (t, p)"
    by (simp add: toolPolicyFor_def ex_defs)
  from tool_policy_enforced [OF v s _ tp] v tp show ?thesis by (auto simp: ex_bundles)
qed

theorem budget_enforced_witness:
  "\<exists>v. evaluatePolicy ex_sha ex_re (ex_request ''fs.write'' (Some [(''tokens'', 5)]) None) (Some (One ex_bundle)) = Inr v \<and>
     (\<forall>rule \<in> set (opt_list (pb_budgetPolicy ex_bundle)). br_resource rule = ''tokens'' \<longrightarrow>
        (\<exists>used. budgetUsage (ex_request ''fs.write'' (Some [(''tokens'', 5)]) None) ''tokens'' = Some used \<and>
          used + 5 \<le> br_max rule \<or> br_onExceeded rule \<noteq> ExceededDeny))"
proof -
  let ?r = "ex_request ''fs.write'' (Some [(''tokens'', 5)]) None"
  obtain v where v: "evaluatePolicy ex_sha ex_re ?r (Some (One ex_bundle)) = Inr v"
    using ex_decided by blast
  have "spec_status ?r (set (policyBodies ex_re ?r [ex_bundle])) = Allow" by code_simp
  then have s: "pv_status v \<noteq> Deny"
    using evaluatePolicy_refines [OF v, THEN conjunct1] by (simp only: ex_bundles) simp
  from budget_enforced [OF v s, of ex_bundle "''tokens''" 5] v
  show ?thesis by (fastforce simp: ex_bundles ex_request_def)
qed

theorem denial_is_monotone_witness:
  "\<exists>w. evaluatePolicy ex_sha ex_re (ex_request ''shell.exec'' None None) (Some (Many [ex_bundle, ex_bundle])) = Inr w \<and>
     pv_status w = Deny"
proof -
  let ?r = "ex_request ''shell.exec'' None None"
  have ok: "\<exists>v. evaluatePolicy ex_sha ex_re ?r (Some (Many bs)) = Inr v" if "set bs \<subseteq> {ex_bundle}" for bs
    using that by (intro evaluatePolicy_returns) (auto simp: ex_bundles ex_approvals_wf list_all_iff ex_bundle_wf)
  obtain v w where v: "evaluatePolicy ex_sha ex_re ?r (Some (Many [ex_bundle])) = Inr v"
    and w: "evaluatePolicy ex_sha ex_re ?r (Some (Many [ex_bundle, ex_bundle])) = Inr w"
    using ok [of "[ex_bundle]"] ok [of "[ex_bundle, ex_bundle]"] by auto
  have b: "ruleToMatch (ex_rule ''r1'' EDeny ''shell.exec'') \<in> set (policyBodies ex_re ?r [ex_bundle])"
    by (simp add: policyBodies_def collectedBodies_def bundleBodies_def explicitBodies_def ex_defs
        ruleMatchesRequest_def matchesOne_def Let_def)
  then have "stripInternalMatch (ruleToMatch (ex_rule ''r1'' EDeny ''shell.exec'')) \<in> set (pv_matchedRules v)"
    by (simp add: matchedRules_set [OF v] finalBodies_iff ex_bundles)
  then have "\<exists>r \<in> set (pv_matchedRules v). rm_effect r = EDeny \<and> rm_ruleId r \<noteq> ''runtime.missing_policy.fail_closed''"
    by (rule rev_bexI) (simp add: ruleToMatch_def ex_rule_def)
  moreover have "pv_status v = Deny"
    using evaluatePolicy_refines [OF v] b
    by (auto simp: ex_bundles spec_status_def ruleToMatch_def ex_rule_def intro!: bexI)
  ultimately have "pv_status w = Deny"
    using denial_is_monotone [OF v _ _ w] by simp
  with w show ?thesis by blast
qed

theorem evaluatePolicy_total_witness:
  "\<exists>v. evaluatePolicy ex_sha ex_re (ex_request ''fs.read'' None None) (Some (Many [ex_bundle, ex_bundle])) = Inr v"
  by (rule evaluatePolicy_total) (simp_all add: ex_bundles ex_bundle_wf ex_approvals_wf)

end
