(* ===== verification/Policy_Record.thy ===== *)
theory Policy_Record
  imports Policy_Decisions Canonical_Json
begin

text \<open>
  The audit record of a decision: \<^verbatim>\<open>toPolicyEvaluatedRecord\<close> of \<^verbatim>\<open>policy-engine/src/index.ts\<close>
  builds the \<^verbatim>\<open>policy.evaluated\<close> payload and its trace span, or throws a
  \<^verbatim>\<open>PolicyRecordError\<close> with one of its codes; and the decision hash.

  The bundle set of the recording context is read as \<^verbatim>\<open>unknown\<close> by the code and is a
  \<^typ>\<open>json\<close> here. Times are \<^typ>\<open>json\<close> values; a \<^verbatim>\<open>Date\<close> has no own properties.
\<close>

section \<open>Data\<close>

record PolicyRecordContext =
  cx_eventId :: "string option"
  cx_eventIds :: "string list option"
  cx_traceId :: string
  cx_spanId :: string
  cx_parentSpanId :: "string option"
  cx_startedAt :: json
  cx_endedAt :: "json option"
  cx_bundleSetRef :: string
  cx_bundleVersions :: "string list"
  cx_policyBundles :: json

record PolicyEvaluatedEventPayload =
  ep_requestId :: string
  ep_runId :: string
  ep_phase :: string
  ep_actionKind :: string
  ep_toolId :: "string option"
  ep_risk :: PolicyRisk
  ep_status :: PolicyVerdictStatus
  ep_matchedRules :: "RuleMatch list"
  ep_decidingLayer :: PolicyRuleLayer
  ep_constraints :: "PolicyConstraint list"
  ep_obligations :: "PolicyObligation list"
  ep_approvalId :: "string option"
  ep_requestHash :: string
  ep_policyBundleHash :: string
  ep_decisionHash :: string
  ep_argsHash :: string
  ep_bundleSetRef :: string
  ep_bundleVersions :: "string list"

datatype TraceSpanStatus = SpanSuccess | SpanDenied | SpanApprovalRequired

record TraceSpanInput =
  ts_spanId :: string
  ts_parentSpanId :: "string option"
  ts_kind :: string
  ts_name :: string
  ts_status :: TraceSpanStatus
  ts_startedAt :: json
  ts_endedAt :: "json option"
  ts_eventIds :: "string list"
  ts_metadata :: "(string \<times> json) list"

definition payload_json :: "PolicyEvaluatedEventPayload \<Rightarrow> json" where
  "payload_json p =
     JObj ([(''requestId'', JStr (ep_requestId p)), (''runId'', JStr (ep_runId p)),
            (''phase'', JStr (ep_phase p)), (''actionKind'', JStr (ep_actionKind p))] @
           opt_field ''toolId'' JStr (ep_toolId p) @
           [(''risk'', JStr (risk_str (ep_risk p))), (''status'', JStr (status_str (ep_status p))),
            (''matchedRules'', arr_json ruleMatch_json (ep_matchedRules p)),
            (''decidingLayer'', JStr (layer_str (ep_decidingLayer p))),
            (''constraints'', arr_json constraint_json (ep_constraints p)),
            (''obligations'', arr_json obligation_json (ep_obligations p))] @
           opt_field ''approvalId'' JStr (ep_approvalId p) @
           [(''requestHash'', JStr (ep_requestHash p)), (''policyBundleHash'', JStr (ep_policyBundleHash p)),
            (''decisionHash'', JStr (ep_decisionHash p)), (''argsHash'', JStr (ep_argsHash p)),
            (''bundleSetRef'', JStr (ep_bundleSetRef p)), (''bundleVersions'', strs_json (ep_bundleVersions p))])"

fun spanStatus_str :: "TraceSpanStatus \<Rightarrow> string" where
  "spanStatus_str SpanSuccess = ''success''"
| "spanStatus_str SpanDenied = ''denied''"
| "spanStatus_str SpanApprovalRequired = ''approval_required''"

definition span_json :: "TraceSpanInput \<Rightarrow> json" where
  "span_json s =
     JObj ((''spanId'', JStr (ts_spanId s)) # opt_field ''parentSpanId'' JStr (ts_parentSpanId s) @
           [(''kind'', JStr (ts_kind s)), (''name'', JStr (ts_name s)),
            (''status'', JStr (spanStatus_str (ts_status s))), (''startedAt'', ts_startedAt s)] @
           opt_field ''endedAt'' (\<lambda>v. v) (ts_endedAt s) @
           [(''eventIds'', strs_json (ts_eventIds s)), (''metadata'', JObj (ts_metadata s))])"

section \<open>Checks\<close>

abbreviation throw_record :: "PolicyRecordErrorCode \<Rightarrow> policy_error + 'a" where
  "throw_record code \<equiv> Inl (PolicyRecordError code)"

definition requireNonEmpty :: "string option \<Rightarrow> PolicyRecordErrorCode \<Rightarrow> policy_error + string" where
  "requireNonEmpty value code =
     (case value of None \<Rightarrow> throw_record code | Some s \<Rightarrow> if s = [] then throw_record code else Inr s)"

definition nonEmptyStrings :: "string list \<Rightarrow> PolicyRecordErrorCode \<Rightarrow> policy_error + string list" where
  "nonEmptyStrings values code =
     (if values = [] \<or> list_ex (\<lambda>v. v = []) values then throw_record code else Inr values)"

definition eventIdsFor :: "PolicyRecordContext \<Rightarrow> policy_error + string list" where
  "eventIdsFor context =
     nonEmptyStrings
       (case cx_eventIds context of Some ids \<Rightarrow> ids
        | None \<Rightarrow> (case cx_eventId context of None \<Rightarrow> [] | Some i \<Rightarrow> [i])) MissingEventIds"

definition requirePolicyBundleSet :: "json \<Rightarrow> policy_error + json" where
  "requirePolicyBundleSet value =
     (case value of
        JUndefined \<Rightarrow> throw_record MissingPolicyBundleHash
      | JArr bs \<Rightarrow> if list_ex (\<lambda>b. \<not> is_record b) bs then throw_record InvalidPolicyRecord else Inr value
      | _ \<Rightarrow> throw_record InvalidPolicyRecord)"

definition policyBundleHashFor :: "digest \<Rightarrow> PolicyVerdict \<Rightarrow> PolicyRecordContext \<Rightarrow> policy_error + string" where
  "policyBundleHashFor sha verdict context =
     bindE (requirePolicyBundleSet (cx_policyBundles context)) (\<lambda>policyBundles.
       let computed = hashJson sha policyBundles in
       case pv_policyBundleHash verdict of
         None \<Rightarrow> Inr computed
       | Some h \<Rightarrow>
           bindE (requireNonEmpty (Some h) MissingPolicyBundleHash) (\<lambda>vh.
             if vh \<noteq> computed then throw_record MismatchedPolicyBundleHash else Inr computed))"

text \<open>Every value of the layer and effect types is a known one.\<close>

definition validateRuleMatch :: "RuleMatch \<Rightarrow> policy_error + RuleMatch" where
  "validateRuleMatch m =
     bindE (requireNonEmpty (Some (rm_ruleId m)) MalformedMatchedRule) (\<lambda>rid.
     bindE (requireNonEmpty (Some (rm_reason m)) MalformedMatchedRule) (\<lambda>reason.
       Inr \<lparr>rm_ruleId = rid, rm_layer = rm_layer m, rm_effect = rm_effect m, rm_reason = reason\<rparr>))"

definition isKnownObligationKind :: "string \<Rightarrow> bool" where
  "isKnownObligationKind kind \<longleftrightarrow>
     kind = ''record_event'' \<or> kind = ''redact'' \<or> kind = ''stage_write'' \<or> kind = ''run_eval'' \<or>
     kind = ''require_evidence'' \<or> kind = ''attach_trace'' \<or> kind = ''mark_external_source'' \<or>
     kind = ''request_human_review''"

definition validateObligation :: "PolicyObligation \<Rightarrow> policy_error + PolicyObligation" where
  "validateObligation ob =
     (if isKnownObligationKind (o_kind ob) then Inr ob else throw_record UnknownObligationKind)"

definition precedenceFirst :: "RuleMatch list \<Rightarrow> (RuleMatch \<Rightarrow> bool) \<Rightarrow> RuleMatch option" where
  "precedenceFirst rules pred =
     best_by (\<lambda>candidate best. layerRank (rm_layer candidate) < layerRank (rm_layer best)) None
       (filter pred rules)"

definition resolvedAllow :: "RuleMatch list \<Rightarrow> RuleMatch option" where
  "resolvedAllow rules =
     (let allowMatches = filter (\<lambda>r. rm_effect r = EAllow) rules in
      case find (\<lambda>r. rm_layer r = Approval) allowMatches of
        Some r \<Rightarrow> Some r
      | None \<Rightarrow>
          best_by (\<lambda>candidate best. layerRank (rm_layer candidate) > layerRank (rm_layer best)) None
            allowMatches)"

definition decidingLayerOf :: "RuleMatch list \<Rightarrow> PolicyVerdictStatus \<Rightarrow> policy_error + PolicyRuleLayer" where
  "decidingLayerOf rules status =
     (case (case status of
              Deny \<Rightarrow> precedenceFirst rules (\<lambda>r. rm_effect r = EDeny)
            | ApprovalRequired \<Rightarrow> precedenceFirst rules (\<lambda>r. rm_effect r = EApprovalRequired)
            | Allow \<Rightarrow> resolvedAllow rules) of
        None \<Rightarrow> throw_record MissingDecidingRule
      | Some r \<Rightarrow> Inr (rm_layer r))"

fun spanStatusFor :: "PolicyVerdictStatus \<Rightarrow> TraceSpanStatus" where
  "spanStatusFor Allow = SpanSuccess"
| "spanStatusFor Deny = SpanDenied"
| "spanStatusFor ApprovalRequired = SpanApprovalRequired"

function rawArgStrings :: "json \<Rightarrow> string list" where
  "rawArgStrings JUndefined = []"
| "rawArgStrings JNull = []"
| "rawArgStrings (JBool b) = []"
| "rawArgStrings (JNum n) = []"
| "rawArgStrings (JStr s) = (if s = [] then [] else [s])"
| "rawArgStrings (JArr xs) = concat (map rawArgStrings xs)"
| "rawArgStrings (JObj ps) = concat (map (\<lambda>p. rawArgStrings (snd p)) ps)"
  by pat_completeness auto
termination
proof (relation "measure size", goal_cases)
  case (2 xs x)
  then show ?case using size_element [of x xs] by simp
next
  case (3 ps p)
  then show ?case using size_member [of p ps] by simp
qed simp

definition record_text :: "PolicyEvaluatedEventPayload \<Rightarrow> TraceSpanInput \<Rightarrow> string" where
  "record_text payload span =
     stringify (normalizeStable (JObj [(''eventPayload'', payload_json payload), (''span'', span_json span)]))"

definition assertNoRawArgsLeak ::
  "(string \<times> json) list option \<Rightarrow> PolicyEvaluatedEventPayload \<Rightarrow> TraceSpanInput \<Rightarrow> policy_error + unit" where
  "assertNoRawArgsLeak args payload span =
     (let rawStrings = rawArgStrings (case args of None \<Rightarrow> JUndefined | Some ps \<Rightarrow> JObj ps) in
      if rawStrings = [] then Inr ()
      else (case find (\<lambda>s. str_includes s (record_text payload span)) rawStrings of
          Some s \<Rightarrow> throw_record RawArgsLeaked
        | None \<Rightarrow> Inr ()))"

section \<open>The record\<close>

definition PolicyEvaluatedEventPayloadSchema_ok :: "PolicyEvaluatedEventPayload \<Rightarrow> bool" where
  "PolicyEvaluatedEventPayloadSchema_ok p \<longleftrightarrow>
     list_all (\<lambda>s. s \<noteq> [])
       [ep_requestId p, ep_runId p, ep_phase p, ep_actionKind p, ep_requestHash p, ep_policyBundleHash p,
        ep_decisionHash p, ep_argsHash p, ep_bundleSetRef p] \<and>
     ep_toolId p \<noteq> Some [] \<and> ep_approvalId p \<noteq> Some [] \<and>
     list_all ruleMatch_ok (ep_matchedRules p) \<and> list_all constraint_ok (ep_constraints p) \<and>
     list_all obligation_ok (ep_obligations p) \<and> list_all (\<lambda>s. s \<noteq> []) (ep_bundleVersions p)"

definition event_payload ::
  "digest \<Rightarrow> PolicyRequest \<Rightarrow> PolicyVerdict \<Rightarrow> string \<Rightarrow> string \<Rightarrow> RuleMatch list \<Rightarrow> PolicyObligation list \<Rightarrow>
   PolicyRuleLayer \<Rightarrow> string \<Rightarrow> string list \<Rightarrow> PolicyEvaluatedEventPayload" where
  "event_payload sha request verdict decisionHash policyBundleHash matchedRules obligations decidingLayer
     bundleSetRef bundleVersions =
     \<lparr>ep_requestId = rq_requestId request, ep_runId = rq_runId request, ep_phase = rq_phase request,
      ep_actionKind = pa_kind (rq_action request), ep_toolId = pa_toolId (rq_action request),
      ep_risk = actionRisk request, ep_status = pv_status verdict, ep_matchedRules = matchedRules,
      ep_decidingLayer = decidingLayer, ep_constraints = pv_constraints verdict,
      ep_obligations = obligations, ep_approvalId = pv_approvalId verdict,
      ep_requestHash = hashJson sha (request_json request), ep_policyBundleHash = policyBundleHash,
      ep_decisionHash = decisionHash,
      ep_argsHash = hashJson sha (JObj (opt_list (pa_args (rq_action request)))),
      ep_bundleSetRef = bundleSetRef, ep_bundleVersions = bundleVersions\<rparr>"

definition span_metadata :: "PolicyEvaluatedEventPayload \<Rightarrow> string \<Rightarrow> (string \<times> json) list" where
  "span_metadata p traceId =
     [(''requestId'', JStr (ep_requestId p)), (''runId'', JStr (ep_runId p)), (''traceId'', JStr traceId),
      (''phase'', JStr (ep_phase p)), (''actionKind'', JStr (ep_actionKind p))] @
     opt_field ''toolId'' JStr (ep_toolId p) @
     [(''policyStatus'', JStr (status_str (ep_status p))), (''decisionHash'', JStr (ep_decisionHash p)),
      (''requestHash'', JStr (ep_requestHash p)), (''policyBundleHash'', JStr (ep_policyBundleHash p)),
      (''decidingLayer'', JStr (layer_str (ep_decidingLayer p))),
      (''matchedRuleIds'', strs_json (map rm_ruleId (ep_matchedRules p)))]"

definition policy_span ::
  "PolicyEvaluatedEventPayload \<Rightarrow> PolicyVerdict \<Rightarrow> PolicyRecordContext \<Rightarrow> string list \<Rightarrow> policy_error + TraceSpanInput" where
  "policy_span p verdict context eventIds =
     bindE (requireNonEmpty (Some (cx_spanId context)) InvalidPolicyRecord) (\<lambda>spanId.
     bindE (case cx_parentSpanId context of None \<Rightarrow> Inr None
            | Some i \<Rightarrow> bindE (requireNonEmpty (Some i) InvalidPolicyRecord) (\<lambda>s. Inr (Some s))) (\<lambda>parentSpanId.
     bindE (requireNonEmpty (Some (cx_traceId context)) InvalidPolicyRecord) (\<lambda>traceId.
       Inr \<lparr>ts_spanId = spanId, ts_parentSpanId = parentSpanId, ts_kind = ''policy'',
            ts_name = ''policy.'' @ status_str (ep_status p) @ ''.'' @ ep_actionKind p,
            ts_status = spanStatusFor (pv_status verdict), ts_startedAt = cx_startedAt context,
            ts_endedAt = cx_endedAt context, ts_eventIds = eventIds,
            ts_metadata = span_metadata p traceId\<rparr>)))"

definition toPolicyEvaluatedRecord ::
  "digest \<Rightarrow> PolicyRequest \<Rightarrow> PolicyVerdict \<Rightarrow> PolicyRecordContext \<Rightarrow>
   policy_error + (PolicyEvaluatedEventPayload \<times> TraceSpanInput)" where
  "toPolicyEvaluatedRecord sha request verdict context =
     bindE (eventIdsFor context) (\<lambda>eventIds.
     bindE (requireNonEmpty (Some (pv_decisionHash verdict)) MissingDecisionHash) (\<lambda>decisionHash.
     bindE (policyBundleHashFor sha verdict context) (\<lambda>policyBundleHash.
     bindE (mapE validateRuleMatch (pv_matchedRules verdict)) (\<lambda>matchedRules.
     bindE (mapE validateObligation (pv_obligations verdict)) (\<lambda>obligations.
     bindE (decidingLayerOf matchedRules (pv_status verdict)) (\<lambda>decidingLayer.
     bindE (requireNonEmpty (Some (cx_bundleSetRef context)) InvalidPolicyRecord) (\<lambda>bundleSetRef.
     bindE (nonEmptyStrings (cx_bundleVersions context) InvalidPolicyRecord) (\<lambda>bundleVersions.
       let payload = event_payload sha request verdict decisionHash policyBundleHash matchedRules
             obligations decidingLayer bundleSetRef bundleVersions in
       if \<not> PolicyEvaluatedEventPayloadSchema_ok payload then throw_record InvalidPolicyRecord
       else bindE (policy_span payload verdict context eventIds) (\<lambda>span.
         bindE (assertNoRawArgsLeak (pa_args (rq_action request)) payload span) (\<lambda>_.
           Inr (payload, span)))))))))))"

section \<open>Lemmas on the checks\<close>

named_theorems record_inv \<open>what a check that passes tells\<close>

lemma requireNonEmpty_Inr [record_inv]: "requireNonEmpty (Some s) code = Inr r \<longleftrightarrow> s \<noteq> [] \<and> r = s"
  by (auto simp: requireNonEmpty_def)

lemma nonEmptyStrings_Inr [record_inv]:
  "nonEmptyStrings xs code = Inr r \<longleftrightarrow> xs \<noteq> [] \<and> [] \<notin> set xs \<and> r = xs"
  by (auto simp: nonEmptyStrings_def list_ex_iff)

lemma validateRuleMatch_Inr [record_inv]: "validateRuleMatch m = Inr r \<longleftrightarrow> ruleMatch_ok m \<and> r = m"
  by (cases m) (auto simp: validateRuleMatch_def bindE_Inr_iff record_inv ruleMatch_ok_def)

lemma validateObligation_Inr [record_inv]:
  "validateObligation ob = Inr r \<longleftrightarrow> o_kind ob \<in> set OBLIGATION_KINDS \<and> r = ob"
  by (auto simp: validateObligation_def isKnownObligationKind_def OBLIGATION_KINDS_def)

lemma mapE_identity:
  assumes "\<And>x r. f x = Inr r \<longleftrightarrow> P x \<and> r = x"
  shows "mapE f xs = Inr ys \<longleftrightarrow> list_all P xs \<and> ys = xs"
proof (induction xs arbitrary: ys)
  case (Cons x xs)
  show ?case
  proof (cases "f x")
    case (Inl e)
    with assms [of x x] show ?thesis by simp
  next
    case (Inr r)
    with assms [of x r] Cons.IH show ?thesis by (cases "mapE f xs") auto
  qed
qed auto

lemma assertNoRawArgsLeak_cases:
  "assertNoRawArgsLeak args p s = Inr () \<or> assertNoRawArgsLeak args p s = throw_record RawArgsLeaked"
  by (simp add: assertNoRawArgsLeak_def Let_def split: option.split)

lemma assertNoRawArgsLeak_Inr:
  "assertNoRawArgsLeak args p s = Inr u \<longleftrightarrow>
   (\<forall>a \<in> set (rawArgStrings (JObj (opt_list args))). \<not> str_includes a (record_text p s))"
proof -
  define raw where "raw = rawArgStrings (JObj (opt_list args))"
  have "rawArgStrings (case args of None \<Rightarrow> JUndefined | Some ps \<Rightarrow> JObj ps) = raw"
    by (cases args) (simp_all add: raw_def)
  then have "assertNoRawArgsLeak args p s = Inr u \<longleftrightarrow>
      find (\<lambda>a. str_includes a (record_text p s)) raw = None"
    by (auto simp: assertNoRawArgsLeak_def Let_def split: option.split)
  then show ?thesis by (simp only: find_eq_None raw_def)
qed

lemma toPolicyEvaluatedRecord_Inr:
  assumes "toPolicyEvaluatedRecord sha request v cx = Inr (p, s)"
  obtains eventIds layer where
    "p = event_payload sha request v (pv_decisionHash v) (hashJson sha (cx_policyBundles cx))
       (pv_matchedRules v) (pv_obligations v) layer (cx_bundleSetRef cx) (cx_bundleVersions cx)"
    "decidingLayerOf (pv_matchedRules v) (pv_status v) = Inr layer"
    "policy_span p v cx eventIds = Inr s" "assertNoRawArgsLeak (pa_args (rq_action request)) p s = Inr ()"
proof -
  have hash: "policyBundleHashFor sha v cx = Inr h \<Longrightarrow> h = hashJson sha (cx_policyBundles cx)" for h
    by (auto simp: policyBundleHashFor_def requirePolicyBundleSet_def bindE_Inr_iff Let_def
        split: json.splits if_splits option.splits)
  show thesis
    using assms
    by (auto simp: toPolicyEvaluatedRecord_def bindE_Inr_iff record_inv Let_def
        mapE_identity [OF validateRuleMatch_Inr] mapE_identity [OF validateObligation_Inr]
        split: if_splits dest!: hash intro: that)
qed

lemma precedenceFirst_min:
  assumes "precedenceFirst rules P = Some r"
  shows "r \<in> set rules \<and> P r \<and> (\<forall>x \<in> set rules. P x \<longrightarrow> rm_layer r \<le> rm_layer x)"
  using assms best_by_in [of _ None "filter P rules" r]
    best_by_min [of "\<lambda>r. layerRank (rm_layer r)" None "filter P rules" r]
  by (auto simp: precedenceFirst_def less_eq_PolicyRuleLayer_def)

lemma precedenceFirst_None: "precedenceFirst rules P = None \<longleftrightarrow> (\<forall>x \<in> set rules. \<not> P x)"
  by (simp add: precedenceFirst_def best_by_None_iff filter_empty_conv)

lemma resolvedAllow_max:
  assumes "resolvedAllow rules = Some r"
  shows "r \<in> set rules \<and> rm_effect r = EAllow \<and>
    (\<forall>x \<in> set rules. rm_effect x = EAllow \<longrightarrow> rm_layer x \<le> rm_layer r)"
proof (cases "find (\<lambda>r. rm_layer r = Approval) (filter (\<lambda>r. rm_effect r = EAllow) rules)")
  case None
  with assms best_by_in [of _ None "filter (\<lambda>r. rm_effect r = EAllow) rules" r]
    best_by_max [of "\<lambda>r. layerRank (rm_layer r)" None "filter (\<lambda>r. rm_effect r = EAllow) rules" r]
  show ?thesis by (auto simp: resolvedAllow_def less_eq_PolicyRuleLayer_def Let_def)
next
  case (Some a)
  have "layerRank l \<le> layerRank Approval" for l by (cases l) simp_all
  with Some assms find_Some_iff_in [OF Some] show ?thesis
    by (auto simp: resolvedAllow_def less_eq_PolicyRuleLayer_def Let_def)
qed

lemma resolvedAllow_None: "resolvedAllow rules = None \<longleftrightarrow> (\<forall>x \<in> set rules. rm_effect x \<noteq> EAllow)"
  by (fastforce simp: resolvedAllow_def Let_def best_by_None_iff filter_empty_conv find_eq_None
      dest!: find_Some_iff_in split: option.splits)

section \<open>The rule that decided\<close>

lemma verdict_has_deciding_rule:
  assumes "evaluatePolicy sha re request pb = Inr v"
  shows "\<exists>r \<in> set (pv_matchedRules v). rm_effect r = effect_of (pv_status v)"
proof -
  let ?bs = "policyBodies re request (effectiveBundles request pb)"
  have status: "pv_status v = spec_status request (set ?bs)"
    using evaluatePolicy_refines [OF assms] by simp
  obtain b where b: "b \<in> set ?bs" "decides b" using policyBodies_decide by blast
  have "\<exists>x \<in> set (finalBodies re request (effectiveBundles request pb)). rm_effect x = effect_of (pv_status v)"
  proof (cases "pv_status v")
    case Allow
    then have no: "\<forall>b \<in> set ?bs. rm_effect b \<noteq> EDeny"
      using status by (auto simp: spec_status_def split: if_splits)
    show ?thesis
    proof (cases "rm_effect b = EAllow")
      case True
      with b Allow show ?thesis by (auto simp: finalBodies_iff)
    next
      case False
      with b no have "approvalMatch request (with_sequence b 0) \<in> set (approvalBodies request ?bs)"
        by (auto simp: approvalBodies_def decides_def)
      with approvalBodies_effect status Allow show ?thesis by (force simp: finalBodies_iff)
    qed
  next
    case Deny
    with status have "\<exists>b \<in> set ?bs. rm_effect b = EDeny" by (auto simp: spec_status_def split: if_splits)
    with Deny show ?thesis by (auto simp: finalBodies_iff)
  next
    case ApprovalRequired
    with status have "\<exists>b \<in> set ?bs. rm_effect b = EApprovalRequired"
      by (auto simp: spec_status_def split: if_splits)
    with ApprovalRequired show ?thesis by (auto simp: finalBodies_iff)
  qed
  then show ?thesis by (auto simp: matchedRules_set [OF assms])
qed

lemma decidingLayerOf_total:
  assumes "evaluatePolicy sha re request pb = Inr v"
  shows "\<exists>l. decidingLayerOf (pv_matchedRules v) (pv_status v) = Inr l"
  using verdict_has_deciding_rule [OF assms]
  by (cases "pv_status v")
     (auto simp: decidingLayerOf_def precedenceFirst_None resolvedAllow_None split: option.split)

section \<open>No escaped text holds a line break\<close>

lemma newline_esc_char: "CHR 0x0A \<notin> set (esc_char c)"
proof -
  have "hex_digit n \<noteq> CHR 0x0A" for n
  proof -
    have "hex_digit n \<in> set ''0123456789abcdef''" unfolding hex_digit_def by (rule nth_mem) simp
    then show ?thesis by auto
  qed
  then have "CHR 0x0A \<noteq> hex_digit n" for n by metis
  then show ?thesis by (auto simp: esc_char_def)
qed

lemma newline_quote_str: "CHR 0x0A \<notin> set (quote_str s)"
  using newline_esc_char by (auto simp: quote_str_def)

lemma newline_nat_str: "CHR 0x0A \<notin> set (nat_str n)"
proof (induction n rule: nat_str.induct)
  case (1 n)
  have "digit_char n \<noteq> CHR 0x0A"
  proof -
    have "digit_char n \<in> set ''0123456789''" unfolding digit_char_def by (rule nth_mem) simp
    then show ?thesis by auto
  qed
  with 1 show ?case by (subst nat_str.simps) auto
qed

lemma newline_join: "(\<And>x. x \<in> set xs \<Longrightarrow> CHR 0x0A \<notin> set x) \<Longrightarrow> CHR 0x0A \<notin> set (join '','' xs)"
  using set_join [of "'',''" xs] by auto

lemma newline_stringify: "CHR 0x0A \<notin> set (stringify v)"
proof (induction v rule: json_induct)
  case (Arr xs)
  then have "CHR 0x0A \<notin> set (join '','' (map stringify xs))" by (intro newline_join) auto
  then show ?case by simp
next
  case (Obj ps)
  then have "CHR 0x0A \<notin> set (join '','' (map (\<lambda>p. quote_str (fst p) @ '':'' @ stringify (snd p))
      (filter (\<lambda>p. snd p \<noteq> JUndefined) ps)))"
    by (intro newline_join) (auto simp: newline_quote_str)
  then show ?case by simp
qed (simp_all add: newline_quote_str int_str_def newline_nat_str)

section \<open>Properties\<close>

text \<open>
  Every verdict of the engine has a deciding rule, so recording it never fails with
  \<^verbatim>\<open>missing_deciding_rule\<close>; the recorded layer is the strongest layer among the denying (or the
  approval-requiring) rules, and for an allow the weakest layer among the allowing ones.
\<close>

theorem deciding_layer_correct:
  assumes "evaluatePolicy sha re request pb = Inr v"
  shows "\<exists>l r. decidingLayerOf (pv_matchedRules v) (pv_status v) = Inr l \<and> r \<in> set (pv_matchedRules v) \<and>
    rm_layer r = l \<and> rm_effect r = effect_of (pv_status v) \<and>
    (\<forall>x \<in> set (pv_matchedRules v). rm_effect x = effect_of (pv_status v) \<longrightarrow>
       (if pv_status v = Allow then rm_layer x \<le> l else l \<le> rm_layer x))"
proof -
  obtain l where l: "decidingLayerOf (pv_matchedRules v) (pv_status v) = Inr l"
    using decidingLayerOf_total [OF assms] by blast
  then show ?thesis
    by (cases "pv_status v")
       (force simp: decidingLayerOf_def dest!: precedenceFirst_min resolvedAllow_max split: option.splits)+
qed

text \<open>
  A verdict of the engine can be recorded: with a request and a context whose texts are not empty
  and a context that carries a list of bundle objects, the only error left is that an argument of the
  action would appear in the record.
\<close>

theorem verdict_is_recordable:
  assumes "evaluatePolicy sha re request pb = Inr v" "cx_policyBundles cx = bundles_json bundles"
    and "[] \<notin> {rq_requestId request, rq_runId request, rq_phase request, pa_kind (rq_action request),
      cx_spanId cx, cx_traceId cx, cx_bundleSetRef cx}"
    and "pa_toolId (rq_action request) \<noteq> Some []" "cx_parentSpanId cx \<noteq> Some []"
    and "cx_eventIds cx = Some ids" "ids \<noteq> []" "[] \<notin> set ids"
    and "cx_bundleVersions cx \<noteq> []" "[] \<notin> set (cx_bundleVersions cx)"
  shows "toPolicyEvaluatedRecord sha request v cx = throw_record RawArgsLeaked \<or>
    (\<exists>p s. toPolicyEvaluatedRecord sha request v cx = Inr (p, s))"
proof -
  from evaluatePolicy_verdict [OF assms(1)] obtain status ms a where
    vf: "verdictForStatus sha status request (effectiveBundles request pb) (sortMatches ms) a = Inr v" .
  note ok = verdictForStatus_Inr(10) [OF vf, unfolded PolicyVerdictSchema_ok_def]
  note no_hash = verdictForStatus_Inr(9) [OF vf]
  obtain l where l: "decidingLayerOf (pv_matchedRules v) (pv_status v) = Inr l"
    using decidingLayerOf_total [OF assms(1)] by blast
  have rules: "mapE validateRuleMatch (pv_matchedRules v) = Inr (pv_matchedRules v)"
    "mapE validateObligation (pv_obligations v) = Inr (pv_obligations v)"
    using ok by (auto simp: mapE_identity [OF validateRuleMatch_Inr] mapE_identity [OF validateObligation_Inr]
        list_all_iff obligation_ok_def)
  have hash: "policyBundleHashFor sha v cx = Inr (hashJson sha (cx_policyBundles cx))"
    using no_hash by (auto simp: policyBundleHashFor_def assms(2) requirePolicyBundleSet_def bundles_json_def
        arr_json_def list_ex_iff bundle_json_def is_record_def Let_def)
  let ?p = "event_payload sha request v (pv_decisionHash v) (hashJson sha (cx_policyBundles cx))
     (pv_matchedRules v) (pv_obligations v) l (cx_bundleSetRef cx) (cx_bundleVersions cx)"
  have payload: "PolicyEvaluatedEventPayloadSchema_ok ?p"
    using ok assms by (auto simp: PolicyEvaluatedEventPayloadSchema_ok_def event_payload_def hashJson_def
        list_all_iff)
  have "\<exists>s. policy_span ?p v cx ids = Inr s"
    using assms(3,5) by (auto simp: policy_span_def requireNonEmpty_def split: option.split)
  then obtain s where s: "policy_span ?p v cx ids = Inr s" by blast
  have "requireNonEmpty (Some (cx_bundleSetRef cx)) c = Inr (cx_bundleSetRef cx)"
    "requireNonEmpty (Some (pv_decisionHash v)) c = Inr (pv_decisionHash v)" for c
    using assms(3) ok by (auto simp: record_inv)
  then have "toPolicyEvaluatedRecord sha request v cx =
     bindE (assertNoRawArgsLeak (pa_args (rq_action request)) ?p s) (\<lambda>_. Inr (?p, s))"
    using assms(6-10) payload s
    by (simp add: toPolicyEvaluatedRecord_def eventIdsFor_def nonEmptyStrings_def list_ex_iff
        hash rules l Let_def)
  then show ?thesis using assertNoRawArgsLeak_cases [of "pa_args (rq_action request)" ?p s] by auto
qed


text \<open>
  The leak check compares the raw argument with JSON text, in which line breaks are escaped. An
  action whose argument strings all contain a line break passes the check whatever the payload and the
  span hold, even when they hold the arguments themselves.
\<close>

theorem multiline_args_are_not_detected:
  assumes "\<forall>a \<in> set (rawArgStrings (JObj args)). CHR 0x0A \<in> set a"
  shows "assertNoRawArgsLeak (Some args) payload span = Inr ()"
proof -
  have "\<not> str_includes a (record_text payload span)" if "CHR 0x0A \<in> set a" for a
    using that newline_stringify unfolding str_includes_iff record_text_def
    by (metis Un_iff set_append)
  with assms show ?thesis by (auto simp: assertNoRawArgsLeak_Inr)
qed

lemma hashJson_sem:
  assumes "hashJson sha v = hashJson sha w" "json_wf no_proto v" "json_wf no_proto w"
    and "inj_on sha T" "stringify (normalizeStable v) \<in> T" "stringify (normalizeStable w) \<in> T"
  shows "json_sem v = json_sem w"
  using assms by (auto simp: hashJson_def stable.canon_text_iff [symmetric] dest: inj_onD)

lemma decision_input_sem:
  assumes "json_sem (decisionHashInput_json i) = json_sem (decisionHashInput_json j)"
  shows "dh_requestHash i = dh_requestHash j" "dh_policyBundleHash i = dh_policyBundleHash j"
    "dh_matchedRuleIds i = dh_matchedRuleIds j" "dh_status i = dh_status j"
    "json_sem (arr_json constraint_json (dh_constraints i)) = json_sem (arr_json constraint_json (dh_constraints j))"
    "json_sem (arr_json obligation_json (dh_obligations i)) = json_sem (arr_json obligation_json (dh_obligations j))"
proof -
  define F :: "DecisionHashInput \<Rightarrow> string \<Rightarrow> jval option" where "F = (\<lambda>i k. map_of (map (\<lambda>p. (fst p, json_sem (snd p)))
     [(''requestHash'', JStr (dh_requestHash i)), (''policyBundleHash'', JStr (dh_policyBundleHash i)),
      (''matchedRuleIds'', strs_json (dh_matchedRuleIds i)), (''status'', JStr (status_str (dh_status i))),
      (''constraints'', arr_json constraint_json (dh_constraints i)),
      (''obligations'', arr_json obligation_json (dh_obligations i))]) k)"
  have "json_sem (decisionHashInput_json i) = VObj (F i)" for i
    by (simp add: decisionHashInput_json_def F_def arr_json_def fun_eq_iff)
  with assms have "F i = F j" by simp
  then have F: "F i k = F j k" for k by simp
  have status: "status_str a = status_str b \<Longrightarrow> a = b" for a b by (cases a; cases b) simp_all
  have strs: "map VStr xs = map VStr ys \<Longrightarrow> xs = ys" for xs ys by (simp add: inj_map_eq_map inj_def)
  show "dh_requestHash i = dh_requestHash j" using F [of "''requestHash''"] by (simp add: F_def)
  show "dh_policyBundleHash i = dh_policyBundleHash j"
    using F [of "''policyBundleHash''"] by (simp add: F_def)
  show "dh_matchedRuleIds i = dh_matchedRuleIds j"
    using F [of "''matchedRuleIds''"] strs by (simp add: F_def arr_json_def comp_def)
  show "dh_status i = dh_status j" using F [of "''status''"] status by (simp add: F_def)
  show "json_sem (arr_json constraint_json (dh_constraints i)) = json_sem (arr_json constraint_json (dh_constraints j))"
    using F [of "''constraints''"] by (simp add: F_def)
  show "json_sem (arr_json obligation_json (dh_obligations i)) = json_sem (arr_json obligation_json (dh_obligations j))"
    using F [of "''obligations''"] by (simp add: F_def)
qed

text \<open>The texts that the evaluation of a verdict hashes.\<close>

definition decision_input ::
  "digest \<Rightarrow> PolicyRequest \<Rightarrow> FixturePolicyBundle list \<Rightarrow> PolicyVerdict \<Rightarrow> DecisionHashInput" where
  "decision_input sha request bundles v =
     \<lparr>dh_requestHash = hashJson sha (request_json request),
      dh_policyBundleHash = hashJson sha (bundles_json bundles),
      dh_matchedRuleIds = map rm_ruleId (pv_matchedRules v), dh_status = pv_status v,
      dh_constraints = pv_constraints v, dh_obligations = pv_obligations v\<rparr>"

definition hashed_values ::
  "digest \<Rightarrow> PolicyRequest \<Rightarrow> FixturePolicyBundle list \<Rightarrow> PolicyVerdict \<Rightarrow> json set" where
  "hashed_values sha request bundles v =
     {request_json request, bundles_json bundles, decisionHashInput_json (decision_input sha request bundles v)}"

lemma decisionHash_input:
  assumes "evaluatePolicy sha re request pb = Inr v"
  shows "pv_decisionHash v =
    hashJson sha (decisionHashInput_json (decision_input sha request (effectiveBundles request pb) v))"
proof -
  from evaluatePolicy_verdict [OF assms] obtain status ms a where
    vf: "verdictForStatus sha status request (effectiveBundles request pb) (sortMatches ms) a = Inr v" .
  from verdictForStatus_Inr(1,7) [OF vf] show ?thesis
    by (simp add: hashDecision_def decision_input_def)
qed

text \<open>
  Equal decision hashes mean equal decisions: when the digest has no collision on the texts the
  two evaluations hash (and no value has an own \<^verbatim>\<open>__proto__\<close>), the two verdicts were reached for
  the same request and the same bundles, by the same rules, with the same status.
\<close>

theorem decision_hash_binds:
  assumes "evaluatePolicy sha re r1 pb1 = Inr v1" "evaluatePolicy sha re r2 pb2 = Inr v2"
    and "pv_decisionHash v1 = pv_decisionHash v2"
  defines "H \<equiv> hashed_values sha r1 (effectiveBundles r1 pb1) v1 \<union> hashed_values sha r2 (effectiveBundles r2 pb2) v2"
  assumes "\<forall>h \<in> H. json_wf no_proto h" "inj_on sha ((\<lambda>h. stringify (normalizeStable h)) ` H)"
  shows "json_sem (request_json r1) = json_sem (request_json r2) \<and>
    json_sem (bundles_json (effectiveBundles r1 pb1)) = json_sem (bundles_json (effectiveBundles r2 pb2)) \<and>
    pv_status v1 = pv_status v2 \<and>
    map rm_ruleId (pv_matchedRules v1) = map rm_ruleId (pv_matchedRules v2)"
proof -
  have sem: "json_sem x = json_sem y" if "x \<in> H" "y \<in> H" "hashJson sha x = hashJson sha y" for x y
    using hashJson_sem [OF that(3) _ _ assms(6)] that(1,2) assms(5) by blast
  let ?i = "decision_input sha r1 (effectiveBundles r1 pb1) v1"
  let ?j = "decision_input sha r2 (effectiveBundles r2 pb2) v2"
  have "json_sem (decisionHashInput_json ?i) = json_sem (decisionHashInput_json ?j)"
    using sem assms(3) by (simp add: H_def hashed_values_def decisionHash_input [OF assms(1)]
        decisionHash_input [OF assms(2)])
  note eq = decision_input_sem [OF this, unfolded decision_input_def, simplified]
  then show ?thesis using sem by (simp add: H_def hashed_values_def)
qed

section \<open>Instances\<close>

definition ex_context :: PolicyRecordContext where
  "ex_context =
     \<lparr>cx_eventId = None, cx_eventIds = Some [''e1''], cx_traceId = ''t'', cx_spanId = ''s'',
      cx_parentSpanId = None, cx_startedAt = JStr ''now'', cx_endedAt = None, cx_bundleSetRef = ''set'',
      cx_bundleVersions = [''1''], cx_policyBundles = bundles_json [ex_bundle]\<rparr>"

definition ex_verdict :: PolicyVerdict where
  "ex_verdict =
     \<lparr>pv_status = Deny, pv_approvalId = None, pv_reasons = [''why''], pv_constraints = [], pv_obligations = [],
      pv_matchedRules = [\<lparr>rm_ruleId = ''r1'', rm_layer = Harness, rm_effect = EDeny, rm_reason = ''why''\<rparr>],
      pv_decisionHash = ''sha256:1'', pv_requestHash = None, pv_policyBundleHash = None\<rparr>"

lemma hashJson_ex_sha: "hashJson ex_sha v = ''sha256:00''"
  by (simp add: hashJson_def ex_sha_def)

theorem deciding_layer_correct_witness:
  "\<exists>v l. evaluatePolicy ex_sha ex_re (ex_request ''shell.exec'' None None) (Some (One ex_bundle)) = Inr v \<and>
     decidingLayerOf (pv_matchedRules v) (pv_status v) = Inr l"
  using ex_decided [of "''shell.exec''" None None] deciding_layer_correct by blast

theorem verdict_is_recordable_witness:
  "\<exists>v. evaluatePolicy ex_sha ex_re (ex_request ''shell.exec'' None None) (Some (One ex_bundle)) = Inr v \<and>
     (toPolicyEvaluatedRecord ex_sha (ex_request ''shell.exec'' None None) v ex_context = throw_record RawArgsLeaked \<or>
      (\<exists>p s. toPolicyEvaluatedRecord ex_sha (ex_request ''shell.exec'' None None) v ex_context = Inr (p, s)))"
proof -
  obtain v where v: "evaluatePolicy ex_sha ex_re (ex_request ''shell.exec'' None None) (Some (One ex_bundle)) = Inr v"
    using ex_decided by blast
  have cx: "cx_policyBundles ex_context = bundles_json [ex_bundle]" "cx_eventIds ex_context = Some [''e1'']"
    by (simp_all add: ex_context_def)
  show ?thesis
    using v verdict_is_recordable [OF v cx(1) _ _ _ cx(2)] by (simp add: ex_request_def ex_context_def)
qed


theorem multiline_args_are_not_detected_witness:
  "\<exists>payload :: PolicyEvaluatedEventPayload. ep_toolId payload = Some [CHR ''k'', CHR 0x0A] \<and>
     (\<forall>span. assertNoRawArgsLeak (Some [(''key'', JStr [CHR ''k'', CHR 0x0A])]) payload span = Inr ())"
proof -
  have "assertNoRawArgsLeak (Some [(''key'', JStr [CHR ''k'', CHR 0x0A])]) payload span = Inr ()" for payload span
    by (rule multiline_args_are_not_detected) simp
  moreover have "\<exists>payload :: PolicyEvaluatedEventPayload. ep_toolId payload = Some [CHR ''k'', CHR 0x0A]"
    by (rule exI [of _ "(event_payload ex_sha (ex_request [CHR ''k'', CHR 0x0A] None None) ex_verdict [] [] [] [] Host [] [])"])
       (simp add: event_payload_def ex_request_def)
  ultimately show ?thesis by blast
qed

lemma ex_no_bundles: "policyBodies ex_re (ex_request ''deploy'' None None) [] = [missingPolicyMatch (ex_request ''deploy'' None None)]"
  by (simp add: policyBodies_def collectedBodies_def hostBodies_def ex_request_def Let_def)

theorem decision_hash_binds_witness:
  "\<exists>v w. evaluatePolicy (\<lambda>s. s) ex_re (ex_request ''deploy'' None None) (Some (Many [])) = Inr v \<and>
     evaluatePolicy (\<lambda>s. s) ex_re (ex_request ''deploy'' None None) None = Inr w \<and> pv_status v = pv_status w"
proof -
  let ?r = "ex_request ''deploy'' None None"
  have none: "effectiveBundles ?r None = []"
    by (simp add: effectiveBundles_def normalizePolicyBundles_def ex_request_def)
  obtain v where v: "evaluatePolicy (\<lambda>s. s) ex_re ?r (Some (Many [])) = Inr v"
    using evaluatePolicy_returns [of ?r "Some (Many [])"] by (auto simp: ex_bundles ex_approvals_wf)
  then have w: "evaluatePolicy (\<lambda>s. s) ex_re ?r None = Inr v"
    by (simp only: evaluatePolicy_def none ex_bundles)
  have vf: "verdictForStatus (\<lambda>s. s) Deny ?r [] [with_sequence (missingPolicyMatch ?r) 0] None = Inr v"
    using v by (simp add: evaluatePolicy_number ex_bundles ex_no_bundles number_Cons sortMatches_def
        missingPolicyMatch_def Let_def)
  have "pv_constraints v = []" "pv_obligations v = []"
    unfolding verdictForStatus_Inr(3,4) [OF vf]
    by (simp_all add: missingPolicyMatch_def plain_match_def uniqueByStableJson_def Let_def)
  then have wf: "json_wf no_proto h" if "h \<in> hashed_values (\<lambda>s. s) ?r [] v" for h
    using that by (auto simp: hashed_values_def bundles_json_def arr_json_def decision_input_def
        decisionHashInput_json_def request_json_def action_json_def snapshots_json_def approvalDecision_json_def
        opt_field_def json_field_def ex_request_def list_all_iff)
  have inj: "inj_on (\<lambda>s. s) T" for T :: "string set" by (simp add: inj_on_def)
  have status: "pv_status v = pv_status v"
    by (rule decision_hash_binds [OF v w refl, THEN conjunct2, THEN conjunct2, THEN conjunct1])
       (use wf inj none in \<open>auto simp: ex_bundles\<close>)
  show ?thesis by (intro exI conjI) (fact v, fact w, fact status)
qed

end
