(* ===== verification/Run_Ledger.thy ===== *)
theory Run_Ledger
  imports Canonical_Json
begin

text \<open>
  The event ledger of \<^verbatim>\<open>run-store/src/index.ts\<close>: runtime events, their integrity envelopes
  (\<^verbatim>\<open>computeIntegrity\<close>, \<^verbatim>\<open>hashEventContent\<close>, \<^verbatim>\<open>canonicalizeEventContent\<close>) and the
  verification of a parsed ledger (\<^verbatim>\<open>verifyParsedRunIntegrity\<close>).

  A verdict of the code is a value of \<open>RunIntegrityVerdict\<close> with the same fields, less the
  human-readable detail. SHA-256 is the parameter \<open>sha\<close>.
\<close>

named_theorems ledger_step \<open>one step of the verification loop\<close>

section \<open>Events\<close>

record RuntimeEventIntegrity =
  ei_algo :: string
  ei_hash :: string
  ei_prevHash :: string

record RuntimeEvent =
  ev_id :: string
  ev_runId :: string
  ev_type :: string
  ev_timestamp :: string
  ev_sequence :: nat
  ev_traceId :: string
  ev_contractId :: string
  ev_contractVersion :: string
  ev_schemaHash :: string
  ev_causationId :: "string option"
  ev_correlationId :: "string option"
  ev_payload :: json
  ev_integrity :: "RuntimeEventIntegrity option"

definition EVENT_INTEGRITY_ALGO :: string where
  "EVENT_INTEGRITY_ALGO = ''sha256''"

definition EVENT_INTEGRITY_HASH_PREFIX :: string where
  "EVENT_INTEGRITY_HASH_PREFIX = EVENT_INTEGRITY_ALGO @ '':''"

definition EVENT_INTEGRITY_GENESIS_SEED :: string where
  "EVENT_INTEGRITY_GENESIS_SEED = EVENT_INTEGRITY_HASH_PREFIX @ replicate 64 CHR ''0''"

section \<open>Integrity envelopes\<close>

definition event_content :: "RuntimeEvent \<Rightarrow> json" where
  "event_content event =
     JObj ([(''id'', JStr (ev_id event)), (''runId'', JStr (ev_runId event)), (''type'', JStr (ev_type event)),
            (''timestamp'', JStr (ev_timestamp event)), (''sequence'', JNum (int (ev_sequence event))),
            (''traceId'', JStr (ev_traceId event))] @
           (case ev_causationId event of None \<Rightarrow> [] | Some c \<Rightarrow> [(''causationId'', JStr c)]) @
           (case ev_correlationId event of None \<Rightarrow> [] | Some c \<Rightarrow> [(''correlationId'', JStr c)]) @
           [(''payload'', ev_payload event)])"

definition canonicalizeEventContent :: "RuntimeEvent \<Rightarrow> string" where
  "canonicalizeEventContent event = canonicalJsonStringify (event_content event)"

definition hashEventContent :: "(string \<Rightarrow> string) \<Rightarrow> RuntimeEvent \<Rightarrow> string" where
  "hashEventContent sha event = EVENT_INTEGRITY_HASH_PREFIX @ sha (canonicalizeEventContent event)"

definition computeIntegrity :: "(string \<Rightarrow> string) \<Rightarrow> RuntimeEvent \<Rightarrow> string \<Rightarrow> RuntimeEventIntegrity" where
  "computeIntegrity sha event prevHash =
     \<lparr>ei_algo = EVENT_INTEGRITY_ALGO, ei_hash = hashEventContent sha event, ei_prevHash = prevHash\<rparr>"

section \<open>Verification\<close>

datatype RunIntegrityDefectCode =
    RunNotStarted | IntegrityPartialChain | IntegrityMissing | IntegrityAlgoMismatch
  | IntegrityPrevHashMismatch | IntegrityHashMismatch | MissingEvents | CorruptEvent

datatype RunIntegrityVerdict =
    Verified (event_count: nat) (head_hash: string)
  | Unchained (event_count: nat)
  | Broken (event_count: nat) (brokenAtSequence: nat) (defect: RunIntegrityDefectCode)

text \<open>The loop over the events; \<open>n\<close> is the number of events of the ledger, \<open>prev\<close> the expected hash.\<close>

fun verify_chain :: "(string \<Rightarrow> string) \<Rightarrow> nat \<Rightarrow> string \<Rightarrow> RuntimeEvent list \<Rightarrow> RunIntegrityVerdict" where
  "verify_chain sha n prev [] = Verified n prev"
| "verify_chain sha n prev (event # events) =
     (case ev_integrity event of
        None \<Rightarrow> Broken n (ev_sequence event) IntegrityMissing
      | Some integrity \<Rightarrow>
          if ei_algo integrity \<noteq> EVENT_INTEGRITY_ALGO then Broken n (ev_sequence event) IntegrityAlgoMismatch
          else if ei_prevHash integrity \<noteq> prev then Broken n (ev_sequence event) IntegrityPrevHashMismatch
          else if ei_hash integrity \<noteq> hashEventContent sha event
          then Broken n (ev_sequence event) IntegrityHashMismatch
          else verify_chain sha n (ei_hash integrity) events)"

definition verifyParsedRunIntegrity :: "(string \<Rightarrow> string) \<Rightarrow> RuntimeEvent list \<Rightarrow> RunIntegrityVerdict" where
  "verifyParsedRunIntegrity sha events =
     (if events = [] then Broken 0 0 RunNotStarted
      else
        let firstChainedIndex = length (takeWhile (\<lambda>e. ev_integrity e = None) events) in
        if firstChainedIndex = length events then Unchained (length events)
        else if firstChainedIndex > 0 then Broken (length events) firstChainedIndex IntegrityPartialChain
        else verify_chain sha (length events) EVENT_INTEGRITY_GENESIS_SEED events)"

section \<open>Chains\<close>

text \<open>The abstract contract: every event carries its own content hash and the hash of its predecessor.\<close>

fun chained :: "(string \<Rightarrow> string) \<Rightarrow> string \<Rightarrow> RuntimeEvent list \<Rightarrow> bool" where
  "chained sha prev [] \<longleftrightarrow> True"
| "chained sha prev (event # events) \<longleftrightarrow>
     ev_integrity event = Some (computeIntegrity sha event prev) \<and>
     chained sha (hashEventContent sha event) events"

definition head_of :: "(string \<Rightarrow> string) \<Rightarrow> string \<Rightarrow> RuntimeEvent list \<Rightarrow> string" where
  "head_of sha prev events = (if events = [] then prev else hashEventContent sha (last events))"

lemma integrity_eq_iff:
  "i = computeIntegrity sha event prev \<longleftrightarrow>
     ei_algo i = EVENT_INTEGRITY_ALGO \<and> ei_prevHash i = prev \<and> ei_hash i = hashEventContent sha event"
  by (cases i) (auto simp: computeIntegrity_def)

lemma verify_chain_Verified:
  "verify_chain sha n prev events = Verified m h \<longleftrightarrow> chained sha prev events \<and> m = n \<and> h = head_of sha prev events"
proof (induction events arbitrary: prev)
  case Nil
  then show ?case by (auto simp: head_of_def)
next
  case (Cons event events)
  show ?case
  proof (cases "ev_integrity event")
    case None
    then show ?thesis by simp
  next
    case (Some i)
    have "head_of sha prev (event # events) = head_of sha (hashEventContent sha event) events"
      by (simp add: head_of_def)
    with Some Cons.IH show ?thesis by (auto simp: integrity_eq_iff)
  qed
qed

lemma verify_starts_chained:
  "events \<noteq> [] \<Longrightarrow> ev_integrity (hd events) \<noteq> None \<Longrightarrow>
   verifyParsedRunIntegrity sha events = verify_chain sha (length events) EVENT_INTEGRITY_GENESIS_SEED events"
  by (cases events) (auto simp: verifyParsedRunIntegrity_def Let_def simp del: verify_chain.simps)

lemma verified_iff:
  "verifyParsedRunIntegrity sha events = Verified n h \<longleftrightarrow>
     events \<noteq> [] \<and> chained sha EVENT_INTEGRITY_GENESIS_SEED events \<and>
     n = length events \<and> h = hashEventContent sha (last events)"
proof (cases events)
  case Nil
  then show ?thesis by (simp add: verifyParsedRunIntegrity_def)
next
  case (Cons e es)
  show ?thesis
  proof (cases "ev_integrity e")
    case None
    with Cons show ?thesis by (simp add: verifyParsedRunIntegrity_def Let_def)
  next
    case (Some i)
    with Cons have "verifyParsedRunIntegrity sha events =
        verify_chain sha (length events) EVENT_INTEGRITY_GENESIS_SEED events"
      by (intro verify_starts_chained) simp_all
    with Cons show ?thesis by (auto simp only: verify_chain_Verified head_of_def split: if_splits)
  qed
qed

lemma chained_append:
  "chained sha prev (xs @ ys) \<longleftrightarrow> chained sha prev xs \<and> chained sha (head_of sha prev xs) ys"
  by (induction xs arbitrary: prev) (auto simp: head_of_def)

lemma hash_ignores_integrity [simp]:
  "hashEventContent sha (event\<lparr>ev_integrity := i\<rparr>) = hashEventContent sha event"
  "computeIntegrity sha (event\<lparr>ev_integrity := i\<rparr>) prev = computeIntegrity sha event prev"
  by (simp_all add: hashEventContent_def canonicalizeEventContent_def event_content_def computeIntegrity_def)

lemma chained_prefix_broken:
  assumes "chained sha prev xs" "ys \<noteq> []"
  shows "verify_chain sha n prev (xs @ ys) = verify_chain sha n (head_of sha prev xs) ys"
  using assms
proof (induction xs arbitrary: prev)
  case (Cons x xs)
  have "head_of sha prev (x # xs) = head_of sha (hashEventContent sha x) xs" by (simp add: head_of_def)
  with Cons show ?case by (simp add: computeIntegrity_def)
qed (simp add: head_of_def)

section \<open>Properties\<close>

text \<open>
  Appending to a verified ledger an event with the integrity envelope for the head hash gives a
  verified ledger, whose head is the hash of the new event.
\<close>

theorem append_keeps_ledger_verified:
  assumes "verifyParsedRunIntegrity sha events = Verified n h"
  shows "verifyParsedRunIntegrity sha (events @ [event\<lparr>ev_integrity := Some (computeIntegrity sha event h)\<rparr>]) =
    Verified (Suc n) (hashEventContent sha event)"
  using assms by (simp add: verified_iff chained_append head_of_def)


text \<open>
  Removing an event from inside a verified ledger is reported as a broken chain at its successor,
  unless the two neighbours' hashes collide.
\<close>

theorem removal_is_detected:
  assumes "verifyParsedRunIntegrity sha (xs @ event # next # ys) = Verified n h"
    and "hashEventContent sha event \<noteq> head_of sha EVENT_INTEGRITY_GENESIS_SEED xs"
  shows "verifyParsedRunIntegrity sha (xs @ next # ys) =
    Broken (n - 1) (ev_sequence next) IntegrityPrevHashMismatch"
proof -
  let ?g = EVENT_INTEGRITY_GENESIS_SEED
  have c: "chained sha ?g xs" "ev_integrity next = Some (computeIntegrity sha next (hashEventContent sha event))"
    and n: "n - 1 = length (xs @ next # ys)"
    using assms(1) by (auto simp: verified_iff chained_append)
  have "verify_chain sha (n - 1) ?g (xs @ next # ys) = Broken (n - 1) (ev_sequence next) IntegrityPrevHashMismatch"
    using c assms(2) by (simp add: chained_prefix_broken computeIntegrity_def)
  moreover have "ev_integrity (hd (xs @ next # ys)) \<noteq> None"
    using c by (cases xs) auto
  ultimately show ?thesis
    using n verify_starts_chained [of "xs @ next # ys" sha] by simp
qed

text \<open>
  the hash of an event covers its content but not its predecessor's hash, so the hashes do not
  accumulate: replace any event but the last by another one with a matching envelope, write its hash
  into the successor's \<^verbatim>\<open>prevHash\<close>, and the ledger verifies with the same count and the same
  head hash.
\<close>

theorem rewritten_history_keeps_head:
  assumes "verifyParsedRunIntegrity sha (xs @ event # next # ys) = Verified n h"
  defines "prev \<equiv> head_of sha EVENT_INTEGRITY_GENESIS_SEED xs"
  shows "verifyParsedRunIntegrity sha
     (xs @ forged\<lparr>ev_integrity := Some (computeIntegrity sha forged prev)\<rparr>
         # next\<lparr>ev_integrity := Some (computeIntegrity sha next (hashEventContent sha forged))\<rparr> # ys) =
    Verified n h"
  using assms by (auto simp: verified_iff chained_append)

section \<open>Instances\<close>

definition ex_event :: "nat \<Rightarrow> string \<Rightarrow> RuntimeEvent" where
  "ex_event n text =
     \<lparr>ev_id = ''e'', ev_runId = ''run'', ev_type = ''run.started'', ev_timestamp = ''t'', ev_sequence = n,
      ev_traceId = ''tr'', ev_contractId = ''c'', ev_contractVersion = ''1'', ev_schemaHash = ''h'',
      ev_causationId = None, ev_correlationId = None, ev_payload = JStr text, ev_integrity = None\<rparr>"

definition ex_chained :: "nat \<Rightarrow> string \<Rightarrow> string \<Rightarrow> RuntimeEvent" where
  "ex_chained n text prev =
     (ex_event n text)\<lparr>ev_integrity := Some (computeIntegrity (\<lambda>s. s) (ex_event n text) prev)\<rparr>"

abbreviation ex_hash :: "nat \<Rightarrow> string \<Rightarrow> string" where
  "ex_hash n text \<equiv> hashEventContent (\<lambda>s. s) (ex_event n text)"

lemma ex_ledger_verified:
  "verifyParsedRunIntegrity (\<lambda>s. s)
     ([ex_chained 0 ''a'' EVENT_INTEGRITY_GENESIS_SEED] @ ex_chained 1 ''b'' (ex_hash 0 ''a'') #
      ex_chained 2 ''c'' (ex_hash 1 ''b'') # []) = Verified 3 (ex_hash 2 ''c'')"
  by (simp add: verified_iff ex_chained_def)

lemma ex_hash_text: "ex_hash n s = ex_hash m t \<longleftrightarrow> n = m \<and> s = t"
proof -
  have "json_wf any_key (event_content (ex_event k u))" for k u
    by (simp add: event_content_def ex_event_def)
  then have "ex_hash n s = ex_hash m t \<longleftrightarrow> json_sem (event_content (ex_event n s)) = json_sem (event_content (ex_event m t))"
    using ledger_canon.canon_text_iff by (simp add: hashEventContent_def canonicalizeEventContent_def canonicalJsonStringify_def)
  also have "\<dots> \<longleftrightarrow> n = m \<and> s = t"
  proof
    assume eq: "json_sem (event_content (ex_event n s)) = json_sem (event_content (ex_event m t))"
    have "(case json_sem (event_content (ex_event k u)) of VObj f \<Rightarrow> f | _ \<Rightarrow> Map.empty) ''payload'' = Some (VStr u)"
      "(case json_sem (event_content (ex_event k u)) of VObj f \<Rightarrow> f | _ \<Rightarrow> Map.empty) ''sequence'' = Some (VNum (int k))"
      for k u by (simp_all add: event_content_def ex_event_def)
    from this [of n s] this [of m t] eq show "n = m \<and> s = t" by simp
  qed simp
  finally show ?thesis .
qed

theorem append_keeps_ledger_verified_witness:
  "verifyParsedRunIntegrity (\<lambda>s. s) ([ex_chained 0 ''a'' EVENT_INTEGRITY_GENESIS_SEED] @
     [ex_chained 1 ''b'' (ex_hash 0 ''a'')]) = Verified 2 (ex_hash 1 ''b'')"
  using append_keeps_ledger_verified [of "\<lambda>s. s" "[ex_chained 0 ''a'' EVENT_INTEGRITY_GENESIS_SEED]" 1
      "ex_hash 0 ''a''" "ex_event 1 ''b''"]
  by (simp add: verified_iff ex_chained_def)


theorem removal_is_detected_witness:
  "verifyParsedRunIntegrity (\<lambda>s. s)
     ([ex_chained 0 ''a'' EVENT_INTEGRITY_GENESIS_SEED] @ ex_chained 2 ''c'' (ex_hash 1 ''b'') # []) =
   Broken 2 2 IntegrityPrevHashMismatch"
proof -
  have "hashEventContent (\<lambda>s. s) (ex_chained 1 ''b'' (ex_hash 0 ''a'')) \<noteq>
      head_of (\<lambda>s. s) EVENT_INTEGRITY_GENESIS_SEED [ex_chained 0 ''a'' EVENT_INTEGRITY_GENESIS_SEED]"
    by (simp add: head_of_def ex_chained_def ex_hash_text)
  from removal_is_detected [OF ex_ledger_verified this] show ?thesis
    by (simp add: ex_chained_def ex_event_def)
qed

theorem rewritten_history_keeps_head_witness:
  "verifyParsedRunIntegrity (\<lambda>s. s)
     ([ex_chained 0 ''a'' EVENT_INTEGRITY_GENESIS_SEED] @ ex_chained 1 ''forged'' (ex_hash 0 ''a'') #
      ex_chained 2 ''c'' (ex_hash 1 ''forged'') # []) = Verified 3 (ex_hash 2 ''c'')"
  using rewritten_history_keeps_head [OF ex_ledger_verified, of "ex_event 1 ''forged''"]
  by (simp add: ex_chained_def head_of_def)

end
