(* ===== verification/Run_Projection.thy ===== *)
theory Run_Projection
  imports Run_Schemas Run_Ledger
begin

text \<open>
  The projection of a ledger to a run state in \<^verbatim>\<open>run-store/src/index.ts\<close>: \<^verbatim>\<open>reduceEvent\<close> with its
  helpers, \<^verbatim>\<open>projectRunState\<close>, and the checkpoints (\<^verbatim>\<open>refreshCheckpointAfterAppend\<close>,
  \<^verbatim>\<open>checkpointMatchesLedger\<close>, \<^verbatim>\<open>rebuildFromTrustedCheckpoint\<close>) that replace the projection of a
  prefix.

  The state object the code mutates is a record passed through. Pending items and artifacts are the
  JSON values their schemas accept; their keys are read with \<^const>\<open>js_get\<close>.
\<close>

section \<open>State\<close>

datatype RunStatus = Running | Paused | Blocked | Completed | Failed

record HarnessSnapshot =
  hs_id :: string
  hs_version :: string
  hs_specHash :: string

record RunState =
  rs_runId :: string
  rs_status :: RunStatus
  rs_phase :: string
  rs_harness :: HarnessSnapshot
  rs_budgets :: json
  rs_pendingApprovals :: "json list"
  rs_pendingQuestions :: "json list"
  rs_pendingRepairTasks :: "json list"
  rs_artifacts :: "json list"
  rs_lastEventId :: string

datatype RunStoreErrorCode =
    InvalidEvent | InvalidEventPayload | InvalidProjection | InvalidRunId | InvalidSequence
  | IntegrityBroken | MissingEventLog | RunExists | RunSealed | RunNotStartedError
  | UnknownEventContract | RunInputZodError

definition RunStateSchema_ok :: "(string \<Rightarrow> bool) \<Rightarrow> RunState \<Rightarrow> bool" where
  "RunStateSchema_ok dt s \<longleftrightarrow>
     rs_runId s \<noteq> [] \<and> rs_phase s \<noteq> [] \<and>
     hs_id (rs_harness s) \<noteq> [] \<and> hs_version (rs_harness s) \<noteq> [] \<and> hs_specHash (rs_harness s) \<noteq> [] \<and>
     MetadataSchema (rs_budgets s) \<and> list_all ApprovalRequestSchema (rs_pendingApprovals s) \<and>
     list_all HumanQuestionSchema (rs_pendingQuestions s) \<and>
     list_all (RepairTaskSchema dt) (rs_pendingRepairTasks s) \<and>
     list_all ArtifactRefSchema (rs_artifacts s) \<and> rs_lastEventId s \<noteq> []"

section \<open>Reading payloads\<close>

definition nonEmpty :: "json \<Rightarrow> RunStoreErrorCode + string option" where
  "nonEmpty value =
     (case value of
        JUndefined \<Rightarrow> Inr None
      | JStr s \<Rightarrow> if s = [] then Inl InvalidEvent else Inr (Some s)
      | _ \<Rightarrow> Inl InvalidEvent)"

definition getPayloadCandidates :: "json \<Rightarrow> string list \<Rightarrow> json list" where
  "getPayloadCandidates payload nestedKeys =
     payload # (if is_record payload then map (js_get payload) nestedKeys else [])"

fun getPayloadString_from :: "json \<Rightarrow> string list \<Rightarrow> string option" where
  "getPayloadString_from payload [] = None"
| "getPayloadString_from payload (key # keys) =
     (case js_get payload key of
        JStr s \<Rightarrow> if s \<noteq> [] then Some s else getPayloadString_from payload keys
      | _ \<Rightarrow> getPayloadString_from payload keys)"

definition getPayloadString :: "json \<Rightarrow> string list \<Rightarrow> string option" where
  "getPayloadString payload keys = (if is_record payload then getPayloadString_from payload keys else None)"

definition parseNestedArtifact :: "json \<Rightarrow> json option" where
  "parseNestedArtifact payload =
     find ArtifactRefSchema (getPayloadCandidates payload [''artifact'', ''artifactRef'', ''ref''])"

definition parseNestedQuestion :: "json \<Rightarrow> json option" where
  "parseNestedQuestion payload =
     find HumanQuestionSchema (getPayloadCandidates payload [''question'', ''humanQuestion''])"

definition parseNestedApprovalRequest :: "json \<Rightarrow> json option" where
  "parseNestedApprovalRequest payload =
     find ApprovalRequestSchema (getPayloadCandidates payload [''approval'', ''approvalRequest''])"

definition parseNestedRepairTask :: "(string \<Rightarrow> bool) \<Rightarrow> json \<Rightarrow> json option" where
  "parseNestedRepairTask dt payload =
     find (RepairTaskSchema dt) (getPayloadCandidates payload [''repairTask''])"

text \<open>\<^verbatim>\<open>value ?? ""\<close> after \<^verbatim>\<open>nonEmpty\<close>; the schema then refuses the empty text.\<close>

definition assertHarnessSnapshot :: "json \<Rightarrow> RunStoreErrorCode + HarnessSnapshot" where
  "assertHarnessSnapshot value =
     (if \<not> is_record value then Inl InvalidEvent
      else
        bindE (nonEmpty (js_get value ''id'')) (\<lambda>i.
        bindE (nonEmpty (js_get value ''version'')) (\<lambda>v.
        bindE (nonEmpty (js_get value ''specHash'')) (\<lambda>h.
          (case (i, v, h) of
             (Some i', Some v', Some h') \<Rightarrow> Inr \<lparr>hs_id = i', hs_version = v', hs_specHash = h'\<rparr>
           | _ \<Rightarrow> Inl InvalidEvent)))))"

definition parseHarnessLoadedPayload :: "json \<Rightarrow> RunStoreErrorCode + HarnessSnapshot" where
  "parseHarnessLoadedPayload payload =
     (if \<not> is_record payload then Inl InvalidEvent else assertHarnessSnapshot (js_get payload ''harness''))"

record RunStartedPayload =
  sp_input :: json
  sp_harness :: HarnessSnapshot
  sp_initialPhase :: string
  sp_budgets :: json

definition parseRunStartedPayload :: "json \<Rightarrow> RunStoreErrorCode + RunStartedPayload" where
  "parseRunStartedPayload payload =
     (if \<not> is_record payload then Inl InvalidEvent
      else if \<not> RunInputSchema (js_get payload ''input'') then Inl RunInputZodError
      else
        bindE (assertHarnessSnapshot (js_get payload ''harness'')) (\<lambda>harness.
        bindE (nonEmpty (js_get payload ''initialPhase'')) (\<lambda>phase.
          Inr \<lparr>sp_input = js_get payload ''input'', sp_harness = harness,
               sp_initialPhase = (case phase of None \<Rightarrow> ''created'' | Some p \<Rightarrow> p),
               sp_budgets = (if is_record (js_get payload ''budgets'') then js_get payload ''budgets'' else JObj [])\<rparr>)))"

section \<open>The reducer\<close>

definition upsertByKey :: "json list \<Rightarrow> json \<Rightarrow> string \<Rightarrow> json list" where
  "upsertByKey items item key = upsert_by (\<lambda>v. js_get v key) item items"

definition repairTaskKey :: "json \<Rightarrow> json" where
  "repairTaskKey task = (if js_get task ''id'' \<noteq> JUndefined then js_get task ''id'' else js_get task ''repairId'')"

definition upsertRepairTask :: "json list \<Rightarrow> json \<Rightarrow> json list" where
  "upsertRepairTask tasks task =
     (let key = repairTaskKey task in
      (if key = JUndefined then tasks else filter (\<lambda>current. repairTaskKey current \<noteq> key) tasks) @ [task])"

definition restoreRunningIfUnblocked :: "RunState \<Rightarrow> RunState" where
  "restoreRunningIfUnblocked state =
     (if rs_status state = Blocked \<and> rs_pendingApprovals state = [] \<and> rs_pendingQuestions state = [] \<and>
         rs_pendingRepairTasks state = []
      then state\<lparr>rs_status := Running\<rparr> else state)"

definition upsert_approval :: "json \<Rightarrow> RunState \<Rightarrow> RunState" where
  "upsert_approval payload state =
     (case parseNestedApprovalRequest payload of
        None \<Rightarrow> state
      | Some a \<Rightarrow> state\<lparr>rs_pendingApprovals := upsertByKey (rs_pendingApprovals state) a ''approvalId''\<rparr>)"

definition reduceEvent :: "(string \<Rightarrow> bool) \<Rightarrow> RunState \<Rightarrow> RuntimeEvent \<Rightarrow> RunStoreErrorCode + RunState" where
  "reduceEvent dt state event =
     (let type = ev_type event; payload = ev_payload event in
      if type = ''run.started'' then Inr state
      else if type = ''harness.loaded'' then
        bindE (parseHarnessLoadedPayload payload) (\<lambda>h. Inr (state\<lparr>rs_harness := h\<rparr>))
      else if type = ''phase.entered'' \<or> type = ''phase.transitioned'' then
        Inr (case getPayloadString payload [''phase'', ''toPhase'', ''to''] of
               None \<Rightarrow> state | Some p \<Rightarrow> state\<lparr>rs_phase := p\<rparr>)
      else if type = ''artifact.recorded'' then
        Inr (case parseNestedArtifact payload of
               None \<Rightarrow> state
             | Some a \<Rightarrow> state\<lparr>rs_artifacts := upsertByKey (rs_artifacts state) a ''artifactId''\<rparr>)
      else if type = ''human.input_requested'' then
        Inr ((case parseNestedQuestion payload of
                None \<Rightarrow> state
              | Some q \<Rightarrow> state\<lparr>rs_pendingQuestions := upsertByKey (rs_pendingQuestions state) q ''questionId''\<rparr>)
             \<lparr>rs_status := Blocked\<rparr>)
      else if type = ''human.answer_recorded'' then
        Inr (restoreRunningIfUnblocked
          (case getPayloadString payload [''questionId'', ''humanQuestionId''] of
             None \<Rightarrow> state
           | Some i \<Rightarrow> state\<lparr>rs_pendingQuestions :=
               filter (\<lambda>q. js_get q ''questionId'' \<noteq> JStr i) (rs_pendingQuestions state)\<rparr>))
      else if type = ''approval.requested'' then
        Inr ((upsert_approval payload state)\<lparr>rs_status := Blocked\<rparr>)
      else if type = ''policy.evaluated'' then Inr (upsert_approval payload state)
      else if type = ''tool.authorized'' \<or> type = ''tool.denied'' \<or> type = ''decision.recorded'' then
        Inr (restoreRunningIfUnblocked
          (case getPayloadString payload [''approvalId''] of
             None \<Rightarrow> state
           | Some i \<Rightarrow> state\<lparr>rs_pendingApprovals :=
               filter (\<lambda>a. js_get a ''approvalId'' \<noteq> JStr i) (rs_pendingApprovals state)\<rparr>))
      else if type = ''repair.task_created'' then
        Inr ((case parseNestedRepairTask dt payload of
                None \<Rightarrow> state
              | Some t \<Rightarrow> state\<lparr>rs_pendingRepairTasks := upsertRepairTask (rs_pendingRepairTasks state) t\<rparr>)
             \<lparr>rs_status := Blocked\<rparr>)
      else if type = ''run.blocked'' then Inr (state\<lparr>rs_status := Blocked\<rparr>)
      else if type = ''run.completed'' then Inr (state\<lparr>rs_status := Completed\<rparr>)
      else if type = ''run.failed'' then Inr (state\<lparr>rs_status := Failed\<rparr>)
      else Inr state)"

type_synonym reducer = "RunState \<Rightarrow> RuntimeEvent \<Rightarrow> RunStoreErrorCode + RunState"

definition recordValue :: "json \<Rightarrow> json" where
  "recordValue v = (if is_record v then v else JObj [])"

definition reduceToolCompletedArtifacts :: "(string \<Rightarrow> bool) \<Rightarrow> reducer" where
  "reduceToolCompletedArtifacts dt state event =
     bindE (reduceEvent dt state event) (\<lambda>state.
       if ev_type event \<noteq> ''tool.completed'' \<or> \<not> is_record (ev_payload event) then Inr state
       else
         let result = recordValue (js_get (ev_payload event) ''result'');
             output = recordValue (js_get result ''output'') in
         Inr (case parseNestedArtifact output of
                None \<Rightarrow> state
              | Some a \<Rightarrow> state\<lparr>rs_artifacts := upsertByKey (rs_artifacts state) a ''artifactId''\<rparr>))"

section \<open>Projection\<close>

text \<open>\<^verbatim>\<open>validateEventSequence\<close>: the event at index \<open>i\<close> has sequence number \<open>i\<close>.\<close>

definition validateEventSequence :: "RuntimeEvent list \<Rightarrow> bool" where
  "validateEventSequence events \<longleftrightarrow> map ev_sequence events = [0..<length events]"

text \<open>The loop: the run id check, the reducer, and the id of the last event.\<close>

fun reduce_all :: "reducer \<Rightarrow> string \<Rightarrow> RunState \<Rightarrow> RuntimeEvent list \<Rightarrow> RunStoreErrorCode + RunState" where
  "reduce_all reduce runId state [] = Inr state"
| "reduce_all reduce runId state (event # events) =
     (if ev_runId event \<noteq> runId then Inl InvalidEvent
      else bindE (reduce state event) (\<lambda>s. reduce_all reduce runId (s\<lparr>rs_lastEventId := ev_id event\<rparr>) events))"

definition initial_state :: "RuntimeEvent \<Rightarrow> RunStartedPayload \<Rightarrow> RunState" where
  "initial_state started p =
     \<lparr>rs_runId = ev_runId started, rs_status = Running, rs_phase = sp_initialPhase p,
      rs_harness = sp_harness p, rs_budgets = sp_budgets p, rs_pendingApprovals = [],
      rs_pendingQuestions = [], rs_pendingRepairTasks = [], rs_artifacts = [],
      rs_lastEventId = ev_id started\<rparr>"

definition projectRunStateWithReducer ::
  "(string \<Rightarrow> bool) \<Rightarrow> RuntimeEvent list \<Rightarrow> reducer \<Rightarrow> RunStoreErrorCode + RunState" where
  "projectRunStateWithReducer dt events reduce =
     (case events of
        [] \<Rightarrow> Inl RunNotStartedError
      | started # _ \<Rightarrow>
          if \<not> validateEventSequence events then Inl InvalidSequence
          else if ev_type started \<noteq> ''run.started'' then Inl RunNotStartedError
          else
            bindE (parseRunStartedPayload (ev_payload started)) (\<lambda>p.
            bindE (reduce_all reduce (ev_runId started) (initial_state started p) events) (\<lambda>state.
              if RunStateSchema_ok dt state then Inr state else Inl InvalidProjection)))"

definition projectRunState :: "(string \<Rightarrow> bool) \<Rightarrow> RuntimeEvent list \<Rightarrow> RunStoreErrorCode + RunState" where
  "projectRunState dt events = projectRunStateWithReducer dt events (reduceEvent dt)"

section \<open>Checkpoints\<close>

record RunStateCheckpoint =
  cp_runId :: string
  cp_coveredSequence :: nat
  cp_coveredLastEventId :: string
  cp_state :: RunState
  cp_coveredHeadHash :: "string option"

definition CHECKPOINT_INTERVAL :: nat where
  "CHECKPOINT_INTERVAL = 128"

text \<open>\<^verbatim>\<open>cloneRunState\<close>: the state through JSON text and back.\<close>

definition cloneRunState :: "RunState \<Rightarrow> RunState" where
  "cloneRunState s = s
     \<lparr>rs_budgets := normalizeJsonValue (rs_budgets s),
      rs_pendingApprovals := map normalizeJsonValue (rs_pendingApprovals s),
      rs_pendingQuestions := map normalizeJsonValue (rs_pendingQuestions s),
      rs_pendingRepairTasks := map normalizeJsonValue (rs_pendingRepairTasks s),
      rs_artifacts := map normalizeJsonValue (rs_artifacts s)\<rparr>"

text \<open>
  \<^verbatim>\<open>parseCheckpointRecord\<close> on a record of the right version, which \<^verbatim>\<open>readCheckpoint\<close> and
  \<^verbatim>\<open>writeCheckpoint\<close> apply; a file that is missing or is no checkpoint record is \<open>None\<close>.
\<close>

definition parseCheckpointRecord :: "(string \<Rightarrow> bool) \<Rightarrow> RunStateCheckpoint \<Rightarrow> RunStateCheckpoint option" where
  "parseCheckpointRecord dt c =
     (if cp_runId c = [] then None
      else if cp_coveredLastEventId c = [] then None
      else if cp_coveredHeadHash c = Some [] then None
      else if \<not> RunStateSchema_ok dt (cp_state c) \<or> rs_runId (cp_state c) \<noteq> cp_runId c \<or>
              rs_lastEventId (cp_state c) \<noteq> cp_coveredLastEventId c then None
      else Some c)"

definition readCheckpoint :: "(string \<Rightarrow> bool) \<Rightarrow> RunStateCheckpoint option \<Rightarrow> RunStateCheckpoint option" where
  "readCheckpoint dt file = Option.bind file (parseCheckpointRecord dt)"

text \<open>The file after \<^verbatim>\<open>writeCheckpoint\<close>; when it throws the caller goes on with the old file.\<close>

definition writeCheckpoint :: "(string \<Rightarrow> bool) \<Rightarrow> RunStateCheckpoint \<Rightarrow> RunStateCheckpoint option \<Rightarrow> RunStateCheckpoint option" where
  "writeCheckpoint dt c old = (case parseCheckpointRecord dt c of None \<Rightarrow> old | Some r \<Rightarrow> Some r)"

definition checkpointMatchesLedger ::
  "string \<Rightarrow> RuntimeEvent list \<Rightarrow> RunIntegrityVerdict \<Rightarrow> RunStateCheckpoint \<Rightarrow> bool" where
  "checkpointMatchesLedger runId events integrity checkpoint =
     (if cp_runId checkpoint \<noteq> runId \<or> rs_runId (cp_state checkpoint) \<noteq> runId then False
      else if cp_coveredSequence checkpoint \<ge> length events then False
      else
        let coveredEvent = events ! cp_coveredSequence checkpoint in
        if ev_id coveredEvent \<noteq> cp_coveredLastEventId checkpoint then False
        else (case integrity of
            Verified n h \<Rightarrow>
              (case ev_integrity coveredEvent of None \<Rightarrow> False
               | Some i \<Rightarrow> cp_coveredHeadHash checkpoint = Some (ei_hash i))
          | _ \<Rightarrow> cp_coveredHeadHash checkpoint = None))"

record RebuildFromCheckpointResult =
  rb_state :: RunState
  rb_usedCheckpoint :: bool
  rb_reducedEventCount :: nat

text \<open>
  \<open>Inr None\<close> is the \<^verbatim>\<open>undefined\<close> that makes the caller project the whole ledger. An event of
  another run in the tail ends the attempt the same way; an error of the reducer is thrown.
\<close>

definition rebuildFromTrustedCheckpoint ::
  "(string \<Rightarrow> bool) \<Rightarrow> string \<Rightarrow> RuntimeEvent list \<Rightarrow> RunIntegrityVerdict \<Rightarrow> RunStateCheckpoint option \<Rightarrow>
   RunStoreErrorCode + RebuildFromCheckpointResult option" where
  "rebuildFromTrustedCheckpoint dt runId events integrity checkpoint =
     (case checkpoint of
        None \<Rightarrow> Inr None
      | Some c \<Rightarrow>
          if \<not> checkpointMatchesLedger runId events integrity c then Inr None
          else
            let state = cloneRunState (cp_state c);
                tail = drop (Suc (cp_coveredSequence c)) events;
                own = takeWhile (\<lambda>e. ev_runId e = runId) tail in
            bindE (reduce_all (reduceEvent dt) runId state own) (\<lambda>s.
              if own \<noteq> tail then Inr None
              else if \<not> RunStateSchema_ok dt s then Inr None
              else Inr (Some \<lparr>rb_state = s, rb_usedCheckpoint = True, rb_reducedEventCount = length tail\<rparr>)))"

definition rebuildStateFromCheckpoint ::
  "(string \<Rightarrow> bool) \<Rightarrow> string \<Rightarrow> RuntimeEvent list \<Rightarrow> RunIntegrityVerdict \<Rightarrow> RunStateCheckpoint option \<Rightarrow>
   RunStoreErrorCode + RebuildFromCheckpointResult" where
  "rebuildStateFromCheckpoint dt runId events integrity file =
     (case integrity of
        Broken n i c \<Rightarrow> Inl IntegrityBroken
      | _ \<Rightarrow>
          bindE (rebuildFromTrustedCheckpoint dt runId events integrity (readCheckpoint dt file)) (\<lambda>r.
            (case r of
               Some res \<Rightarrow> Inr res
             | None \<Rightarrow>
                 bindE (projectRunState dt events) (\<lambda>s.
                   Inr \<lparr>rb_state = s, rb_usedCheckpoint = False, rb_reducedEventCount = length events\<rparr>))))"

datatype ReducerId = CurrentReducer | BaselineReducer | ToolArtifactAdditiveReducer

fun compatibilityReducerById :: "(string \<Rightarrow> bool) \<Rightarrow> ReducerId \<Rightarrow> reducer" where
  "compatibilityReducerById dt CurrentReducer = reduceEvent dt"
| "compatibilityReducerById dt BaselineReducer = reduceEvent dt"
| "compatibilityReducerById dt ToolArtifactAdditiveReducer = reduceToolCompletedArtifacts dt"

definition rebuildStateForPackage ::
  "(string \<Rightarrow> bool) \<Rightarrow> ReducerId \<Rightarrow> string \<Rightarrow> RuntimeEvent list \<Rightarrow> RunIntegrityVerdict \<Rightarrow>
   RunStateCheckpoint option \<Rightarrow> RunStoreErrorCode + RebuildFromCheckpointResult" where
  "rebuildStateForPackage dt reducerId runId events integrity checkpoint =
     (if reducerId \<noteq> CurrentReducer then
        bindE (projectRunStateWithReducer dt events (compatibilityReducerById dt reducerId)) (\<lambda>s.
          Inr \<lparr>rb_state = s, rb_usedCheckpoint = False, rb_reducedEventCount = length events\<rparr>)
      else rebuildStateFromCheckpoint dt runId events integrity checkpoint)"

text \<open>The checkpoint that a write leaves: a new one at every interval, otherwise the old one.\<close>

definition refreshCheckpointAfterAppend ::
  "(string \<Rightarrow> bool) \<Rightarrow> RuntimeEvent list \<Rightarrow> RunIntegrityVerdict \<Rightarrow> RunState \<Rightarrow> RunStateCheckpoint option \<Rightarrow>
   RunStateCheckpoint option" where
  "refreshCheckpointAfterAppend dt events integrity state old =
     (if events = [] then old
      else
        let coveredSequence = length events - 1; covered = last events in
        if coveredSequence mod CHECKPOINT_INTERVAL \<noteq> 0 then old
        else (case integrity of
            Broken n i c \<Rightarrow> old
          | Verified n h \<Rightarrow>
              writeCheckpoint dt \<lparr>cp_runId = ev_runId covered, cp_coveredSequence = coveredSequence,
                cp_coveredLastEventId = ev_id covered, cp_state = state, cp_coveredHeadHash = Some h\<rparr> old
          | Unchained n \<Rightarrow>
              writeCheckpoint dt \<lparr>cp_runId = ev_runId covered, cp_coveredSequence = coveredSequence,
                cp_coveredLastEventId = ev_id covered, cp_state = state, cp_coveredHeadHash = None\<rparr> old))"

end
