(* ===== verification/Run_Transitions.thy ===== *)
theory Run_Transitions
  imports Run_Projection
begin

text \<open>
  The run state machine behind the reducers. \<open>transition\<close> is the abstract step relation: which changes
  of a run state an event may cause. Both reducers refine it, invariants of the relation are
  proved by its cases, and a \<open>state_invariant\<close> carries an invariant through the projection of a whole
  ledger.
\<close>

section \<open>The abstract step relation\<close>

inductive part_of :: "json \<Rightarrow> json \<Rightarrow> bool" where
  whole: "part_of p p"
| field: "part_of v p \<Longrightarrow> part_of (js_get v k) p"
| fresh: "part_of (JObj []) p"

inductive transition :: "(string \<Rightarrow> bool) \<Rightarrow> json \<Rightarrow> RunState \<Rightarrow> RunState \<Rightarrow> bool" for dt p where
  stutter: "transition dt p s s"
| harness: "hs_id h \<noteq> [] \<Longrightarrow> hs_version h \<noteq> [] \<Longrightarrow> hs_specHash h \<noteq> [] \<Longrightarrow> transition dt p s (s\<lparr>rs_harness := h\<rparr>)"
| phase: "ph \<noteq> [] \<Longrightarrow> transition dt p s (s\<lparr>rs_phase := ph\<rparr>)"
| artifact: "ArtifactRefSchema a \<Longrightarrow> part_of a p \<Longrightarrow>
    transition dt p s (s\<lparr>rs_artifacts := upsertByKey (rs_artifacts s) a ''artifactId''\<rparr>)"
| ask: "HumanQuestionSchema q \<Longrightarrow> part_of q p \<Longrightarrow>
    transition dt p s (s\<lparr>rs_pendingQuestions := upsertByKey (rs_pendingQuestions s) q ''questionId'',
      rs_status := Blocked\<rparr>)"
| answer: "transition dt p s
    (restoreRunningIfUnblocked (s\<lparr>rs_pendingQuestions := filter keep (rs_pendingQuestions s)\<rparr>))"
| request: "ApprovalRequestSchema a \<Longrightarrow> part_of a p \<Longrightarrow> st = rs_status s \<or> st = Blocked \<Longrightarrow>
    transition dt p s (s\<lparr>rs_pendingApprovals := upsertByKey (rs_pendingApprovals s) a ''approvalId'',
      rs_status := st\<rparr>)"
| decide: "transition dt p s
    (restoreRunningIfUnblocked (s\<lparr>rs_pendingApprovals := filter keep (rs_pendingApprovals s)\<rparr>))"
| repair: "RepairTaskSchema dt t \<Longrightarrow> part_of t p \<Longrightarrow>
    transition dt p s (s\<lparr>rs_pendingRepairTasks := upsertRepairTask (rs_pendingRepairTasks s) t,
      rs_status := Blocked\<rparr>)"
| finish: "st \<noteq> Running \<Longrightarrow> transition dt p s (s\<lparr>rs_status := st\<rparr>)"

inductive_cases transition_cases: "transition dt p s s'"

lemma candidates_part_of: "v \<in> set (getPayloadCandidates q keys) \<Longrightarrow> part_of q p \<Longrightarrow> part_of v p"
  by (auto simp: getPayloadCandidates_def intro: field split: if_splits)

lemma nested_artifact_of: "parseNestedArtifact q = Some a \<Longrightarrow> part_of q p \<Longrightarrow> ArtifactRefSchema a \<and> part_of a p"
  unfolding parseNestedArtifact_def by (blast dest: find_Some_iff_in candidates_part_of intro: whole)

lemmas nested_artifact = nested_artifact_of [OF _ whole]

lemma nested_question: "parseNestedQuestion p = Some q \<Longrightarrow> HumanQuestionSchema q \<and> part_of q p"
  unfolding parseNestedQuestion_def by (blast dest: find_Some_iff_in candidates_part_of intro: whole)

lemma nested_approval: "parseNestedApprovalRequest p = Some a \<Longrightarrow> ApprovalRequestSchema a \<and> part_of a p"
  unfolding parseNestedApprovalRequest_def by (blast dest: find_Some_iff_in candidates_part_of intro: whole)

lemma nested_repair: "parseNestedRepairTask dt p = Some t \<Longrightarrow> RepairTaskSchema dt t \<and> part_of t p"
  unfolding parseNestedRepairTask_def by (blast dest: find_Some_iff_in candidates_part_of intro: whole)

lemma getPayloadString_nonempty: "getPayloadString p keys = Some s \<Longrightarrow> s \<noteq> []"
proof -
  have "getPayloadString_from p keys = Some s \<Longrightarrow> s \<noteq> []"
    by (induction p keys rule: getPayloadString_from.induct) (auto split: json.splits if_splits)
  then show "getPayloadString p keys = Some s \<Longrightarrow> s \<noteq> []"
    by (simp add: getPayloadString_def split: if_splits)
qed

lemma nonEmpty_Some: "nonEmpty v = Inr (Some s) \<Longrightarrow> s \<noteq> []"
  by (auto simp: nonEmpty_def split: json.splits if_splits)

lemma assertHarnessSnapshot_nonempty:
  assumes "assertHarnessSnapshot v = Inr h"
  shows "hs_id h \<noteq> [] \<and> hs_version h \<noteq> [] \<and> hs_specHash h \<noteq> []"
proof -
  obtain i x y where "nonEmpty (js_get v ''id'') = Inr i" "nonEmpty (js_get v ''version'') = Inr x"
    "nonEmpty (js_get v ''specHash'') = Inr y"
    and "(case (i, x, y) of (Some i', Some v', Some h') \<Rightarrow> Inr \<lparr>hs_id = i', hs_version = v', hs_specHash = h'\<rparr>
      | _ \<Rightarrow> Inl InvalidEvent) = Inr h"
    using assms by (auto simp: assertHarnessSnapshot_def bindE_Inr_iff split: if_splits)
  then show ?thesis by (cases i; cases x; cases y) (auto dest: nonEmpty_Some)
qed

lemma same_status: "s\<lparr>rs_status := rs_status s\<rparr> = (s :: RunState)"
  by simp

lemma answer_all: "transition dt p s (restoreRunningIfUnblocked s)"
  using answer [of dt p s "\<lambda>_. True"] by simp

lemma block: "transition dt p s (s\<lparr>rs_status := Blocked\<rparr>)"
  by (rule finish) simp

text \<open>The reducer refines the step relation.\<close>

lemma upsert_approval_cases:
  "upsert_approval p s = s \<or>
   (\<exists>a. ApprovalRequestSchema a \<and> part_of a p \<and>
     upsert_approval p s = s\<lparr>rs_pendingApprovals := upsertByKey (rs_pendingApprovals s) a ''approvalId''\<rparr>)"
  by (cases "parseNestedApprovalRequest p") (auto simp: upsert_approval_def dest: nested_approval)

lemma upsert_approval_transition:
  "transition dt p s (upsert_approval p s)"
  "transition dt p s ((upsert_approval p s)\<lparr>rs_status := Blocked\<rparr>)"
proof -
  have "transition dt p s (upsert_approval p s) \<and>
      transition dt p s ((upsert_approval p s)\<lparr>rs_status := Blocked\<rparr>)"
    using upsert_approval_cases [of p s]
  proof (elim disjE exE conjE)
    assume "upsert_approval p s = s"
    then show ?thesis by (simp add: stutter block)
  next
    fix a
    assume a: "ApprovalRequestSchema a" "part_of a p"
      and eq: "upsert_approval p s = s\<lparr>rs_pendingApprovals := upsertByKey (rs_pendingApprovals s) a ''approvalId''\<rparr>"
    from request [OF a, of "rs_status s" s dt] request [OF a, of Blocked s dt] show ?thesis
      by (simp add: eq)
  qed
  then show "transition dt p s (upsert_approval p s)"
    "transition dt p s ((upsert_approval p s)\<lparr>rs_status := Blocked\<rparr>)" by simp_all
qed

lemma reduceEvent_transition:
  assumes "reduceEvent dt s e = Inr s'"
  shows "transition dt (ev_payload e) s s'"
proof -
  let ?p = "ev_payload e"
  note facts = stutter block finish answer_all upsert_approval_transition
  have "transition dt ?p s (case getPayloadString ?p ks of None \<Rightarrow> s | Some ph \<Rightarrow> s\<lparr>rs_phase := ph\<rparr>)" for ks
    by (auto intro: facts phase dest: getPayloadString_nonempty split: option.split)
  moreover have "transition dt ?p s (case parseNestedArtifact ?p of None \<Rightarrow> s
      | Some a \<Rightarrow> s\<lparr>rs_artifacts := upsertByKey (rs_artifacts s) a ''artifactId''\<rparr>)"
    by (auto intro: facts artifact dest: nested_artifact split: option.split)
  moreover have "transition dt ?p s ((case parseNestedQuestion ?p of None \<Rightarrow> s
      | Some q \<Rightarrow> s\<lparr>rs_pendingQuestions := upsertByKey (rs_pendingQuestions s) q ''questionId''\<rparr>)\<lparr>rs_status := Blocked\<rparr>)"
    by (auto intro: facts ask dest: nested_question split: option.split)
  moreover have "transition dt ?p s (restoreRunningIfUnblocked (case getPayloadString ?p ks of None \<Rightarrow> s
      | Some i \<Rightarrow> s\<lparr>rs_pendingQuestions := filter (\<lambda>q. js_get q ''questionId'' \<noteq> JStr i) (rs_pendingQuestions s)\<rparr>))" for ks
    by (auto intro: facts answer split: option.split)
  moreover have "transition dt ?p s (restoreRunningIfUnblocked (case getPayloadString ?p ks of None \<Rightarrow> s
      | Some i \<Rightarrow> s\<lparr>rs_pendingApprovals := filter (\<lambda>a. js_get a ''approvalId'' \<noteq> JStr i) (rs_pendingApprovals s)\<rparr>))" for ks
    by (auto intro: facts decide split: option.split)
  moreover have "transition dt ?p s ((case parseNestedRepairTask dt ?p of None \<Rightarrow> s
      | Some t \<Rightarrow> s\<lparr>rs_pendingRepairTasks := upsertRepairTask (rs_pendingRepairTasks s) t\<rparr>)\<lparr>rs_status := Blocked\<rparr>)"
    by (auto intro: facts repair dest: nested_repair split: option.split)
  moreover have "transition dt ?p s (s\<lparr>rs_harness := h\<rparr>)" if "parseHarnessLoadedPayload ?p = Inr h" for h
    using that assertHarnessSnapshot_nonempty
    by (auto simp: parseHarnessLoadedPayload_def intro: harness split: if_splits)
  ultimately show ?thesis
    using assms facts unfolding reduceEvent_def Let_def bindE_Inr_iff
    by (simp split: if_splits) (auto simp: bindE_Inr_iff)
qed

section \<open>Reducers and invariants\<close>

text \<open>
  What the projection relies on of a reducer: each event makes at most two steps of the relation. The
  invariants of a state machine are carried through the projection.
\<close>

locale run_reducer =
  fixes reduce :: reducer and dt :: "string \<Rightarrow> bool"
  assumes refines: "reduce s e = Inr s' \<Longrightarrow>
    \<exists>m. transition dt (ev_payload e) s m \<and> transition dt (ev_payload e) m s'"

locale run_invariant = run_reducer reduce dt
  for reduce :: reducer and dt :: "string \<Rightarrow> bool" +
  fixes I :: "RunState \<Rightarrow> bool" and okp :: "json \<Rightarrow> bool"
  assumes step: "okp p \<Longrightarrow> I s \<Longrightarrow> transition dt p s s' \<Longrightarrow> I s'"
    and stamp: "I s \<Longrightarrow> i \<noteq> [] \<Longrightarrow> I (s\<lparr>rs_lastEventId := i\<rparr>)"
begin

lemma reduce_keeps: "okp (ev_payload e) \<Longrightarrow> I s \<Longrightarrow> reduce s e = Inr s' \<Longrightarrow> I s'"
  by (blast dest: refines intro: step)

lemma reduce_all_keeps:
  assumes "I s" "\<forall>e \<in> set es. okp (ev_payload e) \<and> ev_id e \<noteq> []" "reduce_all reduce r s es = Inr s'"
  shows "I s'"
  using assms
proof (induction es arbitrary: s)
  case (Cons e es)
  then obtain m where m: "reduce s e = Inr m" "reduce_all reduce r (m\<lparr>rs_lastEventId := ev_id e\<rparr>) es = Inr s'"
    by (auto simp: bindE_Inr_iff split: if_splits)
  from Cons.prems m(1) have "I m" by (auto intro: reduce_keeps)
  with Cons.prems have "I (m\<lparr>rs_lastEventId := ev_id e\<rparr>)" by (auto intro: stamp)
  with Cons.IH m(2) Cons.prems(2) show ?case by auto
qed simp

end

lemma recordValue_part_of: "part_of v p \<Longrightarrow> part_of (recordValue v) p"
  by (simp add: recordValue_def fresh)

lemma reduceToolCompletedArtifacts_transition:
  assumes "reduceToolCompletedArtifacts dt s e = Inr s'"
  shows "\<exists>m. transition dt (ev_payload e) s m \<and> transition dt (ev_payload e) m s'"
proof -
  obtain m where m: "reduceEvent dt s e = Inr m" and
    s': "s' = m \<or> (\<exists>a. parseNestedArtifact (recordValue (js_get (recordValue (js_get (ev_payload e) ''result'')) ''output'')) = Some a \<and>
      s' = m\<lparr>rs_artifacts := upsertByKey (rs_artifacts m) a ''artifactId''\<rparr>)"
    using assms by (auto simp: reduceToolCompletedArtifacts_def bindE_Inr_iff Let_def split: if_splits option.splits)
  have "part_of a (ev_payload e)"
    if "parseNestedArtifact (recordValue (js_get (recordValue (js_get (ev_payload e) ''result'')) ''output'')) = Some a" for a
    by (rule nested_artifact_of [OF that, THEN conjunct2]) (intro recordValue_part_of field whole)
  with s' have "transition dt (ev_payload e) m s'"
    by (auto intro: stutter artifact dest: nested_artifact)
  with reduceEvent_transition [OF m] show ?thesis by blast
qed

interpretation registered: run_reducer "compatibilityReducerById dt r" dt for dt r
proof unfold_locales
  fix s e s'
  assume "compatibilityReducerById dt r s e = Inr s'"
  then show "\<exists>m. transition dt (ev_payload e) s m \<and> transition dt (ev_payload e) m s'"
    by (cases r) (auto dest: reduceEvent_transition reduceToolCompletedArtifacts_transition intro: stutter)
qed

section \<open>The invariants\<close>

lemma restoreRunning_simps [simp]:
  "rs_runId (restoreRunningIfUnblocked s) = rs_runId s" "rs_phase (restoreRunningIfUnblocked s) = rs_phase s"
  "rs_harness (restoreRunningIfUnblocked s) = rs_harness s" "rs_budgets (restoreRunningIfUnblocked s) = rs_budgets s"
  "rs_pendingApprovals (restoreRunningIfUnblocked s) = rs_pendingApprovals s"
  "rs_pendingQuestions (restoreRunningIfUnblocked s) = rs_pendingQuestions s"
  "rs_pendingRepairTasks (restoreRunningIfUnblocked s) = rs_pendingRepairTasks s"
  "rs_artifacts (restoreRunningIfUnblocked s) = rs_artifacts s"
  "rs_lastEventId (restoreRunningIfUnblocked s) = rs_lastEventId s"
  by (simp_all add: restoreRunningIfUnblocked_def)

lemma list_all_upsertByKey: "list_all P xs \<Longrightarrow> P x \<Longrightarrow> list_all P (upsertByKey xs x k)"
  by (auto simp: upsertByKey_def list_all_iff set_upsert_by)

lemma list_all_upsertRepairTask: "list_all P xs \<Longrightarrow> P x \<Longrightarrow> list_all P (upsertRepairTask xs x)"
  by (auto simp: upsertRepairTask_def list_all_iff Let_def)

lemma list_all_filter: "list_all P xs \<Longrightarrow> list_all P (filter Q xs)"
  by (auto simp: list_all_iff)

lemmas list_all_state = list_all_upsertByKey list_all_upsertRepairTask list_all_filter

interpretation schema_inv:
  run_invariant "compatibilityReducerById dt r" dt "RunStateSchema_ok dt" "\<lambda>p. True" for dt r
proof unfold_locales
  fix p s s'
  assume "RunStateSchema_ok dt s" "transition dt p s s'"
  then show "RunStateSchema_ok dt s'"
    by (auto elim!: transition_cases simp: RunStateSchema_ok_def intro: list_all_state)
qed (simp add: RunStateSchema_ok_def)

text \<open>No two pending approvals, questions or artifacts have the same id.\<close>

definition keys_unique :: "RunState \<Rightarrow> bool" where
  "keys_unique s \<longleftrightarrow>
     distinct (map (\<lambda>v. js_get v ''approvalId'') (rs_pendingApprovals s)) \<and>
     distinct (map (\<lambda>v. js_get v ''questionId'') (rs_pendingQuestions s)) \<and>
     distinct (map (\<lambda>v. js_get v ''artifactId'') (rs_artifacts s))"

lemma distinct_upsertByKey:
  "distinct (map (\<lambda>v. js_get v k) xs) \<Longrightarrow> distinct (map (\<lambda>v. js_get v k) (upsertByKey xs x k))"
  unfolding upsertByKey_def by (rule distinct_upsert_by)

interpretation unique_inv:
  run_invariant "compatibilityReducerById dt r" dt keys_unique "\<lambda>p. True" for dt r
proof unfold_locales
  fix p s s'
  assume "keys_unique s" "transition dt p s s'"
  then show "keys_unique s'"
    by (auto elim!: transition_cases simp: keys_unique_def distinct_map_filter intro: distinct_upsertByKey)
qed (simp add: keys_unique_def)

text \<open>A running run has no open question and no repair task.\<close>

definition running_clear :: "RunState \<Rightarrow> bool" where
  "running_clear s \<longleftrightarrow> (rs_status s = Running \<longrightarrow> rs_pendingQuestions s = [] \<and> rs_pendingRepairTasks s = [])"

interpretation clear_inv:
  run_invariant "compatibilityReducerById dt r" dt running_clear "\<lambda>p. True" for dt r
proof unfold_locales
  fix p s s'
  assume "running_clear s" "transition dt p s s'"
  then show "running_clear s'"
    by (auto elim!: transition_cases simp: running_clear_def restoreRunningIfUnblocked_def split: if_splits)
qed (simp add: running_clear_def)

text \<open>Once a repair task is pending, one is pending for ever and the run never runs again.\<close>

definition in_repair :: "RunState \<Rightarrow> bool" where
  "in_repair s \<longleftrightarrow> rs_pendingRepairTasks s \<noteq> [] \<and> rs_status s \<noteq> Running"

interpretation repair_inv:
  run_invariant "compatibilityReducerById dt r" dt in_repair "\<lambda>p. True" for dt r
proof unfold_locales
  fix p s s'
  assume "in_repair s" "transition dt p s s'"
  then show "in_repair s'"
    by (auto elim!: transition_cases simp: in_repair_def restoreRunningIfUnblocked_def upsertRepairTask_def Let_def
        split: if_splits)
qed (simp add: in_repair_def)

end
