(* ===== verification/Run_Replay.thy ===== *)
theory Run_Replay
  imports Run_Transitions
begin

text \<open>
  What the projection of a ledger guarantees: the invariants of every projected state, that the
  projection never contradicts its own schema, and that replaying the tail after a checkpoint gives
  the state of the whole ledger.
\<close>

section \<open>Values that survive JSON text\<close>

definition plain :: "json \<Rightarrow> bool" where
  "plain v \<longleftrightarrow> normalizeJsonValue v = v"

lemma filter_eq_length: "length (filter P xs) = length xs \<Longrightarrow> filter P xs = xs"
proof (induction xs)
  case (Cons x xs)
  have "length (filter P xs) \<noteq> Suc (length xs)"
    using le_imp_less_Suc [OF length_filter_le [of P xs]] by (rule less_imp_neq)
  with Cons show ?case by (auto split: if_splits)
qed simp

lemma plain_members:
  assumes "plain (JObj ps)" "(k, v) \<in> set ps"
  shows "plain v"
proof -
  have eq: "map (\<lambda>p. (fst p, normalizeJsonValue (snd p))) (filter (\<lambda>p. snd p \<noteq> JUndefined) ps) = ps"
    using assms(1) by (simp add: plain_def)
  have "length (filter (\<lambda>p. snd p \<noteq> JUndefined) ps) = length ps"
    using arg_cong [OF eq, of length] by simp
  then have "filter (\<lambda>p. snd p \<noteq> JUndefined) ps = ps"
    using filter_eq_length by blast
  with eq have eq2: "map (\<lambda>p. (fst p, normalizeJsonValue (snd p))) ps = ps" by simp
  obtain i where i: "i < length ps" "ps ! i = (k, v)" using assms(2) by (auto simp: in_set_conv_nth)
  have "map (\<lambda>p. (fst p, normalizeJsonValue (snd p))) ps ! i = (k, normalizeJsonValue v)" using i by simp
  then have "(k, normalizeJsonValue v) = (k, v)" unfolding eq2 i(2) by simp
  then show ?thesis by (simp add: plain_def)
qed

lemma plain_get: "plain v \<or> v = JUndefined \<Longrightarrow> plain (js_get v k) \<or> js_get v k = JUndefined"
  by (auto simp: js_get_def dest: map_of_SomeD plain_members split: json.splits option.splits)

lemma plain_part_of: "part_of v p \<Longrightarrow> plain p \<Longrightarrow> plain v \<or> v = JUndefined"
proof (induction rule: part_of.induct)
  case (field v p k)
  then show ?case using plain_get [of v k] by blast
qed (auto simp: plain_def)

lemma z_strict_defined: "z_strict shape v \<Longrightarrow> v \<noteq> JUndefined"
  by (auto simp: z_strict_def)

lemma schema_defined:
  "ApprovalRequestSchema v \<Longrightarrow> v \<noteq> JUndefined" "HumanQuestionSchema v \<Longrightarrow> v \<noteq> JUndefined"
  "ArtifactRefSchema v \<Longrightarrow> v \<noteq> JUndefined" "RepairTaskSchema dt v \<Longrightarrow> v \<noteq> JUndefined"
  by (auto simp: ApprovalRequestSchema_def HumanQuestionSchema_def ArtifactRefSchema_def RepairTaskSchema_def
      dest: z_strict_defined)

definition plain_state :: "RunState \<Rightarrow> bool" where
  "plain_state s \<longleftrightarrow> plain (rs_budgets s) \<and> list_all plain (rs_pendingApprovals s) \<and>
     list_all plain (rs_pendingQuestions s) \<and> list_all plain (rs_pendingRepairTasks s) \<and>
     list_all plain (rs_artifacts s)"

interpretation plain_inv:
  run_invariant "compatibilityReducerById dt r" dt plain_state plain for dt r
proof unfold_locales
  fix p s s'
  assume p: "plain p" and "plain_state s" "transition dt p s s'"
  then show "plain_state s'"
    by (auto elim!: transition_cases simp: plain_state_def intro!: list_all_state
        dest: plain_part_of [OF _ p] schema_defined)
qed (simp add: plain_state_def)

lemma clone_plain: "plain_state s \<Longrightarrow> cloneRunState s = s"
proof -
  have "list_all plain xs \<Longrightarrow> map normalizeJsonValue xs = xs" for xs
    by (induction xs) (simp_all add: plain_def)
  then show "plain_state s \<Longrightarrow> cloneRunState s = s"
    by (simp add: plain_state_def cloneRunState_def plain_def)
qed

section \<open>The projection loop\<close>

lemma reduce_all_append:
  "reduce_all reduce r s (xs @ ys) = bindE (reduce_all reduce r s xs) (\<lambda>m. reduce_all reduce r m ys)"
proof (induction xs arbitrary: s)
  case (Cons x xs)
  then show ?case by (cases "reduce s x") simp_all
qed simp

lemma transition_runId: "transition dt p s s' \<Longrightarrow> rs_runId s' = rs_runId s"
  by (erule transition_cases) auto

lemma reduce_all_ids:
  assumes "reduce_all (compatibilityReducerById dt c) r s es = Inr s'"
  shows "rs_runId s' = rs_runId s \<and> (es \<noteq> [] \<longrightarrow> rs_lastEventId s' = ev_id (last es))"
  using assms
proof (induction es arbitrary: s)
  case (Cons e es)
  then obtain m where m: "compatibilityReducerById dt c s e = Inr m"
    "reduce_all (compatibilityReducerById dt c) r (m\<lparr>rs_lastEventId := ev_id e\<rparr>) es = Inr s'"
    by (auto simp: bindE_Inr_iff split: if_splits)
  have "rs_runId m = rs_runId s" using registered.refines [OF m(1)] transition_runId by metis
  with Cons.IH [OF m(2)] m(2) show ?case by (cases es) auto
qed simp

lemma assertHarnessSnapshot_errors: "assertHarnessSnapshot v = Inl y \<Longrightarrow> y = InvalidEvent"
  by (auto simp: assertHarnessSnapshot_def nonEmpty_def bindE_Inl_iff split: if_splits json.splits option.splits)

lemma reducer_errors: "compatibilityReducerById dt c s e = Inl x \<Longrightarrow> x = InvalidEvent"
proof -
  have "reduceEvent dt s e = Inl x \<Longrightarrow> x = InvalidEvent" for x
    by (auto simp: reduceEvent_def Let_def parseHarnessLoadedPayload_def bindE_Inl_iff
        dest: assertHarnessSnapshot_errors split: if_splits)
  then show "compatibilityReducerById dt c s e = Inl x \<Longrightarrow> x = InvalidEvent"
    by (cases c) (auto simp: reduceToolCompletedArtifacts_def bindE_Inl_iff Let_def split: if_splits)
qed

lemma reduce_all_errors:
  "reduce_all (compatibilityReducerById dt c) r s es = Inl x \<Longrightarrow> x = InvalidEvent"
  by (induction es arbitrary: s) (auto simp: bindE_Inl_iff dest: reducer_errors split: if_splits)

lemma parseRunStartedPayload_phase:
  assumes "parseRunStartedPayload v = Inr p"
  shows "sp_initialPhase p \<noteq> [] \<and> is_record (sp_budgets p) \<and>
     hs_id (sp_harness p) \<noteq> [] \<and> hs_version (sp_harness p) \<noteq> [] \<and> hs_specHash (sp_harness p) \<noteq> [] \<and>
     (sp_budgets p = js_get v ''budgets'' \<or> sp_budgets p = JObj [])"
proof -
  define F where "F h ph =
    \<lparr>sp_input = js_get v ''input'', sp_harness = h,
     sp_initialPhase = (case ph of None \<Rightarrow> ''created'' | Some x \<Rightarrow> x),
     sp_budgets = (if is_record (js_get v ''budgets'') then js_get v ''budgets'' else JObj [])\<rparr>" for h ph
  have "bindE (assertHarnessSnapshot (js_get v ''harness'')) (\<lambda>h.
      bindE (nonEmpty (js_get v ''initialPhase'')) (\<lambda>ph. Inr (F h ph))) = Inr p"
    using assms unfolding parseRunStartedPayload_def F_def
    by (cases "is_record v"; cases "RunInputSchema (js_get v ''input'')")
       (simp_all only: simp_thms if_True if_False sum.distinct)
  then obtain h ph where h: "assertHarnessSnapshot (js_get v ''harness'') = Inr h"
    and ph: "nonEmpty (js_get v ''initialPhase'') = Inr ph" and "p = F h ph"
    by (auto simp: bindE_Inr_iff)
  then have p: "sp_harness p = h" "sp_initialPhase p = (case ph of None \<Rightarrow> ''created'' | Some x \<Rightarrow> x)"
      "sp_budgets p = (if is_record (js_get v ''budgets'') then js_get v ''budgets'' else JObj [])"
    by (simp_all add: F_def)
  have "is_record (JObj [])" by (simp add: is_record_def)
  moreover have "sp_initialPhase p \<noteq> []" using p(2) ph nonEmpty_Some by (cases ph) auto
  ultimately show ?thesis using assertHarnessSnapshot_nonempty [OF h] p by simp
qed

lemma parseRunStartedPayload_errors: "parseRunStartedPayload v = Inl x \<Longrightarrow> x \<noteq> InvalidProjection"
proof -
  have "nonEmpty w = Inl y \<Longrightarrow> y = InvalidEvent" for w y
    by (auto simp: nonEmpty_def split: json.splits if_splits)
  moreover have "assertHarnessSnapshot w = Inl y \<Longrightarrow> y = InvalidEvent" for w y
    by (rule assertHarnessSnapshot_errors)
  ultimately show "parseRunStartedPayload v = Inl x \<Longrightarrow> x \<noteq> InvalidProjection"
    by (auto simp: parseRunStartedPayload_def bindE_Inl_iff split: if_splits)
qed

text \<open>What an event of the store always has: non-empty ids.\<close>

definition event_ids_ok :: "RuntimeEvent \<Rightarrow> bool" where
  "event_ids_ok e \<longleftrightarrow> ev_id e \<noteq> [] \<and> ev_runId e \<noteq> []"

lemma initial_state_invariants:
  assumes "parseRunStartedPayload (ev_payload e) = Inr p" "event_ids_ok e"
  shows "RunStateSchema_ok dt (initial_state e p)" "keys_unique (initial_state e p)"
    "running_clear (initial_state e p)"
  using parseRunStartedPayload_phase [OF assms(1)] assms(2)
  by (auto simp: initial_state_def RunStateSchema_ok_def keys_unique_def running_clear_def MetadataSchema_def
      event_ids_ok_def)

lemma project_Inr:
  assumes "projectRunStateWithReducer dt events reduce = Inr s"
  obtains e es p where "events = e # es" "validateEventSequence events" "ev_type e = ''run.started''"
    "parseRunStartedPayload (ev_payload e) = Inr p"
    "reduce_all reduce (ev_runId e) (initial_state e p) events = Inr s" "RunStateSchema_ok dt s"
  using assms
  by (cases events) (auto simp: projectRunStateWithReducer_def bindE_Inr_iff split: if_splits)

section \<open>Properties of projected states\<close>

text \<open>
  C5: every state a registered reducer projects satisfies the run state schema, has no two pending
  approvals, questions or artifacts with one id, names the last event, and when it is running has no
  open question and no repair task.
\<close>

theorem projected_state_invariants:
  assumes "projectRunStateWithReducer dt events (compatibilityReducerById dt c) = Inr s"
    and "\<forall>e \<in> set events. event_ids_ok e"
  shows "RunStateSchema_ok dt s \<and> keys_unique s \<and> running_clear s \<and>
    rs_lastEventId s = ev_id (last events) \<and> rs_runId s = ev_runId (hd events)"
proof (rule project_Inr [OF assms(1)])
  fix e es p
  assume ev: "events = e # es" "parseRunStartedPayload (ev_payload e) = Inr p" "RunStateSchema_ok dt s"
    and all: "reduce_all (compatibilityReducerById dt c) (ev_runId e) (initial_state e p) events = Inr s"
  have ids: "\<forall>e \<in> set events. True \<and> ev_id e \<noteq> []" using assms(2) by (simp add: event_ids_ok_def)
  have "event_ids_ok e" using assms(2) ev(1) by simp
  note init = initial_state_invariants [OF ev(2) this]
  show ?thesis
    using unique_inv.reduce_all_keeps [OF init(2) ids all] clear_inv.reduce_all_keeps [OF init(3) ids all]
      reduce_all_ids [OF all] ev
    by (simp add: initial_state_def)
qed

text \<open>
  A projection never fails with \<^verbatim>\<open>invalid_projection\<close>: a reducer that starts from a valid
  \<^verbatim>\<open>run.started\<close> payload keeps the run state schema, whatever the later payloads hold.
\<close>

theorem projection_fits_schema:
  assumes "\<forall>e \<in> set events. event_ids_ok e"
  shows "projectRunStateWithReducer dt events (compatibilityReducerById dt c) \<noteq> Inl InvalidProjection"
proof
  assume bad: "projectRunStateWithReducer dt events (compatibilityReducerById dt c) = Inl InvalidProjection"
  then obtain e es p s where ev: "events = e # es" "parseRunStartedPayload (ev_payload e) = Inr p"
    and all: "reduce_all (compatibilityReducerById dt c) (ev_runId e) (initial_state e p) events = Inr s"
    and no: "\<not> RunStateSchema_ok dt s"
    by (cases events) (auto simp: projectRunStateWithReducer_def bindE_Inl_iff
        simp del: reduce_all.simps dest: parseRunStartedPayload_errors reduce_all_errors split: if_splits)
  have "event_ids_ok e" using assms ev(1) by simp
  note init = initial_state_invariants(1) [OF ev(2) this]
  have "\<forall>e \<in> set events. True \<and> ev_id e \<noteq> []" using assms by (simp add: event_ids_ok_def)
  with schema_inv.reduce_all_keeps [OF init _ all] no show False by simp
qed

text \<open>
  no event removes a repair task. Once the projection of a ledger is blocked on a repair task, the
  projection of every longer ledger still has a pending repair task and is not running.
\<close>

theorem repair_tasks_never_clear:
  assumes "projectRunState dt events = Inr s" "rs_pendingRepairTasks s \<noteq> []" "rs_status s \<noteq> Running"
    and "projectRunState dt (events @ later) = Inr s'" "\<forall>e \<in> set later. ev_id e \<noteq> []"
  shows "rs_pendingRepairTasks s' \<noteq> [] \<and> rs_status s' \<noteq> Running"
proof -
  note unf = assms(1,4) [unfolded projectRunState_def]
  from project_Inr [OF unf(1)] obtain e es p where ev: "events = e # es"
    "parseRunStartedPayload (ev_payload e) = Inr p"
    "reduce_all (reduceEvent dt) (ev_runId e) (initial_state e p) events = Inr s" by metis
  from project_Inr [OF unf(2)] ev(1,2)
  have "reduce_all (reduceEvent dt) (ev_runId e) (initial_state e p) (events @ later) = Inr s'"
    by (metis append_Cons list.inject sum.inject(2))
  then have "reduce_all (compatibilityReducerById dt CurrentReducer) (ev_runId e) s later = Inr s'"
    by (simp add: reduce_all_append ev(3))
  from repair_inv.reduce_all_keeps [OF _ _ this] assms(2,3,5) show ?thesis
    by (simp add: in_repair_def)
qed

section \<open>Checkpoints\<close>

lemma initial_state_plain:
  assumes "parseRunStartedPayload (ev_payload e) = Inr p" "plain (ev_payload e)"
  shows "plain_state (initial_state e p)"
proof -
  note b = parseRunStartedPayload_phase [OF assms(1)]
  then have "sp_budgets p \<noteq> JUndefined" by (auto simp: is_record_def)
  with b plain_get [of "ev_payload e" "''budgets''"] assms(2) have "plain (sp_budgets p)"
    by (auto simp: plain_def)
  then show ?thesis by (simp add: initial_state_def plain_state_def)
qed

lemma projected_plain:
  assumes "projectRunState dt events = Inr s" "\<forall>e \<in> set events. plain (ev_payload e) \<and> ev_id e \<noteq> []"
  shows "plain_state s"
proof (rule project_Inr [OF assms(1) [unfolded projectRunState_def]])
  fix e es p
  assume ev: "events = e # es" "parseRunStartedPayload (ev_payload e) = Inr p"
    "reduce_all (reduceEvent dt) (ev_runId e) (initial_state e p) events = Inr s"
  then have "reduce_all (compatibilityReducerById dt CurrentReducer) (ev_runId e) (initial_state e p) events = Inr s"
    by simp
  moreover have "plain (ev_payload e)" using assms(2) ev(1) by simp
  ultimately show ?thesis
    using plain_inv.reduce_all_keeps [OF initial_state_plain [OF ev(2)] assms(2)] by blast
qed

text \<open>The projection of a longer ledger goes on from the projection of a prefix.\<close>

lemma project_append:
  assumes "projectRunState dt events = Inr s" "validateEventSequence (events @ tail)"
  shows "projectRunState dt (events @ tail) =
    bindE (reduce_all (reduceEvent dt) (rs_runId s) s tail)
      (\<lambda>s'. if RunStateSchema_ok dt s' then Inr s' else Inl InvalidProjection)"
proof (rule project_Inr [OF assms(1) [unfolded projectRunState_def]])
  fix e es p
  assume ev: "events = e # es" "ev_type e = ''run.started''" "parseRunStartedPayload (ev_payload e) = Inr p"
    and all: "reduce_all (reduceEvent dt) (ev_runId e) (initial_state e p) events = Inr s"
  have "rs_runId s = ev_runId e"
    using reduce_all_ids [of dt CurrentReducer "ev_runId e" "initial_state e p" events s] all
    by (simp add: initial_state_def)
  then have "reduce_all (reduceEvent dt) (ev_runId e) (initial_state e p) (events @ tail) =
      reduce_all (reduceEvent dt) (rs_runId s) s tail"
    by (simp add: reduce_all_append all)
  moreover have "projectRunState dt (events @ tail) =
      bindE (reduce_all (reduceEvent dt) (ev_runId e) (initial_state e p) (events @ tail))
        (\<lambda>s'. if RunStateSchema_ok dt s' then Inr s' else Inl InvalidProjection)"
    using ev assms(2) by (simp add: projectRunState_def projectRunStateWithReducer_def del: reduce_all.simps)
  ultimately show ?thesis by (simp only:)
qed

lemma reduce_all_foreign:
  "reduce_all reduce r s es =
     bindE (reduce_all reduce r s (takeWhile (\<lambda>e. ev_runId e = r) es)) (\<lambda>s'.
       if takeWhile (\<lambda>e. ev_runId e = r) es = es then Inr s' else Inl InvalidEvent)"
proof (induction es arbitrary: s)
  case (Cons e es)
  then show ?case by (cases "reduce s e") simp_all
qed simp

abbreviation rebuilt_state :: "RunStoreErrorCode + RebuildFromCheckpointResult \<Rightarrow> RunStoreErrorCode + RunState" where
  "rebuilt_state r \<equiv> bindE r (\<lambda>x. Inr (rb_state x))"

lemma rebuild_with_checkpoint:
  assumes "projectRunState dt prefix = Inr (cp_state c)" "Suc (cp_coveredSequence c) = length prefix"
    and "validateEventSequence (prefix @ tail)" "\<forall>e \<in> set prefix. plain (ev_payload e) \<and> ev_id e \<noteq> []"
    and "\<forall>n i d. integrity \<noteq> Broken n i d"
  shows "rebuilt_state (rebuildStateFromCheckpoint dt runId (prefix @ tail) integrity (Some c)) =
    projectRunState dt (prefix @ tail)"
proof -
  let ?full = "projectRunState dt (prefix @ tail)"
  let ?cached = "rebuildFromTrustedCheckpoint dt runId (prefix @ tail) integrity (readCheckpoint dt (Some c))"
  have shape: "rebuilt_state (rebuildStateFromCheckpoint dt runId (prefix @ tail) integrity (Some c)) =
      (case ?cached of Inl x \<Rightarrow> Inl x | Inr None \<Rightarrow> ?full | Inr (Some r) \<Rightarrow> Inr (rb_state r))"
    using assms(5)
    by (cases integrity; cases ?cached; cases ?full)
       (auto simp: rebuildStateFromCheckpoint_def split: option.split)
  show ?thesis
  proof (cases "parseCheckpointRecord dt c = Some c \<and> checkpointMatchesLedger runId (prefix @ tail) integrity c")
    case False
    have "parseCheckpointRecord dt c = Some c \<or> parseCheckpointRecord dt c = None"
      by (simp add: parseCheckpointRecord_def)
    with False have "?cached = Inr None"
      by (auto simp: rebuildFromTrustedCheckpoint_def readCheckpoint_def)
    with shape show ?thesis by simp
  next
    case True
    then have run: "rs_runId (cp_state c) = runId"
      by (auto simp: checkpointMatchesLedger_def split: if_splits)
    have tail: "drop (Suc (cp_coveredSequence c)) (prefix @ tail) = tail" using assms(2) by simp
    have full: "?full = bindE (reduce_all (reduceEvent dt) runId (cp_state c) tail)
        (\<lambda>s'. if RunStateSchema_ok dt s' then Inr s' else Inl InvalidProjection)"
      using project_append [OF assms(1,3)] run by simp
    note clone = clone_plain [OF projected_plain [OF assms(1,4)]]
    show ?thesis
    proof (cases "reduce_all (reduceEvent dt) runId (cp_state c) (takeWhile (\<lambda>e. ev_runId e = runId) tail)")
      case (Inl x)
      then have "?cached = Inl x"
        using True by (simp add: rebuildFromTrustedCheckpoint_def readCheckpoint_def tail clone Let_def del: drop_append)
      moreover have "?full = Inl x" using Inl full reduce_all_foreign [of "reduceEvent dt" runId "cp_state c" tail] by simp
      ultimately show ?thesis using shape by simp
    next
      case (Inr s')
      then have "?cached = (if takeWhile (\<lambda>e. ev_runId e = runId) tail \<noteq> tail \<or> \<not> RunStateSchema_ok dt s' then Inr None
          else Inr (Some \<lparr>rb_state = s', rb_usedCheckpoint = True, rb_reducedEventCount = length tail\<rparr>))"
        using True by (simp add: rebuildFromTrustedCheckpoint_def readCheckpoint_def tail clone Let_def del: drop_append)
      with shape full Inr reduce_all_foreign [of "reduceEvent dt" runId "cp_state c" tail] show ?thesis by auto
    qed
  qed
qed

lemma rebuild_without_checkpoint:
  "\<forall>n i d. integrity \<noteq> Broken n i d \<Longrightarrow>
   rebuilt_state (rebuildStateFromCheckpoint dt runId events integrity None) = projectRunState dt events"
  by (cases integrity; cases "projectRunState dt events")
     (simp_all add: rebuildStateFromCheckpoint_def rebuildFromTrustedCheckpoint_def readCheckpoint_def)

text \<open>The checkpoint holds the projection of the prefix it covers.\<close>

definition checkpoint_of :: "(string \<Rightarrow> bool) \<Rightarrow> RuntimeEvent list \<Rightarrow> RunStateCheckpoint \<Rightarrow> bool" where
  "checkpoint_of dt events c \<longleftrightarrow>
     cp_coveredSequence c < length events \<and>
     projectRunState dt (take (Suc (cp_coveredSequence c)) events) = Inr (cp_state c)"

lemma rebuild_is_projection:
  assumes "\<forall>c. file = Some c \<longrightarrow> checkpoint_of dt events c"
    and "validateEventSequence events" "\<forall>e \<in> set events. plain (ev_payload e) \<and> ev_id e \<noteq> []"
    and "\<forall>n i d. integrity \<noteq> Broken n i d"
  shows "rebuilt_state (rebuildStateFromCheckpoint dt runId events integrity file) = projectRunState dt events"
proof (cases "file")
  case None
  with rebuild_without_checkpoint [OF assms(4)] show ?thesis by simp
next
  case (Some c)
  define k where "k = Suc (cp_coveredSequence c)"
  from Some assms(1) have c: "k \<le> length events" "projectRunState dt (take k events) = Inr (cp_state c)"
    by (auto simp: checkpoint_of_def k_def)
  have "rebuilt_state (rebuildStateFromCheckpoint dt runId (take k events @ drop k events) integrity (Some c)) =
      projectRunState dt (take k events @ drop k events)"
    using c assms(2-4) by (intro rebuild_with_checkpoint) (auto simp: k_def dest: in_set_takeD)
  with Some show ?thesis by simp
qed


section \<open>Instances\<close>

definition ex_start_payload :: json where
  "ex_start_payload =
     JObj [(''input'', JObj [(''task'', JStr ''t''), (''harnessId'', JStr ''h''),
              (''host'', JObj [(''kind'', JStr ''cli'')])]),
           (''harness'', JObj [(''id'', JStr ''h''), (''version'', JStr ''1''), (''specHash'', JStr ''s'')]),
           (''initialPhase'', JStr ''plan''), (''budgets'', JObj [])]"

definition ex_run_event :: "nat \<Rightarrow> string \<Rightarrow> json \<Rightarrow> RuntimeEvent" where
  "ex_run_event n type payload =
     (ex_event n ''x'')\<lparr>ev_type := type, ev_payload := payload\<rparr>"

definition ex_repair_ledger :: "RuntimeEvent list" where
  "ex_repair_ledger =
     [ex_run_event 0 ''run.started'' ex_start_payload,
      ex_run_event 1 ''repair.task_created'' (JObj [(''repairTask'', JObj [(''id'', JStr ''r''), (''task'', JStr ''fix'')])])]"

abbreviation any_date :: "string \<Rightarrow> bool" where
  "any_date s \<equiv> True"

lemma ex_repair_projection:
  "\<exists>s. projectRunState any_date ex_repair_ledger = Inr s \<and> rs_pendingRepairTasks s \<noteq> [] \<and> rs_status s = Blocked"
proof -
  have "case projectRunState any_date ex_repair_ledger of Inl e \<Rightarrow> False
    | Inr s \<Rightarrow> rs_pendingRepairTasks s \<noteq> [] \<and> rs_status s = Blocked"
    by code_simp
  then show ?thesis by (auto split: sum.splits)
qed

lemma ex_repair_later:
  "\<exists>s. projectRunState any_date (ex_repair_ledger @
     [ex_run_event 2 ''decision.recorded'' (JObj []), ex_run_event 3 ''run.completed'' (JObj [])]) = Inr s"
proof -
  have "case projectRunState any_date (ex_repair_ledger @
     [ex_run_event 2 ''decision.recorded'' (JObj []), ex_run_event 3 ''run.completed'' (JObj [])]) of
     Inl e \<Rightarrow> False | Inr s \<Rightarrow> True"
    by code_simp
  then show ?thesis by (auto split: sum.splits)
qed

lemma ex_ids: "e \<in> set ex_repair_ledger \<Longrightarrow> event_ids_ok e \<and> plain (ev_payload e)"
  by (auto simp: ex_repair_ledger_def ex_run_event_def ex_event_def event_ids_ok_def plain_def ex_start_payload_def)

theorem projected_state_invariants_witness:
  "\<exists>s. projectRunState any_date ex_repair_ledger = Inr s \<and> keys_unique s \<and> running_clear s"
proof -
  obtain s where "projectRunState any_date ex_repair_ledger = Inr s" using ex_repair_projection by blast
  moreover from this have "projectRunStateWithReducer any_date ex_repair_ledger
      (compatibilityReducerById any_date CurrentReducer) = Inr s" by (simp add: projectRunState_def)
  ultimately show ?thesis using projected_state_invariants ex_ids by blast
qed

theorem projection_fits_schema_witness:
  "projectRunStateWithReducer any_date ex_repair_ledger (compatibilityReducerById any_date ToolArtifactAdditiveReducer) \<noteq>
   Inl InvalidProjection"
  by (rule projection_fits_schema) (simp add: ex_ids)

theorem repair_tasks_never_clear_witness:
  "\<exists>s. projectRunState any_date (ex_repair_ledger @
       [ex_run_event 2 ''decision.recorded'' (JObj []), ex_run_event 3 ''run.completed'' (JObj [])]) = Inr s \<and>
     rs_pendingRepairTasks s \<noteq> []"
proof -
  let ?later = "[ex_run_event 2 ''decision.recorded'' (JObj []), ex_run_event 3 ''run.completed'' (JObj [])]"
  obtain s s' where s: "projectRunState any_date ex_repair_ledger = Inr s" "rs_pendingRepairTasks s \<noteq> []"
    "rs_status s = Blocked" and s': "projectRunState any_date (ex_repair_ledger @ ?later) = Inr s'"
    using ex_repair_projection ex_repair_later by blast
  have "\<forall>e \<in> set ?later. ev_id e \<noteq> []" by (simp add: ex_run_event_def ex_event_def)
  with repair_tasks_never_clear [OF s(1,2) _ s'] s(3) s' show ?thesis by auto
qed


end
