(* ===== verification/Run_Store.thy ===== *)
theory Run_Store
  imports Run_Replay
begin

text \<open>
  The operations of \<^verbatim>\<open>run-store/src/index.ts\<close> on run packages: \<^verbatim>\<open>createRun\<close>,
  \<^verbatim>\<open>appendEvent\<close>, \<^verbatim>\<open>readEvents\<close>, \<^verbatim>\<open>materializeRunState\<close> and \<^verbatim>\<open>sealRun\<close>. A package holds
  what its directory holds: the ledger (\<^verbatim>\<open>events.jsonl\<close>), the projection (\<^verbatim>\<open>state.json\<close>), the
  checkpoint, the seal and the read-mostly marker, and the reducer its migrations selected. The store
  is the map from run ids to packages.

  Parameters (\<open>store_env\<close>): SHA-256, the date-time format of the schema library, the payload schema and
  the schema hash of each event type. Random identifiers and the current time are arguments of the
  operations. Writing a line and reading it back is \<open>jsonl\<close>; torn writes and text that is no JSON
  are not modelled. The administration record that \<^verbatim>\<open>sealRun\<close> appends is reduced to whether
  appending it succeeds.
\<close>

section \<open>Events of the store\<close>

record store_env =
  se_sha :: "string \<Rightarrow> string"
  se_datetime :: "string \<Rightarrow> bool"
  se_payload_ok :: "string \<Rightarrow> json \<Rightarrow> bool"
  se_schemaHash :: "string \<Rightarrow> string"

definition KNOWN_RUNTIME_EVENT_TYPES :: "string list" where
  "KNOWN_RUNTIME_EVENT_TYPES =
     [''approval.requested'', ''artifact.recorded'', ''decision.recorded'', ''eval.completed'',
      ''evidence.recorded'', ''gate.evaluated'', ''harness.loaded'', ''human.answer_recorded'',
      ''human.input_requested'', ''phase.entered'', ''phase.transitioned'', ''policy.evaluated'',
      ''repair.task_created'', ''run.blocked'', ''run.completed'', ''run.failed'', ''run.started'',
      ''tool.authorized'', ''tool.completed'', ''tool.denied'', ''tool.requested'']"

definition contractIdForEventType :: "string \<Rightarrow> string" where
  "contractIdForEventType type = ''specwright.event.'' @ type"

definition RUNTIME_EVENT_CONTRACT_VERSION :: string where
  "RUNTIME_EVENT_CONTRACT_VERSION = ''1''"

text \<open>\<^verbatim>\<open>RuntimeEventSchema\<close>: the envelope fields, the contract metadata of the type, the payload.\<close>

definition envelope_ok :: "store_env \<Rightarrow> RuntimeEvent \<Rightarrow> bool" where
  "envelope_ok env e \<longleftrightarrow>
     ev_id e \<noteq> [] \<and> ev_runId e \<noteq> [] \<and> se_datetime env (ev_timestamp e) \<and> ev_traceId e \<noteq> [] \<and>
     ev_causationId e \<noteq> Some [] \<and> ev_correlationId e \<noteq> Some [] \<and>
     (case ev_integrity e of None \<Rightarrow> True
      | Some i \<Rightarrow> ei_algo i \<noteq> [] \<and> ei_hash i \<noteq> [] \<and> ei_prevHash i \<noteq> []) \<and>
     ev_contractId e = contractIdForEventType (ev_type e) \<and>
     ev_contractVersion e = RUNTIME_EVENT_CONTRACT_VERSION \<and>
     ev_schemaHash e = se_schemaHash env (ev_type e)"

definition parse_runtime_event :: "store_env \<Rightarrow> RuntimeEvent \<Rightarrow> RunStoreErrorCode + RuntimeEvent" where
  "parse_runtime_event env e =
     (if \<not> se_payload_ok env (ev_type e) (ev_payload e) then Inl InvalidEventPayload
      else if \<not> envelope_ok env e then Inl InvalidEvent
      else Inr e)"

text \<open>\<^verbatim>\<open>nonEmpty\<close> on an optional string.\<close>

abbreviation nonEmpty_opt :: "string option \<Rightarrow> RunStoreErrorCode + string option" where
  "nonEmpty_opt x \<equiv> nonEmpty (case x of None \<Rightarrow> JUndefined | Some s \<Rightarrow> JStr s)"

definition assertSafeRunId :: "string \<Rightarrow> RunStoreErrorCode + string" where
  "assertSafeRunId runId =
     bindE (nonEmpty (JStr runId)) (\<lambda>value.
       (case value of
          None \<Rightarrow> Inl InvalidRunId
        | Some v \<Rightarrow>
            if CHR ''/'' \<in> set v \<or> CHR 0x5C \<in> set v \<or> v = ''.'' \<or> v = ''..'' then Inl InvalidRunId else Inr v))"

record build_input =
  bi_id :: "string option"
  bi_runId :: string
  bi_type :: string
  bi_payload :: json
  bi_traceId :: "string option"
  bi_causationId :: "string option"
  bi_correlationId :: "string option"
  bi_timestamp :: "string option"
  bi_sequence :: nat

definition buildEvent :: "store_env \<Rightarrow> string \<Rightarrow> string \<Rightarrow> build_input \<Rightarrow> RunStoreErrorCode + RuntimeEvent" where
  "buildEvent env uuid now input =
     bindE (nonEmpty_opt (bi_traceId input)) (\<lambda>traceId.
     bindE (nonEmpty (JStr (bi_type input))) (\<lambda>_.
       (case traceId of
          None \<Rightarrow> Inl InvalidEvent
        | Some tr \<Rightarrow>
            if bi_type input \<notin> set KNOWN_RUNTIME_EVENT_TYPES then Inl UnknownEventContract
            else
              bindE (nonEmpty_opt (bi_id input)) (\<lambda>eid.
              bindE (assertSafeRunId (bi_runId input)) (\<lambda>runId.
              bindE (nonEmpty_opt (bi_causationId input)) (\<lambda>causationId.
              bindE (nonEmpty_opt (bi_correlationId input)) (\<lambda>correlationId.
                parse_runtime_event env
                  \<lparr>ev_id = (case eid of None \<Rightarrow> uuid | Some i \<Rightarrow> i), ev_runId = runId,
                   ev_type = bi_type input,
                   ev_timestamp = (case bi_timestamp input of None \<Rightarrow> now | Some t \<Rightarrow> t),
                   ev_sequence = bi_sequence input, ev_traceId = tr,
                   ev_contractId = contractIdForEventType (bi_type input),
                   ev_contractVersion = RUNTIME_EVENT_CONTRACT_VERSION,
                   ev_schemaHash = se_schemaHash env (bi_type input),
                   ev_causationId = causationId, ev_correlationId = correlationId,
                   ev_payload = bi_payload input, ev_integrity = None\<rparr>)))))))"

definition withIntegrity :: "store_env \<Rightarrow> RuntimeEvent \<Rightarrow> string \<Rightarrow> RunStoreErrorCode + RuntimeEvent" where
  "withIntegrity env event prevHash =
     parse_runtime_event env (event\<lparr>ev_integrity := Some (computeIntegrity (se_sha env) event prevHash)\<rparr>)"

section \<open>Packages\<close>

record SealRecord =
  sl_status :: RunStatus
  sl_integrityHead :: string
  sl_eventCount :: nat
  sl_state :: RunState

record RunPackage =
  rp_events :: "RuntimeEvent list"
  rp_state :: "RunState option"
  rp_checkpoint :: "RunStateCheckpoint option"
  rp_reducer :: ReducerId
  rp_seal :: "SealRecord option"
  rp_readMostly :: bool

type_synonym run_store = "string \<Rightarrow> RunPackage option"

text \<open>The event as the next reader of the line sees it.\<close>

definition jsonl :: "RuntimeEvent \<Rightarrow> RuntimeEvent" where
  "jsonl e = e\<lparr>ev_payload := normalizeJsonValue (ev_payload e)\<rparr>"

text \<open>\<^verbatim>\<open>parseEventLine\<close> at an index, on a line that is the JSON text of an event.\<close>

definition parseEventLine :: "store_env \<Rightarrow> string \<Rightarrow> nat \<times> RuntimeEvent \<Rightarrow> RunStoreErrorCode + RuntimeEvent" where
  "parseEventLine env expectedRunId ie =
     (if ev_type (snd ie) = [] then Inl InvalidEvent
      else if ev_type (snd ie) \<notin> set KNOWN_RUNTIME_EVENT_TYPES then Inl UnknownEventContract
      else
        bindE (parse_runtime_event env (snd ie)) (\<lambda>event.
          if ev_runId event \<noteq> expectedRunId then Inl InvalidEvent
          else if ev_sequence event \<noteq> fst ie then Inl InvalidSequence
          else Inr event))"

definition readEvents :: "store_env \<Rightarrow> run_store \<Rightarrow> string \<Rightarrow> RunStoreErrorCode + RuntimeEvent list" where
  "readEvents env store rid =
     bindE (assertSafeRunId rid) (\<lambda>runId.
       (case store runId of
          None \<Rightarrow> Inl MissingEventLog
        | Some p \<Rightarrow> mapE (parseEventLine env runId) (zip [0..<length (rp_events p)] (rp_events p))))"

section \<open>createRun\<close>

record CreateRunOptions =
  co_runId :: "string option"
  co_traceId :: "string option"
  co_input :: json
  co_harness :: json
  co_initialPhase :: "string option"
  co_initialBudgets :: "json option"
  co_timestamp :: "string option"

text \<open>
  The random values: \<open>uuid 0\<close> for the run, \<open>uuid 1\<close> for the trace, \<open>uuid 2\<close> for the event. The
  options are checked first, then the run directory is made with an empty ledger, then the first event
  is built; an error after that leaves the directory behind.
\<close>

definition empty_package :: RunPackage where
  "empty_package =
     \<lparr>rp_events = [], rp_state = None, rp_checkpoint = None, rp_reducer = CurrentReducer, rp_seal = None,
      rp_readMostly = False\<rparr>"

definition createRun_options ::
  "(nat \<Rightarrow> string) \<Rightarrow> CreateRunOptions \<Rightarrow> RunStoreErrorCode + string \<times> build_input" where
  "createRun_options uuid options =
     bindE (assertSafeRunId (case co_runId options of None \<Rightarrow> uuid 0 | Some r \<Rightarrow> r)) (\<lambda>runId.
     bindE (nonEmpty_opt (co_traceId options)) (\<lambda>traceId.
       if \<not> RunInputSchema (co_input options) then Inl RunInputZodError
       else
         bindE (assertHarnessSnapshot (co_harness options)) (\<lambda>harness.
         bindE (nonEmpty_opt (co_initialPhase options)) (\<lambda>initialPhase.
           let budgets = (case co_initialBudgets options of None \<Rightarrow> JObj [] | Some b \<Rightarrow> b) in
           if \<not> MetadataSchema budgets then Inl RunInputZodError
           else Inr (runId,
               \<lparr>bi_id = None, bi_runId = runId, bi_type = ''run.started'',
                bi_payload = JObj
                  [(''input'', co_input options),
                   (''harness'', JObj [(''id'', JStr (hs_id harness)), (''version'', JStr (hs_version harness)),
                      (''specHash'', JStr (hs_specHash harness))]),
                   (''initialPhase'', JStr (case initialPhase of None \<Rightarrow> ''created'' | Some p \<Rightarrow> p)),
                   (''budgets'', budgets)],
                bi_traceId = Some (case traceId of None \<Rightarrow> uuid 1 | Some t \<Rightarrow> t),
                bi_causationId = None, bi_correlationId = None, bi_timestamp = co_timestamp options,
                bi_sequence = 0\<rparr>)))))"

definition first_event :: "store_env \<Rightarrow> string \<Rightarrow> string \<Rightarrow> build_input \<Rightarrow> RunStoreErrorCode + RuntimeEvent \<times> RunState" where
  "first_event env uuid now input =
     bindE (buildEvent env uuid now input) (\<lambda>built.
     bindE (withIntegrity env built EVENT_INTEGRITY_GENESIS_SEED) (\<lambda>event.
     bindE (projectRunState (se_datetime env) [event]) (\<lambda>state. Inr (event, state))))"

definition createRun ::
  "store_env \<Rightarrow> (nat \<Rightarrow> string) \<Rightarrow> string \<Rightarrow> run_store \<Rightarrow> CreateRunOptions \<Rightarrow>
   (RunStoreErrorCode \<times> run_store) + run_store" where
  "createRun env uuid now store options =
     (case createRun_options uuid options of
        Inl e \<Rightarrow> Inl (e, store)
      | Inr (runId, input) \<Rightarrow>
          if store runId \<noteq> None then Inl (RunExists, store)
          else
            (case first_event env (uuid 2) now input of
               Inl e \<Rightarrow> Inl (e, store(runId \<mapsto> empty_package))
             | Inr (event, state) \<Rightarrow>
                 Inr (store(runId \<mapsto> empty_package\<lparr>rp_events := [jsonl event], rp_state := Some state\<rparr>))))"

section \<open>appendEvent\<close>

record AppendEventOptions =
  ao_runId :: string
  ao_id :: "string option"
  ao_type :: string
  ao_payload :: json
  ao_traceId :: "string option"
  ao_causationId :: "string option"
  ao_correlationId :: "string option"
  ao_timestamp :: "string option"

definition append_input :: "AppendEventOptions \<Rightarrow> string \<Rightarrow> RuntimeEvent list \<Rightarrow> build_input" where
  "append_input options runId existing =
     \<lparr>bi_id = ao_id options, bi_runId = runId, bi_type = ao_type options, bi_payload = ao_payload options,
      bi_traceId = (case ao_traceId options of Some t \<Rightarrow> Some t
        | None \<Rightarrow> if existing = [] then None else Some (ev_traceId (last existing))),
      bi_causationId = ao_causationId options, bi_correlationId = ao_correlationId options,
      bi_timestamp = ao_timestamp options, bi_sequence = length existing\<rparr>"

definition appendEvent ::
  "store_env \<Rightarrow> string \<Rightarrow> string \<Rightarrow> run_store \<Rightarrow> AppendEventOptions \<Rightarrow> RunStoreErrorCode + run_store" where
  "appendEvent env uuid now store options =
     bindE (assertSafeRunId (ao_runId options)) (\<lambda>runId.
       if (case store runId of None \<Rightarrow> False | Some p \<Rightarrow> rp_readMostly p) then Inl RunSealed
       else
         bindE (readEvents env store runId) (\<lambda>existing.
           (case (store runId, verifyParsedRunIntegrity (se_sha env) existing) of
              (None, _) \<Rightarrow> Inl MissingEventLog
            | (_, Broken n i c) \<Rightarrow> Inl IntegrityBroken
            | (Some p, existingIntegrity) \<Rightarrow>
                bindE (buildEvent env uuid now (append_input options runId existing)) (\<lambda>built.
                bindE (case existingIntegrity of Verified n h \<Rightarrow> withIntegrity env built h | _ \<Rightarrow> Inr built) (\<lambda>event.
                  let events = existing @ [event];
                      integrity = verifyParsedRunIntegrity (se_sha env) events in
                  bindE (rebuildStateForPackage (se_datetime env) (rp_reducer p) runId events integrity
                           (rp_checkpoint p)) (\<lambda>rebuilt.
                    Inr (store(runId \<mapsto> p
                      \<lparr>rp_events := rp_events p @ [jsonl event], rp_state := Some (rb_state rebuilt),
                       rp_checkpoint := refreshCheckpointAfterAppend (se_datetime env) events integrity
                         (rb_state rebuilt) (rp_checkpoint p)\<rparr>))))))))"

section \<open>materializeRunState and sealRun\<close>

text \<open>
  \<^verbatim>\<open>rebuildFromCheckpoint\<close> verifies the ledger file first: a missing or unreadable ledger is a broken
  one.
\<close>

definition materializeRunState :: "store_env \<Rightarrow> run_store \<Rightarrow> string \<Rightarrow> RunStoreErrorCode + (run_store \<times> RunState)" where
  "materializeRunState env store rid =
     bindE (assertSafeRunId rid) (\<lambda>runId.
       (case (store runId, readEvents env store runId) of
          (Some p, Inr events) \<Rightarrow>
            (case verifyParsedRunIntegrity (se_sha env) events of
               Broken n i c \<Rightarrow> Inl IntegrityBroken
             | integrity \<Rightarrow>
                 bindE (rebuildStateForPackage (se_datetime env) (rp_reducer p) runId events integrity
                          (rp_checkpoint p)) (\<lambda>rebuilt.
                   Inr (store(runId \<mapsto> p\<lparr>rp_state := Some (rb_state rebuilt)\<rparr>), rb_state rebuilt)))
        | _ \<Rightarrow> Inl IntegrityBroken))"

datatype seal_error = StoreError RunStoreErrorCode | NotTerminal | NotVerified | AdministrationFailed

text \<open>\<open>admin_ok\<close>: whether the administration record could be appended; if not, the seal is removed.\<close>

definition sealRun :: "store_env \<Rightarrow> bool \<Rightarrow> run_store \<Rightarrow> string \<Rightarrow> (seal_error \<times> run_store) + run_store" where
  "sealRun env admin_ok store rid =
     (case assertSafeRunId rid of
        Inl e \<Rightarrow> Inl (StoreError e, store)
      | Inr runId \<Rightarrow>
          (case store runId of
             Some p \<Rightarrow>
               if rp_seal p \<noteq> None then Inr (store(runId \<mapsto> p\<lparr>rp_readMostly := True\<rparr>))
               else
                 (case materializeRunState env store runId of
                    Inl e \<Rightarrow> Inl (StoreError e, store)
                  | Inr (store1, state) \<Rightarrow>
                      if rs_status state \<noteq> Completed \<and> rs_status state \<noteq> Failed then Inl (NotTerminal, store1)
                      else
                        (case verifyParsedRunIntegrity (se_sha env) (rp_events p) of
                           Verified n h \<Rightarrow>
                             if admin_ok
                             then Inr (store1(runId \<mapsto> p\<lparr>rp_state := Some state, rp_readMostly := True, rp_seal := Some
                               \<lparr>sl_status = rs_status state, sl_integrityHead = h, sl_eventCount = n,
                                sl_state = state\<rparr>\<rparr>))
                             else Inl (AdministrationFailed, store1)
                         | _ \<Rightarrow> Inl (NotVerified, store1)))
           | None \<Rightarrow> Inl (StoreError IntegrityBroken, store)))"

end
