(* ===== verification/Run_Store_Safety.thy ===== *)
theory Run_Store_Safety
  imports Run_Store
begin

text \<open>
  The run store as a state machine: \<open>reachable\<close> stores are those that the operations of
  \<^const>\<open>createRun\<close>, \<^const>\<open>appendEvent\<close>, \<^const>\<open>materializeRunState\<close> and \<^const>\<open>sealRun\<close> can
  produce, failures included. In each of them every package is \<open>consistent\<close>.
\<close>

section \<open>Ledgers the store can read\<close>

definition good_event :: "store_env \<Rightarrow> string \<Rightarrow> nat \<Rightarrow> RuntimeEvent \<Rightarrow> bool" where
  "good_event env runId i e \<longleftrightarrow>
     ev_type e \<in> set KNOWN_RUNTIME_EVENT_TYPES \<and> parse_runtime_event env e = Inr e \<and>
     ev_runId e = runId \<and> ev_sequence e = i \<and> plain (ev_payload e)"

definition good_ledger :: "store_env \<Rightarrow> string \<Rightarrow> RuntimeEvent list \<Rightarrow> bool" where
  "good_ledger env runId es \<longleftrightarrow> (\<forall>i < length es. good_event env runId i (es ! i))"

lemma known_type_nonempty: "t \<in> set KNOWN_RUNTIME_EVENT_TYPES \<Longrightarrow> t \<noteq> []"
  by (auto simp: KNOWN_RUNTIME_EVENT_TYPES_def)

lemma parseEventLine_good: "good_event env runId i e \<Longrightarrow> parseEventLine env runId (i, e) = Inr e"
  by (auto simp: parseEventLine_def good_event_def dest: known_type_nonempty)

lemma parse_runtime_event_Inr:
  "parse_runtime_event env e = Inr e' \<longleftrightarrow> e' = e \<and> se_payload_ok env (ev_type e) (ev_payload e) \<and> envelope_ok env e"
  by (auto simp: parse_runtime_event_def)

lemma mapE_good:
  assumes "good_ledger env runId es"
  shows "mapE (parseEventLine env runId) (zip [0..<length es] es) = Inr es"
  using assms by (auto simp: mapE_Inr_iff list_all2_conv_all_nth good_ledger_def parseEventLine_good)

lemma good_ledger_snoc:
  "good_ledger env runId (es @ [e]) \<longleftrightarrow> good_ledger env runId es \<and> good_event env runId (length es) e"
  by (auto simp: good_ledger_def nth_append less_Suc_eq)

lemma good_ledger_sequence: "good_ledger env runId es \<Longrightarrow> validateEventSequence es"
  by (auto simp: good_ledger_def good_event_def validateEventSequence_def intro: nth_equalityI)

lemma good_ledger_events:
  "good_ledger env runId es \<Longrightarrow> e \<in> set es \<Longrightarrow> plain (ev_payload e) \<and> ev_id e \<noteq> [] \<and> ev_runId e = runId"
  by (auto simp: good_ledger_def good_event_def in_set_conv_nth parse_runtime_event_Inr envelope_ok_def)

lemma jsonl_plain: "plain (ev_payload e) \<Longrightarrow> jsonl e = e"
  by (simp add: jsonl_def plain_def)

section \<open>New events\<close>

lemma assertSafeRunId_Inr: "assertSafeRunId r = Inr x \<Longrightarrow> x = r"
  by (auto simp: assertSafeRunId_def nonEmpty_def split: if_splits)

lemma assertSafeRunId_again: "assertSafeRunId r = Inr x \<Longrightarrow> assertSafeRunId x = Inr x"
  using assertSafeRunId_Inr by fastforce

lemma buildEvent_Inr:
  assumes "buildEvent env uuid now input = Inr e"
  shows "ev_type e = bi_type input \<and> ev_type e \<in> set KNOWN_RUNTIME_EVENT_TYPES \<and> ev_runId e = bi_runId input \<and>
    ev_sequence e = bi_sequence input \<and> ev_payload e = bi_payload input \<and> ev_integrity e = None \<and>
    parse_runtime_event env e = Inr e"
proof -
  define F where "F tr eid runId ca co =
    \<lparr>ev_id = (case eid of None \<Rightarrow> uuid | Some i \<Rightarrow> i), ev_runId = runId, ev_type = bi_type input,
     ev_timestamp = (case bi_timestamp input of None \<Rightarrow> now | Some t \<Rightarrow> t),
     ev_sequence = bi_sequence input, ev_traceId = tr,
     ev_contractId = contractIdForEventType (bi_type input),
     ev_contractVersion = RUNTIME_EVENT_CONTRACT_VERSION, ev_schemaHash = se_schemaHash env (bi_type input),
     ev_causationId = ca, ev_correlationId = co, ev_payload = bi_payload input, ev_integrity = None\<rparr>"
    for tr eid runId ca co
  note b = assms [unfolded buildEvent_def, folded F_def]
  from b obtain tr where "(case tr of None \<Rightarrow> Inl InvalidEvent
      | Some tr \<Rightarrow> if bi_type input \<notin> set KNOWN_RUNTIME_EVENT_TYPES then Inl UnknownEventContract
          else bindE (nonEmpty_opt (bi_id input)) (\<lambda>eid. bindE (assertSafeRunId (bi_runId input)) (\<lambda>runId.
            bindE (nonEmpty_opt (bi_causationId input)) (\<lambda>ca. bindE (nonEmpty_opt (bi_correlationId input)) (\<lambda>co.
              parse_runtime_event env (F tr eid runId ca co)))))) = Inr e"
    unfolding bindE_Inr_iff by blast
  then obtain tr eid runId ca co where "bi_type input \<in> set KNOWN_RUNTIME_EVENT_TYPES"
    "assertSafeRunId (bi_runId input) = Inr runId" "parse_runtime_event env (F tr eid runId ca co) = Inr e"
    by (cases tr) (simp_all add: bindE_Inr_iff split: if_splits, blast)
  then show ?thesis
    by (auto simp: parse_runtime_event_Inr F_def dest: assertSafeRunId_Inr)
qed

lemma withIntegrity_Inr:
  "withIntegrity env e prev = Inr e' \<Longrightarrow>
   e' = e\<lparr>ev_integrity := Some (computeIntegrity (se_sha env) e prev)\<rparr> \<and> parse_runtime_event env e' = Inr e'"
  by (auto simp: withIntegrity_def parse_runtime_event_Inr)

lemma new_event_good:
  assumes "buildEvent env uuid now input = Inr b" "withIntegrity env b prev = Inr e" "plain (bi_payload input)"
  shows "good_event env (bi_runId input) (bi_sequence input) e"
    "e = b\<lparr>ev_integrity := Some (computeIntegrity (se_sha env) b prev)\<rparr>" "jsonl e = e"
  using buildEvent_Inr [OF assms(1)] withIntegrity_Inr [OF assms(2)] assms(3)
  by (auto simp: good_event_def intro: jsonl_plain)

section \<open>Consistent packages\<close>

text \<open>
  An empty package is what a failed creation leaves. Any other one has a readable verified ledger,
  its state file is the projection of that ledger, and its checkpoint that of a prefix. A seal
  records the head and the terminal state of the ledger, and comes with the read-mostly marker.
\<close>

definition seal_ok :: "store_env \<Rightarrow> RunPackage \<Rightarrow> SealRecord \<Rightarrow> bool" where
  "seal_ok env p sl \<longleftrightarrow>
     rp_readMostly p \<and> (sl_status sl = Completed \<or> sl_status sl = Failed) \<and>
     rs_status (sl_state sl) = sl_status sl \<and> rp_state p = Some (sl_state sl) \<and>
     verifyParsedRunIntegrity (se_sha env) (rp_events p) = Verified (sl_eventCount sl) (sl_integrityHead sl)"

definition consistent :: "store_env \<Rightarrow> string \<Rightarrow> RunPackage \<Rightarrow> bool" where
  "consistent env runId p \<longleftrightarrow>
     rp_reducer p = CurrentReducer \<and>
     (if rp_events p = [] then p = empty_package
      else
        good_ledger env runId (rp_events p) \<and>
        (\<exists>h. verifyParsedRunIntegrity (se_sha env) (rp_events p) = Verified (length (rp_events p)) h) \<and>
        (\<exists>s. rp_state p = Some s \<and> projectRunState (se_datetime env) (rp_events p) = Inr s) \<and>
        (\<forall>c. rp_checkpoint p = Some c \<longrightarrow> checkpoint_of (se_datetime env) (rp_events p) c) \<and>
        (\<forall>sl. rp_seal p = Some sl \<longrightarrow> seal_ok env p sl))"

definition store_consistent :: "store_env \<Rightarrow> run_store \<Rightarrow> bool" where
  "store_consistent env store \<longleftrightarrow> (\<forall>runId p. store runId = Some p \<longrightarrow> consistent env runId p)"

lemma store_consistent_update:
  "store_consistent env store \<Longrightarrow> consistent env runId p \<Longrightarrow> store_consistent env (store(runId \<mapsto> p))"
  by (simp add: store_consistent_def)

lemma readEvents_consistent:
  assumes "store runId = Some p" "consistent env runId p" "assertSafeRunId runId = Inr runId"
  shows "readEvents env store runId = Inr (rp_events p)"
proof (cases "rp_events p = []")
  case True
  with assms show ?thesis by (simp add: readEvents_def)
next
  case False
  with assms mapE_good show ?thesis by (simp add: readEvents_def consistent_def)
qed

lemma checkpoint_of_snoc: "checkpoint_of dt events c \<Longrightarrow> checkpoint_of dt (events @ [e]) c"
  by (auto simp: checkpoint_of_def)

lemma refresh_checkpoint_of:
  assumes "projectRunState dt events = Inr s" "refreshCheckpointAfterAppend dt events integrity s old = Some c"
    and "\<forall>c. old = Some c \<longrightarrow> checkpoint_of dt events c"
  shows "checkpoint_of dt events c"
proof -
  have "c = x \<or> old = Some c" if "writeCheckpoint dt x old = Some c" for x
    using that by (auto simp: writeCheckpoint_def parseCheckpointRecord_def split: option.splits if_splits)
  then show ?thesis
    using assms
    by (cases events) (fastforce simp: refreshCheckpointAfterAppend_def checkpoint_of_def Let_def
        split: if_splits RunIntegrityVerdict.splits)+
qed

section \<open>Every operation keeps the store consistent\<close>

definition plain_options :: "CreateRunOptions \<Rightarrow> bool" where
  "plain_options o' \<longleftrightarrow> plain (co_input o') \<and> (\<forall>b. co_initialBudgets o' = Some b \<longrightarrow> plain b)"

lemma plain_Undefined [simp]: "\<not> plain JUndefined"
  by (simp add: plain_def)

lemma createRun_options_Inr:
  assumes "createRun_options uuid opts = Inr (runId, input)" "plain_options opts"
  shows "bi_runId input = runId \<and> bi_sequence input = 0 \<and> plain (bi_payload input)"
proof -
  let ?b = "case co_initialBudgets opts of None \<Rightarrow> JObj [] | Some b \<Rightarrow> b"
  have b: "plain ?b" using assms(2) by (auto simp: plain_options_def plain_def split: option.split)
  then have d: "?b \<noteq> JUndefined" by auto
  have i: "plain (co_input opts)" "co_input opts \<noteq> JUndefined" using assms(2) by (auto simp: plain_options_def)
  have p: "plain (JObj [(''input'', co_input opts), (''harness'', JObj [(''id'', JStr x), (''version'', JStr y),
      (''specHash'', JStr z)]), (''initialPhase'', JStr w), (''budgets'', ?b)])" for x y z w
    using b d i by (simp add: plain_def)
  from assms(1) show ?thesis
    unfolding createRun_options_def bindE_Inr_iff Let_def
    by (elim exE conjE) (auto simp: bindE_Inr_iff p split: if_splits)
qed

lemma first_event_consistent:
  assumes "first_event env uuid now input = Inr (event, s)" "bi_sequence input = 0" "plain (bi_payload input)"
  shows "consistent env (bi_runId input) (empty_package\<lparr>rp_events := [jsonl event], rp_state := Some s\<rparr>)"
proof -
  obtain b where b: "buildEvent env uuid now input = Inr b" "withIntegrity env b EVENT_INTEGRITY_GENESIS_SEED = Inr event"
    "projectRunState (se_datetime env) [event] = Inr s"
    using assms(1) unfolding first_event_def bindE_Inr_iff by blast
  note new = new_event_good [OF b(1,2) assms(3)]
  have "verifyParsedRunIntegrity (se_sha env) [event] = Verified 1 (hashEventContent (se_sha env) event)"
    using new(2) by (simp add: verified_iff)
  moreover have "good_ledger env (bi_runId input) [event]"
    using new(1) assms(2) by (simp add: good_ledger_def)
  ultimately show ?thesis
    using b(3) new(3) by (simp add: consistent_def empty_package_def)
qed

lemma createRun_consistent:
  assumes "store_consistent env store" "plain_options opts"
    and "createRun env uuid now store opts = Inl (x, store') \<or> createRun env uuid now store opts = Inr store'"
  shows "store_consistent env store'"
proof (cases "createRun_options uuid opts")
  case (Inl y)
  with assms show ?thesis by (auto simp: createRun_def)
next
  case (Inr ri)
  obtain runId input where ri: "ri = (runId, input)" by (cases ri)
  note opts = createRun_options_Inr [OF Inr [unfolded ri] assms(2)]
  have empty: "consistent env runId empty_package" by (simp add: consistent_def empty_package_def)
  show ?thesis
  proof (cases "store runId = None")
    case False
    with assms Inr ri show ?thesis by (auto simp: createRun_def)
  next
    case True
    show ?thesis
    proof (cases "first_event env (uuid 2) now input")
      case (Inl y)
      with True assms Inr ri empty show ?thesis by (auto simp: createRun_def intro: store_consistent_update)
    next
      case fe: (Inr es)
      obtain event s where es: "es = (event, s)" by (cases es)
      from first_event_consistent [OF fe [unfolded es]] opts
      have "consistent env runId (empty_package\<lparr>rp_events := [jsonl event], rp_state := Some s\<rparr>)" by simp
      with True fe es assms Inr ri show ?thesis by (auto simp: createRun_def intro: store_consistent_update)
    qed
  qed
qed

lemma rebuild_consistent:
  assumes "good_ledger env runId events" "\<forall>c. file = Some c \<longrightarrow> checkpoint_of (se_datetime env) events c"
    and "integrity = Verified n h"
    and "rebuildStateForPackage (se_datetime env) CurrentReducer runId events integrity file = Inr r"
  shows "projectRunState (se_datetime env) events = Inr (rb_state r)"
proof -
  have "rebuilt_state (rebuildStateFromCheckpoint (se_datetime env) runId events integrity file) =
      projectRunState (se_datetime env) events"
    using good_ledger_events [OF assms(1)] good_ledger_sequence [OF assms(1)] assms(2,3)
    by (intro rebuild_is_projection) auto
  with assms(4) show ?thesis by (simp add: rebuildStateForPackage_def)
qed

lemma appended_consistent:
  assumes "consistent env runId p" "rp_events p \<noteq> []" "\<not> rp_readMostly p"
    and "verifyParsedRunIntegrity (se_sha env) (rp_events p) = Verified n h"
    and "buildEvent env uuid now (append_input opts runId (rp_events p)) = Inr b" "withIntegrity env b h = Inr event"
    and "plain (ao_payload opts)"
  defines "events \<equiv> rp_events p @ [event]"
  defines "integrity \<equiv> verifyParsedRunIntegrity (se_sha env) events"
  assumes "rebuildStateForPackage (se_datetime env) (rp_reducer p) runId events integrity (rp_checkpoint p) = Inr r"
  shows "consistent env runId (p\<lparr>rp_events := rp_events p @ [jsonl event], rp_state := Some (rb_state r),
    rp_checkpoint := refreshCheckpointAfterAppend (se_datetime env) events integrity (rb_state r) (rp_checkpoint p)\<rparr>)"
proof -
  have in_fields: "bi_runId (append_input opts runId (rp_events p)) = runId"
    "bi_sequence (append_input opts runId (rp_events p)) = length (rp_events p)"
    "bi_payload (append_input opts runId (rp_events p)) = ao_payload opts"
    by (simp_all add: append_input_def)
  note new = new_event_good [OF assms(5,6), unfolded in_fields, OF assms(7)]
  from assms(1-3) have "rp_seal p = None"
    by (cases "rp_seal p") (auto simp: consistent_def seal_ok_def)
  from assms(1,2) have p: "rp_reducer p = CurrentReducer" "good_ledger env runId (rp_events p)"
    "\<forall>c. rp_checkpoint p = Some c \<longrightarrow> checkpoint_of (se_datetime env) (rp_events p) c"
    by (auto simp: consistent_def)
  have good: "good_ledger env runId events" using p(2) new(1) by (simp add: events_def good_ledger_snoc)
  have ver: "integrity = Verified (length events) (hashEventContent (se_sha env) b)"
    using assms(4) new(2) by (simp add: integrity_def events_def verified_iff chained_append head_of_def)
  have cps: "\<forall>c. rp_checkpoint p = Some c \<longrightarrow> checkpoint_of (se_datetime env) events c"
    using p(3) by (auto simp: events_def intro: checkpoint_of_snoc)
  have proj: "projectRunState (se_datetime env) events = Inr (rb_state r)"
    using rebuild_consistent [OF good cps ver] assms(10) p(1) by simp
  have "events \<noteq> []" by (simp add: events_def)
  then show ?thesis
    using p(1) good ver proj new(3) refresh_checkpoint_of [OF proj _ cps] \<open>rp_seal p = None\<close>
    by (auto simp: consistent_def events_def [symmetric] integrity_def)
qed

lemma appendEvent_Inr:
  assumes "appendEvent env uuid now store opts = Inr store'" "store_consistent env store"
  obtains runId p n h b event r where "assertSafeRunId (ao_runId opts) = Inr runId" "store runId = Some p"
    "\<not> rp_readMostly p" "rp_events p \<noteq> []"
    "verifyParsedRunIntegrity (se_sha env) (rp_events p) = Verified n h"
    "buildEvent env uuid now (append_input opts runId (rp_events p)) = Inr b" "withIntegrity env b h = Inr event"
    "rebuildStateForPackage (se_datetime env) (rp_reducer p) runId (rp_events p @ [event])
       (verifyParsedRunIntegrity (se_sha env) (rp_events p @ [event])) (rp_checkpoint p) = Inr r"
    "store' = store(runId \<mapsto> p\<lparr>rp_events := rp_events p @ [jsonl event], rp_state := Some (rb_state r),
       rp_checkpoint := refreshCheckpointAfterAppend (se_datetime env) (rp_events p @ [event])
         (verifyParsedRunIntegrity (se_sha env) (rp_events p @ [event])) (rb_state r) (rp_checkpoint p)\<rparr>)"
proof (cases "assertSafeRunId (ao_runId opts)")
  case (Inl e)
  with assms(1) show thesis by (simp add: appendEvent_def)
next
  case run: (Inr runId)
  show thesis
  proof (cases "store runId")
    case None
    with assms(1) run assertSafeRunId_again [OF run] show thesis
      by (simp add: appendEvent_def readEvents_def)
  next
    case p: (Some p)
    with assms(2) have c: "consistent env runId p" by (simp add: store_consistent_def)
    note rd = readEvents_consistent [of store, OF p c assertSafeRunId_again [OF run]]
    have nr: "\<not> rp_readMostly p" using assms(1) run p by (auto simp: appendEvent_def)
    have ne: "rp_events p \<noteq> []"
      using assms(1) run p nr rd by (auto simp: appendEvent_def verifyParsedRunIntegrity_def)
    with c obtain h where v: "verifyParsedRunIntegrity (se_sha env) (rp_events p) = Verified (length (rp_events p)) h"
      by (auto simp: consistent_def)
    have "\<exists>b event r. buildEvent env uuid now (append_input opts runId (rp_events p)) = Inr b \<and>
        withIntegrity env b h = Inr event \<and>
        rebuildStateForPackage (se_datetime env) (rp_reducer p) runId (rp_events p @ [event])
          (verifyParsedRunIntegrity (se_sha env) (rp_events p @ [event])) (rp_checkpoint p) = Inr r \<and>
        store' = store(runId \<mapsto> p\<lparr>rp_events := rp_events p @ [jsonl event], rp_state := Some (rb_state r),
          rp_checkpoint := refreshCheckpointAfterAppend (se_datetime env) (rp_events p @ [event])
            (verifyParsedRunIntegrity (se_sha env) (rp_events p @ [event])) (rb_state r) (rp_checkpoint p)\<rparr>)"
      using assms(1) run p nr rd v by (auto simp: appendEvent_def bindE_Inr_iff Let_def)
    with run p nr ne v that show thesis by blast
  qed
qed

lemma appendEvent_consistent:
  assumes "store_consistent env store" "plain (ao_payload opts)" "appendEvent env uuid now store opts = Inr store'"
  shows "store_consistent env store'"
proof (rule appendEvent_Inr [OF assms(3,1)])
  fix runId p n h b event r
  assume a: "store runId = Some p" "rp_events p \<noteq> []" "\<not> rp_readMostly p"
    "verifyParsedRunIntegrity (se_sha env) (rp_events p) = Verified n h"
    "buildEvent env uuid now (append_input opts runId (rp_events p)) = Inr b" "withIntegrity env b h = Inr event"
    "rebuildStateForPackage (se_datetime env) (rp_reducer p) runId (rp_events p @ [event])
       (verifyParsedRunIntegrity (se_sha env) (rp_events p @ [event])) (rp_checkpoint p) = Inr r"
    and store': "store' = store(runId \<mapsto> p\<lparr>rp_events := rp_events p @ [jsonl event], rp_state := Some (rb_state r),
       rp_checkpoint := refreshCheckpointAfterAppend (se_datetime env) (rp_events p @ [event])
         (verifyParsedRunIntegrity (se_sha env) (rp_events p @ [event])) (rb_state r) (rp_checkpoint p)\<rparr>)"
  have "consistent env runId p" using assms(1) a(1) by (simp add: store_consistent_def)
  from appended_consistent [OF this a(2-6) assms(2) a(7)] assms(1) show ?thesis
    unfolding store' by (intro store_consistent_update)
qed

lemma materialize_Inr:
  assumes "materializeRunState env store rid = Inr (store', s)" "store_consistent env store"
  obtains p where "store rid = Some p" "rp_events p \<noteq> []" "rp_state p = Some s"
    "store' = store" "projectRunState (se_datetime env) (rp_events p) = Inr s"
proof (cases "assertSafeRunId rid")
  case (Inl e)
  with assms(1) show thesis by (simp add: materializeRunState_def)
next
  case (Inr r)
  then have run: "assertSafeRunId rid = Inr rid" using assertSafeRunId_Inr by blast
  obtain p where p: "store rid = Some p"
    using assms(1) run by (cases "store rid") (auto simp: materializeRunState_def)
  with assms(2) have c: "consistent env rid p" by (simp add: store_consistent_def)
  note rd = readEvents_consistent [of store, OF p c run]
  have ne: "rp_events p \<noteq> []"
    using assms(1) run p rd by (auto simp: materializeRunState_def verifyParsedRunIntegrity_def)
  with c obtain h t where v: "verifyParsedRunIntegrity (se_sha env) (rp_events p) = Verified (length (rp_events p)) h"
    and t: "rp_state p = Some t" "projectRunState (se_datetime env) (rp_events p) = Inr t"
    and g: "good_ledger env rid (rp_events p)" "rp_reducer p = CurrentReducer"
      "\<forall>c. rp_checkpoint p = Some c \<longrightarrow> checkpoint_of (se_datetime env) (rp_events p) c"
    by (auto simp: consistent_def)
  obtain r where r: "rebuildStateForPackage (se_datetime env) CurrentReducer rid (rp_events p)
      (Verified (length (rp_events p)) h) (rp_checkpoint p) = Inr r"
    and st: "store' = store(rid \<mapsto> p\<lparr>rp_state := Some (rb_state r)\<rparr>)" "s = rb_state r"
    using assms(1) run p rd v g(2) by (auto simp: materializeRunState_def bindE_Inr_iff)
  from rebuild_consistent [OF g(1,3) refl r] t st have "s = t" by simp
  then have "store' = store" using st t p by (auto simp: fun_eq_iff)
  with \<open>s = t\<close> that p ne t show thesis by blast
qed

lemma sealRun_consistent:
  assumes "store_consistent env store"
    and "sealRun env ok store rid = Inl (x, store') \<or> sealRun env ok store rid = Inr store'"
  shows "store_consistent env store'"
proof (cases "assertSafeRunId rid")
  case (Inl e)
  with assms show ?thesis by (auto simp: sealRun_def)
next
  case (Inr r)
  then have run: "assertSafeRunId rid = Inr rid" using assertSafeRunId_Inr by blast
  show ?thesis
  proof (cases "store rid")
    case None
    with assms run show ?thesis by (auto simp: sealRun_def)
  next
    case p: (Some p)
    with assms(1) have c: "consistent env rid p" by (simp add: store_consistent_def)
    show ?thesis
    proof (cases "rp_seal p")
      case (Some sl)
      have "rp_events p \<noteq> []" using c Some by (auto simp: consistent_def empty_package_def)
      with c have "consistent env rid (p\<lparr>rp_readMostly := True\<rparr>)"
        by (auto simp: consistent_def seal_ok_def)
      with assms run p Some show ?thesis by (auto simp: sealRun_def intro: store_consistent_update)
    next
      case no: None
      show ?thesis
      proof (cases "materializeRunState env store rid")
        case (Inl e)
        with assms run p no show ?thesis by (auto simp: sealRun_def)
      next
        case m: (Inr ss)
        obtain s1 s where ss: "ss = (s1, s)" by (cases ss)
        from materialize_Inr [OF m [unfolded ss] assms(1)] p
        have s: "rp_events p \<noteq> []" "rp_state p = Some s" "s1 = store" by auto
        obtain h where v: "verifyParsedRunIntegrity (se_sha env) (rp_events p) = Verified (length (rp_events p)) h"
          using c s(1) by (auto simp: consistent_def)
        let ?p = "p\<lparr>rp_state := Some s, rp_readMostly := True, rp_seal := Some
          \<lparr>sl_status = rs_status s, sl_integrityHead = h, sl_eventCount = length (rp_events p), sl_state = s\<rparr>\<rparr>"
        have "consistent env rid ?p" if "rs_status s = Completed \<or> rs_status s = Failed"
          using c s v that by (auto simp: consistent_def seal_ok_def)
        with assms run p no m ss s(3) v show ?thesis
          by (auto simp: sealRun_def intro: store_consistent_update split: if_splits)
      qed
    qed
  qed
qed

section \<open>Reachable stores\<close>

inductive reachable :: "store_env \<Rightarrow> run_store \<Rightarrow> bool" for env where
  init: "reachable env Map.empty"
| create: "reachable env s \<Longrightarrow> plain_options opts \<Longrightarrow> createRun env uuid now s opts = Inr s' \<Longrightarrow> reachable env s'"
| create_failed: "reachable env s \<Longrightarrow> plain_options opts \<Longrightarrow>
    createRun env uuid now s opts = Inl (x, s') \<Longrightarrow> reachable env s'"
| append: "reachable env s \<Longrightarrow> plain (ao_payload a) \<Longrightarrow> appendEvent env u now s a = Inr s' \<Longrightarrow> reachable env s'"
| materialize: "reachable env s \<Longrightarrow> materializeRunState env s rid = Inr (s', st) \<Longrightarrow> reachable env s'"
| seal: "reachable env s \<Longrightarrow> sealRun env ok s rid = Inr s' \<Longrightarrow> reachable env s'"
| seal_failed: "reachable env s \<Longrightarrow> sealRun env ok s rid = Inl (y, s') \<Longrightarrow> reachable env s'"

lemma reachable_consistent: "reachable env store \<Longrightarrow> store_consistent env store"
proof (induction rule: reachable.induct)
  case init
  show ?case by (simp add: store_consistent_def)
next
  case (materialize s rid s' st)
  then show ?case using materialize_Inr by metis
qed (use createRun_consistent appendEvent_consistent sealRun_consistent in blast)+

section \<open>Properties\<close>


text \<open>
  a sealed run is terminal and frozen: the seal records the status, the state, the number of events
  and the head hash of the ledger, and every further append is refused.
\<close>

theorem sealed_run_is_frozen:
  assumes "reachable env store" "store runId = Some p" "rp_seal p = Some sl"
    and "ao_runId a = runId" "assertSafeRunId runId = Inr runId"
  shows "(sl_status sl = Completed \<or> sl_status sl = Failed) \<and> rp_state p = Some (sl_state sl) \<and>
    verifyParsedRunIntegrity (se_sha env) (rp_events p) = Verified (sl_eventCount sl) (sl_integrityHead sl) \<and>
    appendEvent env uuid now store a = Inl RunSealed"
proof -
  have c: "consistent env runId p"
    using reachable_consistent [OF assms(1)] assms(2) by (simp add: store_consistent_def)
  with assms(3) have "seal_ok env p sl" by (auto simp: consistent_def empty_package_def split: if_splits)
  then show ?thesis using assms(2,4,5) by (simp add: seal_ok_def appendEvent_def)
qed

text \<open>
  the store is append-only: a successful append leaves every other run as it is and adds exactly
  one event, which the next reader sees as it was hashed, at the end of the ledger.
\<close>

theorem append_only:
  assumes "reachable env store" "plain (ao_payload a)" "appendEvent env uuid now store a = Inr store'"
  shows "\<exists>p p' e. store (ao_runId a) = Some p \<and> store' (ao_runId a) = Some p' \<and>
    rp_events p' = rp_events p @ [e] \<and> ev_type e = ao_type a \<and> ev_payload e = ao_payload a \<and>
    (\<forall>r. r \<noteq> ao_runId a \<longrightarrow> store' r = store r)"
proof (rule appendEvent_Inr [OF assms(3) reachable_consistent [OF assms(1)]])
  fix runId p n h b event r
  assume run: "assertSafeRunId (ao_runId a) = Inr runId" and p: "store runId = Some p"
    and b: "buildEvent env uuid now (append_input a runId (rp_events p)) = Inr b" "withIntegrity env b h = Inr event"
    and store': "store' = store(runId \<mapsto> p\<lparr>rp_events := rp_events p @ [jsonl event], rp_state := Some (rb_state r),
       rp_checkpoint := refreshCheckpointAfterAppend (se_datetime env) (rp_events p @ [event])
         (verifyParsedRunIntegrity (se_sha env) (rp_events p @ [event])) (rb_state r) (rp_checkpoint p)\<rparr>)"
  have "plain (bi_payload (append_input a runId (rp_events p)))" using assms(2) by (simp add: append_input_def)
  note new = new_event_good(2,3) [OF b this]
  have "ev_type event = ao_type a" "ev_payload event = ao_payload a"
    using buildEvent_Inr [OF b(1)] new(1) by (simp_all add: append_input_def)
  then show ?thesis using assertSafeRunId_Inr [OF run] p store' new(2) by auto
qed

text \<open>
  The hash of an event does not change when its line is written to the ledger and read back, so an
  envelope computed in memory still fits the stored event.
\<close>

theorem hash_survives_round_trip:
  assumes "ev_payload e \<noteq> JUndefined"
  shows "hashEventContent sha (jsonl e) = hashEventContent sha e"
  using assms
  by (simp add: hashEventContent_def canonicalizeEventContent_def canonicalJsonStringify_def event_content_def
      jsonl_def normalizeJsonValue_defined normalizeJsonValue_idem split: option.split)

theorem hash_survives_round_trip_witness:
  "hashEventContent (\<lambda>s. s) (jsonl (ex_run_event 1 ''tool.completed'' (JObj [(''a'', JUndefined), (''b'', JNull)]))) =
   hashEventContent (\<lambda>s. s) (ex_run_event 1 ''tool.completed'' (JObj [(''a'', JUndefined), (''b'', JNull)]))"
  by (rule hash_survives_round_trip) (simp add: ex_run_event_def)

section \<open>Instances\<close>

definition ex_env :: store_env where
  "ex_env = \<lparr>se_sha = (\<lambda>s. ''00''), se_datetime = (\<lambda>s. True), se_payload_ok = (\<lambda>t v. True),
     se_schemaHash = (\<lambda>t. ''h'')\<rparr>"

definition ex_create :: CreateRunOptions where
  "ex_create =
     \<lparr>co_runId = Some ''run'', co_traceId = None,
      co_input = JObj [(''task'', JStr ''t''), (''harnessId'', JStr ''h''), (''host'', JObj [(''kind'', JStr ''cli'')])],
      co_harness = JObj [(''id'', JStr ''h''), (''version'', JStr ''1''), (''specHash'', JStr ''s'')],
      co_initialPhase = None, co_initialBudgets = None, co_timestamp = None\<rparr>"

definition ex_append :: AppendEventOptions where
  "ex_append =
     \<lparr>ao_runId = ''run'', ao_id = None, ao_type = ''run.completed'', ao_payload = JObj [], ao_traceId = None,
      ao_causationId = None, ao_correlationId = None, ao_timestamp = None\<rparr>"

definition ex_store :: "RunStoreErrorCode + run_store" where
  "ex_store =
     (case createRun ex_env (\<lambda>n. ''u'') ''now'' (\<lambda>r. None) ex_create of
        Inl (e, s) \<Rightarrow> Inl e
      | Inr s \<Rightarrow> Inr s)"

definition ex_completed :: "RunStoreErrorCode + run_store" where
  "ex_completed = bindE ex_store (\<lambda>s. appendEvent ex_env ''u'' ''now'' s ex_append)"

definition ex_sealed :: "RunStoreErrorCode + run_store" where
  "ex_sealed = bindE ex_completed (\<lambda>s.
     case sealRun ex_env True s ''run'' of Inl x \<Rightarrow> Inl InvalidEvent | Inr s' \<Rightarrow> Inr s')"

lemma ex_sealed_ok:
  "case ex_sealed of Inl e \<Rightarrow> False
   | Inr s \<Rightarrow> (case s ''run'' of None \<Rightarrow> False | Some p \<Rightarrow> length (rp_events p) = 2 \<and> rp_seal p \<noteq> None)"
  by code_simp

lemma ex_reachable:
  obtains s1 s2 s3 p where "reachable ex_env s1" "appendEvent ex_env ''u'' ''now'' s1 ex_append = Inr s2"
    "reachable ex_env s3" "s3 ''run'' = Some p" "length (rp_events p) = 2" "rp_seal p \<noteq> None"
proof -
  obtain s3 p where s3: "ex_sealed = Inr s3" "s3 ''run'' = Some p" "length (rp_events p) = 2" "rp_seal p \<noteq> None"
    using ex_sealed_ok by (auto split: sum.splits option.splits)
  from s3(1) [unfolded ex_sealed_def bindE_Inr_iff] obtain s2 where s2: "ex_completed = Inr s2"
    and sc: "(case sealRun ex_env True s2 ''run'' of Inl x \<Rightarrow> Inl InvalidEvent | Inr s' \<Rightarrow> Inr s') = Inr s3"
    by blast
  have sealed: "sealRun ex_env True s2 ''run'' = Inr s3"
    using sc by (cases "sealRun ex_env True s2 ''run''") simp_all
  from s2 [unfolded ex_completed_def bindE_Inr_iff]
  obtain s1 where s1: "ex_store = Inr s1" "appendEvent ex_env ''u'' ''now'' s1 ex_append = Inr s2"
    by blast
  then have "createRun ex_env (\<lambda>n. ''u'') ''now'' Map.empty ex_create = Inr s1"
    by (cases "createRun ex_env (\<lambda>n. ''u'') ''now'' Map.empty ex_create") (auto simp: ex_store_def)
  moreover have "plain_options ex_create" by (simp add: plain_options_def ex_create_def plain_def)
  ultimately have r1: "reachable ex_env s1" by (rule create [OF init, rotated])
  have "plain (ao_payload ex_append)" by (simp add: ex_append_def plain_def)
  from append [OF r1 this s1(2)] have "reachable ex_env s2" .
  from seal [OF this sealed] r1 s1(2) s3 that show thesis by blast
qed


theorem sealed_run_is_frozen_witness:
  "\<exists>store. reachable ex_env store \<and> appendEvent ex_env ''u'' ''now'' store ex_append = Inl RunSealed"
proof (rule ex_reachable)
  fix s1 s2 s3 p
  assume r: "reachable ex_env s3" "s3 ''run'' = Some p" "rp_seal p \<noteq> None"
  then obtain sl where sl: "rp_seal p = Some sl" by auto
  have "ao_runId ex_append = ''run''" by (simp add: ex_append_def)
  moreover have "assertSafeRunId ''run'' = Inr ''run''" by (simp add: assertSafeRunId_def nonEmpty_def)
  ultimately show ?thesis using sealed_run_is_frozen [OF r(1,2) sl] r(1) by blast
qed

theorem append_only_witness:
  "\<exists>store store' p p' e. reachable ex_env store \<and> appendEvent ex_env ''u'' ''now'' store ex_append = Inr store' \<and>
     store ''run'' = Some p \<and> store' ''run'' = Some p' \<and> rp_events p' = rp_events p @ [e]"
proof (rule ex_reachable)
  fix s1 s2 s3 p
  assume r: "reachable ex_env s1" "appendEvent ex_env ''u'' ''now'' s1 ex_append = Inr s2"
  have "plain (ao_payload ex_append)" "ao_runId ex_append = ''run''" by (simp_all add: ex_append_def plain_def)
  with append_only [OF r(1) _ r(2)] r show ?thesis by auto
qed

end
