(* ===== verification/Evidence_Schemas.thy ===== *)
theory Evidence_Schemas
  imports Js_Readers
begin

text \<open>
  The contracts of evidence and artifacts from \<^verbatim>\<open>schemas/src/index.ts\<close>: evidence records, artifact
  records, their claims, and the refinements that relate their fields. A refinement is the list of the
  messages it adds, in the order of the code; a schema accepts a value of the right shape to which its
  refinement adds nothing.

  The result of this theory: a value that is accepted is accepted again after it was written as JSON and
  read back, where properties that are \<^verbatim>\<open>undefined\<close> disappear.
\<close>

section \<open>Enumerations\<close>

definition ClaimLevelSchema :: "json \<Rightarrow> bool" where
  "ClaimLevelSchema = z_enum [''source_fact'', ''derived_fact'', ''inference'', ''assumption'', ''human_decision'', ''unknown'']"

definition EvidenceClassSchema :: "json \<Rightarrow> bool" where
  "EvidenceClassSchema =
     z_enum [''source_fact'', ''derived_fact'', ''inference'', ''assumption'', ''human_decision'', ''unknown'', ''conflict'']"

definition EvidenceConfidenceSchema :: "json \<Rightarrow> bool" where
  "EvidenceConfidenceSchema = z_enum [''low'', ''medium'', ''high'']"

definition SourceAuthoritySchema :: "json \<Rightarrow> bool" where
  "SourceAuthoritySchema = z_enum [''user'', ''repo'', ''design'', ''external'', ''model'', ''generated'']"

definition RedactionClassSchema :: "json \<Rightarrow> bool" where
  "RedactionClassSchema = z_enum [''model'', ''adapter'', ''operator'', ''audit'', ''restricted'', ''secret'']"

definition ArtifactTypeSchema :: "json \<Rightarrow> bool" where
  "ArtifactTypeSchema = z_enum [''run-input'', ''source-inventory'', ''evidence-graph'', ''plan'', ''eval-report'', ''summary'']"

definition claimLevelRequiresEvidence :: "string \<Rightarrow> bool" where
  "claimLevelRequiresEvidence level \<longleftrightarrow> level \<in> {''source_fact'', ''derived_fact'', ''inference'', ''human_decision''}"

definition evidenceClassRequiresSourceRefs :: "string \<Rightarrow> bool" where
  "evidenceClassRequiresSourceRefs c \<longleftrightarrow> c \<in> {''source_fact'', ''derived_fact''}"

definition isTrustedSourceAuthority :: "string \<Rightarrow> bool" where
  "isTrustedSourceAuthority a \<longleftrightarrow> a \<in> {''user'', ''repo'', ''design'', ''external''}"

section \<open>Combinators\<close>

definition z_record :: "(json \<Rightarrow> bool) \<Rightarrow> (json \<Rightarrow> bool) \<Rightarrow> json \<Rightarrow> bool" where
  "z_record K P v = (case v of JObj ps \<Rightarrow> list_all (\<lambda>p. K (JStr (fst p)) \<and> P (snd p)) ps | _ \<Rightarrow> False)"

definition z_datetime :: "(string \<Rightarrow> bool) \<Rightarrow> json \<Rightarrow> bool" where
  "z_datetime dt v = (case v of JStr s \<Rightarrow> dt s | _ \<Rightarrow> False)"

definition RedactionPolicySchema :: "json \<Rightarrow> bool" where
  "RedactionPolicySchema v \<longleftrightarrow> RedactionClassSchema v \<or> z_record nonEmptyString RedactionClassSchema v"

text \<open>A message if a condition holds, and a field that is not there.\<close>

definition issue :: "bool \<Rightarrow> string \<Rightarrow> string list" where
  "issue b m = (if b then [m] else [])"

definition lacks :: "json \<Rightarrow> string \<Rightarrow> bool" where
  "lacks v k \<longleftrightarrow> js_get v k = JUndefined"

definition text_of :: "json \<Rightarrow> string \<Rightarrow> string" where
  "text_of v k = the_str (fstr v k)"

definition items_of :: "json \<Rightarrow> string \<Rightarrow> json list" where
  "items_of v k = js_elems (js_get v k)"

text \<open>\<^verbatim>\<open>{ ...v, k: w }\<close>.\<close>

definition with_field :: "string \<Rightarrow> json \<Rightarrow> json \<Rightarrow> json" where
  "with_field k w v = JObj (map_set k w (case v of JObj ps \<Rightarrow> ps | _ \<Rightarrow> []))"

section \<open>Evidence\<close>

definition source_ref_issues :: "json \<Rightarrow> string list" where
  "source_ref_issues r =
     issue (lacks r ''id'' \<and> lacks r ''uri'' \<and> lacks r ''path'' \<and> lacks r ''contentHash'')
       ''Source refs must include id, uri, path, or contentHash'' @
     issue (text_of r ''authority'' = ''external'' \<and> lacks r ''externalTrustPolicy'')
       ''external source refs must include externalTrustPolicy''"

definition source_ref_shape :: "(string \<Rightarrow> bool) \<Rightarrow> (string \<times> (json \<Rightarrow> bool)) list" where
  "source_ref_shape dt =
     [(''id'', z_optional nonEmptyString), (''uri'', z_optional nonEmptyString), (''path'', z_optional nonEmptyString),
      (''locator'', z_optional nonEmptyString), (''contentHash'', z_optional nonEmptyString),
      (''authority'', SourceAuthoritySchema), (''captureToolCallId'', z_optional nonEmptyString),
      (''redactionClass'', RedactionClassSchema), (''snapshotTimestamp'', z_optional (z_datetime dt)),
      (''externalTrustPolicy'', z_optional nonEmptyString), (''metadata'', z_optional MetadataSchema)]"

definition SourceRefObjectSchema :: "(string \<Rightarrow> bool) \<Rightarrow> json \<Rightarrow> bool" where
  "SourceRefObjectSchema dt r \<longleftrightarrow> z_strict (source_ref_shape dt) r \<and> source_ref_issues r = []"

definition SourceRefSchema :: "(string \<Rightarrow> bool) \<Rightarrow> json \<Rightarrow> bool" where
  "SourceRefSchema dt r \<longleftrightarrow> nonEmptyString r \<or> SourceRefObjectSchema dt r"

definition CreatedBySchema :: "json \<Rightarrow> bool" where
  "CreatedBySchema = z_strict
     [(''phase'', nonEmptyString), (''actionId'', nonEmptyString), (''toolCallId'', z_optional nonEmptyString)]"

definition sourceRefCarriesTrustedAuthority :: "json \<Rightarrow> bool" where
  "sourceRefCarriesTrustedAuthority r \<longleftrightarrow> js_str r = None \<and> isTrustedSourceAuthority (text_of r ''authority'')"

definition evidence_shape :: "(string \<Rightarrow> bool) \<Rightarrow> (string \<times> (json \<Rightarrow> bool)) list" where
  "evidence_shape dt =
     [(''id'', nonEmptyString), (''class'', EvidenceClassSchema), (''claim'', nonEmptyString),
      (''sourceRefs'', z_array (SourceRefSchema dt)), (''confidence'', EvidenceConfidenceSchema),
      (''authority'', SourceAuthoritySchema), (''createdBy'', CreatedBySchema),
      (''extractionMethod'', z_optional nonEmptyString), (''validationStatus'', z_optional nonEmptyString),
      (''referencedArtifactRefs'', z_optional (z_array nonEmptyString)),
      (''referencedToolCallIds'', z_optional (z_array nonEmptyString)),
      (''redactionPolicy'', RedactionPolicySchema), (''conflictGroup'', z_optional nonEmptyString),
      (''unknownReason'', z_optional nonEmptyString), (''supersedesEvidenceId'', z_optional nonEmptyString),
      (''supersededByEvidenceId'', z_optional nonEmptyString), (''supersessionReason'', z_optional nonEmptyString),
      (''metadata'', z_optional MetadataSchema)]"

definition evidence_issues :: "json \<Rightarrow> string list" where
  "evidence_issues r =
     (let c = text_of r ''class''; refs = items_of r ''sourceRefs'' in
      issue (evidenceClassRequiresSourceRefs c \<and> refs = []) (c @ '' evidence must include sourceRefs'') @
      (if c = ''conflict''
       then issue (lacks r ''conflictGroup'') ''conflict evidence must include conflictGroup'' @
            issue (length refs < 2) ''conflict evidence must include at least two sourceRefs''
       else []) @
      issue (c = ''unknown'' \<and> lacks r ''unknownReason'') ''unknown evidence must include unknownReason'' @
      issue (c = ''source_fact'' \<and> \<not> isTrustedSourceAuthority (text_of r ''authority''))
        ''source_fact evidence cannot use model or generated authority'' @
      (if c = ''source_fact''
       then map (\<lambda>_. ''source_fact evidence sourceRefs must carry trusted authority'')
              (filter (\<lambda>x. \<not> sourceRefCarriesTrustedAuthority x) refs)
       else []))"

definition EvidenceRecordSchema :: "(string \<Rightarrow> bool) \<Rightarrow> json \<Rightarrow> bool" where
  "EvidenceRecordSchema dt r \<longleftrightarrow> z_strict (evidence_shape dt) r \<and> evidence_issues r = []"

section \<open>Artifacts\<close>

definition ArtifactFileRefSchema :: "json \<Rightarrow> bool" where
  "ArtifactFileRefSchema = z_strict
     [(''uri'', nonEmptyString), (''path'', z_optional nonEmptyString), (''contentType'', z_optional nonEmptyString),
      (''contentHash'', z_optional nonEmptyString), (''metadata'', z_optional MetadataSchema)]"

definition ArtifactProducedBySchema :: "json \<Rightarrow> bool" where
  "ArtifactProducedBySchema = z_strict
     [(''phase'', nonEmptyString), (''actionId'', nonEmptyString), (''toolCallId'', z_optional nonEmptyString)]"

definition claim_shape :: "(string \<times> (json \<Rightarrow> bool)) list" where
  "claim_shape =
     [(''claim'', nonEmptyString), (''claimLevel'', ClaimLevelSchema), (''evidenceRefs'', z_array nonEmptyString),
      (''confidence'', EvidenceConfidenceSchema), (''authority'', SourceAuthoritySchema),
      (''owningArtifactId'', nonEmptyString), (''fieldPath'', z_optional nonEmptyString),
      (''owningSection'', z_optional nonEmptyString),
      (''verificationStatus'', z_enum [''unverified'', ''supported'', ''unsupported'', ''conflicted'', ''unknown'']),
      (''redactionPolicy'', RedactionPolicySchema), (''metadata'', z_optional MetadataSchema)]"

definition claim_issues :: "json \<Rightarrow> string list" where
  "claim_issues c =
     (let level = text_of c ''claimLevel'' in
      issue (lacks c ''fieldPath'' \<and> lacks c ''owningSection'') ''important claims must include fieldPath or owningSection'' @
      issue (claimLevelRequiresEvidence level \<and> items_of c ''evidenceRefs'' = [])
        (level @ '' important claims must include evidenceRefs'') @
      issue (level = ''source_fact'' \<and> \<not> isTrustedSourceAuthority (text_of c ''authority''))
        ''source_fact claims cannot use model or generated authority'')"

definition ArtifactClaimSchema :: "json \<Rightarrow> bool" where
  "ArtifactClaimSchema c \<longleftrightarrow> z_strict claim_shape c \<and> claim_issues c = []"

text \<open>\<^verbatim>\<open>isSelfCitingEvidenceRef\<close>: the texts that name the artifact itself.\<close>

definition self_refs :: "json \<Rightarrow> json list" where
  "self_refs r =
     (let uri = js_get (js_get r ''fileRef'') ''uri'' in
      filter (\<lambda>s. s \<noteq> JUndefined)
        [js_get r ''artifactId'', JStr (''artifact:'' @ js_String (js_get r ''artifactId'')),
         JStr (''artifact:'' @ js_String (js_get r ''artifactType'')), uri,
         if lacks r ''fileRef'' then JUndefined else JStr (''artifact:'' @ js_String uri)])"

definition isSelfCitingEvidenceRef :: "json \<Rightarrow> string \<Rightarrow> bool" where
  "isSelfCitingEvidenceRef r ref \<longleftrightarrow> list_ex (\<lambda>s. JStr ref = s \<or> starts_with (js_String s @ ''#'') ref) (self_refs r)"

definition cites_itself :: "json \<Rightarrow> json \<Rightarrow> bool" where
  "cites_itself r ref \<longleftrightarrow> isSelfCitingEvidenceRef r (the_str (js_str ref))"

definition artifact_shape :: "(string \<times> (json \<Rightarrow> bool)) list" where
  "artifact_shape =
     [(''artifactId'', nonEmptyString), (''artifactType'', ArtifactTypeSchema), (''content'', \<lambda>_. True),
      (''fileRef'', z_optional ArtifactFileRefSchema), (''evidenceRefs'', z_array nonEmptyString),
      (''claimLevel'', z_optional ClaimLevelSchema), (''importantClaims'', z_optional (z_array ArtifactClaimSchema)),
      (''producedBy'', ArtifactProducedBySchema), (''redactionPolicy'', RedactionPolicySchema), (''metadata'', MetadataSchema)]"

definition owned_claim_issues :: "json \<Rightarrow> json \<Rightarrow> string list" where
  "owned_claim_issues r c =
     issue (js_get c ''owningArtifactId'' \<noteq> js_get r ''artifactId'') ''important claims must reference their owning artifact'' @
     map (\<lambda>_. ''Artifact '' @ text_of r ''artifactId'' @ '' cannot cite itself as evidence'')
       (filter (cites_itself r) (items_of c ''evidenceRefs''))"

definition artifact_issues :: "json \<Rightarrow> string list" where
  "artifact_issues r =
     issue (lacks r ''content'' \<and> lacks r ''fileRef'') ''Artifact records must include content or fileRef'' @
     issue (\<not> lacks r ''claimLevel'' \<and> claimLevelRequiresEvidence (text_of r ''claimLevel'') \<and> items_of r ''evidenceRefs'' = [])
       (text_of r ''claimLevel'' @ '' artifact claims must include evidenceRefs'') @
     map (\<lambda>_. ''Artifact '' @ text_of r ''artifactId'' @ '' cannot cite itself as evidence'')
       (filter (cites_itself r) (items_of r ''evidenceRefs'')) @
     concat (map (owned_claim_issues r) (items_of r ''importantClaims''))"

definition ArtifactRecordSchema :: "json \<Rightarrow> bool" where
  "ArtifactRecordSchema r \<longleftrightarrow> z_strict artifact_shape r \<and> artifact_issues r = []"

section \<open>Reading back what was written\<close>

named_theorems json_stable \<open>schemas that accept what they accepted after a round trip through JSON\<close>

abbreviation norm :: "json \<Rightarrow> json" where
  "norm \<equiv> normalizeJsonValue"

abbreviation js_wf :: "json \<Rightarrow> bool" where
  "js_wf \<equiv> json_wf any_key"

definition stable :: "(json \<Rightarrow> bool) \<Rightarrow> bool" where
  "stable P \<longleftrightarrow> (\<forall>v. js_wf v \<longrightarrow> v \<noteq> JUndefined \<longrightarrow> P v \<longrightarrow> P (norm v))"

lemma stableI [intro?]: "(\<And>v. js_wf v \<Longrightarrow> v \<noteq> JUndefined \<Longrightarrow> P v \<Longrightarrow> P (norm v)) \<Longrightarrow> stable P"
  by (simp add: stable_def)

lemma stableD: "stable P \<Longrightarrow> P v \<Longrightarrow> js_wf v \<Longrightarrow> v \<noteq> JUndefined \<Longrightarrow> P (norm v)"
  by (simp add: stable_def)

lemma norm_not_undefined [simp]: "norm v \<noteq> JUndefined"
  by (cases v) simp_all

lemma norm_member:
  "distinct (map fst ps) \<Longrightarrow>
   map_of (map (\<lambda>p. (fst p, norm (snd p))) (filter (\<lambda>p. snd p \<noteq> JUndefined) ps)) k =
   (case map_of ps k of None \<Rightarrow> None | Some v \<Rightarrow> if v = JUndefined then None else Some (norm v))"
proof (induction ps)
  case (Cons p ps)
  then show ?case by (cases p) (auto simp: map_of_eq_None_iff split: option.splits, force)
qed simp

lemma js_get_norm: "js_wf v \<Longrightarrow> js_get (norm v) k = (if js_get v k = JUndefined then JUndefined else norm (js_get v k))"
  by (cases v) (auto simp: js_get_def norm_member split: option.splits)

lemma js_wf_get: "js_wf v \<Longrightarrow> js_wf (js_get v k)"
  by (cases v) (auto simp: js_get_def list_all_iff split: option.splits dest!: map_of_SomeD)

lemma js_wf_elem: "js_wf v \<Longrightarrow> x \<in> set (js_elems v) \<Longrightarrow> js_wf x"
  by (cases v) (auto simp: js_elems_def list_all_iff)

lemma js_str_norm [simp]: "js_str (norm v) = js_str v"
  by (cases v) (simp_all add: js_str_def)

lemma js_elems_norm [simp]: "js_elems (norm v) = map norm (js_elems v)"
  by (cases v) (simp_all add: js_elems_def)

lemma js_str_undefined [simp]: "js_str JUndefined = None"
  by (simp add: js_str_def)

lemma js_elems_undefined [simp]: "js_elems JUndefined = []"
  by (simp add: js_elems_def)

lemma field_norm:
  assumes "js_wf v"
  shows "lacks (norm v) k = lacks v k" "fstr (norm v) k = fstr v k" "text_of (norm v) k = text_of v k"
    "items_of (norm v) k = map norm (items_of v k)"
  using js_get_norm [OF assms, of k] by (auto simp: lacks_def fstr_def text_of_def items_of_def)

lemma stable_nonEmptyString [json_stable]: "stable nonEmptyString"
  by (rule stableI) (auto simp: nonEmptyString_iff)

lemma stable_enum [json_stable]: "stable (z_enum xs)"
  by (rule stableI) (auto simp: z_enum_def split: json.splits)

lemma stable_datetime [json_stable]: "stable (z_datetime dt)"
  by (rule stableI) (auto simp: z_datetime_def split: json.splits)

lemma stable_metadata [json_stable]: "stable MetadataSchema"
  by (rule stableI) (auto simp: MetadataSchema_def is_record_def split: json.splits)

lemma stable_any [json_stable]: "stable (\<lambda>_. True)"
  by (simp add: stable_def)

lemma stable_optional [json_stable]: "stable P \<Longrightarrow> stable (z_optional P)"
  by (simp add: stable_def z_optional_def)

lemma stable_disj [json_stable]: "stable P \<Longrightarrow> stable Q \<Longrightarrow> stable (\<lambda>v. P v \<or> Q v)"
  by (auto simp: stable_def)

lemma stable_array [json_stable]: "stable P \<Longrightarrow> \<not> P JUndefined \<Longrightarrow> stable (z_array P)"
  by (rule stableI) (auto simp: z_array_def list_all_iff stable_def split: json.splits)

lemma stable_record [json_stable]: "stable P \<Longrightarrow> stable (z_record K P)"
  by (rule stableI) (auto simp: z_record_def list_all_iff stable_def split: json.splits)

lemma stable_strict [json_stable]:
  assumes "list_all (\<lambda>f. stable (snd f)) shape"
  shows "stable (z_strict shape)"
proof
  fix v
  assume v: "js_wf v" "v \<noteq> JUndefined" "z_strict shape v"
  have "snd f (js_get (norm v) (fst f))" if "f \<in> set shape" for f
  proof -
    have "snd f (js_get v (fst f))" using v(3) that by (auto simp: z_strict_def list_all_iff split: json.splits)
    then show ?thesis
      using assms that js_wf_get [OF v(1)] by (auto simp: js_get_norm [OF v(1)] list_all_iff dest: stableD)
  qed
  then show "z_strict shape (norm v)"
    using v(3) by (cases v) (auto simp: z_strict_def list_all_iff)
qed

lemma stable_refined: "stable P \<Longrightarrow> (\<And>v. js_wf v \<Longrightarrow> issues (norm v) = issues v) \<Longrightarrow> stable (\<lambda>v. P v \<and> issues v = [])"
  by (auto simp: stable_def)

lemmas enumerations = ClaimLevelSchema_def EvidenceClassSchema_def EvidenceConfidenceSchema_def SourceAuthoritySchema_def
  RedactionClassSchema_def ArtifactTypeSchema_def

lemma stable_redaction_policy [json_stable]: "stable RedactionPolicySchema"
  unfolding RedactionPolicySchema_def [abs_def] enumerations by (intro json_stable)

lemma stable_created_by [json_stable]: "stable CreatedBySchema" "stable ArtifactProducedBySchema" "stable ArtifactFileRefSchema"
  unfolding CreatedBySchema_def ArtifactProducedBySchema_def ArtifactFileRefSchema_def
  by (intro json_stable, simp add: json_stable)+

lemma source_ref_issues_norm: "js_wf v \<Longrightarrow> source_ref_issues (norm v) = source_ref_issues v"
  by (simp add: source_ref_issues_def field_norm)

lemma stable_source_ref [json_stable]: "stable (SourceRefSchema dt)"
  unfolding SourceRefSchema_def [abs_def] SourceRefObjectSchema_def enumerations
  by (intro json_stable stable_refined source_ref_issues_norm)
     (simp add: source_ref_shape_def enumerations json_stable)

lemma trusted_ref_norm: "js_wf x \<Longrightarrow> sourceRefCarriesTrustedAuthority (norm x) = sourceRefCarriesTrustedAuthority x"
  by (simp add: sourceRefCarriesTrustedAuthority_def field_norm)

lemma items_wf: "js_wf v \<Longrightarrow> x \<in> set (items_of v k) \<Longrightarrow> js_wf x"
  unfolding items_of_def using js_wf_elem js_wf_get by blast

lemma evidence_issues_norm:
  assumes "js_wf v"
  shows "evidence_issues (norm v) = evidence_issues v"
proof -
  have "filter (\<lambda>x. \<not> sourceRefCarriesTrustedAuthority (norm x)) (items_of v ''sourceRefs'') =
      filter (\<lambda>x. \<not> sourceRefCarriesTrustedAuthority x) (items_of v ''sourceRefs'')"
    by (rule filter_cong) (auto simp: trusted_ref_norm items_wf [OF assms])
  then show ?thesis
    by (simp add: evidence_issues_def Let_def field_norm [OF assms] filter_map comp_def)
qed

text \<open>A shape that demands a property refuses \<^verbatim>\<open>undefined\<close>.\<close>

lemma not_undefined: "\<not> nonEmptyString JUndefined" "\<not> z_strict shape JUndefined"
  by (simp_all add: nonEmptyString_def z_strict_def)

lemma stable_evidence_record: "stable (EvidenceRecordSchema dt)"
proof -
  have refs: "\<not> SourceRefSchema dt JUndefined"
    by (simp add: SourceRefSchema_def SourceRefObjectSchema_def not_undefined)
  have "stable (z_strict (evidence_shape dt))"
    by (rule stable_strict) (simp add: evidence_shape_def enumerations json_stable refs not_undefined)
  then show ?thesis
    unfolding EvidenceRecordSchema_def [abs_def] by (rule stable_refined) (rule evidence_issues_norm)
qed

lemma claim_issues_norm: "js_wf c \<Longrightarrow> claim_issues (norm c) = claim_issues c"
  by (simp add: claim_issues_def Let_def field_norm)

lemma stable_claim [json_stable]: "stable ArtifactClaimSchema"
proof -
  have "stable (z_strict claim_shape)"
    by (rule stable_strict) (simp add: claim_shape_def enumerations json_stable not_undefined)
  then show ?thesis unfolding ArtifactClaimSchema_def [abs_def] by (rule stable_refined) (rule claim_issues_norm)
qed

lemma js_String_norm: "v \<noteq> JUndefined \<Longrightarrow> js_String (norm v) = js_String v"
proof (induction v rule: json_induct)
  case (Arr xs)
  have "(if is_nullish (norm x) then [] else js_String (norm x)) = (if is_nullish x then [] else js_String x)"
    if "x \<in> set xs" for x
    using Arr.IH [OF that] by (cases x) (auto simp: is_nullish_def)
  then show ?case by (simp add: comp_def cong: map_cong)
qed simp_all

lemma norm_is_JStr [simp]: "JStr s = norm v \<longleftrightarrow> JStr s = v"
  by (cases v) auto

lemma cites_itself_norm: "js_wf r \<Longrightarrow> cites_itself (norm r) (norm x) = cites_itself r x"
proof -
  assume r: "js_wf r"
  have same: "js_String (js_get (norm v) k) = js_String (js_get v k)"
    "js_get (norm v) k = JUndefined \<longleftrightarrow> js_get v k = JUndefined" "JStr s = js_get (norm v) k \<longleftrightarrow> JStr s = js_get v k"
    if "js_wf v" for v k s
    using js_String_norm [of "js_get v k"] by (auto simp: js_get_norm [OF that])
  have file_ref: "js_get (norm r) ''fileRef'' = (if lacks r ''fileRef'' then JUndefined else norm (js_get r ''fileRef''))"
    by (simp add: js_get_norm [OF r] lacks_def)
  note in_ref = same [OF js_wf_get [OF r, of "''fileRef''"]]
  have uri: "js_String (js_get (js_get (norm r) ''fileRef'') ''uri'') = js_String (js_get (js_get r ''fileRef'') ''uri'')"
    "js_get (js_get (norm r) ''fileRef'') ''uri'' = JUndefined \<longleftrightarrow> js_get (js_get r ''fileRef'') ''uri'' = JUndefined"
    "JStr s = js_get (js_get (norm r) ''fileRef'') ''uri'' \<longleftrightarrow> JStr s = js_get (js_get r ''fileRef'') ''uri''" for s
    by (simp_all add: file_ref lacks_def in_ref)
  have "isSelfCitingEvidenceRef (norm r) ref = isSelfCitingEvidenceRef r ref" for ref
    unfolding isSelfCitingEvidenceRef_def self_refs_def Let_def
    by (simp add: same [OF r] uri field_norm(1) [OF r])
  then show ?thesis by (simp add: cites_itself_def)
qed

lemma owned_claim_issues_norm:
  assumes "js_wf r" "js_wf c" "nonEmptyString (js_get r ''artifactId'')" "nonEmptyString (js_get c ''owningArtifactId'')"
  shows "owned_claim_issues (norm r) (norm c) = owned_claim_issues r c"
proof -
  obtain a b where ids: "js_get r ''artifactId'' = JStr a" "js_get c ''owningArtifactId'' = JStr b"
    using assms(3,4) by (auto simp: nonEmptyString_iff)
  have "filter (cites_itself (norm r) \<circ> norm) (items_of c ''evidenceRefs'') = filter (cites_itself r) (items_of c ''evidenceRefs'')"
    by (rule filter_cong) (simp_all add: cites_itself_norm [OF assms(1)])
  then show ?thesis
    using ids by (simp add: owned_claim_issues_def field_norm assms(1,2) js_get_norm filter_map comp_def)
qed

lemma artifact_claims:
  assumes "z_strict artifact_shape r" "c \<in> set (items_of r ''importantClaims'')"
  shows "ArtifactClaimSchema c"
proof -
  have "z_optional (z_array ArtifactClaimSchema) (js_get r ''importantClaims'')"
    by (rule z_strict_get [OF assms(1)]) (simp add: artifact_shape_def)
  then show ?thesis
    using assms(2) by (auto simp: z_optional_def z_array_def items_of_def js_elems_def list_all_iff split: json.splits)
qed

lemma claim_owner: "ArtifactClaimSchema c \<Longrightarrow> nonEmptyString (js_get c ''owningArtifactId'')"
  unfolding ArtifactClaimSchema_def by (rule z_strict_get [of claim_shape]) (simp_all add: claim_shape_def)

lemma artifact_id: "z_strict artifact_shape r \<Longrightarrow> nonEmptyString (js_get r ''artifactId'')"
  by (rule z_strict_get [of artifact_shape]) (simp_all add: artifact_shape_def)

lemma artifact_issues_norm:
  assumes "js_wf r" "z_strict artifact_shape r"
  shows "artifact_issues (norm r) = artifact_issues r"
proof -
  have claims: "owned_claim_issues (norm r) (norm c) = owned_claim_issues r c" if "c \<in> set (items_of r ''importantClaims'')" for c
    using owned_claim_issues_norm [OF assms(1) items_wf [OF assms(1) that] artifact_id [OF assms(2)]]
      claim_owner [OF artifact_claims [OF assms(2) that]] by blast
  have all: "map (\<lambda>c. owned_claim_issues (norm r) (norm c)) (items_of r ''importantClaims'') =
      map (owned_claim_issues r) (items_of r ''importantClaims'')"
    by (rule map_cong) (simp_all add: claims)
  show ?thesis
    by (simp add: all artifact_issues_def field_norm [OF assms(1)] filter_map comp_def cites_itself_norm [OF assms(1)])
qed

lemma stable_artifact_record: "stable ArtifactRecordSchema"
proof
  fix r
  assume r: "js_wf r" "r \<noteq> JUndefined" "ArtifactRecordSchema r"
  have claim: "\<not> ArtifactClaimSchema JUndefined" by (simp add: ArtifactClaimSchema_def not_undefined)
  have "stable (z_strict artifact_shape)"
    by (rule stable_strict) (simp add: artifact_shape_def enumerations json_stable not_undefined claim)
  then show "ArtifactRecordSchema (norm r)"
    using r artifact_issues_norm [OF r(1)] by (auto simp: ArtifactRecordSchema_def stable_def)
qed

section \<open>Fields and messages\<close>

lemma js_wf_with_field: "js_wf w \<Longrightarrow> js_wf v \<Longrightarrow> js_wf (with_field k w v)"
  unfolding with_field_def
  using distinct_map_set set_map_set [of k w] by (fastforce simp: list_all_iff split: json.split)

lemma js_wf_nullish: "js_wf a \<Longrightarrow> js_wf b \<Longrightarrow> js_wf (nullish a b)"
  by (simp add: nullish_def)

lemma issue_empty [simp]: "issue b m = [] \<longleftrightarrow> \<not> b"
  by (simp add: issue_def)

lemma guarded_empty: "(if b then xs else []) = [] \<longleftrightarrow> (b \<longrightarrow> xs = [])"
  by simp

lemma js_get_with_field: "is_record v \<Longrightarrow> js_get (with_field k w v) j = (if j = k then w else js_get v j)"
  by (cases v) (simp_all add: with_field_def js_get_def map_of_map_set is_record_def)

lemma with_field_record [simp]: "is_record (with_field k w v)" "with_field k w v \<noteq> JUndefined"
  by (simp_all add: with_field_def is_record_def)

end
