(* ===== verification/Run_Files.thy ===== *)
theory Run_Files
  imports Run_Store Posix_Paths Js_Readers
begin

text \<open>
  What the evidence store and the artifact store share: the disk they write to, the paths of a run
  (\<^verbatim>\<open>getRunStorePaths\<close> of \<^verbatim>\<open>run-store/src/index.ts\<close>), the text of a record, the names of record
  files and the index. Both stores keep one file per record, created with the flag \<^verbatim>\<open>wx\<close>, and a
  file with one line per record; each has its own copy of the code, which is modelled once.

  The disk is a map from absolute paths, lists of segments, to files and directories without symbolic
  links. A call of \<^verbatim>\<open>writeFile\<close> or \<^verbatim>\<open>appendFile\<close> is atomic. \<^verbatim>\<open>JSON.parse\<close> is a parameter.

  The results: record names are injective and stay in their directory, and the \<^emph>\<open>log\<close> of a store, the
  records that its files hold in the order of the index, changes by an append exactly as an
  append-only list does. The locale \<open>record_log\<close> is this contract, and what every sequence of appends
  gives follows from it.
\<close>

section \<open>The disk\<close>

datatype disk_node = File string | Dir

type_synonym path = "string list"

type_synonym disk = "path \<Rightarrow> disk_node option"

datatype node_error = EEXIST | ENOENT | OtherNodeError

definition is_file :: "disk_node option \<Rightarrow> bool" where
  "is_file n = (case n of Some (File t) \<Rightarrow> True | _ \<Rightarrow> False)"

text \<open>A path that no call can reach: it has a NUL character or leads through a file.\<close>

definition unreachable :: "disk \<Rightarrow> path \<Rightarrow> bool" where
  "unreachable d p \<longleftrightarrow>
     list_ex (\<lambda>s. CHR 0x00 \<in> set s) p \<or> list_ex (\<lambda>n. is_file (d (take n p))) [0..<length p]"

text \<open>\<^verbatim>\<open>mkdir(path, { recursive: true })\<close>.\<close>

definition mkdir_p :: "path \<Rightarrow> disk \<Rightarrow> node_error + disk" where
  "mkdir_p p d =
     (if unreachable d p then Inl OtherNodeError
      else if is_file (d p) then Inl EEXIST
      else Inr (\<lambda>q. if take (length q) p = q \<and> d q = None then Some Dir else d q))"

text \<open>\<^verbatim>\<open>writeFile(path, text, { flag: "wx" })\<close>.\<close>

definition write_wx :: "path \<Rightarrow> string \<Rightarrow> disk \<Rightarrow> node_error + disk" where
  "write_wx p t d =
     (if unreachable d p then Inl OtherNodeError
      else if d p \<noteq> None then Inl EEXIST
      else if d (butlast p) \<noteq> Some Dir then Inl ENOENT
      else Inr (d(p \<mapsto> File t)))"

text \<open>\<^verbatim>\<open>open(path, "a")\<close> and \<^verbatim>\<open>appendFile\<close>.\<close>

definition append_file :: "path \<Rightarrow> string \<Rightarrow> disk \<Rightarrow> node_error + disk" where
  "append_file p t d =
     (if unreachable d p then Inl OtherNodeError
      else (case d p of
              Some (File s) \<Rightarrow> Inr (d(p \<mapsto> File (s @ t)))
            | Some Dir \<Rightarrow> Inl OtherNodeError
            | None \<Rightarrow> if d (butlast p) \<noteq> Some Dir then Inl ENOENT else Inr (d(p \<mapsto> File t))))"

definition read_file :: "path \<Rightarrow> disk \<Rightarrow> node_error + string" where
  "read_file p d =
     (if unreachable d p then Inl OtherNodeError
      else (case d p of Some (File t) \<Rightarrow> Inr t | Some Dir \<Rightarrow> Inl OtherNodeError | None \<Rightarrow> Inl ENOENT))"

text \<open>
  \<^verbatim>\<open>join(dir, uri)\<close> for a directory that is resolved. A path that ends with a slash names no file:
  to read or to write it fails.
\<close>

definition join_path :: "path \<Rightarrow> string \<Rightarrow> node_error + path" where
  "join_path dir uri =
     (if ends_with ''/'' uri then Inl OtherNodeError
      else Inr (normal_segments [] (dir @ split_on CHR ''/'' uri)))"

section \<open>Paths of a run\<close>

definition RUN_STORE_DIR :: string where "RUN_STORE_DIR = ''.specwright''"
definition RUNS_DIR :: string where "RUNS_DIR = ''runs''"

text \<open>The directory of a run below the resolved root.\<close>

definition run_dir :: "path \<Rightarrow> string \<Rightarrow> RunStoreErrorCode + path" where
  "run_dir root runId = bindE (assertSafeRunId runId) (\<lambda>safe. Inr (root @ [RUN_STORE_DIR, RUNS_DIR, safe]))"

section \<open>Errors\<close>

datatype 'c store_error = StoreCode 'c | RunCode RunStoreErrorCode | NodeCode node_error | JsTypeError

section \<open>Names and texts of records\<close>

text \<open>The characters that are not escaped: letters, digits and marks.\<close>

definition uri_unreserved :: "char \<Rightarrow> bool" where
  "uri_unreserved c \<longleftrightarrow>
     c \<in> set (''ABCDEFGHIJKLMNOPQRSTUVWXYZabcdefghijklmnopqrstuvwxyz'' @ ''0123456789'' @ ''-_.!~*()'' @ [CHR 0x27])"

definition hex_upper :: "nat \<Rightarrow> char" where
  "hex_upper n = ''0123456789ABCDEF'' ! (n mod 16)"

definition percent :: "nat \<Rightarrow> string" where
  "percent n = [CHR ''%'', hex_upper (n div 16), hex_upper n]"

text \<open>A character is a code point; from 128 on its UTF-8 encoding has two bytes.\<close>

definition encode_char :: "char \<Rightarrow> string" where
  "encode_char c =
     (let n = of_char c in
      if uri_unreserved c then [c]
      else if n < 128 then percent n
      else percent (192 + n div 64) @ percent (128 + n mod 64))"

definition encodeURIComponent :: "string \<Rightarrow> string" where
  "encodeURIComponent s = concat (map encode_char s)"

definition RECORDS_DIR :: string where "RECORDS_DIR = ''records''"
definition INDEX_FILE :: string where "INDEX_FILE = ''index.jsonl''"

definition recordUri :: "string \<Rightarrow> string" where
  "recordUri i = RECORDS_DIR @ ''/'' @ encodeURIComponent i @ ''.json''"

text \<open>\<^verbatim>\<open>JSON.stringify(v, null, 2)\<close> at an indentation.\<close>

definition blanks :: "nat \<Rightarrow> string" where
  "blanks n = replicate n CHR '' ''"

definition nl :: string where "nl = [CHR 0x0A]"

function pretty :: "nat \<Rightarrow> json \<Rightarrow> string" where
  "pretty n JUndefined = ''null''"
| "pretty n JNull = ''null''"
| "pretty n (JBool b) = (if b then ''true'' else ''false'')"
| "pretty n (JNum i) = int_str i"
| "pretty n (JStr s) = quote_str s"
| "pretty n (JArr xs) =
     (if xs = [] then ''[]''
      else ''['' @ nl @ join ('','' @ nl) (map (\<lambda>x. blanks (n + 2) @ pretty (n + 2) x) xs) @ nl @ blanks n @ '']'')"
| "pretty n (JObj ps) =
     (if list_all (\<lambda>p. snd p = JUndefined) ps then ''{}''
      else ''{'' @ nl @
        join ('','' @ nl) (map (\<lambda>p. blanks (n + 2) @ quote_str (fst p) @ '': '' @ pretty (n + 2) (snd p))
          (filter (\<lambda>p. snd p \<noteq> JUndefined) ps)) @ nl @ blanks n @ ''}'')"
  by pat_completeness auto
termination
proof (relation "measure (\<lambda>(n, v). size v)", goal_cases)
  case (2 n xs x)
  then show ?case using size_element [of x xs] by simp
next
  case (3 n ps p)
  then show ?case using size_member [of p ps] by auto
qed simp

definition record_text :: "json \<Rightarrow> string" where
  "record_text v = pretty 0 v @ nl"

section \<open>Operations that both stores have\<close>

text \<open>The record file of an id.\<close>

definition record_path :: "path \<Rightarrow> string \<Rightarrow> path" where
  "record_path dir i = dir @ [RECORDS_DIR, encodeURIComponent i @ ''.json'']"

definition store_record :: "'c \<Rightarrow> path \<Rightarrow> string \<Rightarrow> json \<Rightarrow> disk \<Rightarrow> 'c store_error + disk" where
  "store_record taken dir i r d =
     (case write_wx (record_path dir i) (record_text r) d of
        Inl EEXIST \<Rightarrow> Inl (StoreCode taken)
      | Inl e \<Rightarrow> Inl (NodeCode e)
      | Inr d' \<Rightarrow> Inr d')"

definition appendJsonLine :: "path \<Rightarrow> json \<Rightarrow> disk \<Rightarrow> node_error + disk" where
  "appendJsonLine p v d = append_file p (stringify v @ nl) d"

text \<open>The lines of an index: each must be JSON and pass the check of its store.\<close>

definition index_line :: "(string \<Rightarrow> json option) \<Rightarrow> (json \<Rightarrow> bool) \<Rightarrow> string \<Rightarrow> unit + json" where
  "index_line parse entry_ok l =
     (case parse l of None \<Rightarrow> Inl () | Some v \<Rightarrow> if entry_ok v then Inr v else Inl ())"

definition index_lines :: "string \<Rightarrow> string list" where
  "index_lines raw = filter has_text (split_lines raw)"

definition parseIndex :: "(string \<Rightarrow> json option) \<Rightarrow> (json \<Rightarrow> bool) \<Rightarrow> string \<Rightarrow> unit + json list" where
  "parseIndex parse entry_ok raw = mapE (index_line parse entry_ok) (index_lines raw)"

section \<open>Facts about paths\<close>

lemma unreachable_snoc:
  "unreachable d (p @ [s]) \<longleftrightarrow> unreachable d p \<or> CHR 0x00 \<in> set s \<or> is_file (d p)"
  by (auto simp: unreachable_def list_ex_iff less_Suc_eq)

lemma unreachable_other:
  assumes "\<And>n. n < length p \<Longrightarrow> take n p \<noteq> q"
  shows "unreachable (d(q := x)) p \<longleftrightarrow> unreachable d p"
  using assms by (auto simp: unreachable_def list_ex_iff)

text \<open>A path at or below a directory.\<close>

definition below :: "path \<Rightarrow> path \<Rightarrow> bool" where
  "below dir p \<longleftrightarrow> take (length dir) p = dir"

lemma below_append [simp]: "below dir (dir @ p)"
  by (simp add: below_def)

lemma hex_upper_inj: "a < 16 \<Longrightarrow> b < 16 \<Longrightarrow> hex_upper a = hex_upper b \<Longrightarrow> a = b"
proof -
  have "distinct ''0123456789ABCDEF''" by simp
  then show "a < 16 \<Longrightarrow> b < 16 \<Longrightarrow> hex_upper a = hex_upper b \<Longrightarrow> a = b"
    using nth_eq_iff_index_eq [of "''0123456789ABCDEF''" a b] by (simp add: hex_upper_def)
qed

lemma hex_upper_mod: "hex_upper (n mod 16) = hex_upper n"
  by (simp add: hex_upper_def)

lemma percent_inj:
  assumes "m < 256" "n < 256" "percent m @ s = percent n @ t"
  shows "m = n \<and> s = t"
proof -
  have parts: "hex_upper (m div 16) = hex_upper (n div 16)" "hex_upper (m mod 16) = hex_upper (n mod 16)" "s = t"
    using assms(3) by (simp_all add: percent_def hex_upper_mod)
  have small: "m div 16 < 16" "n div 16 < 16" using assms by auto
  have "m div 16 = n div 16" using hex_upper_inj [OF small parts(1)] .
  moreover have "m mod 16 = n mod 16" by (rule hex_upper_inj [OF _ _ parts(2)]) simp_all
  ultimately show ?thesis using parts(3) by (metis div_mult_mod_eq)
qed

lemma percent_reserved: "\<not> uri_unreserved CHR ''%''"
  by (simp add: uri_unreserved_def)

lemma encode_char_cancel: "encode_char c @ s = encode_char d @ t \<longleftrightarrow> c = d \<and> s = t"
proof
  assume eq: "encode_char c @ s = encode_char d @ t"
  have bound: "(of_char c :: nat) < 256" "(of_char d :: nat) < 256" by simp_all
  have head: "hd (encode_char x @ u) = (if uri_unreserved x then x else CHR ''%'')" for x u
    by (simp add: encode_char_def percent_def Let_def)
  have heads: "(if uri_unreserved c then c else CHR ''%'') = (if uri_unreserved d then d else CHR ''%'')"
    using eq head by metis
  show "c = d \<and> s = t"
  proof (cases "uri_unreserved c")
    case True
    then have "d = c" using heads percent_reserved by (metis (full_types))
    with eq show ?thesis by simp
  next
    case False
    then have d: "\<not> uri_unreserved d" using heads percent_reserved by metis
    define m n :: nat where "m = of_char c" and "n = of_char d"
    have mn: "m < 256" "n < 256" using bound by (simp_all add: m_def n_def)
    have first: "percent (if m < 128 then m else 192 + m div 64) @ (if m < 128 then s else percent (128 + m mod 64) @ s) =
        percent (if n < 128 then n else 192 + n div 64) @ (if n < 128 then t else percent (128 + n mod 64) @ t)"
      using eq False d by (auto simp: encode_char_def Let_def m_def n_def)
    have small: "(if m < 128 then m else 192 + m div 64) < 256" "(if n < 128 then n else 192 + n div 64) < 256"
      using mn by auto
    from percent_inj [OF small first]
    have split: "(if m < 128 then m else 192 + m div 64) = (if n < 128 then n else 192 + n div 64)"
      "(if m < 128 then s else percent (128 + m mod 64) @ s) = (if n < 128 then t else percent (128 + n mod 64) @ t)" by blast+
    have "m = n \<and> s = t"
    proof (cases "m < 128")
      case True
      then have "n < 128" using split(1) by (simp split: if_splits)
      with True split show ?thesis by simp
    next
      case m: False
      then have n: "\<not> n < 128" using split(1) by (simp split: if_splits)
      have "128 + m mod 64 = 128 + n mod 64 \<and> s = t"
        by (rule percent_inj) (use m n split(2) in \<open>simp_all add: less_imp_le_nat\<close>)
      moreover have "m div 64 = n div 64" using m n split(1) by simp
      ultimately show ?thesis by (metis add_left_cancel div_mult_mod_eq)
    qed
    then show ?thesis by (simp add: m_def n_def)
  qed
qed simp

lemma encode_char_nonempty: "encode_char c \<noteq> []"
  by (simp add: encode_char_def percent_def Let_def)

lemma encodeURIComponent_inj: "encodeURIComponent s = encodeURIComponent t \<Longrightarrow> s = t"
proof (induction s arbitrary: t)
  case Nil
  then show ?case by (cases t) (simp_all add: encodeURIComponent_def encode_char_nonempty)
next
  case (Cons c s)
  then show ?case
    by (cases t) (simp_all add: encodeURIComponent_def encode_char_nonempty encode_char_cancel)
qed

lemma hex_upper_set: "hex_upper n \<in> set ''0123456789ABCDEF''"
  unfolding hex_upper_def by (rule nth_mem) simp

lemma encoded_chars: "x \<in> set (encodeURIComponent s) \<Longrightarrow> x \<noteq> CHR ''/'' \<and> x \<noteq> CHR 0x00"
proof -
  have hex: "hex_upper n \<noteq> CHR ''/''" "hex_upper n \<noteq> CHR 0x00" for n
    using hex_upper_set [of n] by auto
  have slash: "\<not> uri_unreserved CHR ''/''" "\<not> uri_unreserved CHR 0x00"
    by (simp_all add: uri_unreserved_def)
  have "x \<in> set (encode_char c) \<Longrightarrow> x \<noteq> CHR ''/'' \<and> x \<noteq> CHR 0x00" for c
    using hex slash by (auto simp: encode_char_def percent_def Let_def split: if_splits)
  then show "x \<in> set (encodeURIComponent s) \<Longrightarrow> x \<noteq> CHR ''/'' \<and> x \<noteq> CHR 0x00"
    by (auto simp: encodeURIComponent_def)
qed

lemma record_path_inj [simp]: "record_path dir i = record_path dir j \<longleftrightarrow> i = j"
  by (auto simp: record_path_def dest: encodeURIComponent_inj)

lemma below_record_path [simp]: "below dir (record_path dir i)"
  by (simp add: record_path_def)

lemma normal_segments_append:
  "\<forall>x \<in> set xs. good_segment x \<Longrightarrow> normal_segments acc (xs @ ys) = normal_segments (rev xs @ acc) ys"
  by (induction xs arbitrary: acc) (simp_all add: good_segment_def)

lemma normal_segments_all: "\<forall>x \<in> set xs. good_segment x \<Longrightarrow> normal_segments acc xs = rev acc @ xs"
  using normal_segments_append [of xs acc "[]"] by simp

lemma good_record_name: "good_segment (encodeURIComponent i @ ''.json'')"
  using encoded_chars [of "CHR ''/''" i] by (cases "encodeURIComponent i") (auto simp: good_segment_def)

lemma ends_with_last: "ends_with [c] s \<Longrightarrow> last s = c"
  unfolding ends_with_def
  by (metis append_butlast_last_id append_eq_conv_conj append_take_drop_id last_appendR list.distinct(1) last_ConsL)

lemma join_recordUri:
  assumes "\<forall>x \<in> set dir. good_segment x"
  shows "join_path dir (recordUri i) = Inr (record_path dir i)"
proof -
  have name: "CHR ''/'' \<notin> set (encodeURIComponent i @ ''.json'')"
    using good_record_name [of i] by (simp add: good_segment_def)
  have uri: "recordUri i = RECORDS_DIR @ CHR ''/'' # (encodeURIComponent i @ ''.json'')"
    by (simp add: recordUri_def)
  have "split_on CHR ''/'' (recordUri i) = [RECORDS_DIR, encodeURIComponent i @ ''.json'']"
    unfolding uri by (subst split_on_append) (simp_all add: RECORDS_DIR_def split_on_no_sep [OF name, simplified])
  moreover have "\<not> ends_with ''/'' (recordUri i)"
    using ends_with_last [of "CHR ''/''" "recordUri i"] by (auto simp: recordUri_def)
  moreover have "\<forall>x \<in> set (dir @ [RECORDS_DIR, encodeURIComponent i @ ''.json'']). good_segment x"
    using assms good_record_name by (auto simp: RECORDS_DIR_def good_segment_def)
  ultimately show ?thesis
    using normal_segments_all by (simp add: join_path_def record_path_def del: normal_segments.simps)
qed

lemma run_dir_good:
  assumes "\<forall>x \<in> set root. good_segment x" "run_dir root rid = Inr dir"
  shows "\<forall>x \<in> set dir. good_segment x"
proof -
  obtain r where r: "assertSafeRunId rid = Inr r" "dir = root @ [RUN_STORE_DIR, RUNS_DIR, r]"
    using assms(2) by (auto simp: run_dir_def bindE_Inr_iff)
  have "nonEmpty (JStr rid) = Inr (Some r)" "CHR ''/'' \<notin> set r" "r \<noteq> ''.''" "r \<noteq> ''..''"
    using r(1) by (auto simp: assertSafeRunId_def bindE_Inr_iff split: option.splits if_splits)
  then have "good_segment r"
    by (auto simp: nonEmpty_def good_segment_def split: if_splits)
  then show ?thesis using assms(1) r(2) by (auto simp: RUN_STORE_DIR_def RUNS_DIR_def good_segment_def)
qed

section \<open>Facts about texts\<close>

text \<open>\<^verbatim>\<open>JSON.stringify\<close> escapes control characters, so its text is one line.\<close>

abbreviation printable :: "string \<Rightarrow> bool" where
  "printable s \<equiv> list_all (\<lambda>c. (32 :: nat) \<le> of_char c) s"

lemma printable_digit: "(32 :: nat) \<le> of_char (digit_char n)"
proof -
  have "digit_char n \<in> set ''0123456789''" unfolding digit_char_def by (rule nth_mem) simp
  then show ?thesis by auto
qed

lemma printable_hex: "(32 :: nat) \<le> of_char (hex_digit n)"
proof -
  have "hex_digit n \<in> set ''0123456789abcdef''" unfolding hex_digit_def by (rule nth_mem) simp
  then show ?thesis by auto
qed

lemma printable_nat_str: "printable (nat_str n)"
  by (induction n rule: nat_str.induct) (subst nat_str.simps, simp add: printable_digit)

lemma printable_int_str: "printable (int_str i)"
  by (simp add: int_str_def printable_nat_str)

lemma printable_quote_str: "printable (quote_str s)"
  by (induction s) (simp_all add: quote_str_def esc_char_def printable_hex)

lemma printable_join: "printable sep \<Longrightarrow> \<forall>x \<in> set xs. printable x \<Longrightarrow> printable (join sep xs)"
  by (induction sep xs rule: join.induct) simp_all

lemma printable_stringify: "printable (stringify v)"
proof (induction v rule: json_induct)
  case (Arr xs)
  then show ?case by (simp add: printable_join)
next
  case (Obj ps)
  then show ?case by (auto intro!: printable_join simp: printable_quote_str)
qed (simp_all add: printable_int_str printable_quote_str)

lemma stringify_has_text: "has_text (stringify (JObj ps))"
  by (simp add: has_text_def is_space_def)

lemma split_on_lines:
  assumes "\<forall>l \<in> set ls. CHR 0x0A \<notin> set l"
  shows "split_on CHR 0x0A (concat (map (\<lambda>l. l @ nl) ls)) = ls @ [[]]"
  using assms by (induction ls) (simp_all add: nl_def split_on_append)

lemma index_lines_log:
  "index_lines (concat (map (\<lambda>ps. stringify (JObj ps) @ nl) es)) = map (\<lambda>ps. stringify (JObj ps)) es"
proof -
  have one_line: "CHR 0x0A \<notin> set (stringify v)" "CHR 0x0D \<notin> set (stringify v)" for v
    using printable_stringify [of v] by (auto simp: list_all_iff)
  have "drop_cr (stringify v) = stringify v" for v
    using one_line(2) [of v] last_in_set [of "stringify v"] unfolding drop_cr_def by metis
  then have "split_lines (concat (map (\<lambda>l. l @ nl) (map (\<lambda>ps. stringify (JObj ps)) es))) = map (\<lambda>ps. stringify (JObj ps)) es @ [[]]"
    by (subst split_lines_def, subst split_on_lines) (auto simp: one_line Let_def simp del: stringify.simps)
  then show ?thesis
    using stringify_has_text by (simp add: index_lines_def comp_def has_text_def [of "[]"] filter_map del: stringify.simps)
qed

section \<open>The log of a store\<close>

text \<open>
  A kind of store: how it reads JSON, the index entry of a record and its check, what it accepts and
  the id of a record. An index entry is an object.
\<close>

record log_kind =
  lk_parse :: "string \<Rightarrow> json option"
  lk_entry :: "json \<Rightarrow> (string \<times> json) list"
  lk_entry_ok :: "json \<Rightarrow> bool"
  lk_valid :: "json \<Rightarrow> bool"
  lk_key :: "json \<Rightarrow> string"

text \<open>A record that a reader of its file and of its line in the index sees as it is.\<close>

definition readable :: "log_kind \<Rightarrow> json \<Rightarrow> bool" where
  "readable K r \<longleftrightarrow>
     lk_valid K r \<and> lk_entry_ok K (JObj (lk_entry K r)) \<and>
     lk_parse K (stringify (JObj (lk_entry K r))) = Some (JObj (lk_entry K r))"

definition held :: "log_kind \<Rightarrow> path \<Rightarrow> disk \<Rightarrow> json \<Rightarrow> bool" where
  "held K dir d r \<longleftrightarrow> readable K r \<and> (\<exists>t. d (record_path dir (lk_key K r)) = Some (File t) \<and> lk_parse K t = Some r)"

definition index_text :: "log_kind \<Rightarrow> json list \<Rightarrow> string" where
  "index_text K rs = concat (map (\<lambda>r. stringify (JObj (lk_entry K r)) @ nl) rs)"

definition indexed :: "log_kind \<Rightarrow> path \<Rightarrow> disk \<Rightarrow> json list \<Rightarrow> bool" where
  "indexed K dir d rs \<longleftrightarrow>
     d (dir @ [INDEX_FILE]) = Some (File (index_text K rs)) \<or> d (dir @ [INDEX_FILE]) = None \<and> rs = []"

definition open_dir :: "path \<Rightarrow> disk \<Rightarrow> bool" where
  "open_dir dir d \<longleftrightarrow> \<not> unreachable d (dir @ [RECORDS_DIR]) \<and> \<not> is_file (d (dir @ [RECORDS_DIR]))"

text \<open>
  The directory holds the records \<open>rs\<close>, which the index lists in this order, and the records \<open>ps\<close>
  whose line is still to be written.
\<close>

definition log_holds :: "log_kind \<Rightarrow> path \<Rightarrow> disk \<Rightarrow> json list \<Rightarrow> json list \<Rightarrow> bool" where
  "log_holds K dir d rs ps \<longleftrightarrow>
     open_dir dir d \<and> indexed K dir d rs \<and> distinct (map (lk_key K) (rs @ ps)) \<and>
     (\<forall>r \<in> set (rs @ ps). held K dir d r) \<and>
     (\<forall>i. d (record_path dir i) \<noteq> None \<longrightarrow> i \<in> lk_key K ` set (rs @ ps))"

lemma log_holdsD:
  assumes "log_holds K dir d rs ps"
  shows "open_dir dir d" "indexed K dir d rs" "distinct (map (lk_key K) (rs @ ps))"
    "r \<in> set (rs @ ps) \<Longrightarrow> held K dir d r" "d (record_path dir i) \<noteq> None \<longleftrightarrow> i \<in> lk_key K ` set (rs @ ps)"
  using assms by (auto simp: log_holds_def held_def)

lemma paths_differ [simp]:
  "record_path dir i \<noteq> dir @ [x]" "dir @ [x] \<noteq> record_path dir i" "record_path dir i \<noteq> dir" "dir \<noteq> record_path dir i"
  "INDEX_FILE \<noteq> RECORDS_DIR" "RECORDS_DIR \<noteq> INDEX_FILE"
  by (simp_all add: record_path_def INDEX_FILE_def RECORDS_DIR_def)

lemma open_dir_reach:
  assumes "open_dir dir d"
  shows "\<not> unreachable d (record_path dir i)" "\<not> unreachable d (dir @ [INDEX_FILE])" "\<not> unreachable d dir" "\<not> is_file (d dir)"
proof -
  have "record_path dir i = (dir @ [RECORDS_DIR]) @ [encodeURIComponent i @ ''.json'']" by (simp add: record_path_def)
  moreover have "CHR 0x00 \<notin> set (encodeURIComponent i @ ''.json'')" using encoded_chars by auto
  ultimately show "\<not> unreachable d (record_path dir i)"
    using assms by (simp add: unreachable_snoc open_dir_def del: append_assoc)
  show dir: "\<not> unreachable d dir" "\<not> is_file (d dir)" using assms by (simp_all add: unreachable_snoc open_dir_def)
  then show "\<not> unreachable d (dir @ [INDEX_FILE])" by (simp add: unreachable_snoc INDEX_FILE_def)
qed

text \<open>A change below the directory that is neither a record directory nor on the way to it.\<close>

lemma open_dir_upd:
  assumes "below dir p" "p \<noteq> dir" "p \<noteq> dir @ [RECORDS_DIR]"
  shows "open_dir dir (d(p := x)) \<longleftrightarrow> open_dir dir d"
proof -
  have "take n (dir @ [RECORDS_DIR]) \<noteq> p" if "n < length (dir @ [RECORDS_DIR])" for n
  proof
    assume eq: "take n (dir @ [RECORDS_DIR]) = p"
    have "length dir \<le> length p" using assms(1) unfolding below_def by (metis length_take min.cobounded1)
    with that eq have "n = length dir" by auto
    with eq assms(2) show False by simp
  qed
  then show ?thesis using assms(3) unreachable_other [of "dir @ [RECORDS_DIR]" p d x] by (auto simp: open_dir_def)
qed

lemma log_holds_upd:
  assumes "log_holds K dir d rs ps" "below dir p" "p \<noteq> dir" "p \<noteq> dir @ [RECORDS_DIR]" "p \<noteq> dir @ [INDEX_FILE]"
    and "\<And>i. p \<noteq> record_path dir i"
  shows "log_holds K dir (d(p := x)) rs ps"
  using assms(1) open_dir_upd [OF assms(2-4)] assms(5) assms(6) [symmetric]
  by (auto simp: log_holds_def indexed_def held_def)

section \<open>What the operations do to a log\<close>

lemma log_mkdir:
  assumes "log_holds K dir d rs ps" "mkdir_p (dir @ [RECORDS_DIR]) d = r"
  obtains d' where "r = Inr d'" "log_holds K dir d' rs ps" "d' dir = Some Dir" "d' (dir @ [RECORDS_DIR]) = Some Dir"
    "\<And>q. d' q = (if take (length q) (dir @ [RECORDS_DIR]) = q \<and> d q = None then Some Dir else d q)"
proof -
  define d' where "d' = (\<lambda>q. if take (length q) (dir @ [RECORDS_DIR]) = q \<and> d q = None then Some Dir else d q)"
  have open_d: "open_dir dir d" by (rule log_holdsD(1) [OF assms(1)])
  have r: "r = Inr d'" using assms(2) open_d by (simp add: mkdir_p_def open_dir_def d'_def)
  have files: "is_file (d' q) \<longleftrightarrow> is_file (d q)" for q by (simp add: d'_def is_file_def)
  have same: "d' (record_path dir i) = d (record_path dir i)" "d' (dir @ [INDEX_FILE]) = d (dir @ [INDEX_FILE])" for i
    by (simp_all add: d'_def record_path_def)
  have dirs: "d' dir = Some Dir" "d' (dir @ [RECORDS_DIR]) = Some Dir"
    using open_d open_dir_reach(4) [OF open_d]
    by (auto simp: d'_def open_dir_def is_file_def split: option.splits disk_node.splits)
  have "open_dir dir d'" using open_d by (simp add: open_dir_def unreachable_def files)
  then have "log_holds K dir d' rs ps"
    using assms(1) unfolding log_holds_def indexed_def held_def same by simp
  then show ?thesis using that [OF r _ dirs] by (simp add: d'_def)
qed

text \<open>The first half of an append: the record file. It is written exactly if its id is new.\<close>

lemma log_store_record:
  assumes log: "log_holds K dir d rs ps" and dir: "d (dir @ [RECORDS_DIR]) = Some Dir"
  shows "store_record taken dir i v d =
    (if i \<in> lk_key K ` set (rs @ ps) then Inl (StoreCode taken) else Inr (d(record_path dir i \<mapsto> File (record_text v))))"
proof -
  have "butlast (record_path dir i) = dir @ [RECORDS_DIR]"
    by (simp add: record_path_def butlast_append)
  then show ?thesis
    using open_dir_reach(1) [OF log_holdsD(1) [OF log]] log_holdsD(5) [OF log, of i] dir
    by (auto simp: store_record_def write_wx_def)
qed

lemma log_written:
  assumes log: "log_holds K dir d rs ps" and new: "lk_key K r \<notin> lk_key K ` set (rs @ ps)"
    and r: "readable K r" "lk_parse K t = Some r"
  shows "log_holds K dir (d(record_path dir (lk_key K r) \<mapsto> File t)) rs (ps @ [r])"
proof -
  let ?d = "d(record_path dir (lk_key K r) \<mapsto> File t)"
  have "held K dir ?d q" if q: "q \<in> set (rs @ ps)" for q
  proof -
    have "lk_key K q \<noteq> lk_key K r" using new q by (metis imageI)
    then show ?thesis using log_holdsD(4) [OF log q] by (simp add: held_def)
  qed
  moreover have "held K dir ?d r" using r by (simp add: held_def)
  moreover have "open_dir dir ?d"
    using log_holdsD(1) [OF log] by (subst open_dir_upd) simp_all
  moreover have "distinct (map (lk_key K) (rs @ ps @ [r]))"
    using log_holdsD(3) [OF log] new by auto
  ultimately show ?thesis
    using log_holdsD(2,5) [OF log] by (auto simp: log_holds_def indexed_def)
qed

text \<open>The second half: the line of the index, for any record that is waiting for it.\<close>

lemma log_index_line:
  assumes log: "log_holds K dir d rs (ps @ r # qs)" and dir: "d dir = Some Dir"
  obtains d' where "appendJsonLine (dir @ [INDEX_FILE]) (JObj (lk_entry K r)) d = Inr d'"
    "log_holds K dir d' (rs @ [r]) (ps @ qs)" "\<And>q. q \<noteq> dir @ [INDEX_FILE] \<Longrightarrow> d' q = d q"
proof -
  define d' where "d' = d(dir @ [INDEX_FILE] \<mapsto> File (index_text K (rs @ [r])))"
  have "appendJsonLine (dir @ [INDEX_FILE]) (JObj (lk_entry K r)) d = Inr d'"
    using open_dir_reach(2) [OF log_holdsD(1) [OF log]] log_holdsD(2) [OF log] dir
    by (auto simp: appendJsonLine_def append_file_def indexed_def index_text_def d'_def simp del: stringify.simps)
  moreover have "log_holds K dir d' (rs @ [r]) (ps @ qs)"
  proof -
    have "open_dir dir d'" unfolding d'_def by (subst open_dir_upd) (simp_all add: log_holdsD(1) [OF log])
    moreover have "distinct (map (lk_key K) ((rs @ [r]) @ ps @ qs))" using log_holdsD(3) [OF log] by auto
    ultimately show ?thesis
      using log_holdsD(4,5) [OF log] by (auto simp: log_holds_def indexed_def held_def d'_def)
  qed
  ultimately show ?thesis using that by (simp add: d'_def)
qed

lemma log_read_record:
  assumes "log_holds K dir d rs ps" "r \<in> set (rs @ ps)"
  obtains t where "read_file (record_path dir (lk_key K r)) d = Inr t" "lk_parse K t = Some r" "readable K r"
  using log_holdsD(4) [OF assms] open_dir_reach(1) [OF log_holdsD(1) [OF assms(1)]]
  by (auto simp: held_def read_file_def)

lemma log_read_missing:
  assumes "log_holds K dir d rs ps" "i \<notin> lk_key K ` set (rs @ ps)"
  shows "read_file (record_path dir i) d = Inl ENOENT"
  using log_holdsD(5) [OF assms(1), of i] assms(2) open_dir_reach(1) [OF log_holdsD(1) [OF assms(1)], of i]
  by (simp add: read_file_def)

lemma log_read_index:
  assumes "log_holds K dir d rs ps"
  shows "read_file (dir @ [INDEX_FILE]) d = Inl ENOENT \<and> rs = [] \<or>
    read_file (dir @ [INDEX_FILE]) d = Inr (index_text K rs)"
  using log_holdsD(2) [OF assms] open_dir_reach(2) [OF log_holdsD(1) [OF assms]]
  by (auto simp: indexed_def read_file_def)

lemma log_parse_index:
  assumes "\<forall>r \<in> set rs. readable K r"
  shows "parseIndex (lk_parse K) (lk_entry_ok K) (index_text K rs) = Inr (map (\<lambda>r. JObj (lk_entry K r)) rs)"
proof -
  have "index_lines (index_text K rs) = map (\<lambda>r. stringify (JObj (lk_entry K r))) rs"
    using index_lines_log [of "map (lk_entry K) rs"] by (simp add: index_text_def comp_def del: stringify.simps)
  then show ?thesis
    using assms by (auto simp: parseIndex_def mapE_Inr_iff list_all2_map1 list_all2_map2 index_line_def readable_def
        list.rel_refl_strong simp del: stringify.simps)
qed

text \<open>A directory that nothing was written to holds the empty log.\<close>

lemma log_empty:
  assumes "\<And>p. below dir p \<Longrightarrow> d p = None" "\<not> unreachable d dir"
  shows "log_holds K dir d [] []"
proof -
  have "d dir = None" using assms(1) [of dir] by (simp add: below_def)
  then have "open_dir dir d"
    using assms by (simp add: open_dir_def unreachable_snoc is_file_def RECORDS_DIR_def)
  then show ?thesis using assms(1) by (simp add: log_holds_def indexed_def)
qed

section \<open>Changes stay in the directory\<close>

text \<open>All that changes is at or below the directory, or a directory on the way that was missing.\<close>

definition confined :: "path \<Rightarrow> disk \<Rightarrow> disk \<Rightarrow> bool" where
  "confined dir d d' \<longleftrightarrow>
     (\<forall>q. d' q \<noteq> d q \<longrightarrow> below dir q \<or> take (length q) dir = q \<and> d q = None \<and> d' q = Some Dir)"

lemma confined_refl [simp]: "confined dir d d"
  by (simp add: confined_def)

lemma confined_trans: "confined dir d d1 \<Longrightarrow> confined dir d1 d2 \<Longrightarrow> confined dir d d2"
  unfolding confined_def by (metis option.distinct(1))

lemma confined_upd: "below dir p \<Longrightarrow> confined dir d (d(p := x))"
  by (simp add: confined_def)

lemma confined_mkdir:
  assumes "mkdir_p (dir @ [RECORDS_DIR]) d = Inr d'"
  shows "confined dir d d'"
proof -
  have way: "below dir q \<or> take (length q) dir = q" if "take (length q) (dir @ [RECORDS_DIR]) = q" for q
    using that by (cases "length q \<le> length dir") (auto simp: below_def)
  show ?thesis using assms by (auto simp: confined_def mkdir_p_def simp del: take_append dest: way split: if_splits)
qed

lemma confined_store_record: "store_record taken dir i v d = Inr d' \<Longrightarrow> confined dir d d'"
  by (auto simp: store_record_def write_wx_def confined_upd split: if_splits sum.splits node_error.splits)

lemma confined_index_line: "appendJsonLine (dir @ [x]) v d = Inr d' \<Longrightarrow> confined dir d d'"
  by (auto simp: appendJsonLine_def append_file_def confined_upd split: if_splits option.splits disk_node.splits)

section \<open>The contract of an append-only store\<close>

text \<open>The records that a sequence of appends has stored; a refused append stores nothing.\<close>

fun append_all :: "('d \<Rightarrow> 'r \<Rightarrow> 'd \<times> ('e + json)) \<Rightarrow> 'd \<Rightarrow> 'r list \<Rightarrow> 'd \<times> json list" where
  "append_all app d [] = (d, [])"
| "append_all app d (x # xs) =
     (case app d x of
        (d1, Inl e) \<Rightarrow> append_all app d1 xs
      | (d1, Inr r) \<Rightarrow> (case append_all app d1 xs of (d2, rs) \<Rightarrow> (d2, r # rs)))"

text \<open>
  \<open>inv d rs\<close>: the store holds \<open>rs\<close>. An append of an input that meets \<open>adm\<close> adds the record it
  returns, as a reader sees it, under an id that is new, or changes nothing; what is held can be listed
  and read.
\<close>

locale record_log =
  fixes inv :: "'d \<Rightarrow> json list \<Rightarrow> bool"
    and adm :: "'r \<Rightarrow> bool"
    and app :: "'d \<Rightarrow> 'r \<Rightarrow> 'd \<times> ('e + json)"
    and rd :: "'d \<Rightarrow> string \<Rightarrow> 'e + json"
    and ls :: "'d \<Rightarrow> 'e + json list"
    and key :: "json \<Rightarrow> string"
  assumes append_ok: "inv d rs \<Longrightarrow> adm x \<Longrightarrow> app d x = (d', Inr r) \<Longrightarrow>
      inv d' (rs @ [normalizeJsonValue r]) \<and> key (normalizeJsonValue r) = key r"
    and append_refused: "inv d rs \<Longrightarrow> adm x \<Longrightarrow> app d x = (d', Inl e) \<Longrightarrow> inv d' rs"
    and read_held: "inv d rs \<Longrightarrow> r \<in> set rs \<Longrightarrow> rd d (key r) = Inr r"
    and listing: "inv d rs \<Longrightarrow> ls d = Inr rs"
    and keys_distinct: "inv d rs \<Longrightarrow> distinct (map key rs)"
begin

lemma append_all_inv:
  assumes "inv d rs" "list_all adm xs" "append_all app d xs = (d', new)"
  shows "inv d' (rs @ map normalizeJsonValue new) \<and> (\<forall>r \<in> set new. key (normalizeJsonValue r) = key r)"
  using assms
proof (induction xs arbitrary: d rs new)
  case (Cons x xs)
  obtain d1 out where out: "app d x = (d1, out)" by (cases "app d x")
  show ?case
  proof (cases out)
    case (Inl e)
    then have "inv d1 rs" using append_refused [OF Cons.prems(1)] Cons.prems(2) out by auto
    then show ?thesis using Cons.IH [of d1 rs new] Cons.prems out Inl by simp
  next
    case (Inr r)
    obtain tail where tail: "append_all app d1 xs = (d', tail)" "new = r # tail"
      using Cons.prems(3) out Inr by (auto split: prod.splits)
    have "inv d1 (rs @ [normalizeJsonValue r]) \<and> key (normalizeJsonValue r) = key r"
      using append_ok [OF Cons.prems(1)] Cons.prems(2) out Inr by auto
    then show ?thesis using Cons.IH [of d1 "rs @ [normalizeJsonValue r]" tail] Cons.prems(2) tail by simp
  qed
qed simp

lemma appended_is_listed:
  assumes "inv d []" "list_all adm xs" "append_all app d xs = (d', new)"
  shows "ls d' = Inr (map normalizeJsonValue new)"
  using append_all_inv [OF assms] listing by simp

lemma appended_is_read:
  assumes "inv d []" "list_all adm xs" "append_all app d xs = (d', new)" "r \<in> set new"
  shows "rd d' (key r) = Inr (normalizeJsonValue r)"
  using append_all_inv [OF assms(1-3)] read_held [of d' "map normalizeJsonValue new" "normalizeJsonValue r"] assms(4) by simp

lemma ids_are_unique:
  assumes "inv d []" "list_all adm xs" "append_all app d xs = (d', new)"
  shows "distinct (map key new)"
proof -
  have "map key (map normalizeJsonValue new) = map key new" using append_all_inv [OF assms] by simp
  moreover have "distinct (map key (map normalizeJsonValue new))"
    using append_all_inv [OF assms] by (intro keys_distinct [of d']) simp
  ultimately show ?thesis by (simp only:)
qed

end

end
