(* ===== verification/Evidence_Store.thy ===== *)
theory Evidence_Store
  imports Evidence_Schemas Run_Files
begin

text \<open>
  The evidence store (\<^verbatim>\<open>evidence-store/src/index.ts\<close>): \<^verbatim>\<open>appendEvidence\<close>, \<^verbatim>\<open>readEvidence\<close> and
  \<^verbatim>\<open>listEvidence\<close> on the disk of \<open>Run_Files\<close>. Records are JSON values. The date-time format and the
  messages of the issues that the schema library reports are parameters, as is \<^verbatim>\<open>JSON.parse\<close>. A
  listing reads its records concurrently and the first failure ends it; the model takes them in order.

  The results: whatever the disk holds, a source fact that the store returns has a trusted authority and
  trusted sources; records are never replaced and a listing gives the appended records in order; and
  when appends overlap, the index never names a record that cannot be read.
\<close>

section \<open>Data\<close>

datatype EvidenceStoreErrorCode = EvidenceExists | EvidenceNotFound | InvalidEvidence | UnsupportedSourceFact

type_synonym evidence_error = "EvidenceStoreErrorCode store_error"

record evidence_env =
  ee_dt :: "string \<Rightarrow> bool"
  ee_messages :: "json \<Rightarrow> string list"
  ee_parse :: "string \<Rightarrow> json option"

definition evidence_dir :: "path \<Rightarrow> string \<Rightarrow> RunStoreErrorCode + path" where
  "evidence_dir root runId = bindE (run_dir root runId) (\<lambda>d. Inr (d @ [''evidence'']))"

section \<open>Validation\<close>

definition isUnsupportedSourceFactMessage :: "string \<Rightarrow> bool" where
  "isUnsupportedSourceFactMessage m \<longleftrightarrow>
     ends_with ''evidence must include sourceRefs'' m \<or>
     m = ''conflict evidence must include at least two sourceRefs'' \<or>
     m = ''source_fact evidence cannot use model or generated authority'' \<or>
     m = ''source_fact evidence sourceRefs must carry trusted authority''"

definition validateEvidenceRecord :: "evidence_env \<Rightarrow> json \<Rightarrow> EvidenceStoreErrorCode + json" where
  "validateEvidenceRecord env r =
     (if EvidenceRecordSchema (ee_dt env) r then Inr r
      else if list_ex isUnsupportedSourceFactMessage (ee_messages env r) then Inl UnsupportedSourceFact
      else Inl InvalidEvidence)"

definition normalizeSourceRef :: "json \<Rightarrow> json \<Rightarrow> json" where
  "normalizeSourceRef record_value ref =
     (case ref of
        JStr s \<Rightarrow> JStr s
      | _ \<Rightarrow>
          let r1 = with_field ''authority'' (nullish (js_get ref ''authority'') (js_get record_value ''authority'')) ref;
              r2 = with_field ''redactionClass'' (nullish (js_get ref ''redactionClass'') (JStr ''operator'')) r1;
              call = js_get (js_get record_value ''createdBy'') ''toolCallId'' in
          if js_get ref ''captureToolCallId'' = JUndefined \<and> call \<noteq> JUndefined
          then with_field ''captureToolCallId'' call r2 else r2)"

definition withEvidenceDefaults :: "json \<Rightarrow> json" where
  "withEvidenceDefaults r =
     with_field ''sourceRefs'' (JArr (map (normalizeSourceRef r) (items_of r ''sourceRefs'')))
       (with_field ''redactionPolicy'' (nullish (js_get r ''redactionPolicy'') (JStr ''operator'')) r)"

section \<open>Append\<close>

definition evidence_id :: "json \<Rightarrow> string" where
  "evidence_id r = text_of r ''id''"

definition evidence_entry :: "json \<Rightarrow> (string \<times> json) list" where
  "evidence_entry r = [(''id'', JStr (evidence_id r)), (''uri'', JStr (recordUri (evidence_id r)))]"

text \<open>An append up to the record file, and its line in the index.\<close>

definition evidence_write :: "evidence_env \<Rightarrow> path \<Rightarrow> string \<Rightarrow> disk \<Rightarrow> json \<Rightarrow> disk \<times> (evidence_error + path \<times> json)" where
  "evidence_write env root runId d input =
     (case validateEvidenceRecord env (withEvidenceDefaults input) of
        Inl e \<Rightarrow> (d, Inl (StoreCode e))
      | Inr r \<Rightarrow>
          (case evidence_dir root runId of
             Inl e \<Rightarrow> (d, Inl (RunCode e))
           | Inr dir \<Rightarrow>
               (case mkdir_p (dir @ [RECORDS_DIR]) d of
                  Inl e \<Rightarrow> (d, Inl (NodeCode e))
                | Inr d1 \<Rightarrow>
                    (case store_record EvidenceExists dir (evidence_id r) r d1 of
                       Inl e \<Rightarrow> (d1, Inl e)
                     | Inr d2 \<Rightarrow> (d2, Inr (dir, r))))))"

definition evidence_index :: "path \<Rightarrow> json \<Rightarrow> disk \<Rightarrow> disk \<times> (evidence_error + json)" where
  "evidence_index dir r d =
     (case appendJsonLine (dir @ [INDEX_FILE]) (JObj (evidence_entry r)) d of
        Inl e \<Rightarrow> (d, Inl (NodeCode e))
      | Inr d' \<Rightarrow> (d', Inr r))"

definition appendEvidence :: "evidence_env \<Rightarrow> path \<Rightarrow> string \<Rightarrow> disk \<Rightarrow> json \<Rightarrow> disk \<times> (evidence_error + json)" where
  "appendEvidence env root runId d input =
     (case evidence_write env root runId d input of
        (d1, Inl e) \<Rightarrow> (d1, Inl e)
      | (d1, Inr (dir, r)) \<Rightarrow> evidence_index dir r d1)"

section \<open>Read and list\<close>

definition parseEvidenceRecord :: "evidence_env \<Rightarrow> string \<Rightarrow> string \<Rightarrow> evidence_error + json" where
  "parseEvidenceRecord env raw expectedId =
     (case ee_parse env raw of
        None \<Rightarrow> Inl (StoreCode InvalidEvidence)
      | Some v \<Rightarrow>
          (case validateEvidenceRecord env v of
             Inl e \<Rightarrow> Inl (StoreCode e)
           | Inr r \<Rightarrow> if evidence_id r \<noteq> expectedId then Inl (StoreCode InvalidEvidence) else Inr r))"

definition readEvidence :: "evidence_env \<Rightarrow> path \<Rightarrow> string \<Rightarrow> disk \<Rightarrow> string \<Rightarrow> evidence_error + json" where
  "readEvidence env root runId d evidenceId =
     (case evidence_dir root runId of
        Inl e \<Rightarrow> Inl (RunCode e)
      | Inr dir \<Rightarrow>
          (case read_file (record_path dir evidenceId) d of
             Inl ENOENT \<Rightarrow> Inl (StoreCode EvidenceNotFound)
           | Inl e \<Rightarrow> Inl (NodeCode e)
           | Inr raw \<Rightarrow> parseEvidenceRecord env raw evidenceId))"

definition evidence_entry_ok :: "json \<Rightarrow> bool" where
  "evidence_entry_ok v \<longleftrightarrow> is_record v \<and> nonEmptyString (js_get v ''id'') \<and> nonEmptyString (js_get v ''uri'')"

definition read_entry :: "evidence_env \<Rightarrow> path \<Rightarrow> disk \<Rightarrow> json \<Rightarrow> evidence_error + json" where
  "read_entry env dir d entry =
     (case join_path dir (text_of entry ''uri'') of
        Inl e \<Rightarrow> Inl (NodeCode e)
      | Inr p \<Rightarrow>
          (case read_file p d of
             Inl e \<Rightarrow> Inl (NodeCode e)
           | Inr raw \<Rightarrow> parseEvidenceRecord env raw (text_of entry ''id'')))"

definition listEvidence :: "evidence_env \<Rightarrow> path \<Rightarrow> string \<Rightarrow> disk \<Rightarrow> evidence_error + json list" where
  "listEvidence env root runId d =
     (case evidence_dir root runId of
        Inl e \<Rightarrow> Inl (RunCode e)
      | Inr dir \<Rightarrow>
          (case read_file (dir @ [INDEX_FILE]) d of
             Inl ENOENT \<Rightarrow> Inr []
           | Inl e \<Rightarrow> Inl (NodeCode e)
           | Inr raw \<Rightarrow>
               (case parseIndex (ee_parse env) evidence_entry_ok raw of
                  Inl _ \<Rightarrow> Inl (StoreCode InvalidEvidence)
                | Inr entries \<Rightarrow> mapE (read_entry env dir d) entries)))"

section \<open>What the store returns\<close>

text \<open>Evidence that has the sources its class demands.\<close>

definition sourced :: "json \<Rightarrow> bool" where
  "sourced r \<longleftrightarrow>
     (let refs = items_of r ''sourceRefs'' in
      (text_of r ''class'' \<in> {''source_fact'', ''derived_fact''} \<longrightarrow> refs \<noteq> []) \<and>
      (text_of r ''class'' = ''source_fact'' \<longrightarrow>
         text_of r ''authority'' \<in> {''user'', ''repo'', ''design'', ''external''} \<and>
         (\<forall>x \<in> set refs. js_str x = None \<and> text_of x ''authority'' \<in> {''user'', ''repo'', ''design'', ''external''})) \<and>
      (text_of r ''class'' = ''conflict'' \<longrightarrow> 2 \<le> length refs \<and> js_get r ''conflictGroup'' \<noteq> JUndefined))"

lemma valid_evidence_is_sourced:
  assumes "EvidenceRecordSchema dt r"
  shows "sourced r"
proof -
  have "evidence_issues r = []" using assms by (simp add: EvidenceRecordSchema_def)
  then show ?thesis
    unfolding sourced_def evidence_issues_def Let_def append_is_Nil_conv issue_empty guarded_empty map_is_Nil_conv
      filter_empty_conv sourceRefCarriesTrustedAuthority_def isTrustedSourceAuthority_def
      evidenceClassRequiresSourceRefs_def lacks_def not_less by blast
qed

lemma validated: "validateEvidenceRecord env v = Inr r \<longleftrightarrow> r = v \<and> EvidenceRecordSchema (ee_dt env) v"
  by (auto simp: validateEvidenceRecord_def)

lemma appended_is_valid: "snd (appendEvidence env root runId d x) = Inr r \<Longrightarrow> EvidenceRecordSchema (ee_dt env) r"
  by (auto simp: appendEvidence_def evidence_write_def evidence_index_def validated split: sum.splits prod.splits)

lemma parsed_is_valid: "parseEvidenceRecord env raw i = Inr r \<Longrightarrow> EvidenceRecordSchema (ee_dt env) r"
  by (auto simp: parseEvidenceRecord_def validated split: option.splits sum.splits if_splits)

lemma read_is_valid: "readEvidence env root runId d i = Inr r \<Longrightarrow> EvidenceRecordSchema (ee_dt env) r"
  by (auto simp: readEvidence_def parsed_is_valid split: sum.splits node_error.splits)

lemma listed_is_valid:
  assumes "listEvidence env root runId d = Inr rs" "r \<in> set rs"
  shows "EvidenceRecordSchema (ee_dt env) r"
proof -
  have "rs = [] \<or> (\<exists>dir entries. mapE (read_entry env dir d) entries = Inr rs)"
    using assms(1) by (auto simp: listEvidence_def split: sum.splits node_error.splits)
  then obtain dir entries where "list_all2 (\<lambda>e r. read_entry env dir d e = Inr r) entries rs"
    using assms(2) by (auto simp: mapE_Inr_iff)
  then obtain e where "read_entry env dir d e = Inr r"
    using list_all2_partner(2) assms(2) by blast
  then show ?thesis by (auto simp: read_entry_def parsed_is_valid split: sum.splits)
qed

section \<open>The log of evidence\<close>

definition evidence_kind :: "evidence_env \<Rightarrow> log_kind" where
  "evidence_kind env =
     \<lparr>lk_parse = ee_parse env, lk_entry = evidence_entry, lk_entry_ok = evidence_entry_ok,
      lk_valid = EvidenceRecordSchema (ee_dt env), lk_key = evidence_id\<rparr>"

lemma evidence_kind_simps [simp]:
  "lk_parse (evidence_kind env) = ee_parse env" "lk_entry (evidence_kind env) = evidence_entry"
  "lk_entry_ok (evidence_kind env) = evidence_entry_ok" "lk_valid (evidence_kind env) = EvidenceRecordSchema (ee_dt env)"
  "lk_key (evidence_kind env) = evidence_id"
  by (simp_all add: evidence_kind_def)

text \<open>\<^verbatim>\<open>JSON.parse\<close> reads back the text of the record and of its index entry.\<close>

definition reads_back :: "evidence_env \<Rightarrow> json \<Rightarrow> bool" where
  "reads_back env r \<longleftrightarrow>
     ee_parse env (record_text r) = Some (norm r) \<and>
     ee_parse env (stringify (JObj (evidence_entry r))) = Some (JObj (evidence_entry r))"

definition evidence_adm :: "evidence_env \<Rightarrow> json \<Rightarrow> bool" where
  "evidence_adm env x \<longleftrightarrow> js_wf x \<and> reads_back env (withEvidenceDefaults x)"

definition evidence_log :: "evidence_env \<Rightarrow> path \<Rightarrow> string \<Rightarrow> disk \<Rightarrow> json list \<Rightarrow> json list \<Rightarrow> bool" where
  "evidence_log env root runId d rs ps \<longleftrightarrow>
     (\<forall>x \<in> set root. good_segment x) \<and>
     (\<exists>dir. evidence_dir root runId = Inr dir \<and> log_holds (evidence_kind env) dir d rs ps \<and>
        (ps = [] \<or> d dir = Some Dir))"

lemma js_wf_defaults: "js_wf x \<Longrightarrow> js_wf (withEvidenceDefaults x)"
proof -
  assume x: "js_wf x"
  have "js_wf (normalizeSourceRef x ref)" if "ref \<in> set (items_of x ''sourceRefs'')" for ref
    using items_wf [OF x that] x
    by (cases ref) (simp_all add: normalizeSourceRef_def Let_def js_wf_with_field js_wf_nullish js_wf_get del: json_wf.simps(6,7))
  then show ?thesis
    using x by (auto simp: withEvidenceDefaults_def list_all_iff intro!: js_wf_with_field js_wf_nullish js_wf_get)
qed

lemma evidence_dir_good:
  "evidence_dir root runId = Inr dir \<Longrightarrow> \<forall>x \<in> set root. good_segment x \<Longrightarrow> \<forall>x \<in> set dir. good_segment x"
proof -
  assume dir: "evidence_dir root runId = Inr dir" "\<forall>x \<in> set root. good_segment x"
  obtain run where run: "run_dir root runId = Inr run" "dir = run @ [''evidence'']"
    using dir(1) by (auto simp only: evidence_dir_def bindE_Inr_iff sum.inject)
  have "good_segment ''evidence''" by (simp add: good_segment_def)
  then show ?thesis using run_dir_good [OF dir(2) run(1)] run(2) by simp
qed

lemma evidence_id_norm: "js_wf r \<Longrightarrow> evidence_id (norm r) = evidence_id r" "js_wf r \<Longrightarrow> evidence_entry (norm r) = evidence_entry r"
  by (simp_all add: evidence_id_def evidence_entry_def field_norm)

lemma evidence_id_valid: "EvidenceRecordSchema dt r \<Longrightarrow> evidence_id r \<noteq> [] \<and> r \<noteq> JUndefined"
proof -
  assume r: "EvidenceRecordSchema dt r"
  have "nonEmptyString (js_get r ''id'')"
    by (rule z_strict_get [OF conjunct1 [OF r [unfolded EvidenceRecordSchema_def]]]) (simp add: evidence_shape_def)
  then show ?thesis by (auto simp: nonEmptyString_iff evidence_id_def text_of_def fstr_def the_str_def)
qed

lemma readable_evidence:
  assumes "EvidenceRecordSchema (ee_dt env) r" "js_wf r" "reads_back env r"
  shows "readable (evidence_kind env) (norm r)"
proof -
  have "EvidenceRecordSchema (ee_dt env) (norm r)"
    using stableD [OF stable_evidence_record assms(1,2)] evidence_id_valid [OF assms(1)] by simp
  moreover have "evidence_entry_ok (JObj (evidence_entry r))"
    using evidence_id_valid [OF assms(1)]
    by (simp add: evidence_entry_ok_def evidence_entry_def is_record_def js_get_def nonEmptyString_def recordUri_def RECORDS_DIR_def)
  ultimately show ?thesis
    using assms(3) by (simp add: readable_def evidence_id_norm [OF assms(2)] reads_back_def del: stringify.simps)
qed

lemma evidence_logE:
  assumes "evidence_log env root runId d rs ps"
  obtains dir where "evidence_dir root runId = Inr dir" "log_holds (evidence_kind env) dir d rs ps"
    "ps = [] \<or> d dir = Some Dir" "\<forall>x \<in> set root. good_segment x" "\<forall>x \<in> set dir. good_segment x"
  using assms evidence_dir_good by (auto simp: evidence_log_def)

text \<open>The first half of an append stores exactly the valid records with a new id.\<close>

lemma evidence_write_log:
  assumes log: "evidence_log env root runId d rs ps" and x: "evidence_adm env x"
    and valid: "validateEvidenceRecord env (withEvidenceDefaults x) = Inr r"
  shows "if evidence_id r \<in> evidence_id ` set (rs @ ps)
    then \<exists>d'. evidence_write env root runId d x = (d', Inl (StoreCode EvidenceExists)) \<and> evidence_log env root runId d' rs ps
    else \<exists>d' dir. evidence_write env root runId d x = (d', Inr (dir, r)) \<and> evidence_dir root runId = Inr dir \<and>
      evidence_log env root runId d' rs (ps @ [norm r])"
proof -
  have r: "r = withEvidenceDefaults x" "EvidenceRecordSchema (ee_dt env) r" using valid by (simp_all add: validated)
  have wf: "js_wf r" "reads_back env r" using x r(1) js_wf_defaults by (simp_all add: evidence_adm_def)
  obtain dir where dir: "evidence_dir root runId = Inr dir" "log_holds (evidence_kind env) dir d rs ps"
    "\<forall>x \<in> set root. good_segment x" using evidence_logE [OF log] by metis
  obtain d1 where d1: "mkdir_p (dir @ [RECORDS_DIR]) d = Inr d1" "log_holds (evidence_kind env) dir d1 rs ps"
    "d1 dir = Some Dir" "d1 (dir @ [RECORDS_DIR]) = Some Dir"
    using log_mkdir [OF dir(2) refl] by metis
  note store = log_store_record [OF d1(2,4), of EvidenceExists "evidence_id r" r, simplified]
  show ?thesis
  proof (cases "evidence_id r \<in> evidence_id ` set (rs @ ps)")
    case True
    then show ?thesis
      using valid dir d1 store by (auto simp: evidence_write_def evidence_log_def)
  next
    case False
    have new: "lk_key (evidence_kind env) (norm r) \<notin> lk_key (evidence_kind env) ` set (rs @ ps)"
      using False by (simp add: evidence_id_norm wf)
    have "log_holds (evidence_kind env) dir (d1(record_path dir (evidence_id r) \<mapsto> File (record_text r))) rs (ps @ [norm r])"
      using log_written [OF d1(2) new readable_evidence [OF r(2) wf], of "record_text r"] wf
      by (simp add: evidence_id_norm reads_back_def del: stringify.simps)
    then show ?thesis
      using False valid dir d1 store by (auto simp: evidence_write_def evidence_log_def)
  qed
qed

text \<open>The second half never fails, whichever record is next.\<close>

lemma evidence_index_log:
  assumes log: "evidence_log env root runId d rs (ps @ norm r # qs)" and dir: "evidence_dir root runId = Inr dir" and r: "js_wf r"
  obtains d' where "evidence_index dir r d = (d', Inr r)" "evidence_log env root runId d' (rs @ [norm r]) (ps @ qs)"
proof -
  have log': "log_holds (evidence_kind env) dir d rs (ps @ norm r # qs)" "d dir = Some Dir" "\<forall>x \<in> set root. good_segment x"
    using log dir by (auto simp: evidence_log_def)
  obtain d' where d': "appendJsonLine (dir @ [INDEX_FILE]) (JObj (evidence_entry (norm r))) d = Inr d'"
    "log_holds (evidence_kind env) dir d' (rs @ [norm r]) (ps @ qs)" "\<And>q. q \<noteq> dir @ [INDEX_FILE] \<Longrightarrow> d' q = d q"
    using log_index_line [OF log'(1,2)] unfolding evidence_kind_simps by metis
  have "d' dir = Some Dir" using d'(3) [of dir] log'(2) by simp
  then show ?thesis
    using that [of d'] d'(1,2) dir log'(3) by (simp add: evidence_index_def evidence_log_def evidence_id_norm [OF r])
qed

lemma parse_held:
  "ee_parse env t = Some r \<Longrightarrow> EvidenceRecordSchema (ee_dt env) r \<Longrightarrow> parseEvidenceRecord env t (evidence_id r) = Inr r"
  by (simp add: parseEvidenceRecord_def validateEvidenceRecord_def)

lemma evidence_log_read:
  assumes "evidence_log env root runId d rs ps" "r \<in> set (rs @ ps)"
  shows "readEvidence env root runId d (evidence_id r) = Inr r"
proof -
  obtain dir where dir: "evidence_dir root runId = Inr dir" "log_holds (evidence_kind env) dir d rs ps"
    using evidence_logE [OF assms(1)] by metis
  obtain t where "read_file (record_path dir (evidence_id r)) d = Inr t" "ee_parse env t = Some r" "readable (evidence_kind env) r"
    using log_read_record [OF dir(2) assms(2)] unfolding evidence_kind_simps by metis
  then show ?thesis using dir(1) parse_held by (simp add: readEvidence_def readable_def)
qed

lemma evidence_log_list:
  assumes "evidence_log env root runId d rs ps"
  shows "listEvidence env root runId d = Inr rs"
proof -
  obtain dir where dir: "evidence_dir root runId = Inr dir" "log_holds (evidence_kind env) dir d rs ps" "\<forall>x \<in> set dir. good_segment x"
    using evidence_logE [OF assms] by metis
  have each: "read_entry env dir d (JObj (evidence_entry r)) = Inr r" if r: "r \<in> set rs" for r
  proof -
    obtain t where "read_file (record_path dir (evidence_id r)) d = Inr t" "ee_parse env t = Some r" "readable (evidence_kind env) r"
      using log_read_record [OF dir(2), of r] r unfolding evidence_kind_simps by (metis Un_iff set_append)
    then show ?thesis
      using parse_held join_recordUri [OF dir(3)]
      by (simp add: read_entry_def evidence_entry_def text_of_def fstr_def js_get_def the_str_def readable_def)
  qed
  have parsed: "parseIndex (ee_parse env) evidence_entry_ok (index_text (evidence_kind env) rs) = Inr (map (\<lambda>r. JObj (evidence_entry r)) rs)"
    using log_parse_index [of rs "evidence_kind env"] log_holdsD(4) [OF dir(2)] by (simp add: held_def)
  have "mapE (read_entry env dir d) (map (\<lambda>r. JObj (evidence_entry r)) rs) = Inr rs"
    using each by (simp add: mapE_Inr_iff list_all2_map1 list.rel_refl_strong)
  then show ?thesis
    using log_read_index [OF dir(2)] dir(1) parsed by (auto simp: listEvidence_def)
qed

section \<open>Appends\<close>

text \<open>What an append answers when the store holds records with the given ids.\<close>

definition append_answer :: "evidence_env \<Rightarrow> string set \<Rightarrow> json \<Rightarrow> evidence_error + json" where
  "append_answer env ids x =
     (case validateEvidenceRecord env (withEvidenceDefaults x) of
        Inl e \<Rightarrow> Inl (StoreCode e)
      | Inr r \<Rightarrow> if evidence_id r \<in> ids then Inl (StoreCode EvidenceExists) else Inr r)"

lemma append_outcome:
  assumes log: "evidence_log env root runId d rs []" and x: "evidence_adm env x"
  obtains d' where "appendEvidence env root runId d x = (d', append_answer env (evidence_id ` set rs) x)"
    "evidence_log env root runId d' (case append_answer env (evidence_id ` set rs) x of Inl e \<Rightarrow> rs | Inr r \<Rightarrow> rs @ [norm r]) []"
proof (cases "validateEvidenceRecord env (withEvidenceDefaults x)")
  case (Inl e)
  then show ?thesis using that [of d] log by (simp add: appendEvidence_def evidence_write_def append_answer_def)
next
  case (Inr r)
  note first = evidence_write_log [OF log x Inr]
  show ?thesis
  proof (cases "evidence_id r \<in> evidence_id ` set rs")
    case True
    then show ?thesis using that first Inr by (auto simp: appendEvidence_def append_answer_def)
  next
    case False
    obtain d1 dir where d1: "evidence_write env root runId d x = (d1, Inr (dir, r))" "evidence_dir root runId = Inr dir"
      "evidence_log env root runId d1 rs ([] @ norm r # [])"
      using first False by auto
    have "js_wf r" using x js_wf_defaults Inr by (auto simp: validated evidence_adm_def)
    from evidence_index_log [OF d1(3,2) this] obtain d2 where
      "evidence_index dir r d1 = (d2, Inr r)" "evidence_log env root runId d2 (rs @ [norm r]) []" by auto
    then show ?thesis using that [of d2] d1(1) Inr False by (simp add: appendEvidence_def append_answer_def)
  qed
qed

text \<open>The evidence store keeps the contract of an append-only store.\<close>

interpretation evidence: record_log "\<lambda>d rs. evidence_log env root runId d rs []" "evidence_adm env"
  "appendEvidence env root runId" "readEvidence env root runId" "listEvidence env root runId" evidence_id
  for env root runId
proof
  fix d rs x d' r
  assume log: "evidence_log env root runId d rs []" and x: "evidence_adm env x" and r: "appendEvidence env root runId d x = (d', Inr r)"
  have wf: "js_wf r" using r x js_wf_defaults
    by (auto simp: appendEvidence_def evidence_write_def evidence_index_def validated evidence_adm_def split: sum.splits prod.splits)
  show "evidence_log env root runId d' (rs @ [norm r]) [] \<and> evidence_id (norm r) = evidence_id r"
  proof -
    obtain d1 where d1: "appendEvidence env root runId d x = (d1, append_answer env (evidence_id ` set rs) x)"
      "evidence_log env root runId d1 (case append_answer env (evidence_id ` set rs) x of Inl e \<Rightarrow> rs | Inr r \<Rightarrow> rs @ [norm r]) []"
      by (rule append_outcome [OF log x])
    have "append_answer env (evidence_id ` set rs) x = Inr r" "d1 = d'" using d1(1) r by simp_all
    then show ?thesis using d1(2) wf by (simp add: evidence_id_norm)
  qed
next
  fix d rs x d' e
  assume log: "evidence_log env root runId d rs []" and x: "evidence_adm env x" and e: "appendEvidence env root runId d x = (d', Inl e)"
  show "evidence_log env root runId d' rs []"
  proof -
    obtain d1 where d1: "appendEvidence env root runId d x = (d1, append_answer env (evidence_id ` set rs) x)"
      "evidence_log env root runId d1 (case append_answer env (evidence_id ` set rs) x of Inl e \<Rightarrow> rs | Inr r \<Rightarrow> rs @ [norm r]) []"
      by (rule append_outcome [OF log x])
    have "append_answer env (evidence_id ` set rs) x = Inl e" "d1 = d'" using d1(1) e by simp_all
    then show ?thesis using d1(2) by simp
  qed
next
  fix d rs
  assume log: "evidence_log env root runId d rs []"
  then show "listEvidence env root runId d = Inr rs" by (rule evidence_log_list)
  show "distinct (map evidence_id rs)" using log log_holdsD(3) by (fastforce simp: evidence_log_def)
  fix r
  assume "r \<in> set rs"
  then show "readEvidence env root runId d (evidence_id r) = Inr r" using evidence_log_read [OF log] by simp
qed

text \<open>The records that a sequence of appends should store: the valid ones, each id once.\<close>

fun accepted_evidence :: "evidence_env \<Rightarrow> string set \<Rightarrow> json list \<Rightarrow> json list" where
  "accepted_evidence env ids [] = []"
| "accepted_evidence env ids (x # xs) =
     (case append_answer env ids x of
        Inl e \<Rightarrow> accepted_evidence env ids xs
      | Inr r \<Rightarrow> r # accepted_evidence env (insert (evidence_id r) ids) xs)"

lemma append_all_accepted:
  assumes "evidence_log env root runId d rs []" "list_all (evidence_adm env) xs"
  shows "snd (append_all (appendEvidence env root runId) d xs) = accepted_evidence env (evidence_id ` set rs) xs"
  using assms
proof (induction xs arbitrary: d rs)
  case (Cons x xs)
  obtain d' where d': "appendEvidence env root runId d x = (d', append_answer env (evidence_id ` set rs) x)"
    "evidence_log env root runId d' (case append_answer env (evidence_id ` set rs) x of Inl e \<Rightarrow> rs | Inr r \<Rightarrow> rs @ [norm r]) []"
    using append_outcome [OF Cons.prems(1)] Cons.prems(2) by auto
  show ?case
  proof (cases "append_answer env (evidence_id ` set rs) x")
    case (Inl e)
    then show ?thesis using Cons.IH [of d' rs] Cons.prems(2) d' by simp
  next
    case (Inr r)
    have "js_wf r" using Inr Cons.prems(2) js_wf_defaults
      by (auto simp: append_answer_def validated evidence_adm_def split: sum.splits if_splits)
    then show ?thesis
      using Cons.IH [of d' "rs @ [norm r]"] Cons.prems(2) d' Inr
      by (cases "append_all (appendEvidence env root runId) d' xs") (simp add: evidence_id_norm)
  qed
qed simp

lemma append_confined:
  assumes "evidence_dir root runId = Inr dir" "appendEvidence env root runId d x = (d', out)"
  shows "confined dir d d'"
proof -
  have "confined dir d (fst (evidence_write env root runId d x))"
    using assms(1) confined_mkdir [of dir d] confined_store_record [of EvidenceExists dir] confined_trans
    by (auto simp: evidence_write_def split: sum.splits)
  moreover have "confined dir d1 (fst (evidence_index dir r d1))" for r d1
    using confined_index_line by (auto simp: evidence_index_def split: sum.splits)
  moreover have "snd (evidence_write env root runId d x) = Inr (dir', r) \<Longrightarrow> dir' = dir" for dir' r
    using assms(1) by (auto simp: evidence_write_def split: sum.splits)
  ultimately show ?thesis
    using assms(2) confined_trans by (auto simp: appendEvidence_def split: prod.splits sum.splits) (metis fst_conv snd_conv)+
qed

lemma append_all_confined:
  assumes "evidence_dir root runId = Inr dir"
  shows "confined dir d (fst (append_all (appendEvidence env root runId) d xs))"
proof (induction xs arbitrary: d)
  case (Cons x xs)
  obtain d1 out where out: "appendEvidence env root runId d x = (d1, out)" by (cases "appendEvidence env root runId d x")
  have "confined dir d (fst (append_all (appendEvidence env root runId) d1 xs))"
    by (rule confined_trans [OF append_confined [OF assms out] Cons.IH])
  then show ?case by (cases out; cases "append_all (appendEvidence env root runId) d1 xs") (simp_all add: out)
qed simp

text \<open>A run without evidence: its directory can be reached and holds nothing.\<close>

definition no_evidence :: "path \<Rightarrow> string \<Rightarrow> disk \<Rightarrow> bool" where
  "no_evidence root runId d \<longleftrightarrow>
     (\<forall>x \<in> set root. good_segment x) \<and>
     (case evidence_dir root runId of Inl e \<Rightarrow> False | Inr dir \<Rightarrow> \<not> unreachable d dir \<and> (\<forall>p. below dir p \<longrightarrow> d p = None))"

lemma no_evidence_log:
  assumes "no_evidence root runId d"
  shows "evidence_log env root runId d [] []"
proof -
  obtain dir where "evidence_dir root runId = Inr dir" "\<not> unreachable d dir" "\<And>p. below dir p \<Longrightarrow> d p = None"
    "\<forall>x \<in> set root. good_segment x"
    using assms by (auto simp: no_evidence_def split: sum.splits)
  then show ?thesis using log_empty [of dir d "evidence_kind env"] by (simp add: evidence_log_def)
qed

section \<open>Overlapping appends\<close>

text \<open>
  Appends of several callers overlap: each writes its record file and later its line of the index. The
  records that wait for their line are \<open>ps\<close>, those whose append has returned are \<open>old\<close>.
\<close>

inductive evidence_reach ::
  "evidence_env \<Rightarrow> path \<Rightarrow> string \<Rightarrow> disk \<Rightarrow> disk \<Rightarrow> json list \<Rightarrow> json list \<Rightarrow> bool"
  for env :: evidence_env and root :: path and runId :: string and d0 :: disk where
  start: "evidence_reach env root runId d0 d0 [] []"
| written: "evidence_reach env root runId d0 d ps old \<Longrightarrow> evidence_adm env x \<Longrightarrow>
    evidence_write env root runId d x = (d', Inr (dir, r)) \<Longrightarrow> evidence_reach env root runId d0 d' (ps @ [r]) old"
| refused: "evidence_reach env root runId d0 d ps old \<Longrightarrow> evidence_adm env x \<Longrightarrow>
    evidence_write env root runId d x = (d', Inl e) \<Longrightarrow> evidence_reach env root runId d0 d' ps old"
| listed: "evidence_reach env root runId d0 d (ps @ r # qs) old \<Longrightarrow> evidence_dir root runId = Inr dir \<Longrightarrow>
    evidence_index dir r d = (d', Inr r) \<Longrightarrow> evidence_reach env root runId d0 d' (ps @ qs) (old @ [r])"

lemma reach_log:
  assumes "evidence_reach env root runId d0 d ps old" "no_evidence root runId d0"
  shows "evidence_log env root runId d (map norm old) (map norm ps) \<and> (\<forall>r \<in> set (old @ ps). js_wf r)"
  using assms
proof (induction rule: evidence_reach.induct)
  case start
  then show ?case by (simp add: no_evidence_log)
next
  case (written d ps old x d' dir r)
  have valid: "validateEvidenceRecord env (withEvidenceDefaults x) = Inr r"
    using written.hyps(3) by (auto simp: evidence_write_def split: sum.splits)
  then have "js_wf r" using written.hyps(2) js_wf_defaults by (auto simp: validated evidence_adm_def)
  moreover have "evidence_log env root runId d' (map norm old) (map norm (ps @ [r]))"
    using evidence_write_log [OF conjunct1 [OF written.IH [OF written.prems]] written.hyps(2) valid] written.hyps(3)
    by (auto split: if_splits)
  ultimately show ?case using written.IH [OF written.prems] by simp
next
  case (refused d ps old x d' e)
  show ?case
  proof (cases "validateEvidenceRecord env (withEvidenceDefaults x)")
    case (Inl c)
    then have "d' = d" using refused.hyps(3) by (simp add: evidence_write_def)
    then show ?thesis using refused.IH [OF refused.prems] by simp
  next
    case (Inr r)
    show ?thesis
      using evidence_write_log [OF conjunct1 [OF refused.IH [OF refused.prems]] refused.hyps(2) Inr] refused.hyps(3)
        refused.IH [OF refused.prems] by (auto split: if_splits)
  qed
next
  case (listed d ps r qs old dir d')
  have log: "evidence_log env root runId d (map norm old) (map norm ps @ norm r # map norm qs)" "js_wf r"
    using listed.IH [OF listed.prems] by simp_all
  obtain d1 where "evidence_index dir r d = (d1, Inr r)" "evidence_log env root runId d1 (map norm old @ [norm r]) (map norm ps @ map norm qs)"
    by (rule evidence_index_log [OF log(1) listed.hyps(2) log(2)])
  then show ?case using listed.hyps(3) listed.IH [OF listed.prems] by auto
qed

section \<open>Properties\<close>

text \<open>
  C25: Evidence has the sources that its class demands, whatever the disk holds. A record that an append,
  a read or a listing returns as a source fact has a trusted authority and at least one source, and each
  source is a structured reference of trusted authority, so the word of a model or of generated text never
  passes as a source fact. Derived facts have sources and conflicts at least two of them.
\<close>

theorem evidence_is_sourced:
  assumes "snd (appendEvidence env root runId d x) = Inr r \<or> readEvidence env root runId d i = Inr r \<or>
    (\<exists>rs. listEvidence env root runId d = Inr rs \<and> r \<in> set rs)"
  shows "sourced r"
  using assms appended_is_valid read_is_valid listed_is_valid valid_evidence_is_sourced by metis

text \<open>
  C24: The evidence of a run is an append-only list. Starting from a run without evidence, a sequence of
  appends stores exactly the valid records, each id once: a second record with the id of an earlier one is
  refused and never replaces it. The listing gives the stored records in the order of their appends,
  reading an id gives its record, and nothing outside the evidence directory of the run changes but
  missing directories on the way to it. The JSON text of a record reads back as the record without
  its undefined properties.
\<close>

theorem evidence_is_append_only:
  assumes "no_evidence root runId d" "evidence_dir root runId = Inr dir" "list_all (evidence_adm env) xs"
    and "append_all (appendEvidence env root runId) d xs = (d', new)"
  shows "new = accepted_evidence env {} xs \<and> listEvidence env root runId d' = Inr (map norm new) \<and>
    (\<forall>r \<in> set new. readEvidence env root runId d' (evidence_id r) = Inr (norm r)) \<and> confined dir d d'"
proof -
  note empty = no_evidence_log [OF assms(1), of env]
  have "new = accepted_evidence env {} xs" using append_all_accepted [OF empty assms(3)] assms(4) by simp
  moreover have "confined dir d d'" using append_all_confined [OF assms(2), of d env xs] assms(4) by simp
  ultimately show ?thesis
    using evidence.appended_is_listed [OF empty assms(3,4)] evidence.appended_is_read [OF empty assms(3,4)] by blast
qed

text \<open>
  C28: Appends that overlap are safe. However the record writes and the index writes of several appends
  are interleaved, the listing succeeds and gives exactly the records whose append has returned, in the
  order of their index lines; every record that was written can be read; and an append whose record is
  written can always finish.
\<close>

theorem overlapping_appends_are_safe:
  assumes "no_evidence root runId d0" "evidence_dir root runId = Inr dir" "evidence_reach env root runId d0 d ps old"
  shows "listEvidence env root runId d = Inr (map norm old) \<and>
    (\<forall>r \<in> set (old @ ps). readEvidence env root runId d (evidence_id r) = Inr (norm r)) \<and>
    (\<forall>r \<in> set ps. snd (evidence_index dir r d) = Inr r)"
proof -
  have log: "evidence_log env root runId d (map norm old) (map norm ps)" and wf: "\<forall>r \<in> set (old @ ps). js_wf r"
    using reach_log [OF assms(3,1)] by blast+
  have "snd (evidence_index dir r d) = Inr r" if r: "r \<in> set ps" for r
  proof -
    obtain as bs where ps: "ps = as @ r # bs" using split_list [OF r] by blast
    have "js_wf r" using wf r by simp
    then show ?thesis
      using evidence_index_log [OF log [unfolded ps, simplified] assms(2)] by (metis snd_conv)
  qed
  moreover have "readEvidence env root runId d (evidence_id r) = Inr (norm r)" if "r \<in> set (old @ ps)" for r
    using evidence_log_read [OF log, of "norm r"] that wf by (auto simp: evidence_id_norm)
  ultimately show ?thesis using evidence_log_list [OF log] by blast
qed

section \<open>Examples\<close>

definition ex_fact :: json where
  "ex_fact = JObj
     [(''id'', JStr ''e/1''), (''class'', JStr ''source_fact''), (''claim'', JStr ''c''),
      (''sourceRefs'', JArr [JObj [(''path'', JStr ''a'')]]), (''confidence'', JStr ''high''),
      (''authority'', JStr ''repo''), (''createdBy'', JObj [(''phase'', JStr ''p''), (''actionId'', JStr ''a'')])]"

abbreviation ex_stored :: json where
  "ex_stored \<equiv> withEvidenceDefaults ex_fact"

definition ex_evidence_env :: evidence_env where
  "ex_evidence_env =
     \<lparr>ee_dt = (\<lambda>_. True), ee_messages = evidence_issues,
      ee_parse = (\<lambda>t. if t = record_text ex_stored then Some (norm ex_stored)
                      else if t = stringify (JObj (evidence_entry ex_stored)) then Some (JObj (evidence_entry ex_stored))
                      else None)\<rparr>"

definition ex_disk :: disk where
  "ex_disk = (\<lambda>p. if p = [] then Some Dir else None)"

abbreviation ex_evidence_dir :: path where
  "ex_evidence_dir \<equiv> [''.specwright'', ''runs'', ''r'', ''evidence'']"

lemma ex_evidence_dir_of: "evidence_dir [] ''r'' = Inr ex_evidence_dir"
  by code_simp

lemma ex_no_evidence: "no_evidence [] ''r'' ex_disk"
proof -
  have "\<not> unreachable ex_disk ex_evidence_dir" by code_simp
  moreover have "below ex_evidence_dir p \<Longrightarrow> ex_disk p = None" for p
    by (cases p) (simp_all add: below_def ex_disk_def)
  ultimately show ?thesis by (simp add: no_evidence_def ex_evidence_dir_of)
qed

lemma ex_adm: "evidence_adm ex_evidence_env ex_fact"
proof -
  have "js_wf ex_fact" by code_simp
  moreover have "stringify (JObj (evidence_entry ex_stored)) \<noteq> record_text ex_stored" by code_simp
  ultimately show ?thesis
    by (simp add: evidence_adm_def reads_back_def ex_evidence_env_def del: stringify.simps)
qed

lemma ex_accepted: "accepted_evidence ex_evidence_env {} [ex_fact, ex_fact] = [ex_stored]"
  by code_simp

theorem evidence_is_sourced_witness:
  "snd (appendEvidence ex_evidence_env [] ''r'' ex_disk ex_fact) = Inr ex_stored \<and> sourced ex_stored"
proof -
  have "snd (appendEvidence ex_evidence_env [] ''r'' ex_disk ex_fact) = Inr ex_stored" by code_simp
  then show ?thesis using evidence_is_sourced by blast
qed

theorem evidence_is_append_only_witness:
  "\<exists>d'. append_all (appendEvidence ex_evidence_env [] ''r'') ex_disk [ex_fact, ex_fact] = (d', [ex_stored]) \<and>
    listEvidence ex_evidence_env [] ''r'' d' = Inr [norm ex_stored]"
proof -
  obtain d' new where run: "append_all (appendEvidence ex_evidence_env [] ''r'') ex_disk [ex_fact, ex_fact] = (d', new)"
    by (cases "append_all (appendEvidence ex_evidence_env [] ''r'') ex_disk [ex_fact, ex_fact]")
  have adm: "list_all (evidence_adm ex_evidence_env) [ex_fact, ex_fact]" using ex_adm by simp
  show ?thesis
    using evidence_is_append_only [OF ex_no_evidence ex_evidence_dir_of adm run] run unfolding ex_accepted
    by (metis list.simps(8,9))
qed

theorem overlapping_appends_are_safe_witness:
  "\<exists>d. evidence_reach ex_evidence_env [] ''r'' ex_disk d [ex_stored] [] \<and> listEvidence ex_evidence_env [] ''r'' d = Inr [] \<and>
    readEvidence ex_evidence_env [] ''r'' d (evidence_id ex_stored) = Inr (norm ex_stored)"
proof -
  obtain d out where out: "evidence_write ex_evidence_env [] ''r'' ex_disk ex_fact = (d, out)"
    by (cases "evidence_write ex_evidence_env [] ''r'' ex_disk ex_fact")
  moreover have "snd (evidence_write ex_evidence_env [] ''r'' ex_disk ex_fact) = Inr (ex_evidence_dir, ex_stored)" by code_simp
  ultimately have "evidence_write ex_evidence_env [] ''r'' ex_disk ex_fact = (d, Inr (ex_evidence_dir, ex_stored))" by simp
  from evidence_reach.written [OF evidence_reach.start ex_adm this]
  have reach: "evidence_reach ex_evidence_env [] ''r'' ex_disk d [ex_stored] []" by simp
  show ?thesis
    using overlapping_appends_are_safe [OF ex_no_evidence ex_evidence_dir_of reach] reach by auto
qed

text \<open>
  A source fact that only names its source by a text is refused as unsupported, and nothing is written.
\<close>

lemma text_source_is_unsupported:
  "appendEvidence ex_evidence_env [] ''r'' ex_disk (with_field ''sourceRefs'' (JArr [JStr ''a'']) ex_fact) =
    (ex_disk, Inl (StoreCode UnsupportedSourceFact))"
proof -
  have "validateEvidenceRecord ex_evidence_env (withEvidenceDefaults (with_field ''sourceRefs'' (JArr [JStr ''a'']) ex_fact)) =
      Inl UnsupportedSourceFact" by code_simp
  then show ?thesis by (simp add: appendEvidence_def evidence_write_def)
qed

end
