(* ===== verification/Artifact_Store.thy ===== *)
theory Artifact_Store
  imports Evidence_Schemas Run_Files
begin

text \<open>
  The artifact store (\<^verbatim>\<open>artifact-store/src/index.ts\<close>): \<^verbatim>\<open>appendArtifact\<close>, \<^verbatim>\<open>readArtifact\<close> and
  \<^verbatim>\<open>listArtifacts\<close> on the disk of \<open>Run_Files\<close>. An artifact is a JSON record and, if it has content, a file
  with the content at a place that the caller may name. The messages of the issues that the schema
  library reports and \<^verbatim>\<open>JSON.parse\<close> are parameters. A listing reads its artifacts concurrently; the
  model takes them in order.

  The results: whatever an append is given, it changes nothing outside the artifacts of its run; an
  artifact that the store returns does not cite itself and supports its claims; artifacts with content
  that keep clear of the files of the store itself form an append-only list. Examples show what happens
  to the others.
\<close>

section \<open>Data\<close>

datatype ArtifactStoreErrorCode = ArtifactExists | ArtifactNotFound | GeneratedSelfCitation | InvalidArtifact | UnsupportedClaim

type_synonym artifact_error = "ArtifactStoreErrorCode store_error"

record artifact_env =
  ae_messages :: "json \<Rightarrow> string list"
  ae_parse :: "string \<Rightarrow> json option"

definition production_ARTIFACT_FILENAMES :: "(string \<times> string) list" where
  "production_ARTIFACT_FILENAMES =
     [(''run-input'', ''run-input.json''), (''source-inventory'', ''source-inventory.json''),
      (''evidence-graph'', ''evidence-graph.json''), (''plan'', ''plan.json''), (''eval-report'', ''eval-report.json''),
      (''summary'', ''summary.md'')]"

definition artifacts_dir :: "path \<Rightarrow> string \<Rightarrow> RunStoreErrorCode + path" where
  "artifacts_dir root runId = bindE (run_dir root runId) (\<lambda>d. Inr (d @ [''artifacts'']))"

section \<open>File references\<close>

definition normalizeArtifactUri :: "string \<Rightarrow> ArtifactStoreErrorCode + string" where
  "normalizeArtifactUri uri =
     (if starts_with ''/'' uri \<or> CHR 0x5C \<in> set uri \<or> str_includes ''..'' uri then Inl InvalidArtifact
      else Inr (if starts_with ''artifacts/'' uri then uri else ''artifacts/'' @ uri))"

text \<open>\<^verbatim>\<open>pathForArtifactUri\<close>: the part of the path below the artifacts directory.\<close>

definition relative_path :: "string \<Rightarrow> ArtifactStoreErrorCode + string" where
  "relative_path uri =
     bindE (normalizeArtifactUri uri) (\<lambda>n.
       let rel = drop (length ''artifacts/'') n in if rel = [] then Inl InvalidArtifact else Inr rel)"

text \<open>The text of the joined path, which keeps a slash at its end.\<close>

definition path_text :: "path \<Rightarrow> string \<Rightarrow> string" where
  "path_text dir rel =
     abs_path (normal_segments [] (dir @ split_on CHR ''/'' rel)) @ (if ends_with ''/'' rel then ''/'' else [])"

definition defaultFileRef :: "path \<Rightarrow> json \<Rightarrow> ArtifactStoreErrorCode + json" where
  "defaultFileRef dir artifactType =
     (let filename = default (map_of production_ARTIFACT_FILENAMES (js_String artifactType)) ''undefined'';
          uri = ''artifacts/'' @ filename in
      bindE (relative_path uri) (\<lambda>rel. Inr (JObj [(''uri'', JStr uri), (''path'', JStr (path_text dir rel))])))"

definition normalizeFileRef :: "path \<Rightarrow> json \<Rightarrow> ArtifactStoreErrorCode + json" where
  "normalizeFileRef dir fileRef =
     bindE (normalizeArtifactUri (text_of fileRef ''uri'')) (\<lambda>uri.
     bindE (relative_path uri) (\<lambda>rel.
       Inr (with_field ''path'' (JStr (path_text dir rel)) (with_field ''uri'' (JStr uri) fileRef))))"

section \<open>Defaults\<close>

definition normalize_claim :: "string \<Rightarrow> json \<Rightarrow> nat \<Rightarrow> json \<Rightarrow> json" where
  "normalize_claim artifactId policy index claim =
     with_field ''redactionPolicy'' (nullish (js_get claim ''redactionPolicy'') policy)
       (with_field ''verificationStatus'' (nullish (js_get claim ''verificationStatus'') (JStr ''unverified''))
         (with_field ''fieldPath''
            (nullish (js_get claim ''fieldPath'')
               (if lacks claim ''owningSection'' then JStr (''importantClaims.'' @ nat_str index) else JUndefined))
            (with_field ''owningArtifactId'' (nullish (js_get claim ''owningArtifactId'') (JStr artifactId)) claim)))"

definition normalizeImportantClaims :: "string \<Rightarrow> json \<Rightarrow> json \<Rightarrow> json" where
  "normalizeImportantClaims artifactId claims policy =
     (if claims = JUndefined then JUndefined
      else JArr (map (\<lambda>p. normalize_claim artifactId policy (fst p) (snd p)) (zip [0..<length (js_elems claims)] (js_elems claims))))"

definition input_file_ref :: "path \<Rightarrow> json \<Rightarrow> ArtifactStoreErrorCode + json" where
  "input_file_ref dir input =
     bindE (if lacks input ''fileRef'' \<and> \<not> lacks input ''content'' then defaultFileRef dir (js_get input ''artifactType'')
            else Inr (js_get input ''fileRef'')) (\<lambda>fileRef.
       if fileRef = JUndefined then Inr JUndefined else normalizeFileRef dir fileRef)"

definition withArtifactDefaults :: "path \<Rightarrow> json \<Rightarrow> ArtifactStoreErrorCode + json" where
  "withArtifactDefaults dir input =
     bindE (input_file_ref dir input) (\<lambda>fileRef.
       let evidenceRefs = JArr (unique (items_of input ''evidenceRefs''));
           metadata = with_field ''producedBy'' (js_get input ''producedBy'')
             (with_field ''evidenceRefs'' evidenceRefs (nullish (js_get input ''metadata'') (JObj [])));
           policy = nullish (js_get input ''redactionPolicy'') (JStr ''operator'');
           r1 = with_field ''redactionPolicy'' policy (with_field ''evidenceRefs'' evidenceRefs input);
           r2 = with_field ''importantClaims''
             (normalizeImportantClaims (text_of input ''artifactId'') (js_get input ''importantClaims'') policy) r1;
           r3 = (if fileRef = JUndefined then r2 else with_field ''fileRef'' fileRef r2) in
       Inr (with_field ''metadata'' metadata r3))"

section \<open>Validation\<close>

text \<open>
  \<^verbatim>\<open>refs.some((ref) => isSelfCitingEvidenceRef(record, ref))\<close> on unchecked data: \<open>None\<close> is a type
  error, of a list that is no list or of an element that is no text.
\<close>

fun some_ref :: "json \<Rightarrow> json list \<Rightarrow> bool option" where
  "some_ref r [] = Some False"
| "some_ref r (x # xs) =
     (if js_get r ''fileRef'' = JNull then None
      else (case js_str x of None \<Rightarrow> None | Some s \<Rightarrow> if isSelfCitingEvidenceRef r s then Some True else some_ref r xs))"

definition refs_cite :: "json \<Rightarrow> json \<Rightarrow> bool option" where
  "refs_cite r v = (case v of JArr xs \<Rightarrow> some_ref r xs | _ \<Rightarrow> None)"

fun some_claim :: "json \<Rightarrow> json list \<Rightarrow> bool option" where
  "some_claim r [] = Some False"
| "some_claim r (c # cs) =
     (case refs_cite r (js_get c ''evidenceRefs'') of
        None \<Rightarrow> None
      | Some b \<Rightarrow> if b then Some True else some_claim r cs)"

definition record_cites_itself :: "json \<Rightarrow> bool option" where
  "record_cites_itself r =
     (case refs_cite r (js_get r ''evidenceRefs'') of
        None \<Rightarrow> None
      | Some b \<Rightarrow>
          if b then Some True
          else (case js_get r ''importantClaims'' of
                  JUndefined \<Rightarrow> Some False
                | JNull \<Rightarrow> Some False
                | JArr cs \<Rightarrow> some_claim r cs
                | _ \<Rightarrow> None))"

definition isUnsupportedClaimMessage :: "string \<Rightarrow> bool" where
  "isUnsupportedClaimMessage m \<longleftrightarrow>
     ends_with ''artifact claims must include evidenceRefs'' m \<or> ends_with ''important claims must include evidenceRefs'' m \<or>
     m = ''source_fact claims cannot use model or generated authority''"

definition artifactStoreErrorFromSchema :: "json \<Rightarrow> string list \<Rightarrow> artifact_error" where
  "artifactStoreErrorFromSchema r messages =
     (case record_cites_itself r of
        None \<Rightarrow> JsTypeError
      | Some b \<Rightarrow>
          if b \<or> list_ex (str_includes ''cannot cite itself'') messages then StoreCode GeneratedSelfCitation
          else if list_ex isUnsupportedClaimMessage messages then StoreCode UnsupportedClaim
          else StoreCode InvalidArtifact)"

definition validateArtifactRecord :: "artifact_env \<Rightarrow> json \<Rightarrow> artifact_error + json" where
  "validateArtifactRecord env r =
     (if ArtifactRecordSchema r then Inr r else Inl (artifactStoreErrorFromSchema r (ae_messages env r)))"

section \<open>Append\<close>

definition artifact_id_of :: "json \<Rightarrow> string" where
  "artifact_id_of r = text_of r ''artifactId''"

definition artifact_entry :: "json \<Rightarrow> (string \<times> json) list" where
  "artifact_entry r =
     [(''artifactId'', JStr (artifact_id_of r)), (''artifactType'', JStr (text_of r ''artifactType'')),
      (''uri'', JStr (recordUri (artifact_id_of r)))]"

definition serializeArtifactContent :: "json \<Rightarrow> string" where
  "serializeArtifactContent r = (case js_get r ''content'' of JStr s \<Rightarrow> s | v \<Rightarrow> pretty 0 v @ nl)"

text \<open>The place of the content of a record.\<close>

definition content_path :: "path \<Rightarrow> json \<Rightarrow> artifact_error + path" where
  "content_path dir r =
     (case relative_path (text_of (js_get r ''fileRef'') ''uri'') of
        Inl e \<Rightarrow> Inl (StoreCode e)
      | Inr rel \<Rightarrow> (case join_path dir rel of Inl e \<Rightarrow> Inl (NodeCode e) | Inr p \<Rightarrow> Inr p))"

definition writeArtifactContent :: "path \<Rightarrow> json \<Rightarrow> disk \<Rightarrow> artifact_error + disk" where
  "writeArtifactContent dir r d =
     bindE (content_path dir r) (\<lambda>p.
       (case write_wx p (serializeArtifactContent r) d of
          Inl EEXIST \<Rightarrow> Inl (StoreCode ArtifactExists)
        | Inl e \<Rightarrow> Inl (NodeCode e)
        | Inr d' \<Rightarrow> Inr d'))"

definition write_content :: "path \<Rightarrow> json \<Rightarrow> disk \<Rightarrow> artifact_error + disk" where
  "write_content dir r d =
     (if \<not> lacks r ''content'' \<and> \<not> lacks r ''fileRef'' then writeArtifactContent dir r d else Inr d)"

text \<open>The record and its line in the index.\<close>

definition write_record :: "path \<Rightarrow> json \<Rightarrow> disk \<Rightarrow> disk \<times> (artifact_error + json)" where
  "write_record dir r d =
     (case store_record ArtifactExists dir (artifact_id_of r) r d of
        Inl e \<Rightarrow> (d, Inl e)
      | Inr d1 \<Rightarrow>
          (case appendJsonLine (dir @ [INDEX_FILE]) (JObj (artifact_entry r)) d1 of
             Inl e \<Rightarrow> (d1, Inl (NodeCode e))
           | Inr d2 \<Rightarrow> (d2, Inr r)))"

definition appendArtifact :: "artifact_env \<Rightarrow> path \<Rightarrow> string \<Rightarrow> disk \<Rightarrow> json \<Rightarrow> disk \<times> (artifact_error + json)" where
  "appendArtifact env root runId d input =
     (case artifacts_dir root runId of
        Inl e \<Rightarrow> (d, Inl (RunCode e))
      | Inr dir \<Rightarrow>
          (case withArtifactDefaults dir input of
             Inl e \<Rightarrow> (d, Inl (StoreCode e))
           | Inr candidate \<Rightarrow>
               (case validateArtifactRecord env candidate of
                  Inl e \<Rightarrow> (d, Inl e)
                | Inr r \<Rightarrow>
                    (case mkdir_p (dir @ [RECORDS_DIR]) d of
                       Inl e \<Rightarrow> (d, Inl (NodeCode e))
                     | Inr d1 \<Rightarrow>
                         (case write_content dir r d1 of
                            Inl e \<Rightarrow> (d1, Inl e)
                          | Inr d2 \<Rightarrow> write_record dir r d2)))))"

section \<open>Read and list\<close>

definition parseArtifactRecord :: "artifact_env \<Rightarrow> string \<Rightarrow> string \<Rightarrow> artifact_error + json" where
  "parseArtifactRecord env raw expectedId =
     (case ae_parse env raw of
        None \<Rightarrow> Inl (StoreCode InvalidArtifact)
      | Some v \<Rightarrow>
          bindE (validateArtifactRecord env v) (\<lambda>r.
            if artifact_id_of r \<noteq> expectedId then Inl (StoreCode InvalidArtifact) else Inr r))"

text \<open>Any failure to read the content is reported as content that was not found.\<close>

definition readArtifactContent :: "artifact_env \<Rightarrow> path \<Rightarrow> json \<Rightarrow> disk \<Rightarrow> artifact_error + json" where
  "readArtifactContent env dir r d =
     (case content_path dir r of
        Inl e \<Rightarrow> Inl (StoreCode ArtifactNotFound)
      | Inr p \<Rightarrow>
          (case read_file p d of
             Inl e \<Rightarrow> Inl (StoreCode ArtifactNotFound)
           | Inr raw \<Rightarrow>
               if text_of r ''artifactType'' = ''summary'' then Inr (JStr raw)
               else Inr (default (ae_parse env raw) (JStr raw))))"

definition readArtifact :: "artifact_env \<Rightarrow> path \<Rightarrow> string \<Rightarrow> disk \<Rightarrow> string \<Rightarrow> artifact_error + json" where
  "readArtifact env root runId d artifactId =
     (case artifacts_dir root runId of
        Inl e \<Rightarrow> Inl (RunCode e)
      | Inr dir \<Rightarrow>
          (case read_file (record_path dir artifactId) d of
             Inl ENOENT \<Rightarrow> Inl (StoreCode ArtifactNotFound)
           | Inl e \<Rightarrow> Inl (NodeCode e)
           | Inr raw \<Rightarrow>
               bindE (parseArtifactRecord env raw artifactId) (\<lambda>r.
                 if \<not> lacks r ''content'' \<or> lacks r ''fileRef'' then Inr r
                 else bindE (readArtifactContent env dir r d) (\<lambda>content. Inr (with_field ''content'' content r)))))"

definition artifact_entry_ok :: "json \<Rightarrow> bool" where
  "artifact_entry_ok v \<longleftrightarrow>
     is_record v \<and> nonEmptyString (js_get v ''artifactId'') \<and> nonEmptyString (js_get v ''artifactType'') \<and>
     nonEmptyString (js_get v ''uri'')"

definition read_listed :: "artifact_env \<Rightarrow> path \<Rightarrow> string \<Rightarrow> disk \<Rightarrow> json \<Rightarrow> artifact_error + json" where
  "read_listed env root runId d entry = readArtifact env root runId d (text_of entry ''artifactId'')"

definition listArtifacts :: "artifact_env \<Rightarrow> path \<Rightarrow> string \<Rightarrow> disk \<Rightarrow> artifact_error + json list" where
  "listArtifacts env root runId d =
     (case artifacts_dir root runId of
        Inl e \<Rightarrow> Inl (RunCode e)
      | Inr dir \<Rightarrow>
          (case read_file (dir @ [INDEX_FILE]) d of
             Inl ENOENT \<Rightarrow> Inr []
           | Inl e \<Rightarrow> Inl (NodeCode e)
           | Inr raw \<Rightarrow>
               (case parseIndex (ae_parse env) artifact_entry_ok raw of
                  Inl _ \<Rightarrow> Inl (StoreCode InvalidArtifact)
                | Inr entries \<Rightarrow> mapE (read_listed env root runId d) entries)))"

section \<open>Content stays below the artifacts directory\<close>

lemma split_on_piece: "x \<in> set (split_on d s) \<Longrightarrow> \<exists>a b. s = a @ x @ b"
proof (induction s arbitrary: x)
  case (Cons c s)
  obtain p ps where p: "split_on d s = p # ps" by (cases "split_on d s") auto
  have tail: "\<exists>a b. c # s = a @ y @ b" if "y \<in> set (split_on d s)" for y
    using Cons.IH [OF that] by (metis append_Cons)
  have head: "\<exists>b. s = p @ b"
  proof -
    have "s = join [d] (p # ps)" using join_split_on [of d s] p by simp
    then show ?thesis by (cases ps) auto
  qed
  show ?case
  proof (cases "c = d")
    case True
    then have "x = [] \<or> x \<in> set (split_on d s)" using Cons.prems by simp
    then show ?thesis using tail by blast
  next
    case False
    then have "x = c # p \<or> x \<in> set (split_on d s)" using Cons.prems p by auto
    moreover have "\<exists>b. c # s = [] @ (c # p) @ b" using head by simp
    ultimately show ?thesis using tail by blast
  qed
qed simp

lemma normal_segments_climb_free:
  "''..'' \<notin> set ys \<Longrightarrow> normal_segments acc ys = rev acc @ filter (\<lambda>y. y \<noteq> [] \<and> y \<noteq> ''.'') ys"
  by (induction acc ys rule: normal_segments.induct) auto

lemma relative_path_suffix:
  assumes "relative_path uri = Inr rel"
  shows "\<not> str_includes ''..'' rel" "rel \<noteq> []"
proof -
  have uri: "\<not> str_includes ''..'' uri" "rel \<noteq> []"
    and rel: "rel = drop (length ''artifacts/'') (if starts_with ''artifacts/'' uri then uri else ''artifacts/'' @ uri)"
    using assms by (auto simp: relative_path_def normalizeArtifactUri_def bindE_Inr_iff Let_def split: if_splits)
  have "\<exists>a. uri = a @ rel"
  proof (cases "starts_with ''artifacts/'' uri")
    case True
    then have "rel = drop (length ''artifacts/'') uri" using rel by (simp only: if_True)
    then show ?thesis by (metis append_take_drop_id)
  next
    case False
    then have "rel = uri" using rel by simp
    then show ?thesis by simp
  qed
  then show "\<not> str_includes ''..'' rel" using uri(1) unfolding str_includes_iff by (metis append_assoc)
  show "rel \<noteq> []" by (rule uri(2))
qed

lemma content_path_below:
  assumes "\<forall>x \<in> set dir. good_segment x" "content_path dir r = Inr p"
  shows "below dir p"
proof -
  obtain rel where rel: "relative_path (text_of (js_get r ''fileRef'') ''uri'') = Inr rel" "join_path dir rel = Inr p"
    using assms(2) by (auto simp: content_path_def split: sum.splits)
  have "''..'' \<notin> set (split_on CHR ''/'' rel)"
    using relative_path_suffix(1) [OF rel(1)] split_on_piece unfolding str_includes_iff by metis
  then have "p = dir @ filter (\<lambda>y. y \<noteq> [] \<and> y \<noteq> ''.'') (split_on CHR ''/'' rel)"
    using rel(2) normal_segments_append [OF assms(1), of "[]"] normal_segments_climb_free
    by (auto simp: join_path_def split: if_splits)
  then show ?thesis by simp
qed

lemma artifacts_dir_good:
  assumes "artifacts_dir root runId = Inr dir" "\<forall>x \<in> set root. good_segment x"
  shows "\<forall>x \<in> set dir. good_segment x"
proof -
  obtain run where run: "run_dir root runId = Inr run" "dir = run @ [''artifacts'']"
    using assms(1) by (auto simp only: artifacts_dir_def bindE_Inr_iff sum.inject)
  have "good_segment ''artifacts''" by (simp add: good_segment_def)
  then show ?thesis using run_dir_good [OF assms(2) run(1)] run(2) by simp
qed

lemma content_written:
  "writeArtifactContent dir r d = Inr d' \<longleftrightarrow>
    (\<exists>p. content_path dir r = Inr p \<and> write_wx p (serializeArtifactContent r) d = Inr d')"
  by (cases "content_path dir r") (auto simp: writeArtifactContent_def split: sum.splits node_error.splits)

lemma write_content_confined:
  "\<forall>x \<in> set dir. good_segment x \<Longrightarrow> write_content dir r d = Inr d' \<Longrightarrow> confined dir d d'"
  using content_path_below by (auto simp: write_content_def content_written write_wx_def confined_upd split: if_splits)

lemma write_record_confined: "confined dir d (fst (write_record dir r d))"
  using confined_store_record [of ArtifactExists dir "artifact_id_of r" r d] confined_index_line [of dir INDEX_FILE] confined_trans
  by (auto simp: write_record_def split: sum.splits)

lemma append_artifact_confined:
  assumes "artifacts_dir root runId = Inr dir" "\<forall>x \<in> set root. good_segment x" "appendArtifact env root runId d x = (d', out)"
  shows "confined dir d d'"
proof -
  have good: "\<forall>x \<in> set dir. good_segment x" by (rule artifacts_dir_good [OF assms(1,2)])
  consider "d' = d" | "mkdir_p (dir @ [RECORDS_DIR]) d = Inr d'"
    | d1 r d2 where "mkdir_p (dir @ [RECORDS_DIR]) d = Inr d1" "write_content dir r d1 = Inr d2" "d' = fst (write_record dir r d2)"
    using assms(1,3) by (auto simp: appendArtifact_def split: sum.splits)
  then show ?thesis
  proof cases
    case 3
    then show ?thesis
      using confined_mkdir write_content_confined [OF good] write_record_confined confined_trans by metis
  qed (simp_all add: confined_mkdir)
qed

section \<open>What the store returns\<close>

text \<open>The names of an artifact, and a reference to one of them or to a part of it.\<close>

definition own_name :: "json \<Rightarrow> string \<Rightarrow> bool" where
  "own_name r s \<longleftrightarrow>
     s \<in> {text_of r ''artifactId'', ''artifact:'' @ text_of r ''artifactId'', ''artifact:'' @ text_of r ''artifactType''} \<or>
     (\<exists>u. fstr (js_get r ''fileRef'') ''uri'' = Some u \<and> s \<in> {u, ''artifact:'' @ u})"

definition refers_to_itself :: "json \<Rightarrow> json \<Rightarrow> bool" where
  "refers_to_itself r ref \<longleftrightarrow> (\<exists>s. own_name r s \<and> (ref = JStr s \<or> (\<exists>t. ref = JStr (s @ ''#'' @ t))))"

definition supported_claim :: "json \<Rightarrow> json \<Rightarrow> bool" where
  "supported_claim r c \<longleftrightarrow>
     js_get c ''owningArtifactId'' = js_get r ''artifactId'' \<and>
     (\<forall>ref \<in> set (items_of c ''evidenceRefs''). \<not> refers_to_itself r ref) \<and>
     (claimLevelRequiresEvidence (text_of c ''claimLevel'') \<longrightarrow> items_of c ''evidenceRefs'' \<noteq> []) \<and>
     (text_of c ''claimLevel'' = ''source_fact'' \<longrightarrow> isTrustedSourceAuthority (text_of c ''authority''))"

definition supported :: "json \<Rightarrow> bool" where
  "supported r \<longleftrightarrow>
     (\<forall>ref \<in> set (items_of r ''evidenceRefs''). \<not> refers_to_itself r ref) \<and>
     (claimLevelRequiresEvidence (text_of r ''claimLevel'') \<longrightarrow> items_of r ''evidenceRefs'' \<noteq> []) \<and>
     (\<forall>c \<in> set (items_of r ''importantClaims''). supported_claim r c)"

lemma text_of_str: "js_get r k = JStr s \<Longrightarrow> text_of r k = s"
  by (simp add: text_of_def fstr_def the_str_def)

lemma self_reference_is_cited:
  assumes shape: "z_strict artifact_shape r" and ref: "refers_to_itself r ref"
  shows "cites_itself r ref"
proof -
  obtain i where i: "js_get r ''artifactId'' = JStr i" using artifact_id [OF shape] by (auto simp: nonEmptyString_iff)
  have "ArtifactTypeSchema (js_get r ''artifactType'')" by (rule z_strict_get [OF shape]) (simp add: artifact_shape_def)
  then obtain t where t: "js_get r ''artifactType'' = JStr t"
    unfolding ArtifactTypeSchema_def z_enum_def by (cases "js_get r ''artifactType''") simp_all
  obtain s where s: "own_name r s" "ref = JStr s \<or> (\<exists>t. ref = JStr (s @ ''#'' @ t))"
    using ref by (auto simp only: refers_to_itself_def)
  have "JStr s \<in> set (self_refs r)"
  proof (cases "\<exists>u. fstr (js_get r ''fileRef'') ''uri'' = Some u \<and> s \<in> {u, ''artifact:'' @ u}")
    case True
    then obtain u where u: "js_get (js_get r ''fileRef'') ''uri'' = JStr u" "s \<in> {u, ''artifact:'' @ u}"
      by (auto simp only: fstr_Some)
    then have "\<not> lacks r ''fileRef''" by (auto simp: lacks_def)
    then show ?thesis using u(2) unfolding self_refs_def Let_def u(1) by auto
  next
    case False
    then have "s \<in> {i, ''artifact:'' @ i, ''artifact:'' @ t}"
      using s(1) unfolding own_name_def text_of_str [OF i] text_of_str [OF t] by blast
    then show ?thesis unfolding self_refs_def Let_def i t by auto
  qed
  moreover have "\<exists>x. ref = JStr x \<and> (x = s \<or> starts_with (s @ ''#'') x)"
    using s(2) starts_with_append [of "s @ ''#''"] by auto
  ultimately show ?thesis
    unfolding cites_itself_def isSelfCitingEvidenceRef_def list_ex_iff by (auto simp: the_str_def intro: bexI [of _ "JStr s"])
qed

lemma valid_artifact_is_supported:
  assumes "ArtifactRecordSchema r"
  shows "supported r"
proof -
  have shape: "z_strict artifact_shape r" and issues: "artifact_issues r = []"
    using assms by (simp_all add: ArtifactRecordSchema_def)
  have refs: "\<forall>ref \<in> set (items_of r ''evidenceRefs''). \<not> cites_itself r ref"
    and level: "lacks r ''claimLevel'' \<or> \<not> claimLevelRequiresEvidence (text_of r ''claimLevel'') \<or> items_of r ''evidenceRefs'' \<noteq> []"
    and owned: "\<forall>c \<in> set (items_of r ''importantClaims''). owned_claim_issues r c = []"
    using issues unfolding artifact_issues_def append_is_Nil_conv issue_empty map_is_Nil_conv filter_empty_conv concat_eq_Nil_conv
    by auto
  have "supported_claim r c" if c: "c \<in> set (items_of r ''importantClaims'')" for c
  proof -
    have own: "owned_claim_issues r c = []" using owned c by blast
    have "claim_issues c = []" using artifact_claims [OF shape c] by (simp add: ArtifactClaimSchema_def)
    then show ?thesis
      using own self_reference_is_cited [OF shape]
      unfolding supported_claim_def owned_claim_issues_def claim_issues_def Let_def append_is_Nil_conv issue_empty
        map_is_Nil_conv filter_empty_conv by blast
  qed
  moreover have "\<not> claimLevelRequiresEvidence (text_of r ''claimLevel'')" if "lacks r ''claimLevel''"
    using that by (simp add: lacks_def text_of_def fstr_def the_str_def claimLevelRequiresEvidence_def)
  ultimately show ?thesis
    using refs level self_reference_is_cited [OF shape] unfolding supported_def by blast
qed

lemma supported_content:
  assumes "is_record r" "supported r"
  shows "supported (with_field ''content'' v r)"
proof -
  have get: "js_get (with_field ''content'' v r) k = js_get r k" if "k \<noteq> ''content''" for k
    using assms(1) that by (simp add: js_get_with_field)
  have same: "own_name (with_field ''content'' v r) s = own_name r s" for s
    by (simp add: own_name_def text_of_def fstr_def get)
  have "refers_to_itself (with_field ''content'' v r) ref = refers_to_itself r ref" for ref
    by (simp only: refers_to_itself_def same)
  then show ?thesis
    using assms(2) by (simp add: supported_def supported_claim_def items_of_def text_of_def fstr_def get)
qed

lemma validated_artifact: "validateArtifactRecord env v = Inr r \<longleftrightarrow> r = v \<and> ArtifactRecordSchema v"
  by (auto simp: validateArtifactRecord_def)

lemma appended_artifact_is_valid: "snd (appendArtifact env root runId d x) = Inr r \<Longrightarrow> ArtifactRecordSchema r"
  by (auto simp: appendArtifact_def write_record_def validated_artifact split: sum.splits prod.splits)

lemma valid_is_record: "ArtifactRecordSchema r \<Longrightarrow> is_record r"
  by (cases r) (simp_all add: ArtifactRecordSchema_def z_strict_def is_record_def)

lemma parsed_artifact: "parseArtifactRecord env raw i = Inr v \<Longrightarrow> ArtifactRecordSchema v"
  by (auto simp: parseArtifactRecord_def bindE_Inr_iff validated_artifact split: option.splits if_splits)

text \<open>A read that succeeds has parsed a record, and perhaps added its content.\<close>

lemma readArtifact_cases:
  assumes "readArtifact env root runId d i = Inr r"
  obtains dir raw v where "artifacts_dir root runId = Inr dir" "parseArtifactRecord env raw i = Inr v"
    "r = v \<or> (\<exists>c. r = with_field ''content'' c v)"
proof (cases "artifacts_dir root runId")
  case (Inr dir)
  show ?thesis
  proof (cases "read_file (record_path dir i) d")
    case (Inl e)
    then show ?thesis using assms Inr by (cases e) (simp_all add: readArtifact_def)
  next
    case raw: (Inr raw)
    obtain v where v: "parseArtifactRecord env raw i = Inr v"
      "(if \<not> lacks v ''content'' \<or> lacks v ''fileRef'' then Inr v
        else bindE (readArtifactContent env dir v d) (\<lambda>c. Inr (with_field ''content'' c v))) = Inr r"
      using assms Inr raw by (auto simp: readArtifact_def bindE_Inr_iff simp del: if_split)
    have "r = v \<or> (\<exists>c. r = with_field ''content'' c v)"
      using v(2) by (cases "\<not> lacks v ''content'' \<or> lacks v ''fileRef''") (auto simp: bindE_Inr_iff)
    then show ?thesis using that Inr v(1) by blast
  qed
qed (use assms in \<open>simp add: readArtifact_def\<close>)

lemma read_artifact_is_supported: "readArtifact env root runId d i = Inr r \<Longrightarrow> supported r"
  using readArtifact_cases parsed_artifact valid_artifact_is_supported supported_content valid_is_record by metis

lemma listed_artifact_is_supported:
  assumes "listArtifacts env root runId d = Inr rs" "r \<in> set rs"
  shows "supported r"
proof -
  have "rs = [] \<or> (\<exists>entries. mapE (read_listed env root runId d) entries = Inr rs)"
    using assms(1) by (auto simp: listArtifacts_def split: sum.splits node_error.splits)
  then obtain entries where "list_all2 (\<lambda>e r. read_listed env root runId d e = Inr r) entries rs"
    using assms(2) by (auto simp: mapE_Inr_iff)
  then obtain e where "read_listed env root runId d e = Inr r" using list_all2_partner(2) assms(2) by blast
  then show ?thesis unfolding read_listed_def by (rule read_artifact_is_supported)
qed

section \<open>The log of artifacts\<close>

definition artifact_kind :: "artifact_env \<Rightarrow> log_kind" where
  "artifact_kind env =
     \<lparr>lk_parse = ae_parse env, lk_entry = artifact_entry, lk_entry_ok = artifact_entry_ok,
      lk_valid = (\<lambda>r. ArtifactRecordSchema r \<and> \<not> lacks r ''content''), lk_key = artifact_id_of\<rparr>"

lemma artifact_kind_simps [simp]:
  "lk_parse (artifact_kind env) = ae_parse env" "lk_entry (artifact_kind env) = artifact_entry"
  "lk_entry_ok (artifact_kind env) = artifact_entry_ok"
  "lk_valid (artifact_kind env) r \<longleftrightarrow> ArtifactRecordSchema r \<and> \<not> lacks r ''content''" "lk_key (artifact_kind env) = artifact_id_of"
  by (simp_all add: artifact_kind_def)

definition artifact_reads_back :: "artifact_env \<Rightarrow> json \<Rightarrow> bool" where
  "artifact_reads_back env r \<longleftrightarrow>
     ae_parse env (record_text r) = Some (norm r) \<and>
     ae_parse env (stringify (JObj (artifact_entry r))) = Some (JObj (artifact_entry r))"

text \<open>The content is not a file that the store itself uses: the index or a record.\<close>

definition keeps_clear :: "path \<Rightarrow> json \<Rightarrow> bool" where
  "keeps_clear dir r =
     (case content_path dir r of
        Inl e \<Rightarrow> True
      | Inr p \<Rightarrow> p \<noteq> dir @ [INDEX_FILE] \<and> \<not> below (dir @ [RECORDS_DIR]) p)"

definition artifact_adm :: "artifact_env \<Rightarrow> path \<Rightarrow> string \<Rightarrow> json \<Rightarrow> bool" where
  "artifact_adm env root runId x \<longleftrightarrow>
     js_wf x \<and> \<not> lacks x ''content'' \<and>
     (case artifacts_dir root runId of
        Inl e \<Rightarrow> True
      | Inr dir \<Rightarrow>
          (case withArtifactDefaults dir x of Inl e \<Rightarrow> True | Inr r \<Rightarrow> artifact_reads_back env r \<and> keeps_clear dir r))"

definition artifact_log :: "artifact_env \<Rightarrow> path \<Rightarrow> string \<Rightarrow> disk \<Rightarrow> json list \<Rightarrow> bool" where
  "artifact_log env root runId d rs \<longleftrightarrow>
     (\<forall>x \<in> set root. good_segment x) \<and>
     (\<exists>dir. artifacts_dir root runId = Inr dir \<and> log_holds (artifact_kind env) dir d rs [])"

lemma artifact_logE:
  assumes "artifact_log env root runId d rs"
  obtains dir where "artifacts_dir root runId = Inr dir" "log_holds (artifact_kind env) dir d rs []"
    "\<forall>x \<in> set root. good_segment x" "\<forall>x \<in> set dir. good_segment x"
  using assms artifacts_dir_good by (auto simp: artifact_log_def)

lemma js_wf_file_ref: "js_wf x \<Longrightarrow> input_file_ref dir x = Inr f \<Longrightarrow> js_wf f"
proof -
  assume x: "js_wf x" and f: "input_file_ref dir x = Inr f"
  have "js_wf g" if "defaultFileRef dir t = Inr g" for t g
    using that by (auto simp: defaultFileRef_def Let_def bindE_Inr_iff)
  moreover have "js_wf g" if "normalizeFileRef dir h = Inr g" "js_wf h" for h g
    using that by (auto simp: normalizeFileRef_def bindE_Inr_iff js_wf_with_field)
  ultimately show ?thesis
    using f js_wf_get [OF x] by (auto simp: input_file_ref_def bindE_Inr_iff split: if_splits)
qed

lemma js_wf_claims:
  assumes "js_wf claims" "js_wf policy"
  shows "js_wf (normalizeImportantClaims i claims policy)"
proof -
  have "js_wf (normalize_claim i policy n c)" if "js_wf c" for n c
    using that assms(2)
    by (auto simp: normalize_claim_def intro!: js_wf_with_field js_wf_nullish js_wf_get)
  then show ?thesis
    using js_wf_elem [OF assms(1)] by (auto simp: normalizeImportantClaims_def list_all_iff dest!: set_zip_rightD)
qed

lemma js_wf_artifact_defaults:
  assumes "js_wf x" "withArtifactDefaults dir x = Inr r"
  shows "js_wf r"
proof -
  obtain f where f: "input_file_ref dir x = Inr f" using assms(2) by (auto simp: withArtifactDefaults_def bindE_Inr_iff)
  have refs: "js_wf (JArr (unique (items_of x ''evidenceRefs'')))"
    using items_wf [OF assms(1)] by (simp add: list_all_iff)
  have policy: "js_wf (nullish (js_get x ''redactionPolicy'') (JStr ''operator''))"
    by (intro js_wf_nullish js_wf_get assms(1)) simp
  have claims: "js_wf (normalizeImportantClaims i (js_get x ''importantClaims'') (nullish (js_get x ''redactionPolicy'') (JStr ''operator'')))" for i
    by (intro js_wf_claims js_wf_get assms(1) policy)
  show ?thesis
    using assms(2) f refs policy claims js_wf_file_ref [OF assms(1) f] assms(1)
    by (auto simp: withArtifactDefaults_def Let_def simp del: json_wf.simps(6,7) split: if_splits
        intro!: js_wf_with_field js_wf_nullish js_wf_get) simp_all
qed

lemma defaults_keep_content:
  assumes "\<not> lacks x ''content''" "withArtifactDefaults dir x = Inr r"
  shows "\<not> lacks r ''content''"
proof -
  have "is_record x" using assms(1) by (cases x) (simp_all add: lacks_def js_get_def is_record_def)
  then show ?thesis
    using assms by (auto simp: withArtifactDefaults_def Let_def bindE_Inr_iff lacks_def js_get_with_field split: if_splits)
qed

lemma artifact_entry_norm: "js_wf r \<Longrightarrow> artifact_id_of (norm r) = artifact_id_of r" "js_wf r \<Longrightarrow> artifact_entry (norm r) = artifact_entry r"
  by (simp_all add: artifact_id_of_def artifact_entry_def field_norm)

lemma readable_artifact:
  assumes "ArtifactRecordSchema r" "\<not> lacks r ''content''" "js_wf r" "artifact_reads_back env r"
  shows "readable (artifact_kind env) (norm r)"
proof -
  have shape: "z_strict artifact_shape r" using assms(1) by (simp add: ArtifactRecordSchema_def)
  obtain i where i: "js_get r ''artifactId'' = JStr i" "i \<noteq> []"
    using artifact_id [OF shape] by (auto simp: nonEmptyString_iff)
  have "ArtifactTypeSchema (js_get r ''artifactType'')" by (rule z_strict_get [OF shape]) (simp add: artifact_shape_def)
  then obtain t where t: "js_get r ''artifactType'' = JStr t" "t \<noteq> []"
    unfolding ArtifactTypeSchema_def z_enum_def by (cases "js_get r ''artifactType''") auto
  have "artifact_entry_ok (JObj (artifact_entry r))"
    using i(2) t(2) by (simp add: artifact_entry_ok_def artifact_entry_def artifact_id_of_def text_of_str [OF i(1)] text_of_str [OF t(1)]
        is_record_def js_get_def nonEmptyString_def recordUri_def RECORDS_DIR_def)
  moreover have "r \<noteq> JUndefined" using i(1) by auto
  then have "ArtifactRecordSchema (norm r)" using stableD [OF stable_artifact_record assms(1,3)] by simp
  ultimately show ?thesis
    using assms(2,4) by (simp add: readable_def artifact_entry_norm [OF assms(3)] field_norm [OF assms(3)] artifact_reads_back_def
        del: stringify.simps)
qed

lemma content_keeps_log:
  assumes log: "log_holds K dir d rs []" and dirs: "d dir = Some Dir" "d (dir @ [RECORDS_DIR]) = Some Dir"
    and good: "\<forall>x \<in> set dir. good_segment x" and clear: "keeps_clear dir r" and d': "write_content dir r d = Inr d'"
  shows "log_holds K dir d' rs [] \<and> d' dir = Some Dir \<and> d' (dir @ [RECORDS_DIR]) = Some Dir"
proof (cases "d' = d")
  case False
  obtain p where p: "content_path dir r = Inr p" "d p = None" "d' = d(p \<mapsto> File (serializeArtifactContent r))"
    using d' False by (auto simp: write_content_def content_written write_wx_def split: if_splits)
  have apart: "p \<noteq> dir @ [INDEX_FILE]" "\<not> below (dir @ [RECORDS_DIR]) p" using clear p(1) by (simp_all add: keeps_clear_def)
  have records: "p \<noteq> record_path dir i" for i
    using apart(2) below_append [of "dir @ [RECORDS_DIR]"] by (auto simp: record_path_def)
  have places: "p \<noteq> dir" "p \<noteq> dir @ [RECORDS_DIR]" using p(2) dirs by auto
  show ?thesis
    using log_holds_upd [OF log content_path_below [OF good p(1)] places apart(1) records] p(3) dirs places by simp
qed (use assms in simp)

text \<open>Writing the record of a valid artifact adds it to the log or changes nothing.\<close>

lemma record_extends_log:
  assumes log: "log_holds (artifact_kind env) dir d rs []" and dirs: "d dir = Some Dir" "d (dir @ [RECORDS_DIR]) = Some Dir"
    and r: "ArtifactRecordSchema r" "\<not> lacks r ''content''" "js_wf r" "artifact_reads_back env r"
    and out: "write_record dir r d = (d', out)"
  shows "if artifact_id_of r \<in> artifact_id_of ` set rs then out = Inl (StoreCode ArtifactExists) \<and> d' = d
    else out = Inr r \<and> log_holds (artifact_kind env) dir d' (rs @ [norm r]) []"
proof -
  note store = log_store_record [OF log dirs(2), of ArtifactExists "artifact_id_of r" r, simplified]
  show ?thesis
  proof (cases "artifact_id_of r \<in> artifact_id_of ` set rs")
    case True
    then show ?thesis using out store by (simp add: write_record_def)
  next
    case False
    let ?d = "d(record_path dir (artifact_id_of r) \<mapsto> File (record_text r))"
    have new: "lk_key (artifact_kind env) (norm r) \<notin> lk_key (artifact_kind env) ` set (rs @ [])"
      using False by (simp add: artifact_entry_norm r(3))
    have "log_holds (artifact_kind env) dir ?d rs ([] @ norm r # [])"
      using log_written [OF log new readable_artifact [OF r], of "record_text r"] r(4)
      by (simp add: artifact_entry_norm r(3) artifact_reads_back_def del: stringify.simps)
    moreover have "?d dir = Some Dir" using dirs(1) by simp
    ultimately obtain d2 where "appendJsonLine (dir @ [INDEX_FILE]) (JObj (artifact_entry (norm r))) ?d = Inr d2"
      "log_holds (artifact_kind env) dir d2 (rs @ [norm r]) []"
      by (rule log_index_line [where K = "artifact_kind env", unfolded artifact_kind_simps]) simp
    then show ?thesis using False out store by (simp add: write_record_def artifact_entry_norm [OF r(3)])
  qed
qed

lemma append_artifact_log:
  assumes log: "artifact_log env root runId d rs" and x: "artifact_adm env root runId x"
    and out: "appendArtifact env root runId d x = (d', out)"
  shows "case out of Inl e \<Rightarrow> artifact_log env root runId d' rs | Inr r \<Rightarrow> artifact_log env root runId d' (rs @ [norm r]) \<and> js_wf r"
proof -
  obtain dir where dir: "artifacts_dir root runId = Inr dir" "log_holds (artifact_kind env) dir d rs []"
    "\<forall>x \<in> set root. good_segment x" "\<forall>x \<in> set dir. good_segment x" using artifact_logE [OF log] by metis
  obtain d1 where d1: "mkdir_p (dir @ [RECORDS_DIR]) d = Inr d1" "log_holds (artifact_kind env) dir d1 rs []"
    "d1 dir = Some Dir" "d1 (dir @ [RECORDS_DIR]) = Some Dir" using log_mkdir [OF dir(2) refl] by metis
  have keep: "artifact_log env root runId e rs" if "log_holds (artifact_kind env) dir e rs []" for e
    using that dir by (auto simp: artifact_log_def)
  consider (early) c where "out = Inl c" "d' = d" | (content) c where "out = Inl c" "d' = d1"
    | (stored) r d2 where "withArtifactDefaults dir x = Inr r" "ArtifactRecordSchema r"
        "write_content dir r d1 = Inr d2" "write_record dir r d2 = (d', out)"
  proof (cases "withArtifactDefaults dir x")
    case (Inl e)
    then have "out = Inl (StoreCode e)" "d' = d" using out dir(1) by (simp_all add: appendArtifact_def)
    then show ?thesis by (rule early)
  next
    case (Inr r)
    show ?thesis
    proof (cases "ArtifactRecordSchema r")
      case False
      then have "out = Inl (artifactStoreErrorFromSchema r (ae_messages env r))" "d' = d"
        using out dir(1) Inr by (simp_all add: appendArtifact_def validateArtifactRecord_def)
      then show ?thesis by (rule early)
    next
      case True
      then have written: "(case write_content dir r d1 of Inl e \<Rightarrow> (d1, Inl e) | Inr d2 \<Rightarrow> write_record dir r d2) = (d', out)"
        using out dir(1) Inr d1(1) by (simp add: appendArtifact_def validateArtifactRecord_def)
      show ?thesis
      proof (cases "write_content dir r d1")
        case (Inl e)
        then have "out = Inl e" "d' = d1" using written by simp_all
        then show ?thesis by (rule content)
      qed (use written True Inr stored in simp)
    qed
  qed
  then show ?thesis
  proof cases
    case stored
    have r: "js_wf r" "\<not> lacks r ''content''" "artifact_reads_back env r" "keeps_clear dir r"
      using x stored(1) dir(1) js_wf_artifact_defaults defaults_keep_content by (auto simp: artifact_adm_def)
    have d2: "log_holds (artifact_kind env) dir d2 rs []" "d2 dir = Some Dir" "d2 (dir @ [RECORDS_DIR]) = Some Dir"
      using content_keeps_log [OF d1(2-4) dir(4) r(4) stored(3)] by blast+
    show ?thesis
      using record_extends_log [OF d2 stored(2) r(2,1,3) stored(4)] d2(1) keep dir r(1)
      by (auto simp: artifact_log_def split: if_splits)
  qed (use keep dir(2) d1(2) in auto)
qed

lemma artifact_log_read:
  assumes "artifact_log env root runId d rs" "r \<in> set rs"
  shows "readArtifact env root runId d (artifact_id_of r) = Inr r"
proof -
  obtain dir where dir: "artifacts_dir root runId = Inr dir" "log_holds (artifact_kind env) dir d rs []"
    using artifact_logE [OF assms(1)] by metis
  obtain t where "read_file (record_path dir (artifact_id_of r)) d = Inr t" "ae_parse env t = Some r" "readable (artifact_kind env) r"
    using log_read_record [OF dir(2), of r] assms(2) unfolding artifact_kind_simps by (metis Un_iff set_append)
  then show ?thesis using dir(1) by (simp add: readArtifact_def parseArtifactRecord_def validateArtifactRecord_def readable_def)
qed

lemma artifact_log_list:
  assumes log: "artifact_log env root runId d rs"
  shows "listArtifacts env root runId d = Inr rs"
proof -
  obtain dir where dir: "artifacts_dir root runId = Inr dir" "log_holds (artifact_kind env) dir d rs []"
    using artifact_logE [OF log] by metis
  have "read_listed env root runId d (JObj (artifact_entry r)) = Inr r" if "r \<in> set rs" for r
    using artifact_log_read [OF log that] by (simp add: read_listed_def artifact_entry_def text_of_def fstr_def js_get_def the_str_def)
  then have "mapE (read_listed env root runId d) (map (\<lambda>r. JObj (artifact_entry r)) rs) = Inr rs"
    by (simp add: mapE_Inr_iff list_all2_map1 list.rel_refl_strong)
  moreover have "parseIndex (ae_parse env) artifact_entry_ok (index_text (artifact_kind env) rs) = Inr (map (\<lambda>r. JObj (artifact_entry r)) rs)"
    using log_parse_index [of rs "artifact_kind env"] log_holdsD(4) [OF dir(2)] by (simp add: held_def)
  ultimately show ?thesis
    using log_read_index [OF dir(2)] dir(1) by (auto simp: listArtifacts_def)
qed

text \<open>The artifact store keeps the contract for artifacts whose content keeps clear of its own files.\<close>

interpretation artifacts: record_log "artifact_log env root runId" "artifact_adm env root runId"
  "appendArtifact env root runId" "readArtifact env root runId" "listArtifacts env root runId" artifact_id_of
  for env root runId
proof
  fix d rs x d' r
  assume "artifact_log env root runId d rs" "artifact_adm env root runId x" "appendArtifact env root runId d x = (d', Inr r)"
  from append_artifact_log [OF this]
  show "artifact_log env root runId d' (rs @ [norm r]) \<and> artifact_id_of (norm r) = artifact_id_of r"
    by (simp add: artifact_entry_norm)
next
  fix d rs x d' e
  assume "artifact_log env root runId d rs" "artifact_adm env root runId x" "appendArtifact env root runId d x = (d', Inl e)"
  from append_artifact_log [OF this] show "artifact_log env root runId d' rs" by simp
next
  fix d rs
  assume log: "artifact_log env root runId d rs"
  then show "listArtifacts env root runId d = Inr rs" by (rule artifact_log_list)
  show "distinct (map artifact_id_of rs)" using log log_holdsD(3) by (fastforce simp: artifact_log_def)
  fix r
  assume "r \<in> set rs"
  with log show "readArtifact env root runId d (artifact_id_of r) = Inr r" by (rule artifact_log_read)
qed

section \<open>Properties\<close>

text \<open>A run without artifacts: its directory can be reached and holds nothing.\<close>

definition no_artifacts :: "path \<Rightarrow> string \<Rightarrow> disk \<Rightarrow> bool" where
  "no_artifacts root runId d \<longleftrightarrow>
     (\<forall>x \<in> set root. good_segment x) \<and>
     (case artifacts_dir root runId of Inl e \<Rightarrow> False | Inr dir \<Rightarrow> \<not> unreachable d dir \<and> (\<forall>p. below dir p \<longrightarrow> d p = None))"

lemma no_artifacts_log:
  assumes "no_artifacts root runId d"
  shows "artifact_log env root runId d []"
proof -
  obtain dir where "artifacts_dir root runId = Inr dir" "\<not> unreachable d dir" "\<And>p. below dir p \<Longrightarrow> d p = None"
    "\<forall>x \<in> set root. good_segment x"
    using assms by (auto simp: no_artifacts_def split: sum.splits)
  then show ?thesis using log_empty [of dir d "artifact_kind env"] by (simp add: artifact_log_def)
qed

text \<open>
  C26: Artifacts stay in the artifacts directory of their run. Whatever record, file reference and content
  an append is given and however it ends, every file or directory that it creates or changes lies in the
  artifacts directory of the run, apart from missing directories on the way to it; all other paths of
  the disk are as before.
\<close>

theorem artifact_writes_are_confined:
  assumes "\<forall>x \<in> set root. good_segment x" "artifacts_dir root runId = Inr dir"
    and "appendArtifact env root runId d x = (d', out)" "d' p \<noteq> d p"
  shows "take (length dir) p = dir \<or> take (length p) dir = p \<and> d p = None \<and> d' p = Some Dir"
  using append_artifact_confined [OF assms(2,1,3)] assms(4) by (auto simp: confined_def below_def)

text \<open>
  C29: Artifacts support what they claim, whatever the disk holds. An artifact that an append, a read or a
  listing returns cites neither itself nor a part of itself as evidence, under its id, its type or its file; it
  has evidence if its level demands it; and each of its important claims belongs to it, has the evidence
  that its level demands, does not cite the artifact, and rests on a trusted authority if it is a source
  fact.
\<close>

theorem artifacts_are_supported:
  assumes "snd (appendArtifact env root runId d x) = Inr r \<or> readArtifact env root runId d i = Inr r \<or>
    (\<exists>rs. listArtifacts env root runId d = Inr rs \<and> r \<in> set rs)"
  shows "supported r"
  using assms appended_artifact_is_valid valid_artifact_is_supported read_artifact_is_supported listed_artifact_is_supported by metis

text \<open>
  C27: Artifacts with content that keep clear of the files of the store form an append-only list. Starting
  from a run without artifacts, the listing gives the artifacts that a sequence of appends stored in
  the order of the appends, reading an id gives its artifact, no artifact is replaced, and every
  refused append leaves the stored artifacts as they were. The hypothesis on the content is needed.
\<close>

theorem artifacts_are_append_only:
  assumes "no_artifacts root runId d" "list_all (artifact_adm env root runId) xs"
    and "append_all (appendArtifact env root runId) d xs = (d', new)"
  shows "listArtifacts env root runId d' = Inr (map norm new) \<and> distinct (map artifact_id_of new) \<and>
    (\<forall>r \<in> set new. readArtifact env root runId d' (artifact_id_of r) = Inr (norm r))"
  using artifacts.appended_is_listed [OF no_artifacts_log [OF assms(1)] assms(2,3)]
    artifacts.appended_is_read [OF no_artifacts_log [OF assms(1)] assms(2,3)]
    artifacts.ids_are_unique [OF no_artifacts_log [OF assms(1)] assms(2,3)] by blast

section \<open>Examples\<close>

text \<open>An environment whose parser knows the texts of some values.\<close>

definition table_parse :: "json list \<Rightarrow> string \<Rightarrow> json option" where
  "table_parse vs t = map_option norm (find (\<lambda>v. record_text v = t \<or> stringify v = t) vs)"

definition table_env :: "json list \<Rightarrow> artifact_env" where
  "table_env vs = \<lparr>ae_messages = artifact_issues, ae_parse = table_parse vs\<rparr>"

definition run_disk :: disk where
  "run_disk = (\<lambda>p. if p = [] then Some Dir else None)"

definition ex_artifact :: "string \<Rightarrow> (string \<times> json) list \<Rightarrow> json" where
  "ex_artifact i ps = JObj ([(''artifactId'', JStr i), (''artifactType'', JStr ''plan''), (''evidenceRefs'', JArr [JStr ''e'']),
     (''producedBy'', JObj [(''phase'', JStr ''p''), (''actionId'', JStr ''a'')])] @ ps)"

abbreviation ex_artifacts_dir :: path where
  "ex_artifacts_dir \<equiv> [''.specwright'', ''runs'', ''r'', ''artifacts'']"

definition completed :: "json \<Rightarrow> json" where
  "completed x = (case withArtifactDefaults ex_artifacts_dir x of Inr r \<Rightarrow> r | Inl e \<Rightarrow> JNull)"

abbreviation ex_plan :: json where
  "ex_plan \<equiv> ex_artifact ''a'' [(''content'', JBool True)]"

definition plan_env :: artifact_env where
  "plan_env = table_env [completed ex_plan, JObj (artifact_entry (completed ex_plan))]"

lemma ex_artifacts_dir_of: "artifacts_dir [] ''r'' = Inr ex_artifacts_dir"
  by code_simp

lemma ex_no_artifacts: "no_artifacts [] ''r'' run_disk"
proof -
  have "\<not> unreachable run_disk ex_artifacts_dir" by code_simp
  moreover have "below ex_artifacts_dir p \<Longrightarrow> run_disk p = None" for p
    by (cases p) (simp_all add: below_def run_disk_def)
  ultimately show ?thesis by (simp add: no_artifacts_def ex_artifacts_dir_of)
qed

lemma ex_artifact_adm: "artifact_adm plan_env [] ''r'' ex_plan"
  by code_simp

lemma ex_plan_appended: "snd (appendArtifact plan_env [] ''r'' run_disk ex_plan) = Inr (completed ex_plan)"
  by code_simp

theorem artifact_writes_are_confined_witness:
  "\<exists>d' out. appendArtifact plan_env [] ''r'' run_disk ex_plan = (d', out) \<and> d' (ex_artifacts_dir @ [''plan.json'']) \<noteq> run_disk (ex_artifacts_dir @ [''plan.json'']) \<and>
    take (length ex_artifacts_dir) (ex_artifacts_dir @ [''plan.json'']) = ex_artifacts_dir"
proof -
  obtain d' out where out: "appendArtifact plan_env [] ''r'' run_disk ex_plan = (d', out)"
    by (cases "appendArtifact plan_env [] ''r'' run_disk ex_plan")
  have "fst (appendArtifact plan_env [] ''r'' run_disk ex_plan) (ex_artifacts_dir @ [''plan.json'']) \<noteq> run_disk (ex_artifacts_dir @ [''plan.json''])"
    by code_simp
  then have new: "d' (ex_artifacts_dir @ [''plan.json'']) \<noteq> run_disk (ex_artifacts_dir @ [''plan.json''])" using out by simp
  have root: "\<forall>x \<in> set []. good_segment x" by simp
  show ?thesis using artifact_writes_are_confined [OF root ex_artifacts_dir_of out new] out new by auto
qed

theorem artifacts_are_supported_witness:
  "snd (appendArtifact plan_env [] ''r'' run_disk ex_plan) = Inr (completed ex_plan) \<and> supported (completed ex_plan)"
  using artifacts_are_supported ex_plan_appended by blast

theorem artifacts_are_append_only_witness:
  "\<exists>d'. append_all (appendArtifact plan_env [] ''r'') run_disk [ex_plan, ex_plan] = (d', [completed ex_plan]) \<and>
    listArtifacts plan_env [] ''r'' d' = Inr [norm (completed ex_plan)]"
proof -
  obtain d' new where run: "append_all (appendArtifact plan_env [] ''r'') run_disk [ex_plan, ex_plan] = (d', new)"
    by (cases "append_all (appendArtifact plan_env [] ''r'') run_disk [ex_plan, ex_plan]")
  have "snd (append_all (appendArtifact plan_env [] ''r'') run_disk [ex_plan, ex_plan]) = [completed ex_plan]" by code_simp
  then have new: "new = [completed ex_plan]" unfolding run snd_conv .
  have adm: "list_all (artifact_adm plan_env [] ''r'') [ex_plan, ex_plan]"
    by (simp only: list.pred_inject ex_artifact_adm simp_thms)
  have "listArtifacts plan_env [] ''r'' d' = Inr (map norm [completed ex_plan])"
    using artifacts_are_append_only [OF ex_no_artifacts adm run] unfolding new by (rule conjunct1)
  then have "listArtifacts plan_env [] ''r'' d' = Inr [norm (completed ex_plan)]" unfolding list.map .
  with run show ?thesis unfolding new by blast
qed

text \<open>
  The content of an artifact may be the record file of another one. Here the append of \<open>a\<close> creates the record of
  \<open>b\<close>: \<open>b\<close> can be read although no append stored it, and its append is refused.
\<close>

definition forged :: json where
  "forged = completed (ex_artifact ''b'' [(''content'', JBool True)])"

abbreviation planting :: json where
  "planting \<equiv> ex_artifact ''a'' [(''content'', forged), (''fileRef'', JObj [(''uri'', JStr ''records/b.json'')])]"

abbreviation forge_env :: artifact_env where
  "forge_env \<equiv> table_env [forged]"

lemma content_forges_record:
  "snd (appendArtifact forge_env [] ''r'' run_disk planting) = Inr (completed planting)"
  "readArtifact forge_env [] ''r'' (fst (appendArtifact forge_env [] ''r'' run_disk planting)) ''b'' = Inr (norm forged)"
  "snd (appendArtifact forge_env [] ''r'' (fst (appendArtifact forge_env [] ''r'' run_disk planting))
     (ex_artifact ''b'' [(''content'', JBool True)])) = Inl (StoreCode ArtifactExists)"
  by (code_simp, code_simp, code_simp)

text \<open>One artifact whose file does not exist makes the listing of all artifacts of the run fail.\<close>

abbreviation dangling :: json where
  "dangling \<equiv> ex_artifact ''a'' [(''fileRef'', JObj [(''uri'', JStr ''x'')])]"

abbreviation dangling_env :: artifact_env where
  "dangling_env \<equiv> table_env [completed dangling, JObj (artifact_entry (completed dangling))]"

lemma dangling_file_breaks_listing:
  "snd (appendArtifact dangling_env [] ''r'' run_disk dangling) = Inr (completed dangling)"
  "listArtifacts dangling_env [] ''r'' (fst (appendArtifact dangling_env [] ''r'' run_disk dangling)) =
    Inl (StoreCode ArtifactNotFound)"
  by (code_simp, code_simp)

text \<open>
  An append that is refused because of its id has already written its content, which then blocks
  the append of the artifact that the file is meant for.
\<close>

abbreviation other_report :: json where
  "other_report \<equiv> ex_artifact ''a'' [(''content'', JBool True), (''fileRef'', JObj [(''uri'', JStr ''report'')])]"

lemma refused_append_leaves_content:
  "append_all (appendArtifact plan_env [] ''r'') run_disk [ex_plan, other_report] = (d', new) \<Longrightarrow>
    new = [completed ex_plan] \<and> d' (ex_artifacts_dir @ [''report'']) = Some (File (''true'' @ nl))"
proof -
  assume run: "append_all (appendArtifact plan_env [] ''r'') run_disk [ex_plan, other_report] = (d', new)"
  have "snd (append_all (appendArtifact plan_env [] ''r'') run_disk [ex_plan, other_report]) = [completed ex_plan]"
    "fst (append_all (appendArtifact plan_env [] ''r'') run_disk [ex_plan, other_report]) (ex_artifacts_dir @ [''report'']) =
      Some (File (''true'' @ nl))" by (code_simp, code_simp)
  then show ?thesis unfolding run fst_conv snd_conv by (rule conjI)
qed

text \<open>A record file with JSON of another shape is not reported as an invalid artifact but as a type error.\<close>

lemma malformed_record_is_type_error:
  "ae_parse env raw = Some (JObj []) \<Longrightarrow> parseArtifactRecord env raw i = Inl JsTypeError"
proof -
  have "\<not> ArtifactRecordSchema (JObj [])" "record_cites_itself (JObj []) = None" by (code_simp, code_simp)
  then show "ae_parse env raw = Some (JObj []) \<Longrightarrow> parseArtifactRecord env raw i = Inl JsTypeError"
    by (simp add: parseArtifactRecord_def validateArtifactRecord_def artifactStoreErrorFromSchema_def)
qed

end
