(* ===== verification/Adapter_Limits.thy ===== *)
theory Adapter_Limits
  imports Json_Values
begin

text \<open>
  The operational limits of the MCP adapter, \<^verbatim>\<open>adapters-mcp/src/limits/index.ts\<close>: the
  \<^verbatim>\<open>AdapterLimitController\<close> with its sessions, request leases and token buckets, and the paging of
  resource lists.

  A session object is shared between the \<^verbatim>\<open>sessions\<close> map and the leases that were handed out, and it
  outlives its entry in the map. Session objects are therefore cells of an explicit store
  (\<open>ac_objects\<close>, addressed by index), the map holds addresses, and a lease holds the address it
  captured and its \<^verbatim>\<open>released\<close> flag. Times and token counts are integers; \<^verbatim>\<open>Math.floor\<close> of a
  quotient is integer division.
\<close>

section \<open>Limits\<close>

record AdapterToolCallRateLimit =
  tr_capacity :: int
  tr_refillTokens :: int
  tr_refillIntervalMs :: int

record AdapterLimits =
  al_concurrentSessionsPerTenant :: nat
  al_inflightRequestsPerSession :: nat
  al_toolCallRate :: AdapterToolCallRateLimit
  al_resourceReadMaxBytes :: nat
  al_resourceListMaxPageSize :: int
  al_requestPayloadMaxBytes :: nat
  al_sessionIdleTimeoutMs :: int
  al_externalTimeoutMs :: int

definition DEFAULT_ADAPTER_LIMITS :: AdapterLimits where
  "DEFAULT_ADAPTER_LIMITS =
     \<lparr>al_concurrentSessionsPerTenant = 100, al_inflightRequestsPerSession = 16,
      al_toolCallRate = \<lparr>tr_capacity = 120, tr_refillTokens = 120, tr_refillIntervalMs = 60000\<rparr>,
      al_resourceReadMaxBytes = 200000, al_resourceListMaxPageSize = 50,
      al_requestPayloadMaxBytes = 1000000, al_sessionIdleTimeoutMs = 300000, al_externalTimeoutMs = 30000\<rparr>"

record RateInput =
  ri_capacity :: "int option"
  ri_refillTokens :: "int option"
  ri_refillIntervalMs :: "int option"

record AdapterLimitsInput =
  li_concurrentSessionsPerTenant :: "int option"
  li_inflightRequestsPerSession :: "int option"
  li_toolCallRate :: "RateInput option"
  li_resourceReadMaxBytes :: "int option"
  li_resourceListMaxPageSize :: "int option"
  li_requestPayloadMaxBytes :: "int option"
  li_sessionIdleTimeoutMs :: "int option"
  li_externalTimeoutMs :: "int option"

datatype limit_config_error = InvalidLimitConfig

definition positiveInteger :: "int option \<Rightarrow> bool" where
  "positiveInteger x = (case x of None \<Rightarrow> True | Some n \<Rightarrow> n > 0)"

definition or_default :: "'a option \<Rightarrow> 'a \<Rightarrow> 'a" where
  "or_default x d = (case x of None \<Rightarrow> d | Some y \<Rightarrow> y)"

definition limitsInputSchema_ok :: "AdapterLimitsInput \<Rightarrow> bool" where
  "limitsInputSchema_ok i \<longleftrightarrow>
     list_all positiveInteger
       [li_concurrentSessionsPerTenant i, li_inflightRequestsPerSession i, li_resourceReadMaxBytes i,
        li_resourceListMaxPageSize i, li_requestPayloadMaxBytes i, li_sessionIdleTimeoutMs i,
        li_externalTimeoutMs i] \<and>
     (case li_toolCallRate i of None \<Rightarrow> True
      | Some r \<Rightarrow> list_all positiveInteger [ri_capacity r, ri_refillTokens r, ri_refillIntervalMs r])"

definition parseAdapterLimits :: "AdapterLimitsInput option \<Rightarrow> limit_config_error + AdapterLimits" where
  "parseAdapterLimits input =
     (case input of
        None \<Rightarrow> Inr DEFAULT_ADAPTER_LIMITS
      | Some i \<Rightarrow>
          if \<not> limitsInputSchema_ok i then Inl InvalidLimitConfig
          else
            let D = DEFAULT_ADAPTER_LIMITS; R = al_toolCallRate D in
            Inr \<lparr>al_concurrentSessionsPerTenant =
                   (case li_concurrentSessionsPerTenant i of None \<Rightarrow> al_concurrentSessionsPerTenant D | Some n \<Rightarrow> nat n),
                 al_inflightRequestsPerSession =
                   (case li_inflightRequestsPerSession i of None \<Rightarrow> al_inflightRequestsPerSession D | Some n \<Rightarrow> nat n),
                 al_toolCallRate =
                   \<lparr>tr_capacity = or_default (Option.bind (li_toolCallRate i) ri_capacity) (tr_capacity R),
                    tr_refillTokens = or_default (Option.bind (li_toolCallRate i) ri_refillTokens) (tr_refillTokens R),
                    tr_refillIntervalMs =
                      or_default (Option.bind (li_toolCallRate i) ri_refillIntervalMs) (tr_refillIntervalMs R)\<rparr>,
                 al_resourceReadMaxBytes =
                   (case li_resourceReadMaxBytes i of None \<Rightarrow> al_resourceReadMaxBytes D | Some n \<Rightarrow> nat n),
                 al_resourceListMaxPageSize = or_default (li_resourceListMaxPageSize i) (al_resourceListMaxPageSize D),
                 al_requestPayloadMaxBytes =
                   (case li_requestPayloadMaxBytes i of None \<Rightarrow> al_requestPayloadMaxBytes D | Some n \<Rightarrow> nat n),
                 al_sessionIdleTimeoutMs = or_default (li_sessionIdleTimeoutMs i) (al_sessionIdleTimeoutMs D),
                 al_externalTimeoutMs = or_default (li_externalTimeoutMs i) (al_externalTimeoutMs D)\<rparr>)"

section \<open>The controller\<close>

record SessionState =
  ss_sessionId :: string
  ss_tenantId :: string
  ss_inflight :: nat
  ss_lastSeenAtMs :: int

record TokenBucketState =
  tb_tokens :: int
  tb_updatedAtMs :: int

record AdapterRequestLease =
  le_session :: nat
  le_released :: bool

record AdapterLimitController =
  ac_limits :: AdapterLimits
  ac_objects :: "SessionState list"
  ac_sessions :: "(string \<times> nat) list"
  ac_buckets :: "(string \<times> TokenBucketState) list"
  ac_leases :: "AdapterRequestLease list"

datatype limit_code =
    SessionLimitExceeded | Backpressure | PayloadTooLarge | ProjectionTooLarge | SessionIdleTimeout

record Refusal =
  rf_code :: limit_code
  rf_retryable :: bool
  rf_retryAfterMs :: "int option"
  rf_limit :: string

text \<open>\<^verbatim>\<open>{ ok: true }\<close> is \<open>None\<close>; a refusal carries its fields.\<close>

type_synonym AdapterLimitDecision = "Refusal option"

definition createController :: "AdapterLimits \<Rightarrow> AdapterLimitController" where
  "createController limits =
     \<lparr>ac_limits = limits, ac_objects = [], ac_sessions = [], ac_buckets = [], ac_leases = []\<rparr>"

definition update_session :: "nat \<Rightarrow> (SessionState \<Rightarrow> SessionState) \<Rightarrow> AdapterLimitController \<Rightarrow> AdapterLimitController" where
  "update_session a f c = c\<lparr>ac_objects := (ac_objects c)[a := f (ac_objects c ! a)]\<rparr>"

definition activeSessionsForTenant :: "AdapterLimitController \<Rightarrow> string \<Rightarrow> nat" where
  "activeSessionsForTenant c tenantId =
     length (filter (\<lambda>p. ss_tenantId (ac_objects c ! snd p) = tenantId) (ac_sessions c))"

definition openSession ::
  "AdapterLimitController \<Rightarrow> string \<Rightarrow> string \<Rightarrow> int \<Rightarrow> AdapterLimitController \<times> AdapterLimitDecision" where
  "openSession c sessionId tenantId nowMs =
     (case map_of (ac_sessions c) sessionId of
        Some a \<Rightarrow> (update_session a (\<lambda>s. s\<lparr>ss_lastSeenAtMs := nowMs\<rparr>) c, None)
      | None \<Rightarrow>
          if activeSessionsForTenant c tenantId \<ge> al_concurrentSessionsPerTenant (ac_limits c)
          then (c, Some \<lparr>rf_code = SessionLimitExceeded, rf_retryable = True,
                         rf_retryAfterMs = Some (al_sessionIdleTimeoutMs (ac_limits c)),
                         rf_limit = ''concurrentSessionsPerTenant''\<rparr>)
          else (c\<lparr>ac_objects := ac_objects c @
                    [\<lparr>ss_sessionId = sessionId, ss_tenantId = tenantId, ss_inflight = 0, ss_lastSeenAtMs = nowMs\<rparr>],
                  ac_sessions := map_set sessionId (length (ac_objects c)) (ac_sessions c)\<rparr>, None))"

definition closeSession :: "AdapterLimitController \<Rightarrow> string \<Rightarrow> AdapterLimitController" where
  "closeSession c sessionId = c\<lparr>ac_sessions := map_delete sessionId (ac_sessions c)\<rparr>"

text \<open>The bucket after a call at time \<open>nowMs\<close>, and the refusal, if it has no token left.\<close>

definition refill :: "AdapterToolCallRateLimit \<Rightarrow> TokenBucketState \<Rightarrow> int \<Rightarrow> TokenBucketState" where
  "refill limit current nowMs =
     (let intervals = (nowMs - tb_updatedAtMs current) div tr_refillIntervalMs limit in
      \<lparr>tb_tokens = min (tr_capacity limit) (tb_tokens current + intervals * tr_refillTokens limit),
       tb_updatedAtMs =
         (if intervals > 0 then tb_updatedAtMs current + intervals * tr_refillIntervalMs limit
          else tb_updatedAtMs current)\<rparr>)"

definition take_token ::
  "AdapterToolCallRateLimit \<Rightarrow> TokenBucketState \<Rightarrow> int \<Rightarrow> TokenBucketState \<times> AdapterLimitDecision" where
  "take_token limit current nowMs =
     (let b = refill limit current nowMs in
      if tb_tokens b < 1
      then (b, Some \<lparr>rf_code = Backpressure, rf_retryable = True,
                     rf_retryAfterMs = Some (max 0 (tr_refillIntervalMs limit - (nowMs - tb_updatedAtMs b))),
                     rf_limit = ''toolCallRate''\<rparr>)
      else (b\<lparr>tb_tokens := tb_tokens b - 1\<rparr>, None))"

definition consumeToolToken ::
  "AdapterLimitController \<Rightarrow> string \<Rightarrow> int \<Rightarrow> AdapterLimitController \<times> AdapterLimitDecision" where
  "consumeToolToken c clientId nowMs =
     (let limit = al_toolCallRate (ac_limits c);
          current = (case map_of (ac_buckets c) clientId of Some b \<Rightarrow> b
            | None \<Rightarrow> \<lparr>tb_tokens = tr_capacity limit, tb_updatedAtMs = nowMs\<rparr>);
          r = take_token limit current nowMs in
      (c\<lparr>ac_buckets := map_set clientId (fst r) (ac_buckets c)\<rparr>, snd r))"

datatype request_kind = ToolCall | ReadRequest | ListRequest | PromptRequest

record acquire_input =
  aq_sessionId :: string
  aq_tenantId :: string
  aq_clientId :: string
  aq_kind :: request_kind
  aq_payloadBytes :: nat
  aq_nowMs :: int

datatype acquire_result = Refused Refusal | Lease nat

text \<open>The part of \<^verbatim>\<open>acquireRequest\<close> after the session is known: \<open>a\<close> is the address of its object.\<close>

definition admit :: "AdapterLimitController \<Rightarrow> acquire_input \<Rightarrow> nat \<Rightarrow> AdapterLimitController \<times> acquire_result" where
  "admit c input a =
     (if ss_inflight (ac_objects c ! a) \<ge> al_inflightRequestsPerSession (ac_limits c)
      then (c, Refused \<lparr>rf_code = Backpressure, rf_retryable = True, rf_retryAfterMs = Some 1000,
                        rf_limit = ''inflightRequestsPerSession''\<rparr>)
      else
        let rate = (if aq_kind input = ToolCall then consumeToolToken c (aq_clientId input) (aq_nowMs input) else (c, None)) in
        (case snd rate of
           Some r \<Rightarrow> (fst rate, Refused r)
         | None \<Rightarrow>
             ((update_session a (\<lambda>s. s\<lparr>ss_inflight := Suc (ss_inflight s), ss_lastSeenAtMs := aq_nowMs input\<rparr>) (fst rate))
                \<lparr>ac_leases := ac_leases c @ [\<lparr>le_session = a, le_released = False\<rparr>]\<rparr>,
              Lease (length (ac_leases c)))))"

definition acquireRequest :: "AdapterLimitController \<Rightarrow> acquire_input \<Rightarrow> AdapterLimitController \<times> acquire_result" where
  "acquireRequest c input =
     (if aq_payloadBytes input > al_requestPayloadMaxBytes (ac_limits c)
      then (c, Refused \<lparr>rf_code = PayloadTooLarge, rf_retryable = False, rf_retryAfterMs = None,
                        rf_limit = ''requestPayloadMaxBytes''\<rparr>)
      else
        (case map_of (ac_sessions c) (aq_sessionId input) of
           Some a \<Rightarrow>
             if aq_nowMs input - ss_lastSeenAtMs (ac_objects c ! a) > al_sessionIdleTimeoutMs (ac_limits c)
             then (closeSession c (aq_sessionId input),
                   Refused \<lparr>rf_code = SessionIdleTimeout, rf_retryable = True, rf_retryAfterMs = Some 0,
                            rf_limit = ''sessionIdleTimeoutMs''\<rparr>)
             else admit c input a
         | None \<Rightarrow>
             let opened = openSession c (aq_sessionId input) (aq_tenantId input) (aq_nowMs input) in
             (case snd opened of
                Some r \<Rightarrow> (fst opened, Refused r)
              | None \<Rightarrow>
                  (case map_of (ac_sessions (fst opened)) (aq_sessionId input) of
                     None \<Rightarrow> (fst opened, Refused \<lparr>rf_code = Backpressure, rf_retryable = True,
                               rf_retryAfterMs = Some 1000, rf_limit = ''session''\<rparr>)
                   | Some a \<Rightarrow> admit (fst opened) input a))))"

text \<open>The closure of a lease; natural subtraction is the \<^verbatim>\<open>Math.max(0, ...)\<close>.\<close>

definition releaseLease :: "AdapterLimitController \<Rightarrow> nat \<Rightarrow> AdapterLimitController" where
  "releaseLease c i =
     (if i \<ge> length (ac_leases c) \<or> le_released (ac_leases c ! i) then c
      else
        (update_session (le_session (ac_leases c ! i)) (\<lambda>s. s\<lparr>ss_inflight := ss_inflight s - 1\<rparr>) c)
          \<lparr>ac_leases := (ac_leases c)[i := (ac_leases c ! i)\<lparr>le_released := True\<rparr>]\<rparr>)"

definition clearOperationalState :: "AdapterLimitController \<Rightarrow> AdapterLimitController" where
  "clearOperationalState c = c\<lparr>ac_sessions := [], ac_buckets := []\<rparr>"

definition checkResourceReadBytes :: "AdapterLimitController \<Rightarrow> nat \<Rightarrow> AdapterLimitDecision" where
  "checkResourceReadBytes c byteLength =
     (if byteLength \<le> al_resourceReadMaxBytes (ac_limits c) then None
      else Some \<lparr>rf_code = ProjectionTooLarge, rf_retryable = False, rf_retryAfterMs = None,
                 rf_limit = ''resourceReadMaxBytes''\<rparr>)"

section \<open>Pages\<close>

text \<open>\<^verbatim>\<open>items.slice(from, to)\<close> for a start that is not negative; a negative end counts from the back.\<close>

definition js_slice :: "'a list \<Rightarrow> nat \<Rightarrow> int \<Rightarrow> 'a list" where
  "js_slice items start stop =
     (let e = (if stop < 0 then nat (int (length items) + stop) else nat stop) in
      take (e - start) (drop start items))"

record 'a page =
  pg_items :: "'a list"
  pg_cursor :: nat
  pg_requestedPageSize :: int
  pg_pageSize :: int
  pg_maxPageSize :: int
  pg_bounded :: bool
  pg_nextCursor :: "nat option"

definition boundedPage :: "AdapterLimits \<Rightarrow> 'a list \<Rightarrow> int option \<Rightarrow> int option \<Rightarrow> 'a page" where
  "boundedPage limits items cursorOpt pageSizeOpt =
     (let cursor = nat (max 0 (or_default cursorOpt 0));
          requestedPageSize = or_default pageSizeOpt (al_resourceListMaxPageSize limits);
          pageSize = min requestedPageSize (al_resourceListMaxPageSize limits);
          page = js_slice items cursor (int cursor + pageSize);
          stop = cursor + length page in
      \<lparr>pg_items = page, pg_cursor = cursor, pg_requestedPageSize = requestedPageSize, pg_pageSize = pageSize,
       pg_maxPageSize = al_resourceListMaxPageSize limits,
       pg_bounded = (requestedPageSize > al_resourceListMaxPageSize limits),
       pg_nextCursor = (if stop < length items then Some stop else None)\<rparr>)"

text \<open>\<^verbatim>\<open>utf8ByteLength\<close> on the code points of a text.\<close>

definition utf8_width :: "nat \<Rightarrow> nat" where
  "utf8_width codePoint =
     (if codePoint \<le> 0x7f then 1 else if codePoint \<le> 0x7ff then 2 else if codePoint \<le> 0xffff then 3 else 4)"

definition utf8ByteLength :: "nat list \<Rightarrow> nat" where
  "utf8ByteLength codePoints = sum_list (map utf8_width codePoints)"

definition measureMcpPayloadBytes :: "json \<Rightarrow> nat" where
  "measureMcpPayloadBytes v =
     (case JSON_stringify v of None \<Rightarrow> 0 | Some text \<Rightarrow> utf8ByteLength (map of_char text))"

end
