(* ===== verification/Adapter_Sessions.thy ===== *)
theory Adapter_Sessions
  imports Adapter_Limits Prelude
begin

text \<open>
  Safety of the limit controller over every sequence of its operations: a run of the controller is a
  list of calls from a fresh controller, \<open>controller_law\<close> is the contract a predicate has to meet to
  hold after every run, and it is interpreted for the bookkeeping of the session objects and for the
  per-tenant bound. The pages of \<open>boundedPage\<close> are shown to cover a list.
\<close>

section \<open>Runs of the controller\<close>

datatype controller_op =
    OpOpen string string int
  | OpClose string
  | OpAcquire acquire_input
  | OpRelease nat
  | OpClear

fun run_op :: "AdapterLimitController \<Rightarrow> controller_op \<Rightarrow> AdapterLimitController" where
  "run_op c (OpOpen sid tid now) = fst (openSession c sid tid now)"
| "run_op c (OpClose sid) = closeSession c sid"
| "run_op c (OpAcquire i) = fst (acquireRequest c i)"
| "run_op c (OpRelease n) = releaseLease c n"
| "run_op c OpClear = clearOperationalState c"

definition run_ops :: "AdapterLimitController \<Rightarrow> controller_op list \<Rightarrow> AdapterLimitController" where
  "run_ops c ops = foldl run_op c ops"

definition outstanding :: "AdapterLimitController \<Rightarrow> nat \<Rightarrow> nat" where
  "outstanding c a = length (filter (\<lambda>l. le_session l = a \<and> \<not> le_released l) (ac_leases c))"

text \<open>Contract: a predicate that the primitive updates of the controller keep.\<close>

locale controller_law =
  fixes I :: "AdapterLimitController \<Rightarrow> bool"
  assumes law_open: "I c \<Longrightarrow> I (fst (openSession c sid tid now))"
    and law_close: "I c \<Longrightarrow> I (closeSession c sid)"
    and law_bucket: "I c \<Longrightarrow> I (fst (consumeToolToken c k now))"
    and law_grant: "\<lbrakk>I c; map_of (ac_sessions c) sid = Some a;
        ss_inflight (ac_objects c ! a) < al_inflightRequestsPerSession (ac_limits c)\<rbrakk> \<Longrightarrow>
        I ((update_session a (\<lambda>s. s\<lparr>ss_inflight := Suc (ss_inflight s), ss_lastSeenAtMs := now\<rparr>) c)
             \<lparr>ac_leases := ac_leases c @ [\<lparr>le_session = a, le_released = False\<rparr>]\<rparr>)"
    and law_release: "I c \<Longrightarrow> I (releaseLease c n)"
    and law_clear: "I c \<Longrightarrow> I (clearOperationalState c)"
begin

lemma law_admit:
  assumes "I c" "map_of (ac_sessions c) sid = Some a"
  shows "I (fst (admit c input a))"
proof (cases "ss_inflight (ac_objects c ! a) \<ge> al_inflightRequestsPerSession (ac_limits c)")
  case True
  then show ?thesis using assms by (simp add: admit_def)
next
  case False
  define rate where "rate = (if aq_kind input = ToolCall then consumeToolToken c (aq_clientId input) (aq_nowMs input)
    else (c, None))"
  have I': "I (fst rate)" using assms law_bucket by (simp add: rate_def)
  have same: "ac_sessions (fst rate) = ac_sessions c" "ac_objects (fst rate) = ac_objects c"
      "ac_limits (fst rate) = ac_limits c" "ac_leases (fst rate) = ac_leases c"
    by (simp_all add: rate_def consumeToolToken_def Let_def)
  have "I ((update_session a (\<lambda>s. s\<lparr>ss_inflight := Suc (ss_inflight s), ss_lastSeenAtMs := aq_nowMs input\<rparr>) (fst rate))
             \<lparr>ac_leases := ac_leases c @ [\<lparr>le_session = a, le_released = False\<rparr>]\<rparr>)"
    using law_grant [OF I', of sid a "aq_nowMs input"] assms(2) False by (simp add: same)
  then show ?thesis
    using False I' by (simp add: admit_def Let_def rate_def [symmetric] split: option.split)
qed

lemma law_acquire:
  assumes "I c"
  shows "I (fst (acquireRequest c input))"
proof -
  let ?o = "openSession c (aq_sessionId input) (aq_tenantId input) (aq_nowMs input)"
  have "I (fst ?o)" by (rule law_open [OF assms])
  then show ?thesis
    using assms law_close [OF assms] law_admit [OF assms] law_admit [of "fst ?o"]
    by (auto simp: acquireRequest_def Let_def split: option.split)
qed

lemma law_run_op: "I c \<Longrightarrow> I (run_op c op)"
  by (cases op) (simp_all add: law_open law_close law_acquire law_release law_clear)

lemma law_run: "I c \<Longrightarrow> I (run_ops c ops)"
  unfolding run_ops_def by (induction ops arbitrary: c) (simp_all add: law_run_op)

end

section \<open>Map entries and session objects\<close>

lemma openSession_new:
  assumes "map_of (ac_sessions c) sid = None"
    and "activeSessionsForTenant c tid < al_concurrentSessionsPerTenant (ac_limits c)"
  shows "openSession c sid tid now =
    (c\<lparr>ac_objects := ac_objects c @ [\<lparr>ss_sessionId = sid, ss_tenantId = tid, ss_inflight = 0, ss_lastSeenAtMs = now\<rparr>],
       ac_sessions := ac_sessions c @ [(sid, length (ac_objects c))]\<rparr>, None)"
  using assms by (simp add: openSession_def map_set_new)

lemma openSession_cases:
  obtains (existing) a where "map_of (ac_sessions c) sid = Some a"
      "fst (openSession c sid tid now) = update_session a (\<lambda>s. s\<lparr>ss_lastSeenAtMs := now\<rparr>) c"
  | (refused) "fst (openSession c sid tid now) = c"
  | (created) "map_of (ac_sessions c) sid = None"
      "activeSessionsForTenant c tid < al_concurrentSessionsPerTenant (ac_limits c)"
  by (cases "map_of (ac_sessions c) sid";
      cases "activeSessionsForTenant c tid < al_concurrentSessionsPerTenant (ac_limits c)")
     (auto simp: openSession_def)

text \<open>
  Bookkeeping: the map has one entry per session id, its addresses are live objects that carry that
  id, and the in-flight counter of every object is the number of its leases that are not released.
\<close>

definition books :: "AdapterLimits \<Rightarrow> AdapterLimitController \<Rightarrow> bool" where
  "books L c \<longleftrightarrow> ac_limits c = L \<and> distinct (map fst (ac_sessions c)) \<and>
     list_all (\<lambda>p. snd p < length (ac_objects c) \<and> ss_sessionId (ac_objects c ! snd p) = fst p) (ac_sessions c) \<and>
     list_all (\<lambda>l. le_session l < length (ac_objects c)) (ac_leases c) \<and>
     (\<forall>a < length (ac_objects c). ss_inflight (ac_objects c ! a) = outstanding c a \<and>
        outstanding c a \<le> al_inflightRequestsPerSession L)"

lemma outstanding_fresh:
  "list_all (\<lambda>l. le_session l < n) (ac_leases c) \<Longrightarrow> outstanding c n = 0"
  by (auto simp: outstanding_def list_all_iff filter_empty_conv)

lemma outstanding_grant:
  "outstanding (c\<lparr>ac_leases := ac_leases c @ [\<lparr>le_session = a, le_released = False\<rparr>]\<rparr>) b =
   outstanding c b + (if a = b then 1 else 0)"
  by (simp add: outstanding_def)

lemma length_filter_update:
  "i < length xs \<Longrightarrow> length (filter P (xs[i := x])) + (if P (xs ! i) then 1 else 0) =
     length (filter P xs) + (if P x then 1 else 0)"
proof (induction xs arbitrary: i)
  case (Cons y ys)
  then show ?case by (cases i) (auto split: if_splits)
qed simp

lemma outstanding_release:
  assumes "i < length (ac_leases c)" "\<not> le_released (ac_leases c ! i)"
  shows "outstanding (c\<lparr>ac_leases := (ac_leases c)[i := (ac_leases c ! i)\<lparr>le_released := True\<rparr>]\<rparr>) b =
    outstanding c b - (if le_session (ac_leases c ! i) = b then 1 else 0)"
  using length_filter_update [OF assms(1), of "\<lambda>l. le_session l = b \<and> \<not> le_released l"
      "(ac_leases c ! i)\<lparr>le_released := True\<rparr>"] assms(2)
  by (simp add: outstanding_def split: if_splits)

lemma outstanding_indep [simp]:
  "outstanding (c\<lparr>ac_objects := ob\<rparr>) b = outstanding c b"
  "outstanding (c\<lparr>ac_sessions := se\<rparr>) b = outstanding c b"
  "outstanding (c\<lparr>ac_buckets := bu\<rparr>) b = outstanding c b"
  by (simp_all add: outstanding_def)

lemma books_entry:
  assumes "books L c" "map_of (ac_sessions c) sid = Some a"
  shows "a < length (ac_objects c)" "ss_sessionId (ac_objects c ! a) = sid"
  using assms map_of_SomeD [OF assms(2)] by (auto simp: books_def list_all_iff)

text \<open>An update of one object that keeps its identity and a matching change of its leases.\<close>

lemma books_update:
  assumes b: "books L c" and a: "a < length (ac_objects c)"
    and f: "\<And>s. ss_sessionId (f s) = ss_sessionId s"
    and ls: "list_all (\<lambda>l. le_session l < length (ac_objects c)) ls"
    and same: "\<And>b. b \<noteq> a \<Longrightarrow> outstanding (c\<lparr>ac_leases := ls\<rparr>) b = outstanding c b"
    and count: "ss_inflight (f (ac_objects c ! a)) = outstanding (c\<lparr>ac_leases := ls\<rparr>) a"
    and bound: "ss_inflight (f (ac_objects c ! a)) \<le> al_inflightRequestsPerSession L"
  shows "books L ((update_session a f c)\<lparr>ac_leases := ls\<rparr>)"
proof -
  have o: "outstanding ((update_session a f c)\<lparr>ac_leases := ls\<rparr>) x = outstanding (c\<lparr>ac_leases := ls\<rparr>) x" for x
    by (simp add: update_session_def outstanding_def)
  have "ss_inflight ((ac_objects c)[a := f (ac_objects c ! a)] ! x) = outstanding (c\<lparr>ac_leases := ls\<rparr>) x \<and>
      outstanding (c\<lparr>ac_leases := ls\<rparr>) x \<le> al_inflightRequestsPerSession L"
    if "x < length (ac_objects c)" for x
    using b that a count bound same by (cases "x = a") (simp_all add: books_def)
  moreover have "ss_sessionId ((ac_objects c)[a := f (ac_objects c ! a)] ! x) = ss_sessionId (ac_objects c ! x)" for x
    using a f by (cases "x = a") simp_all
  ultimately show ?thesis
    using b ls unfolding books_def o by (simp add: update_session_def)
qed

lemma books_touch:
  assumes "books L c" "a < length (ac_objects c)"
  shows "books L (update_session a (\<lambda>s. s\<lparr>ss_lastSeenAtMs := now\<rparr>) c)"
proof -
  have "books L ((update_session a (\<lambda>s. s\<lparr>ss_lastSeenAtMs := now\<rparr>) c)\<lparr>ac_leases := ac_leases c\<rparr>)"
    using assms by (intro books_update) (auto simp: books_def)
  then show ?thesis by (simp add: update_session_def)
qed

lemma books_open: "books L c \<Longrightarrow> books L (fst (openSession c sid tid now))"
proof (cases rule: openSession_cases [of c sid tid now])
  case created
  assume b: "books L c"
  have "sid \<notin> fst ` set (ac_sessions c)" using created(1) by (simp add: map_of_None_fst)
  then show ?thesis
    using b outstanding_fresh [of "length (ac_objects c)" c]
    unfolding openSession_new [OF created] books_def
    by (auto simp: list_all_iff nth_append less_Suc_eq)
qed (auto simp: books_entry intro: books_touch)

lemma books_close: "books L c \<Longrightarrow> books L (closeSession c sid)"
  unfolding books_def closeSession_def
  by (auto simp: distinct_map_delete list_all_iff) (auto simp: map_delete_def)

lemma books_grant:
  assumes "books L c" "map_of (ac_sessions c) sid = Some a"
    and "ss_inflight (ac_objects c ! a) < al_inflightRequestsPerSession (ac_limits c)"
  shows "books L ((update_session a (\<lambda>s. s\<lparr>ss_inflight := Suc (ss_inflight s), ss_lastSeenAtMs := now\<rparr>) c)
             \<lparr>ac_leases := ac_leases c @ [\<lparr>le_session = a, le_released = False\<rparr>]\<rparr>)"
  by (rule books_update) (use assms books_entry [OF assms(1,2)] in \<open>auto simp: outstanding_grant books_def\<close>)

lemma books_release:
  assumes "books L c" shows "books L (releaseLease c n)"
proof (cases "n \<ge> length (ac_leases c) \<or> le_released (ac_leases c ! n)")
  case True
  then show ?thesis using assms by (simp add: releaseLease_def)
next
  case False
  let ?l = "ac_leases c ! n"
  have n: "n < length (ac_leases c)" and r: "\<not> le_released ?l" using False by auto
  have a: "le_session ?l < length (ac_objects c)"
    using assms n by (auto simp: books_def list_all_iff)
  have ls: "list_all (\<lambda>l. le_session l < length (ac_objects c)) ((ac_leases c)[n := ?l\<lparr>le_released := True\<rparr>])"
    using assms a n set_update_subset_insert [of "ac_leases c" n "?l\<lparr>le_released := True\<rparr>"]
    by (auto simp: books_def list_all_iff)
  have "books L ((update_session (le_session ?l) (\<lambda>s. s\<lparr>ss_inflight := ss_inflight s - 1\<rparr>) c)
          \<lparr>ac_leases := (ac_leases c)[n := ?l\<lparr>le_released := True\<rparr>]\<rparr>)"
    by (rule books_update [OF assms a _ ls])
       (use assms a in \<open>auto simp: outstanding_release [OF n r] books_def intro: le_trans [OF diff_le_self]\<close>)
  then show ?thesis using False by (simp add: releaseLease_def)
qed

lemma books_clear: "books L c \<Longrightarrow> books L (clearOperationalState c)"
  by (simp add: books_def clearOperationalState_def)

lemma books_bucket: "books L c \<Longrightarrow> books L (fst (consumeToolToken c k now))"
  by (simp add: books_def consumeToolToken_def Let_def)

interpretation bk: controller_law "books L"
  by unfold_locales
    (simp_all add: books_open books_close books_bucket books_grant books_release books_clear)

lemma books_fresh: "books L (createController L)"
  by (simp add: books_def createController_def)

section \<open>Sessions per tenant\<close>

definition tenant_inv :: "AdapterLimits \<Rightarrow> AdapterLimitController \<Rightarrow> bool" where
  "tenant_inv L c \<longleftrightarrow> books L c \<and> (\<forall>t. activeSessionsForTenant c t \<le> al_concurrentSessionsPerTenant L)"

lemma active_update:
  assumes "\<And>s. ss_tenantId (f s) = ss_tenantId s"
  shows "activeSessionsForTenant (update_session a f c) t = activeSessionsForTenant c t"
proof -
  have "ss_tenantId ((ac_objects c)[a := f (ac_objects c ! a)] ! x) = ss_tenantId (ac_objects c ! x)" for x
    using assms by (cases "x = a"; cases "a < length (ac_objects c)") (simp_all add: list_update_beyond)
  then show ?thesis by (simp add: activeSessionsForTenant_def update_session_def)
qed

lemma active_indep [simp]:
  "activeSessionsForTenant (c\<lparr>ac_leases := ls\<rparr>) t = activeSessionsForTenant c t"
  "activeSessionsForTenant (c\<lparr>ac_buckets := bs\<rparr>) t = activeSessionsForTenant c t"
  by (simp_all add: activeSessionsForTenant_def)

lemma active_close: "activeSessionsForTenant (closeSession c sid) t \<le> activeSessionsForTenant c t"
proof -
  have "length (filter (\<lambda>p. Q p \<and> P p) ps) \<le> length (filter P ps)" for P Q and ps :: "(string \<times> nat) list"
    by (induction ps) auto
  then show ?thesis by (simp add: activeSessionsForTenant_def closeSession_def map_delete_def filter_filter)
qed

lemma active_created:
  assumes "books L c" "map_of (ac_sessions c) sid = None"
    and "activeSessionsForTenant c tid < al_concurrentSessionsPerTenant (ac_limits c)"
  shows "activeSessionsForTenant (fst (openSession c sid tid now)) t =
    activeSessionsForTenant c t + (if t = tid then 1 else 0)"
proof -
  have "filter (\<lambda>p. ss_tenantId ((ac_objects c @ [s]) ! snd p) = t) (ac_sessions c) =
      filter (\<lambda>p. ss_tenantId (ac_objects c ! snd p) = t) (ac_sessions c)" for s
    using assms(1) by (intro filter_cong) (auto simp: books_def list_all_iff nth_append)
  then show ?thesis
    unfolding openSession_new [OF assms(2,3)] activeSessionsForTenant_def by auto
qed

lemma tenant_inv_open:
  assumes "tenant_inv L c" shows "tenant_inv L (fst (openSession c sid tid now))"
proof -
  have b: "books L (fst (openSession c sid tid now))" and c: "books L c" and L: "ac_limits c = L"
    using assms books_open by (auto simp: tenant_inv_def books_def)
  have "activeSessionsForTenant (fst (openSession c sid tid now)) t \<le> al_concurrentSessionsPerTenant L" for t
  proof (cases rule: openSession_cases [of c sid tid now])
    case created
    then show ?thesis
      using assms L by (simp add: active_created [OF c created] tenant_inv_def)
  qed (use assms in \<open>auto simp: tenant_inv_def active_update\<close>)
  with b show ?thesis by (simp add: tenant_inv_def)
qed

interpretation tn: controller_law "tenant_inv L"
proof
  fix c sid tid now k n a
  assume i: "tenant_inv L c"
  show "tenant_inv L (fst (openSession c sid tid now))" by (rule tenant_inv_open [OF i])
  show "tenant_inv L (closeSession c sid)"
    using i by (auto simp: tenant_inv_def books_close intro: order_trans [OF active_close])
  show "tenant_inv L (fst (consumeToolToken c k now))"
    using i by (auto simp: tenant_inv_def books_bucket) (simp add: consumeToolToken_def Let_def)
  show "tenant_inv L (releaseLease c n)"
    using i by (auto simp: tenant_inv_def books_release) (simp add: releaseLease_def active_update)
  show "tenant_inv L (clearOperationalState c)"
    using i by (auto simp: tenant_inv_def books_clear)
      (simp add: clearOperationalState_def activeSessionsForTenant_def)
  assume "map_of (ac_sessions c) sid = Some a"
    "ss_inflight (ac_objects c ! a) < al_inflightRequestsPerSession (ac_limits c)"
  then show "tenant_inv L ((update_session a (\<lambda>s. s\<lparr>ss_inflight := Suc (ss_inflight s), ss_lastSeenAtMs := now\<rparr>) c)
       \<lparr>ac_leases := ac_leases c @ [\<lparr>le_session = a, le_released = False\<rparr>]\<rparr>)"
    using i by (simp add: tenant_inv_def books_grant active_update)
qed

lemma tenant_inv_fresh: "tenant_inv L (createController L)"
  using books_fresh by (simp add: tenant_inv_def createController_def activeSessionsForTenant_def)

end
