(* ===== verification/Adapter_Rates.thy ===== *)
theory Adapter_Rates
  imports Adapter_Sessions
begin

text \<open>
  The tool-call budget of a client over any window of controller operations, and the properties of
  the limit controller: lease accounting, the per-tenant session bound, the token bucket and the
  pages of a resource list.
\<close>

section \<open>The token bucket\<close>

text \<open>Tool calls of client \<open>k\<close> that are admitted in a run, and the times of its tool calls.\<close>

definition tool_grant :: "string \<Rightarrow> AdapterLimitController \<Rightarrow> controller_op \<Rightarrow> bool" where
  "tool_grant k c op =
     (case op of
        OpAcquire i \<Rightarrow> aq_kind i = ToolCall \<and> aq_clientId i = k \<and>
          (case snd (acquireRequest c i) of Lease n \<Rightarrow> True | Refused r \<Rightarrow> False)
      | _ \<Rightarrow> False)"

fun tool_grants :: "string \<Rightarrow> AdapterLimitController \<Rightarrow> controller_op list \<Rightarrow> nat" where
  "tool_grants k c [] = 0"
| "tool_grants k c (op # ops) = (if tool_grant k c op then 1 else 0) + tool_grants k (run_op c op) ops"

fun tool_time :: "string \<Rightarrow> controller_op \<Rightarrow> int option" where
  "tool_time k (OpAcquire i) = (if aq_kind i = ToolCall \<and> aq_clientId i = k then Some (aq_nowMs i) else None)"
| "tool_time k _ = None"

definition tool_times :: "string \<Rightarrow> controller_op list \<Rightarrow> int list" where
  "tool_times k ops = List.map_filter (tool_time k) ops"

lemma tool_times_Nil [simp]: "tool_times k [] = []"
  by (simp add: tool_times_def)

lemma tool_times_Cons [simp]:
  "tool_times k (op # ops) =
     (case tool_time k op of None \<Rightarrow> tool_times k ops | Some t \<Rightarrow> t # tool_times k ops)"
  by (simp add: tool_times_def split: option.split)

definition rate_ok :: "AdapterLimits \<Rightarrow> bool" where
  "rate_ok L \<longleftrightarrow> 0 < tr_capacity (al_toolCallRate L) \<and> 0 < tr_refillTokens (al_toolCallRate L) \<and>
     0 < tr_refillIntervalMs (al_toolCallRate L)"

text \<open>What a bucket can still pay out until \<open>T\<close>.\<close>

definition credit :: "AdapterToolCallRateLimit \<Rightarrow> TokenBucketState \<Rightarrow> int \<Rightarrow> int" where
  "credit r b T = max 0 (tb_tokens b) + tr_refillTokens r * ((T - tb_updatedAtMs b) div tr_refillIntervalMs r)"

lemma refill_credit:
  assumes r: "0 < tr_refillIntervalMs r" "0 < tr_refillTokens r"
    and t: "tb_updatedAtMs b \<le> t" "t \<le> T"
  shows "credit r (refill r b t) T \<le> credit r b T" "tb_updatedAtMs (refill r b t) \<le> t"
    "tb_tokens (refill r b t) \<le> tr_capacity r" "t - tb_updatedAtMs (refill r b t) < tr_refillIntervalMs r"
proof -
  define n where "n = (t - tb_updatedAtMs b) div tr_refillIntervalMs r"
  define m where "m = (t - tb_updatedAtMs b) mod tr_refillIntervalMs r"
  have n0: "0 \<le> n" using assms by (simp add: n_def pos_imp_zdiv_nonneg_iff)
  have m: "0 \<le> m" "m < tr_refillIntervalMs r" using r by (simp_all add: m_def)
  have eq: "t - tb_updatedAtMs b = n * tr_refillIntervalMs r + m" by (simp add: n_def m_def)
  have u: "tb_updatedAtMs (refill r b t) = tb_updatedAtMs b + n * tr_refillIntervalMs r"
    using n0 by (auto simp: refill_def Let_def n_def [symmetric])
  have tok: "tb_tokens (refill r b t) = min (tr_capacity r) (tb_tokens b + n * tr_refillTokens r)"
    by (simp add: refill_def Let_def n_def)
  show "tb_updatedAtMs (refill r b t) \<le> t" "t - tb_updatedAtMs (refill r b t) < tr_refillIntervalMs r"
    "tb_tokens (refill r b t) \<le> tr_capacity r"
    using u eq m tok by linarith+
  have "T - (tb_updatedAtMs b + n * tr_refillIntervalMs r) = (T - tb_updatedAtMs b) + (- n) * tr_refillIntervalMs r"
    by simp
  then have d: "(T - tb_updatedAtMs (refill r b t)) div tr_refillIntervalMs r =
      (T - tb_updatedAtMs b) div tr_refillIntervalMs r - n"
    unfolding u using r(1) by (metis (no_types, lifting) add.commute diff_conv_add_uminus div_mult_self1 less_irrefl)
  have "max 0 (tb_tokens (refill r b t)) \<le> max 0 (tb_tokens b) + n * tr_refillTokens r"
    using tok n0 r(2) by (auto simp: max_def min_def)
  then show "credit r (refill r b t) T \<le> credit r b T"
    by (simp add: credit_def d algebra_simps)
qed

lemma take_token_credit:
  assumes "0 < tr_refillIntervalMs r" "0 < tr_refillTokens r" "tb_updatedAtMs b \<le> t" "t \<le> T"
  shows "credit r (fst (take_token r b t)) T + (if snd (take_token r b t) = None then 1 else 0) \<le> credit r b T"
    "tb_updatedAtMs (fst (take_token r b t)) \<le> t"
  using refill_credit [OF assms] by (auto simp: take_token_def Let_def credit_def)

section \<open>The bucket of a client in a run\<close>

definition bucket_of :: "AdapterLimitController \<Rightarrow> string \<Rightarrow> int \<Rightarrow> TokenBucketState" where
  "bucket_of c k now = (case map_of (ac_buckets c) k of Some b \<Rightarrow> b
     | None \<Rightarrow> \<lparr>tb_tokens = tr_capacity (al_toolCallRate (ac_limits c)), tb_updatedAtMs = now\<rparr>)"

lemma openSession_frame [simp]:
  "ac_buckets (fst (openSession c sid tid now)) = ac_buckets c"
  "ac_limits (fst (openSession c sid tid now)) = ac_limits c"
  by (auto simp: openSession_def update_session_def split: option.split)

lemma closeSession_frame [simp]:
  "ac_buckets (closeSession c sid) = ac_buckets c" "ac_limits (closeSession c sid) = ac_limits c"
  by (simp_all add: closeSession_def)

lemma releaseLease_frame [simp]:
  "ac_buckets (releaseLease c n) = ac_buckets c" "ac_limits (releaseLease c n) = ac_limits c"
  by (simp_all add: releaseLease_def update_session_def)

lemma clearOperationalState_frame [simp]: "ac_limits (clearOperationalState c) = ac_limits c"
  by (simp add: clearOperationalState_def)

lemma consumeToolToken_eq:
  "consumeToolToken c k now =
     (c\<lparr>ac_buckets := map_set k (fst (take_token (al_toolCallRate (ac_limits c)) (bucket_of c k now) now)) (ac_buckets c)\<rparr>,
      snd (take_token (al_toolCallRate (ac_limits c)) (bucket_of c k now) now))"
  by (simp add: consumeToolToken_def bucket_of_def Let_def)

text \<open>An acquisition either leaves the buckets alone, without a grant of a tool call, or takes a token.\<close>

lemma admit_buckets:
  obtains (untouched) "ac_buckets (fst (admit c i a)) = ac_buckets c"
      "aq_kind i = ToolCall \<Longrightarrow> \<exists>r. snd (admit c i a) = Refused r"
  | (token) "aq_kind i = ToolCall"
      "ac_buckets (fst (admit c i a)) = ac_buckets (fst (consumeToolToken c (aq_clientId i) (aq_nowMs i)))"
      "(\<exists>n. snd (admit c i a) = Lease n) = (snd (consumeToolToken c (aq_clientId i) (aq_nowMs i)) = None)"
  by (cases "ss_inflight (ac_objects c ! a) \<ge> al_inflightRequestsPerSession (ac_limits c)";
      cases "aq_kind i = ToolCall")
     (auto simp: admit_def update_session_def Let_def split: option.splits)

lemma admit_limits: "ac_limits (fst (admit c i a)) = ac_limits c"
  by (auto simp: admit_def update_session_def consumeToolToken_eq Let_def split: option.split)

lemma consume_fst_snd:
  "ac_buckets d = ac_buckets c \<Longrightarrow> ac_limits d = ac_limits c \<Longrightarrow>
     ac_buckets (fst (consumeToolToken d k now)) = ac_buckets (fst (consumeToolToken c k now)) \<and>
     snd (consumeToolToken d k now) = snd (consumeToolToken c k now)"
proof -
  assume "ac_buckets d = ac_buckets c" "ac_limits d = ac_limits c"
  then have "bucket_of d k now = bucket_of c k now" "al_toolCallRate (ac_limits d) = al_toolCallRate (ac_limits c)"
    "ac_buckets d = ac_buckets c"
    by (simp_all add: bucket_of_def cong: option.case_cong)
  then show ?thesis by (simp add: consumeToolToken_eq)
qed

lemma acquire_split:
  "(\<exists>r. snd (acquireRequest c i) = Refused r) \<and> ac_buckets (fst (acquireRequest c i)) = ac_buckets c \<and>
      ac_limits (fst (acquireRequest c i)) = ac_limits c \<or>
   (\<exists>d a. acquireRequest c i = admit d i a \<and> ac_buckets d = ac_buckets c \<and> ac_limits d = ac_limits c)"
proof -
  define p where "p = openSession c (aq_sessionId i) (aq_tenantId i) (aq_nowMs i)"
  have p: "ac_buckets (fst p) = ac_buckets c" "ac_limits (fst p) = ac_limits c" by (simp_all add: p_def)
  show ?thesis
  proof (cases "map_of (ac_sessions c) (aq_sessionId i)")
    case None
    then show ?thesis
      using p unfolding acquireRequest_def Let_def p_def [symmetric]
      by (cases "snd p"; cases "map_of (ac_sessions (fst p)) (aq_sessionId i)") auto
  next
    case (Some a)
    then show ?thesis unfolding acquireRequest_def by auto
  qed
qed

lemma acquire_cases:
  obtains (refused) r where "snd (acquireRequest c i) = Refused r" "ac_buckets (fst (acquireRequest c i)) = ac_buckets c"
      "ac_limits (fst (acquireRequest c i)) = ac_limits c"
  | (admitted) d a where "acquireRequest c i = admit d i a" "ac_buckets d = ac_buckets c" "ac_limits d = ac_limits c"
  using acquire_split [of c i] by blast

lemma acquire_limits: "ac_limits (fst (acquireRequest c i)) = ac_limits c"
  by (cases rule: acquire_cases [of c i]) (simp_all add: admit_limits)

lemma run_op_limits [simp]: "ac_limits (run_op c op) = ac_limits c"
  by (cases op) (simp_all add: acquire_limits)

lemma acquire_buckets:
  obtains (untouched) "ac_buckets (fst (acquireRequest c i)) = ac_buckets c"
      "aq_kind i = ToolCall \<Longrightarrow> \<exists>r. snd (acquireRequest c i) = Refused r"
  | (token) "aq_kind i = ToolCall"
      "ac_buckets (fst (acquireRequest c i)) = ac_buckets (fst (consumeToolToken c (aq_clientId i) (aq_nowMs i)))"
      "(\<exists>n. snd (acquireRequest c i) = Lease n) = (snd (consumeToolToken c (aq_clientId i) (aq_nowMs i)) = None)"
proof (cases rule: acquire_cases [of c i])
  case (refused r)
  then show ?thesis using untouched by blast
next
  case (admitted d a)
  note same = consume_fst_snd [OF admitted(2,3), of "aq_clientId i" "aq_nowMs i"]
  show ?thesis
    by (rule admit_buckets [of d i a]) (use untouched token same admitted in auto)
qed

text \<open>An operation leaves the bucket of \<open>k\<close> alone and grants it nothing, or it is a tool call that takes a token.\<close>

lemma run_op_bucket:
  assumes "op \<noteq> OpClear"
  obtains (other) "map_of (ac_buckets (run_op c op)) k = map_of (ac_buckets c) k" "\<not> tool_grant k c op"
  | (token) t where "tool_time k op = Some t"
      "map_of (ac_buckets (run_op c op)) k = Some (fst (take_token (al_toolCallRate (ac_limits c)) (bucket_of c k t) t))"
      "tool_grant k c op = (snd (take_token (al_toolCallRate (ac_limits c)) (bucket_of c k t) t) = None)"
proof (cases op)
  case (OpAcquire i)
  show ?thesis
  proof (rule acquire_buckets [of c i])
    assume "ac_buckets (fst (acquireRequest c i)) = ac_buckets c"
      "aq_kind i = ToolCall \<Longrightarrow> \<exists>r. snd (acquireRequest c i) = Refused r"
    then show ?thesis
      using other OpAcquire by (cases "snd (acquireRequest c i)") (auto simp: tool_grant_def)
  next
    assume *: "aq_kind i = ToolCall"
      "ac_buckets (fst (acquireRequest c i)) = ac_buckets (fst (consumeToolToken c (aq_clientId i) (aq_nowMs i)))"
      "(\<exists>n. snd (acquireRequest c i) = Lease n) = (snd (consumeToolToken c (aq_clientId i) (aq_nowMs i)) = None)"
    then show ?thesis
      using other token [of "aq_nowMs i"] OpAcquire
      by (cases "aq_clientId i = k"; cases "snd (acquireRequest c i)")
         (auto simp: tool_grant_def consumeToolToken_eq map_of_map_set)
  qed
qed (use assms other in \<open>auto simp: tool_grant_def\<close>)

lemma bucket_time_bound:
  assumes "rate_ok (ac_limits c)" "\<forall>t \<in> set (tool_times k ops). t \<le> T"
    and "\<And>b. map_of (ac_buckets c) k = Some b \<Longrightarrow> tb_updatedAtMs b \<le> T"
  shows "map_of (ac_buckets (run_ops c ops)) k = Some b \<Longrightarrow> tb_updatedAtMs b \<le> T"
  using assms
proof (induction ops arbitrary: c)
  case Nil
  then show ?case by (simp add: run_ops_def)
next
  case (Cons op ops)
  let ?r = "al_toolCallRate (ac_limits c)"
  have upd: "tb_updatedAtMs (fst (take_token ?r x t)) \<le> T" if "tb_updatedAtMs x \<le> T" "t \<le> T" for x t
  proof -
    have "(t - tb_updatedAtMs x) div tr_refillIntervalMs ?r * tr_refillIntervalMs ?r \<le> t - tb_updatedAtMs x"
      using Cons.prems(2) by (simp add: rate_ok_def minus_mod_eq_div_mult [symmetric])
    then show ?thesis using that by (simp add: take_token_def refill_def Let_def)
  qed
  have "tb_updatedAtMs x \<le> T" if "map_of (ac_buckets (run_op c op)) k = Some x" for x
  proof (cases "op = OpClear")
    case True
    then show ?thesis using that by (simp add: clearOperationalState_def)
  next
    case False
    then show ?thesis
    proof (cases rule: run_op_bucket [where c = c and k = k])
      case other
      then show ?thesis using that Cons.prems(4) by simp
    next
      case (token t)
      then have "t \<le> T" using Cons.prems(3) by simp
      then have "tb_updatedAtMs (bucket_of c k t) \<le> T"
        using Cons.prems(4) by (simp add: bucket_of_def split: option.split)
      then show ?thesis using upd \<open>t \<le> T\<close> that token(2) by auto
    qed
  qed
  moreover have "\<forall>t \<in> set (tool_times k ops). t \<le> T"
    using Cons.prems(3) by (auto split: option.splits)
  ultimately show ?case
    using Cons.IH [of "run_op c op"] Cons.prems(1,2) by (simp add: run_ops_def)
qed

lemma grants_within_credit:
  assumes "rate_ok (ac_limits c)" "OpClear \<notin> set ops" "sorted (tool_times k ops)"
    and "\<forall>t \<in> set (tool_times k ops). tb_updatedAtMs b \<le> t \<and> t \<le> T"
    and "map_of (ac_buckets c) k = Some b" "tb_updatedAtMs b \<le> T"
  shows "int (tool_grants k c ops) \<le> credit (al_toolCallRate (ac_limits c)) b T"
  using assms
proof (induction ops arbitrary: c b)
  case Nil
  then show ?case by (simp add: credit_def rate_ok_def pos_imp_zdiv_nonneg_iff)
next
  case (Cons op ops)
  let ?r = "al_toolCallRate (ac_limits c)"
  have "op \<noteq> OpClear" using Cons.prems(2) by auto
  then show ?case
  proof (cases rule: run_op_bucket [where c = c and k = k])
    case other
    have "sorted (tool_times k ops)" "\<forall>t \<in> set (tool_times k ops). tb_updatedAtMs b \<le> t \<and> t \<le> T"
      using Cons.prems(3,4) by (auto split: option.splits)
    then show ?thesis using Cons.IH [of "run_op c op" b] Cons.prems other by simp
  next
    case (token t)
    have t: "tb_updatedAtMs b \<le> t" "t \<le> T" using Cons.prems(4) token(1) by auto
    have later: "sorted (tool_times k ops)" "\<forall>s \<in> set (tool_times k ops). t \<le> s \<and> s \<le> T"
      using Cons.prems(3,4) token(1) by auto
    let ?b = "fst (take_token ?r b t)"
    have r: "0 < tr_refillIntervalMs ?r" "0 < tr_refillTokens ?r" using Cons.prems(1) by (simp_all add: rate_ok_def)
    note tk = take_token_credit [OF r t]
    have "bucket_of c k t = b" using Cons.prems(5) by (simp add: bucket_of_def)
    then have "int (tool_grants k (run_op c op) ops) \<le> credit ?r ?b T"
      using Cons.IH [of "run_op c op" ?b] Cons.prems token tk later t by fastforce
    then show ?thesis using tk token(3) \<open>bucket_of c k t = b\<close> by (auto split: if_splits)
  qed
qed

lemma div_window:
  fixes I :: int
  assumes "0 < I" "t0 \<le> t" "t - u < I" "t \<le> T"
  shows "(T - u) div I \<le> (T - t0) div I + 1"
proof -
  have "(T - u) div I \<le> (T - t0 + I) div I" using assms by (intro zdiv_mono1) auto
  also have "\<dots> = (T - t0) div I + 1" using assms(1) div_add_self2 [of I "T - t0"] by linarith
  finally show ?thesis .
qed

text \<open>The tool calls a client gets admitted in a window of operations, from any bucket it had before.\<close>

lemma grants_in_window:
  assumes "rate_ok (ac_limits c)" "OpClear \<notin> set ops" "sorted (tool_times k ops)"
    and "\<forall>t \<in> set (tool_times k ops). t0 \<le> t \<and> t \<le> T"
    and "\<And>b. map_of (ac_buckets c) k = Some b \<Longrightarrow> tb_updatedAtMs b \<le> t0" "t0 \<le> T"
  shows "int (tool_grants k c ops) \<le> tr_capacity (al_toolCallRate (ac_limits c)) +
    tr_refillTokens (al_toolCallRate (ac_limits c)) *
      ((T - t0) div tr_refillIntervalMs (al_toolCallRate (ac_limits c)) + 1)"
  using assms
proof (induction ops arbitrary: c)
  case Nil
  then show ?case by (simp add: rate_ok_def pos_imp_zdiv_nonneg_iff)
next
  case (Cons op ops)
  let ?r = "al_toolCallRate (ac_limits c)"
  have "op \<noteq> OpClear" using Cons.prems(2) by auto
  then show ?case
  proof (cases rule: run_op_bucket [where c = c and k = k])
    case other
    have "sorted (tool_times k ops)" "\<forall>t \<in> set (tool_times k ops). t0 \<le> t \<and> t \<le> T"
      using Cons.prems(3,4) by (auto split: option.splits)
    then show ?thesis using Cons.IH [of "run_op c op"] Cons.prems other by simp
  next
    case (token t)
    let ?b = "bucket_of c k t" and ?b' = "fst (take_token ?r (bucket_of c k t) t)"
    have t: "t0 \<le> t" "t \<le> T" using Cons.prems(4) token(1) by auto
    have later: "sorted (tool_times k ops)" "\<forall>s \<in> set (tool_times k ops). t \<le> s \<and> s \<le> T"
      using Cons.prems(3,4) token(1) by auto
    have r: "0 < tr_refillIntervalMs ?r" "0 < tr_refillTokens ?r" "0 < tr_capacity ?r"
      using Cons.prems(1) by (simp_all add: rate_ok_def)
    have u: "tb_updatedAtMs ?b \<le> t" using Cons.prems(5) t by (auto simp: bucket_of_def split: option.split)
    note tk = take_token_credit [OF r(1,2) u t(2)] and rf = refill_credit [OF r(1,2) u t(2)]
    have rest: "int (tool_grants k (run_op c op) ops) \<le> credit ?r ?b' T"
      using grants_within_credit [of "run_op c op" ops k ?b' T] Cons.prems(1,2) token(2) tk(2) later t by fastforce
    have "int (tool_grants k c (op # ops)) \<le> credit ?r (refill ?r ?b t) T"
      using rest token(3) by (auto simp: take_token_def Let_def credit_def split: if_splits)
    also have "\<dots> \<le> tr_capacity ?r + tr_refillTokens ?r * ((T - t0) div tr_refillIntervalMs ?r + 1)"
      unfolding credit_def using rf(3) r div_window [OF r(1) t(1) rf(4) t(2)]
      by (intro add_mono mult_left_mono) auto
    finally show ?thesis .
  qed
qed

section \<open>Pages\<close>

text \<open>The pages a client reads when it follows \<open>nextCursor\<close> from a cursor on.\<close>

lemma boundedPage_next: "pg_nextCursor (boundedPage L xs cur ps) = Some n \<Longrightarrow> n < length xs"
  by (auto simp: boundedPage_def Let_def split: if_splits)

function read_pages :: "AdapterLimits \<Rightarrow> 'a list \<Rightarrow> int option \<Rightarrow> nat \<Rightarrow> 'a page list" where
  "read_pages L xs ps cursor =
     (let p = boundedPage L xs (Some (int cursor)) ps in
      p # (case pg_nextCursor p of
             Some n \<Rightarrow> if n > cursor then read_pages L xs ps n else []
           | None \<Rightarrow> []))"
  by pat_completeness auto
termination
  by (relation "measure (\<lambda>(L, xs, ps, cursor). length xs - cursor)")
     (auto dest: boundedPage_next)

declare read_pages.simps [simp del]

lemma boundedPage_items:
  assumes "0 < al_resourceListMaxPageSize L" "\<And>n. ps = Some n \<Longrightarrow> 0 < n"
  shows "0 < pg_pageSize (boundedPage L xs (Some (int cur)) ps)"
    "pg_items (boundedPage L xs (Some (int cur)) ps) =
       take (nat (pg_pageSize (boundedPage L xs (Some (int cur)) ps))) (drop cur xs)"
proof -
  have pos: "0 < min (or_default ps (al_resourceListMaxPageSize L)) (al_resourceListMaxPageSize L)"
    using assms by (cases ps) (auto simp: or_default_def)
  then show "0 < pg_pageSize (boundedPage L xs (Some (int cur)) ps)"
    by (simp add: boundedPage_def Let_def)
  show "pg_items (boundedPage L xs (Some (int cur)) ps) =
       take (nat (pg_pageSize (boundedPage L xs (Some (int cur)) ps))) (drop cur xs)"
    using pos less_imp_le [OF pos] unfolding boundedPage_def Let_def js_slice_def
    by (auto simp: or_default_def [of "Some (int cur)"] nat_add_distrib)
qed

lemma read_pages_cover:
  assumes "0 < al_resourceListMaxPageSize L" "\<And>n. ps = Some n \<Longrightarrow> 0 < n"
  shows "concat (map pg_items (read_pages L xs ps cur)) = drop cur xs"
proof (induction "length xs - cur" arbitrary: cur rule: less_induct)
  case less
  define p where "p = boundedPage L xs (Some (int cur)) ps"
  define s where "s = nat (pg_pageSize p)"
  have s: "0 < s" and it: "pg_items p = take s (drop cur xs)"
    using boundedPage_items [OF assms] by (simp_all add: p_def s_def)
  have nx: "pg_nextCursor p = (if cur + length (pg_items p) < length xs then Some (cur + length (pg_items p)) else None)"
    by (simp add: p_def boundedPage_def Let_def or_default_def)
  have eq: "read_pages L xs ps cur =
      p # (case pg_nextCursor p of Some n \<Rightarrow> if n > cur then read_pages L xs ps n else [] | None \<Rightarrow> [])"
    by (subst read_pages.simps) (simp add: p_def Let_def)
  show ?case
  proof (cases "cur + s < length xs")
    case True
    then have "concat (map pg_items (read_pages L xs ps (cur + s))) = drop (cur + s) xs"
      using less [of "cur + s"] s by simp
    then have "concat (map pg_items (read_pages L xs ps cur)) = take s (drop cur xs) @ drop s (drop cur xs)"
      using True s it nx by (simp add: eq add.commute)
    then show ?thesis by (simp only: append_take_drop_id)
  next
    case False
    then show ?thesis using it nx by (simp add: eq)
  qed
qed

lemma or_default_pos: "positiveInteger x \<Longrightarrow> 0 < d \<Longrightarrow> 0 < or_default x d"
  by (simp add: positiveInteger_def or_default_def split: option.splits)

lemma nat_default_pos: "positiveInteger x \<Longrightarrow> 0 < d \<Longrightarrow> 0 < (case x of None \<Rightarrow> d | Some n \<Rightarrow> nat n)"
  by (simp add: positiveInteger_def split: option.splits)

lemma rate_default_pos:
  "(case r of None \<Rightarrow> True | Some r \<Rightarrow> positiveInteger (g r)) \<Longrightarrow> 0 < d \<Longrightarrow> 0 < or_default (Option.bind r g) d"
  by (cases r) (simp_all add: or_default_def positiveInteger_def split: option.splits)

lemma parse_positive:
  assumes "parseAdapterLimits input = Inr L"
  shows "rate_ok L \<and> 0 < al_resourceListMaxPageSize L \<and> 0 < al_concurrentSessionsPerTenant L \<and>
    0 < al_inflightRequestsPerSession L \<and> 0 < al_sessionIdleTimeoutMs L \<and> 0 < al_requestPayloadMaxBytes L"
proof (cases input)
  case None
  then show ?thesis using assms by (auto simp: parseAdapterLimits_def DEFAULT_ADAPTER_LIMITS_def rate_ok_def)
next
  case (Some i)
  have ok: "limitsInputSchema_ok i"
    using assms Some by (auto simp: parseAdapterLimits_def split: if_splits)
  have rate: "case li_toolCallRate i of None \<Rightarrow> True | Some r \<Rightarrow> positiveInteger (g r)"
    if "g \<in> {ri_capacity, ri_refillTokens, ri_refillIntervalMs}" for g
    using ok that by (auto simp: limitsInputSchema_ok_def split: option.splits)
  show ?thesis
    using assms ok unfolding Some parseAdapterLimits_def rate_ok_def DEFAULT_ADAPTER_LIMITS_def Let_def
    by (auto intro!: or_default_pos nat_default_pos rate_default_pos rate simp: limitsInputSchema_ok_def
        simp del: or_default_def)
qed

section \<open>Properties\<close>

lemma run_ops_limits [simp]: "ac_limits (run_ops c ops) = ac_limits c"
  unfolding run_ops_def by (induction ops arbitrary: c) simp_all

lemma createController_parts [simp]:
  "ac_limits (createController L) = L" "ac_buckets (createController L) = []"
  "ac_objects (createController L) = []" "ac_sessions (createController L) = []" "ac_leases (createController L) = []"
  by (simp_all add: createController_def)

text \<open>
  C35: After any sequence of openings, closings, acquisitions, releases (a lease may be released any
  number of times, also after its session was closed) and resets, the in-flight counter of every
  session object is exactly the number of its leases that are not released, and it never exceeds
  \<^verbatim>\<open>inflightRequestsPerSession\<close>.
\<close>

theorem leases_are_accounted:
  assumes "a < length (ac_objects (run_ops (createController L) ops))"
  shows "ss_inflight (ac_objects (run_ops (createController L) ops) ! a) =
      length (filter (\<lambda>l. le_session l = a \<and> \<not> le_released l) (ac_leases (run_ops (createController L) ops))) \<and>
    ss_inflight (ac_objects (run_ops (createController L) ops) ! a) \<le> al_inflightRequestsPerSession L"
  using bk.law_run [OF books_fresh, of L ops] assms by (simp_all add: books_def outstanding_def)

lemmas controller_eval = run_ops_def openSession_def closeSession_def acquireRequest_def admit_def consumeToolToken_def
  take_token_def refill_def releaseLease_def update_session_def map_delete_def activeSessionsForTenant_def Let_def

definition demo_request :: "string \<Rightarrow> request_kind \<Rightarrow> int \<Rightarrow> acquire_input" where
  "demo_request sid k now =
     \<lparr>aq_sessionId = sid, aq_tenantId = ''t'', aq_clientId = ''c'', aq_kind = k, aq_payloadBytes = 10, aq_nowMs = now\<rparr>"

definition demo_ops :: "controller_op list" where
  "demo_ops = [OpAcquire (demo_request ''s'' ToolCall 0), OpAcquire (demo_request ''s'' ToolCall 5),
     OpRelease 0, OpClose ''s'', OpRelease 0, OpAcquire (demo_request ''s'' ReadRequest 7)]"

theorem leases_are_accounted_witness:
  "0 < length (ac_objects (run_ops (createController DEFAULT_ADAPTER_LIMITS) demo_ops)) \<and>
   ss_inflight (ac_objects (run_ops (createController DEFAULT_ADAPTER_LIMITS) demo_ops) ! 0) = 1 \<and>
   ss_inflight (ac_objects (run_ops (createController DEFAULT_ADAPTER_LIMITS) demo_ops) ! 0) \<le> 16"
proof -
  have l: "0 < length (ac_objects (run_ops (createController DEFAULT_ADAPTER_LIMITS) demo_ops))"
    by (simp add: controller_eval demo_ops_def demo_request_def DEFAULT_ADAPTER_LIMITS_def)
  have n: "length (filter (\<lambda>l. le_session l = 0 \<and> \<not> le_released l)
      (ac_leases (run_ops (createController DEFAULT_ADAPTER_LIMITS) demo_ops))) = 1"
    by (simp add: controller_eval demo_ops_def demo_request_def DEFAULT_ADAPTER_LIMITS_def)
  have m: "al_inflightRequestsPerSession DEFAULT_ADAPTER_LIMITS = 16" by (simp add: DEFAULT_ADAPTER_LIMITS_def)
  show ?thesis using l leases_are_accounted [OF l] unfolding n m by blast
qed

text \<open>
  No sequence of operations takes a tenant over \<^verbatim>\<open>concurrentSessionsPerTenant\<close> open sessions, the
  map keeps one entry per session id, and every entry refers to a session object with that id.
\<close>

theorem tenant_sessions_bounded:
  "activeSessionsForTenant (run_ops (createController L) ops) tenant \<le> al_concurrentSessionsPerTenant L \<and>
   distinct (map fst (ac_sessions (run_ops (createController L) ops))) \<and>
   list_all (\<lambda>p. snd p < length (ac_objects (run_ops (createController L) ops)) \<and>
       ss_sessionId (ac_objects (run_ops (createController L) ops) ! snd p) = fst p)
     (ac_sessions (run_ops (createController L) ops))"
  using tn.law_run [OF tenant_inv_fresh, of L ops] by (simp add: tenant_inv_def books_def)

text \<open>
  C36: Whatever happened before, in a window of operations from time \<open>t0\<close> to \<open>T\<close> whose clock does not
  run backwards and which does not reset the controller, at most
  \<^verbatim>\<open>capacity + refillTokens * (floor((T - t0) / refillIntervalMs) + 1)\<close> tool calls of a client are
  admitted, over all its sessions, for every configuration that \<^verbatim>\<open>parseAdapterLimits\<close> accepts.
\<close>

theorem tool_call_rate_bounded:
  assumes "parseAdapterLimits input = Inr L"
    and "\<forall>t \<in> set (tool_times client past). t \<le> t0"
    and "OpClear \<notin> set window" "sorted (tool_times client window)"
    and "\<forall>t \<in> set (tool_times client window). t0 \<le> t \<and> t \<le> T" "t0 \<le> T"
  shows "int (tool_grants client (run_ops (createController L) past) window) \<le>
    tr_capacity (al_toolCallRate L) +
    tr_refillTokens (al_toolCallRate L) * ((T - t0) div tr_refillIntervalMs (al_toolCallRate L) + 1)"
proof -
  have r: "rate_ok L" using parse_positive [OF assms(1)] by blast
  have "tb_updatedAtMs b \<le> t0" if "map_of (ac_buckets (run_ops (createController L) past)) client = Some b" for b
    using bucket_time_bound [of "createController L" client past t0 b] r assms(2) that by simp
  then show ?thesis
    using grants_in_window [of "run_ops (createController L) past" window client t0 T] r assms by simp
qed

definition small_limits :: AdapterLimitsInput where
  "small_limits = \<lparr>li_concurrentSessionsPerTenant = Some 2, li_inflightRequestsPerSession = None,
     li_toolCallRate = Some \<lparr>ri_capacity = Some 1, ri_refillTokens = Some 1, ri_refillIntervalMs = Some 100\<rparr>,
     li_resourceReadMaxBytes = None, li_resourceListMaxPageSize = Some 2, li_requestPayloadMaxBytes = None,
     li_sessionIdleTimeoutMs = None, li_externalTimeoutMs = None\<rparr>"

definition small :: AdapterLimits where
  "small = DEFAULT_ADAPTER_LIMITS\<lparr>al_concurrentSessionsPerTenant := 2,
     al_toolCallRate := \<lparr>tr_capacity = 1, tr_refillTokens = 1, tr_refillIntervalMs = 100\<rparr>,
     al_resourceListMaxPageSize := 2\<rparr>"

lemma parse_small: "parseAdapterLimits (Some small_limits) = Inr small"
  by (simp add: small_def parseAdapterLimits_def limitsInputSchema_ok_def small_limits_def positiveInteger_def
      DEFAULT_ADAPTER_LIMITS_def or_default_def Let_def)

theorem tool_call_rate_bounded_witness:
  "tool_grants ''c'' (run_ops (createController small) [OpAcquire (demo_request ''s'' ToolCall 0)])
     [OpAcquire (demo_request ''s'' ToolCall 50), OpAcquire (demo_request ''s'' ToolCall 120)] = 1 \<and>
   int (tool_grants ''c'' (run_ops (createController small) [OpAcquire (demo_request ''s'' ToolCall 0)])
     [OpAcquire (demo_request ''s'' ToolCall 50), OpAcquire (demo_request ''s'' ToolCall 120)]) \<le> 2"
proof
  show "tool_grants ''c'' (run_ops (createController small) [OpAcquire (demo_request ''s'' ToolCall 0)])
     [OpAcquire (demo_request ''s'' ToolCall 50), OpAcquire (demo_request ''s'' ToolCall 120)] = 1"
    by (simp add: controller_eval tool_grant_def demo_request_def small_def DEFAULT_ADAPTER_LIMITS_def)
  have r: "tr_capacity (al_toolCallRate small) = 1" "tr_refillTokens (al_toolCallRate small) = 1"
    "tr_refillIntervalMs (al_toolCallRate small) = 100"
    by (simp_all add: small_def)
  show "int (tool_grants ''c'' (run_ops (createController small) [OpAcquire (demo_request ''s'' ToolCall 0)])
     [OpAcquire (demo_request ''s'' ToolCall 50), OpAcquire (demo_request ''s'' ToolCall 120)]) \<le> 2"
    using tool_call_rate_bounded [OF parse_small, of "''c''" "[OpAcquire (demo_request ''s'' ToolCall 0)]" 50
        "[OpAcquire (demo_request ''s'' ToolCall 50), OpAcquire (demo_request ''s'' ToolCall 120)]" 120]
    by (simp add: r demo_request_def)
qed

text \<open>
  Paging: for an accepted configuration and a page size that is absent or positive, every page a
  client gets has at most \<^verbatim>\<open>resourceListMaxPageSize\<close> items, and following \<^verbatim>\<open>nextCursor\<close> from the start
  ends and delivers every item exactly once and in order.
\<close>

theorem pages_cover_the_list:
  assumes "parseAdapterLimits input = Inr L" and "positiveInteger pageSize"
  shows "concat (map pg_items (read_pages L items pageSize 0)) = items \<and>
    int (length (pg_items (boundedPage L items (Some (int cursor)) pageSize))) \<le> al_resourceListMaxPageSize L"
proof
  have m: "0 < al_resourceListMaxPageSize L" using parse_positive [OF assms(1)] by blast
  have ps: "\<And>k. pageSize = Some k \<Longrightarrow> 0 < k" using assms(2) by (simp add: positiveInteger_def)
  show "concat (map pg_items (read_pages L items pageSize 0)) = items"
    using read_pages_cover [OF m ps, of pageSize items 0] by simp
  have "pg_pageSize (boundedPage L items (Some (int cursor)) pageSize) \<le> al_resourceListMaxPageSize L"
    by (simp add: boundedPage_def Let_def)
  then show "int (length (pg_items (boundedPage L items (Some (int cursor)) pageSize))) \<le> al_resourceListMaxPageSize L"
    using boundedPage_items [OF m ps, of pageSize items cursor] by simp
qed

theorem pages_cover_the_list_witness:
  "concat (map pg_items (read_pages small [1, 2, 3, 4, 5 :: nat] (Some 7) 0)) = [1, 2, 3, 4, 5] \<and>
   int (length (pg_items (boundedPage small [1, 2, 3, 4, 5 :: nat] (Some (int 2)) (Some 7)))) \<le> al_resourceListMaxPageSize small"
  by (rule pages_cover_the_list [OF parse_small]) (simp add: positiveInteger_def)

text \<open>
  A tenant at its session limit is refused a new session with the advice to retry after the idle
  timeout, and every later attempt is refused as well, however long the open sessions have been idle:
  an idle session is only closed by a request that names it.
\<close>

theorem idle_sessions_hold_their_slots:
  assumes "al_concurrentSessionsPerTenant (ac_limits c) \<le> activeSessionsForTenant c tenant"
    and "map_of (ac_sessions c) sid = None"
  shows "run_ops c (map (OpOpen sid tenant) retries) = c \<and>
    snd (openSession (run_ops c (map (OpOpen sid tenant) retries)) sid tenant now) =
      Some \<lparr>rf_code = SessionLimitExceeded, rf_retryable = True,
            rf_retryAfterMs = Some (al_sessionIdleTimeoutMs (ac_limits c)), rf_limit = ''concurrentSessionsPerTenant''\<rparr>"
proof -
  have stay: "openSession c sid tenant t =
      (c, Some \<lparr>rf_code = SessionLimitExceeded, rf_retryable = True,
            rf_retryAfterMs = Some (al_sessionIdleTimeoutMs (ac_limits c)), rf_limit = ''concurrentSessionsPerTenant''\<rparr>)" for t
    using assms by (simp add: openSession_def)
  have "run_ops c (map (OpOpen sid tenant) retries) = c"
    unfolding run_ops_def by (induction retries) (simp_all add: stay)
  then show ?thesis by (simp add: stay)
qed

definition full_tenant :: AdapterLimitController where
  "full_tenant = run_ops (createController small) [OpOpen ''a'' ''t'' 0, OpOpen ''b'' ''t'' 0]"

theorem idle_sessions_hold_their_slots_witness:
  "al_sessionIdleTimeoutMs (ac_limits full_tenant) = 300000 \<and>
   snd (openSession (run_ops full_tenant (map (OpOpen ''n'' ''t'') [300001, 900000])) ''n'' ''t'' 86400000) =
     Some \<lparr>rf_code = SessionLimitExceeded, rf_retryable = True,
           rf_retryAfterMs = Some (al_sessionIdleTimeoutMs (ac_limits full_tenant)), rf_limit = ''concurrentSessionsPerTenant''\<rparr>"
proof -
  have "al_concurrentSessionsPerTenant (ac_limits full_tenant) \<le> activeSessionsForTenant full_tenant ''t''"
    by (simp add: controller_eval full_tenant_def small_def DEFAULT_ADAPTER_LIMITS_def)
  moreover have "map_of (ac_sessions full_tenant) ''n'' = None" by (simp add: controller_eval full_tenant_def small_def DEFAULT_ADAPTER_LIMITS_def)
  moreover have "al_sessionIdleTimeoutMs (ac_limits full_tenant) = 300000" by (simp add: controller_eval full_tenant_def small_def DEFAULT_ADAPTER_LIMITS_def)
  ultimately show ?thesis using idle_sessions_hold_their_slots by blast
qed

end
