(* ===== verification/Tool_Capabilities.thy ===== *)
theory Tool_Capabilities
  imports Policy_Types Secret_Patterns
begin

text \<open>
  Capabilities of \<^verbatim>\<open>tool-broker/src/index.ts\<close>: their definitions, the registry that admits them,
  isolation tiers and the limits under which an adapter runs.

  The schemas of a capability are functions from a value to the data of a successful parse or the
  formatted issues of a failed one. An adapter is a function from its input to what its promise does
  before the deadline given in the input: it settles, is rejected, or is late. Fields that TypeScript
  declares with a closed type but the registry checks at run time (kinds, tiers) are strings and integers.
\<close>

section \<open>Kinds and tiers\<close>

definition DEFAULT_FS_READ_MAX_BYTES :: int where
  "DEFAULT_FS_READ_MAX_BYTES = 200000"

definition DEFAULT_TOOL_TIMEOUT_MS :: int where
  "DEFAULT_TOOL_TIMEOUT_MS = 30000"

definition CAPABILITY_KIND_ISOLATION_TIERS :: "(string \<times> int) list" where
  "CAPABILITY_KIND_ISOLATION_TIERS =
     [(''filesystem'', 0), (''git'', 0), (''browser'', 4), (''model'', 1), (''embeddings'', 1), (''memory'', 1),
      (''cache'', 1), (''shell'', 3), (''mcp'', 4), (''network'', 4), (''human'', 4)]"

definition CAPABILITY_KINDS :: "string list" where
  "CAPABILITY_KINDS =
     [''filesystem'', ''git'', ''browser'', ''model'', ''embeddings'', ''memory'', ''cache'', ''shell'', ''mcp'',
      ''network'', ''human'']"

definition isolationTierForKind :: "string \<Rightarrow> int option" where
  "isolationTierForKind kind = map_of CAPABILITY_KIND_ISOLATION_TIERS kind"

definition isIsolationTier :: "int \<Rightarrow> bool" where
  "isIsolationTier t \<longleftrightarrow> t \<in> {0, 1, 2, 3, 4}"

datatype NetworkAllowlist = DenyAll | AllowHosts "string list"
datatype SubprocessPosture = Forbidden | Sandboxed
datatype WriteConfinementPosture = NoWrites | WorkspaceReadonly | WorkspaceStaged
datatype TierExecutionPosture = Sanctioned | Unsupported

record TierConstraintSet =
  tc_isolationTier :: int
  tc_deadlineMs :: int
  tc_maxBytes :: "int option"
  tc_maxTokens :: "int option"
  tc_networkAllowlist :: NetworkAllowlist
  tc_subprocess :: SubprocessPosture
  tc_writeConfinement :: WriteConfinementPosture
  tc_execution :: TierExecutionPosture
  tc_unsupportedReason :: "string option"

section \<open>Adapters and definitions\<close>

record AdapterError =
  ae_code :: string
  ae_message :: string
  ae_retryable :: bool

record AdapterExecutionLimits =
  el_timeoutMs :: int
  el_maxBytes :: "int option"
  el_maxTokens :: "int option"

record AdapterExecutionInput =
  ei_args :: json
  ei_runId :: string
  ei_phase :: string
  ei_cwd :: string
  ei_workspaceRoot :: string
  ei_traceId :: string
  ei_limits :: AdapterExecutionLimits

text \<open>The metrics of a result are not read by the broker and are left out.\<close>

datatype AdapterExecutionResult = AdapterSuccess json | AdapterFailed AdapterError

datatype ToolBrokerErrorCode =
    DuplicateTool | PathOutsideWorkspace | CwdOutsideWorkspace | NotFound | InvalidDefinition | TierlessKind
  | MissingIsolationTier | MissingOutputSchema | AdapterKindMismatch

text \<open>What an adapter throws: an error of the broker, a node error with a code, another error with its message, or no error object.\<close>

datatype adapter_exception =
    ThrownBrokerError ToolBrokerErrorCode string
  | ThrownENOENT
  | ThrownEACCES
  | ThrownError "string option"

datatype adapter_run = Settles AdapterExecutionResult | Rejects adapter_exception | Late

record CapabilityAdapter =
  ca_id :: string
  ca_version :: string
  ca_kind :: string
  ca_execute :: "AdapterExecutionInput \<Rightarrow> adapter_run"

record CapabilityLimits =
  cl_timeoutMs :: "int option"
  cl_maxBytes :: "int option"
  cl_maxTokens :: "int option"

type_synonym zod = "json \<Rightarrow> string + json"

record CapabilityDefinition =
  cd_id :: string
  cd_kind :: string
  cd_description :: string
  cd_version :: string
  cd_inputSchema :: zod
  cd_outputSchema :: zod
  cd_adapter :: CapabilityAdapter
  cd_risk :: PolicyRisk
  cd_requestedScopes :: "string list"
  cd_limits :: CapabilityLimits
  cd_cacheEnabled :: bool
  cd_isolationTier :: int

section \<open>The registry\<close>

definition positive_opt :: "int option \<Rightarrow> bool" where
  "positive_opt x = (case x of None \<Rightarrow> True | Some n \<Rightarrow> n > 0)"

definition CapabilityLimitsSchema :: "CapabilityLimits \<Rightarrow> bool" where
  "CapabilityLimitsSchema l \<longleftrightarrow> positive_opt (cl_timeoutMs l) \<and> positive_opt (cl_maxBytes l) \<and> positive_opt (cl_maxTokens l)"

definition CapabilityAdapterSchema :: "CapabilityAdapter \<Rightarrow> bool" where
  "CapabilityAdapterSchema a \<longleftrightarrow> ca_id a \<noteq> [] \<and> ca_version a \<noteq> [] \<and> ca_kind a \<in> set CAPABILITY_KINDS"

definition CapabilityDefinitionSchema :: "CapabilityDefinition \<Rightarrow> bool" where
  "CapabilityDefinitionSchema d \<longleftrightarrow>
     cd_id d \<noteq> [] \<and> cd_kind d \<in> set CAPABILITY_KINDS \<and> cd_description d \<noteq> [] \<and> cd_version d \<noteq> [] \<and>
     CapabilityAdapterSchema (cd_adapter d) \<and> cd_requestedScopes d \<noteq> [] \<and> [] \<notin> set (cd_requestedScopes d) \<and>
     CapabilityLimitsSchema (cd_limits d) \<and> isIsolationTier (cd_isolationTier d)"

definition tierlessKindMessage :: "CapabilityDefinition \<Rightarrow> string" where
  "tierlessKindMessage d =
     ''Capability '' @ cd_id d @ '' declares kind '' @ cd_kind d @ '' with no registered isolation tier.''"

definition missingIsolationTierMessage :: "CapabilityDefinition \<Rightarrow> string" where
  "missingIsolationTierMessage d =
     ''Capability '' @ cd_id d @ '' must declare the registered isolation tier for kind '' @ cd_kind d @ ''.''"

definition isTierlessKindFailure :: "CapabilityDefinition \<Rightarrow> bool" where
  "isTierlessKindFailure d \<longleftrightarrow> isolationTierForKind (cd_kind d) = None"

definition isMissingIsolationTierFailure :: "CapabilityDefinition \<Rightarrow> bool" where
  "isMissingIsolationTierFailure d \<longleftrightarrow>
     isolationTierForKind (cd_kind d) = None \<or> \<not> isIsolationTier (cd_isolationTier d) \<or>
     isolationTierForKind (cd_kind d) \<noteq> Some (cd_isolationTier d)"

text \<open>
  \<open>issues\<close> formats the issues of a definition that violates its schema. A schema is always a
  function here, so the checks for a missing output schema never apply.
\<close>

definition assertValidCapabilityDefinition ::
  "(CapabilityDefinition \<Rightarrow> string) \<Rightarrow> CapabilityDefinition \<Rightarrow> (ToolBrokerErrorCode \<times> string) option" where
  "assertValidCapabilityDefinition issues d =
     (if \<not> CapabilityDefinitionSchema d then
        (if isTierlessKindFailure d then Some (TierlessKind, tierlessKindMessage d)
         else if isMissingIsolationTierFailure d then Some (MissingIsolationTier, missingIsolationTierMessage d)
         else Some (InvalidDefinition, issues d))
      else
        if isolationTierForKind (cd_kind d) \<noteq> Some (cd_isolationTier d)
        then Some (MissingIsolationTier, ''Capability '' @ cd_id d @ '' must declare isolation tier '' @
               (case isolationTierForKind (cd_kind d) of None \<Rightarrow> ''undefined'' | Some expected \<Rightarrow> int_str expected) @
               '' for kind '' @ cd_kind d @ ''.'')
        else if ca_kind (cd_adapter d) \<noteq> cd_kind d
        then Some (AdapterKindMismatch, ''Capability '' @ cd_id d @ '' declares kind '' @ cd_kind d @
               '' but adapter '' @ ca_id (cd_adapter d) @ '' declares kind '' @ ca_kind (cd_adapter d) @ ''.'')
        else None)"

type_synonym registry = "(string \<times> CapabilityDefinition) list"

definition register ::
  "(CapabilityDefinition \<Rightarrow> string) \<Rightarrow> registry \<Rightarrow> CapabilityDefinition \<Rightarrow> (ToolBrokerErrorCode \<times> string) + registry" where
  "register issues definitions d =
     (case assertValidCapabilityDefinition issues d of
        Some e \<Rightarrow> Inl e
      | None \<Rightarrow>
          if map_of definitions (cd_id d) \<noteq> None
          then Inl (DuplicateTool, ''Tool '' @ cd_id d @ '' is already registered.'')
          else Inr (definitions @ [(cd_id d, d)]))"

definition resolve_tool :: "registry \<Rightarrow> string \<Rightarrow> CapabilityDefinition option" where
  "resolve_tool definitions toolId = map_of definitions toolId"

text \<open>The constructor registers a list of definitions.\<close>

fun register_all ::
  "(CapabilityDefinition \<Rightarrow> string) \<Rightarrow> registry \<Rightarrow> CapabilityDefinition list \<Rightarrow> (ToolBrokerErrorCode \<times> string) + registry" where
  "register_all issues reg [] = Inr reg"
| "register_all issues reg (d # ds) =
     (case register issues reg d of Inl e \<Rightarrow> Inl e | Inr reg' \<Rightarrow> register_all issues reg' ds)"

section \<open>Tiers and limits\<close>

definition tier_constraints ::
  "int \<Rightarrow> int option \<Rightarrow> NetworkAllowlist \<Rightarrow> SubprocessPosture \<Rightarrow> WriteConfinementPosture \<Rightarrow> string \<Rightarrow> TierConstraintSet" where
  "tier_constraints tier maxTokens network subprocess writes reason =
     \<lparr>tc_isolationTier = tier, tc_deadlineMs = DEFAULT_TOOL_TIMEOUT_MS, tc_maxBytes = Some DEFAULT_FS_READ_MAX_BYTES,
      tc_maxTokens = maxTokens, tc_networkAllowlist = network, tc_subprocess = subprocess, tc_writeConfinement = writes,
      tc_execution = Unsupported, tc_unsupportedReason = Some reason\<rparr>"

definition deriveTierConstraints :: "CapabilityDefinition \<Rightarrow> (ToolBrokerErrorCode \<times> string) + TierConstraintSet" where
  "deriveTierConstraints d =
     (let cap = ''Capability '' @ cd_id d in
      (case isolationTierForKind (cd_kind d) of
         None \<Rightarrow> Inl (TierlessKind, tierlessKindMessage d)
       | Some tier \<Rightarrow>
           if tier = 0 then
             let base = tier_constraints 0 None DenyAll Forbidden WorkspaceReadonly
               (cap @ '' kind '' @ cd_kind d @ '' is tier '' @ int_str tier @
                '', but only filesystem adapters are sanctioned in-process.'') in
             Inr (if cd_kind d = ''filesystem'' then base\<lparr>tc_execution := Sanctioned, tc_unsupportedReason := None\<rparr> else base)
           else if tier = 1 then
             Inr (tier_constraints 1 (Some 8192) DenyAll Forbidden NoWrites
               (cap @ '' requires semantic/model tier '' @ int_str tier @ '', which has no sanctioned in-repo adapter runner yet.''))
           else if tier = 2 then
             Inr (tier_constraints 2 None DenyAll Forbidden WorkspaceStaged
               (cap @ '' requires mutating-local tier '' @ int_str tier @ '', which has no sanctioned in-repo adapter runner yet.''))
           else if tier = 3 then
             Inr (tier_constraints 3 None DenyAll Sandboxed WorkspaceStaged
               (cap @ '' requires process/shell tier '' @ int_str tier @ '', which has no sanctioned sandbox runner yet.''))
           else if tier = 4 then
             Inr (tier_constraints 4 None (AllowHosts []) Sandboxed NoWrites
               (cap @ '' requires external-network tier '' @ int_str tier @ '', which has no sanctioned sandbox runner yet.''))
           else Inl (TierlessKind, tierlessKindMessage d)))"

definition positive_num :: "json \<Rightarrow> int option" where
  "positive_num v = (case v of JNum n \<Rightarrow> if n > 0 then Some n else None | _ \<Rightarrow> None)"

definition readPositiveNumber :: "json \<Rightarrow> string \<Rightarrow> int option" where
  "readPositiveNumber v key = (if is_record v then positive_num (js_get v key) else None)"

text \<open>\<^verbatim>\<open>Math.min(...xs)\<close> of a non-empty list.\<close>

definition min_opt :: "int list \<Rightarrow> int option" where
  "min_opt xs = (case xs of [] \<Rightarrow> None | x # rest \<Rightarrow> Some (fold min rest x))"

definition readPolicyPositiveNumber :: "PolicyVerdict \<Rightarrow> string \<Rightarrow> int option" where
  "readPolicyPositiveNumber verdict kind =
     min_opt (List.map_filter (\<lambda>c. if c_kind c = kind then positive_num (c_value c) else None) (pv_constraints verdict))"

definition some_of :: "'a option list \<Rightarrow> 'a list" where
  "some_of xs = List.map_filter (\<lambda>x. x) xs"

definition computeLimits ::
  "CapabilityDefinition \<Rightarrow> json \<Rightarrow> PolicyVerdict \<Rightarrow> TierConstraintSet \<Rightarrow> AdapterExecutionLimits" where
  "computeLimits d args verdict tier =
     \<lparr>el_timeoutMs = default (min_opt (some_of [cl_timeoutMs (cd_limits d), readPositiveNumber args ''timeoutMs'',
         readPolicyPositiveNumber verdict ''timeoutMs'', Some (tc_deadlineMs tier)])) DEFAULT_TOOL_TIMEOUT_MS,
      el_maxBytes = min_opt (some_of [cl_maxBytes (cd_limits d), readPositiveNumber args ''maxBytes'',
         readPolicyPositiveNumber verdict ''maxBytes'', tc_maxBytes tier]),
      el_maxTokens = min_opt (some_of [cl_maxTokens (cd_limits d), readPositiveNumber args ''maxTokens'',
         readPolicyPositiveNumber verdict ''maxTokens'', tc_maxTokens tier])\<rparr>"

section \<open>Facts\<close>

lemma min_opt_Some: "min_opt xs = Some m \<longleftrightarrow> xs \<noteq> [] \<and> m = Min (set xs)"
  by (cases xs) (auto simp: min_opt_def Min.set_eq_fold [symmetric])

lemma min_opt_mem: "min_opt xs = Some m \<Longrightarrow> m \<in> set xs"
  by (metis List.finite_set Min_in min_opt_Some set_empty)

lemma min_opt_None: "min_opt xs = None \<longleftrightarrow> xs = []"
  by (cases xs) (auto simp: min_opt_def)

lemma set_some_of: "set (some_of xs) = {x. Some x \<in> set xs}"
  by (auto simp: some_of_def set_map_filter)

text \<open>The minimum of the given values: below each of them, and one of them.\<close>

lemma min_some_of:
  assumes "min_opt (some_of xs) = Some m"
  shows "Some m \<in> set xs" "\<And>n. Some n \<in> set xs \<Longrightarrow> m \<le> n"
proof -
  have m: "some_of xs \<noteq> []" "m = Min (set (some_of xs))" using assms by (auto simp: min_opt_Some)
  show "Some m \<in> set xs" using min_opt_mem [OF assms] by (simp add: set_some_of)
  show "m \<le> n" if "Some n \<in> set xs" for n
  proof -
    have "n \<in> set (some_of xs)" using that by (simp add: set_some_of)
    then show ?thesis using m by simp
  qed
qed

lemma min_some_of_defined: "Some n \<in> set xs \<Longrightarrow> \<exists>m. min_opt (some_of xs) = Some m \<and> m \<le> n"
proof -
  assume n: "Some n \<in> set xs"
  then have "some_of xs \<noteq> []" by (metis empty_iff list.set(1) mem_Collect_eq set_some_of)
  then obtain m where "min_opt (some_of xs) = Some m" by (metis min_opt_None option.exhaust)
  then show ?thesis using min_some_of(2) n by blast
qed

lemma readPositiveNumber_positive: "readPositiveNumber v k = Some n \<Longrightarrow> n > 0"
  by (auto simp: readPositiveNumber_def positive_num_def split: if_splits json.splits)

lemma readPolicyPositiveNumber_positive: "readPolicyPositiveNumber verdict k = Some n \<Longrightarrow> n > 0"
proof -
  assume "readPolicyPositiveNumber verdict k = Some n"
  then obtain c :: PolicyConstraint where "(if c_kind c = k then positive_num (c_value c) else None) = Some n"
    unfolding readPolicyPositiveNumber_def by (auto simp only: set_map_filter mem_Collect_eq dest!: min_opt_mem)
  then show ?thesis by (auto simp: positive_num_def split: if_splits json.splits)
qed

lemma tier_bounds:
  assumes "deriveTierConstraints d = Inr t"
  shows "tc_deadlineMs t = DEFAULT_TOOL_TIMEOUT_MS" "tc_maxBytes t = Some DEFAULT_FS_READ_MAX_BYTES"
    "tc_execution t = Sanctioned \<Longrightarrow> cd_kind d = ''filesystem''"
    "tc_execution t = Sanctioned \<Longrightarrow> tc_networkAllowlist t = DenyAll \<and> tc_subprocess t = Forbidden \<and>
       tc_writeConfinement t = WorkspaceReadonly"
  using assms by (auto simp: deriveTierConstraints_def tier_constraints_def Let_def split: option.splits if_splits)

end
