(* ===== verification/Tool_Redaction.thy ===== *)
theory Tool_Redaction
  imports Secret_Patterns Policy_Types Canonical_Json
begin

text \<open>
  Redaction of tool outputs in \<^verbatim>\<open>tool-broker/src/index.ts\<close>: the selectors of redaction obligations,
  \<^verbatim>\<open>redactValue\<close>, which replaces sensitive and selected strings by their hashes, and
  \<^verbatim>\<open>redactOutput\<close>, which refuses an output in which a selector found nothing to redact.
  \<^verbatim>\<open>localeCompare\<close> is the parameter \<open>collate\<close>.
\<close>

section \<open>Selectors\<close>

datatype RedactionSelector = PathSelector (sel_value: string) | FieldSelector (sel_value: string)

definition stringValues :: "json \<Rightarrow> string list" where
  "stringValues v = (case v of JStr s \<Rightarrow> [s] | JArr xs \<Rightarrow> only_strs xs | _ \<Rightarrow> [])"

definition drop_prefix :: "string \<Rightarrow> string \<Rightarrow> string" where
  "drop_prefix p s = (if starts_with p s then drop (length p) s else s)"

definition normalizeSelectorPath :: "string \<Rightarrow> string" where
  "normalizeSelectorPath v =
     drop_prefix ''.'' (if starts_with ''$'' v then drop_prefix ''.'' (drop 1 v) else v)"

definition pathSelector :: "string \<Rightarrow> RedactionSelector" where
  "pathSelector v = PathSelector (normalizeSelectorPath v)"

text \<open>\<^verbatim>\<open>filter(uniqueSelector)\<close>: first occurrences with a value.\<close>

definition uniqueSelectors :: "RedactionSelector list \<Rightarrow> RedactionSelector list" where
  "uniqueSelectors sels = filter (\<lambda>s. sel_value s \<noteq> []) (unique sels)"

definition selectorValues :: "json \<Rightarrow> RedactionSelector list" where
  "selectorValues v =
     (case v of
        JArr xs \<Rightarrow>
          uniqueSelectors (concat (map (\<lambda>entry. case entry of
              JStr s \<Rightarrow> [pathSelector s]
            | JObj ps \<Rightarrow> map pathSelector (stringValues (js_get entry ''path'')) @
                        map FieldSelector (stringValues (js_get entry ''field'')) @
                        map FieldSelector (stringValues (js_get entry ''key''))
            | _ \<Rightarrow> []) xs))
      | _ \<Rightarrow> map pathSelector (stringValues v))"

definition selectorsFromRedactObligation :: "PolicyObligation \<Rightarrow> RedactionSelector list" where
  "selectorsFromRedactObligation ob =
     (case o_params ob of
        None \<Rightarrow> []
      | Some ps \<Rightarrow>
          let vals = (\<lambda>k. stringValues (js_get (JObj ps) k)) in
          uniqueSelectors
            (map pathSelector (vals ''path'') @ map pathSelector (vals ''paths'') @ map pathSelector (vals ''selector'') @
             selectorValues (js_get (JObj ps) ''selectors'') @ map FieldSelector (vals ''field'') @
             map FieldSelector (vals ''fields'') @ map FieldSelector (vals ''key'') @ map FieldSelector (vals ''keys'')))"

definition selectorKey :: "RedactionSelector \<Rightarrow> string" where
  "selectorKey sel = (case sel of PathSelector v \<Rightarrow> v | FieldSelector v \<Rightarrow> ''*.'' @ v)"

definition formatPath :: "string list \<Rightarrow> string" where
  "formatPath path = (if path = [] then ''value'' else join ''.'' path)"

definition selectorMatchesPath :: "string \<Rightarrow> string \<Rightarrow> bool" where
  "selectorMatchesPath selector path \<longleftrightarrow>
     selector = path \<or> length path > length selector \<and> starts_with (selector @ ''.'') path"

definition matchingSelectors :: "string list \<Rightarrow> string option \<Rightarrow> RedactionSelector list \<Rightarrow> RedactionSelector list" where
  "matchingSelectors path key sels =
     filter (\<lambda>sel. case sel of
        FieldSelector f \<Rightarrow> key = Some f
      | PathSelector p \<Rightarrow> selectorMatchesPath p (formatPath path)) sels"

section \<open>redactValue\<close>

lemma enumerate_element: "e \<in> set (enumerate n xs) \<Longrightarrow> snd e \<in> set xs"
  by (cases e) (auto simp: in_set_enumerate_eq)

lemma enumerate_map_enumerate:
  "e \<in> set (enumerate n (map g (enumerate n xs))) \<Longrightarrow> \<exists>e' \<in> set (enumerate n xs). fst e = fst e' \<and> snd e = g e'"
  by (cases e) (force simp: in_set_enumerate_eq nth_enumerate_eq)

record RedactionRecord =
  rr_path :: string
  rr_classification :: string
  rr_hash :: string

text \<open>
  The result is the redacted value, the redactions in the order in which they are recorded, and the
  keys of the selectors whose counts were increased.
\<close>

type_synonym redaction = "json \<times> RedactionRecord list \<times> string list"

definition classification :: "RedactionSelector list \<Rightarrow> string list \<Rightarrow> string option \<Rightarrow> string \<Rightarrow> string option" where
  "classification sels path key s =
     (if matchingSelectors path key sels \<noteq> [] then Some ''policy_redact'' else classifySensitiveString key s)"

definition redact_string ::
  "(string \<Rightarrow> string) \<Rightarrow> RedactionSelector list \<Rightarrow> string list \<Rightarrow> string option \<Rightarrow> string \<Rightarrow> redaction" where
  "redact_string sha sels path key s =
     (case classification sels path key s of
        None \<Rightarrow> (JStr s, [], [])
      | Some c \<Rightarrow>
          if isHashReference s then (JStr s, [], [])
          else
            let hash = hashValue sha (JStr s) in
            (JStr hash, [\<lparr>rr_path = formatPath path, rr_classification = c, rr_hash = hash\<rparr>],
             map selectorKey (matchingSelectors path key sels)))"

definition redactions_of :: "redaction list \<Rightarrow> RedactionRecord list \<times> string list" where
  "redactions_of rs = (concat (map (fst \<circ> snd) rs), concat (map (snd \<circ> snd) rs))"

function redactValue ::
  "(string \<Rightarrow> string) \<Rightarrow> RedactionSelector list \<Rightarrow> string list \<Rightarrow> string option \<Rightarrow> json \<Rightarrow> redaction" where
  "redactValue sha sels path key (JStr s) = redact_string sha sels path key s"
| "redactValue sha sels path key (JArr xs) =
     (let rs = map (\<lambda>e. redactValue sha sels (path @ [nat_str (fst e)]) (Some (nat_str (fst e))) (snd e)) (enumerate 0 xs) in
      (JArr (map fst rs), redactions_of rs))"
| "redactValue sha sels path key (JObj ps) =
     (let rs = map (\<lambda>p. (fst p, redactValue sha sels (path @ [fst p]) (Some (fst p)) (snd p))) (sort_key fst ps) in
      (js_assign (map (\<lambda>r. (fst r, fst (snd r))) rs), redactions_of (map snd rs)))"
| "redactValue sha sels path key JUndefined = (JUndefined, [], [])"
| "redactValue sha sels path key JNull = (JNull, [], [])"
| "redactValue sha sels path key (JBool b) = (JBool b, [], [])"
| "redactValue sha sels path key (JNum n) = (JNum n, [], [])"
  by pat_completeness auto
termination
proof (relation "measure (\<lambda>(sha, sels, path, key, v). size v)", goal_cases)
  case (2 sha sels path key xs e)
  then show ?case using size_element [of "snd e" xs] by (simp add: enumerate_element)
next
  case (3 sha sels path key ps p)
  then show ?case using size_member [of p ps] by auto
qed simp

section \<open>redactOutput\<close>

record DischargedObligation =
  do_kind :: string
  do_sourceRuleId :: string
  do_selector :: "string option"
  do_externalSource :: "string option"

record RedactionSummary =
  rs_redactedCount :: nat
  rs_redactions :: "RedactionRecord list"
  rs_dischargedObligations :: "DischargedObligation list"

definition dischargedRedactObligations :: "PolicyObligation list \<Rightarrow> DischargedObligation list" where
  "dischargedRedactObligations obligations =
     concat (map (\<lambda>ob.
       let selectors = selectorsFromRedactObligation ob;
           discharged = (\<lambda>sel. \<lparr>do_kind = ''redact'', do_sourceRuleId = o_sourceRuleId ob, do_selector = sel,
             do_externalSource = None\<rparr>) in
       if selectors = [] then [discharged None] else map (\<lambda>s. discharged (Some (selectorKey s))) selectors) obligations)"

definition firstString :: "json \<Rightarrow> string option" where
  "firstString v = (case v of JStr s \<Rightarrow> if s \<noteq> [] then Some s else None | _ \<Rightarrow> None)"

definition sanitizedExternalSourceMarker :: "(string \<Rightarrow> string) \<Rightarrow> PolicyObligation \<Rightarrow> string option" where
  "sanitizedExternalSourceMarker sha ob =
     (case o_params ob of
        None \<Rightarrow> None
      | Some ps \<Rightarrow>
          let at = (\<lambda>k. firstString (js_get (JObj ps) k)) in
          map_option (sanitizeErrorMessage sha)
            (or_else (at ''source'') (or_else (at ''sourceRef'') (or_else (at ''externalSource'')
              (or_else (at ''uri'') (or_else (at ''url'') (at ''serverId'')))))))"

definition discharged_json :: "DischargedObligation \<Rightarrow> json" where
  "discharged_json d =
     JObj ([(''kind'', JStr (do_kind d)), (''sourceRuleId'', JStr (do_sourceRuleId d))] @
           opt_field ''selector'' JStr (do_selector d) @ opt_field ''externalSource'' JStr (do_externalSource d))"

text \<open>\<^verbatim>\<open>xs.sort(f)\<close> is stable; \<open>le a b\<close> says that \<^verbatim>\<open>f(a, b)\<close> is not positive.\<close>

fun insert_by :: "('a \<Rightarrow> 'a \<Rightarrow> bool) \<Rightarrow> 'a \<Rightarrow> 'a list \<Rightarrow> 'a list" where
  "insert_by le x [] = [x]"
| "insert_by le x (y # ys) = (if le x y then x # y # ys else y # insert_by le x ys)"

definition sort_by :: "('a \<Rightarrow> 'a \<Rightarrow> bool) \<Rightarrow> 'a list \<Rightarrow> 'a list" where
  "sort_by le xs = foldr (insert_by le) xs []"

definition compareDischargedObligations ::
  "(string \<Rightarrow> string \<Rightarrow> int) \<Rightarrow> DischargedObligation \<Rightarrow> DischargedObligation \<Rightarrow> int" where
  "compareDischargedObligations collate left right =
     collate (stringify (normalizeStable (discharged_json left))) (stringify (normalizeStable (discharged_json right)))"

definition obligation_selectors :: "PolicyObligation list \<Rightarrow> RedactionSelector list" where
  "obligation_selectors obligations =
     concat (map selectorsFromRedactObligation (filter (\<lambda>ob. o_kind ob = ''redact'') obligations))"

definition redactOutput ::
  "(string \<Rightarrow> string) \<Rightarrow> (string \<Rightarrow> string \<Rightarrow> int) \<Rightarrow> json \<Rightarrow> PolicyObligation list \<Rightarrow>
   string + (json \<times> RedactionSummary option)" where
  "redactOutput sha collate v obligations =
     (let redactObligations = filter (\<lambda>ob. o_kind ob = ''redact'') obligations;
          externalSourceObligations = filter (\<lambda>ob. o_kind ob = ''mark_external_source'') obligations;
          sels = obligation_selectors obligations;
          r = redactValue sha sels [] None v;
          redactions = fst (snd r);
          missingSelectors = filter (\<lambda>k. k \<notin> set (snd (snd r))) (unique (map selectorKey sels)) in
      if missingSelectors \<noteq> []
      then Inl (''Redaction obligation selectors were not discharged: '' @ join '', '' missingSelectors @ ''.'')
      else
        let discharged = sort_by (\<lambda>a b. compareDischargedObligations collate a b \<le> 0)
              (dischargedRedactObligations redactObligations @
               map (\<lambda>ob. \<lparr>do_kind = ''mark_external_source'', do_sourceRuleId = o_sourceRuleId ob, do_selector = None,
                 do_externalSource = sanitizedExternalSourceMarker sha ob\<rparr>) externalSourceObligations) in
        Inr (fst r,
          if redactions \<noteq> [] \<or> discharged \<noteq> []
          then Some \<lparr>rs_redactedCount = length redactions, rs_redactions = redactions,
                 rs_dischargedObligations = discharged\<rparr>
          else None))"

definition redactionSummary_json :: "RedactionSummary \<Rightarrow> json" where
  "redactionSummary_json s =
     JObj [(''redactedCount'', JNum (int (rs_redactedCount s))),
           (''redactions'', JArr (map (\<lambda>r. JObj [(''path'', JStr (rr_path r)),
              (''classification'', JStr (rr_classification r)), (''hash'', JStr (rr_hash r))]) (rs_redactions s))),
           (''dischargedObligations'', JArr (map discharged_json (rs_dischargedObligations s)))]"

section \<open>The strings of a value\<close>

text \<open>Every string that a value holds, with its path and the key it stands under.\<close>

function string_leaves :: "string list \<Rightarrow> string option \<Rightarrow> json \<Rightarrow> (string list \<times> string option \<times> string) list" where
  "string_leaves path key (JStr s) = [(path, key, s)]"
| "string_leaves path key (JArr xs) =
     concat (map (\<lambda>e. string_leaves (path @ [nat_str (fst e)]) (Some (nat_str (fst e))) (snd e)) (enumerate 0 xs))"
| "string_leaves path key (JObj ps) =
     concat (map (\<lambda>p. string_leaves (path @ [fst p]) (Some (fst p)) (snd p)) ps)"
| "string_leaves path key JUndefined = []"
| "string_leaves path key JNull = []"
| "string_leaves path key (JBool b) = []"
| "string_leaves path key (JNum n) = []"
  by pat_completeness auto
termination
proof (relation "measure (\<lambda>(path, key, v). size v)", goal_cases)
  case (2 path key xs e)
  then show ?case using size_element [of "snd e" xs] by (simp add: enumerate_element)
next
  case (3 path key ps p)
  then show ?case using size_member [of p ps] by auto
qed simp

text \<open>A string may leave the broker if it is a hash reference or neither selected nor sensitive.\<close>

definition leaf_safe :: "RedactionSelector list \<Rightarrow> string list \<times> string option \<times> string \<Rightarrow> bool" where
  "leaf_safe sels leaf =
     (case leaf of (path, key, s) \<Rightarrow> isHashReference s \<or> classification sels path key s = None)"

definition value_safe :: "RedactionSelector list \<Rightarrow> json \<Rightarrow> bool" where
  "value_safe sels v \<longleftrightarrow> list_all (leaf_safe sels) (string_leaves [] None v)"

lemma redact_string_safe:
  "hex_digest sha \<Longrightarrow> list_all (leaf_safe sels) (string_leaves path key (fst (redact_string sha sels path key s)))"
  by (auto simp: redact_string_def leaf_safe_def hashValue_is_reference Let_def split: option.split)

lemma redactValue_leaves_safe:
  assumes "hex_digest sha"
  shows "list_all (leaf_safe sels) (string_leaves path key (fst (redactValue sha sels path key v)))"
  using assms
proof (induction sha sels path key v rule: redactValue.induct)
  case (1 sha sels path key s)
  then show ?case by (simp add: redact_string_safe)
next
  case (2 sha sels path key xs)
  define g where "g e = fst (redactValue sha sels (path @ [nat_str (fst e)]) (Some (nat_str (fst e))) (snd e))"
    for e :: "nat \<times> json"
  have "list_all (leaf_safe sels) (string_leaves (path @ [nat_str (fst e)]) (Some (nat_str (fst e))) (snd e))"
    if "e \<in> set (enumerate 0 (map g (enumerate 0 xs)))" for e
    using enumerate_map_enumerate [OF that] 2 by (auto simp: g_def)
  moreover have "g = (\<lambda>e. fst (redactValue sha sels (path @ [nat_str (fst e)]) (Some (nat_str (fst e))) (snd e)))"
    by (simp add: fun_eq_iff g_def)
  ultimately show ?case by (simp add: Let_def list_all_iff comp_def)
next
  case (3 sha sels path key ps)
  then show ?case
    by (fastforce simp: Let_def list_all_iff js_assign_def)
qed simp_all

lemma leaf_safe_weaken: "leaf_safe sels leaf \<Longrightarrow> leaf_safe [] leaf"
  by (auto simp: leaf_safe_def classification_def matchingSelectors_def split: if_splits)

lemma value_safe_weaken: "value_safe sels v \<Longrightarrow> value_safe [] v"
  by (auto simp: value_safe_def list_all_iff dest: leaf_safe_weaken)

lemma redactOutput_safe:
  "hex_digest sha \<Longrightarrow> redactOutput sha collate v obs = Inr (out, summary) \<Longrightarrow> value_safe (obligation_selectors obs) out"
  using redactValue_leaves_safe [of sha "obligation_selectors obs" "[]" None v]
  by (auto simp: redactOutput_def Let_def value_safe_def split: if_splits)

text \<open>A selector is only counted at a string that it selects.\<close>

definition leaf_selected :: "RedactionSelector list \<Rightarrow> string \<Rightarrow> string list \<times> string option \<times> string \<Rightarrow> bool" where
  "leaf_selected sels k leaf =
     (case leaf of (path, key, s) \<Rightarrow>
        \<not> isHashReference s \<and> (\<exists>sel \<in> set (matchingSelectors path key sels). selectorKey sel = k))"

lemma redactValue_hits:
  "k \<in> set (snd (snd (redactValue sha sels path key v))) \<Longrightarrow>
     \<exists>leaf \<in> set (string_leaves path key v). leaf_selected sels k leaf"
proof (induction sha sels path key v rule: redactValue.induct)
  case (1 sha sels path key s)
  then show ?case by (auto simp: redact_string_def leaf_selected_def Let_def split: option.splits if_splits)
next
  case (2 sha sels path key xs)
  from "2.prems" obtain e where e: "e \<in> set (enumerate 0 xs)"
    "k \<in> set (snd (snd (redactValue sha sels (path @ [nat_str (fst e)]) (Some (nat_str (fst e))) (snd e))))"
    by (auto simp: Let_def redactions_of_def)
  from "2.IH" [OF this] e(1) show ?case by auto
next
  case (3 sha sels path key ps)
  from "3.prems" obtain p where p: "p \<in> set (sort_key fst ps)"
    "k \<in> set (snd (snd (redactValue sha sels (path @ [fst p]) (Some (fst p)) (snd p))))"
    by (auto simp: Let_def redactions_of_def)
  from "3.IH" [OF this] p(1) show ?case by auto
qed simp_all

lemma redactOutput_discharges:
  assumes "redactOutput sha collate v obs = Inr (out, summary)" "sel \<in> set (obligation_selectors obs)"
  shows "\<exists>leaf \<in> set (string_leaves [] None v). leaf_selected (obligation_selectors obs) (selectorKey sel) leaf"
  using assms by (intro redactValue_hits [of _ sha]) (auto simp: redactOutput_def Let_def filter_empty_conv split: if_splits)

end
