(* ===== verification/Tool_Schemas.thy ===== *)
theory Tool_Schemas
  imports Js_Readers
begin

text \<open>
  The contract between callers of tools and the tool broker, from \<^verbatim>\<open>schemas/src/index.ts\<close>:
  tool call requests and results. The gate engine checks the answers of its broker by the schema of
  results; the tool broker checks the requests it gets and the results it builds.
\<close>

section \<open>Requests\<close>

record ToolCallRequest =
  tq_toolId :: string
  tq_args :: json
  tq_reason :: string
  tq_idempotencyKey :: string
  tq_requestedBy :: json

definition toolCallRequest_json :: "ToolCallRequest \<Rightarrow> json" where
  "toolCallRequest_json q =
     JObj [(''toolId'', JStr (tq_toolId q)), (''args'', tq_args q), (''reason'', JStr (tq_reason q)),
           (''idempotencyKey'', JStr (tq_idempotencyKey q)), (''requestedBy'', tq_requestedBy q)]"

definition ToolCallRequestSchema :: "json \<Rightarrow> bool" where
  "ToolCallRequestSchema = z_strict
     [(''toolId'', nonEmptyString), (''args'', \<lambda>_. True), (''reason'', nonEmptyString),
      (''idempotencyKey'', nonEmptyString),
      (''requestedBy'', z_strict
         [(''phase'', nonEmptyString), (''gateId'', z_optional nonEmptyString), (''evalId'', z_optional nonEmptyString),
          (''modelCallId'', z_optional nonEmptyString)])]"

section \<open>Results\<close>

definition z_nat :: "json \<Rightarrow> bool" where
  "z_nat v = (case v of JNum n \<Rightarrow> n \<ge> 0 | _ \<Rightarrow> False)"

definition z_bool :: "json \<Rightarrow> bool" where
  "z_bool v = (case v of JBool b \<Rightarrow> True | _ \<Rightarrow> False)"

definition CacheStatusSchema :: "json \<Rightarrow> bool" where
  "CacheStatusSchema = z_enum [''hit'', ''miss'', ''bypass'']"

definition ToolCallRedactionSummarySchema :: "json \<Rightarrow> bool" where
  "ToolCallRedactionSummarySchema = z_strict
     [(''redactedCount'', z_nat),
      (''redactions'', z_array (z_strict [(''path'', nonEmptyString), (''classification'', nonEmptyString),
         (''hash'', nonEmptyString)])),
      (''dischargedObligations'', z_array (z_strict [(''kind'', z_enum [''redact'', ''mark_external_source'']),
         (''sourceRuleId'', nonEmptyString), (''selector'', z_optional nonEmptyString),
         (''externalSource'', z_optional nonEmptyString)]))]"

definition ToolCallCacheProvenanceSchema :: "json \<Rightarrow> bool" where
  "ToolCallCacheProvenanceSchema = z_strict
     [(''status'', CacheStatusSchema), (''key'', z_optional nonEmptyString), (''keyInputs'', z_optional MetadataSchema),
      (''entryCreatedAt'', z_optional nonEmptyString), (''invalidationReason'', z_optional nonEmptyString),
      (''writeError'', z_optional nonEmptyString)]"

definition ToolCallResultSchema :: "json \<Rightarrow> bool" where
  "ToolCallResultSchema v \<longleftrightarrow>
     z_strict
       [(''toolCallId'', nonEmptyString), (''status'', z_enum [''success'', ''denied'', ''approval_required'', ''failed'']),
        (''output'', \<lambda>_. True),
        (''error'', z_optional (z_strict [(''code'', nonEmptyString), (''message'', nonEmptyString), (''retryable'', z_bool)])),
        (''provenance'', z_strict
           [(''toolId'', nonEmptyString), (''toolVersion'', nonEmptyString), (''argsHash'', nonEmptyString),
            (''resultHash'', z_optional nonEmptyString), (''cacheStatus'', CacheStatusSchema), (''traceId'', nonEmptyString),
            (''adapterVersion'', z_optional nonEmptyString), (''decisionHash'', z_optional nonEmptyString),
            (''approvalId'', z_optional nonEmptyString), (''spanId'', z_optional nonEmptyString),
            (''eventIds'', z_optional (z_array nonEmptyString)),
            (''redactionSummary'', z_optional ToolCallRedactionSummarySchema),
            (''cache'', z_optional ToolCallCacheProvenanceSchema)])] v \<and>
     (js_get v ''status'' = JStr ''success'' \<longrightarrow>
        js_get (js_get v ''provenance'') ''resultHash'' \<noteq> JUndefined \<and>
        js_get (js_get v ''provenance'') ''adapterVersion'' \<noteq> JUndefined \<and>
        js_get (js_get v ''provenance'') ''decisionHash'' \<noteq> JUndefined)"

end
