(* ===== verification/Tool_Broker.thy ===== *)
theory Tool_Broker
  imports Tool_Capabilities Tool_Redaction Tool_Schemas Policy_Engine
begin

text \<open>
  \<^verbatim>\<open>ToolBroker.callTool\<close> of \<^verbatim>\<open>tool-broker/src/index.ts\<close> with its stages: the request, the
  capability, the arguments, the policy decision, approvals, the cache, the adapter, redaction and the
  result. A call returns its result, the new state of the cache and the input with which the adapter was
  executed, if it was.

  Parameters are SHA-256, \<^verbatim>\<open>localeCompare\<close>, \<^verbatim>\<open>Date.parse\<close>, random identifiers, the clock, which
  is read once per call, the issues of a request that violates its schema, the policy engine (\<open>Inl\<close> the
  message of the error that it throws, if the thrown value is an error) and the cache store (\<open>Inl\<close>
  likewise).
\<close>

section \<open>Types\<close>

record broker_env =
  be_sha :: "string \<Rightarrow> string"
  be_collate :: "string \<Rightarrow> string \<Rightarrow> int"
  be_parseDate :: "string \<Rightarrow> int option"
  be_now :: int
  be_isoNow :: string
  be_traceUuid :: string
  be_callUuid :: string
  be_issues :: "json \<Rightarrow> string"

text \<open>A deadline: a number, a \<^verbatim>\<open>Date\<close> (without a time value when it is invalid) or a string.\<close>

datatype deadline = DeadlineMs int | DeadlineDate "int option" | DeadlineStr string

record ToolCacheMetadata =
  cm_sourceHashes :: json
  cm_harnessSpecHash :: "string option"
  cm_modelVersion :: "string option"

record ToolCallContext =
  cx_runId :: "string option"
  cx_cwd :: "string option"
  cx_traceId :: "string option"
  cx_spanId :: "string option"
  cx_eventIds :: "string list option"
  cx_runMode :: "string option"
  cx_approvalDeadlineAt :: "deadline option"
  cx_policyBundle :: "FixturePolicyBundle one_or_many option"
  cx_snapshots :: "PolicySnapshots option"
  cx_cache :: "ToolCacheMetadata option"

record ToolResultCacheEntry =
  tce_key :: string
  tce_keyInputs :: json
  tce_output :: json
  tce_resultHash :: string
  tce_adapterVersion :: string
  tce_createdAt :: string
  tce_redactionSummary :: "json option"

record 's ToolResultCacheStore =
  cs_get :: "'s \<Rightarrow> string \<Rightarrow> string option + ToolResultCacheEntry option"
  cs_set :: "'s \<Rightarrow> ToolResultCacheEntry \<Rightarrow> string option + 's"

type_synonym PolicyEvaluator =
  "PolicyRequest \<Rightarrow> FixturePolicyBundle one_or_many option \<Rightarrow> string option + PolicyVerdict"

record 's tool_broker =
  tb_workspaceRoot :: string
  tb_runId :: string
  tb_registry :: registry
  tb_policyBundle :: "FixturePolicyBundle one_or_many option"
  tb_policyEngine :: PolicyEvaluator
  tb_cacheStore :: "'s ToolResultCacheStore"

section \<open>The cache\<close>

text \<open>\<^verbatim>\<open>cloneJsonValue\<close>: \<^verbatim>\<open>JSON.parse(JSON.stringify(v))\<close>.\<close>

definition cloneJsonValue :: "json \<Rightarrow> json" where
  "cloneJsonValue v = (if v = JUndefined then v else normalizeJsonValue v)"

definition cloneCacheEntry :: "ToolResultCacheEntry \<Rightarrow> ToolResultCacheEntry" where
  "cloneCacheEntry e =
     e\<lparr>tce_keyInputs := cloneJsonValue (tce_keyInputs e), tce_output := cloneJsonValue (tce_output e),
       tce_redactionSummary := map_option cloneJsonValue (tce_redactionSummary e)\<rparr>"

definition InMemoryToolResultCacheStore :: "(string \<rightharpoonup> ToolResultCacheEntry) ToolResultCacheStore" where
  "InMemoryToolResultCacheStore =
     \<lparr>cs_get = \<lambda>entries key. Inr (map_option cloneCacheEntry (entries key)),
      cs_set = \<lambda>entries entry. Inr (entries(tce_key entry \<mapsto> cloneCacheEntry entry))\<rparr>"

definition nonEmptyStringOrUndefined :: "json \<Rightarrow> string option" where
  "nonEmptyStringOrUndefined v = (case v of JStr s \<Rightarrow> if s \<noteq> [] then Some s else None | _ \<Rightarrow> None)"

definition normalizedStringRecord :: "json \<Rightarrow> json option" where
  "normalizedStringRecord v =
     (case v of
        JObj ps \<Rightarrow>
          (case js_assign (filter (\<lambda>p. nonEmptyStringOrUndefined (snd p) \<noteq> None) (sort_key fst ps)) of
             JObj [] \<Rightarrow> None | r \<Rightarrow> Some r)
      | _ \<Rightarrow> None)"

definition context_snapshot :: "ToolCallContext \<Rightarrow> (PolicySnapshots \<Rightarrow> json) \<Rightarrow> json" where
  "context_snapshot cx f = (case cx_snapshots cx of None \<Rightarrow> JUndefined | Some s \<Rightarrow> f s)"

definition sourceHashesFromContext :: "ToolCallContext \<Rightarrow> json option" where
  "sourceHashesFromContext cx =
     or_else (normalizedStringRecord (case cx_cache cx of None \<Rightarrow> JUndefined | Some m \<Rightarrow> cm_sourceHashes m))
       (normalizedStringRecord (js_get (context_snapshot cx sn_sourceTrust) ''sourceHashes''))"

definition harnessSpecHashFromContext :: "(string \<Rightarrow> string) \<Rightarrow> ToolCallContext \<Rightarrow> string" where
  "harnessSpecHashFromContext sha cx =
     default (or_else (Option.bind (cx_cache cx) cm_harnessSpecHash)
       (nonEmptyStringOrUndefined (js_get (js_get (context_snapshot cx sn_runState) ''harness'') ''specHash'')))
       (hashValue sha (JObj [(''absent'', JStr ''harnessSpecHash'')]))"

definition modelVersionFromContext :: "ToolCallContext \<Rightarrow> string option" where
  "modelVersionFromContext cx =
     or_else (Option.bind (Option.bind (cx_cache cx) cm_modelVersion) (\<lambda>s. nonEmptyStringOrUndefined (JStr s)))
       (nonEmptyStringOrUndefined (js_get (context_snapshot cx sn_sourceTrust) ''modelVersion''))"

definition buildCacheKeyInputs :: "(string \<Rightarrow> string) \<Rightarrow> CapabilityDefinition \<Rightarrow> json \<Rightarrow> ToolCallContext \<Rightarrow> json" where
  "buildCacheKeyInputs sha d args cx =
     JObj ([(''toolId'', JStr (cd_id d)), (''toolVersion'', JStr (cd_version d)), (''argsHash'', JStr (hashValue sha args)),
            (''harnessSpecHash'', JStr (harnessSpecHashFromContext sha cx))] @
           opt_field ''sourceHashes'' (\<lambda>v. v) (sourceHashesFromContext cx) @
           opt_field ''modelVersion'' JStr (modelVersionFromContext cx))"

definition deriveCacheKey :: "(string \<Rightarrow> string) \<Rightarrow> json \<Rightarrow> string" where
  "deriveCacheKey sha keyInputs = hashValue sha keyInputs"

definition cacheReason :: "(string \<Rightarrow> string) \<Rightarrow> string \<Rightarrow> string option \<Rightarrow> string" where
  "cacheReason sha pre error =
     pre @ '': '' @ sanitizeErrorMessage sha (default error ''Cache operation failed.'')"

record ToolCacheProvenance =
  tp_status :: string
  tp_key :: string
  tp_keyInputs :: json
  tp_entryCreatedAt :: "string option"
  tp_invalidationReason :: "string option"
  tp_writeError :: "string option"

definition cacheProvenance_json :: "ToolCacheProvenance \<Rightarrow> json" where
  "cacheProvenance_json p =
     JObj ([(''status'', JStr (tp_status p)), (''key'', JStr (tp_key p)), (''keyInputs'', tp_keyInputs p)] @
           opt_field ''entryCreatedAt'' JStr (tp_entryCreatedAt p) @
           opt_field ''invalidationReason'' JStr (tp_invalidationReason p) @ opt_field ''writeError'' JStr (tp_writeError p))"

datatype CacheLookupResult =
    CacheBypass "ToolCacheProvenance option"
  | CacheMiss string json ToolCacheProvenance
  | CacheHit ToolResultCacheEntry json string ToolCacheProvenance

definition lookupCachedResult ::
  "(string \<Rightarrow> string) \<Rightarrow> 's ToolResultCacheStore \<Rightarrow> 's \<Rightarrow> CapabilityDefinition \<Rightarrow> json \<Rightarrow> ToolCallContext \<Rightarrow> CacheLookupResult" where
  "lookupCachedResult sha store st d args cx =
     (if \<not> cd_cacheEnabled d then CacheBypass None
      else
        let keyInputs = buildCacheKeyInputs sha d args cx; key = deriveCacheKey sha keyInputs;
            baseCache = \<lparr>tp_status = ''miss'', tp_key = key, tp_keyInputs = keyInputs, tp_entryCreatedAt = None,
              tp_invalidationReason = None, tp_writeError = None\<rparr>;
            bypass = (\<lambda>reason. CacheBypass (Some (baseCache\<lparr>tp_status := ''bypass'', tp_invalidationReason := Some reason\<rparr>))) in
        (case cs_get store st key of
           Inl error \<Rightarrow> bypass (cacheReason sha ''cache_get_error'' error)
         | Inr None \<Rightarrow> CacheMiss key keyInputs baseCache
         | Inr (Some entry) \<Rightarrow>
             if tce_key entry \<noteq> key \<or> hashValue sha (tce_keyInputs entry) \<noteq> hashValue sha keyInputs
             then bypass ''cache_key_mismatch''
             else
               (case cd_outputSchema d (tce_output entry) of
                  Inl issues \<Rightarrow> bypass (''cache_output_invalid: '' @ issues)
                | Inr out \<Rightarrow>
                    if tce_resultHash entry \<noteq> hashValue sha out then bypass ''cache_result_hash_mismatch''
                    else CacheHit entry out (hashValue sha out)
                      (baseCache\<lparr>tp_status := ''hit'', tp_entryCreatedAt := Some (tce_createdAt entry)\<rparr>))))"

definition lookup_status :: "CacheLookupResult \<Rightarrow> string" where
  "lookup_status l = (case l of CacheBypass c \<Rightarrow> ''bypass'' | CacheMiss k i c \<Rightarrow> ''miss'' | CacheHit e v h c \<Rightarrow> ''hit'')"

definition lookup_cache :: "CacheLookupResult \<Rightarrow> ToolCacheProvenance option" where
  "lookup_cache l = (case l of CacheBypass c \<Rightarrow> c | CacheMiss k i c \<Rightarrow> Some c | CacheHit e v h c \<Rightarrow> Some c)"

definition writeCacheEntry ::
  "broker_env \<Rightarrow> 's ToolResultCacheStore \<Rightarrow> 's \<Rightarrow> CacheLookupResult \<Rightarrow> json \<Rightarrow> string \<Rightarrow> string \<Rightarrow> json option \<Rightarrow>
   ToolCacheProvenance option \<times> 's" where
  "writeCacheEntry env store st lookup out resultHash adapterVersion summary =
     (case lookup of
        CacheMiss key keyInputs c \<Rightarrow>
          (case cs_set store st \<lparr>tce_key = key, tce_keyInputs = keyInputs, tce_output = out, tce_resultHash = resultHash,
                 tce_adapterVersion = adapterVersion, tce_createdAt = be_isoNow env, tce_redactionSummary = summary\<rparr> of
             Inr st' \<Rightarrow> (Some c, st')
           | Inl error \<Rightarrow> (Some (c\<lparr>tp_writeError := Some (cacheReason (be_sha env) ''cache_set_error'' error)\<rparr>), st))
      | _ \<Rightarrow> (lookup_cache lookup, st))"

section \<open>Approvals\<close>

definition approvalIdFromVerdict :: "PolicyVerdict \<Rightarrow> string" where
  "approvalIdFromVerdict v = default (pv_approvalId v) ''approval_required''"

definition approvalRequiredMessage :: "PolicyVerdict \<Rightarrow> string \<Rightarrow> string" where
  "approvalRequiredMessage v approvalId =
     (let reasons = join ''; '' (pv_reasons v) in
      if reasons \<noteq> [] then reasons @ '' Approval '' @ approvalId @ '' is required.''
      else ''Policy requires approval '' @ approvalId @ ''.'')"

definition approvalDecisionsFromContext :: "ToolCallContext \<Rightarrow> ApprovalDecision list" where
  "approvalDecisionsFromContext cx =
     (case Option.bind (cx_snapshots cx) sn_approvals of
        None \<Rightarrow> [] | Some (ApprovalArray ds) \<Rightarrow> ds | Some (ApprovalState ds) \<Rightarrow> default ds [])"

definition broker_findApprovalDecision :: "ToolCallContext \<Rightarrow> string \<Rightarrow> ApprovalDecision option" where
  "broker_findApprovalDecision cx approvalId =
     find (\<lambda>d. ad_approvalId d = approvalId) (approvalDecisionsFromContext cx)"

definition satisfiedApprovalIdFromVerdict :: "PolicyVerdict \<Rightarrow> ToolCallContext \<Rightarrow> string option" where
  "satisfiedApprovalIdFromVerdict v cx =
     (if pv_status v \<noteq> Allow then None
      else map_option ad_approvalId
        (find (\<lambda>d. list_ex (\<lambda>r. rm_ruleId r = ''approval.'' @ ad_approvalId d @ ''.approved'') (pv_matchedRules v))
          (filter (\<lambda>d. ad_decision d = Approved \<or> ad_decision d = ApprovedWithChanges) (approvalDecisionsFromContext cx))))"

definition isElapsedDeadline :: "broker_env \<Rightarrow> deadline option \<Rightarrow> bool" where
  "isElapsedDeadline env x =
     (case Option.bind x (\<lambda>t. case t of DeadlineMs n \<Rightarrow> Some n | DeadlineDate n \<Rightarrow> n | DeadlineStr s \<Rightarrow> be_parseDate env s) of
        None \<Rightarrow> False | Some ms \<Rightarrow> ms \<le> be_now env)"

definition decision_expiresAt :: "ApprovalDecision \<Rightarrow> string option" where
  "decision_expiresAt d = fstr (JObj (ad_extra d)) ''expiresAt''"

definition isApprovalDeadlineElapsed :: "broker_env \<Rightarrow> ToolCallContext \<Rightarrow> ApprovalDecision option \<Rightarrow> bool" where
  "isApprovalDeadlineElapsed env cx decision \<longleftrightarrow>
     isElapsedDeadline env (cx_approvalDeadlineAt cx) \<or>
     isElapsedDeadline env (map_option DeadlineStr (Option.bind decision decision_expiresAt))"

section \<open>Results\<close>

record result_parts =
  rp_status :: string
  rp_toolId :: string
  rp_toolVersion :: string
  rp_argsHash :: string
  rp_resultHash :: "string option"
  rp_cacheStatus :: string
  rp_cache :: "ToolCacheProvenance option"
  rp_traceId :: string
  rp_adapterVersion :: "string option"
  rp_decisionHash :: "string option"
  rp_approvalId :: "string option"
  rp_spanId :: "string option"
  rp_eventIds :: "string list option"
  rp_redactionSummary :: "json option"
  rp_output :: json
  rp_error :: "AdapterError option"

datatype broker_error = BrokerZodError | BrokerThrows ToolBrokerErrorCode

definition error_json :: "(string \<Rightarrow> string) \<Rightarrow> AdapterError \<Rightarrow> json" where
  "error_json sha e =
     JObj [(''code'', JStr (ae_code e)), (''message'', JStr (sanitizeErrorMessage sha (ae_message e))),
           (''retryable'', JBool (ae_retryable e))]"

definition buildToolResult :: "broker_env \<Rightarrow> result_parts \<Rightarrow> broker_error + json" where
  "buildToolResult env p =
     (let provenance = JObj
            ([(''toolId'', JStr (rp_toolId p)), (''toolVersion'', JStr (rp_toolVersion p)),
              (''argsHash'', JStr (rp_argsHash p)), (''cacheStatus'', JStr (rp_cacheStatus p)),
              (''traceId'', JStr (rp_traceId p))] @
             opt_field ''resultHash'' JStr (rp_resultHash p) @ opt_field ''adapterVersion'' JStr (rp_adapterVersion p) @
             opt_field ''decisionHash'' JStr (rp_decisionHash p) @ opt_field ''approvalId'' JStr (rp_approvalId p) @
             opt_field ''spanId'' JStr (rp_spanId p) @ opt_field ''eventIds'' strs_json (rp_eventIds p) @
             opt_field ''redactionSummary'' (\<lambda>v. v) (rp_redactionSummary p) @
             opt_field ''cache'' cacheProvenance_json (rp_cache p));
          result = JObj
            ([(''toolCallId'', JStr (''tool_'' @ be_callUuid env)), (''status'', JStr (rp_status p)),
              (''provenance'', provenance)] @
             json_field ''output'' (rp_output p) @ opt_field ''error'' (error_json (be_sha env)) (rp_error p)) in
      if ToolCallResultSchema result then Inr result else Inl BrokerZodError)"

definition blank_parts :: "string \<Rightarrow> string \<Rightarrow> string \<Rightarrow> string \<Rightarrow> string \<Rightarrow> result_parts" where
  "blank_parts status toolId toolVersion argsHash traceId =
     \<lparr>rp_status = status, rp_toolId = toolId, rp_toolVersion = toolVersion, rp_argsHash = argsHash, rp_resultHash = None,
      rp_cacheStatus = ''bypass'', rp_cache = None, rp_traceId = traceId, rp_adapterVersion = None, rp_decisionHash = None,
      rp_approvalId = None, rp_spanId = None, rp_eventIds = None, rp_redactionSummary = None, rp_output = JUndefined,
      rp_error = None\<rparr>"

definition broker_failure :: "string \<Rightarrow> string \<Rightarrow> AdapterError" where
  "broker_failure code message = \<lparr>ae_code = code, ae_message = message, ae_retryable = False\<rparr>"

section \<open>Authorisation\<close>

definition recordFromUnknown :: "json \<Rightarrow> (string \<times> json) list" where
  "recordFromUnknown v = (case v of JObj ps \<Rightarrow> ps | _ \<Rightarrow> [])"

definition request_phase :: "json \<Rightarrow> string" where
  "request_phase request = the_str (fstr (js_get request ''requestedBy'') ''phase'')"

definition buildPolicyRequest :: "json \<Rightarrow> json \<Rightarrow> CapabilityDefinition \<Rightarrow> ToolCallContext \<Rightarrow> string \<Rightarrow> PolicyRequest" where
  "buildPolicyRequest request args d cx runId =
     \<lparr>rq_requestId = the_str (fstr request ''idempotencyKey''), rq_runId = runId, rq_phase = request_phase request,
      rq_action = \<lparr>pa_kind = ''tool_call'', pa_toolId = Some (cd_id d), pa_args = Some (recordFromUnknown args),
        pa_requestedScopes = Some (cd_requestedScopes d), pa_risk = Some (cd_risk d), pa_budgetCosts = None\<rparr>,
      rq_runMode = cx_runMode cx, rq_snapshots = cx_snapshots cx\<rparr>"

text \<open>
  Stages 4 and 5: \<open>Inl\<close> the parts of the result that ends the call, or the verdict and the approval
  under which the call goes on.
\<close>

definition authorize ::
  "broker_env \<Rightarrow> 's tool_broker \<Rightarrow> json \<Rightarrow> json \<Rightarrow> CapabilityDefinition \<Rightarrow> ToolCallContext \<Rightarrow> string \<Rightarrow> string \<Rightarrow>
   result_parts + (PolicyVerdict \<times> string option)" where
  "authorize env broker request args d cx argsHash traceId =
     (let parts = (\<lambda>status. blank_parts status (cd_id d) (cd_version d) argsHash traceId);
          policyRequest = buildPolicyRequest request args d cx (default (cx_runId cx) (tb_runId broker)) in
      (case tb_policyEngine broker policyRequest (or_else (cx_policyBundle cx) (tb_policyBundle broker)) of
         Inl error \<Rightarrow>
           Inl ((parts ''denied'')\<lparr>rp_error := Some (broker_failure ''policy_error''
                  (default error ''Policy evaluation failed closed.''))\<rparr>)
       | Inr verdict \<Rightarrow>
           let refuse = (\<lambda>status approvalId code message.
                 Inl ((parts status)\<lparr>rp_decisionHash := Some (pv_decisionHash verdict), rp_approvalId := approvalId,
                   rp_error := Some (broker_failure code message)\<rparr>)) in
           (case pv_status verdict of
              Deny \<Rightarrow>
                refuse ''denied'' (pv_approvalId verdict) ''policy_denied''
                  (let reasons = join ''; '' (pv_reasons verdict) in
                   if reasons \<noteq> [] then reasons else ''Policy denied tool call.'')
            | ApprovalRequired \<Rightarrow>
                let approvalId = approvalIdFromVerdict verdict;
                    decision = broker_findApprovalDecision cx approvalId in
                if map_option ad_decision decision = Some Rejected
                then refuse ''denied'' (Some approvalId) ''approval_rejected'' (''Approval '' @ approvalId @ '' was rejected.'')
                else if isApprovalDeadlineElapsed env cx decision
                then refuse ''denied'' (Some approvalId) ''approval_timeout''
                       (''Approval '' @ approvalId @ '' timed out before execution.'')
                else refuse ''approval_required'' (Some approvalId) ''approval_required''
                       (approvalRequiredMessage verdict approvalId)
            | Allow \<Rightarrow>
                let satisfied = satisfiedApprovalIdFromVerdict verdict cx;
                    executed = or_else (pv_approvalId verdict) satisfied in
                (case satisfied of
                   None \<Rightarrow> Inr (verdict, executed)
                 | Some approvalId \<Rightarrow>
                     if isApprovalDeadlineElapsed env cx (broker_findApprovalDecision cx approvalId)
                     then refuse ''denied'' executed ''approval_timeout''
                            (''Approval '' @ approvalId @ '' timed out before execution.'')
                     else Inr (verdict, executed)))))"

section \<open>Execution\<close>

definition broker_code_str :: "ToolBrokerErrorCode \<Rightarrow> string" where
  "broker_code_str c =
     (case c of DuplicateTool \<Rightarrow> ''duplicate_tool'' | PathOutsideWorkspace \<Rightarrow> ''path_outside_workspace''
      | CwdOutsideWorkspace \<Rightarrow> ''cwd_outside_workspace'' | NotFound \<Rightarrow> ''not_found''
      | InvalidDefinition \<Rightarrow> ''invalid_definition'' | TierlessKind \<Rightarrow> ''tierless_kind''
      | MissingIsolationTier \<Rightarrow> ''missing_isolation_tier'' | MissingOutputSchema \<Rightarrow> ''missing_output_schema''
      | AdapterKindMismatch \<Rightarrow> ''adapter_kind_mismatch'')"

definition adapterFailure :: "(string \<Rightarrow> string) \<Rightarrow> string \<Rightarrow> string \<Rightarrow> bool \<Rightarrow> AdapterExecutionResult" where
  "adapterFailure sha code message retryable =
     AdapterFailed \<lparr>ae_code = code, ae_message = sanitizeErrorMessage sha message, ae_retryable = retryable\<rparr>"

definition adapterFailureFromUnknown :: "(string \<Rightarrow> string) \<Rightarrow> adapter_exception \<Rightarrow> AdapterExecutionResult" where
  "adapterFailureFromUnknown sha e =
     (case e of
        ThrownBrokerError code message \<Rightarrow> adapterFailure sha (broker_code_str code) message False
      | ThrownENOENT \<Rightarrow> adapterFailure sha ''not_found'' ''Path does not exist.'' False
      | ThrownEACCES \<Rightarrow> adapterFailure sha ''permission_denied'' ''Permission denied.'' False
      | ThrownError message \<Rightarrow> adapterFailure sha ''adapter_error'' (default message ''Adapter execution failed.'') False)"

definition withAdapterDeadline :: "(string \<Rightarrow> string) \<Rightarrow> adapter_run \<Rightarrow> int \<Rightarrow> AdapterExecutionResult" where
  "withAdapterDeadline sha run timeoutMs =
     (case run of
        Settles r \<Rightarrow> r
      | Rejects e \<Rightarrow> adapterFailureFromUnknown sha e
      | Late \<Rightarrow> adapterFailure sha ''timeout'' (''Tool adapter exceeded '' @ int_str timeoutMs @ ''ms timeout.'') True)"

text \<open>The result and, if the adapter was executed, its input.\<close>

definition executeAdapter ::
  "broker_env \<Rightarrow> 's tool_broker \<Rightarrow> CapabilityDefinition \<Rightarrow> json \<Rightarrow> json \<Rightarrow> ToolCallContext \<Rightarrow> PolicyVerdict \<Rightarrow> string \<Rightarrow>
   broker_error + (AdapterExecutionResult \<times> AdapterExecutionInput option)" where
  "executeAdapter env broker d args request cx verdict traceId =
     (case deriveTierConstraints d of
        Inl e \<Rightarrow> Inl (BrokerThrows (fst e))
      | Inr tier \<Rightarrow>
          let limits = computeLimits d args verdict tier in
          (case tc_execution tier of
             Unsupported \<Rightarrow>
               Inr (adapterFailure (be_sha env) ''unsupported_isolation_tier''
                 (default (tc_unsupportedReason tier) (''Capability '' @ cd_id d @ '' cannot execute in isolation tier '' @
                    int_str (tc_isolationTier tier) @ ''.'')) False, None)
           | Sanctioned \<Rightarrow>
               let input = \<lparr>ei_args = args, ei_runId = default (cx_runId cx) (tb_runId broker), ei_phase = request_phase request,
                     ei_cwd = default (cx_cwd cx) (tb_workspaceRoot broker), ei_workspaceRoot = tb_workspaceRoot broker,
                     ei_traceId = traceId, ei_limits = limits\<rparr> in
               Inr (withAdapterDeadline (be_sha env) (ca_execute (cd_adapter d) input) (el_timeoutMs limits), Some input)))"

section \<open>callTool\<close>

type_synonym 's call_outcome = "(broker_error + json) \<times> 's \<times> AdapterExecutionInput option"

text \<open>Stages 7 to 11, for a call that is authorised and that the cache does not answer.\<close>

definition execute_stage ::
  "broker_env \<Rightarrow> 's tool_broker \<Rightarrow> 's \<Rightarrow> CapabilityDefinition \<Rightarrow> json \<Rightarrow> json \<Rightarrow> ToolCallContext \<Rightarrow> PolicyVerdict \<Rightarrow>
   string option \<Rightarrow> string \<Rightarrow> string \<Rightarrow> CacheLookupResult \<Rightarrow> 's call_outcome" where
  "execute_stage env broker st d args request cx verdict approvalId argsHash traceId lookup =
     (case executeAdapter env broker d args request cx verdict traceId of
        Inl e \<Rightarrow> (Inl e, st, None)
      | Inr (adapterResult, executed) \<Rightarrow>
          let parts = (\<lambda>status. (blank_parts status (cd_id d) (cd_version d) argsHash traceId)
                \<lparr>rp_cacheStatus := lookup_status lookup, rp_cache := lookup_cache lookup,
                 rp_adapterVersion := Some (ca_version (cd_adapter d)), rp_decisionHash := Some (pv_decisionHash verdict),
                 rp_approvalId := approvalId, rp_spanId := cx_spanId cx, rp_eventIds := cx_eventIds cx\<rparr>);
              failed = (\<lambda>error. (buildToolResult env ((parts ''failed'')\<lparr>rp_error := Some error\<rparr>), st, executed)) in
          (case adapterResult of
             AdapterFailed error \<Rightarrow> failed error
           | AdapterSuccess raw \<Rightarrow>
               (case cd_outputSchema d raw of
                  Inl issues \<Rightarrow> failed (broker_failure ''output_invalid'' issues)
                | Inr out \<Rightarrow>
                    (case redactOutput (be_sha env) (be_collate env) out (pv_obligations verdict) of
                       Inl message \<Rightarrow> failed (broker_failure ''obligation_not_discharged'' message)
                     | Inr (redacted, summary) \<Rightarrow>
                         (case cd_outputSchema d redacted of
                            Inl issues \<Rightarrow>
                              failed (broker_failure ''output_invalid''
                                (''Redacted output failed schema validation: '' @ issues))
                          | Inr redactedOutput \<Rightarrow>
                              let resultHash = hashValue (be_sha env) redactedOutput;
                                  summary_json = map_option redactionSummary_json summary;
                                  written = writeCacheEntry env (tb_cacheStore broker) st lookup redactedOutput resultHash
                                    (ca_version (cd_adapter d)) summary_json in
                              (buildToolResult env ((parts ''success'')\<lparr>rp_resultHash := Some resultHash,
                                 rp_cache := fst written, rp_redactionSummary := summary_json, rp_output := redactedOutput\<rparr>),
                               snd written, executed))))))"

definition callTool ::
  "broker_env \<Rightarrow> 's tool_broker \<Rightarrow> 's \<Rightarrow> json \<Rightarrow> ToolCallContext \<Rightarrow> 's call_outcome" where
  "callTool env broker st requestLike cx =
     (let traceId = default (cx_traceId cx) (''trace_'' @ be_traceUuid env);
          sha = be_sha env;
          end_call = (\<lambda>parts. (buildToolResult env parts, st, None)) in
      if \<not> ToolCallRequestSchema requestLike then
        end_call ((blank_parts ''failed'' (default (fstr requestLike ''toolId'') ''unknown'') ''unresolved''
            (hashValue sha (js_get requestLike ''args'')) traceId)
          \<lparr>rp_error := Some (broker_failure ''invalid_request'' (be_issues env requestLike))\<rparr>)
      else
        let toolId = the_str (fstr requestLike ''toolId''); rawArgs = js_get requestLike ''args'';
            argsHash = hashValue sha rawArgs in
        (case resolve_tool (tb_registry broker) toolId of
           None \<Rightarrow>
             end_call ((blank_parts ''denied'' toolId ''undeclared'' argsHash traceId)
               \<lparr>rp_error := Some (broker_failure ''tool_not_found''
                  (''Tool '' @ toolId @ '' is not declared in the capability registry.''))\<rparr>)
         | Some d \<Rightarrow>
             (case cd_inputSchema d rawArgs of
                Inl issues \<Rightarrow>
                  end_call ((blank_parts ''failed'' (cd_id d) (cd_version d) argsHash traceId)
                    \<lparr>rp_error := Some (broker_failure ''invalid_request'' issues)\<rparr>)
              | Inr args \<Rightarrow>
                  (case authorize env broker requestLike args d cx argsHash traceId of
                     Inl parts \<Rightarrow> end_call parts
                   | Inr (verdict, approvalId) \<Rightarrow>
                       (case lookupCachedResult sha (tb_cacheStore broker) st d args cx of
                          CacheHit entry out resultHash c \<Rightarrow>
                            end_call ((blank_parts ''success'' (cd_id d) (cd_version d) argsHash traceId)
                              \<lparr>rp_resultHash := Some resultHash, rp_cacheStatus := ''hit'', rp_cache := Some c,
                               rp_adapterVersion := Some (tce_adapterVersion entry),
                               rp_decisionHash := Some (pv_decisionHash verdict), rp_approvalId := approvalId,
                               rp_spanId := cx_spanId cx, rp_eventIds := cx_eventIds cx,
                               rp_redactionSummary := tce_redactionSummary entry, rp_output := out\<rparr>)
                        | lookup \<Rightarrow>
                            execute_stage env broker st d args requestLike cx verdict approvalId argsHash traceId lookup)))))"

text \<open>\<^verbatim>\<open>options.policyEngine ?? evaluatePolicy\<close>: the default engine; \<open>message\<close> is the text of the error it throws.\<close>

definition default_engine :: "digest \<Rightarrow> regexp \<Rightarrow> (policy_error \<Rightarrow> string) \<Rightarrow> PolicyEvaluator" where
  "default_engine sha re message =
     (\<lambda>request b. case evaluatePolicy sha re request b of Inl e \<Rightarrow> Inl (Some (message e)) | Inr v \<Rightarrow> Inr v)"

end
