(* ===== verification/Tool_Filesystem.thy ===== *)
theory Tool_Filesystem
  imports Tool_Broker Posix_Paths
begin

text \<open>
  The file system adapters of \<^verbatim>\<open>tool-broker/src/index.ts\<close> and the confinement of their paths. The file
  system is a parameter that does not change
  during a call: \<^verbatim>\<open>realpath\<close>, \<^verbatim>\<open>stat\<close>, \<^verbatim>\<open>readdir\<close> and the reading of a prefix of a file, each
  \<open>Inl\<close> what it throws. An adapter returns what its promise does and the paths it accessed.
\<close>

section \<open>Paths inside the workspace\<close>

definition resolvePathInsideWorkspace :: "string \<Rightarrow> string \<Rightarrow> string" where
  "resolvePathInsideWorkspace base path = (if isAbsolute path then abs_path (segs_of path) else path_resolve base path)"

definition isPathInside :: "string \<Rightarrow> string \<Rightarrow> bool" where
  "isPathInside workspaceRoot targetPath \<longleftrightarrow>
     (let relativePath = path_relative workspaceRoot targetPath in
      relativePath = [] \<or> \<not> starts_with ''..'' relativePath \<and> \<not> isAbsolute relativePath)"

definition assertInsideWorkspace :: "string \<Rightarrow> string \<Rightarrow> ToolBrokerErrorCode \<Rightarrow> adapter_exception option" where
  "assertInsideWorkspace workspaceRoot targetPath code =
     (if isPathInside workspaceRoot targetPath then None
      else Some (ThrownBrokerError code ''Path resolves outside the configured workspace.''))"

definition toWorkspacePath :: "string \<Rightarrow> string \<Rightarrow> string" where
  "toWorkspacePath workspaceRoot targetPath =
     (let relativePath = path_relative workspaceRoot targetPath in if relativePath = [] then ''.'' else relativePath)"

section \<open>The file system\<close>

datatype file_kind = FileKind | DirectoryKind | SymlinkKind | OtherKind

record file_system =
  fs_realpath :: "string \<Rightarrow> adapter_exception + string"
  fs_stat :: "string \<Rightarrow> adapter_exception + file_kind \<times> nat"
  fs_readdir :: "string \<Rightarrow> adapter_exception + (string \<times> file_kind) list"
  fs_read :: "string \<Rightarrow> nat \<Rightarrow> adapter_exception + string"
  fs_utf8 :: "string \<Rightarrow> string"

record WorkspaceTarget =
  wt_workspaceRoot :: string
  wt_absolutePath :: string
  wt_relativePath :: string

definition resolveExistingWorkspaceTarget ::
  "file_system \<Rightarrow> string \<Rightarrow> string \<Rightarrow> string \<Rightarrow> adapter_exception + WorkspaceTarget" where
  "resolveExistingWorkspaceTarget fs root cwdArg path =
     bindE (fs_realpath fs root) (\<lambda>realWorkspaceRoot.
       let cwd = resolvePathInsideWorkspace realWorkspaceRoot cwdArg;
           targetPath = resolvePathInsideWorkspace cwd path in
       (case assertInsideWorkspace realWorkspaceRoot cwd CwdOutsideWorkspace of
          Some e \<Rightarrow> Inl e
        | None \<Rightarrow>
            (case assertInsideWorkspace realWorkspaceRoot targetPath PathOutsideWorkspace of
               Some e \<Rightarrow> Inl e
             | None \<Rightarrow>
                 (case fs_realpath fs targetPath of
                    Inl ThrownENOENT \<Rightarrow> Inl (ThrownBrokerError NotFound (''Path '' @ path @ '' does not exist.''))
                  | Inl e \<Rightarrow> Inl e
                  | Inr realTargetPath \<Rightarrow>
                      (case assertInsideWorkspace realWorkspaceRoot realTargetPath PathOutsideWorkspace of
                         Some e \<Rightarrow> Inl e
                       | None \<Rightarrow> Inr \<lparr>wt_workspaceRoot = realWorkspaceRoot, wt_absolutePath = realTargetPath,
                           wt_relativePath = toWorkspacePath realWorkspaceRoot realTargetPath\<rparr>)))))"

section \<open>The adapters\<close>

definition toolPathSchema :: "json \<Rightarrow> bool" where
  "toolPathSchema v = (case v of JStr s \<Rightarrow> s \<noteq> [] \<and> CHR 0x00 \<notin> set s | _ \<Rightarrow> False)"

definition FsListInputSchema :: "json \<Rightarrow> bool" where
  "FsListInputSchema = z_strict [(''path'', toolPathSchema)]"

definition FsReadInputSchema :: "json \<Rightarrow> bool" where
  "FsReadInputSchema = z_strict
     [(''path'', toolPathSchema), (''encoding'', z_optional (z_enum [''utf8''])), (''maxBytes'', z_optional isPositiveInteger)]"

definition z_string :: "json \<Rightarrow> bool" where
  "z_string v = (case v of JStr s \<Rightarrow> True | _ \<Rightarrow> False)"

definition FsListEntrySchema :: "json \<Rightarrow> bool" where
  "FsListEntrySchema = z_strict
     [(''name'', nonEmptyString), (''path'', nonEmptyString), (''type'', z_enum [''file'', ''directory'', ''symlink'', ''other''])]"

definition FsListOutputSchema :: "json \<Rightarrow> bool" where
  "FsListOutputSchema = z_strict [(''path'', nonEmptyString), (''entries'', z_array FsListEntrySchema)]"

definition FsReadOutputSchema :: "json \<Rightarrow> bool" where
  "FsReadOutputSchema = z_strict
     [(''path'', nonEmptyString), (''content'', z_string), (''encoding'', z_enum [''utf8'']), (''bytesRead'', z_nat),
      (''truncated'', z_bool)]"

definition direntType :: "file_kind \<Rightarrow> string" where
  "direntType k =
     (case k of DirectoryKind \<Rightarrow> ''directory'' | FileKind \<Rightarrow> ''file'' | SymlinkKind \<Rightarrow> ''symlink'' | OtherKind \<Rightarrow> ''other'')"

definition list_entries ::
  "(string \<Rightarrow> string \<Rightarrow> int) \<Rightarrow> WorkspaceTarget \<Rightarrow> (string \<times> file_kind) list \<Rightarrow> json" where
  "list_entries collate target entries =
     JObj [(''path'', JStr (wt_relativePath target)),
       (''entries'', JArr (map (\<lambda>e. JObj [(''name'', JStr (fst e)), (''path'', JStr (fst (snd e))), (''type'', JStr (snd (snd e)))])
          (sort_by (\<lambda>l r. collate (fst (snd l)) (fst (snd r)) \<le> 0)
             (map (\<lambda>(name, kind). (name, toWorkspacePath (wt_workspaceRoot target)
                (path_resolve (wt_absolutePath target) name), direntType kind)) entries))))]"

text \<open>\<open>issues\<close> is the message of the error that a failed \<^verbatim>\<open>parse\<close> throws.\<close>

definition createFsListAdapter ::
  "(string \<Rightarrow> string) \<Rightarrow> (string \<Rightarrow> string \<Rightarrow> int) \<Rightarrow> (json \<Rightarrow> string) \<Rightarrow> file_system \<Rightarrow> AdapterExecutionInput \<Rightarrow>
   adapter_run \<times> string list" where
  "createFsListAdapter sha collate issues fs input =
     (let failed = (\<lambda>e. (Settles (adapterFailureFromUnknown sha e)));
          path = the_str (fstr (ei_args input) ''path'') in
      if \<not> FsListInputSchema (ei_args input) then (failed (ThrownError (Some (issues (ei_args input)))), [])
      else
        (case resolveExistingWorkspaceTarget fs (ei_workspaceRoot input) (ei_cwd input) path of
           Inl e \<Rightarrow> (failed e, [])
         | Inr target \<Rightarrow>
             (case fs_stat fs (wt_absolutePath target) of
                Inl e \<Rightarrow> (failed e, [wt_absolutePath target])
              | Inr (kind, sz) \<Rightarrow>
                  (if kind \<noteq> DirectoryKind
                   then Settles (adapterFailure sha ''not_directory'' (''Path '' @ path @ '' is not a directory.'') False)
                   else
                     (case fs_readdir fs (wt_absolutePath target) of
                        Inl e \<Rightarrow> failed e
                      | Inr entries \<Rightarrow> Settles (AdapterSuccess (list_entries collate target entries))),
                   [wt_absolutePath target]))))"

definition createFsReadAdapter ::
  "(string \<Rightarrow> string) \<Rightarrow> (json \<Rightarrow> string) \<Rightarrow> file_system \<Rightarrow> AdapterExecutionInput \<Rightarrow> adapter_run \<times> string list" where
  "createFsReadAdapter sha issues fs input =
     (let failed = (\<lambda>e. (Settles (adapterFailureFromUnknown sha e)));
          path = the_str (fstr (ei_args input) ''path'') in
      if \<not> FsReadInputSchema (ei_args input) then (failed (ThrownError (Some (issues (ei_args input)))), [])
      else
        (case resolveExistingWorkspaceTarget fs (ei_workspaceRoot input) (ei_cwd input) path of
           Inl e \<Rightarrow> (failed e, [])
         | Inr target \<Rightarrow>
             (case fs_stat fs (wt_absolutePath target) of
                Inl e \<Rightarrow> (failed e, [wt_absolutePath target])
              | Inr (kind, sz) \<Rightarrow>
                  (if kind \<noteq> FileKind
                   then Settles (adapterFailure sha ''not_file'' (''Path '' @ path @ '' is not a regular file.'') False)
                   else
                     let maxBytes = nat (default (el_maxBytes (ei_limits input)) DEFAULT_FS_READ_MAX_BYTES);
                         readLimit = min sz (maxBytes + 1) in
                     (case fs_read fs (wt_absolutePath target) readLimit of
                        Inl e \<Rightarrow> failed e
                      | Inr bytes \<Rightarrow>
                          let returnedBytes = min (length bytes) maxBytes in
                          Settles (AdapterSuccess (JObj
                            [(''path'', JStr (wt_relativePath target)),
                             (''content'', JStr (fs_utf8 fs (take returnedBytes bytes))), (''encoding'', JStr ''utf8''),
                             (''bytesRead'', JNum (int returnedBytes)),
                             (''truncated'', JBool (length bytes > maxBytes \<or> sz > maxBytes))]))),
                   [wt_absolutePath target]))))"

section \<open>The default registry\<close>

definition zod_of :: "(json \<Rightarrow> bool) \<Rightarrow> (json \<Rightarrow> string) \<Rightarrow> zod" where
  "zod_of P issues v = (if P v then Inr v else Inl (issues v))"

definition fs_definition ::
  "string \<Rightarrow> string \<Rightarrow> zod \<Rightarrow> zod \<Rightarrow> string \<Rightarrow> (AdapterExecutionInput \<Rightarrow> adapter_run) \<Rightarrow> int option \<Rightarrow> CapabilityDefinition" where
  "fs_definition tool description inputSchema outputSchema adapter execute maxBytes =
     \<lparr>cd_id = tool, cd_kind = ''filesystem'', cd_description = description, cd_version = ''0.1.0'',
      cd_inputSchema = inputSchema, cd_outputSchema = outputSchema,
      cd_adapter = \<lparr>ca_id = adapter, ca_version = ''0.1.0'', ca_kind = ''filesystem'', ca_execute = execute\<rparr>,
      cd_risk = Low, cd_requestedScopes = [''workspace:read''],
      cd_limits = \<lparr>cl_timeoutMs = Some DEFAULT_TOOL_TIMEOUT_MS, cl_maxBytes = maxBytes, cl_maxTokens = None\<rparr>,
      cd_cacheEnabled = False, cd_isolationTier = 0\<rparr>"

definition default_definitions ::
  "(string \<Rightarrow> string) \<Rightarrow> (string \<Rightarrow> string \<Rightarrow> int) \<Rightarrow> (json \<Rightarrow> string) \<Rightarrow> file_system \<Rightarrow> CapabilityDefinition list" where
  "default_definitions sha collate issues fs =
     [fs_definition ''fs.list'' ''List entries below a path in the configured workspace.''
        (zod_of FsListInputSchema issues) (zod_of FsListOutputSchema issues) ''adapters/filesystem/list''
        (fst \<circ> createFsListAdapter sha collate issues fs) None,
      fs_definition ''fs.read'' ''Read a UTF-8 file from the configured workspace.''
        (zod_of FsReadInputSchema issues) (zod_of FsReadOutputSchema issues) ''adapters/filesystem/read''
        (fst \<circ> createFsReadAdapter sha issues fs) (Some DEFAULT_FS_READ_MAX_BYTES)]"

definition createDefaultCapabilityRegistry ::
  "(string \<Rightarrow> string) \<Rightarrow> (string \<Rightarrow> string \<Rightarrow> int) \<Rightarrow> (json \<Rightarrow> string) \<Rightarrow> (CapabilityDefinition \<Rightarrow> string) \<Rightarrow> file_system \<Rightarrow>
   (ToolBrokerErrorCode \<times> string) + registry" where
  "createDefaultCapabilityRegistry sha collate issues def_issues fs =
     register_all def_issues [] (default_definitions sha collate issues fs)"

section \<open>Inside the workspace\<close>

lemma isPathInside_iff:
  "isPathInside root p \<longleftrightarrow> (\<exists>rest. segs_of p = segs_of root @ rest \<and> (rest = [] \<or> \<not> starts_with ''..'' (hd rest)))"
proof -
  obtain a b where ab: "strip_common (segs_of root) (segs_of p) = (a, b)" by fastforce
  obtain c where c: "segs_of root = c @ a" "segs_of p = c @ b"
    using strip_common_split [of "segs_of root" "segs_of p"] ab by auto
  have rest: "a = [] \<and> rest = b" if "segs_of p = segs_of root @ rest" for rest
    using that ab by (simp add: strip_common_prefix)
  show ?thesis
  proof (cases a)
    case Nil
    show ?thesis
    proof (cases b)
      case Nil
      then show ?thesis using \<open>a = []\<close> ab c by (auto simp: isPathInside_def path_relative_def)
    next
      case (Cons r rs)
      then have "good_segment r" using segs_of_good [of r p] c by simp
      then have "isPathInside root p \<longleftrightarrow> \<not> starts_with ''..'' r"
        using \<open>a = []\<close> Cons ab dots_head [of r rs] by (simp add: isPathInside_def path_relative_def)
      moreover have "(\<exists>rest. segs_of p = segs_of root @ rest \<and> (rest = [] \<or> \<not> starts_with ''..'' (hd rest))) \<longleftrightarrow>
          \<not> starts_with ''..'' r"
        using \<open>a = []\<close> Cons c by simp
      ultimately show ?thesis by simp
    qed
  next
    case (Cons x xs)
    then have "starts_with ''..'' (path_relative root p)" "path_relative root p \<noteq> []"
      using ab by (simp_all add: path_relative_def join_head starts_with_def)
    then have "\<not> isPathInside root p" by (simp add: isPathInside_def)
    then show ?thesis using Cons rest by auto
  qed
qed

lemma target_inside:
  "resolveExistingWorkspaceTarget fs root cwd path = Inr target \<Longrightarrow>
     fs_realpath fs root = Inr (wt_workspaceRoot target) \<and> (\<exists>p. fs_realpath fs p = Inr (wt_absolutePath target)) \<and>
     isPathInside (wt_workspaceRoot target) (wt_absolutePath target)"
  by (auto simp: resolveExistingWorkspaceTarget_def bindE_Inr_iff Let_def assertInsideWorkspace_def
      split: option.splits sum.splits if_splits adapter_exception.splits)

lemma list_accesses:
  "createFsListAdapter sha collate issues fs input = (run, accessed) \<Longrightarrow> p \<in> set accessed \<Longrightarrow>
     \<exists>target. resolveExistingWorkspaceTarget fs (ei_workspaceRoot input) (ei_cwd input)
       (the_str (fstr (ei_args input) ''path'')) = Inr target \<and> p = wt_absolutePath target"
  by (auto simp: createFsListAdapter_def Let_def split: if_splits sum.splits)

lemma read_accesses:
  "createFsReadAdapter sha issues fs input = (run, accessed) \<Longrightarrow> p \<in> set accessed \<Longrightarrow>
     \<exists>target. resolveExistingWorkspaceTarget fs (ei_workspaceRoot input) (ei_cwd input)
       (the_str (fstr (ei_args input) ''path'')) = Inr target \<and> p = wt_absolutePath target"
  by (auto simp: createFsReadAdapter_def Let_def split: if_splits sum.splits)

section \<open>The registry\<close>

definition registry_ok :: "registry \<Rightarrow> bool" where
  "registry_ok reg \<longleftrightarrow> distinct (map fst reg) \<and>
     list_all (\<lambda>(k, d). k = cd_id d \<and> CapabilityDefinitionSchema d \<and>
       isolationTierForKind (cd_kind d) = Some (cd_isolationTier d) \<and> ca_kind (cd_adapter d) = cd_kind d) reg"

lemma register_keeps: "registry_ok reg \<Longrightarrow> register issues reg d = Inr reg' \<Longrightarrow> registry_ok reg'"
  by (auto simp: registry_ok_def register_def assertValidCapabilityDefinition_def map_of_eq_None_iff
      split: option.splits if_splits)

lemma register_all_ok: "registry_ok reg \<Longrightarrow> register_all issues reg ds = Inr reg' \<Longrightarrow> registry_ok reg'"
  by (induction issues reg ds rule: register_all.induct) (auto split: sum.splits intro: register_keeps)

lemma fs_definition_valid:
  assumes "tool \<noteq> []" "description \<noteq> []" "adapter \<noteq> []" "positive_opt maxBytes"
  shows "assertValidCapabilityDefinition issues (fs_definition tool description i v adapter run maxBytes) = None"
  using assms
  by (simp add: fs_definition_def assertValidCapabilityDefinition_def CapabilityDefinitionSchema_def CapabilityAdapterSchema_def
      CapabilityLimitsSchema_def CAPABILITY_KINDS_def isIsolationTier_def isolationTierForKind_def
      CAPABILITY_KIND_ISOLATION_TIERS_def positive_opt_def DEFAULT_TOOL_TIMEOUT_MS_def)

lemma fs_definition_id: "cd_id (fs_definition tool description i v adapter run maxBytes) = tool"
  by (simp add: fs_definition_def)

lemma default_registry_built:
  "\<exists>reg. createDefaultCapabilityRegistry sha collate issues def_issues fs = Inr reg \<and> map fst reg = [''fs.list'', ''fs.read'']"
  unfolding createDefaultCapabilityRegistry_def default_definitions_def
  by (simp add: register_def fs_definition_valid fs_definition_id positive_opt_def DEFAULT_FS_READ_MAX_BYTES_def)

section \<open>Properties\<close>

text \<open>A file system with one file, for the examples.\<close>

definition one_file :: "string \<Rightarrow> string \<Rightarrow> file_system" where
  "one_file name content =
     \<lparr>fs_realpath = \<lambda>p. Inr p,
      fs_stat = \<lambda>p. if p = name then Inr (FileKind, length content) else Inl ThrownENOENT,
      fs_readdir = \<lambda>p. Inl ThrownEACCES,
      fs_read = \<lambda>p n. if p = name then Inr (take n content) else Inl ThrownENOENT, fs_utf8 = \<lambda>b. b\<rparr>"

definition read_input :: "string \<Rightarrow> int \<Rightarrow> AdapterExecutionInput" where
  "read_input path maxBytes =
     \<lparr>ei_args = JObj [(''path'', JStr path)], ei_runId = ''run'', ei_phase = ''plan'', ei_cwd = ''/w'', ei_workspaceRoot = ''/w'',
      ei_traceId = ''t'', ei_limits = \<lparr>el_timeoutMs = 10, el_maxBytes = Some maxBytes, el_maxTokens = None\<rparr>\<rparr>"

text \<open>
  C33: The file system adapters stay inside the workspace. Whatever the arguments and the working
  directory are, with absolute paths, dots and symbolic links, every path that an adapter accesses is a
  real path that lies below the real path of the workspace root, segment by segment.
\<close>

theorem adapters_stay_inside_workspace:
  assumes "createFsReadAdapter sha issues fs input = (run, accessed) \<or>
      createFsListAdapter sha collate issues fs input = (run, accessed)"
    and "p \<in> set accessed"
  shows "\<exists>root rest. fs_realpath fs (ei_workspaceRoot input) = Inr root \<and> segs_of p = segs_of root @ rest \<and>
    ''..'' \<notin> set rest \<and> (\<exists>p0. fs_realpath fs p0 = Inr p)"
proof -
  obtain target where t: "resolveExistingWorkspaceTarget fs (ei_workspaceRoot input) (ei_cwd input)
      (the_str (fstr (ei_args input) ''path'')) = Inr target" "p = wt_absolutePath target"
    using assms read_accesses list_accesses by metis
  from target_inside [OF t(1)] t(2) obtain rest where r: "segs_of p = segs_of (wt_workspaceRoot target) @ rest"
    by (auto simp: isPathInside_iff)
  have "''..'' \<notin> set rest" using segs_of_good [of "''..''" p] r by (auto simp: good_segment_def)
  then show ?thesis using target_inside [OF t(1)] t(2) r by auto
qed

lemma example_read:
  "createFsReadAdapter (\<lambda>s. s) (\<lambda>v. ''bad'') (one_file ''/w/a'' ''abc'') (read_input ''./b/../a'' 2) =
     (Settles (AdapterSuccess (JObj [(''path'', JStr ''a''), (''content'', JStr ''ab''), (''encoding'', JStr ''utf8''),
        (''bytesRead'', JNum 2), (''truncated'', JBool True)])), [''/w/a''])"
  by (simp add: createFsReadAdapter_def read_input_def FsReadInputSchema_def z_strict_def js_get_def toolPathSchema_def
      z_optional_def fstr_def the_str_def resolveExistingWorkspaceTarget_def one_file_def resolvePathInsideWorkspace_def
      isAbsolute_def starts_with_def path_resolve_def segs_of_def abs_path_def assertInsideWorkspace_def isPathInside_def
      path_relative_def toWorkspacePath_def Let_def)

theorem adapters_stay_inside_workspace_witness:
  "\<exists>root rest. fs_realpath (one_file ''/w/a'' ''abc'') ''/w'' = Inr root \<and> segs_of ''/w/a'' = segs_of root @ rest"
  using adapters_stay_inside_workspace [OF disjI1, OF example_read, of "''/w/a''"] by (auto simp: read_input_def)

text \<open>What a file system that holds the contents \<open>data\<close> answers.\<close>

definition fs_holds :: "file_system \<Rightarrow> (string \<Rightarrow> string) \<Rightarrow> bool" where
  "fs_holds fs data \<longleftrightarrow>
     (\<forall>q n. fs_stat fs q = Inr (FileKind, n) \<longrightarrow> n = length (data q)) \<and>
     (\<forall>q n b. fs_read fs q n = Inr b \<longrightarrow> b = take n (data q))"

text \<open>
  A successful read returns the prefix of the file that the byte limit allows: on a file
  system whose files have the contents \<open>data\<close>, the content is the decoding of the first \<open>maxBytes\<close>
  bytes, the count is the number of these bytes, and the result is marked as truncated exactly if the
  file is longer than the limit.
\<close>

theorem read_returns_prefix:
  assumes files: "fs_holds fs data"
    and run: "createFsReadAdapter sha issues fs input = (Settles (AdapterSuccess v), [p])"
    and limit: "el_maxBytes (ei_limits input) = Some m"
  shows "js_get v ''content'' = JStr (fs_utf8 fs (take (nat m) (data p))) \<and>
    js_get v ''bytesRead'' = JNum (int (min (length (data p)) (nat m))) \<and>
    js_get v ''truncated'' = JBool (length (data p) > nat m)"
proof -
  from run limit obtain sz bytes rel where stat: "fs_stat fs p = Inr (FileKind, sz)"
    and read: "fs_read fs p (min sz (nat m + 1)) = Inr bytes"
    and v: "v = JObj [(''path'', JStr rel), (''content'', JStr (fs_utf8 fs (take (min (length bytes) (nat m)) bytes))),
      (''encoding'', JStr ''utf8''), (''bytesRead'', JNum (int (min (length bytes) (nat m)))),
      (''truncated'', JBool (length bytes > nat m \<or> sz > nat m))]"
    by (auto simp: createFsReadAdapter_def adapterFailureFromUnknown_def adapterFailure_def Let_def
        split: if_splits sum.splits adapter_exception.splits)
  from files stat read have sz: "sz = length (data p)" and b: "bytes = take (min sz (nat m + 1)) (data p)"
    unfolding fs_holds_def by blast+
  have "bytes = take (Suc (nat m)) (data p)" using b sz by (simp add: min_def)
  then show ?thesis by (auto simp: v sz js_get_def min_def)
qed

theorem read_returns_prefix_witness:
  "fs_holds (one_file ''/w/a'' ''abc'') (\<lambda>p. ''abc'') \<and> take (nat 2) ''abc'' = ''ab''"
proof -
  have "fs_holds (one_file ''/w/a'' ''abc'') (\<lambda>p. ''abc'')" by (auto simp: fs_holds_def one_file_def split: if_splits)
  moreover from read_returns_prefix [OF this example_read, of 2]
  have "take (nat 2) ''abc'' = ''ab''" by (simp add: read_input_def js_get_def one_file_def)
  ultimately show ?thesis by blast
qed

text \<open>
  A registry holds each tool once, under its own identifier, with a definition that satisfies its
  schema, the isolation tier of its kind and an adapter of that kind, whatever definitions it was built
  from; the default registry can be built and its tools are admitted.
\<close>

theorem registered_definitions_are_valid:
  "(register_all def_issues [] ds = Inr reg \<longrightarrow> registry_ok reg) \<and>
   (\<exists>reg. createDefaultCapabilityRegistry sha collate issues def_issues fs = Inr reg \<and> registry_ok reg \<and>
      map fst reg = [''fs.list'', ''fs.read''])"
proof -
  have "registry_ok []" by (simp add: registry_ok_def)
  then have valid: "registry_ok r" if "register_all def_issues [] xs = Inr r" for xs r
    using that by (rule register_all_ok)
  obtain r where "createDefaultCapabilityRegistry sha collate issues def_issues fs = Inr r" "map fst r = [''fs.list'', ''fs.read'']"
    using default_registry_built [of sha collate issues def_issues fs] by (elim exE conjE) (rule that)
  moreover from this(1) have "registry_ok r" unfolding createDefaultCapabilityRegistry_def by (rule valid)
  ultimately show ?thesis by (intro conjI impI exI [of _ r]) (erule valid, assumption+)
qed

theorem registered_definitions_are_valid_witness:
  "\<exists>reg. register_all (\<lambda>d. ''bad'') [] (default_definitions (\<lambda>s. s) (\<lambda>a b. 0) (\<lambda>v. ''bad'') (one_file ''/a'' ''b'')) = Inr reg \<and>
     registry_ok reg"
proof -
  obtain reg where "createDefaultCapabilityRegistry (\<lambda>s. s) (\<lambda>a b. 0) (\<lambda>v. ''bad'') (\<lambda>d. ''bad'') (one_file ''/a'' ''b'') = Inr reg"
    "registry_ok reg"
    using registered_definitions_are_valid [of "\<lambda>d. ''bad''" "[]" "[]" "\<lambda>s. s" "\<lambda>a b. 0" "\<lambda>v. ''bad''" "one_file ''/a'' ''b''"]
    by (elim conjE exE) (rule that)
  then show ?thesis unfolding createDefaultCapabilityRegistry_def by (intro exI conjI)
qed

end
