(* ===== verification/Gate_Definition.thy ===== *)
theory Gate_Definition
  imports Js_Readers
begin

text \<open>
  Validation of gate definitions, \<^verbatim>\<open>gate-engine/src/definition.ts\<close>, and the schemas that a
  model-assisted check declares, \<^verbatim>\<open>gate-engine/src/schema-declaration.ts\<close>. A definition is a JSON
  value; a validation is \<open>None\<close> when it succeeds and its finding otherwise. A schema is the predicate
  of the values it accepts; a declaration that is itself a schema object of the schema library is no
  JSON value and does not occur.
\<close>

section \<open>Declared schemas\<close>

definition hasOwn :: "(string \<times> json) list \<Rightarrow> string \<Rightarrow> bool" where
  "hasOwn ps k \<longleftrightarrow> map_of ps k \<noteq> None"

definition enum_schema :: "json \<Rightarrow> (json \<Rightarrow> bool) option" where
  "enum_schema v =
     (case v of
        JArr xs \<Rightarrow>
          let values = only_strs xs in
          if length values \<noteq> length xs \<or> length values = 0 then None else Some (z_enum values)
      | _ \<Rightarrow> None)"

definition object_schema :: "bool \<Rightarrow> string list \<Rightarrow> (string \<times> (json \<Rightarrow> bool)) list \<Rightarrow> json \<Rightarrow> bool" where
  "object_schema closed required shape v =
     (case v of
        JObj ps \<Rightarrow>
          (\<not> closed \<or> list_all (\<lambda>p. fst p \<in> set (map fst shape)) ps) \<and>
          list_all (\<lambda>f. if fst f \<in> set required then snd f (js_get v (fst f))
                        else z_optional (snd f) (js_get v (fst f))) shape
      | _ \<Rightarrow> False)"

text \<open>All the schemas of a list, or none when one is missing.\<close>

fun all_some :: "(string \<times> 'a option) list \<Rightarrow> (string \<times> 'a) list option" where
  "all_some [] = Some []"
| "all_some ((k, x) # r) =
     (case x of None \<Rightarrow> None | Some y \<Rightarrow> map_option ((#) (k, y)) (all_some r))"

lemma size_js_get: "js_get (JObj ps) k = w \<Longrightarrow> w \<noteq> JUndefined \<Longrightarrow> size w < size (JObj ps)"
  using size_member [of "(k, w)" ps] by (auto simp: js_get_def dest: map_of_SomeD split: option.splits)

function zodSchemaFromDeclaration :: "json \<Rightarrow> (json \<Rightarrow> bool) option" where
  "zodSchemaFromDeclaration declaration =
     (case declaration of
        JObj ps \<Rightarrow>
          if hasOwn ps ''enum'' then enum_schema (js_get declaration ''enum'')
          else
            (case js_get declaration ''type'' of
               JStr type \<Rightarrow>
                 if type = ''object'' then
                   (if js_get declaration ''required'' \<noteq> JUndefined \<and>
                       \<not> isStringArray (js_get declaration ''required'') then None
                    else
                      let required = unique (default (fstrs declaration ''required'') []);
                          closed = (js_get declaration ''additionalProperties'' = JBool False) in
                      (case js_get declaration ''properties'' of
                         JUndefined \<Rightarrow> if required \<noteq> [] then None else Some (object_schema closed required [])
                       | JObj properties \<Rightarrow>
                           if \<not> list_all (hasOwn properties) required then None
                           else
                             map_option (object_schema closed required)
                               (all_some (map (\<lambda>p. (fst p, zodSchemaFromDeclaration (snd p))) properties))
                       | _ \<Rightarrow> None))
                 else if type = ''array'' then
                   (if js_get declaration ''items'' = JUndefined then Some (z_array (\<lambda>_. True))
                    else map_option z_array (zodSchemaFromDeclaration (js_get declaration ''items'')))
                 else if type = ''string'' then Some (\<lambda>v. js_str v \<noteq> None)
                 else if type = ''number'' \<or> type = ''integer'' then Some (\<lambda>v. js_num v \<noteq> None)
                 else if type = ''boolean'' then Some (\<lambda>v. case v of JBool b \<Rightarrow> True | _ \<Rightarrow> False)
                 else if type = ''null'' then Some (\<lambda>v. v = JNull)
                 else None
             | _ \<Rightarrow> None)
      | _ \<Rightarrow> None)"
  by pat_completeness auto

termination
proof (relation "measure size", goal_cases)
  case 1
  show ?case by simp
next
  case (2 d ps x5 required closed properties p)
  then show ?case
    using size_js_get [of ps "''properties''" "JObj properties"] size_member [of p properties] by auto
next
  case (3 d ps type)
  then show ?case using size_js_get [of ps "''items''"] by auto
qed

declare zodSchemaFromDeclaration.simps [simp del]

section \<open>Validation\<close>

record GateDefinitionFinding =
  df_id :: string
  df_message :: string
  df_targetRef :: "string option"

definition KNOWN_GATE_KINDS :: "string list" where
  "KNOWN_GATE_KINDS = [''entry'', ''exit'', ''action'', ''artifact'', ''eval'', ''repair'']"

definition KNOWN_CHECK_TYPES :: "string list" where
  "KNOWN_CHECK_TYPES =
     [''deterministic'', ''schema'', ''policy'', ''eval'', ''evidence'', ''model_assisted'', ''human_review'']"

definition gateFailureActions :: "string list" where
  "gateFailureActions =
     [''repair'', ''create_repair_task'', ''clarify'', ''request_clarification'', ''approve'',
      ''request_approval'', ''pause_for_human'', ''fail_run'']"

definition gatePassActions :: "string list" where
  "gatePassActions = [''continue'', ''transition_phase'']"

definition malformedDefinition :: "string \<Rightarrow> GateDefinitionFinding" where
  "malformedDefinition message =
     \<lparr>df_id = ''gate.definition.malformed'', df_message = message, df_targetRef = Some ''gate:unknown''\<rparr>"

definition malformedOnFail :: "string \<Rightarrow> GateDefinitionFinding" where
  "malformedOnFail gateId =
     \<lparr>df_id = ''gate.onFail.malformed'', df_message = ''Gate definition '' @ gateId @ '' has malformed onFail'',
      df_targetRef = Some (''gate:'' @ gateId)\<rparr>"

definition malformedOnPass :: "string \<Rightarrow> GateDefinitionFinding" where
  "malformedOnPass gateId =
     \<lparr>df_id = ''gate.onPass.malformed'', df_message = ''Gate definition '' @ gateId @ '' has malformed onPass'',
      df_targetRef = Some (''gate:'' @ gateId)\<rparr>"

definition invalidModelAssistedCheck :: "string \<Rightarrow> string \<Rightarrow> string \<Rightarrow> string \<Rightarrow> GateDefinitionFinding" where
  "invalidModelAssistedCheck gateId checkKey suffix message =
     \<lparr>df_id = ''gate.check.'' @ checkKey @ ''.'' @ suffix, df_message = message,
      df_targetRef = Some (''gate:'' @ gateId @ ''/check:'' @ checkKey)\<rparr>"

definition checkAddress :: "json \<Rightarrow> nat \<Rightarrow> string" where
  "checkAddress check index =
     (if is_record check \<and> isNonEmptyString (js_get check ''id'') then the_str (fstr check ''id'')
      else nat_str index)"

definition isValidOnInvalidOutput :: "json \<Rightarrow> bool" where
  "isValidOnInvalidOutput v \<longleftrightarrow> v = JUndefined \<or> v = JStr ''fail''"

definition rubric_ok :: "json \<Rightarrow> bool" where
  "rubric_ok v \<longleftrightarrow> is_record v \<and> isNonEmptyString (js_get v ''ref'') \<and> isNonEmptyString (js_get v ''hash'')"

definition validateModelAssistedCheck :: "json \<Rightarrow> string \<Rightarrow> string \<Rightarrow> GateDefinitionFinding option" where
  "validateModelAssistedCheck check gateId checkKey =
     (let invalid = (\<lambda>suffix what. Some (invalidModelAssistedCheck gateId checkKey suffix
            (''Gate definition '' @ gateId @ '' model-assisted check '' @ checkKey @ '' must declare '' @ what))) in
      if \<not> isNonEmptyString (js_get check ''modelTool'')
      then invalid ''missing_modelTool'' ''a non-empty modelTool''
      else if zodSchemaFromDeclaration (js_get check ''inputSchema'') = None
      then invalid ''invalid_inputSchema'' ''a supported inputSchema''
      else if zodSchemaFromDeclaration (js_get check ''outputSchema'') = None
      then invalid ''invalid_outputSchema'' ''a supported outputSchema''
      else if \<not> rubric_ok (js_get check ''rubric'')
      then invalid ''invalid_rubric'' ''rubric.ref and rubric.hash''
      else if \<not> isStringArray (js_get check ''allowedContextRefs'') \<or>
              js_elems (js_get check ''allowedContextRefs'') = [] \<or>
              list_ex (\<lambda>ref. \<not> isNonEmptyString ref) (js_elems (js_get check ''allowedContextRefs''))
      then invalid ''invalid_allowedContextRefs'' ''non-empty allowedContextRefs''
      else if \<not> isPositiveInteger (js_get check ''maxTokens'')
      then invalid ''invalid_maxTokens'' ''a positive integer maxTokens''
      else if \<not> isValidOnInvalidOutput (js_get check ''onInvalidOutput'')
      then invalid ''invalid_onInvalidOutput'' ''onInvalidOutput as fail until retry behavior is implemented''
      else None)"

text \<open>The loop over the checks; \<open>index\<close> is the position of the next one.\<close>

fun validate_checks_from :: "string \<Rightarrow> nat \<Rightarrow> json list \<Rightarrow> GateDefinitionFinding option" where
  "validate_checks_from gateId index [] = None"
| "validate_checks_from gateId index (check # checks) =
     (let checkKey = checkAddress check index; at = Some (''gate:'' @ gateId @ ''/check:'' @ checkKey) in
      if \<not> is_record check
      then Some \<lparr>df_id = ''gate.check.'' @ checkKey @ ''.malformed'',
                 df_message = ''Gate check '' @ checkKey @ '' is malformed'', df_targetRef = at\<rparr>
      else if \<not> list_ex (\<lambda>t. js_get check ''type'' = JStr t) KNOWN_CHECK_TYPES
      then Some \<lparr>df_id = ''gate.check.'' @ checkKey @ ''.unknown_type'',
                 df_message = ''Gate check '' @ checkKey @ '' declares unknown type '' @ js_String (js_get check ''type''),
                 df_targetRef = at\<rparr>
      else
        (case (if js_get check ''type'' = JStr ''model_assisted'' then validateModelAssistedCheck check gateId checkKey
               else None) of
           Some finding \<Rightarrow> Some finding
         | None \<Rightarrow> validate_checks_from gateId (Suc index) checks))"

definition validateChecks :: "json \<Rightarrow> string \<Rightarrow> GateDefinitionFinding option" where
  "validateChecks d gateId =
     (case js_get d ''checks'' of
        JUndefined \<Rightarrow> None
      | JArr checks \<Rightarrow> validate_checks_from gateId 0 checks
      | _ \<Rightarrow> Some \<lparr>df_id = ''gate.checks.malformed'',
                 df_message = ''Gate definition '' @ gateId @ '' has malformed checks'',
                 df_targetRef = Some (''gate:'' @ gateId)\<rparr>)"

definition is_action :: "string list \<Rightarrow> json \<Rightarrow> bool" where
  "is_action actions v = (case v of JStr a \<Rightarrow> a \<in> set actions | _ \<Rightarrow> False)"

definition validateOnFail :: "json \<Rightarrow> string \<Rightarrow> GateDefinitionFinding option" where
  "validateOnFail onFail gateId =
     (case onFail of
        JUndefined \<Rightarrow> None
      | JStr action \<Rightarrow> if action \<in> set gateFailureActions then None else Some (malformedOnFail gateId)
      | JObj ps \<Rightarrow>
          if js_get onFail ''action'' \<noteq> JUndefined \<and> \<not> is_action gateFailureActions (js_get onFail ''action'')
          then Some (malformedOnFail gateId)
          else if list_ex (\<lambda>field. js_get onFail field \<noteq> JUndefined \<and> fstr onFail field = None)
                 [''questionTemplate'', ''approvalReason'', ''repairHint'', ''targetRef'', ''successGate'',
                  ''expectedAnswerSchema'']
          then Some (malformedOnFail gateId)
          else if js_get onFail ''successGate'' \<noteq> JUndefined \<and> \<not> isNonEmptyString (js_get onFail ''successGate'')
          then Some (malformedOnFail gateId)
          else if list_ex (\<lambda>field. js_get onFail field \<noteq> JUndefined \<and> \<not> isStringArray (js_get onFail field))
                 [''allowedTools'', ''blockedTools'', ''requiredEvidenceRefs'']
          then Some (malformedOnFail gateId)
          else (case js_get onFail ''obligations'' of
                  JUndefined \<Rightarrow> None | JArr xs \<Rightarrow> None | _ \<Rightarrow> Some (malformedOnFail gateId))
      | _ \<Rightarrow> Some (malformedOnFail gateId))"

definition validateOnPass :: "json \<Rightarrow> string \<Rightarrow> GateDefinitionFinding option" where
  "validateOnPass onPass gateId =
     (case onPass of
        JUndefined \<Rightarrow> None
      | JObj ps \<Rightarrow>
          if js_get onPass ''action'' \<noteq> JUndefined \<and> \<not> is_action gatePassActions (js_get onPass ''action'')
          then Some (malformedOnPass gateId)
          else if js_get onPass ''action'' = JStr ''transition_phase'' \<and>
                  \<not> isNonEmptyString (js_get onPass ''targetPhase'')
          then Some (malformedOnPass gateId)
          else if js_get onPass ''targetPhase'' \<noteq> JUndefined \<and> fstr onPass ''targetPhase'' = None
          then Some (malformedOnPass gateId)
          else (case js_get onPass ''obligations'' of
                  JUndefined \<Rightarrow> None | JArr xs \<Rightarrow> None | _ \<Rightarrow> Some (malformedOnPass gateId))
      | _ \<Rightarrow> Some (malformedOnPass gateId))"

definition validateGateDefinition :: "json \<Rightarrow> GateDefinitionFinding option" where
  "validateGateDefinition d =
     (if \<not> is_record d \<or> \<not> isNonEmptyString (js_get d ''id'')
      then Some (malformedDefinition ''Gate definition must declare a non-empty id'')
      else
        let gateId = the_str (fstr d ''id'') in
        if \<not> list_ex (\<lambda>k. js_get d ''kind'' = JStr k) KNOWN_GATE_KINDS
        then Some \<lparr>df_id = ''gate.kind.unknown'',
                   df_message = ''Gate definition '' @ gateId @ '' declares unknown kind '' @ js_String (js_get d ''kind''),
                   df_targetRef = Some (''gate:'' @ gateId)\<rparr>
        else
          (case validateChecks d gateId of
             Some f \<Rightarrow> Some f
           | None \<Rightarrow>
               (case validateOnFail (js_get d ''onFail'') gateId of
                  Some f \<Rightarrow> Some f
                | None \<Rightarrow> validateOnPass (js_get d ''onPass'') gateId)))"

section \<open>What a valid definition has\<close>

definition definition_checks :: "json \<Rightarrow> json list" where
  "definition_checks d = js_elems (js_get d ''checks'')"

lemma validate_checks_known:
  "validate_checks_from gateId i checks = None \<Longrightarrow> c \<in> set checks \<Longrightarrow>
     is_record c \<and> (\<exists>t \<in> set KNOWN_CHECK_TYPES. js_get c ''type'' = JStr t) \<and>
     (js_get c ''type'' = JStr ''model_assisted'' \<longrightarrow>
        zodSchemaFromDeclaration (js_get c ''inputSchema'') \<noteq> None \<and>
        zodSchemaFromDeclaration (js_get c ''outputSchema'') \<noteq> None \<and> rubric_ok (js_get c ''rubric'') \<and>
        isPositiveInteger (js_get c ''maxTokens''))"
proof (induction gateId i checks rule: validate_checks_from.induct)
  case (2 gateId index check checks)
  then show ?case
    by (auto simp: Let_def list_ex_iff validateModelAssistedCheck_def split: if_splits option.splits)
qed simp

lemma valid_definition:
  assumes "validateGateDefinition d = None"
  shows "is_record d" "isNonEmptyString (js_get d ''id'')"
    "c \<in> set (definition_checks d) \<Longrightarrow> is_record c \<and> (\<exists>t \<in> set KNOWN_CHECK_TYPES. js_get c ''type'' = JStr t)"
    "validateOnFail (js_get d ''onFail'') (the_str (fstr d ''id'')) = None"
    "validateOnPass (js_get d ''onPass'') (the_str (fstr d ''id'')) = None"
  using assms validate_checks_known [of "the_str (fstr d ''id'')" 0 _ c]
  by (auto simp: validateGateDefinition_def Let_def validateChecks_def definition_checks_def js_elems_def
      split: if_splits option.splits json.splits)

end
