(* ===== verification/Gate_Checks.thy ===== *)
theory Gate_Checks
  imports Gate_Definition
begin

text \<open>
  The checks of a gate, \<^verbatim>\<open>evaluateCheck\<close> of \<^verbatim>\<open>gate-engine/src/index.ts\<close> with the functions that
  read the evaluation input: paths, schema targets, evidence references and policy verdicts. Gate
  definitions, checks and the evaluation input are JSON values; an absent input is \<^verbatim>\<open>JUndefined\<close>.
\<close>

section \<open>Findings and evaluations\<close>

record GateFinding =
  gf_id :: string
  gf_severity :: string
  gf_message :: string
  gf_evidenceRefs :: "string list"
  gf_targetRef :: "string option"
  gf_repairHint :: "string option"

text \<open>The required action of a failed check and whether it bypasses \<^verbatim>\<open>onFail\<close>; the action of a review.\<close>

datatype CheckEvaluation =
    CheckPass (ce_evidenceRefs: "string list")
  | CheckFail GateFinding "string option" bool (ce_evidenceRefs: "string list")
  | CheckReview GateFinding string (ce_evidenceRefs: "string list")

definition makeFinding ::
  "string \<Rightarrow> string \<Rightarrow> string \<Rightarrow> string option \<Rightarrow> string list option \<Rightarrow> string option \<Rightarrow> GateFinding" where
  "makeFinding fid severity message targetRef evidenceRefs repairHint =
     \<lparr>gf_id = fid, gf_severity = severity, gf_message = message, gf_evidenceRefs = default evidenceRefs [],
      gf_targetRef = targetRef, gf_repairHint = repairHint\<rparr>"

section \<open>Reading the input\<close>

text \<open>The properties of the spread \<^verbatim>\<open>data\<close> that the fixed ones do not replace come first.\<close>

definition scope_fields :: "json \<Rightarrow> (string \<times> json) list" where
  "scope_fields input =
     [(''runId'', js_get input ''runId''), (''phase'', js_get input ''phase''),
      (''runInput'', js_get input ''runInput''), (''run_input'', js_get input ''runInput''),
      (''artifacts'', js_get input ''artifacts''), (''evidence'', js_get input ''evidence''),
      (''evidence_graph'', js_get input ''evidence''), (''evals'', js_get input ''evals''),
      (''decisions'', js_get input ''decisions''), (''policy'', js_get input ''policy'')]"

definition evaluationScope :: "json \<Rightarrow> json" where
  "evaluationScope input =
     JObj (filter (\<lambda>p. fst p \<notin> set (map fst (scope_fields input)))
             (case js_get input ''data'' of JObj ps \<Rightarrow> ps | _ \<Rightarrow> []) @ scope_fields input)"

definition path_step :: "string \<Rightarrow> json list \<Rightarrow> json list" where
  "path_step segment currentValues =
     (let wildcard = ends_with ''[*]'' segment;
          key = (if wildcard then take (length segment - 3) segment else segment) in
      concat (map (\<lambda>value.
        if \<not> is_record value then []
        else if wildcard then js_elems (js_get value key)
        else [js_get value key]) currentValues))"

definition readPathValues :: "json \<Rightarrow> string \<Rightarrow> json list" where
  "readPathValues root path =
     (if path = ''$'' then [root]
      else if \<not> starts_with ''$.'' path then []
      else fold path_step (split_on CHR ''.'' (drop 2 path)) [root])"

definition fieldPresent :: "json \<Rightarrow> string \<Rightarrow> bool" where
  "fieldPresent target field =
     (let values = (if CHR ''.'' \<in> set field then readPathValues target (''$.'' @ field)
                    else if is_record target then [js_get target field] else []) in
      values \<noteq> [] \<and> list_all isPresent values)"

definition isPolicyVerdict :: "json \<Rightarrow> bool" where
  "isPolicyVerdict v \<longleftrightarrow> is_record v \<and> fstr v ''status'' \<noteq> None"

definition policyVerdictMatches :: "json \<Rightarrow> string option \<Rightarrow> bool" where
  "policyVerdictMatches verdict i =
     (case i of None \<Rightarrow> True
      | Some s \<Rightarrow> js_get verdict ''id'' = JStr s \<or> js_get verdict ''policyId'' = JStr s \<or>
                  js_get verdict ''requestId'' = JStr s)"

definition findPolicyVerdict :: "json \<Rightarrow> string option \<Rightarrow> json" where
  "findPolicyVerdict policy i =
     (case policy of
        JUndefined \<Rightarrow> JUndefined
      | JArr verdicts \<Rightarrow> default (find (\<lambda>v. policyVerdictMatches v i) verdicts) JUndefined
      | _ \<Rightarrow>
          if isPolicyVerdict policy
          then (if i = None \<or> policyVerdictMatches policy i then policy else JUndefined)
          else (case i of None \<Rightarrow> JUndefined | Some s \<Rightarrow> js_get policy s))"

definition invalidArtifactReason :: "json \<Rightarrow> string option" where
  "invalidArtifactReason target =
     (if \<not> is_record target then Some ''Artifact target is not an object''
      else if js_get target ''valid'' = JBool False \<or> js_get target ''schemaValid'' = JBool False
      then Some ''Artifact schema validation failed''
      else if js_get target ''status'' = JStr ''invalid'' then Some ''Artifact status is invalid''
      else None)"

definition schemaTarget :: "json \<Rightarrow> json \<Rightarrow> json" where
  "schemaTarget check input =
     (case fstr check ''path'' of
        Some path \<Rightarrow> (case readPathValues (evaluationScope input) path of [] \<Rightarrow> JUndefined | v # _ \<Rightarrow> v)
      | None \<Rightarrow>
          (case fstr check ''artifactId'' of
             None \<Rightarrow> JUndefined
           | Some artifactId \<Rightarrow>
               let artifact = js_get (js_get input ''artifacts'') artifactId in
               if artifact = JUndefined then JUndefined
               else if invalidArtifactReason artifact \<noteq> None then artifact
               else nullish (js_get artifact ''content'') artifact))"

definition targetRefForTarget :: "json \<Rightarrow> json \<Rightarrow> string option" where
  "targetRefForTarget target check =
     (case fstr check ''artifactId'' of
        Some artifactId \<Rightarrow> Some (''artifact:'' @ artifactId)
      | None \<Rightarrow>
          (case (if is_record target then fstr target ''artifactId'' else None) of
             Some artifactId \<Rightarrow> Some (''artifact:'' @ artifactId)
           | None \<Rightarrow> fstr check ''path''))"

definition evidenceRefsForTarget :: "json \<Rightarrow> string list" where
  "evidenceRefsForTarget target =
     (if is_record target then default (fstrs target ''evidenceRefs'') [] else [])"

definition evidenceRefsForCheck :: "json \<Rightarrow> json \<Rightarrow> string list" where
  "evidenceRefsForCheck check input =
     (case fstrs check ''evidenceRefs'' of
        Some refs \<Rightarrow> refs
      | None \<Rightarrow>
          (case fstr check ''artifactId'' of
             Some artifactId \<Rightarrow>
               default (fstrs (js_get (js_get input ''artifacts'') artifactId) ''evidenceRefs'') []
           | None \<Rightarrow>
               (case fstr check ''path'' of
                  Some path \<Rightarrow>
                    concat (map (\<lambda>value.
                      (case value of JArr xs \<Rightarrow> only_strs xs | JStr s \<Rightarrow> [s] | _ \<Rightarrow> []))
                      (readPathValues (evaluationScope input) path))
                | None \<Rightarrow> [])))"

definition refMatchesRecord :: "string \<Rightarrow> json \<Rightarrow> bool" where
  "refMatchesRecord ref entry \<longleftrightarrow>
     is_record entry \<and> (js_get entry ''id'' = JStr ref \<or> js_get entry ''ref'' = JStr ref \<or>
                        js_get entry ''evidenceRef'' = JStr ref)"

definition hasEvidenceRef :: "json \<Rightarrow> string \<Rightarrow> bool" where
  "hasEvidenceRef evidence ref \<longleftrightarrow>
     evidence \<noteq> JUndefined \<and>
     (JStr ref \<in> set (js_elems (js_get evidence ''evidenceRefs'')) \<or>
      (is_record (js_get evidence ''refs'') \<and> js_get (js_get evidence ''refs'') ref \<noteq> JUndefined) \<or>
      list_ex (\<lambda>name. list_ex (refMatchesRecord ref) (js_elems (js_get evidence name)))
        [''items'', ''sources'', ''records''] \<or>
      js_get evidence ref \<noteq> JUndefined)"

section \<open>Required inputs\<close>

record MissingInput =
  mi_id :: string
  mi_message :: string
  mi_targetRef :: "string option"

definition inputValueByName :: "string \<Rightarrow> json \<Rightarrow> json" where
  "inputValueByName name input =
     (let data = js_get input ''data''; g = js_get input in
      if input = JUndefined then JUndefined
      else if name = ''run_input'' then nullish (g ''runInput'') (js_get data ''run_input'')
      else if name = ''evidence_graph'' then nullish (g ''evidence'') (js_get data ''evidence_graph'')
      else if name \<in> {''runInput'', ''evidence'', ''artifacts'', ''evals'', ''decisions'', ''policy''} then g name
      else
        nullish (js_get data name) (nullish (js_get (g ''artifacts'') name)
          (nullish (js_get (g ''evals'') name) (nullish (js_get (g ''decisions'') name)
            (findPolicyVerdict (g ''policy'') (Some name))))))"

text \<open>\<open>kind\<close> without its last character, as in the source (so \<^verbatim>\<open>policy\<close> becomes \<^verbatim>\<open>polic\<close>).\<close>

definition collectMissingNamedInputs :: "string \<Rightarrow> json \<Rightarrow> json \<Rightarrow> MissingInput list" where
  "collectMissingNamedInputs kind value input =
     concat (map (\<lambda>i.
       if isPresent (if kind = ''policy'' then findPolicyVerdict (js_get input ''policy'') (Some i)
                     else js_get (js_get input kind) i)
       then []
       else [\<lparr>mi_id = i, mi_message = ''Required gate '' @ butlast kind @ '' '' @ i @ '' is missing'',
              mi_targetRef = Some (butlast kind @ '':'' @ i)\<rparr>])
       (only_strs (js_elems value)))"

definition missing_flag :: "json \<Rightarrow> json \<Rightarrow> string \<Rightarrow> MissingInput list" where
  "missing_flag inputs input name =
     (if js_get inputs name = JBool True \<and> \<not> isPresent (js_get input name)
      then [\<lparr>mi_id = name, mi_message = ''Required gate input '' @ name @ '' is missing'',
             mi_targetRef = Some (''input:'' @ name)\<rparr>]
      else [])"

definition findMissingInputs :: "json \<Rightarrow> json \<Rightarrow> MissingInput list" where
  "findMissingInputs inputs input =
     (case inputs of
        JArr entries \<Rightarrow>
          map (\<lambda>name. \<lparr>mi_id = name, mi_message = ''Required gate input '' @ name @ '' is missing'',
                       mi_targetRef = Some (''input:'' @ name)\<rparr>)
            (filter (\<lambda>name. \<not> isPresent (inputValueByName name input)) (only_strs entries))
      | JObj ps \<Rightarrow>
          collectMissingNamedInputs ''artifacts'' (js_get inputs ''artifacts'') input @
          collectMissingNamedInputs ''evals'' (js_get inputs ''evals'') input @
          collectMissingNamedInputs ''decisions'' (js_get inputs ''decisions'') input @
          collectMissingNamedInputs ''policy'' (js_get inputs ''policy'') input @
          missing_flag inputs input ''runInput'' @ missing_flag inputs input ''evidence''
      | _ \<Rightarrow> [])"

section \<open>Checks\<close>

text \<open>The finding of a check: its own message, target, severity and hint win over the given ones.\<close>

definition check_finding ::
  "json \<Rightarrow> string \<Rightarrow> string \<Rightarrow> string option \<Rightarrow> string list option \<Rightarrow> GateFinding" where
  "check_finding check severity message targetRef evidenceRefs =
     makeFinding (the_str (fstr check ''id'')) (default (fstr check ''severity'') severity)
       (default (fstr check ''message'') message) (or_else (fstr check ''targetRef'') targetRef) evidenceRefs
       (fstr check ''repairHint'')"

definition evaluateDeterministicPresenceCheck :: "json \<Rightarrow> json \<Rightarrow> string \<Rightarrow> CheckEvaluation" where
  "evaluateDeterministicPresenceCheck check input severity =
     (let path = the_str (fstr check ''path'');
          values = readPathValues (evaluationScope input) path;
          evidenceRefs = fstrs check ''evidenceRefs'' in
      if values \<noteq> [] \<and> list_all isPresent values then CheckPass (default evidenceRefs [])
      else CheckFail
        (check_finding check severity (''Required field '' @ path @ '' is missing'') (Some path) evidenceRefs)
        (fstr check ''requiredAction'') False (default evidenceRefs []))"

definition evaluateSchemaPresenceCheck :: "json \<Rightarrow> json \<Rightarrow> string \<Rightarrow> CheckEvaluation" where
  "evaluateSchemaPresenceCheck check input severity =
     (let target = schemaTarget check input;
          evidenceRefs = default (fstrs check ''evidenceRefs'') (evidenceRefsForTarget target);
          fail = (\<lambda>message targetRef. CheckFail (check_finding check severity message targetRef (Some evidenceRefs))
                    (fstr check ''requiredAction'') False evidenceRefs) in
      if target = JUndefined then fail ''Required artifact is missing'' (fstr check ''artifactId'')
      else
        (case invalidArtifactReason target of
           Some invalidReason \<Rightarrow> fail invalidReason (targetRefForTarget target check)
         | None \<Rightarrow>
             let requiredFields = default (or_else (fstrs check ''requiredFields'') (fstrs check ''required'')) [];
                 missingFields = filter (\<lambda>field. \<not> fieldPresent target field) requiredFields in
             if missingFields \<noteq> []
             then fail (''Artifact is missing required fields: '' @ join '', '' missingFields)
                    (targetRefForTarget target check)
             else CheckPass evidenceRefs))"

definition evaluateEvalStatusCheck :: "json \<Rightarrow> json \<Rightarrow> string \<Rightarrow> CheckEvaluation" where
  "evaluateEvalStatusCheck check input severity =
     (let evalId = the_str (fstr check ''evalId'');
          verdict = js_get (js_get input ''evals'') evalId;
          own = fstrs check ''evidenceRefs'';
          target = Some (''eval:'' @ evalId) in
      if verdict = JUndefined
      then CheckFail (check_finding check severity (''Referenced eval '' @ evalId @ '' is missing'') target own)
             (or_else (fstr check ''requiredAction'') (Some ''fail_run'')) False (default own [])
      else
        let evidenceRefs = unique (default own [] @
              concat (map (\<lambda>finding. default (fstrs finding ''evidenceRefs'') []) (js_elems (js_get verdict ''findings''))));
            status = the_str (fstr verdict ''status'');
            allowedStatuses = default (fstrs check ''allowedStatuses'') [default (fstr check ''status'') ''pass''] in
        if status \<in> set allowedStatuses then CheckPass evidenceRefs
        else if status = ''needs_review''
        then CheckReview (check_finding check severity (''Eval '' @ evalId @ '' needs review'') target (Some evidenceRefs))
               ''clarify'' evidenceRefs
        else CheckFail
          (check_finding check severity
             (''Eval '' @ evalId @ '' returned '' @ status @ ''; expected '' @ join '' or '' allowedStatuses)
             target (Some evidenceRefs))
          (fstr check ''requiredAction'') False evidenceRefs)"

definition evaluateEvidenceCoverageCheck :: "json \<Rightarrow> json \<Rightarrow> string \<Rightarrow> CheckEvaluation" where
  "evaluateEvidenceCoverageCheck check input severity =
     (let refs = evidenceRefsForCheck check input;
          missingRefs = filter (\<lambda>ref. \<not> hasEvidenceRef (js_get input ''evidence'') ref) refs;
          minCount = default (fnum check ''minCount'') 1;
          target = or_else (fstr check ''artifactId'') (fstr check ''path'') in
      if int (length refs) < minCount
      then CheckFail
        (check_finding check severity
           (''Evidence coverage requires at least '' @ int_str minCount @ '' reference(s)'') target (Some refs))
        (fstr check ''requiredAction'') False refs
      else if missingRefs \<noteq> []
      then CheckFail
        (check_finding check severity (''Referenced evidence is missing: '' @ join '', '' missingRefs) target (Some refs))
        (or_else (fstr check ''requiredAction'') (Some ''fail_run'')) False refs
      else CheckPass refs)"

definition evaluatePolicyStatusCheck :: "json \<Rightarrow> json \<Rightarrow> string \<Rightarrow> CheckEvaluation" where
  "evaluatePolicyStatusCheck check input severity =
     (let i = or_else (fstr check ''verdictId'') (fstr check ''policyId'');
          verdict = findPolicyVerdict (js_get input ''policy'') i;
          own = fstrs check ''evidenceRefs'' in
      if verdict = JUndefined
      then CheckFail (check_finding check severity ''Referenced policy verdict is missing'' i own)
             (or_else (fstr check ''requiredAction'') (Some ''fail_run'')) False (default own [])
      else
        let status = the_str (fstr verdict ''status'');
            allowedStatuses = default (fstrs check ''allowedStatuses'') [default (fstr check ''status'') ''allow''];
            expected = join '' or '' allowedStatuses in
        if status \<in> set allowedStatuses then CheckPass (default own [])
        else if status = ''approval_required''
        then CheckReview
          (check_finding check severity (''Policy verdict requires approval; expected '' @ expected) i own)
          ''approve'' (default own [])
        else CheckFail
          (check_finding check severity (''Policy verdict returned '' @ status @ ''; expected '' @ expected) i own)
          (or_else (fstr check ''requiredAction'') (Some ''fail_run'')) False (default own []))"

text \<open>The message of an unsupported check and its missing target are not replaced by the check's own.\<close>

definition unsupportedCheck :: "json \<Rightarrow> string \<Rightarrow> CheckEvaluation" where
  "unsupportedCheck check severity =
     CheckFail
       (makeFinding (the_str (fstr check ''id'')) (default (fstr check ''severity'') severity)
          (''Unsupported gate check type '' @ js_String (js_get check ''type'')) (fstr check ''targetRef'')
          (fstrs check ''evidenceRefs'') (fstr check ''repairHint''))
       (Some ''fail_run'') False (default (fstrs check ''evidenceRefs'') [])"

definition humanReviewCheck :: "json \<Rightarrow> string \<Rightarrow> string \<Rightarrow> CheckEvaluation" where
  "humanReviewCheck check phase severity =
     CheckReview
       (makeFinding (the_str (fstr check ''id'')) (default (fstr check ''severity'') severity)
          (default (or_else (fstr check ''message'') (fstr check ''question'')) ''Human review is required'')
          (or_else (fstr check ''targetRef'') (Some (''phase:'' @ phase))) (fstrs check ''evidenceRefs'') None)
       ''clarify'' (default (fstrs check ''evidenceRefs'') [])"

definition evaluateCheck :: "json \<Rightarrow> json \<Rightarrow> string \<Rightarrow> string \<Rightarrow> CheckEvaluation" where
  "evaluateCheck check input phase severity =
     (let type = js_get check ''type'' in
      if type = JStr ''deterministic'' then evaluateDeterministicPresenceCheck check input severity
      else if type = JStr ''schema'' then evaluateSchemaPresenceCheck check input severity
      else if type = JStr ''eval'' then evaluateEvalStatusCheck check input severity
      else if type = JStr ''evidence'' then evaluateEvidenceCoverageCheck check input severity
      else if type = JStr ''policy'' then evaluatePolicyStatusCheck check input severity
      else if type = JStr ''human_review'' then humanReviewCheck check phase severity
      else unsupportedCheck check severity)"

definition isModelAssistedCheck :: "json \<Rightarrow> bool" where
  "isModelAssistedCheck check \<longleftrightarrow> js_get check ''type'' = JStr ''model_assisted''"

section \<open>When a check passes\<close>

named_theorems check_pass \<open>when a check of each kind passes\<close>

definition is_pass :: "CheckEvaluation \<Rightarrow> bool" where
  "is_pass e = (case e of CheckPass refs \<Rightarrow> True | _ \<Rightarrow> False)"

lemma is_pass_simps [simp]: "is_pass (CheckPass r)" "\<not> is_pass (CheckFail f a b r)" "\<not> is_pass (CheckReview f s r)"
  by (simp_all add: is_pass_def)

lemma presence_pass [check_pass]:
  "is_pass (evaluateDeterministicPresenceCheck check input severity) \<longleftrightarrow>
     readPathValues (evaluationScope input) (the_str (fstr check ''path'')) \<noteq> [] \<and>
     list_all isPresent (readPathValues (evaluationScope input) (the_str (fstr check ''path'')))"
  by (simp add: evaluateDeterministicPresenceCheck_def Let_def)

lemma schema_pass [check_pass]:
  "is_pass (evaluateSchemaPresenceCheck check input severity) \<longleftrightarrow>
     invalidArtifactReason (schemaTarget check input) = None \<and>
     list_all (fieldPresent (schemaTarget check input))
       (default (or_else (fstrs check ''requiredFields'') (fstrs check ''required'')) [])"
  by (auto simp: evaluateSchemaPresenceCheck_def Let_def filter_empty_conv list_all_iff invalidArtifactReason_def
      is_record_def split: option.split)

lemma eval_pass [check_pass]:
  "is_pass (evaluateEvalStatusCheck check input severity) \<longleftrightarrow>
     (let verdict = js_get (js_get input ''evals'') (the_str (fstr check ''evalId'')) in
      verdict \<noteq> JUndefined \<and>
      the_str (fstr verdict ''status'') \<in>
        set (default (fstrs check ''allowedStatuses'') [default (fstr check ''status'') ''pass'']))"
  by (simp add: evaluateEvalStatusCheck_def Let_def)

lemma evidence_pass [check_pass]:
  "is_pass (evaluateEvidenceCoverageCheck check input severity) \<longleftrightarrow>
     default (fnum check ''minCount'') 1 \<le> int (length (evidenceRefsForCheck check input)) \<and>
     list_all (hasEvidenceRef (js_get input ''evidence'')) (evidenceRefsForCheck check input)"
  by (auto simp: evaluateEvidenceCoverageCheck_def Let_def filter_empty_conv list_all_iff)

lemma policy_pass [check_pass]:
  "is_pass (evaluatePolicyStatusCheck check input severity) \<longleftrightarrow>
     (let verdict = findPolicyVerdict (js_get input ''policy'') (or_else (fstr check ''verdictId'') (fstr check ''policyId'')) in
      verdict \<noteq> JUndefined \<and>
      the_str (fstr verdict ''status'') \<in>
        set (default (fstrs check ''allowedStatuses'') [default (fstr check ''status'') ''allow'']))"
  by (simp add: evaluatePolicyStatusCheck_def Let_def)

lemma review_never_passes [check_pass]: "\<not> is_pass (humanReviewCheck check phase severity)"
  by (simp add: humanReviewCheck_def)

lemma unsupported_never_passes [check_pass]: "\<not> is_pass (unsupportedCheck check severity)"
  by (simp add: unsupportedCheck_def)

end
