(* ===== verification/Gate_Engine.thy ===== *)
theory Gate_Engine
  imports Gate_Checks Policy_Engine
begin

text \<open>
  The verdicts and lifecycle instructions of \<^verbatim>\<open>gate-engine/src/index.ts\<close>, with
  \<^verbatim>\<open>repair-envelope.ts\<close> and \<^verbatim>\<open>decision-hash.ts\<close>: \<^verbatim>\<open>aggregateEvaluations\<close>,
  \<^verbatim>\<open>buildFailingResult\<close>, \<^verbatim>\<open>failClosed\<close> and the synchronous \<^verbatim>\<open>evaluateGate\<close>. A result passes the
  schemas of \<^verbatim>\<open>schemas/src/index.ts\<close> or the evaluation throws; SHA-256 (\<open>sha\<close>) and the date-time
  format of the schema library (\<open>dt\<close>) are parameters.
\<close>

section \<open>Verdicts and instructions\<close>

datatype GateVerdictStatus = GatePass | GateNeedsReview | GateFail

record GateVerdict =
  gv_gateId :: string
  gv_phase :: string
  gv_status :: GateVerdictStatus
  gv_severity :: string
  gv_reasons :: "string list"
  gv_findings :: "GateFinding list"
  gv_evidenceRefs :: "string list"
  gv_requiredAction :: "string option"
  gv_obligations :: "json list"
  gv_evaluatedAt :: string
  gv_evaluatorKind :: string
  gv_evaluatorRef :: string

record GateQuestion =
  gq_id :: string
  gq_gateId :: string
  gq_phase :: string
  gq_question :: string
  gq_requiredFor :: string
  gq_expectedAnswerSchema :: "string option"

record GateApproval =
  ga_id :: string
  ga_gateId :: string
  ga_phase :: string
  ga_reason :: string
  ga_requiredFor :: string

record GateRepairTask =
  gr_id :: string
  gr_gateId :: string
  gr_failedPhase :: string
  gr_problem :: string
  gr_requiredEvidenceRefs :: "string list"
  gr_allowedTools :: "string list"
  gr_blockedTools :: "string list"
  gr_successGate :: string
  gr_createdFromFindingIds :: "string list"
  gr_targetRef :: "string option"

datatype GateLifecycleInstruction =
    Continue (gi_gateId: string)
  | TransitionPhase (gi_gateId: string) string
  | PauseForHuman (gi_gateId: string) GateQuestion
  | RequestApproval (gi_gateId: string) GateApproval
  | CreateRepairTask (gi_gateId: string) GateRepairTask
  | FailRun (gi_gateId: string) string

text \<open>The provenance of the calls of model-assisted checks is absent from a synchronous result.\<close>

record ModelCallTool =
  mt_toolId :: string
  mt_toolVersion :: "string option"
  mt_requestHash :: string
  mt_resultHash :: "string option"
  mt_argsHash :: "string option"
  mt_cacheStatus :: "string option"
  mt_traceId :: "string option"
  mt_tokenBudget :: int
  mt_policyStatus :: string

record ModelAssistedCallProvenance =
  mc_checkId :: string
  mc_modelCallId :: string
  mc_rubric :: "string \<times> string"
  mc_outcome :: string
  mc_tool :: ModelCallTool

record GateEvaluationResult =
  ge_verdict :: GateVerdict
  ge_decisionHash :: string
  ge_instruction :: GateLifecycleInstruction
  ge_modelAssisted :: "ModelAssistedCallProvenance list option"

datatype gate_error = GateZodError

section \<open>The decision hash\<close>

fun gate_status_str :: "GateVerdictStatus \<Rightarrow> string" where
  "gate_status_str GatePass = ''pass''"
| "gate_status_str GateNeedsReview = ''needs_review''"
| "gate_status_str GateFail = ''fail''"

definition finding_json :: "GateFinding \<Rightarrow> json" where
  "finding_json f =
     JObj ([(''id'', JStr (gf_id f)), (''severity'', JStr (gf_severity f)), (''message'', JStr (gf_message f)),
            (''evidenceRefs'', JArr (map JStr (gf_evidenceRefs f)))] @
           opt_field ''targetRef'' JStr (gf_targetRef f) @ opt_field ''repairHint'' JStr (gf_repairHint f))"

definition gateDecisionHashInput :: "GateVerdict \<Rightarrow> json" where
  "gateDecisionHashInput v =
     JObj ([(''gateId'', JStr (gv_gateId v)), (''phase'', JStr (gv_phase v)),
            (''status'', JStr (gate_status_str (gv_status v))), (''severity'', JStr (gv_severity v)),
            (''findings'', JArr (map finding_json (gv_findings v))), (''reasons'', JArr (map JStr (gv_reasons v))),
            (''evidenceRefs'', JArr (map JStr (gv_evidenceRefs v))), (''obligations'', JArr (gv_obligations v)),
            (''evaluatedAt'', JStr (gv_evaluatedAt v)),
            (''evaluator'', JObj [(''kind'', JStr (gv_evaluatorKind v)), (''ref'', JStr (gv_evaluatorRef v))])] @
           opt_field ''requiredAction'' JStr (gv_requiredAction v))"

definition gate_hashDecision :: "digest \<Rightarrow> GateVerdict \<Rightarrow> string" where
  "gate_hashDecision sha v = ''sha256:'' @ sha (stringify (normalizeStable (gateDecisionHashInput v)))"

section \<open>Schemas\<close>

definition nonEmpty_opt_str :: "string option \<Rightarrow> bool" where
  "nonEmpty_opt_str x \<longleftrightarrow> x \<noteq> Some []"

definition nonEmpty_all :: "string list \<Rightarrow> bool" where
  "nonEmpty_all xs \<longleftrightarrow> [] \<notin> set xs"

definition GateSeverity_ok :: "string \<Rightarrow> bool" where
  "GateSeverity_ok s \<longleftrightarrow> s \<in> {''advisory'', ''blocking''}"

definition GateFindingSchema_ok :: "GateFinding \<Rightarrow> bool" where
  "GateFindingSchema_ok f \<longleftrightarrow>
     gf_id f \<noteq> [] \<and> gf_message f \<noteq> [] \<and> GateSeverity_ok (gf_severity f) \<and> nonEmpty_opt_str (gf_targetRef f) \<and>
     nonEmpty_all (gf_evidenceRefs f) \<and> nonEmpty_opt_str (gf_repairHint f)"

definition GateObligationSchema :: "json \<Rightarrow> bool" where
  "GateObligationSchema = z_strict
     [(''kind'', z_enum [''run_eval'', ''request_clarification'', ''create_repair_task'', ''promote_artifact'',
         ''attach_evidence'', ''mark_assumption'']),
      (''params'', z_optional MetadataSchema), (''sourceRuleId'', z_optional nonEmptyString)]"

definition GateVerdictSchema_ok :: "(string \<Rightarrow> bool) \<Rightarrow> GateVerdict \<Rightarrow> bool" where
  "GateVerdictSchema_ok dt v \<longleftrightarrow>
     gv_gateId v \<noteq> [] \<and> gv_phase v \<noteq> [] \<and> GateSeverity_ok (gv_severity v) \<and> nonEmpty_all (gv_reasons v) \<and>
     list_all GateFindingSchema_ok (gv_findings v) \<and> nonEmpty_all (gv_evidenceRefs v) \<and>
     (case gv_requiredAction v of None \<Rightarrow> True
      | Some a \<Rightarrow> a \<in> {''repair'', ''clarify'', ''approve'', ''fail_run''}) \<and>
     list_all GateObligationSchema (gv_obligations v) \<and> dt (gv_evaluatedAt v) \<and>
     gv_evaluatorKind v \<in> {''deterministic'', ''model_assisted'', ''human''} \<and> gv_evaluatorRef v \<noteq> []"

fun GateLifecycleInstructionSchema_ok :: "GateLifecycleInstruction \<Rightarrow> bool" where
  "GateLifecycleInstructionSchema_ok (Continue g) \<longleftrightarrow> g \<noteq> []"
| "GateLifecycleInstructionSchema_ok (TransitionPhase g p) \<longleftrightarrow> g \<noteq> [] \<and> p \<noteq> []"
| "GateLifecycleInstructionSchema_ok (PauseForHuman g q) \<longleftrightarrow>
     g \<noteq> [] \<and> gq_id q \<noteq> [] \<and> gq_gateId q \<noteq> [] \<and> gq_phase q \<noteq> [] \<and> gq_question q \<noteq> [] \<and>
     gq_requiredFor q \<noteq> [] \<and> nonEmpty_opt_str (gq_expectedAnswerSchema q)"
| "GateLifecycleInstructionSchema_ok (RequestApproval g a) \<longleftrightarrow>
     g \<noteq> [] \<and> ga_id a \<noteq> [] \<and> ga_gateId a \<noteq> [] \<and> ga_phase a \<noteq> [] \<and> ga_reason a \<noteq> [] \<and> ga_requiredFor a \<noteq> []"
| "GateLifecycleInstructionSchema_ok (CreateRepairTask g t) \<longleftrightarrow>
     g \<noteq> [] \<and> gr_id t \<noteq> [] \<and> gr_gateId t \<noteq> [] \<and> gr_failedPhase t \<noteq> [] \<and> gr_problem t \<noteq> [] \<and>
     nonEmpty_all (gr_requiredEvidenceRefs t) \<and> nonEmpty_all (gr_allowedTools t) \<and>
     nonEmpty_all (gr_blockedTools t) \<and> gr_successGate t \<noteq> [] \<and> nonEmpty_all (gr_createdFromFindingIds t) \<and>
     nonEmpty_opt_str (gr_targetRef t)"
| "GateLifecycleInstructionSchema_ok (FailRun g r) \<longleftrightarrow> g \<noteq> [] \<and> r \<noteq> []"

text \<open>\<^verbatim>\<open>compactVerdict\<close> only adds the hash: an absent required action is \<open>None\<close>.\<close>

definition validatedGateResult ::
  "digest \<Rightarrow> (string \<Rightarrow> bool) \<Rightarrow> ModelAssistedCallProvenance list option \<Rightarrow> GateVerdict \<Rightarrow>
   GateLifecycleInstruction \<Rightarrow> gate_error + GateEvaluationResult" where
  "validatedGateResult sha dt modelAssisted verdict instruction =
     (if GateVerdictSchema_ok dt verdict \<and> GateLifecycleInstructionSchema_ok instruction
      then Inr \<lparr>ge_verdict = verdict, ge_decisionHash = gate_hashDecision sha verdict, ge_instruction = instruction,
                ge_modelAssisted = modelAssisted\<rparr>
      else Inl GateZodError)"

section \<open>Failure behaviour\<close>

definition DEFAULT_MAX_REPAIR_ITERATIONS :: int where
  "DEFAULT_MAX_REPAIR_ITERATIONS = 3"

definition onFailObject :: "json \<Rightarrow> json" where
  "onFailObject onFail = (if is_record onFail then onFail else JUndefined)"

definition obligationsFor :: "json \<Rightarrow> json list" where
  "obligationsFor onFail = js_elems (js_get (onFailObject onFail) ''obligations'')"

definition requiredActionFor :: "json \<Rightarrow> string \<Rightarrow> bool \<Rightarrow> string" where
  "requiredActionFor onFail fallback bypassOnFail =
     (if bypassOnFail then fallback
      else
        let action = (case onFail of JStr a \<Rightarrow> Some a | _ \<Rightarrow> fstr onFail ''action'') in
        (case action of
           None \<Rightarrow> fallback
         | Some a \<Rightarrow>
             if a \<in> {''clarify'', ''request_clarification'', ''pause_for_human''} then ''clarify''
             else if a \<in> {''approve'', ''request_approval''} then ''approve''
             else if a \<in> {''repair'', ''create_repair_task''} then ''repair''
             else if a = ''fail_run'' then ''fail_run''
             else fallback))"

definition gateSeverity :: "json \<Rightarrow> string" where
  "gateSeverity d =
     (case fstr d ''severity'' of
        Some s \<Rightarrow> s
      | None \<Rightarrow> if js_get d ''required'' = JBool False then ''advisory'' else ''blocking'')"

definition firstReason :: "GateVerdict \<Rightarrow> string" where
  "firstReason verdict =
     (case gv_reasons verdict of r # _ \<Rightarrow> r | [] \<Rightarrow> ''Gate '' @ gv_gateId verdict @ '' did not pass'')"

definition repairLoopIterations :: "json \<Rightarrow> int" where
  "repairLoopIterations input =
     (case js_get input ''repairLoopIterations'' of JNum n \<Rightarrow> if n \<ge> 0 then n else 0 | _ \<Rightarrow> 0)"

definition maxRepairIterations :: "json \<Rightarrow> int" where
  "maxRepairIterations onFail =
     (case js_get (onFailObject onFail) ''maxRepairIterations'' of
        JNum n \<Rightarrow> if n > 0 then n else DEFAULT_MAX_REPAIR_ITERATIONS
      | _ \<Rightarrow> DEFAULT_MAX_REPAIR_ITERATIONS)"

definition def_id :: "json \<Rightarrow> string" where
  "def_id d = the_str (fstr d ''id'')"

definition questionFor :: "json \<Rightarrow> string \<Rightarrow> GateVerdict \<Rightarrow> string option \<Rightarrow> GateQuestion" where
  "questionFor d phase verdict questionOverride =
     (let onFail = onFailObject (js_get d ''onFail'') in
      \<lparr>gq_id = ''question.'' @ def_id d, gq_gateId = def_id d, gq_phase = phase,
       gq_question = default (or_else questionOverride (fstr onFail ''questionTemplate'')) (firstReason verdict),
       gq_requiredFor = ''gate:'' @ def_id d, gq_expectedAnswerSchema = fstr onFail ''expectedAnswerSchema''\<rparr>)"

definition approvalRequestFor :: "json \<Rightarrow> string \<Rightarrow> GateVerdict \<Rightarrow> GateApproval" where
  "approvalRequestFor d phase verdict =
     \<lparr>ga_id = ''approval.'' @ def_id d, ga_gateId = def_id d, ga_phase = phase,
      ga_reason = default (fstr (onFailObject (js_get d ''onFail'')) ''approvalReason'') (firstReason verdict),
      ga_requiredFor = ''gate:'' @ def_id d\<rparr>"

text \<open>\<^verbatim>\<open>find((finding) => finding.targetRef)\<close> skips an empty target.\<close>

definition repairTaskFor :: "json \<Rightarrow> string \<Rightarrow> GateVerdict \<Rightarrow> GateRepairTask" where
  "repairTaskFor d phase verdict =
     (let onFail = onFailObject (js_get d ''onFail'') in
      \<lparr>gr_id = ''repair.'' @ def_id d, gr_gateId = def_id d, gr_failedPhase = phase, gr_problem = firstReason verdict,
       gr_requiredEvidenceRefs = default (fstrs onFail ''requiredEvidenceRefs'') (gv_evidenceRefs verdict),
       gr_allowedTools = default (fstrs onFail ''allowedTools'') [],
       gr_blockedTools = default (fstrs onFail ''blockedTools'') [],
       gr_successGate = default (fstr onFail ''successGate'') (def_id d),
       gr_createdFromFindingIds = map gf_id (gv_findings verdict),
       gr_targetRef = or_else (fstr onFail ''targetRef'')
         (Option.bind (find (\<lambda>f. gf_targetRef f \<noteq> None \<and> gf_targetRef f \<noteq> Some []) (gv_findings verdict)) gf_targetRef)\<rparr>)"

definition repairLoopCeilingQuestion :: "json \<Rightarrow> GateVerdict \<Rightarrow> string" where
  "repairLoopCeilingQuestion d verdict =
     ''Repair loop for gate '' @ def_id d @ '' reached iteration ceiling '' @
     int_str (maxRepairIterations (js_get d ''onFail'')) @ ''. Review the repeated failure: '' @ firstReason verdict"

definition assertBoundedRepairEnvelope :: "json \<Rightarrow> GateRepairTask \<Rightarrow> string option" where
  "assertBoundedRepairEnvelope governed repairTask =
     (let governedAllowedTools = default (fstrs governed ''allowedTools'') [];
          governedBlockedTools = default (fstrs governed ''blockedTools'') [];
          repairAllowedTools = gr_allowedTools repairTask; repairBlockedTools = gr_blockedTools repairTask;
          prefix = ''Repair task for gate '' @ gr_gateId repairTask in
      if filter (\<lambda>tool. tool \<in> set governedBlockedTools) governedAllowedTools \<noteq> []
      then Some (prefix @ '' cannot be emitted because its governed tool envelope is internally contradictory'')
      else if filter (\<lambda>tool. tool \<notin> set governedAllowedTools) repairAllowedTools \<noteq> []
      then Some (prefix @ '' exceeded its governed allowed tool envelope'')
      else if filter (\<lambda>tool. tool \<notin> set repairBlockedTools) governedBlockedTools \<noteq> []
      then Some (prefix @ '' dropped blocked tools from its governed envelope'')
      else if filter (\<lambda>tool. tool \<in> set repairBlockedTools) repairAllowedTools \<noteq> []
      then Some (prefix @ '' produced an internally contradictory tool envelope'')
      else None)"

definition repairInstructionForBoundedEnvelope :: "string \<Rightarrow> json \<Rightarrow> GateRepairTask \<Rightarrow> GateLifecycleInstruction" where
  "repairInstructionForBoundedEnvelope gateId governed repairTask =
     (case assertBoundedRepairEnvelope governed repairTask of
        Some reason \<Rightarrow> FailRun gateId reason
      | None \<Rightarrow> CreateRepairTask gateId repairTask)"

text \<open>An action outside the four gives no instruction, and the schema then refuses the result.\<close>

definition instructionForFailure ::
  "json \<Rightarrow> string \<Rightarrow> GateVerdict \<Rightarrow> json \<Rightarrow> string \<Rightarrow> GateLifecycleInstruction option" where
  "instructionForFailure d phase verdict gateInput requiredAction =
     (if requiredAction = ''clarify'' then Some (PauseForHuman (def_id d) (questionFor d phase verdict None))
      else if requiredAction = ''approve'' then Some (RequestApproval (def_id d) (approvalRequestFor d phase verdict))
      else if requiredAction = ''repair'' then
        (if repairLoopIterations gateInput \<ge> maxRepairIterations (js_get d ''onFail'')
         then Some (PauseForHuman (def_id d)
                (questionFor d phase verdict (Some (repairLoopCeilingQuestion d verdict))))
         else Some (repairInstructionForBoundedEnvelope (def_id d) (onFailObject (js_get d ''onFail''))
                (repairTaskFor d phase verdict)))
      else if requiredAction = ''fail_run'' then Some (FailRun (def_id d) (firstReason verdict))
      else None)"

definition instructionForPass :: "json \<Rightarrow> GateLifecycleInstruction" where
  "instructionForPass d =
     (let onPass = js_get d ''onPass'' in
      (case (fstr onPass ''action'', fstr onPass ''targetPhase'') of
         (Some a, Some targetPhase) \<Rightarrow>
           if a = ''transition_phase'' then TransitionPhase (def_id d) targetPhase else Continue (def_id d)
       | _ \<Rightarrow> Continue (def_id d)))"

definition instructionForNeedsReview :: "json \<Rightarrow> string \<Rightarrow> GateVerdict \<Rightarrow> string \<Rightarrow> GateLifecycleInstruction" where
  "instructionForNeedsReview d phase verdict requiredAction =
     (if requiredAction = ''approve'' then RequestApproval (def_id d) (approvalRequestFor d phase verdict)
      else PauseForHuman (def_id d) (questionFor d phase verdict None))"

section \<open>Results\<close>

text \<open>The frame of an evaluation: phase, time, evaluator reference and severity.\<close>

record gate_frame =
  fr_phase :: string
  fr_evaluatedAt :: string
  fr_evaluatorRef :: string
  fr_severity :: string

definition failing_verdict ::
  "json \<Rightarrow> gate_frame \<Rightarrow> GateFinding list \<Rightarrow> string list \<Rightarrow> string \<Rightarrow> string \<Rightarrow> GateVerdict" where
  "failing_verdict d frame findings evidenceRefs requiredAction evaluatorKind =
     \<lparr>gv_gateId = def_id d, gv_phase = fr_phase frame, gv_status = GateFail, gv_severity = fr_severity frame,
      gv_reasons = map gf_message findings, gv_findings = findings,
      gv_evidenceRefs = unique (evidenceRefs @ concat (map gf_evidenceRefs findings)),
      gv_requiredAction = Some requiredAction, gv_obligations = obligationsFor (js_get d ''onFail''),
      gv_evaluatedAt = fr_evaluatedAt frame, gv_evaluatorKind = evaluatorKind,
      gv_evaluatorRef = fr_evaluatorRef frame\<rparr>"

definition buildFailingResult ::
  "digest \<Rightarrow> (string \<Rightarrow> bool) \<Rightarrow> json \<Rightarrow> gate_frame \<Rightarrow> GateFinding list \<Rightarrow> string list \<Rightarrow> json \<Rightarrow> string \<Rightarrow>
   string \<Rightarrow> ModelAssistedCallProvenance list option \<Rightarrow> bool \<Rightarrow> gate_error + GateEvaluationResult" where
  "buildFailingResult sha dt d frame findings evidenceRefs gateInput defaultRequiredAction evaluatorKind
       modelAssisted bypassOnFail =
     (let requiredAction = requiredActionFor (js_get d ''onFail'') defaultRequiredAction bypassOnFail;
          verdict = failing_verdict d frame findings evidenceRefs requiredAction evaluatorKind in
      (case instructionForFailure d (fr_phase frame) verdict gateInput requiredAction of
         None \<Rightarrow> Inl GateZodError
       | Some instruction \<Rightarrow> validatedGateResult sha dt modelAssisted verdict instruction))"

definition failClosedGate ::
  "digest \<Rightarrow> (string \<Rightarrow> bool) \<Rightarrow> string \<Rightarrow> gate_frame \<Rightarrow> string \<Rightarrow> string \<Rightarrow> string option \<Rightarrow>
   gate_error + GateEvaluationResult" where
  "failClosedGate sha dt gateId frame reason findingId targetRef =
     validatedGateResult sha dt None
       \<lparr>gv_gateId = gateId, gv_phase = fr_phase frame, gv_status = GateFail, gv_severity = ''blocking'',
        gv_reasons = [reason], gv_findings = [makeFinding findingId ''blocking'' reason targetRef None None],
        gv_evidenceRefs = [], gv_requiredAction = Some ''fail_run'', gv_obligations = [],
        gv_evaluatedAt = fr_evaluatedAt frame, gv_evaluatorKind = ''deterministic'',
        gv_evaluatorRef = fr_evaluatorRef frame\<rparr>
       (FailRun gateId reason)"

definition failed_of :: "CheckEvaluation list \<Rightarrow> (GateFinding \<times> string option \<times> bool) list" where
  "failed_of es = List.map_filter (\<lambda>e. case e of CheckFail f a b refs \<Rightarrow> Some (f, a, b) | _ \<Rightarrow> None) es"

definition reviews_of :: "CheckEvaluation list \<Rightarrow> (GateFinding \<times> string) list" where
  "reviews_of es = List.map_filter (\<lambda>e. case e of CheckReview f a refs \<Rightarrow> Some (f, a) | _ \<Rightarrow> None) es"

definition firstRequiredAction :: "(GateFinding \<times> string option \<times> bool) list \<Rightarrow> string option" where
  "firstRequiredAction failed = Option.bind (find (\<lambda>e. fst (snd e) \<noteq> None) failed) (\<lambda>e. fst (snd e))"

text \<open>A review always has an action, so the first one decides.\<close>

definition firstReviewRequiredAction :: "(GateFinding \<times> string) list \<Rightarrow> string" where
  "firstReviewRequiredAction reviews = (case reviews of e # _ \<Rightarrow> snd e | [] \<Rightarrow> ''clarify'')"

definition ok_verdict ::
  "json \<Rightarrow> gate_frame \<Rightarrow> GateVerdictStatus \<Rightarrow> string list \<Rightarrow> GateFinding list \<Rightarrow> string list \<Rightarrow> string option \<Rightarrow>
   json list \<Rightarrow> string \<Rightarrow> GateVerdict" where
  "ok_verdict d frame status reasons findings evidenceRefs requiredAction obligations evaluatorKind =
     \<lparr>gv_gateId = def_id d, gv_phase = fr_phase frame, gv_status = status, gv_severity = fr_severity frame,
      gv_reasons = reasons, gv_findings = findings, gv_evidenceRefs = evidenceRefs,
      gv_requiredAction = requiredAction, gv_obligations = obligations, gv_evaluatedAt = fr_evaluatedAt frame,
      gv_evaluatorKind = evaluatorKind, gv_evaluatorRef = fr_evaluatorRef frame\<rparr>"

definition aggregateEvaluations ::
  "digest \<Rightarrow> (string \<Rightarrow> bool) \<Rightarrow> json \<Rightarrow> gate_frame \<Rightarrow> CheckEvaluation list \<Rightarrow> json \<Rightarrow> string \<Rightarrow>
   ModelAssistedCallProvenance list option \<Rightarrow> gate_error + GateEvaluationResult" where
  "aggregateEvaluations sha dt d frame evaluations gateInput evaluatorKind modelAssisted =
     (let failed = failed_of evaluations; needsReview = reviews_of evaluations;
          evidenceRefs = unique (concat (map ce_evidenceRefs evaluations)) in
      if failed \<noteq> [] then
        let failClosedEvaluations = filter (\<lambda>e. snd (snd e)) failed;
            bypassOnFail = (failClosedEvaluations \<noteq> []);
            orderedFailed = (if bypassOnFail then failClosedEvaluations @ filter (\<lambda>e. \<not> snd (snd e)) failed else failed) in
        buildFailingResult sha dt d frame (map fst orderedFailed) evidenceRefs gateInput
          (if bypassOnFail then ''fail_run'' else default (firstRequiredAction failed) ''repair'')
          evaluatorKind modelAssisted bypassOnFail
      else if needsReview \<noteq> [] then
        let requiredAction = firstReviewRequiredAction needsReview; findings = map fst needsReview;
            verdict = ok_verdict d frame GateNeedsReview (map gf_message findings) findings evidenceRefs
              (Some requiredAction) (obligationsFor (js_get d ''onFail'')) evaluatorKind in
        validatedGateResult sha dt modelAssisted verdict
          (instructionForNeedsReview d (fr_phase frame) verdict requiredAction)
      else
        validatedGateResult sha dt modelAssisted
          (ok_verdict d frame GatePass [''Gate '' @ def_id d @ '' passed''] [] evidenceRefs None
             (js_elems (js_get (js_get d ''onPass'') ''obligations'')) evaluatorKind)
          (instructionForPass d))"

section \<open>evaluateGate\<close>

record EvaluateGateRequest =
  er_gateId :: string
  er_phase :: "string option"
  er_gateDefinition :: json
  er_gateDefinitions :: json
  er_input :: json
  er_evaluatedAt :: "string option"
  er_evaluatorRef :: "string option"
  er_traceId :: "string option"

definition DEFAULT_EVALUATED_AT :: string where
  "DEFAULT_EVALUATED_AT = ''1970-01-01T00:00:00.000Z''"

definition DEFAULT_GATE_ENGINE_EVALUATOR :: string where
  "DEFAULT_GATE_ENGINE_EVALUATOR = ''gate-engine:specwright.gate-engine@1.0.0#gate-contract=1.0.0''"

text \<open>A rejected definition: its finding and the phase it declares.\<close>

type_synonym rejection = "GateDefinitionFinding \<times> string option"

definition rejectDefinition :: "string \<Rightarrow> string \<Rightarrow> string \<Rightarrow> string option \<Rightarrow> rejection" where
  "rejectDefinition findingId message gateId definitionPhase =
     (\<lparr>df_id = findingId, df_message = message, df_targetRef = Some (''gate:'' @ gateId)\<rparr>, definitionPhase)"

definition missingDefinition :: "string \<Rightarrow> rejection" where
  "missingDefinition gateId =
     rejectDefinition ''gate.definition.missing'' (''Gate definition '' @ gateId @ '' is missing'') gateId None"

definition validateResolvedGateDefinition :: "json \<Rightarrow> rejection + json" where
  "validateResolvedGateDefinition d =
     (case validateGateDefinition d of None \<Rightarrow> Inr d | Some finding \<Rightarrow> Inl (finding, fstr d ''phase''))"

definition id_mismatch :: "json \<Rightarrow> string \<Rightarrow> rejection" where
  "id_mismatch d gateId =
     rejectDefinition ''gate.definition.id_mismatch''
       (''Gate definition '' @ js_String (js_get d ''id'') @ '' does not match requested gate '' @ gateId) gateId
       (fstr d ''phase'')"

definition resolveGateDefinition :: "EvaluateGateRequest \<Rightarrow> rejection + json" where
  "resolveGateDefinition request =
     (let gateId = er_gateId request in
      if er_gateDefinition request \<noteq> JUndefined then
        (if js_get (er_gateDefinition request) ''id'' \<noteq> JStr gateId
         then Inl (id_mismatch (er_gateDefinition request) gateId)
         else if er_gateDefinitions request \<noteq> JUndefined
         then Inl (rejectDefinition ''gate.definition.inline_rejected''
                (''Gate definition '' @ gateId @ '' was provided inline when a governed source is required'') gateId
                (fstr (er_gateDefinition request) ''phase''))
         else validateResolvedGateDefinition (er_gateDefinition request))
      else if er_gateDefinitions request = JUndefined then Inl (missingDefinition gateId)
      else
        let d = (case er_gateDefinitions request of
            JArr candidates \<Rightarrow> default (find (\<lambda>c. js_get c ''id'' = JStr gateId) candidates) JUndefined
          | definitions \<Rightarrow> js_get definitions gateId) in
        if d = JUndefined then Inl (missingDefinition gateId)
        else if js_get d ''id'' \<noteq> JStr gateId then Inl (id_mismatch d gateId)
        else validateResolvedGateDefinition d)"

definition gate_frame_of :: "EvaluateGateRequest \<Rightarrow> rejection + json \<Rightarrow> gate_frame" where
  "gate_frame_of request resolved =
     \<lparr>fr_phase = default (or_else (er_phase request) (or_else (fstr (er_input request) ''phase'')
         (case resolved of Inr d \<Rightarrow> fstr d ''phase'' | Inl r \<Rightarrow> snd r))) ''unknown'',
      fr_evaluatedAt = default (er_evaluatedAt request) DEFAULT_EVALUATED_AT,
      fr_evaluatorRef = default (er_evaluatorRef request) DEFAULT_GATE_ENGINE_EVALUATOR,
      fr_severity = (case resolved of Inr d \<Rightarrow> gateSeverity d | Inl r \<Rightarrow> ''blocking'')\<rparr>"

definition missing_finding :: "string \<Rightarrow> MissingInput \<Rightarrow> GateFinding" where
  "missing_finding severity m =
     makeFinding (''input.'' @ mi_id m @ ''.missing'') severity (mi_message m) (mi_targetRef m) None None"

text \<open>What both entry points do before the checks: \<open>Inl\<close> the result that ends the evaluation.\<close>

definition gate_preamble ::
  "digest \<Rightarrow> (string \<Rightarrow> bool) \<Rightarrow> EvaluateGateRequest \<Rightarrow>
   (gate_error + GateEvaluationResult) + (json \<times> gate_frame)" where
  "gate_preamble sha dt request =
     (let resolved = resolveGateDefinition request; frame = gate_frame_of request resolved in
      (case resolved of
         Inl (finding, p) \<Rightarrow>
           Inl (failClosedGate sha dt (er_gateId request) frame (df_message finding) (df_id finding) (df_targetRef finding))
       | Inr d \<Rightarrow>
           let missingInputs = findMissingInputs (js_get d ''inputs'') (er_input request) in
           if missingInputs \<noteq> []
           then Inl (buildFailingResult sha dt d frame (map (missing_finding (fr_severity frame)) missingInputs) []
                  (er_input request) ''clarify'' ''deterministic'' None False)
           else Inr (d, frame)))"

definition evaluateGate ::
  "digest \<Rightarrow> (string \<Rightarrow> bool) \<Rightarrow> EvaluateGateRequest \<Rightarrow> gate_error + GateEvaluationResult" where
  "evaluateGate sha dt request =
     (case gate_preamble sha dt request of
        Inl result \<Rightarrow> result
      | Inr (d, frame) \<Rightarrow>
          let checks = definition_checks d; modelAssistedChecks = filter isModelAssistedCheck checks in
          (case modelAssistedChecks of
             firstCheck # _ \<Rightarrow>
               let cid = the_str (fstr firstCheck ''id'') in
               failClosedGate sha dt (def_id d) frame
                 (''Model-assisted gate check '' @ cid @ '' requires evaluateGateAsync'')
                 (''gate.check.'' @ cid @ ''.requires_async_entrypoint'')
                 (or_else (fstr firstCheck ''targetRef'') (Some (''gate:'' @ def_id d @ ''/check:'' @ cid)))
           | [] \<Rightarrow>
               aggregateEvaluations sha dt d frame
                 (map (\<lambda>check. evaluateCheck check (er_input request) (fr_phase frame) (fr_severity frame)) checks)
                 (er_input request) ''deterministic'' None))"

end
