(* ===== verification/Gate_Model.thy ===== *)
theory Gate_Model
  imports Gate_Engine Tool_Schemas
begin

text \<open>
  Model-assisted checks of \<^verbatim>\<open>gate-engine/src/index.ts\<close>: the context that is projected and redacted
  for the model, the call through the broker, the reading of its output, and the asynchronous
  entry point \<^verbatim>\<open>evaluateGateAsync\<close>.

  The broker is a parameter: the answer to the \<open>n\<close>-th call of an evaluation for a request and a
  context, \<open>None\<close> when the call throws. Its answer is checked by \<^verbatim>\<open>ToolCallResultSchema\<close>.
\<close>

section \<open>Redaction of the context\<close>

text \<open>The pattern \<^verbatim>\<open>/(?:secret|token|password|credential|api[_-]?key|authorization|private[_-]?key)/i\<close>.\<close>

definition secret_words :: "string list" where
  "secret_words =
     [''secret'', ''token'', ''password'', ''credential'', ''apikey'', ''api_key'', ''api-key'', ''authorization'',
      ''privatekey'', ''private_key'', ''private-key'']"

definition isSecretLikeKey :: "string \<Rightarrow> bool" where
  "isSecretLikeKey key \<longleftrightarrow> list_ex (\<lambda>w. str_includes w (map lower_char key)) secret_words"

definition isRestrictedRedactionRecord :: "json \<Rightarrow> bool" where
  "isRestrictedRedactionRecord v \<longleftrightarrow>
     js_get v ''redactionClass'' \<in> {JStr ''secret'', JStr ''restricted''} \<or>
     js_get v ''redaction'' \<in> {JStr ''secret'', JStr ''restricted''}"

definition is_empty_record :: "json \<Rightarrow> bool" where
  "is_empty_record v \<longleftrightarrow> v = JObj []"

function redactForModel :: "json \<Rightarrow> json" where
  "redactForModel JUndefined = JUndefined"
| "redactForModel JNull = JNull"
| "redactForModel (JBool b) = JBool b"
| "redactForModel (JNum n) = JNum n"
| "redactForModel (JStr s) = JStr s"
| "redactForModel (JArr xs) = JArr (filter (\<lambda>e. e \<noteq> JUndefined) (map redactForModel xs))"
| "redactForModel (JObj ps) =
     (if isRestrictedRedactionRecord (JObj ps) then JUndefined
      else js_assign (filter (\<lambda>p. snd p \<noteq> JUndefined \<and> \<not> is_empty_record (snd p))
             (map (\<lambda>p. (fst p, redactForModel (snd p))) (filter (\<lambda>p. \<not> isSecretLikeKey (fst p)) ps))))"
  by pat_completeness auto
termination
proof (relation "measure size", goal_cases)
  case (2 xs x)
  then show ?case using size_element [of x xs] by simp
next
  case (3 ps p)
  then show ?case using size_member [of p ps] by auto
qed simp

section \<open>Projection of the context\<close>

text \<open>\<^verbatim>\<open>o[k] = v\<close> on an object: an existing property keeps its place.\<close>

fun set_prop :: "string \<Rightarrow> json \<Rightarrow> (string \<times> json) list \<Rightarrow> (string \<times> json) list" where
  "set_prop k v [] = [(k, v)]"
| "set_prop k v (p # ps) = (if fst p = k then (k, v) # ps else p # set_prop k v ps)"

definition js_set :: "(string \<times> json) list \<Rightarrow> string \<Rightarrow> json \<Rightarrow> (string \<times> json) list" where
  "js_set ps k v = (if k = ''__proto__'' then ps else js_order (set_prop k v ps))"

definition strip_wildcard :: "string \<Rightarrow> string" where
  "strip_wildcard segment = (if ends_with ''[*]'' segment then take (length segment - 3) segment else segment)"

fun assign_segments :: "(string \<times> json) list \<Rightarrow> string list \<Rightarrow> json \<Rightarrow> (string \<times> json) list" where
  "assign_segments current [] value = current"
| "assign_segments current [segment] value = js_set current segment value"
| "assign_segments current (segment # rest) value =
     (let next = (case js_get (JObj current) segment of JObj ps \<Rightarrow> ps | _ \<Rightarrow> []) in
      js_set current segment (JObj (assign_segments next rest value)))"

definition assignProjectionPath :: "(string \<times> json) list \<Rightarrow> string \<Rightarrow> json \<Rightarrow> (string \<times> json) list" where
  "assignProjectionPath target ref value =
     assign_segments target (map strip_wildcard (split_on CHR ''.'' (drop 2 ref))) value"

definition project_ref :: "json \<Rightarrow> string \<Rightarrow> (string \<times> json) list \<Rightarrow> (string \<times> json) list" where
  "project_ref input ref context =
     (if \<not> has_text ref then context
      else
        let value = (if starts_with ''$.'' ref
              then (case readPathValues (evaluationScope input) ref of [] \<Rightarrow> JUndefined | v # _ \<Rightarrow> v)
              else inputValueByName ref input);
            redacted = redactForModel value in
        if redacted = JUndefined then context
        else if starts_with ''$.'' ref then assignProjectionPath context ref redacted
        else js_set context ref redacted)"

definition projectModelContext :: "json \<Rightarrow> json \<Rightarrow> json" where
  "projectModelContext check input =
     JObj (fold (project_ref input) (default (fstrs check ''allowedContextRefs'') []) [])"

section \<open>Contracts and provenance\<close>

definition fallbackRubric :: "json \<Rightarrow> string \<times> string" where
  "fallbackRubric check =
     (let rubric = js_get check ''rubric'';
          part = (\<lambda>k. if is_record rubric \<and> isNonEmptyString (js_get rubric k) then the_str (fstr rubric k) else ''undeclared'') in
      (part ''ref'', part ''hash''))"

record model_contract =
  ct_modelTool :: string
  ct_inputSchema :: "json \<Rightarrow> bool"
  ct_outputSchema :: "json \<Rightarrow> bool"
  ct_rubric :: "string \<times> string"
  ct_maxTokens :: int

definition validateModelAssistedContract :: "json \<Rightarrow> string + model_contract" where
  "validateModelAssistedContract check =
     (let bad = (\<lambda>what. Inl (''Model-assisted check '' @ the_str (fstr check ''id'') @ what));
          rubric = js_get check ''rubric'' in
      if \<not> isNonEmptyString (js_get check ''modelTool'') then bad '' is missing modelTool''
      else if \<not> rubric_ok rubric then bad '' is missing rubric ref/hash''
      else if fstrs check ''allowedContextRefs'' = None then bad '' is missing allowedContextRefs''
      else if \<not> isPositiveInteger (js_get check ''maxTokens'') then bad '' is missing maxTokens''
      else
        (case (zodSchemaFromDeclaration (js_get check ''inputSchema''), zodSchemaFromDeclaration (js_get check ''outputSchema'')) of
           (Some inputSchema, Some outputSchema) \<Rightarrow>
             Inr \<lparr>ct_modelTool = the_str (fstr check ''modelTool''), ct_inputSchema = inputSchema,
                  ct_outputSchema = outputSchema,
                  ct_rubric = (the_str (fstr rubric ''ref''), the_str (fstr rubric ''hash'')),
                  ct_maxTokens = default (fnum check ''maxTokens'') 0\<rparr>
         | _ \<Rightarrow> bad '' has malformed inputSchema or outputSchema''))"

definition modelCallIdFor :: "digest \<Rightarrow> string \<Rightarrow> json \<Rightarrow> string \<Rightarrow> json \<Rightarrow> string" where
  "modelCallIdFor sha gateId check phase input =
     ''gate_model_'' @ take 24 (drop 7 (hashJson sha (JObj
       [(''gateId'', JStr gateId), (''phase'', JStr phase), (''checkId'', js_get check ''id''),
        (''rubricHash'', JStr (snd (fallbackRubric check))), (''allowedContextRefs'', js_get check ''allowedContextRefs''),
        (''context'', projectModelContext check input)])))"

definition policyStatusForToolResult :: "string \<Rightarrow> string" where
  "policyStatusForToolResult status =
     (if status = ''success'' then ''allow''
      else if status = ''denied'' \<or> status = ''approval_required'' then status
      else ''error'')"

definition modelToolProvenance :: "digest \<Rightarrow> json \<Rightarrow> string \<Rightarrow> int \<Rightarrow> ModelCallTool" where
  "modelToolProvenance sha result requestHash tokenBudget =
     (let provenance = js_get result ''provenance'' in
      \<lparr>mt_toolId = the_str (fstr provenance ''toolId''), mt_toolVersion = fstr provenance ''toolVersion'',
       mt_requestHash = requestHash,
       mt_resultHash = or_else (fstr provenance ''resultHash'') (Some (hashJson sha result)),
       mt_argsHash = fstr provenance ''argsHash'', mt_cacheStatus = fstr provenance ''cacheStatus'',
       mt_traceId = fstr provenance ''traceId'', mt_tokenBudget = tokenBudget,
       mt_policyStatus = policyStatusForToolResult (the_str (fstr result ''status''))\<rparr>)"

section \<open>Model-assisted checks\<close>

text \<open>The context of a call: trace id and run id.\<close>

type_synonym BrokerCallContext = "string option \<times> string option"
type_synonym BrokerPort = "nat \<Rightarrow> ToolCallRequest \<Rightarrow> BrokerCallContext \<Rightarrow> json option"

definition failClosedModelCheck ::
  "json \<Rightarrow> string \<Rightarrow> string \<Rightarrow> string \<times> string \<Rightarrow> string \<Rightarrow> string \<Rightarrow> ModelCallTool \<Rightarrow>
   CheckEvaluation \<times> ModelAssistedCallProvenance" where
  "failClosedModelCheck check severity modelCallId rubric outcome message tool =
     (CheckFail
        (makeFinding (the_str (fstr check ''id'')) (default (fstr check ''severity'') severity) message
           (or_else (fstr check ''targetRef'') (Some (''model_call:'' @ modelCallId))) (fstrs check ''evidenceRefs'')
           (fstr check ''repairHint''))
        (Some ''fail_run'') True (default (fstrs check ''evidenceRefs'') []),
      \<lparr>mc_checkId = the_str (fstr check ''id''), mc_modelCallId = modelCallId, mc_rubric = rubric, mc_outcome = outcome,
       mc_tool = tool\<rparr>)"

definition evaluationFromModelOutput :: "json \<Rightarrow> json \<Rightarrow> string \<Rightarrow> CheckEvaluation" where
  "evaluationFromModelOutput check out severity =
     (let output = (if is_record out then out else JObj []);
          status = js_String (nullish (js_get output ''status'') (nullish (js_get output ''outcome'')
            (nullish (js_get output ''verdict'') (JStr ''review''))));
          message = default (or_else (fstr output ''message'') (fstr check ''message''))
            (''Model-assisted check '' @ the_str (fstr check ''id'') @ '' flagged review'');
          evidenceRefs = default (or_else (fstrs output ''evidenceRefs'') (fstrs check ''evidenceRefs'')) [];
          targetRef = or_else (fstr output ''targetRef'') (fstr check ''targetRef'');
          repairHint = or_else (fstr output ''repairHint'') (fstr check ''repairHint'');
          finding = makeFinding (the_str (fstr check ''id'')) (default (fstr check ''severity'') severity) message
            targetRef (Some evidenceRefs) repairHint in
      if status = ''clean'' \<or> status = ''pass'' then CheckPass evidenceRefs
      else if status = ''blocking'' \<or> status = ''fail''
      then CheckFail finding (or_else (fstr check ''requiredAction'') (Some ''repair'')) False evidenceRefs
      else CheckReview finding ''clarify'' evidenceRefs)"

definition model_request :: "digest \<Rightarrow> json \<Rightarrow> string \<Rightarrow> string \<Rightarrow> string \<Rightarrow> model_contract \<Rightarrow> json \<Rightarrow> ToolCallRequest" where
  "model_request sha check gateId phase modelCallId contract context =
     (let cid = the_str (fstr check ''id'') in
      \<lparr>tq_toolId = ct_modelTool contract,
       tq_args = JObj [(''context'', context),
          (''rubric'', JObj [(''ref'', JStr (fst (ct_rubric contract))), (''hash'', JStr (snd (ct_rubric contract)))]),
          (''maxTokens'', JNum (ct_maxTokens contract))],
       tq_reason = ''Evaluate model-assisted gate check '' @ cid @ '' for gate '' @ gateId,
       tq_idempotencyKey = hashJson sha (JObj
          [(''gateId'', JStr gateId), (''phase'', JStr phase), (''checkId'', JStr cid),
           (''rubricHash'', JStr (snd (ct_rubric contract))), (''context'', context)]),
       tq_requestedBy = JObj [(''phase'', JStr phase), (''gateId'', JStr gateId), (''modelCallId'', JStr modelCallId)]\<rparr>)"

text \<open>What is done with the answer of the broker, \<open>None\<close> when the call or the schema of its answer failed.\<close>

definition read_model_result ::
  "digest \<Rightarrow> json \<Rightarrow> string \<Rightarrow> string \<Rightarrow> model_contract \<Rightarrow> ModelCallTool \<Rightarrow> string \<Rightarrow> json option \<Rightarrow>
   CheckEvaluation \<times> ModelAssistedCallProvenance" where
  "read_model_result sha check severity modelCallId contract baseTool requestHash answer =
     (let cid = the_str (fstr check ''id'');
          fail = failClosedModelCheck check severity modelCallId (ct_rubric contract) in
      (case answer of
         None \<Rightarrow>
           fail ''error'' (''Model-assisted check '' @ cid @ '' broker call failed'')
             (baseTool\<lparr>mt_toolId := ct_modelTool contract, mt_requestHash := requestHash, mt_policyStatus := ''error''\<rparr>)
       | Some result \<Rightarrow>
           let tool = modelToolProvenance sha result requestHash (ct_maxTokens contract);
               status = the_str (fstr result ''status''); output = js_get result ''output'' in
           if status \<noteq> ''success''
           then fail (if status = ''denied'' then ''denied'' else ''error'')
                  (default (fstr (js_get result ''error'') ''message'')
                     (''Model-assisted check '' @ cid @ '' returned '' @ status)) tool
           else if output = JUndefined \<or>
                   int (length (stringify (normalizeStable output))) > max 1 (ct_maxTokens contract) * 16
           then fail ''invalid_output'' (''Model-assisted check '' @ cid @ '' returned absent or oversized output'') tool
           else if \<not> ct_outputSchema contract output
           then fail ''invalid_output'' (''Model-assisted check '' @ cid @ '' output failed outputSchema validation'') tool
           else (evaluationFromModelOutput check output severity,
                 \<lparr>mc_checkId = cid, mc_modelCallId = modelCallId, mc_rubric = ct_rubric contract, mc_outcome = ''success'',
                  mc_tool = tool\<rparr>)))"

text \<open>\<open>n\<close> counts the calls made before this check; the result tells how many have been made after it.\<close>

definition evaluateModelAssistedCheck ::
  "digest \<Rightarrow> BrokerPort option \<Rightarrow> nat \<Rightarrow> json \<Rightarrow> string \<Rightarrow> json \<Rightarrow> string \<Rightarrow> string \<Rightarrow> string option \<Rightarrow>
   nat \<times> CheckEvaluation \<times> ModelAssistedCallProvenance" where
  "evaluateModelAssistedCheck sha broker n check gateId input phase severity traceId =
     (let cid = the_str (fstr check ''id'');
          modelCallId = modelCallIdFor sha gateId check phase input;
          baseTool = \<lparr>mt_toolId = (case fstr check ''modelTool'' of Some (c # cs) \<Rightarrow> c # cs | _ \<Rightarrow> ''undeclared''),
            mt_toolVersion = None,
            mt_requestHash = hashJson sha (JObj [(''gateId'', JStr gateId), (''checkId'', JStr cid),
              (''modelCallId'', JStr modelCallId), (''phase'', JStr phase)]),
            mt_resultHash = None, mt_argsHash = None, mt_cacheStatus = None, mt_traceId = None,
            mt_tokenBudget = default (fnum check ''maxTokens'') 0, mt_policyStatus = ''not_requested''\<rparr> in
      (case validateModelAssistedContract check of
         Inl message \<Rightarrow>
           (n, failClosedModelCheck check severity modelCallId (fallbackRubric check) ''invalid_output'' message baseTool)
       | Inr contract \<Rightarrow>
           (case broker of
              None \<Rightarrow>
                (n, failClosedModelCheck check severity modelCallId (ct_rubric contract) ''error''
                   (''Model-assisted check '' @ cid @ '' requires an injected broker'') baseTool)
            | Some call \<Rightarrow>
                let context = projectModelContext check input in
                if \<not> ct_inputSchema contract context
                then (n, failClosedModelCheck check severity modelCallId (ct_rubric contract) ''invalid_output''
                       (''Model-assisted check '' @ cid @ '' context failed inputSchema validation'') baseTool)
                else
                  let request = model_request sha check gateId phase modelCallId contract context;
                      answer = call n request (traceId, fstr input ''runId'') in
                  (Suc n, read_model_result sha check severity modelCallId contract baseTool
                     (hashJson sha (toolCallRequest_json request))
                     (case answer of Some r \<Rightarrow> if ToolCallResultSchema r then Some r else None | None \<Rightarrow> None)))))"

fun evaluate_model_checks ::
  "digest \<Rightarrow> BrokerPort option \<Rightarrow> nat \<Rightarrow> json list \<Rightarrow> string \<Rightarrow> json \<Rightarrow> string \<Rightarrow> string \<Rightarrow> string option \<Rightarrow>
   (CheckEvaluation \<times> ModelAssistedCallProvenance) list" where
  "evaluate_model_checks sha broker n [] gateId input phase severity traceId = []"
| "evaluate_model_checks sha broker n (check # checks) gateId input phase severity traceId =
     (let r = evaluateModelAssistedCheck sha broker n check gateId input phase severity traceId in
      snd r # evaluate_model_checks sha broker (fst r) checks gateId input phase severity traceId)"

definition is_fail :: "CheckEvaluation \<Rightarrow> bool" where
  "is_fail e = (case e of CheckFail f a b refs \<Rightarrow> True | _ \<Rightarrow> False)"

definition evaluateGateAsync ::
  "digest \<Rightarrow> (string \<Rightarrow> bool) \<Rightarrow> BrokerPort option \<Rightarrow> EvaluateGateRequest \<Rightarrow> gate_error + GateEvaluationResult" where
  "evaluateGateAsync sha dt broker request =
     (case gate_preamble sha dt request of
        Inl result \<Rightarrow> result
      | Inr (d, frame) \<Rightarrow>
          let checks = definition_checks d; input = er_input request;
              modelAssistedChecks = filter isModelAssistedCheck checks;
              deterministicEvaluations =
                map (\<lambda>check. evaluateCheck check input (fr_phase frame) (fr_severity frame))
                  (filter (\<lambda>check. \<not> isModelAssistedCheck check) checks) in
          if list_ex is_fail deterministicEvaluations \<or> modelAssistedChecks = []
          then aggregateEvaluations sha dt d frame deterministicEvaluations input ''deterministic'' None
          else
            let evaluated = evaluate_model_checks sha broker 0 modelAssistedChecks (def_id d) input (fr_phase frame)
                  (fr_severity frame) (er_traceId request) in
            aggregateEvaluations sha dt d frame (deterministicEvaluations @ map fst evaluated) input ''model_assisted''
              (Some (map snd evaluated)))"

end
