(* ===== verification/Gate_Safety.thy ===== *)
theory Gate_Safety
  imports Gate_Model
begin

text \<open>
  The gate engine is related to an abstract specification: a gate's status is the worst outcome of its
  checks in the order pass, review, fail, and a gate that cannot be resolved or misses an input fails.
  The locale \<open>gate_evaluator\<close> is the contract of an entry point of the engine; the synchronous and the
  asynchronous one are interpretations, and the properties of the lifecycle instructions are proved once
  for both.
\<close>

section \<open>Outcomes\<close>

fun status_rank :: "GateVerdictStatus \<Rightarrow> nat" where
  "status_rank GatePass = 0"
| "status_rank GateNeedsReview = 1"
| "status_rank GateFail = 2"

instantiation GateVerdictStatus :: linorder
begin

definition less_eq_GateVerdictStatus :: "GateVerdictStatus \<Rightarrow> GateVerdictStatus \<Rightarrow> bool" where
  "less_eq_GateVerdictStatus a b \<longleftrightarrow> status_rank a \<le> status_rank b"

definition less_GateVerdictStatus :: "GateVerdictStatus \<Rightarrow> GateVerdictStatus \<Rightarrow> bool" where
  "less_GateVerdictStatus a b \<longleftrightarrow> status_rank a < status_rank b"

instance
proof
  fix a b c :: GateVerdictStatus
  show "a < b \<longleftrightarrow> a \<le> b \<and> \<not> b \<le> a" "a \<le> a" "a \<le> b \<or> b \<le> a"
    by (auto simp: less_eq_GateVerdictStatus_def less_GateVerdictStatus_def)
  show "a \<le> b \<Longrightarrow> b \<le> c \<Longrightarrow> a \<le> c" by (simp add: less_eq_GateVerdictStatus_def)
  show "a \<le> b \<Longrightarrow> b \<le> a \<Longrightarrow> a = b"
    by (cases a; cases b) (simp_all add: less_eq_GateVerdictStatus_def)
qed

end

fun outcome :: "CheckEvaluation \<Rightarrow> GateVerdictStatus" where
  "outcome (CheckPass r) = GatePass"
| "outcome (CheckFail f a b r) = GateFail"
| "outcome (CheckReview f a r) = GateNeedsReview"

definition worst :: "GateVerdictStatus list \<Rightarrow> GateVerdictStatus" where
  "worst ss = foldr max ss GatePass"

lemma status_order [simp]: "GatePass \<le> s" "s \<le> GateFail" "max GatePass s = s" "max s GatePass = s"
  by (cases s; simp add: less_eq_GateVerdictStatus_def max_def)+

lemma worst_simps [simp]: "worst [] = GatePass" "worst (s # ss) = max s (worst ss)"
  by (simp_all add: worst_def)

lemma worst_pass: "worst ss = GatePass \<longleftrightarrow> (\<forall>s \<in> set ss. s = GatePass)"
proof (induction ss)
  case (Cons s ss)
  then show ?case by (cases s) (auto simp: max_def less_eq_GateVerdictStatus_def)
qed simp

lemma worst_fail: "worst ss = GateFail \<longleftrightarrow> GateFail \<in> set ss"
proof (induction ss)
  case (Cons s ss)
  then show ?case by (cases s; cases "worst ss") (auto simp: max_def less_eq_GateVerdictStatus_def)
qed simp

lemma outcome_pass: "outcome e = GatePass \<longleftrightarrow> is_pass e"
  by (cases e) simp_all

lemma failed_of_simps [simp]:
  "failed_of [] = []" "failed_of (CheckPass r # es) = failed_of es"
  "failed_of (CheckReview f s r # es) = failed_of es" "failed_of (CheckFail f a b r # es) = (f, a, b) # failed_of es"
  by (simp_all add: failed_of_def)

lemma reviews_of_simps [simp]:
  "reviews_of [] = []" "reviews_of (CheckPass r # es) = reviews_of es"
  "reviews_of (CheckReview f s r # es) = (f, s) # reviews_of es" "reviews_of (CheckFail f a b r # es) = reviews_of es"
  by (simp_all add: reviews_of_def)

lemma worst_outcome:
  "worst (map outcome es) =
     (if failed_of es \<noteq> [] then GateFail else if reviews_of es \<noteq> [] then GateNeedsReview else GatePass)"
proof (induction es)
  case (Cons e es)
  then show ?case by (cases e) (auto simp: max_def less_eq_GateVerdictStatus_def)
qed simp

section \<open>Results\<close>

lemma validated_Inr:
  "validatedGateResult sha dt ma v i = Inr r \<longleftrightarrow>
     GateVerdictSchema_ok dt v \<and> GateLifecycleInstructionSchema_ok i \<and>
     r = \<lparr>ge_verdict = v, ge_decisionHash = gate_hashDecision sha v, ge_instruction = i, ge_modelAssisted = ma\<rparr>"
  by (auto simp: validatedGateResult_def)

definition proceeds :: "GateLifecycleInstruction \<Rightarrow> bool" where
  "proceeds i = (case i of Continue g \<Rightarrow> True | TransitionPhase g p \<Rightarrow> True | _ \<Rightarrow> False)"

lemma proceeds_simps [simp]:
  "proceeds (Continue g)" "proceeds (TransitionPhase g p)" "\<not> proceeds (PauseForHuman g q)"
  "\<not> proceeds (RequestApproval g a)" "\<not> proceeds (CreateRepairTask g t)" "\<not> proceeds (FailRun g m)"
  by (simp_all add: proceeds_def)

text \<open>What holds of every result for gate \<open>g\<close>, with \<open>onFail\<close> and the input it was evaluated with.\<close>

definition repair_bounded :: "json \<Rightarrow> json \<Rightarrow> GateLifecycleInstruction \<Rightarrow> bool" where
  "repair_bounded onFail input i =
     (case i of
        CreateRepairTask g t \<Rightarrow>
          repairLoopIterations input < maxRepairIterations onFail \<and>
          set (gr_allowedTools t) \<subseteq> set (default (fstrs (onFailObject onFail) ''allowedTools'') []) \<and>
          set (default (fstrs (onFailObject onFail) ''blockedTools'') []) \<subseteq> set (gr_blockedTools t) \<and>
          set (gr_allowedTools t) \<inter> set (gr_blockedTools t) = {}
      | _ \<Rightarrow> True)"

definition result_ok :: "string \<Rightarrow> json \<Rightarrow> json \<Rightarrow> GateEvaluationResult \<Rightarrow> bool" where
  "result_ok g onFail input r \<longleftrightarrow>
     (proceeds (ge_instruction r) \<longleftrightarrow> gv_status (ge_verdict r) = GatePass) \<and>
     gv_gateId (ge_verdict r) = g \<and> gi_gateId (ge_instruction r) = g \<and>
     (ge_instruction r = FailRun g (firstReason (ge_verdict r)) \<or> gv_requiredAction (ge_verdict r) \<noteq> Some ''fail_run'') \<and>
     repair_bounded onFail input (ge_instruction r)"

lemma failClosed_ok:
  "failClosedGate sha dt g frame reason fid tr = Inr r \<Longrightarrow>
     result_ok g onFail input r \<and> gv_status (ge_verdict r) = GateFail \<and> ge_instruction r = FailRun g reason"
  by (auto simp: failClosedGate_def validated_Inr result_ok_def repair_bounded_def firstReason_def)

lemma bounded_envelope:
  assumes "assertBoundedRepairEnvelope governed t = None"
  shows "set (gr_allowedTools t) \<subseteq> set (default (fstrs governed ''allowedTools'') [])"
    "set (default (fstrs governed ''blockedTools'') []) \<subseteq> set (gr_blockedTools t)"
    "set (gr_allowedTools t) \<inter> set (gr_blockedTools t) = {}"
  using assms by (auto simp: assertBoundedRepairEnvelope_def Let_def filter_empty_conv split: if_splits)

lemma instruction_for_failure:
  assumes "instructionForFailure d phase v input act = Some i" "gv_requiredAction v = Some act"
  shows "\<not> proceeds i" "gi_gateId i = def_id d" "repair_bounded (js_get d ''onFail'') input i"
    "act = ''fail_run'' \<Longrightarrow> i = FailRun (def_id d) (firstReason v)"
  using assms bounded_envelope [of "onFailObject (js_get d ''onFail'')" "repairTaskFor d phase v"]
  by (auto simp: instructionForFailure_def repair_bounded_def repairInstructionForBoundedEnvelope_def
      split: if_splits option.splits)

lemma failing_ok:
  assumes "buildFailingResult sha dt d frame fs refs input act kind ma bypass = Inr r"
  shows "result_ok (def_id d) (js_get d ''onFail'') input r \<and> gv_status (ge_verdict r) = GateFail \<and>
    gv_requiredAction (ge_verdict r) = Some (requiredActionFor (js_get d ''onFail'') act bypass)"
proof -
  define a where "a = requiredActionFor (js_get d ''onFail'') act bypass"
  define v where "v = failing_verdict d frame fs refs a kind"
  obtain i where i: "instructionForFailure d (fr_phase frame) v input a = Some i"
    and r: "validatedGateResult sha dt ma v i = Inr r"
    using assms unfolding buildFailingResult_def Let_def a_def [symmetric] v_def [symmetric]
    by (auto split: option.splits)
  have v: "gv_requiredAction v = Some a" "gv_gateId v = def_id d" "gv_status v = GateFail"
    by (simp_all add: v_def failing_verdict_def)
  show ?thesis
    using instruction_for_failure [OF i v(1)] r v
    by (auto simp: validated_Inr result_ok_def a_def [symmetric])
qed

lemma review_action:
  assumes "reviews_of es = x # xs" "\<And>f s r. CheckReview f s r \<in> set es \<Longrightarrow> s \<noteq> ''fail_run''"
  shows "snd x \<noteq> ''fail_run''"
  using assms
proof (induction es)
  case (Cons e es)
  then show ?case by (cases e) (auto, metis)
qed simp

text \<open>No check asks for a review with \<^verbatim>\<open>fail_run\<close>.\<close>

definition reviews_fine :: "CheckEvaluation list \<Rightarrow> bool" where
  "reviews_fine es \<longleftrightarrow> (\<forall>e \<in> set es. case e of CheckReview f s r \<Rightarrow> s \<noteq> ''fail_run'' | _ \<Rightarrow> True)"

lemma review_of_check: "reviews_fine [evaluateCheck check input phase severity]"
  by (auto simp: reviews_fine_def evaluateCheck_def evaluateDeterministicPresenceCheck_def evaluateSchemaPresenceCheck_def
      evaluateEvalStatusCheck_def evaluateEvidenceCoverageCheck_def evaluatePolicyStatusCheck_def humanReviewCheck_def
      unsupportedCheck_def Let_def split: option.split if_splits)

lemma reviews_fine_map:
  "(\<And>x. x \<in> set xs \<Longrightarrow> reviews_fine [f x]) \<Longrightarrow> reviews_fine (map f xs)"
  by (auto simp: reviews_fine_def)

lemma reviews_fine_append [simp]: "reviews_fine (xs @ ys) \<longleftrightarrow> reviews_fine xs \<and> reviews_fine ys"
  by (auto simp: reviews_fine_def)

lemma ok_verdict_parts [simp]:
  "gv_status (ok_verdict d fr s rs fs refs a obs k) = s" "gv_gateId (ok_verdict d fr s rs fs refs a obs k) = def_id d"
  "gv_requiredAction (ok_verdict d fr s rs fs refs a obs k) = a"
  by (simp_all add: ok_verdict_def)

lemma review_instruction:
  "\<not> proceeds (instructionForNeedsReview d phase v a)" "gi_gateId (instructionForNeedsReview d phase v a) = def_id d"
  "repair_bounded onFail input (instructionForNeedsReview d phase v a)"
  by (simp_all add: instructionForNeedsReview_def repair_bounded_def)

lemma pass_instruction:
  "proceeds (instructionForPass d)" "gi_gateId (instructionForPass d) = def_id d"
  "repair_bounded onFail input (instructionForPass d)"
  by (auto simp: instructionForPass_def repair_bounded_def Let_def split: option.split)

lemma aggregate_ok:
  assumes r: "aggregateEvaluations sha dt d frame es input kind ma = Inr r" and fine: "reviews_fine es"
  shows "result_ok (def_id d) (js_get d ''onFail'') input r \<and> gv_status (ge_verdict r) = worst (map outcome es)"
proof (cases "failed_of es = []")
  case False
  then show ?thesis
    using r failing_ok unfolding aggregateEvaluations_def Let_def by (auto simp: worst_outcome)
next
  case True
  show ?thesis
  proof (cases "reviews_of es")
    case Nil
    then show ?thesis
      using r True unfolding aggregateEvaluations_def Let_def
      by (auto simp: validated_Inr result_ok_def worst_outcome pass_instruction)
  next
    case (Cons x xs)
    then have "snd x \<noteq> ''fail_run''"
      using fine by (intro review_action [of es x xs]) (auto simp: reviews_fine_def)
    then show ?thesis
      using r True Cons unfolding aggregateEvaluations_def Let_def
      by (auto simp: validated_Inr result_ok_def worst_outcome firstReviewRequiredAction_def review_instruction)
  qed
qed

lemma model_check_review:
  "reviews_fine [fst (snd (evaluateModelAssistedCheck sha broker n check gateId input phase severity traceId))]"
  by (auto simp: reviews_fine_def evaluateModelAssistedCheck_def failClosedModelCheck_def read_model_result_def
      evaluationFromModelOutput_def Let_def split: option.split sum.split if_splits)

lemma model_checks_review:
  "reviews_fine (map fst (evaluate_model_checks sha broker n checks gateId input phase severity traceId))"
  using model_check_review
  by (induction sha broker n checks gateId input phase severity traceId rule: evaluate_model_checks.induct)
     (auto simp: reviews_fine_def Let_def)

section \<open>The contract of an entry point\<close>

definition resolved_onFail :: "EvaluateGateRequest \<Rightarrow> json" where
  "resolved_onFail request = (case resolveGateDefinition request of Inr d \<Rightarrow> js_get d ''onFail'' | Inl x \<Rightarrow> JUndefined)"

locale gate_evaluator =
  fixes run :: "EvaluateGateRequest \<Rightarrow> gate_error + GateEvaluationResult"
    and spec :: "EvaluateGateRequest \<Rightarrow> GateVerdictStatus"
  assumes run_ok: "run request = Inr r \<Longrightarrow> result_ok (er_gateId request) (resolved_onFail request) (er_input request) r"
    and run_status: "run request = Inr r \<Longrightarrow> gv_status (ge_verdict r) = spec request"
begin

lemma proceeds_iff_pass:
  "run request = Inr r \<Longrightarrow> proceeds (ge_instruction r) \<longleftrightarrow> spec request = GatePass"
  using run_ok run_status by (auto simp: result_ok_def)

lemma names_gate:
  "run request = Inr r \<Longrightarrow> gv_gateId (ge_verdict r) = er_gateId request \<and> gi_gateId (ge_instruction r) = er_gateId request"
  using run_ok by (auto simp: result_ok_def)

lemma fail_run_obeyed:
  "run request = Inr r \<Longrightarrow> gv_requiredAction (ge_verdict r) = Some ''fail_run'' \<Longrightarrow>
     ge_instruction r = FailRun (er_gateId request) (firstReason (ge_verdict r))"
  using run_ok by (auto simp: result_ok_def)

lemma repair_task_bounded:
  "run request = Inr r \<Longrightarrow> ge_instruction r = CreateRepairTask g t \<Longrightarrow>
     repairLoopIterations (er_input request) < maxRepairIterations (resolved_onFail request) \<and>
     set (gr_allowedTools t) \<subseteq> set (default (fstrs (onFailObject (resolved_onFail request)) ''allowedTools'') []) \<and>
     set (default (fstrs (onFailObject (resolved_onFail request)) ''blockedTools'') []) \<subseteq> set (gr_blockedTools t) \<and>
     set (gr_allowedTools t) \<inter> set (gr_blockedTools t) = {}"
  using run_ok [of request r] by (auto simp: result_ok_def repair_bounded_def)

end

section \<open>The entry points\<close>

lemma resolve_Inr:
  assumes "resolveGateDefinition request = Inr d"
  shows "js_get d ''id'' = JStr (er_gateId request)" "def_id d = er_gateId request" "validateGateDefinition d = None"
proof -
  show i: "js_get d ''id'' = JStr (er_gateId request)"
    using assms by (auto simp: resolveGateDefinition_def validateResolvedGateDefinition_def Let_def
        split: if_splits option.splits)
  then show "def_id d = er_gateId request" by (simp add: def_id_def fstr_def the_str_def)
  show "validateGateDefinition d = None"
    using assms by (auto simp: resolveGateDefinition_def validateResolvedGateDefinition_def Let_def
        split: if_splits option.splits)
qed

lemma preamble_Inr:
  "gate_preamble sha dt request = Inr (d, frame) \<longleftrightarrow>
     resolveGateDefinition request = Inr d \<and> frame = gate_frame_of request (Inr d) \<and>
     findMissingInputs (js_get d ''inputs'') (er_input request) = []"
  by (auto simp: gate_preamble_def Let_def split: sum.splits if_splits)

lemma preamble_Inl:
  assumes "gate_preamble sha dt request = Inl res" "res = Inr r"
  shows "result_ok (er_gateId request) (resolved_onFail request) (er_input request) r"
    "gv_status (ge_verdict r) = GateFail"
proof -
  have "result_ok (er_gateId request) (resolved_onFail request) (er_input request) r \<and> gv_status (ge_verdict r) = GateFail"
  proof (cases "resolveGateDefinition request")
    case (Inl x)
    then obtain f p where "resolveGateDefinition request = Inl (f, p)" by (cases x) auto
    then show ?thesis using assms failClosed_ok by (auto simp: gate_preamble_def Let_def)
  next
    case (Inr d)
    then show ?thesis
      using assms failing_ok [of sha dt d] resolve_Inr(2) [OF Inr]
      by (auto simp: gate_preamble_def Let_def resolved_onFail_def split: if_splits)
  qed
  then show "result_ok (er_gateId request) (resolved_onFail request) (er_input request) r"
    "gv_status (ge_verdict r) = GateFail" by auto
qed

text \<open>The abstract specification of the two entry points.\<close>

definition check_outcomes :: "EvaluateGateRequest \<Rightarrow> json \<Rightarrow> json list \<Rightarrow> GateVerdictStatus list" where
  "check_outcomes request d checks =
     (let frame = gate_frame_of request (Inr d) in
      map (\<lambda>check. outcome (evaluateCheck check (er_input request) (fr_phase frame) (fr_severity frame))) checks)"

definition gate_spec :: "EvaluateGateRequest \<Rightarrow> GateVerdictStatus" where
  "gate_spec request =
     (case resolveGateDefinition request of
        Inl x \<Rightarrow> GateFail
      | Inr d \<Rightarrow>
          if findMissingInputs (js_get d ''inputs'') (er_input request) \<noteq> [] \<or>
             list_ex isModelAssistedCheck (definition_checks d) then GateFail
          else worst (check_outcomes request d (definition_checks d)))"

definition model_outcomes :: "digest \<Rightarrow> BrokerPort option \<Rightarrow> EvaluateGateRequest \<Rightarrow> json \<Rightarrow> GateVerdictStatus list" where
  "model_outcomes sha broker request d =
     (let frame = gate_frame_of request (Inr d) in
      map (outcome \<circ> fst) (evaluate_model_checks sha broker 0 (filter isModelAssistedCheck (definition_checks d))
        (er_gateId request) (er_input request) (fr_phase frame) (fr_severity frame) (er_traceId request)))"

definition gate_async_spec :: "digest \<Rightarrow> BrokerPort option \<Rightarrow> EvaluateGateRequest \<Rightarrow> GateVerdictStatus" where
  "gate_async_spec sha broker request =
     (case resolveGateDefinition request of
        Inl x \<Rightarrow> GateFail
      | Inr d \<Rightarrow>
          if findMissingInputs (js_get d ''inputs'') (er_input request) \<noteq> [] then GateFail
          else worst (check_outcomes request d (filter (\<lambda>c. \<not> isModelAssistedCheck c) (definition_checks d)) @
                      model_outcomes sha broker request d))"

lemma spec_of_preamble:
  "gate_preamble sha dt request = Inl res \<Longrightarrow> gate_spec request = GateFail \<and> gate_async_spec sha' broker request = GateFail"
  by (auto simp: gate_preamble_def gate_spec_def gate_async_spec_def Let_def split: sum.splits if_splits)

lemma check_reviews: "reviews_fine (map (\<lambda>c. evaluateCheck c input phase severity) cs)"
  by (intro reviews_fine_map) (rule review_of_check)

lemma evaluateGate_ok:
  assumes "evaluateGate sha dt request = Inr r"
  shows "result_ok (er_gateId request) (resolved_onFail request) (er_input request) r \<and>
    gv_status (ge_verdict r) = gate_spec request"
proof (cases "gate_preamble sha dt request")
  case (Inl res)
  then show ?thesis
    using assms preamble_Inl [OF Inl] spec_of_preamble [OF Inl] by (auto simp: evaluateGate_def)
next
  case (Inr df)
  obtain d frame where df: "df = (d, frame)" by (cases df)
  note pre = Inr [unfolded df preamble_Inr]
  have id: "def_id d = er_gateId request" "resolved_onFail request = js_get d ''onFail''"
    using pre resolve_Inr(2) by (auto simp: resolved_onFail_def)
  show ?thesis
  proof (cases "filter isModelAssistedCheck (definition_checks d)")
    case Nil
    then have "aggregateEvaluations sha dt d frame
        (map (\<lambda>check. evaluateCheck check (er_input request) (fr_phase frame) (fr_severity frame)) (definition_checks d))
        (er_input request) ''deterministic'' None = Inr r"
      using assms Inr df by (simp add: evaluateGate_def Let_def)
    note agg = aggregate_ok [OF this check_reviews]
    show ?thesis
      using agg id pre Nil by (auto simp: gate_spec_def check_outcomes_def Let_def list_ex_iff filter_empty_conv comp_def)
  next
    case (Cons c cs)
    then have "list_ex isModelAssistedCheck (definition_checks d)"
      by (auto simp: list_ex_iff filter_eq_Cons_iff)
    then show ?thesis
      using assms Inr df Cons id pre failClosed_ok by (auto simp: evaluateGate_def Let_def gate_spec_def)
  qed
qed

interpretation sync: gate_evaluator "evaluateGate sha dt" gate_spec
  by unfold_locales (use evaluateGate_ok in blast)+

lemma is_fail_iff: "is_fail e \<longleftrightarrow> outcome e = GateFail"
  by (cases e) (simp_all add: is_fail_def)

lemma worst_append: "worst (xs @ ys) = max (worst xs) (worst ys)"
  by (induction xs) (simp_all add: max.assoc)

lemma worst_with_fail: "GateFail \<in> set xs \<Longrightarrow> worst (xs @ ys) = worst xs"
  using worst_fail [of xs] by (simp add: worst_append max_absorb1)

lemma evaluateGateAsync_ok:
  assumes "evaluateGateAsync sha dt broker request = Inr r"
  shows "result_ok (er_gateId request) (resolved_onFail request) (er_input request) r \<and>
    gv_status (ge_verdict r) = gate_async_spec sha broker request"
proof (cases "gate_preamble sha dt request")
  case (Inl res)
  then show ?thesis
    using assms preamble_Inl [OF Inl] spec_of_preamble [OF Inl] by (auto simp: evaluateGateAsync_def)
next
  case (Inr df)
  obtain d frame where df: "df = (d, frame)" by (cases df)
  note pre = Inr [unfolded df preamble_Inr]
  have id: "def_id d = er_gateId request" "resolved_onFail request = js_get d ''onFail''"
    using pre resolve_Inr(2) by (auto simp: resolved_onFail_def)
  define det where "det = map (\<lambda>check. evaluateCheck check (er_input request) (fr_phase frame) (fr_severity frame))
    (filter (\<lambda>check. \<not> isModelAssistedCheck check) (definition_checks d))"
  define mds where "mds = evaluate_model_checks sha broker 0 (filter isModelAssistedCheck (definition_checks d))
    (def_id d) (er_input request) (fr_phase frame) (fr_severity frame) (er_traceId request)"
  have fine: "reviews_fine det" "reviews_fine (det @ map fst mds)"
    by (simp_all add: det_def mds_def check_reviews model_checks_review)
  have spec: "gate_async_spec sha broker request = worst (map outcome det @ map (outcome \<circ> fst) mds)"
    using pre id by (simp add: gate_async_spec_def check_outcomes_def model_outcomes_def det_def mds_def Let_def comp_def)
  show ?thesis
  proof (cases "list_ex is_fail det \<or> filter isModelAssistedCheck (definition_checks d) = []")
    case True
    then have agg: "aggregateEvaluations sha dt d frame det (er_input request) ''deterministic'' None = Inr r"
      using assms Inr df by (simp add: evaluateGateAsync_def Let_def det_def [symmetric])
    have "worst (map outcome det @ map (outcome \<circ> fst) mds) = worst (map outcome det)"
    proof (cases "filter isModelAssistedCheck (definition_checks d) = []")
      case True
      then show ?thesis by (simp add: mds_def)
    next
      case False
      with True have "GateFail \<in> set (map outcome det)" by (force simp: list_ex_iff is_fail_iff)
      then show ?thesis by (rule worst_with_fail)
    qed
    then show ?thesis using aggregate_ok [OF agg fine(1)] id spec by simp
  next
    case False
    then have agg: "aggregateEvaluations sha dt d frame (det @ map fst mds) (er_input request) ''model_assisted''
        (Some (map snd mds)) = Inr r"
      using assms Inr df by (simp add: evaluateGateAsync_def Let_def det_def [symmetric] mds_def [symmetric])
    show ?thesis using aggregate_ok [OF agg fine(2)] id spec by simp
  qed
qed

interpretation async: gate_evaluator "evaluateGateAsync sha dt broker" "gate_async_spec sha broker"
  by unfold_locales (use evaluateGateAsync_ok in blast)+

section \<open>A broker that gives no usable answer\<close>

definition unusable :: "json option \<Rightarrow> bool" where
  "unusable answer = (case answer of None \<Rightarrow> True
     | Some v \<Rightarrow> \<not> ToolCallResultSchema v \<or> fstr v ''status'' \<noteq> Some ''success'' \<or> js_get v ''output'' = JUndefined)"

lemma unusable_fails_closed:
  assumes "broker = None \<or> (\<exists>call. broker = Some call \<and> (\<forall>n q c. unusable (call n q c)))"
  shows "\<exists>f refs. fst (snd (evaluateModelAssistedCheck sha broker n check gateId input phase severity traceId)) =
    CheckFail f (Some ''fail_run'') True refs"
proof -
  have bad: "\<exists>f refs. fst (read_model_result sha check severity i ct tool h
      (case a of Some r \<Rightarrow> if ToolCallResultSchema r then Some r else None | None \<Rightarrow> None)) =
      CheckFail f (Some ''fail_run'') True refs" if "unusable a" for a i ct tool h
    using that
    by (cases a) (auto simp: unusable_def read_model_result_def failClosedModelCheck_def Let_def the_str_def
        split: option.splits if_splits)
  show ?thesis
    using assms bad
    by (auto simp: evaluateModelAssistedCheck_def failClosedModelCheck_def Let_def split: sum.split if_splits)
qed

lemma unusable_model_checks:
  assumes "broker = None \<or> (\<exists>call. broker = Some call \<and> (\<forall>n q c. unusable (call n q c)))"
  shows "\<forall>e \<in> set (map fst (evaluate_model_checks sha broker n checks gateId input phase severity traceId)).
    \<exists>f refs. e = CheckFail f (Some ''fail_run'') True refs"
  using unusable_fails_closed [OF assms]
  by (induction checks arbitrary: n) (auto simp: Let_def)

lemma failed_of_append: "failed_of (xs @ ys) = failed_of xs @ failed_of ys"
  by (induction xs) (simp_all add: failed_of_def split: option.split)

lemma failed_of_bypass:
  assumes "\<forall>e \<in> set es. \<exists>f refs. e = CheckFail f (Some ''fail_run'') True refs" "es \<noteq> []"
  shows "failed_of es \<noteq> []" "filter (\<lambda>e. snd (snd e)) (failed_of es) \<noteq> []"
  using assms by (cases es; auto)+

lemma aggregate_bypass:
  assumes "aggregateEvaluations sha dt d frame (es @ ms) input kind ma = Inr r"
    and "\<forall>e \<in> set ms. \<exists>f refs. e = CheckFail f (Some ''fail_run'') True refs" "ms \<noteq> []"
  shows "gv_requiredAction (ge_verdict r) = Some ''fail_run''"
proof -
  have "failed_of (es @ ms) \<noteq> []" "filter (\<lambda>e. snd (snd e)) (failed_of (es @ ms)) \<noteq> []"
    using failed_of_bypass [OF assms(2,3)] by (simp_all add: failed_of_append)
  then show ?thesis
    using assms(1) failing_ok unfolding aggregateEvaluations_def Let_def by (auto simp: requiredActionFor_def)
qed

lemma unusable_model_fails_run:
  assumes d: "resolveGateDefinition request = Inr d"
    and missing: "findMissingInputs (js_get d ''inputs'') (er_input request) = []"
    and model: "list_ex isModelAssistedCheck (definition_checks d)"
    and det: "GateFail \<notin> set (check_outcomes request d (filter (\<lambda>c. \<not> isModelAssistedCheck c) (definition_checks d)))"
    and broker: "broker = None \<or> (\<exists>call. broker = Some call \<and> (\<forall>n q c. unusable (call n q c)))"
    and r: "evaluateGateAsync sha dt broker request = Inr r"
  shows "gv_status (ge_verdict r) = GateFail \<and> ge_instruction r = FailRun (er_gateId request) (firstReason (ge_verdict r))"
proof -
  define frame where "frame = gate_frame_of request (Inr d)"
  define es where "es = map (\<lambda>check. evaluateCheck check (er_input request) (fr_phase frame) (fr_severity frame))
    (filter (\<lambda>check. \<not> isModelAssistedCheck check) (definition_checks d))"
  define ms where "ms = evaluate_model_checks sha broker 0 (filter isModelAssistedCheck (definition_checks d))
    (def_id d) (er_input request) (fr_phase frame) (fr_severity frame) (er_traceId request)"
  have pre: "gate_preamble sha dt request = Inr (d, frame)"
    using d missing by (simp add: preamble_Inr frame_def)
  obtain c cs where cs: "filter isModelAssistedCheck (definition_checks d) = c # cs"
    using model by (cases "filter isModelAssistedCheck (definition_checks d)") (auto simp: list_ex_iff filter_empty_conv)
  have "\<not> list_ex is_fail es"
    using det by (force simp: es_def list_ex_iff is_fail_iff check_outcomes_def frame_def Let_def image_iff)
  then have agg: "aggregateEvaluations sha dt d frame (es @ map fst ms) (er_input request) ''model_assisted''
      (Some (map snd ms)) = Inr r"
    using r pre cs unfolding evaluateGateAsync_def by (simp add: Let_def es_def ms_def)
  have bad: "\<forall>e \<in> set (map fst ms). \<exists>f refs. e = CheckFail f (Some ''fail_run'') True refs"
    unfolding ms_def by (rule unusable_model_checks [OF broker])
  have some: "map fst ms \<noteq> []" unfolding ms_def cs by (simp add: Let_def)
  have act: "gv_requiredAction (ge_verdict r) = Some ''fail_run''" using agg bad some by (rule aggregate_bypass)
  have run: "ge_instruction r = FailRun (er_gateId request) (firstReason (ge_verdict r))"
    by (rule async.fail_run_obeyed [OF r act])
  have fine: "reviews_fine (es @ map fst ms)" by (simp add: es_def ms_def check_reviews model_checks_review)
  have "gv_status (ge_verdict r) = GateFail"
    using aggregate_ok [OF agg fine] failed_of_bypass(1) [OF bad some] by (simp add: worst_outcome failed_of_append del: map_append map_map)
  with run show ?thesis by simp
qed

section \<open>What the model sees\<close>

text \<open>Two values that differ at most below secret-like keys and inside restricted records.\<close>

inductive low_eq :: "json \<Rightarrow> json \<Rightarrow> bool" where
  low_refl: "low_eq v v"
| low_arr: "list_all2 low_eq xs ys \<Longrightarrow> low_eq (JArr xs) (JArr ys)"
| low_obj: "list_all2 (\<lambda>p q. fst p = fst q \<and> (isSecretLikeKey (fst p) \<or> low_eq (snd p) (snd q))) ps qs \<Longrightarrow>
    low_eq (JObj ps) (JObj qs)"
| low_restricted: "isRestrictedRedactionRecord (JObj ps) \<Longrightarrow> isRestrictedRedactionRecord (JObj qs) \<Longrightarrow>
    low_eq (JObj ps) (JObj qs)"

inductive_cases low_eq_StrE: "low_eq (JStr s) w"

function clean :: "json \<Rightarrow> bool" where
  "clean (JArr xs) \<longleftrightarrow> (\<forall>x \<in> set xs. clean x)"
| "clean (JObj ps) \<longleftrightarrow> (\<forall>p \<in> set ps. \<not> isSecretLikeKey (fst p) \<and> clean (snd p))"
| "clean JUndefined \<longleftrightarrow> True" | "clean JNull \<longleftrightarrow> True" | "clean (JBool b) \<longleftrightarrow> True" | "clean (JNum n) \<longleftrightarrow> True"
| "clean (JStr s) \<longleftrightarrow> True"
  by pat_completeness auto
termination
proof (relation "measure size", goal_cases)
  case (2 xs x)
  then show ?case using size_element [of x xs] by simp
next
  case (3 ps p)
  then show ?case using size_member [of p ps] by auto
qed simp

lemma redact_clean: "clean (redactForModel v)"
proof (induction v rule: json_induct)
  case (Obj ps)
  then show ?case by (fastforce simp: js_assign_def js_order_def)
qed auto

inductive_cases low_eq_to_StrE: "low_eq v (JStr s)"

lemma low_eq_Str: "low_eq v w \<Longrightarrow> v = JStr s \<longleftrightarrow> w = JStr s"
  by (auto elim: low_eq_StrE low_eq_to_StrE)

abbreviation low_prop :: "string \<times> json \<Rightarrow> string \<times> json \<Rightarrow> bool" where
  "low_prop p q \<equiv> fst p = fst q \<and> (isSecretLikeKey (fst p) \<or> low_eq (snd p) (snd q))"

lemma low_get:
  assumes "list_all2 low_prop ps qs" "\<not> isSecretLikeKey k"
  shows "js_get (JObj ps) k = JStr s \<longleftrightarrow> js_get (JObj qs) k = JStr s"
  using assms
proof (induction rule: list_all2_induct)
  case (Cons p ps q qs)
  then show ?case using low_eq_Str [of "snd p" "snd q"] by (cases p; cases q) (auto simp: js_get_def)
qed simp

lemma class_keys_not_secret: "\<not> isSecretLikeKey ''redactionClass''" "\<not> isSecretLikeKey ''redaction''"
  by (code_simp, code_simp)

lemma low_restricted_iff:
  "list_all2 low_prop ps qs \<Longrightarrow> isRestrictedRedactionRecord (JObj ps) \<longleftrightarrow> isRestrictedRedactionRecord (JObj qs)"
  using low_get [of ps qs "''redactionClass''"] low_get [of ps qs "''redaction''"] class_keys_not_secret
  by (simp add: isRestrictedRedactionRecord_def)

lemma low_eq_redact: "low_eq v w \<Longrightarrow> redactForModel v = redactForModel w"
proof (induction rule: low_eq.induct)
  case (low_arr xs ys)
  then have "map redactForModel xs = map redactForModel ys"
    by (induction rule: list_all2_induct) simp_all
  then show ?case by simp
next
  case (low_obj ps qs)
  have low: "list_all2 low_prop ps qs" using low_obj by (rule list_all2_mono) auto
  have "map (\<lambda>p. (fst p, redactForModel (snd p))) (filter (\<lambda>p. \<not> isSecretLikeKey (fst p)) ps) =
      map (\<lambda>p. (fst p, redactForModel (snd p))) (filter (\<lambda>p. \<not> isSecretLikeKey (fst p)) qs)"
    using low_obj by (induction rule: list_all2_induct) auto
  then show ?case using low_restricted_iff [OF low] by simp
qed simp_all

section \<open>Well-typed results\<close>

text \<open>A result carries a verdict and an instruction of the published schemas and the hash of its own verdict.\<close>

definition well_typed :: "digest \<Rightarrow> (string \<Rightarrow> bool) \<Rightarrow> GateEvaluationResult \<Rightarrow> bool" where
  "well_typed sha dt r \<longleftrightarrow>
     GateVerdictSchema_ok dt (ge_verdict r) \<and> GateLifecycleInstructionSchema_ok (ge_instruction r) \<and>
     ge_decisionHash r = gate_hashDecision sha (ge_verdict r)"

lemma validated_typed: "validatedGateResult sha dt ma v i = Inr r \<Longrightarrow> well_typed sha dt r"
  by (auto simp: validated_Inr well_typed_def)

lemma failClosed_typed: "failClosedGate sha dt g frame reason fid tr = Inr r \<Longrightarrow> well_typed sha dt r"
  unfolding failClosedGate_def by (rule validated_typed)

lemma failing_typed:
  "buildFailingResult sha dt d frame fs refs input act kind ma bypass = Inr r \<Longrightarrow> well_typed sha dt r"
  by (auto simp: buildFailingResult_def Let_def intro: validated_typed split: option.splits)

lemma aggregate_typed: "aggregateEvaluations sha dt d frame es input kind ma = Inr r \<Longrightarrow> well_typed sha dt r"
  by (auto simp: aggregateEvaluations_def Let_def intro: validated_typed failing_typed split: if_splits)

lemma preamble_typed: "gate_preamble sha dt request = Inl (Inr r) \<Longrightarrow> well_typed sha dt r"
  by (auto simp: gate_preamble_def Let_def intro: failClosed_typed failing_typed split: sum.splits if_splits)

lemmas result_typed = failClosed_typed failing_typed aggregate_typed preamble_typed

section \<open>Example requests\<close>

definition example_check :: "string \<Rightarrow> string \<Rightarrow> json" where
  "example_check cid ref =
     JObj [(''id'', JStr cid), (''type'', JStr ''deterministic''), (''path'', JStr ref)]"

definition example_model_check :: json where
  "example_model_check = JObj
     [(''id'', JStr ''tone''), (''type'', JStr ''model_assisted''), (''modelTool'', JStr ''judge''),
      (''rubric'', JObj [(''ref'', JStr ''r1''), (''hash'', JStr ''h1'')]), (''allowedContextRefs'', JArr [JStr ''$.title'']),
      (''inputSchema'', JObj [(''type'', JStr ''object'')]), (''outputSchema'', JObj [(''type'', JStr ''object'')]),
      (''maxTokens'', JNum 64)]"

definition example_definition :: "json list \<Rightarrow> json" where
  "example_definition checks = JObj
     [(''id'', JStr ''g''), (''version'', JStr ''1''), (''phase'', JStr ''plan''), (''kind'', JStr ''entry''),
      (''inputs'', JObj []), (''checks'', JArr checks),
      (''onFail'', JObj [(''action'', JStr ''repair''), (''allowedTools'', JArr [JStr ''edit'']),
         (''blockedTools'', JArr [JStr ''deploy''])])]"

definition example_request :: "json list \<Rightarrow> EvaluateGateRequest" where
  "example_request checks =
     \<lparr>er_gateId = ''g'', er_phase = None, er_gateDefinition = JUndefined,
      er_gateDefinitions = JArr [example_definition checks],
      er_input = JObj [(''data'', JObj [(''title'', JStr ''t'')])], er_evaluatedAt = None, er_evaluatorRef = None,
      er_traceId = None\<rparr>"

abbreviation example_sha :: digest where
  "example_sha \<equiv> \<lambda>_. ''h''"

abbreviation example_dt :: "string \<Rightarrow> bool" where
  "example_dt \<equiv> \<lambda>_. True"

definition run_sync :: "json list \<Rightarrow> gate_error + GateEvaluationResult" where
  "run_sync checks = evaluateGate example_sha example_dt (example_request checks)"

definition run_async :: "BrokerPort option \<Rightarrow> json list \<Rightarrow> gate_error + GateEvaluationResult" where
  "run_async broker checks = evaluateGateAsync example_sha example_dt broker (example_request checks)"

definition result_of :: "gate_error + GateEvaluationResult \<Rightarrow> GateEvaluationResult option" where
  "result_of x = (case x of Inr r \<Rightarrow> Some r | Inl e \<Rightarrow> None)"

lemma result_ofD: "result_of x \<noteq> None \<Longrightarrow> x = Inr (the (result_of x))"
  by (auto simp: result_of_def split: sum.splits)

lemma example_runs:
  "result_of (run_sync [example_check ''c'' ''$.title'']) \<noteq> None"
  "result_of (run_sync [example_check ''c'' ''$.body'']) \<noteq> None"
  "result_of (run_async None [example_model_check]) \<noteq> None"
  "result_of (run_async None [example_check ''c'' ''$.body'']) \<noteq> None"
  by (code_simp, code_simp, code_simp, code_simp)

section \<open>Properties\<close>

text \<open>
  C8: The status of a gate is the worst outcome of its checks in the order pass, review, fail; a gate
  whose definition is missing, mismatched or malformed, that misses a required input, or that has a
  model-assisted check fails in the synchronous entry point. The asynchronous entry point has the same
  specification with the outcomes of the model-assisted checks instead of a failure.
\<close>

theorem gate_verdict_implements_spec:
  "(evaluateGate sha dt request = Inr r \<longrightarrow> gv_status (ge_verdict r) = gate_spec request) \<and>
   (evaluateGateAsync sha dt broker request = Inr r \<longrightarrow> gv_status (ge_verdict r) = gate_async_spec sha broker request)"
  using sync.run_status async.run_status by blast

theorem gate_verdict_implements_spec_witness:
  "gv_status (ge_verdict (the (result_of (run_sync [example_check ''c'' ''$.body''])))) =
     gate_spec (example_request [example_check ''c'' ''$.body'']) \<and>
   gv_status (ge_verdict (the (result_of (run_async None [example_model_check])))) =
     gate_async_spec example_sha None (example_request [example_model_check])"
  using gate_verdict_implements_spec [of example_sha example_dt] example_runs(2,3) [THEN result_ofD]
  by (simp add: run_sync_def run_async_def)

text \<open>
  C30: The lifecycle instruction follows the verdict in both entry points. The run continues or moves to
  another phase exactly if the gate passes; the verdict and the instruction name the requested gate;
  and a verdict that requires the run to fail comes with the instruction to fail it.
\<close>

theorem gate_instruction_follows_verdict:
  assumes "evaluateGate sha dt request = Inr r \<or> evaluateGateAsync sha dt broker request = Inr r"
  shows "(proceeds (ge_instruction r) \<longleftrightarrow> gv_status (ge_verdict r) = GatePass) \<and>
    gv_gateId (ge_verdict r) = er_gateId request \<and> gi_gateId (ge_instruction r) = er_gateId request \<and>
    (gv_requiredAction (ge_verdict r) = Some ''fail_run'' \<longrightarrow>
       ge_instruction r = FailRun (er_gateId request) (firstReason (ge_verdict r)))"
  using assms
proof
  assume r: "evaluateGate sha dt request = Inr r"
  show ?thesis
    using sync.proceeds_iff_pass [OF r] sync.run_status [OF r] sync.names_gate [OF r] sync.fail_run_obeyed [OF r] by simp
next
  assume r: "evaluateGateAsync sha dt broker request = Inr r"
  show ?thesis
    using async.proceeds_iff_pass [OF r] async.run_status [OF r] async.names_gate [OF r] async.fail_run_obeyed [OF r]
    by simp
qed

theorem gate_instruction_follows_verdict_witness:
  "(let r = the (result_of (run_sync [example_check ''c'' ''$.title''])) in
     (proceeds (ge_instruction r) \<longleftrightarrow> gv_status (ge_verdict r) = GatePass) \<and> gi_gateId (ge_instruction r) = ''g'')"
  using gate_instruction_follows_verdict [OF disjI1, OF example_runs(1) [THEN result_ofD, unfolded run_sync_def]]
  by (simp add: run_sync_def example_request_def Let_def)

text \<open>
  A repair task is bounded by the definition of the gate: it is only created below the iteration
  ceiling, it allows no tool that the gate's failure behaviour does not allow, it blocks every tool that
  is blocked there, and no tool is both allowed and blocked.
\<close>

theorem repair_task_is_bounded:
  assumes "evaluateGate sha dt request = Inr r \<or> evaluateGateAsync sha dt broker request = Inr r"
    and "ge_instruction r = CreateRepairTask g t"
  shows "repairLoopIterations (er_input request) < maxRepairIterations (resolved_onFail request) \<and>
    set (gr_allowedTools t) \<subseteq> set (default (fstrs (onFailObject (resolved_onFail request)) ''allowedTools'') []) \<and>
    set (default (fstrs (onFailObject (resolved_onFail request)) ''blockedTools'') []) \<subseteq> set (gr_blockedTools t) \<and>
    set (gr_allowedTools t) \<inter> set (gr_blockedTools t) = {}"
  using assms(1)
proof
  assume "evaluateGate sha dt request = Inr r"
  then show ?thesis using assms(2) by (rule sync.repair_task_bounded)
next
  assume "evaluateGateAsync sha dt broker request = Inr r"
  then show ?thesis using assms(2) by (rule async.repair_task_bounded)
qed

definition example_task :: GateRepairTask where
  "example_task =
     \<lparr>gr_id = ''repair.g'', gr_gateId = ''g'', gr_failedPhase = ''plan'', gr_problem = ''Required field $.body is missing'',
      gr_requiredEvidenceRefs = [], gr_allowedTools = [''edit''], gr_blockedTools = [''deploy''], gr_successGate = ''g'',
      gr_createdFromFindingIds = [''c''], gr_targetRef = Some ''$.body''\<rparr>"

lemma example_repair:
  "ge_instruction (the (result_of (run_sync [example_check ''c'' ''$.body'']))) = CreateRepairTask ''g'' example_task"
  by code_simp

theorem repair_task_is_bounded_witness:
  "set (gr_allowedTools example_task) \<inter> set (gr_blockedTools example_task) = {} \<and>
   repairLoopIterations (JObj [(''data'', JObj [(''title'', JStr ''t'')])]) <
     maxRepairIterations (resolved_onFail (example_request [example_check ''c'' ''$.body'']))"
  using repair_task_is_bounded [OF disjI1, OF example_runs(2) [THEN result_ofD, unfolded run_sync_def]
      example_repair [unfolded run_sync_def]]
  by (simp add: example_request_def)

text \<open>
  On a gate without model-assisted checks the two entry points agree, errors included, and the
  asynchronous one does not depend on the broker.
\<close>

theorem async_equals_sync:
  assumes "\<And>d. resolveGateDefinition request = Inr d \<Longrightarrow> \<not> list_ex isModelAssistedCheck (definition_checks d)"
  shows "evaluateGateAsync sha dt broker request = evaluateGate sha dt request"
proof (cases "gate_preamble sha dt request")
  case (Inl res)
  then show ?thesis by (simp add: evaluateGate_def evaluateGateAsync_def)
next
  case (Inr df)
  obtain d frame where df: "df = (d, frame)" by (cases df)
  have none: "\<forall>c \<in> set (definition_checks d). \<not> isModelAssistedCheck c"
    using assms Inr [unfolded df preamble_Inr] by (auto simp: list_ex_iff)
  then have "filter isModelAssistedCheck (definition_checks d) = []"
    "filter (\<lambda>c. \<not> isModelAssistedCheck c) (definition_checks d) = definition_checks d"
    by (simp_all add: filter_empty_conv)
  then show ?thesis using Inr df by (simp add: evaluateGate_def evaluateGateAsync_def Let_def)
qed

lemma example_resolves:
  "resolveGateDefinition (example_request [example_check ''c'' ''$.body'']) =
     Inr (example_definition [example_check ''c'' ''$.body''])"
  "resolveGateDefinition (example_request [example_model_check]) = Inr (example_definition [example_model_check])"
  by (code_simp, code_simp)

theorem async_equals_sync_witness:
  "run_async (Some (\<lambda>n q c. None)) [example_check ''c'' ''$.body''] = run_sync [example_check ''c'' ''$.body'']"
  unfolding run_async_def run_sync_def
proof (rule async_equals_sync)
  fix d
  assume "resolveGateDefinition (example_request [example_check ''c'' ''$.body'']) = Inr d"
  then have d: "d = example_definition [example_check ''c'' ''$.body'']" using example_resolves(1) by simp
  show "\<not> list_ex isModelAssistedCheck (definition_checks d)" unfolding d by code_simp
qed

text \<open>
  C31: A model that gives no usable answer fails the run. If a gate has model-assisted checks, no
  input is missing and no deterministic check fails, then without a broker, or with one whose every
  answer throws, violates the schema, is not a success or has no output, the verdict is a failure
  and the instruction fails the run, whatever the gate's failure behaviour asks for.
\<close>

theorem unavailable_model_fails_run:
  assumes d: "resolveGateDefinition request = Inr d"
    and missing: "findMissingInputs (js_get d ''inputs'') (er_input request) = []"
    and model: "list_ex isModelAssistedCheck (definition_checks d)"
    and det: "GateFail \<notin> set (check_outcomes request d (filter (\<lambda>c. \<not> isModelAssistedCheck c) (definition_checks d)))"
    and broker: "broker = None \<or> (\<exists>call. broker = Some call \<and> (\<forall>n q c. unusable (call n q c)))"
    and r: "evaluateGateAsync sha dt broker request = Inr r"
  shows "gv_status (ge_verdict r) = GateFail \<and> ge_instruction r = FailRun (er_gateId request) (firstReason (ge_verdict r))"
  by (rule unusable_model_fails_run [OF assms])

theorem unavailable_model_fails_run_witness:
  "(let r = the (result_of (run_async None [example_model_check])) in
     gv_status (ge_verdict r) = GateFail \<and> ge_instruction r = FailRun ''g'' (firstReason (ge_verdict r)))"
proof -
  have "findMissingInputs (js_get (example_definition [example_model_check]) ''inputs'') (er_input (example_request [example_model_check])) = []"
    "list_ex isModelAssistedCheck (definition_checks (example_definition [example_model_check]))"
    "filter (\<lambda>c. \<not> isModelAssistedCheck c) (definition_checks (example_definition [example_model_check])) = []"
    by (code_simp, code_simp, code_simp)
  then show ?thesis
    using unavailable_model_fails_run [OF example_resolves(2), of None example_sha example_dt]
      example_runs(3) [THEN result_ofD]
    by (simp add: run_async_def check_outcomes_def Let_def) (simp add: example_request_def)
qed

text \<open>
  What a model sees of a value has no property with a secret-like name, at any depth, and does
  not depend on what stands below such names or inside records classified secret or restricted: two
  values that differ only there are redacted to the same value.
\<close>

theorem model_context_is_clean:
  "clean (redactForModel v) \<and> (low_eq v w \<longrightarrow> redactForModel v = redactForModel w)"
  by (simp add: redact_clean low_eq_redact)

theorem model_context_is_clean_witness:
  "redactForModel (JObj [(''a'', JNum 1), (''apiKey'', JStr ''x'')]) = redactForModel (JObj [(''a'', JNum 1), (''apiKey'', JStr ''y'')])"
proof -
  have "isSecretLikeKey ''apiKey''" by code_simp
  then have "low_eq (JObj [(''a'', JNum 1), (''apiKey'', JStr ''x'')]) (JObj [(''a'', JNum 1), (''apiKey'', JStr ''y'')])"
    by (intro low_obj) (auto intro: low_refl)
  then show ?thesis using model_context_is_clean by blast
qed

text \<open>The filter works below a referenced value: a reference that names a secret-like key itself passes its value on.\<close>

lemma allowed_ref_is_not_filtered:
  "projectModelContext (JObj [(''allowedContextRefs'', JArr [JStr ''$.apiKey''])])
     (JObj [(''data'', JObj [(''apiKey'', JStr ''x'')])]) = JObj [(''apiKey'', JStr ''x'')]"
  by code_simp

text \<open>
  Every result that either entry point returns satisfies the published schemas of verdicts and
  lifecycle instructions, and its decision hash is the hash of its own verdict.
\<close>

theorem gate_results_well_typed:
  assumes "evaluateGate sha dt request = Inr r \<or> evaluateGateAsync sha dt broker request = Inr r"
  shows "well_typed sha dt r"
proof (cases "gate_preamble sha dt request")
  case (Inl res)
  then show ?thesis using assms by (auto simp: evaluateGate_def evaluateGateAsync_def intro: preamble_typed)
next
  case (Inr df)
  then show ?thesis
    using assms
    by (cases df) (auto simp: evaluateGate_def evaluateGateAsync_def Let_def intro: result_typed split: list.splits if_splits)
qed

theorem gate_results_well_typed_witness:
  "well_typed example_sha example_dt (the (result_of (run_sync [example_check ''c'' ''$.body''])))"
  using gate_results_well_typed [OF disjI1, OF example_runs(2) [THEN result_ofD, unfolded run_sync_def]]
  by (simp add: run_sync_def)

end
