(* ===== verification/Tool_Broker_Safety.thy ===== *)
theory Tool_Broker_Safety
  imports Tool_Broker Policy_Decisions
begin

text \<open>
  What a tool call can do: it executes an adapter, answers from the cache or writes to the cache only
  after the policy engine allowed it; what it returns is redacted; adapters run under bounded limits.
  The locale \<open>tool_cache\<close> is the contract of a cache store, on which the redaction of cached answers
  rests; the in-memory store is an interpretation.
\<close>

section \<open>Results\<close>

lemma map_of_opt_field [simp]: "map_of (opt_field k f x) k' = (if k = k' then map_option f x else None)"
  by (cases x) (simp_all add: opt_field_def)

lemma map_of_json_field [simp]: "map_of (json_field k v) k' = (if k = k' \<and> v \<noteq> JUndefined then Some v else None)"
  by (simp add: json_field_def)

lemma build_parts:
  assumes "buildToolResult env p = Inr r"
  shows "ToolCallResultSchema r" "js_get r ''status'' = JStr (rp_status p)" "js_get r ''output'' = rp_output p"
    "fstr (js_get r ''provenance'') ''resultHash'' = rp_resultHash p"
    "fstr (js_get r ''provenance'') ''decisionHash'' = rp_decisionHash p"
    "fstr (js_get r ''provenance'') ''approvalId'' = rp_approvalId p"
    "fstr (js_get r ''provenance'') ''cacheStatus'' = Some (rp_cacheStatus p)"
  using assms
  by (auto simp: buildToolResult_def Let_def js_get_def fstr_def map_add_def js_str_def split: if_splits option.splits)

section \<open>Authorised calls\<close>

text \<open>What has been established when a call goes beyond authorisation.\<close>

definition authorized ::
  "broker_env \<Rightarrow> 's tool_broker \<Rightarrow> json \<Rightarrow> ToolCallContext \<Rightarrow> CapabilityDefinition \<Rightarrow> json \<Rightarrow> PolicyVerdict \<Rightarrow> bool" where
  "authorized env broker q cx d args verdict \<longleftrightarrow>
     ToolCallRequestSchema q \<and> resolve_tool (tb_registry broker) (the_str (fstr q ''toolId'')) = Some d \<and>
     cd_inputSchema d (js_get q ''args'') = Inr args \<and>
     tb_policyEngine broker (buildPolicyRequest q args d cx (default (cx_runId cx) (tb_runId broker)))
       (or_else (cx_policyBundle cx) (tb_policyBundle broker)) = Inr verdict \<and>
     pv_status verdict = Allow \<and>
     (case satisfiedApprovalIdFromVerdict verdict cx of None \<Rightarrow> True
      | Some a \<Rightarrow> \<not> isApprovalDeadlineElapsed env cx (broker_findApprovalDecision cx a))"

lemma authorize_Inl: "authorize env broker q args d cx h t = Inl p \<Longrightarrow> rp_output p = JUndefined \<and> rp_status p \<noteq> ''success''"
  by (auto simp: authorize_def Let_def blank_parts_def split: sum.splits PolicyVerdictStatus.splits if_splits option.splits)

lemma authorize_Inr:
  "authorize env broker q args d cx h t = Inr (verdict, a) \<Longrightarrow>
     tb_policyEngine broker (buildPolicyRequest q args d cx (default (cx_runId cx) (tb_runId broker)))
       (or_else (cx_policyBundle cx) (tb_policyBundle broker)) = Inr verdict \<and> pv_status verdict = Allow \<and>
     (case satisfiedApprovalIdFromVerdict verdict cx of None \<Rightarrow> True
      | Some a \<Rightarrow> \<not> isApprovalDeadlineElapsed env cx (broker_findApprovalDecision cx a))"
  by (auto simp: authorize_def Let_def split: sum.splits PolicyVerdictStatus.splits if_splits option.splits)

text \<open>
  The two ways a call goes on: it is answered from the cache, or executed. Every other call has no
  output, executes nothing and leaves the cache as it is.
\<close>

lemma call_cases:
  obtains (refused) p where "callTool env broker st q cx = (buildToolResult env p, st, None)"
      "rp_output p = JUndefined" "rp_status p \<noteq> ''success''"
  | (hit) d args verdict a entry out c where "authorized env broker q cx d args verdict"
      "lookupCachedResult (be_sha env) (tb_cacheStore broker) st d args cx = CacheHit entry out (hashValue (be_sha env) out) c"
      "callTool env broker st q cx =
         (buildToolResult env ((blank_parts ''success'' (cd_id d) (cd_version d) (hashValue (be_sha env) (js_get q ''args''))
              (default (cx_traceId cx) (''trace_'' @ be_traceUuid env)))
            \<lparr>rp_resultHash := Some (hashValue (be_sha env) out), rp_cacheStatus := ''hit'', rp_cache := Some c,
             rp_adapterVersion := Some (tce_adapterVersion entry), rp_decisionHash := Some (pv_decisionHash verdict),
             rp_approvalId := a, rp_spanId := cx_spanId cx, rp_eventIds := cx_eventIds cx,
             rp_redactionSummary := tce_redactionSummary entry, rp_output := out\<rparr>), st, None)"
  | (executed) d args verdict a lookup where "authorized env broker q cx d args verdict"
      "lookup = lookupCachedResult (be_sha env) (tb_cacheStore broker) st d args cx"
      "\<forall>e v h c. lookup \<noteq> CacheHit e v h c"
      "callTool env broker st q cx =
         execute_stage env broker st d args q cx verdict a (hashValue (be_sha env) (js_get q ''args''))
           (default (cx_traceId cx) (''trace_'' @ be_traceUuid env)) lookup"
proof -
  consider "\<not> ToolCallRequestSchema q" | "ToolCallRequestSchema q"
      "resolve_tool (tb_registry broker) (the_str (fstr q ''toolId'')) = None"
    | d i where "ToolCallRequestSchema q" "resolve_tool (tb_registry broker) (the_str (fstr q ''toolId'')) = Some d"
        "cd_inputSchema d (js_get q ''args'') = Inl i"
    | d args where "ToolCallRequestSchema q" "resolve_tool (tb_registry broker) (the_str (fstr q ''toolId'')) = Some d"
        "cd_inputSchema d (js_get q ''args'') = Inr args"
    by (cases "resolve_tool (tb_registry broker) (the_str (fstr q ''toolId''))";
        cases "cd_inputSchema (the (resolve_tool (tb_registry broker) (the_str (fstr q ''toolId'')))) (js_get q ''args'')") auto
  then show thesis
  proof cases
    case (4 d args)
    let ?h = "hashValue (be_sha env) (js_get q ''args'')"
    let ?t = "default (cx_traceId cx) (''trace_'' @ be_traceUuid env)"
    show thesis
    proof (cases "authorize env broker q args d cx ?h ?t")
      case (Inl p)
      then show thesis using 4 authorize_Inl [OF Inl] by (intro refused [of p]) (simp_all add: callTool_def Let_def)
    next
      case (Inr va)
      obtain verdict a where va: "va = (verdict, a)" by (cases va)
      have auth: "authorized env broker q cx d args verdict"
        using authorize_Inr [OF Inr [unfolded va]] 4 by (simp add: authorized_def)
      show thesis
      proof (cases "lookupCachedResult (be_sha env) (tb_cacheStore broker) st d args cx")
        case (CacheHit entry out h c)
        then have "h = hashValue (be_sha env) out"
          by (auto simp: lookupCachedResult_def Let_def split: sum.splits option.splits if_splits)
        then show thesis
          using 4 Inr va CacheHit auth by (intro hit) (auto simp: callTool_def Let_def)
      qed (use 4 Inr va auth in \<open>(intro executed [OF auth refl], simp, simp add: callTool_def Let_def)+\<close>)
    qed
  qed (rule refused, simp add: callTool_def Let_def, simp add: blank_parts_def, simp add: blank_parts_def)+
qed

section \<open>Executed calls\<close>

text \<open>The input of an executed adapter.\<close>

definition confined ::
  "'s tool_broker \<Rightarrow> CapabilityDefinition \<Rightarrow> json \<Rightarrow> PolicyVerdict \<Rightarrow> AdapterExecutionInput \<Rightarrow> bool" where
  "confined broker d args verdict input \<longleftrightarrow>
     cd_kind d = ''filesystem'' \<and> ei_args input = args \<and> ei_workspaceRoot input = tb_workspaceRoot broker \<and>
     (\<exists>tier. deriveTierConstraints d = Inr tier \<and> tc_execution tier = Sanctioned \<and>
       ei_limits input = computeLimits d args verdict tier)"

lemma executeAdapter_input:
  "executeAdapter env broker d args q cx verdict t = Inr (res, Some input) \<Longrightarrow> confined broker d args verdict input"
  using tier_bounds(3)
  by (fastforce simp: executeAdapter_def confined_def Let_def split: sum.splits TierExecutionPosture.splits)

lemma executeAdapter_success:
  "executeAdapter env broker d args q cx verdict t = Inr (AdapterSuccess raw, x) \<Longrightarrow> x \<noteq> None"
  by (auto simp: executeAdapter_def adapterFailure_def Let_def split: sum.splits TierExecutionPosture.splits)

lemma execute_cases:
  assumes "execute_stage env broker st d args q cx verdict a h t lookup = (res, st', x)"
  obtains (silent) "st' = st"
      "\<And>r. res = Inr r \<Longrightarrow> js_get r ''output'' = JUndefined \<and> js_get r ''status'' \<noteq> JStr ''success''"
      "\<And>input. x = Some input \<Longrightarrow> confined broker d args verdict input"
  | (success) input raw out redacted summary final p where "x = Some input" "confined broker d args verdict input"
      "cd_outputSchema d raw = Inr out"
      "redactOutput (be_sha env) (be_collate env) out (pv_obligations verdict) = Inr (redacted, summary)"
      "cd_outputSchema d redacted = Inr final"
      "st' = snd (writeCacheEntry env (tb_cacheStore broker) st lookup final (hashValue (be_sha env) final)
         (ca_version (cd_adapter d)) (map_option redactionSummary_json summary))"
      "res = buildToolResult env p" "rp_output p = final" "rp_resultHash p = Some (hashValue (be_sha env) final)"
      "rp_decisionHash p = Some (pv_decisionHash verdict)" "rp_status p = ''success''"
proof (cases "executeAdapter env broker d args q cx verdict t")
  case (Inl e)
  then show thesis using assms by (intro silent) (auto simp: execute_stage_def)
next
  case (Inr ax)
  obtain ar y where ax: "ax = (ar, y)" by (cases ax)
  note ex = Inr [unfolded ax]
  have input: "\<And>i. y = Some i \<Longrightarrow> confined broker d args verdict i" using executeAdapter_input ex by auto
  have quiet: "thesis" if "res = buildToolResult env p" "rp_output p = JUndefined" "rp_status p = ''failed''"
      "st' = st" "x = y" for p
  proof (rule silent)
    show "js_get r ''output'' = JUndefined \<and> js_get r ''status'' \<noteq> JStr ''success''" if "res = Inr r" for r
      using that build_parts(2,3) \<open>res = buildToolResult env p\<close> \<open>rp_output p = JUndefined\<close> \<open>rp_status p = ''failed''\<close> by simp
  qed (use that input in auto)
  show thesis
  proof (cases ar)
    case (AdapterFailed e)
    then show thesis
      using assms ex by (intro quiet) (auto simp: execute_stage_def Let_def blank_parts_def)
  next
    case (AdapterSuccess raw)
    obtain i where i: "y = Some i" using executeAdapter_success ex AdapterSuccess by fastforce
    show thesis
    proof (cases "\<exists>out redacted summary final. cd_outputSchema d raw = Inr out \<and>
        redactOutput (be_sha env) (be_collate env) out (pv_obligations verdict) = Inr (redacted, summary) \<and>
        cd_outputSchema d redacted = Inr final")
      case False
      then consider i where "cd_outputSchema d raw = Inl i"
        | out m where "cd_outputSchema d raw = Inr out"
            "redactOutput (be_sha env) (be_collate env) out (pv_obligations verdict) = Inl m"
        | out redacted summary i where "cd_outputSchema d raw = Inr out"
            "redactOutput (be_sha env) (be_collate env) out (pv_obligations verdict) = Inr (redacted, summary)"
            "cd_outputSchema d redacted = Inl i"
        by (metis old.sum.exhaust surj_pair)
      then show thesis
      proof cases
        case 1
        then show thesis
          using assms ex AdapterSuccess by (intro quiet) (auto simp: execute_stage_def Let_def blank_parts_def)
      next
        case 2
        then show thesis
          using assms ex AdapterSuccess by (intro quiet) (auto simp: execute_stage_def Let_def blank_parts_def)
      next
        case 3
        then show thesis
          using assms ex AdapterSuccess by (intro quiet) (auto simp: execute_stage_def Let_def blank_parts_def)
      qed
    next
      case True
      then obtain out redacted summary final where "cd_outputSchema d raw = Inr out"
        "redactOutput (be_sha env) (be_collate env) out (pv_obligations verdict) = Inr (redacted, summary)"
        "cd_outputSchema d redacted = Inr final" by blast
      with assms ex AdapterSuccess i input show thesis
        by (intro success) (auto simp: execute_stage_def Let_def blank_parts_def)
    qed
  qed
qed

section \<open>Effects\<close>

text \<open>A call has an effect if it executes an adapter, changes the cache or returns a success or an output.\<close>

definition has_effect :: "'s \<Rightarrow> 's call_outcome \<Rightarrow> bool" where
  "has_effect st out \<longleftrightarrow>
     snd (snd out) \<noteq> None \<or> fst (snd out) \<noteq> st \<or>
     (\<exists>r. fst out = Inr r \<and> (js_get r ''output'' \<noteq> JUndefined \<or> js_get r ''status'' = JStr ''success''))"

lemma effect_authorized:
  assumes "has_effect st (callTool env broker st q cx)"
  shows "\<exists>d args verdict. authorized env broker q cx d args verdict \<and>
    (\<forall>input. snd (snd (callTool env broker st q cx)) = Some input \<longrightarrow> confined broker d args verdict input)"
proof (cases rule: call_cases [of env broker st q cx])
  case (refused p)
  then show ?thesis using assms build_parts(2,3) by (auto simp: has_effect_def)
next
  case (hit d args verdict a entry out c)
  then show ?thesis by auto
next
  case (executed d args verdict a lookup)
  obtain res st' x where o: "callTool env broker st q cx = (res, st', x)" by (metis prod_cases3)
  from executed(4) o have "execute_stage env broker st d args q cx verdict a (hashValue (be_sha env) (js_get q ''args''))
      (default (cx_traceId cx) (''trace_'' @ be_traceUuid env)) lookup = (res, st', x)" by simp
  then have "x = Some input \<Longrightarrow> confined broker d args verdict input" for input
    by (cases rule: execute_cases) auto
  then show ?thesis using executed(1) o by auto
qed

section \<open>Redaction of cached answers\<close>

lemma enumerate_map: "enumerate n (map f xs) = map (\<lambda>e. (fst e, f (snd e))) (enumerate n xs)"
  by (induction xs arbitrary: n) simp_all

lemma string_leaves_clone: "string_leaves path key (normalizeJsonValue v) = string_leaves path key v"
proof (induction path key v rule: string_leaves.induct)
  case (2 path key xs)
  then show ?case by (simp add: enumerate_map comp_def cong: map_cong)
next
  case (3 path key ps)
  have "concat (map (\<lambda>p. string_leaves (path @ [fst p]) (Some (fst p)) (normalizeJsonValue (snd p)))
      (filter (\<lambda>p. snd p \<noteq> JUndefined) qs)) =
    concat (map (\<lambda>p. string_leaves (path @ [fst p]) (Some (fst p)) (snd p)) qs)" if "set qs \<subseteq> set ps" for qs
    using that 3 by (induction qs) auto
  from this [of ps] show ?case by (simp add: comp_def)
qed simp_all

lemma value_safe_clone [simp]: "value_safe sels (cloneJsonValue v) \<longleftrightarrow> value_safe sels v"
  by (simp add: value_safe_def cloneJsonValue_def string_leaves_clone)

lemma cloneJsonValue_idem [simp]: "cloneJsonValue (cloneJsonValue v) = cloneJsonValue v"
  by (simp add: cloneJsonValue_def normalizeJsonValue_idem)

lemma clone_idem [simp]: "cloneCacheEntry (cloneCacheEntry e) = cloneCacheEntry e"
  by (simp add: cloneCacheEntry_def option.map_comp comp_def)

text \<open>A schema that validates and does not transform.\<close>

definition validating :: "zod \<Rightarrow> bool" where
  "validating s \<longleftrightarrow> (\<forall>v w. s v = Inr w \<longrightarrow> w = v)"

locale tool_cache =
  fixes store :: "'s ToolResultCacheStore"
    and entries :: "'s \<Rightarrow> ToolResultCacheEntry set"
  assumes get_entries: "cs_get store st k = Inr (Some e) \<Longrightarrow> e \<in> entries st"
    and set_entries: "cs_set store st e = Inr st' \<Longrightarrow> entries st' \<subseteq> insert (cloneCacheEntry e) (entries st)"
begin

definition all_safe :: "'s \<Rightarrow> bool" where
  "all_safe st \<longleftrightarrow> (\<forall>e \<in> entries st. value_safe [] (tce_output e))"

lemma write_safe:
  assumes "all_safe st" "value_safe [] out"
  shows "all_safe (snd (writeCacheEntry env store st lookup out h v s))"
proof (cases lookup)
  case (CacheMiss key keyInputs c)
  show ?thesis
  proof (cases "cs_set store st \<lparr>tce_key = key, tce_keyInputs = keyInputs, tce_output = out, tce_resultHash = h,
      tce_adapterVersion = v, tce_createdAt = be_isoNow env, tce_redactionSummary = s\<rparr>")
    case (Inr st')
    from set_entries [OF Inr] show ?thesis
      using CacheMiss Inr assms by (auto simp: writeCacheEntry_def all_safe_def cloneCacheEntry_def)
  qed (use CacheMiss assms in \<open>simp add: writeCacheEntry_def\<close>)
qed (use assms in \<open>simp_all add: writeCacheEntry_def\<close>)

lemma hit_safe:
  assumes "all_safe st" "lookupCachedResult sha store st d args cx = CacheHit e out h c" "validating (cd_outputSchema d)"
  shows "value_safe [] out"
  using assms get_entries
  by (fastforce simp: lookupCachedResult_def all_safe_def validating_def Let_def split: sum.splits option.splits if_splits)

lemma call_safe:
  assumes safe: "all_safe st" and hex: "hex_digest (be_sha env)" and store: "tb_cacheStore broker = store"
    and schemas: "\<And>k d. resolve_tool (tb_registry broker) k = Some d \<Longrightarrow> validating (cd_outputSchema d)"
    and o: "callTool env broker st q cx = (res, st', x)"
  shows "all_safe st' \<and> (\<forall>r. res = Inr r \<longrightarrow> value_safe [] (js_get r ''output''))"
proof (cases rule: call_cases [of env broker st q cx])
  case (refused p)
  then show ?thesis using o safe build_parts(3) by (auto simp: value_safe_def)
next
  case (hit d args verdict a entry out c)
  then have "validating (cd_outputSchema d)" using schemas by (auto simp: authorized_def)
  then have "value_safe [] out" using hit_safe [OF safe] hit(2) store by auto
  then show ?thesis using hit(3) o safe build_parts(3) by fastforce
next
  case (executed d args verdict a lookup)
  have val: "validating (cd_outputSchema d)" using schemas executed(1) by (auto simp: authorized_def)
  from executed(4) o have "execute_stage env broker st d args q cx verdict a (hashValue (be_sha env) (js_get q ''args''))
      (default (cx_traceId cx) (''trace_'' @ be_traceUuid env)) lookup = (res, st', x)" by simp
  then show ?thesis
  proof (cases rule: execute_cases)
    case silent
    then show ?thesis using safe by (auto simp: value_safe_def)
  next
    case (success input raw out redacted summary final p)
    have "final = redacted" using success(5) val by (auto simp: validating_def)
    then have final: "value_safe [] final" using redactOutput_safe [OF hex success(4)] value_safe_weaken by blast
    then show ?thesis
      using write_safe [OF safe final] success(6-8) store build_parts(3) by auto
  qed
qed

end

interpretation memory: tool_cache InMemoryToolResultCacheStore "\<lambda>m. cloneCacheEntry ` ran m"
proof
  fix st k e
  assume "cs_get InMemoryToolResultCacheStore st k = Inr (Some e)"
  then show "e \<in> cloneCacheEntry ` ran st" by (auto simp: InMemoryToolResultCacheStore_def ran_def)
next
  fix st e st'
  assume "cs_set InMemoryToolResultCacheStore st e = Inr st'"
  then have "ran st' \<subseteq> insert (cloneCacheEntry e) (ran st)"
    by (auto simp: InMemoryToolResultCacheStore_def ran_def split: if_splits)
  then show "cloneCacheEntry ` ran st' \<subseteq> insert (cloneCacheEntry e) (cloneCacheEntry ` ran st)" by auto
qed

section \<open>Tools without a runner\<close>

text \<open>Only file system adapters are executed, so other tools without a cache never succeed.\<close>

definition no_runner :: "'s tool_broker \<Rightarrow> bool" where
  "no_runner broker \<longleftrightarrow>
     list_all (\<lambda>(k, d). cd_kind d \<noteq> ''filesystem'' \<and> \<not> cd_cacheEnabled d) (tb_registry broker)"

lemma no_runner_no_success:
  assumes "no_runner broker" "callTool env broker st q cx = (Inr r, st', x)"
  shows "js_get r ''status'' \<noteq> JStr ''success''"
proof -
  have d: "cd_kind d \<noteq> ''filesystem'' \<and> \<not> cd_cacheEnabled d" if "authorized env broker q cx d args verdict" for d args verdict
    using that assms(1) by (auto simp: authorized_def resolve_tool_def no_runner_def list_all_iff dest: map_of_SomeD)
  show ?thesis
  proof (cases rule: call_cases [of env broker st q cx])
    case (refused p)
    then show ?thesis using assms(2) build_parts(2) by force
  next
    case (hit d args verdict a entry out c)
    then show ?thesis using d [OF hit(1)] by (simp add: lookupCachedResult_def)
  next
    case (executed d args verdict a lookup)
    from executed(4) assms(2) have "execute_stage env broker st d args q cx verdict a (hashValue (be_sha env) (js_get q ''args''))
      (default (cx_traceId cx) (''trace_'' @ be_traceUuid env)) lookup = (Inr r, st', x)" by simp
    then show ?thesis
      using d [OF executed(1)] by (cases rule: execute_cases) (auto simp: confined_def)
  qed
qed

text \<open>Numbers are never redacted: below a selected path they stay, and the selector counts as discharged by a string beside them.\<close>

lemma selected_numbers_stay:
  "map_sum (\<lambda>m. m) (\<lambda>r. js_get (js_get (fst r) ''user'') ''pin'')
     (redactOutput (\<lambda>t. ''0'') (\<lambda>a b. 0) (JObj [(''user'', JObj [(''name'', JStr ''Ann''), (''pin'', JNum 7)])])
       [\<lparr>o_kind = ''redact'', o_params = Some [(''path'', JStr ''user'')], o_sourceRuleId = ''r''\<rparr>]) = Inr (JNum 7)"
  by code_simp

section \<open>Sequences of calls\<close>

text \<open>The states of the in-memory cache of a broker after any sequence of calls.\<close>

inductive broker_reach :: "(string \<rightharpoonup> ToolResultCacheEntry) tool_broker \<Rightarrow> (string \<rightharpoonup> ToolResultCacheEntry) \<Rightarrow> bool"
  for broker where
  fresh: "broker_reach broker Map.empty"
| call: "broker_reach broker st \<Longrightarrow> hex_digest (be_sha env) \<Longrightarrow> callTool env broker st q cx = (res, st', x) \<Longrightarrow>
    broker_reach broker st'"

lemma reach_safe:
  assumes "broker_reach broker st" "tb_cacheStore broker = InMemoryToolResultCacheStore"
    and "\<And>k d. resolve_tool (tb_registry broker) k = Some d \<Longrightarrow> validating (cd_outputSchema d)"
  shows "memory.all_safe st"
  using assms(1)
proof induction
  case fresh
  then show ?case by (simp add: memory.all_safe_def)
next
  case (call st env q cx res st' x)
  then show ?case using memory.call_safe assms(2,3) by blast
qed

section \<open>Examples\<close>

definition ex_sha64 :: "string \<Rightarrow> string" where
  "ex_sha64 t = replicate 64 CHR ''0''"

definition ex_env :: broker_env where
  "ex_env = \<lparr>be_sha = ex_sha64, be_collate = \<lambda>a b. 0, be_parseDate = \<lambda>s. Some 5, be_now = 10, be_isoNow = ''now'',
     be_traceUuid = ''t'', be_callUuid = ''c'', be_issues = \<lambda>v. ''bad''\<rparr>"

definition ex_data :: json where
  "ex_data = JObj [(''name'', JStr ''Ann''), (''year'', JNum 7)]"

definition ex_tool :: CapabilityDefinition where
  "ex_tool =
     \<lparr>cd_id = ''fs.read'', cd_kind = ''filesystem'', cd_description = ''d'', cd_version = ''1'', cd_inputSchema = Inr,
      cd_outputSchema = Inr,
      cd_adapter = \<lparr>ca_id = ''a'', ca_version = ''1'', ca_kind = ''filesystem'',
        ca_execute = \<lambda>i. Settles (AdapterSuccess ex_data)\<rparr>,
      cd_risk = Low, cd_requestedScopes = [''workspace:read''],
      cd_limits = \<lparr>cl_timeoutMs = Some 100, cl_maxBytes = None, cl_maxTokens = None\<rparr>, cd_cacheEnabled = True,
      cd_isolationTier = 0\<rparr>"

definition ex_redact :: PolicyObligation where
  "ex_redact = \<lparr>o_kind = ''redact'', o_params = Some [(''path'', JStr ''name'')], o_sourceRuleId = ''r''\<rparr>"

definition ex_verdict :: "PolicyObligation list \<Rightarrow> PolicyVerdict" where
  "ex_verdict obs =
     \<lparr>pv_status = Allow, pv_approvalId = None, pv_reasons = [], pv_constraints = [], pv_obligations = obs,
      pv_matchedRules = [], pv_decisionHash = ''h'', pv_requestHash = None, pv_policyBundleHash = None\<rparr>"

text \<open>An engine that asks for a redaction in one run mode only.\<close>

definition ex_engine :: PolicyEvaluator where
  "ex_engine q b = Inr (ex_verdict (if rq_runMode q = Some ''strict'' then [ex_redact] else []))"

definition ex_broker :: "PolicyEvaluator \<Rightarrow> (string \<rightharpoonup> ToolResultCacheEntry) tool_broker" where
  "ex_broker engine =
     \<lparr>tb_workspaceRoot = ''/w'', tb_runId = ''run'', tb_registry = [(''fs.read'', ex_tool)], tb_policyBundle = None,
      tb_policyEngine = engine, tb_cacheStore = InMemoryToolResultCacheStore\<rparr>"

definition ex_call :: json where
  "ex_call = JObj [(''toolId'', JStr ''fs.read''), (''args'', JObj []), (''reason'', JStr ''r''), (''idempotencyKey'', JStr ''i''),
     (''requestedBy'', JObj [(''phase'', JStr ''plan'')])]"

definition ex_context :: "string option \<Rightarrow> Approvals option \<Rightarrow> ToolCallContext" where
  "ex_context mode approvals =
     \<lparr>cx_runId = None, cx_cwd = None, cx_traceId = None, cx_spanId = None, cx_eventIds = None, cx_runMode = mode,
      cx_approvalDeadlineAt = None, cx_policyBundle = None,
      cx_snapshots = (case approvals of None \<Rightarrow> None | Some a \<Rightarrow>
        Some \<lparr>sn_runState = JUndefined, sn_harnessPolicy = None, sn_hostPolicy = None, sn_workspacePolicy = None,
          sn_budgets = None, sn_approvals = Some a, sn_sourceTrust = JUndefined\<rparr>),
      cx_cache = None\<rparr>"

definition out_field :: "'s call_outcome \<Rightarrow> string \<Rightarrow> json" where
  "out_field call k = (case fst call of Inr r \<Rightarrow> js_get r k | Inl e \<Rightarrow> JUndefined)"

lemma ex_tool_parts [simp]:
  "cd_inputSchema ex_tool = Inr" "cd_outputSchema ex_tool = Inr" "cd_id ex_tool = ''fs.read''" "cd_version ex_tool = ''1''"
  "ca_version (cd_adapter ex_tool) = ''1''" "cd_cacheEnabled ex_tool"
  by (simp_all add: ex_tool_def)

lemma ex_broker_parts [simp]:
  "resolve_tool (tb_registry (ex_broker e)) k = (if k = ''fs.read'' then Some ex_tool else None)"
  "tb_policyEngine (ex_broker e) = e" "tb_cacheStore (ex_broker e) = InMemoryToolResultCacheStore"
  "tb_workspaceRoot (ex_broker e) = ''/w''" "tb_runId (ex_broker e) = ''run''" "tb_policyBundle (ex_broker e) = None"
  by (simp_all add: ex_broker_def resolve_tool_def)

lemma ex_env_parts [simp]: "be_sha ex_env = ex_sha64" "be_traceUuid ex_env = ''t''" "be_isoNow ex_env = ''now''"
  by (simp_all add: ex_env_def)

lemma ex_context_parts [simp]:
  "cx_traceId (ex_context m a) = None" "cx_spanId (ex_context m a) = None" "cx_eventIds (ex_context m a) = None"
  "pv_obligations (ex_verdict obs) = obs" "pv_decisionHash (ex_verdict obs) = ''h''"
  by (simp_all add: ex_context_def ex_verdict_def)

lemma ex_call_parts [simp]:
  "ToolCallRequestSchema ex_call" "fstr ex_call ''toolId'' = Some ''fs.read''" "js_get ex_call ''args'' = JObj []"
  by (code_simp, code_simp, code_simp)

lemma ex_hex: "hex_digest ex_sha64"
  by (simp add: hex_digest_def ex_sha64_def list_all_iff is_lower_hex_def)

lemma ex_schemas: "resolve_tool (tb_registry (ex_broker e)) k = Some d \<Longrightarrow> validating (cd_outputSchema d)"
  by (auto simp: validating_def split: if_splits)

definition ex_input :: AdapterExecutionInput where
  "ex_input = \<lparr>ei_args = JObj [], ei_runId = ''run'', ei_phase = ''plan'', ei_cwd = ''/w'', ei_workspaceRoot = ''/w'',
     ei_traceId = ''trace_t'', ei_limits = \<lparr>el_timeoutMs = 100, el_maxBytes = Some 200000, el_maxTokens = None\<rparr>\<rparr>"

lemma ex_adapter:
  "executeAdapter ex_env (ex_broker ex_engine) ex_tool (JObj []) ex_call (ex_context mode None) (ex_verdict obs) ''trace_t'' =
     Inr (AdapterSuccess ex_data, Some ex_input)"
  by (simp add: executeAdapter_def Let_def withAdapterDeadline_def deriveTierConstraints_def isolationTierForKind_def
      CAPABILITY_KIND_ISOLATION_TIERS_def tier_constraints_def computeLimits_def some_of_def min_opt_def readPositiveNumber_def
      positive_num_def js_get_def readPolicyPositiveNumber_def ex_tool_def ex_verdict_def ex_input_def ex_context_def
      DEFAULT_TOOL_TIMEOUT_MS_def DEFAULT_FS_READ_MAX_BYTES_def request_phase_def ex_call_def fstr_def the_str_def
      List.map_filter_def is_record_def)

definition ex_obligations :: "string option \<Rightarrow> PolicyObligation list" where
  "ex_obligations mode = (if mode = Some ''strict'' then [ex_redact] else [])"

lemma ex_authorize:
  "authorize ex_env (ex_broker ex_engine) ex_call (JObj []) ex_tool (ex_context mode None) h t =
     Inr (ex_verdict (ex_obligations mode), None)"
  by (simp add: authorize_def Let_def ex_engine_def buildPolicyRequest_def ex_context_def ex_verdict_def ex_obligations_def
      satisfiedApprovalIdFromVerdict_def approvalDecisionsFromContext_def)

definition ex_hash :: string where
  "ex_hash = ''sha256:'' @ replicate 64 CHR ''0''"

lemma ex_hashValue [simp]: "hashValue ex_sha64 v = ex_hash"
  by (simp add: hashValue_def ex_sha64_def ex_hash_def)

definition ex_key_inputs :: json where
  "ex_key_inputs = JObj [(''toolId'', JStr ''fs.read''), (''toolVersion'', JStr ''1''), (''argsHash'', JStr ex_hash),
     (''harnessSpecHash'', JStr ex_hash)]"

lemma ex_keys: "buildCacheKeyInputs ex_sha64 ex_tool (JObj []) (ex_context mode None) = ex_key_inputs"
  by (simp add: buildCacheKeyInputs_def ex_key_inputs_def harnessSpecHashFromContext_def sourceHashesFromContext_def
      modelVersionFromContext_def context_snapshot_def ex_context_def normalizedStringRecord_def nonEmptyStringOrUndefined_def
      js_get_def opt_field_def)

lemma ex_redactOutput: "redactOutput ex_sha64 (be_collate ex_env) ex_data [] = Inr (ex_data, None)"
  by code_simp

definition ex_entry :: ToolResultCacheEntry where
  "ex_entry = \<lparr>tce_key = ex_hash, tce_keyInputs = ex_key_inputs, tce_output = ex_data, tce_resultHash = ex_hash,
     tce_adapterVersion = ''1'', tce_createdAt = ''now'', tce_redactionSummary = None\<rparr>"

definition ex_cache :: "string \<rightharpoonup> ToolResultCacheEntry" where
  "ex_cache = [ex_hash \<mapsto> ex_entry]"

lemma ex_entry_clone: "cloneCacheEntry ex_entry = ex_entry"
  by (simp add: cloneCacheEntry_def ex_entry_def cloneJsonValue_def ex_key_inputs_def ex_data_def)

definition ex_provenance :: ToolCacheProvenance where
  "ex_provenance = \<lparr>tp_status = ''miss'', tp_key = ex_hash, tp_keyInputs = ex_key_inputs, tp_entryCreatedAt = None,
     tp_invalidationReason = None, tp_writeError = None\<rparr>"

lemma ex_lookup_empty:
  "lookupCachedResult ex_sha64 InMemoryToolResultCacheStore Map.empty ex_tool (JObj []) (ex_context mode None) =
     CacheMiss ex_hash ex_key_inputs ex_provenance"
  by (simp add: lookupCachedResult_def Let_def deriveCacheKey_def InMemoryToolResultCacheStore_def ex_keys ex_provenance_def)

lemma ex_lookup_cached:
  "lookupCachedResult ex_sha64 InMemoryToolResultCacheStore ex_cache ex_tool (JObj []) (ex_context mode None) =
     CacheHit ex_entry ex_data ex_hash (ex_provenance\<lparr>tp_status := ''hit'', tp_entryCreatedAt := Some ''now''\<rparr>)"
  by (simp add: lookupCachedResult_def Let_def deriveCacheKey_def InMemoryToolResultCacheStore_def ex_keys ex_cache_def
      ex_entry_clone) (simp add: ex_entry_def ex_provenance_def)

text \<open>The parts of the result of the first call and of a later one, which is answered from the cache.\<close>

definition ex_parts :: "string \<Rightarrow> ToolCacheProvenance \<Rightarrow> result_parts" where
  "ex_parts status c = (blank_parts ''success'' ''fs.read'' ''1'' ex_hash ''trace_t'')
     \<lparr>rp_resultHash := Some ex_hash, rp_cacheStatus := status, rp_cache := Some c, rp_adapterVersion := Some ''1'',
      rp_decisionHash := Some ''h'', rp_output := ex_data\<rparr>"

lemma ex_first_call:
  "callTool ex_env (ex_broker ex_engine) Map.empty ex_call (ex_context None None) =
     (buildToolResult ex_env (ex_parts ''miss'' ex_provenance), ex_cache, Some ex_input)"
proof -
  have w: "writeCacheEntry ex_env InMemoryToolResultCacheStore Map.empty (CacheMiss ex_hash ex_key_inputs ex_provenance)
      ex_data ex_hash ''1'' None = (Some ex_provenance, ex_cache)"
    using ex_entry_clone
    by (simp add: writeCacheEntry_def InMemoryToolResultCacheStore_def ex_cache_def ex_entry_def ex_env_def)
  show ?thesis
    by (simp add: callTool_def Let_def ex_authorize ex_lookup_empty execute_stage_def ex_adapter the_str_def
        ex_obligations_def ex_redactOutput w ex_parts_def blank_parts_def lookup_status_def lookup_cache_def)
qed

lemma ex_later_call:
  "callTool ex_env (ex_broker ex_engine) ex_cache ex_call (ex_context mode None) =
     (buildToolResult ex_env (ex_parts ''hit'' (ex_provenance\<lparr>tp_status := ''hit'', tp_entryCreatedAt := Some ''now''\<rparr>)),
      ex_cache, None)"
  by (simp add: callTool_def Let_def ex_authorize ex_lookup_cached the_str_def ex_parts_def blank_parts_def ex_entry_def)

lemma ex_results_built:
  "is_ok (buildToolResult ex_env (ex_parts ''miss'' ex_provenance))"
  "is_ok (buildToolResult ex_env (ex_parts ''hit'' (ex_provenance\<lparr>tp_status := ''hit'', tp_entryCreatedAt := Some ''now''\<rparr>)))"
  by (code_simp, code_simp)

section \<open>Properties\<close>



text \<open>
  C9: With the policy engine as it is, a deny rule that matches the policy request of a call keeps
  the tool from running: no adapter is executed, no cached answer is given, the cache does not change
  and the result, if there is one, is no success and has no output.
\<close>

theorem denied_tools_never_run:
  assumes engine: "tb_policyEngine broker = default_engine sha re msg"
    and d: "resolve_tool (tb_registry broker) (the_str (fstr q ''toolId'')) = Some d"
    and args: "cd_inputSchema d (js_get q ''args'') = Inr args"
    and request: "request = buildPolicyRequest q args d cx (default (cx_runId cx) (tb_runId broker))"
    and pol: "pb \<in> set (effectiveBundles request (or_else (cx_policyBundle cx) (tb_policyBundle broker)))"
    and rule: "rule \<in> set (collectExplicitRules pb)" "ruleMatchesRequest re rule request" "fr_effect rule = EDeny"
  shows "\<not> has_effect st (callTool env broker st q cx)"
proof
  assume "has_effect st (callTool env broker st q cx)"
  from effect_authorized [OF this] obtain d' args' verdict where a: "authorized env broker q cx d' args' verdict" by blast
  then have same: "d' = d" "args' = args" using d args by (auto simp: authorized_def)
  from a have "evaluatePolicy sha re request (or_else (cx_policyBundle cx) (tb_policyBundle broker)) = Inr verdict"
    by (auto simp: authorized_def engine default_engine_def same request split: sum.splits)
  from deny_rule_denies(1) [OF this pol rule] a show False by (simp add: authorized_def)
qed

theorem denied_tools_never_run_witness:
  "\<not> has_effect Map.empty (callTool ex_env ((ex_broker (default_engine ex_sha ex_re (\<lambda>e. ''zod'')))
       \<lparr>tb_policyBundle := Some (One (ex_bundle\<lparr>pb_rules := Some [ex_rule ''r1'' EDeny ''fs.read'']\<rparr>))\<rparr>)
     Map.empty ex_call (ex_context None None))"
  by (rule denied_tools_never_run [OF _ _ _ refl, where sha = ex_sha and re = ex_re and d = ex_tool and args = "JObj []"
        and pb = "ex_bundle\<lparr>pb_rules := Some [ex_rule ''r1'' EDeny ''fs.read'']\<rparr>" and rule = "ex_rule ''r1'' EDeny ''fs.read''"])
     (simp_all add: ex_broker_def resolve_tool_def the_str_def ex_context_def effectiveBundles_def normalizePolicyBundles_def
       collectExplicitRules_def ex_bundle_def ex_rule_def ruleMatchesRequest_def matchesOne_def buildPolicyRequest_def)

text \<open>
  Adapters run under bounded limits. The timeout is positive, at most thirty seconds and at most
  what the capability, the arguments and each policy constraint ask for; the byte limit is always
  there, positive, at most 200000 and at most each of its sources.
\<close>

theorem limits_are_bounded:
  assumes "deriveTierConstraints d = Inr tier" "CapabilityLimitsSchema (cd_limits d)"
  shows "\<exists>bytes. el_maxBytes (computeLimits d args verdict tier) = Some bytes \<and> 0 < bytes \<and> bytes \<le> DEFAULT_FS_READ_MAX_BYTES \<and>
      (\<forall>n. Some n \<in> {cl_maxBytes (cd_limits d), readPositiveNumber args ''maxBytes'', readPolicyPositiveNumber verdict ''maxBytes''}
         \<longrightarrow> bytes \<le> n) \<and>
      0 < el_timeoutMs (computeLimits d args verdict tier) \<and>
      el_timeoutMs (computeLimits d args verdict tier) \<le> DEFAULT_TOOL_TIMEOUT_MS \<and>
      (\<forall>n. Some n \<in> {cl_timeoutMs (cd_limits d), readPositiveNumber args ''timeoutMs'', readPolicyPositiveNumber verdict ''timeoutMs''}
         \<longrightarrow> el_timeoutMs (computeLimits d args verdict tier) \<le> n)"
proof -
  have least: "\<exists>m. min_opt (some_of [a, readPositiveNumber args k, readPolicyPositiveNumber verdict k, Some top]) = Some m \<and>
      0 < m \<and> m \<le> top \<and> (\<forall>n. Some n \<in> {a, readPositiveNumber args k, readPolicyPositiveNumber verdict k} \<longrightarrow> m \<le> n)"
    if "positive_opt a" "0 < top" for a k top
  proof -
    let ?xs = "[a, readPositiveNumber args k, readPolicyPositiveNumber verdict k, Some top]"
    obtain m where m: "min_opt (some_of ?xs) = Some m" using min_some_of_defined [of top ?xs] by auto
    have "0 < m" using min_some_of(1) [OF m] that readPositiveNumber_positive readPolicyPositiveNumber_positive
      by (auto simp: positive_opt_def)
    then show ?thesis using m min_some_of(2) [OF m] by auto
  qed
  have pos: "positive_opt (cl_maxBytes (cd_limits d))" "positive_opt (cl_timeoutMs (cd_limits d))"
    using assms(2) by (simp_all add: CapabilityLimitsSchema_def)
  show ?thesis
    using least [OF pos(1), of DEFAULT_FS_READ_MAX_BYTES "''maxBytes''"] least [OF pos(2), of DEFAULT_TOOL_TIMEOUT_MS "''timeoutMs''"]
    by (auto simp: computeLimits_def tier_bounds [OF assms(1)] DEFAULT_FS_READ_MAX_BYTES_def DEFAULT_TOOL_TIMEOUT_MS_def)
qed

theorem limits_are_bounded_witness:
  "\<exists>tier. deriveTierConstraints ex_tool = Inr tier \<and>
     el_timeoutMs (computeLimits ex_tool (JObj []) (ex_verdict []) tier) \<le> 100"
proof -
  obtain tier where t: "deriveTierConstraints ex_tool = Inr tier"
    by (simp add: deriveTierConstraints_def isolationTierForKind_def CAPABILITY_KIND_ISOLATION_TIERS_def ex_tool_def Let_def)
  have "CapabilityLimitsSchema (cd_limits ex_tool)"
    by (simp add: CapabilityLimitsSchema_def ex_tool_def positive_opt_def)
  from limits_are_bounded [OF t this, of "JObj []" "ex_verdict []"] t show ?thesis by (auto simp: ex_tool_def)
qed



text \<open>
  A redacted output keeps its obligations: every string of it is a hash reference or selected by
  no selector and not sensitive, and each selector of each redaction obligation selected at least one
  string of the original that was no hash reference; otherwise the output is refused.
\<close>

theorem redaction_discharges_obligations:
  assumes "hex_digest sha" "redactOutput sha collate v obs = Inr (out, summary)"
  shows "value_safe (obligation_selectors obs) out \<and>
    (\<forall>sel \<in> set (obligation_selectors obs). \<exists>leaf \<in> set (string_leaves [] None v).
       leaf_selected (obligation_selectors obs) (selectorKey sel) leaf)"
  using redactOutput_safe [OF assms] redactOutput_discharges [OF assms(2)] by blast

theorem redaction_discharges_obligations_witness:
  "\<exists>out summary. redactOutput ex_sha64 (\<lambda>a b. 0) ex_data [ex_redact] = Inr (out, summary) \<and>
     value_safe (obligation_selectors [ex_redact]) out"
proof -
  have "is_ok (redactOutput ex_sha64 (\<lambda>a b. 0) ex_data [ex_redact])" by code_simp
  then obtain out summary where "redactOutput ex_sha64 (\<lambda>a b. 0) ex_data [ex_redact] = Inr (out, summary)"
    by (auto simp: is_ok_iff)
  from this redaction_discharges_obligations [OF ex_hex this] show ?thesis by blast
qed

text \<open>
  A successful result carries its provenance: the hash of the output it returns, the decision hash
  of the verdict that allowed the call, and it satisfies the schema of tool results.
\<close>

theorem success_carries_provenance:
  assumes o: "callTool env broker st q cx = (Inr r, st', x)" and "js_get r ''status'' = JStr ''success''"
  shows "\<exists>d args verdict. authorized env broker q cx d args verdict \<and> ToolCallResultSchema r \<and>
    fstr (js_get r ''provenance'') ''resultHash'' = Some (hashValue (be_sha env) (js_get r ''output'')) \<and>
    fstr (js_get r ''provenance'') ''decisionHash'' = Some (pv_decisionHash verdict)"
proof (cases rule: call_cases [of env broker st q cx])
  case (refused p)
  then show ?thesis using assms build_parts(2) by force
next
  case (hit d args verdict a entry out c)
  then have b: "buildToolResult env ((blank_parts ''success'' (cd_id d) (cd_version d) (hashValue (be_sha env) (js_get q ''args''))
              (default (cx_traceId cx) (''trace_'' @ be_traceUuid env)))
            \<lparr>rp_resultHash := Some (hashValue (be_sha env) out), rp_cacheStatus := ''hit'', rp_cache := Some c,
             rp_adapterVersion := Some (tce_adapterVersion entry), rp_decisionHash := Some (pv_decisionHash verdict),
             rp_approvalId := a, rp_spanId := cx_spanId cx, rp_eventIds := cx_eventIds cx,
             rp_redactionSummary := tce_redactionSummary entry, rp_output := out\<rparr>) = Inr r" using o by simp
  show ?thesis using hit(1) build_parts(1,3-5) [OF b] by auto
next
  case (executed d args verdict a lookup)
  from executed(4) o have "execute_stage env broker st d args q cx verdict a (hashValue (be_sha env) (js_get q ''args''))
      (default (cx_traceId cx) (''trace_'' @ be_traceUuid env)) lookup = (Inr r, st', x)" by simp
  then show ?thesis
  proof (cases rule: execute_cases)
    case silent
    then show ?thesis using assms(2) by auto
  next
    case (success input raw out redacted summary final p)
    then show ?thesis using executed(1) build_parts(1,3-5) [of env p r] by auto
  qed
qed

theorem success_carries_provenance_witness:
  "\<exists>r. callTool ex_env (ex_broker ex_engine) Map.empty ex_call (ex_context None None) = (Inr r, ex_cache, Some ex_input) \<and>
     fstr (js_get r ''provenance'') ''resultHash'' = Some ex_hash"
proof -
  obtain r where r: "buildToolResult ex_env (ex_parts ''miss'' ex_provenance) = Inr r"
    using ex_results_built(1) by (auto simp: is_ok_iff)
  have "js_get r ''status'' = JStr ''success''" using build_parts(2) [OF r] by (simp add: ex_parts_def blank_parts_def)
  with success_carries_provenance [OF ex_first_call [unfolded r]] show ?thesis by (auto simp: ex_first_call r)
qed

text \<open>
  A cached answer ignores the redaction obligations of the verdict under which it is given. The
  key of the cache does not depend on the policy, and an answer from the cache is not redacted again:
  after one call without obligations, a call whose verdict obliges the broker to redact a field
  returns that field in the clear, as a success.
\<close>

theorem cached_answer_skips_obligations:
  "\<exists>st r. broker_reach (ex_broker ex_engine) st \<and>
     callTool ex_env (ex_broker ex_engine) st ex_call (ex_context (Some ''strict'') None) = (Inr r, st, None) \<and>
     authorized ex_env (ex_broker ex_engine) ex_call (ex_context (Some ''strict'') None) ex_tool (JObj []) (ex_verdict [ex_redact]) \<and>
     js_get r ''status'' = JStr ''success'' \<and>
     \<not> value_safe (obligation_selectors [ex_redact]) (js_get r ''output'')"
proof -
  have reach: "broker_reach (ex_broker ex_engine) ex_cache"
    by (rule broker_reach.call [OF broker_reach.fresh _ ex_first_call]) (simp add: ex_hex)
  obtain r where r: "buildToolResult ex_env (ex_parts ''hit'' (ex_provenance\<lparr>tp_status := ''hit'', tp_entryCreatedAt := Some ''now''\<rparr>)) = Inr r"
    using ex_results_built(2) by (auto simp: is_ok_iff)
  have out: "js_get r ''status'' = JStr ''success''" "js_get r ''output'' = ex_data"
    using build_parts(2,3) [OF r] by (simp_all add: ex_parts_def blank_parts_def)
  have "\<not> value_safe (obligation_selectors [ex_redact]) ex_data" by code_simp
  moreover have "authorized ex_env (ex_broker ex_engine) ex_call (ex_context (Some ''strict'') None) ex_tool (JObj [])
      (ex_verdict [ex_redact])"
    using authorize_Inr [OF ex_authorize [of "Some ''strict''"]] by (simp add: authorized_def ex_obligations_def the_str_def)
  ultimately show ?thesis using reach ex_later_call [of "Some ''strict''"] r out by auto
qed

text \<open>A tool policy that requires approval A, and decisions for it: a rejection, then an approval that has expired.\<close>

definition approval_broker :: "(string \<rightharpoonup> ToolResultCacheEntry) tool_broker" where
  "approval_broker = (ex_broker (default_engine ex_sha ex_re (\<lambda>e. ''zod'')))
     \<lparr>tb_policyBundle := Some (One (ex_bundle\<lparr>pb_rules := None, pb_budgetPolicy := None,
        pb_toolPolicy := Some [(''fs.read'', \<lparr>tp_default = ApprovalRequired, tp_risk = None, tp_reason = None,
          tp_approvalId = Some ''A'', tp_allowedPhases = None, tp_allowedScopes = Some [''workspace:read''], tp_requiredScopes = None,
          tp_constraints = None, tp_obligations = None\<rparr>)]\<rparr>))\<rparr>"

definition late_decisions :: "ApprovalDecision list" where
  "late_decisions =
     [\<lparr>ad_approvalId = ''A'', ad_decision = Rejected, ad_constraints = None, ad_extra = []\<rparr>,
      \<lparr>ad_approvalId = ''A'', ad_decision = Approved, ad_constraints = None, ad_extra = [(''expiresAt'', JStr ''2020'')]\<rparr>]"

text \<open>
  An expired approval can authorise a call. The policy engine accepts any approving decision for
  the required approval, whenever it expires, and the broker then checks the expiry of the first decision
  with that identifier, of whatever kind: a rejection that does not expire before an approval that has
  expired lets the call through, although every approval it rests on has expired.
\<close>

theorem expired_approval_authorizes:
  "is_ok (authorize ex_env approval_broker ex_call (JObj []) ex_tool (ex_context None (Some (ApprovalArray late_decisions)))
       ''h'' ''t'') \<and>
   list_all (\<lambda>d. ad_decision d = Rejected \<or> isElapsedDeadline ex_env (map_option DeadlineStr (decision_expiresAt d)))
     (approvalDecisionsFromContext (ex_context None (Some (ApprovalArray late_decisions))))"
  by (intro conjI; code_simp)

end
