(* ===== verification/Spec2Isabelle.thy ===== *)
theory Spec2Isabelle
  imports Canonical_Json Pattern_Safety Harness_Loader Policy_Record Run_Store_Safety Evidence_Store
    Artifact_Store Adapter_Rates Tool_Filesystem Gate_Safety Tool_Broker_Safety
begin

text \<open>
  \<^bold>\<open>A verification development for Specwright.\<close> Specwright runs agent harnesses: every action of an
  agent is a request that the policy engine decides and the tool broker executes, every phase ends at
  gates that decide whether the run goes on, every fact of a run is an event in the run's ledger, the
  state of a run is the projection of its ledger, and hosts reach the runtime through adapters. The
  development models the decision engine, the tool broker, the gate engine, the ledger and its
  projection, the canonical texts that they are hashed with, the operational limits of the MCP
  adapter, the evidence and artifact stores of a run, and the harness loader from the files of a
  package to its place in the registry. File names below are relative to \<^verbatim>\<open>src/packages\<close>.

  \<^bold>\<open>Layers.\<close>
  \<^item> \<open>Prelude\<close>: the error monad on sums (\<open>bindE\<close>, \<open>mapE\<close>), facts on association lists, sorting and
    text that the components share.
  \<^item> \<open>Json_Values\<close>: JavaScript values as the program uses them (\<open>json\<close>), property access, the text of
    \<^verbatim>\<open>JSON.stringify\<close>, and that this text determines the value.
  \<^item> \<open>Canonical_Json\<close>: the three canonical printers, \<^verbatim>\<open>stableStringify\<close>
    (\<^verbatim>\<open>policy-engine/src/decision-hash.ts\<close>), \<^verbatim>\<open>canonicalStringify\<close>
    (\<^verbatim>\<open>schemas/src/canonical-hash.ts\<close>) and \<^verbatim>\<open>canonicalJsonStringify\<close> (\<^verbatim>\<open>run-store/src/index.ts\<close>):
    two values have one text exactly when they are equal up to the order of properties, and the
    printers agree.
  \<^item> \<open>Pattern_Safety\<close>: the screen for rule patterns of \<^verbatim>\<open>policy-engine/src/bundle-load.ts\<close>.
  \<^item> \<open>Policy_Types\<close>, \<open>Policy_Engine\<close>: requests, bundles, verdicts and \<^verbatim>\<open>evaluatePolicy\<close> with every
    collector of matches (\<^verbatim>\<open>policy-engine/src/index.ts\<close>). The mutable list of matches and the counter
    of the code are the pair \<open>match_state\<close> that every collector extends.
  \<^item> \<open>Policy_Decisions\<close>: the abstract decision (\<open>spec_status\<close> on the collected matches) and the
    refinement of it by \<^verbatim>\<open>evaluatePolicy\<close>. The interface of a collector is the locale
    \<open>match_collector\<close> (it appends, numbers its matches consecutively and ignores what is there),
    interpreted for the host snapshot, the rules, the tool policies, the budgets and whole bundles.
    On it rest the dominance of denials, the fail-closed default, the enforcement of tool policies,
    scopes and budgets, monotonicity of denials and totality.
  \<^item> \<open>Policy_Record\<close>: \<^verbatim>\<open>toPolicyEvaluatedRecord\<close>: the deciding layer, that every verdict can be
    recorded, what a record tells, and what the decision hash binds.
  \<^item> \<open>Run_Ledger\<close>: events, integrity envelopes and \<^verbatim>\<open>verifyParsedRunIntegrity\<close>
    (\<^verbatim>\<open>run-store/src/index.ts\<close>), related to the abstract notion of a chained ledger.
  \<^item> \<open>Run_Schemas\<close>, \<open>Run_Projection\<close>: the schemas of \<^verbatim>\<open>schemas/src/index.ts\<close> a projection uses, the
    reducers, \<^verbatim>\<open>projectRunState\<close> and the checkpoints.
  \<^item> \<open>Run_Transitions\<close>, \<open>Run_Replay\<close>: the reducers as a transition relation. The locale
    \<open>run_reducer\<close> is what a registered reducer promises (each step is a transition), \<open>run_invariant\<close>
    what an invariant has to promise on transitions; both are interpreted for the code's reducers and
    for the schema, uniqueness, blocking and repair invariants. Checkpoints are shown to be a cache.
  \<^item> \<open>Run_Store\<close>, \<open>Run_Store_Safety\<close>: \<^verbatim>\<open>createRun\<close>, \<^verbatim>\<open>appendEvent\<close>, \<^verbatim>\<open>readEvents\<close>,
    \<^verbatim>\<open>materializeRunState\<close> and \<^verbatim>\<open>sealRun\<close> on a map from run ids to packages, and the invariant of the
    stores reachable by them.
  \<^item> \<open>Run_Files\<close>, \<open>Evidence_Schemas\<close>, \<open>Evidence_Store\<close>, \<open>Artifact_Store\<close>: \<^verbatim>\<open>evidence-store/src\<close>,
    \<^verbatim>\<open>artifact-store/src\<close> and their contracts in \<^verbatim>\<open>schemas/src/index.ts\<close>, on a disk that maps
    paths to files. The locale \<open>record_log\<close> is the contract of an append-only store of records,
    interpreted for both stores; overlapping appends are the step relation \<open>evidence_reach\<close>. What
    they return is sourced, or supported by evidence, and artifacts stay in their directory.
  \<^item> \<open>Adapter_Limits\<close>, \<open>Adapter_Sessions\<close>, \<open>Adapter_Rates\<close>: \<^verbatim>\<open>adapters-mcp/src/limits/index.ts\<close>. Session
    objects are cells of an explicit store, because leases keep them alive after their session is
    closed. The locale \<open>controller_law\<close> lifts a law of the primitive updates to all sequences of
    operations; it is interpreted for the accounting of leases and for the session bound.
  \<^item> \<open>Js_Readers\<close>: reading untyped data at its declared types, shared by the next two components.
  \<^item> \<open>Gate_Definition\<close>, \<open>Gate_Checks\<close>, \<open>Gate_Engine\<close>, \<open>Gate_Model\<close>: \<^verbatim>\<open>gate-engine/src\<close>
    (\<^verbatim>\<open>definition.ts\<close>, \<^verbatim>\<open>schema-declaration.ts\<close>, \<^verbatim>\<open>repair-envelope.ts\<close>, \<^verbatim>\<open>decision-hash.ts\<close> and
    \<^verbatim>\<open>index.ts\<close>): validation of gate definitions, the kinds of checks, verdicts and lifecycle
    instructions, and model-assisted checks with what the model is shown. Gate definitions and checks
    are JSON values, as in the code. \<open>Gate_Safety\<close> relates both entry points to an abstract gate, whose
    status is the worst outcome of its checks; the locale \<open>gate_evaluator\<close> is the contract of an entry
    point, interpreted for \<^verbatim>\<open>evaluateGate\<close> and \<^verbatim>\<open>evaluateGateAsync\<close>.
  \<^item> \<open>Tool_Schemas\<close>, \<open>Tool_Capabilities\<close>, \<open>Secret_Patterns\<close>, \<open>Tool_Redaction\<close>, \<open>Tool_Broker\<close>,
    \<open>Tool_Filesystem\<close>: \<^verbatim>\<open>tool-broker/src/index.ts\<close>: the registry, isolation tiers and limits, the
    patterns of secrets as regular expressions with the matching order of the language, redaction,
    \<^verbatim>\<open>callTool\<close> with approvals and the cache of results, and the file system adapters. A call returns its
    result, the state of the cache and the input of the adapter if it was executed, so that the
    properties of \<open>Tool_Broker_Safety\<close> speak of effects: none without an allow, bounded limits, no
    secrets in any output of any sequence of calls (by the locale \<open>tool_cache\<close>, the contract of a cache
    store, interpreted for the in-memory store), and paths that stay in the workspace.
  \<^item> \<open>Harness_Dependencies\<close>, \<open>Harness_Trust\<close>, \<open>Harness_Snapshots\<close>, \<open>Harness_Registry\<close>:
    \<^verbatim>\<open>harness-loader/src\<close> (\<^verbatim>\<open>dependency-resolver.ts\<close>, \<^verbatim>\<open>trust.ts\<close>, \<^verbatim>\<open>cache.ts\<close>, \<^verbatim>\<open>lifecycle.ts\<close>,
    \<^verbatim>\<open>registry.ts\<close> and the hash of a package and the stages after parsing of \<^verbatim>\<open>index.ts\<close>): what a
    resolution promises of the declarations, which signatures are trusted, what the hash of a package
    binds, that the cache serves what it verified (by the locale \<open>snapshot_store\<close>, interpreted for the
    cache of the code), and staging, promotion, deprecation, quarantine and revocation.
    \<open>Harness_Registry_Safety\<close> has the operations as steps of the locale \<open>lifecycle_system\<close>, interpreted
    for a registry whose calls do not overlap, and an explicit interleaving of a promotion with a
    revocation.
  \<^item> \<open>Posix_Paths\<close>, \<open>Harness_Fetch\<close>, \<open>Harness_Yaml\<close>, \<open>Harness_References\<close>, \<open>Harness_Phase_Graph\<close>,
    \<open>Harness_Definitions\<close>: the way from files to a validated package
    (\<^verbatim>\<open>harness-loader/src/index.ts\<close>, \<^verbatim>\<open>limits.ts\<close>). The fetch stays inside the package and its
    limits; the YAML reader ends and reads back plain block form; validation accepts exactly the packages
    with unique identifiers, references that resolve and an acyclic phase graph.
  \<^item> \<open>Harness_Grants\<close>: \<^verbatim>\<open>capability-grant.ts\<close>: version ranges, the requested surface and its comparison
    with the grant. The locale \<open>reviewed_grants\<close> is the contract of a source of grants, interpreted for
    the registry of grants of the code.
  \<^item> \<open>Harness_Compatibility\<close>: \<^verbatim>\<open>compatibility/\<close>: the matrix, the classification of transitions, signed
    migrations, and which packages are loaded, migrated or refused.
  \<^item> \<open>Harness_Loader\<close>: \<^verbatim>\<open>loadHarnessPackageWithRecord\<close> composes the stages. A package that loads is
    governed by each of them, and loads exactly if each of them accepts it. The locale
    \<open>package_loader\<close> is what a registry relies on; it is interpreted for this loader, so the
    consistency of the registry holds over it.
  \<^item> This theory composes gates with the broker.

  \<^bold>\<open>How code becomes definitions.\<close> A function of the source is a function of the same name, with its
  branches in the order of the code. Thrown errors are \<open>Inl\<close> values with the error code of the source
  (messages are left out); \<^verbatim>\<open>undefined\<close> is \<open>None\<close> or \<open>JUndefined\<close>; an object type is a record with a
  prefix on its field names. Loops are recursion on lists or have a termination proof, so every operation
  is total. Fuel is used in one place, the loops of the YAML parser, which call each other: the parser is
  started with the number of lines plus one, and \<open>yaml_never_stops_early\<close> shows that this is enough.

  \<^bold>\<open>Parameters.\<close> SHA-256 (\<open>sha\<close>; hypotheses on it are only that two given texts do not collide),
  \<^verbatim>\<open>RegExp\<close> matching and compilation (\<open>regexp\<close>), the date-time format of the schema library (\<open>dt\<close>), and
  in \<open>store_env\<close> the payload schema and the schema hash of each event type. Random ids and the current
  time are arguments of the operations. The broker that a gate calls is a parameter of the gate engine
  (\<open>BrokerPort\<close>); the tool broker has the policy engine, the cache store, the schemas and adapters of the
  capabilities, \<^verbatim>\<open>localeCompare\<close>, \<^verbatim>\<open>Date.parse\<close> and the texts of schema issues as parameters, and its
  adapters the file system. The harness theories have the collation of \<^verbatim>\<open>localeCompare\<close>, Ed25519,
  base64 and dates (\<open>trust_env\<close>), \<^verbatim>\<open>JSON.parse\<close> and the value of decimal fractions (\<open>yaml_env\<close>), the
  file system below a package (the stores of a run have an explicit disk), the source of grants and the resolver of dependencies as parameters. A
  hypothesis on a schema is that it validates without transforming.

  \<^bold>\<open>Limits of the model.\<close> JSON numbers are integers; texts are 8-bit characters (the sizes of UTF-8
  sequences are modelled on code points); objects have own properties only, and record types their
  declared fields. A field of untyped data that has another type than the declared one reads as absent.
  The clock is read once per tool call, and the file system does not change during a tool call or a
  fetch. A ledger file is the list of its events: torn writes, text that is no JSON and concurrent
  writers are outside the model, and so are the timestamp, state hash and administration
  record of a seal. Two calls on a registry overlap only in \<open>revocation_during_promotion_is_lost\<close>.

  \<^bold>\<open>Behaviour worth knowing\<close> that the development proves of the code as it is: a quantified group
  inside a quantified group passes the pattern screen (\<open>nested_group_escapes_screen\<close>); arguments with
  line breaks pass the leak check (\<open>multiline_args_are_not_detected\<close>); the hash of an event does not
  cover its predecessor, so the head hash does not bind the history (\<open>rewritten_history_keeps_head\<close>);
  no event clears a repair task (\<open>repair_tasks_never_clear\<close>); an own property \<^verbatim>\<open>__proto__\<close> is not part of
  the decision hash (\<open>stableStringify_ignores_proto\<close>); idle sessions keep their slots
  (\<open>idle_sessions_hold_their_slots\<close>); a cached answer ignores the redaction obligations of the verdict it
  is given under (\<open>cached_answer_skips_obligations\<close>) and numbers are never redacted
  (\<open>selected_numbers_stay\<close>); an expired approval can authorise a call
  (\<open>expired_approval_authorizes\<close>); a reference that names a secret-like key passes its value to the model
  (\<open>allowed_ref_is_not_filtered\<close>); a revocation that arrives while a promotion awaits its loader is
  overwritten (\<open>revocation_during_promotion_is_lost\<close>), a batch can overwrite a version
  (\<open>batch_overwrites_version\<close>), quarantine leaves dependents in the cache
  (\<open>quarantine_keeps_dependents\<close>); NUL characters in a file make two packages share a hash
  (\<open>nul_content_collides\<close>), and the version a resolver returns is not compared with the declared range
  (\<open>resolved_version_is_not_checked\<close>); the definition of a tool that the manifest does not name is loaded
  without a grant (\<open>ungranted_tool_is_loaded\<close>), the limits on dependencies and inline definitions do not
  see flow style (\<open>flow_style_is_not_counted\<close>), and the YAML reader cuts a plain text at every number sign
  (\<open>number_sign_cuts_text\<close>) and refuses an element whose dash ends its line (\<open>bare_dash_is_refused\<close>).
  In the artifact store, content can become the record of another artifact (\<open>content_forges_record\<close>), one
  missing file makes all artifacts unlistable (\<open>dangling_file_breaks_listing\<close>), a refused append can leave
  its content (\<open>refused_append_leaves_content\<close>), and a record of the wrong shape is a type error
  (\<open>malformed_record_is_type_error\<close>).

  \<^bold>\<open>Not modelled yet\<close>, in the order planned: redaction, retention and migrations of the run store, bundle
  validation and replay of the policy engine, and the runtime that composes the components. The audit events and the provenance of the harness loader and the audit
  records, the linter and the changelog of the gate engine report on evaluations and do not take part
  in them. Rendering of reports, the command line, transports and file access are I/O and stay
  outside; the ranking of the memory package computes with floating-point numbers.
\<close>

section \<open>Gates through the tool broker\<close>

text \<open>
  The port through which a gate calls the tool broker. The state of the cache and the environment at the
  \<open>n\<close>-th call are arbitrary; a call that throws gives no answer.
\<close>

definition gate_context :: "BrokerCallContext \<Rightarrow> ToolCallContext" where
  "gate_context c =
     \<lparr>cx_runId = snd c, cx_cwd = None, cx_traceId = fst c, cx_spanId = None, cx_eventIds = None, cx_runMode = None,
      cx_approvalDeadlineAt = None, cx_policyBundle = None, cx_snapshots = None, cx_cache = None\<rparr>"

definition broker_port :: "(nat \<Rightarrow> broker_env) \<Rightarrow> 's tool_broker \<Rightarrow> (nat \<Rightarrow> 's) \<Rightarrow> BrokerPort" where
  "broker_port env broker st n q c =
     (case fst (callTool (env n) broker (st n) (toolCallRequest_json q) (gate_context c)) of Inr r \<Rightarrow> Some r | Inl e \<Rightarrow> None)"

lemma no_runner_unusable: "no_runner broker \<Longrightarrow> unusable (broker_port env broker st n q c)"
  using no_runner_no_success [of broker "env n" "st n" "toolCallRequest_json q" "gate_context c"]
  by (cases "callTool (env n) broker (st n) (toolCallRequest_json q) (gate_context c)")
     (auto simp: unusable_def broker_port_def fstr_def split: sum.split)

text \<open>
  C32: A gate whose model-assisted checks go through a broker that has no runner for its tools fails
  closed. As only file system adapters are sanctioned to execute, a broker whose tools are all of other
  kinds and uncached gives no usable answer, so a gate with a model-assisted check fails the run
  unless a deterministic check has already failed, whatever its failure behaviour says.
\<close>

theorem gate_through_broker_fails_closed:
  assumes broker: "no_runner broker"
    and gate: "resolveGateDefinition request = Inr d" "findMissingInputs (js_get d ''inputs'') (er_input request) = []"
      "list_ex isModelAssistedCheck (definition_checks d)"
      "GateFail \<notin> set (check_outcomes request d (filter (\<lambda>c. \<not> isModelAssistedCheck c) (definition_checks d)))"
    and r: "evaluateGateAsync sha dt (Some (broker_port env broker st)) request = Inr r"
  shows "gv_status (ge_verdict r) = GateFail \<and> ge_instruction r = FailRun (er_gateId request) (firstReason (ge_verdict r))"
  by (rule unusable_model_fails_run [OF gate _ r]) (use no_runner_unusable [OF broker] in auto)

text \<open>An example: the model tool is not registered, so the broker denies the call.\<close>

definition bare_broker :: "(string \<rightharpoonup> ToolResultCacheEntry) tool_broker" where
  "bare_broker = (ex_broker ex_engine)\<lparr>tb_registry := []\<rparr>"

definition bare_answer :: "broker_error + json" where
  "bare_answer = buildToolResult ex_env ((blank_parts ''denied'' ''judge'' ''undeclared'' ex_hash ''trace_t'')
     \<lparr>rp_error := Some (broker_failure ''tool_not_found''
        (''Tool '' @ ''judge'' @ '' is not declared in the capability registry.''))\<rparr>)"

abbreviation bare_port :: BrokerPort where
  "bare_port \<equiv> broker_port (\<lambda>n. ex_env) bare_broker (\<lambda>n. Map.empty)"

definition constant_port :: BrokerPort where
  "constant_port n q c = (case bare_answer of Inr r \<Rightarrow> Some r | Inl e \<Rightarrow> None)"

lemma bare_port_answer:
  "ToolCallRequestSchema (toolCallRequest_json q) \<Longrightarrow> tq_toolId q = ''judge'' \<Longrightarrow> bare_port n q (None, rid) = constant_port n q (None, rid)"
  by (simp add: broker_port_def constant_port_def callTool_def Let_def bare_broker_def resolve_tool_def bare_answer_def
      gate_context_def the_str_def fstr_def toolCallRequest_json_def js_get_def)

lemma example_request_ok:
  assumes "validateModelAssistedContract example_model_check = Inr contract"
  shows "tq_toolId (model_request example_sha example_model_check ''g'' ''plan'' mid contract ctx) = ''judge''"
    "mid \<noteq> [] \<Longrightarrow> ToolCallRequestSchema (toolCallRequest_json (model_request example_sha example_model_check ''g'' ''plan'' mid contract ctx))"
proof -
  have "ct_modelTool contract = ''judge''"
    using assms by (auto simp: validateModelAssistedContract_def Let_def example_model_check_def fstr_def js_get_def the_str_def
        split: if_splits option.splits)
  then show "tq_toolId (model_request example_sha example_model_check ''g'' ''plan'' mid contract ctx) = ''judge''"
    "mid \<noteq> [] \<Longrightarrow> ToolCallRequestSchema (toolCallRequest_json (model_request example_sha example_model_check ''g'' ''plan'' mid contract ctx))"
    by (simp_all add: model_request_def Let_def ToolCallRequestSchema_def toolCallRequest_json_def z_strict_def js_get_def
        nonEmptyString_def z_optional_def hashJson_def)
qed

lemma example_check_ports:
  "evaluateModelAssistedCheck example_sha (Some bare_port) n example_model_check ''g'' input ''plan'' severity None =
   evaluateModelAssistedCheck example_sha (Some constant_port) n example_model_check ''g'' input ''plan'' severity None"
  using bare_port_answer example_request_ok
  by (auto simp: evaluateModelAssistedCheck_def Let_def modelCallIdFor_def split: sum.split)

lemma example_async_ports: "run_async (Some bare_port) [example_model_check] = run_async (Some constant_port) [example_model_check]"
proof -
  have frame: "gate_frame_of (example_request [example_model_check]) (Inr (example_definition [example_model_check])) =
      \<lparr>fr_phase = ''plan'', fr_evaluatedAt = DEFAULT_EVALUATED_AT, fr_evaluatorRef = DEFAULT_GATE_ENGINE_EVALUATOR, fr_severity = ''blocking''\<rparr>"
    by code_simp
  have "def_id (example_definition [example_model_check]) = ''g''"
    "filter isModelAssistedCheck (definition_checks (example_definition [example_model_check])) = [example_model_check]"
    by (code_simp, code_simp)
  then show ?thesis
    using example_resolves(2)
    by (simp add: run_async_def evaluateGateAsync_def gate_preamble_def frame example_check_ports Let_def)
       (simp add: example_request_def example_check_ports)
qed

lemma example_async_runs: "result_of (run_async (Some constant_port) [example_model_check]) \<noteq> None"
  by code_simp

theorem gate_through_broker_fails_closed_witness:
  "\<exists>r. run_async (Some bare_port) [example_model_check] = Inr r \<and> gv_status (ge_verdict r) = GateFail"
proof -
  obtain r where r: "run_async (Some bare_port) [example_model_check] = Inr r"
    using example_async_runs result_ofD unfolding example_async_ports by metis
  have "no_runner bare_broker" by (simp add: no_runner_def bare_broker_def)
  moreover have "findMissingInputs (js_get (example_definition [example_model_check]) ''inputs'')
      (er_input (example_request [example_model_check])) = []"
    "list_ex isModelAssistedCheck (definition_checks (example_definition [example_model_check]))"
    "filter (\<lambda>c. \<not> isModelAssistedCheck c) (definition_checks (example_definition [example_model_check])) = []"
    by (code_simp, code_simp, code_simp)
  ultimately show ?thesis
    using gate_through_broker_fails_closed [OF _ example_resolves(2) _ _ _ r [unfolded run_async_def]] r
    by (simp add: check_outcomes_def Let_def)
qed

end
